(* ===== verification/Prelude.thy ===== *)
theory Prelude
  imports Main
begin

text \<open>
  What every component shares: the exceptions the services throw, the shape of an asynchronous
  method (a function from the state to a thrown exception or a value, and the new state), the
  combinators the methods are written with, and the rules the component proofs use.

  A method that throws keeps the changes it has already made: databases and caches are not
  rolled back by the code, so the state is returned on both branches. An awaited call is
  sequenced before what follows it. A call whose promise is not awaited has its effect at the point of
  the call; when its rejection is caught and only logged it is \<open>suppress\<close>, and when nothing catches it
  it is \<open>fire\<close> of \<open>Platform\<close>, whose failure ends the process.
\<close>

section \<open>Exceptions\<close>

text \<open>The entries of \<open>EXCEPTIONS\<close> in \<open>common/errors/exceptions.ts\<close> carry three strings.\<close>

record exception_def =
  ed_code :: string
  ed_message :: string
  ed_logMessage :: string

text \<open>
  The classes the code throws: the NestJS HTTP exceptions with their message, \<open>AppException\<close> of
  \<open>common/errors/app.exception.ts\<close> with its definition and status, a plain \<open>Error\<close>, and an error
  that a library call (database, Redis, MQTT, bcrypt) rejects with.
\<close>

datatype exn =
    BadRequestException string
  | UnauthorizedException string
  | ForbiddenException string
  | NotFoundException string
  | AppException exception_def nat
  | JsError string
  | LibraryError string

text \<open>The \<open>message\<close> property, which every error object has.\<close>

fun exn_message :: "exn \<Rightarrow> string" where
  "exn_message (BadRequestException m) = m"
| "exn_message (UnauthorizedException m) = m"
| "exn_message (ForbiddenException m) = m"
| "exn_message (NotFoundException m) = m"
| "exn_message (AppException d _) = ed_message d"
| "exn_message (JsError m) = m"
| "exn_message (LibraryError m) = m"

section \<open>Methods over a state\<close>

type_synonym ('s, 'a) act = "'s \<Rightarrow> (exn + 'a) \<times> 's"

definition ok :: "'a \<Rightarrow> ('s, 'a) act" where
  "ok x = (\<lambda>s. (Inr x, s))"

definition throw :: "exn \<Rightarrow> ('s, 'a) act" where
  "throw e = (\<lambda>s. (Inl e, s))"

definition bnd :: "('s, 'a) act \<Rightarrow> ('a \<Rightarrow> ('s, 'b) act) \<Rightarrow> ('s, 'b) act" where
  "bnd m f = (\<lambda>s. case m s of (Inl e, s') \<Rightarrow> (Inl e, s') | (Inr x, s') \<Rightarrow> f x s')"

definition try_catch :: "('s, 'a) act \<Rightarrow> (exn \<Rightarrow> ('s, 'a) act) \<Rightarrow> ('s, 'a) act" where
  "try_catch m h = (\<lambda>s. case m s of (Inl e, s') \<Rightarrow> h e s' | (Inr x, s') \<Rightarrow> (Inr x, s'))"

definition gets :: "('s \<Rightarrow> 'a) \<Rightarrow> ('s, 'a) act" where
  "gets f = (\<lambda>s. (Inr (f s), s))"

definition modify :: "('s \<Rightarrow> 's) \<Rightarrow> ('s, unit) act" where
  "modify f = (\<lambda>s. (Inr (), f s))"

text \<open>A call whose failure is caught and logged: the caller goes on whatever the outcome.\<close>

definition suppress :: "('s, 'a) act \<Rightarrow> ('s, unit) act" where
  "suppress m = (\<lambda>s. (Inr (), snd (m s)))"

text \<open>An action on one field of the state, given the field's selector and update.\<close>

definition zoom :: "('s \<Rightarrow> 'd) \<Rightarrow> ('d \<Rightarrow> 's \<Rightarrow> 's) \<Rightarrow> ('d, 'a) act \<Rightarrow> ('s, 'a) act" where
  "zoom sel upd m = (\<lambda>s. case m (sel s) of (r, d) \<Rightarrow> (r, upd d s))"

text \<open>A value that may be an error, used as an action.\<close>

definition lift_res :: "exn + 'a \<Rightarrow> ('s, 'a) act" where
  "lift_res r = (\<lambda>s. (r, s))"

text \<open>\<open>for (const x of xs) await f(x)\<close>, and the same collecting the results.\<close>

fun for_each :: "('x \<Rightarrow> ('s, 'a) act) \<Rightarrow> 'x list \<Rightarrow> ('s, unit) act" where
  "for_each f [] = ok ()"
| "for_each f (x # xs) = bnd (f x) (\<lambda>_. for_each f xs)"

fun collect :: "('x \<Rightarrow> ('s, 'a) act) \<Rightarrow> 'x list \<Rightarrow> ('s, 'a list) act" where
  "collect f [] = ok []"
| "collect f (x # xs) = bnd (f x) (\<lambda>y. bnd (collect f xs) (\<lambda>ys. ok (y # ys)))"

text \<open>The guard \<open>if (cond) throw e\<close>.\<close>

definition throw_if :: "bool \<Rightarrow> exn \<Rightarrow> ('s, unit) act" where
  "throw_if b e = (if b then throw e else ok ())"

section \<open>Evaluation\<close>

named_theorems act_simps \<open>evaluation of methods step by step\<close>

lemma ok_run [simp, act_simps]: "ok x s = (Inr x, s)"
  by (simp add: ok_def)

lemma throw_run [simp, act_simps]: "throw e s = (Inl e, s)"
  by (simp add: throw_def)

lemma gets_run [act_simps]: "gets f s = (Inr (f s), s)"
  by (simp add: gets_def)

lemma modify_run [act_simps]: "modify f s = (Inr (), f s)"
  by (simp add: modify_def)

lemma suppress_run [act_simps]: "suppress m s = (Inr (), snd (m s))"
  by (simp add: suppress_def)

lemma zoom_run [act_simps]: "zoom sel upd m s = (fst (m (sel s)), upd (snd (m (sel s))) s)"
  by (simp add: zoom_def split: prod.split)

lemma lift_res_run [act_simps]: "lift_res r s = (r, s)"
  by (simp add: lift_res_def)

lemma throw_if_run [act_simps]: "throw_if b e s = (if b then Inl e else Inr (), s)"
  by (simp add: throw_if_def throw_def ok_def)

lemma bnd_run [act_simps]:
  "bnd m f s = (case m s of (Inl e, s') \<Rightarrow> (Inl e, s') | (Inr x, s') \<Rightarrow> f x s')"
  by (simp add: bnd_def)

lemma try_catch_run [act_simps]:
  "try_catch m h s = (case m s of (Inl e, s') \<Rightarrow> h e s' | (Inr x, s') \<Rightarrow> (Inr x, s'))"
  by (simp add: try_catch_def)

lemma bnd_Inr [simp]: "m s = (Inr x, s') \<Longrightarrow> bnd m f s = f x s'"
  by (simp add: bnd_def)

lemma bnd_Inl [simp]: "m s = (Inl e, s') \<Longrightarrow> bnd m f s = (Inl e, s')"
  by (simp add: bnd_def)

lemma for_each_Cons: "f x s = (Inr u, s') \<Longrightarrow> for_each f (x # xs) s = for_each f xs s'"
  by (simp add: bnd_def)

text \<open>A sequence returns only if its first part returned, and then so did the rest.\<close>

lemma bnd_InrE:
  assumes "bnd m f s = (Inr y, t)"
  obtains x s' where "m s = (Inr x, s')" "f x s' = (Inr y, t)"
  using assms by (auto simp: bnd_def split: prod.splits sum.splits)

lemma try_catch_InrE:
  assumes "try_catch m h s = (Inr y, t)"
  obtains "m s = (Inr y, t)" | e s' where "m s = (Inl e, s')" "h e s' = (Inr y, t)"
  using assms by (auto simp: try_catch_def split: prod.splits sum.splits)

text \<open>A handler that always throws: the body returned.\<close>

lemma try_catch_throw_InrD:
  "try_catch m (\<lambda>e. throw (g e)) s = (Inr y, t) \<Longrightarrow> m s = (Inr y, t)"
  by (auto simp: try_catch_def throw_def split: prod.splits sum.splits)

section \<open>State invariants of methods\<close>

text \<open>A method keeps \<open>I\<close> when \<open>I\<close> holds after it, whether it returned or threw.\<close>

definition keeps :: "('s \<Rightarrow> bool) \<Rightarrow> ('s, 'a) act \<Rightarrow> bool" where
  "keeps I m \<longleftrightarrow> (\<forall>s. I s \<longrightarrow> I (snd (m s)))"

named_theorems keeps_intros \<open>composition rules for invariants\<close>

lemma keepsD: "keeps I m \<Longrightarrow> I s \<Longrightarrow> I (snd (m s))"
  by (simp add: keeps_def)

lemma keepsI: "(\<And>s. I s \<Longrightarrow> I (snd (m s))) \<Longrightarrow> keeps I m"
  by (simp add: keeps_def)

lemma keeps_ok [keeps_intros]: "keeps I (ok x)"
  by (simp add: keeps_def ok_def)

lemma keeps_throw [keeps_intros]: "keeps I (throw e)"
  by (simp add: keeps_def throw_def)

lemma keeps_gets [keeps_intros]: "keeps I (gets f)"
  by (simp add: keeps_def gets_def)

lemma keeps_lift_res [keeps_intros]: "keeps I (lift_res r)"
  by (simp add: keeps_def lift_res_def)

lemma keeps_throw_if [keeps_intros]: "keeps I (throw_if b e)"
  by (simp add: keeps_def throw_if_run)

lemma keeps_suppress [keeps_intros]: "keeps I m \<Longrightarrow> keeps I (suppress m)"
  by (simp add: keeps_def suppress_def)

lemma keeps_bnd [keeps_intros]:
  assumes "keeps I m" and "\<And>x. keeps I (f x)"
  shows "keeps I (bnd m f)"
proof (rule keepsI)
  fix s assume "I s"
  with assms(1) have *: "I (snd (m s))" by (rule keepsD)
  show "I (snd (bnd m f s))"
  proof (cases "m s")
    case (Pair r s')
    show ?thesis
    proof (cases r)
      case (Inl e)
      with Pair * show ?thesis by simp
    next
      case (Inr x)
      with Pair * have "I s'" by simp
      with assms(2)[of x] have "I (snd (f x s'))" by (rule keepsD)
      with Pair Inr show ?thesis by simp
    qed
  qed
qed

lemma keeps_try_catch [keeps_intros]:
  assumes "keeps I m" and "\<And>e. keeps I (h e)"
  shows "keeps I (try_catch m h)"
proof (rule keepsI)
  fix s assume "I s"
  with assms(1) have "I (snd (m s))" by (rule keepsD)
  then show "I (snd (try_catch m h s))"
    using keepsD[OF assms(2)] by (auto simp: try_catch_def split: prod.splits sum.splits)
qed

lemma keeps_if [keeps_intros]:
  "(b \<Longrightarrow> keeps I m) \<Longrightarrow> (\<not> b \<Longrightarrow> keeps I n) \<Longrightarrow> keeps I (if b then m else n)"
  by simp

lemma keeps_case_option [keeps_intros]:
  "keeps I m \<Longrightarrow> (\<And>x. keeps I (f x)) \<Longrightarrow> keeps I (case v of None \<Rightarrow> m | Some x \<Rightarrow> f x)"
  by (cases v) simp_all

lemma keeps_for_each [keeps_intros]:
  "(\<And>x. x \<in> set xs \<Longrightarrow> keeps I (f x)) \<Longrightarrow> keeps I (for_each f xs)"
  by (induction xs) (auto intro!: keeps_intros)

lemma keeps_collect [keeps_intros]:
  "(\<And>x. x \<in> set xs \<Longrightarrow> keeps I (f x)) \<Longrightarrow> keeps I (collect f xs)"
  by (induction xs) (auto intro!: keeps_intros)

text \<open>What a method on a field of the state changes is that field.\<close>

lemma keeps_zoom:
  assumes "\<And>s d. J s \<Longrightarrow> d = snd (m (sel s)) \<Longrightarrow> J (upd d s)"
  shows "keeps J (zoom sel upd m)"
  using assms by (auto simp: keeps_def zoom_run)

section \<open>Insertion-ordered maps\<close>

text \<open>
  A JavaScript \<open>Map\<close> iterates in insertion order; \<open>set\<close> on a present key replaces the value
  and keeps the position.
\<close>

fun map_set :: "('k \<times> 'v) list \<Rightarrow> 'k \<Rightarrow> 'v \<Rightarrow> ('k \<times> 'v) list" where
  "map_set [] k v = [(k, v)]"
| "map_set ((k', v') # kvs) k v =
     (if k' = k then (k, v) # kvs else (k', v') # map_set kvs k v)"

definition map_delete :: "('k \<times> 'v) list \<Rightarrow> 'k \<Rightarrow> ('k \<times> 'v) list" where
  "map_delete kvs k = filter (\<lambda>(k', _). k' \<noteq> k) kvs"

lemma map_of_map_set [simp]: "map_of (map_set kvs k v) = (map_of kvs)(k \<mapsto> v)"
  by (induction kvs k v rule: map_set.induct) (auto simp: fun_eq_iff)

lemma map_of_map_delete [simp]: "map_of (map_delete kvs k) = (map_of kvs)(k := None)"
  by (induction kvs) (auto simp: map_delete_def fun_eq_iff)

lemma set_fst_map_set [simp]: "fst ` set (map_set kvs k v) = insert k (fst ` set kvs)"
  by (induction kvs k v rule: map_set.induct) auto

lemma distinct_map_set: "distinct (map fst kvs) \<Longrightarrow> distinct (map fst (map_set kvs k v))"
proof (induction kvs k v rule: map_set.induct)
  case (2 k' v' kvs k v)
  then show ?case
    using set_fst_map_set[of kvs k v] by (auto simp del: set_fst_map_set)
qed simp

lemma distinct_map_delete: "distinct (map fst kvs) \<Longrightarrow> distinct (map fst (map_delete kvs k))"
  by (induction kvs) (auto simp: map_delete_def)

lemma set_map_delete: "set (map_delete kvs k) \<subseteq> set kvs"
  by (auto simp: map_delete_def)

lemma map_set_new: "k \<notin> fst ` set kvs \<Longrightarrow> map_set kvs k v = kvs @ [(k, v)]"
  by (induction kvs k v rule: map_set.induct) auto

lemma map_delete_notin [simp]: "k \<notin> fst ` set kvs \<Longrightarrow> map_delete kvs k = kvs"
  by (induction kvs) (auto simp: map_delete_def)

section \<open>Lists\<close>

lemma find_Some_in: "List.find P xs = Some x \<Longrightarrow> x \<in> set xs \<and> P x"
  by (induction xs) (auto split: if_splits)

lemma find_None_all: "List.find P xs = None \<longleftrightarrow> (\<forall>x \<in> set xs. \<not> P x)"
  by (induction xs) auto

text \<open>Where at most one element satisfies the predicate, \<open>find\<close> returns that element.\<close>

lemma find_unique:
  assumes x: "x \<in> set xs" "P x" and uniq: "\<And>y. y \<in> set xs \<Longrightarrow> P y \<Longrightarrow> y = x"
  shows "List.find P xs = Some x"
proof (cases "List.find P xs")
  case None
  with x show ?thesis by (auto simp: find_None_all)
next
  case (Some y)
  then have "y = x" using find_Some_in[OF Some] uniq by blast
  with Some show ?thesis by simp
qed

lemma find_filter: "List.find P xs = (case filter P xs of [] \<Rightarrow> None | x # _ \<Rightarrow> Some x)"
  by (induction xs) auto

lemma find_append:
  "List.find P (xs @ ys) = (case List.find P xs of None \<Rightarrow> List.find P ys | Some x \<Rightarrow> Some x)"
  by (induction xs) auto

lemma find_map_same:
  "(\<And>x. x \<in> set xs \<Longrightarrow> P (f x) = P x) \<Longrightarrow> List.find P (map f xs) = map_option f (List.find P xs)"
  by (induction xs) auto

end
