(* ===== verification/JsValues.thy ===== *)
theory JsValues
  imports Prelude Complex_Main
begin

text \<open>
  The part of the JavaScript language the services rely on: values of type \<open>any\<close>, truthiness,
  property access, and the string methods \<open>endsWith\<close>, \<open>startsWith\<close>, \<open>split\<close>, \<open>join\<close>. A character
  is a UTF-16 code unit below 256; numbers are exact rationals (the rounding of doubles is not
  modelled); an object is the list of its own properties in insertion order.
\<close>

section \<open>Values\<close>

datatype jsval =
    JUndefined
  | JNull
  | JBool bool
  | JNum rat
  | JStr string
  | JDate int
  | JArr "jsval list"
  | JObj "(string \<times> jsval) list"

fun truthy :: "jsval \<Rightarrow> bool" where
  "truthy JUndefined = False"
| "truthy JNull = False"
| "truthy (JBool b) = b"
| "truthy (JNum n) = (n \<noteq> 0)"
| "truthy (JStr s) = (s \<noteq> [])"
| "truthy _ = True"

text \<open>\<open>v === null || v === undefined\<close>, the test behind \<open>??\<close> and \<open>?.\<close>.\<close>

fun nullish :: "jsval \<Rightarrow> bool" where
  "nullish JUndefined = True"
| "nullish JNull = True"
| "nullish _ = False"

fun js_typeof :: "jsval \<Rightarrow> string" where
  "js_typeof JUndefined = ''undefined''"
| "js_typeof (JBool _) = ''boolean''"
| "js_typeof (JNum _) = ''number''"
| "js_typeof (JStr _) = ''string''"
| "js_typeof _ = ''object''"

text \<open>
  \<open>v?.k\<close>: undefined on null and undefined. Plain access \<open>v.k\<close> throws a \<open>TypeError\<close> there.
  The properties the code reads are never inherited ones, so a value that is not an object of
  the program has none of them.
\<close>

fun js_get :: "jsval \<Rightarrow> string \<Rightarrow> jsval" where
  "js_get (JObj kvs) k = (case map_of kvs k of Some v \<Rightarrow> v | None \<Rightarrow> JUndefined)"
| "js_get _ k = JUndefined"

definition js_get_or_throw :: "jsval \<Rightarrow> string \<Rightarrow> exn + jsval" where
  "js_get_or_throw v k =
     (if nullish v then Inl (JsError (''Cannot read properties of '' @
        (if v = JNull then ''null'' else ''undefined'') @ '' (reading '' @ [CHR 0x27] @ k @ [CHR 0x27] @ '')''))
      else Inr (js_get v k))"

text \<open>\<open>a ?? b\<close> and \<open>a || b\<close>.\<close>

definition js_coalesce :: "jsval \<Rightarrow> jsval \<Rightarrow> jsval" where
  "js_coalesce a b = (if nullish a then b else a)"

definition js_or :: "jsval \<Rightarrow> jsval \<Rightarrow> jsval" where
  "js_or a b = (if truthy a then a else b)"

text \<open>\<open>o.k = v\<close> on an object of the program; the spread \<open>{...a, ...b}\<close>.\<close>

fun js_set :: "jsval \<Rightarrow> string \<Rightarrow> jsval \<Rightarrow> jsval" where
  "js_set (JObj kvs) k v = JObj (map_set kvs k v)"
| "js_set w k v = w"

lemma prop_js_set [simp]:
  "js_get (js_set (JObj kvs) k v) k' = (if k' = k then v else js_get (JObj kvs) k')"
  by simp

lemma nullish_not_truthy: "nullish v \<Longrightarrow> \<not> truthy v"
  by (cases v) auto

lemma prop_nullish: "nullish v \<Longrightarrow> js_get v k = JUndefined"
  by (cases v) auto

lemma truthy_prop_not_nullish: "truthy (js_get v k) \<Longrightarrow> \<not> nullish v"
  by (cases v) auto

text \<open>\<open>a === b\<close>: objects are equal only to themselves, and no two values here share an object.\<close>

fun js_primitive :: "jsval \<Rightarrow> bool" where
  "js_primitive (JDate _) = False"
| "js_primitive (JArr _) = False"
| "js_primitive (JObj _) = False"
| "js_primitive _ = True"

definition strict_eq :: "jsval \<Rightarrow> jsval \<Rightarrow> bool" where
  "strict_eq a b \<longleftrightarrow> a = b \<and> js_primitive a"

section \<open>Strings\<close>

definition endsWith :: "string \<Rightarrow> string \<Rightarrow> bool" where
  "endsWith s t \<longleftrightarrow> length t \<le> length s \<and> drop (length s - length t) s = t"

definition startsWith :: "string \<Rightarrow> string \<Rightarrow> bool" where
  "startsWith s t \<longleftrightarrow> take (length t) s = t"

lemma endsWith_iff: "endsWith s t \<longleftrightarrow> (\<exists>p. s = p @ t)"
proof
  assume "endsWith s t"
  then show "\<exists>p. s = p @ t"
    by (metis append_take_drop_id endsWith_def)
qed (auto simp: endsWith_def)

lemma endsWith_append [simp]: "endsWith (p @ t) t"
  by (auto simp: endsWith_iff)

text \<open>Whether a string ends with a suffix is decided by any long enough tail of it.\<close>

lemma endsWith_append_long:
  "length t \<le> length u \<Longrightarrow> endsWith (p @ u) t = endsWith u t"
  by (auto simp: endsWith_def)

text \<open>Of two suffixes of a string the shorter is a suffix of the longer.\<close>

lemma endsWith_both:
  assumes "endsWith s t" "endsWith s u" "length t \<le> length u"
  shows "endsWith u t"
proof -
  from assms(2) obtain q where "s = q @ u" unfolding endsWith_iff by blast
  with assms(3) have "endsWith u t = endsWith s t" by (simp add: endsWith_append_long)
  with assms(1) show ?thesis by simp
qed

lemma startsWith_iff: "startsWith s t \<longleftrightarrow> (\<exists>q. s = t @ q)"
  by (metis append_eq_conv_conj append_take_drop_id startsWith_def)

lemma startsWith_append [simp]: "startsWith (t @ q) t"
  by (simp add: startsWith_def)

text \<open>\<open>s.split(c)\<close> for a separator of one character, and \<open>xs.join(sep)\<close>.\<close>

fun js_split :: "char \<Rightarrow> string \<Rightarrow> string list" where
  "js_split c [] = [[]]"
| "js_split c (x # xs) =
     (if x = c then [] # js_split c xs
      else (case js_split c xs of [] \<Rightarrow> [[x]] | y # ys \<Rightarrow> (x # y) # ys))"

fun js_join :: "string \<Rightarrow> string list \<Rightarrow> string" where
  "js_join sep [] = []"
| "js_join sep [x] = x"
| "js_join sep (x # y # ys) = x @ sep @ js_join sep (y # ys)"

lemma js_split_nonempty [simp]: "js_split c s \<noteq> []"
  by (induction s) (auto split: list.splits)

lemma js_split_no_sep: "c \<notin> set x \<Longrightarrow> js_split c x = [x]"
  by (induction x) auto

lemma js_split_append_sep:
  "c \<notin> set x \<Longrightarrow> js_split c (x @ c # s) = x # js_split c s"
  by (induction x) auto

lemma js_split_join:
  "xs \<noteq> [] \<Longrightarrow> (\<And>x. x \<in> set xs \<Longrightarrow> c \<notin> set x) \<Longrightarrow> js_split c (js_join [c] xs) = xs"
  by (induction "[c]" xs rule: js_join.induct) (auto simp: js_split_no_sep js_split_append_sep)

text \<open>\<open>trim()\<close> takes white space off both ends.\<close>

definition js_space :: "char \<Rightarrow> bool" where
  "js_space c \<longleftrightarrow> (of_char c :: nat) \<in> {9, 10, 11, 12, 13, 32, 160}"

definition js_trim :: "string \<Rightarrow> string" where
  "js_trim s = rev (dropWhile js_space (rev (dropWhile js_space s)))"

text \<open>Reading an index that may be out of range gives \<open>undefined\<close>.\<close>

definition arr_get :: "'a list \<Rightarrow> nat \<Rightarrow> 'a option" where
  "arr_get xs i = (if i < length xs then Some (xs ! i) else None)"

text \<open>\<open>Array.from(new Set(xs))\<close>: the first occurrence of each element, in order.\<close>

definition set_to_array :: "'a list \<Rightarrow> 'a list" where
  "set_to_array xs = rev (remdups (rev xs))"

lemma set_set_to_array [simp]: "set (set_to_array xs) = set xs"
  by (simp add: set_to_array_def)

lemma distinct_set_to_array [simp]: "distinct (set_to_array xs)"
  by (simp add: set_to_array_def)

lemma set_to_array_distinct: "distinct xs \<Longrightarrow> set_to_array xs = xs"
  by (simp add: set_to_array_def distinct_remdups_id)

end
