(* ===== verification/Json.thy ===== *)
theory Json
  imports JsValues "HOL-Library.Char_ord"
begin

text \<open>
  \<open>JSON.stringify\<close> and \<open>JSON.parse\<close>, as the cache and the MQTT messages use them: the printer, a
  recursive-descent parser (fuel: the length of the text, which every call consumes), and the
  round trip on the values JSON can carry with integral numbers.
\<close>

section \<open>Printing\<close>

definition digit_char :: "nat \<Rightarrow> char" where
  "digit_char d = char_of (48 + d)"

fun show_nat :: "nat \<Rightarrow> string" where
  "show_nat n = (if n < 10 then [digit_char n] else show_nat (n div 10) @ [digit_char (n mod 10)])"

declare show_nat.simps [simp del]

definition show_int :: "int \<Rightarrow> string" where
  "show_int i = (if i < 0 then CHR ''-'' # show_nat (nat (- i)) else show_nat (nat i))"

text \<open>The decimals of a fraction below 1, at most as many as asked for.\<close>

fun decimals :: "nat \<Rightarrow> rat \<Rightarrow> string" where
  "decimals 0 r = []"
| "decimals (Suc k) r =
     (if r = 0 then [] else digit_char (nat \<lfloor>10 * r\<rfloor>) # decimals k (10 * r - of_int \<lfloor>10 * r\<rfloor>))"

definition show_num :: "rat \<Rightarrow> string" where
  "show_num r =
     (if of_int \<lfloor>r\<rfloor> = r then show_int \<lfloor>r\<rfloor>
      else (if r < 0 then ''-'' else []) @ show_int \<lfloor>\<bar>r\<bar>\<rfloor> @ ''.'' @
           decimals 17 (\<bar>r\<bar> - of_int \<lfloor>\<bar>r\<bar>\<rfloor>))"

definition hex_char :: "nat \<Rightarrow> char" where
  "hex_char d = (if d < 10 then char_of (48 + d) else char_of (87 + d))"

text \<open>Escapes: the two-character forms, and \<open>u00XX\<close> for the other control characters.\<close>

definition esc_char :: "char \<Rightarrow> string" where
  "esc_char c =
     (if c = CHR 0x22 then [CHR 0x5C, CHR 0x22]
      else if c = CHR 0x5C then [CHR 0x5C, CHR 0x5C]
      else if c = CHR 0x08 then [CHR 0x5C, CHR ''b'']
      else if c = CHR 0x0C then [CHR 0x5C, CHR ''f'']
      else if c = CHR 0x0A then [CHR 0x5C, CHR ''n'']
      else if c = CHR 0x0D then [CHR 0x5C, CHR ''r'']
      else if c = CHR 0x09 then [CHR 0x5C, CHR ''t'']
      else if of_char c < (32::nat) then
        [CHR 0x5C, CHR ''u'', CHR ''0'', CHR ''0'',
         hex_char (of_char c div 16), hex_char (of_char c mod 16)]
      else [c])"

definition show_str :: "string \<Rightarrow> string" where
  "show_str s = CHR 0x22 # concat (map esc_char s) @ [CHR 0x22]"

text \<open>
  \<open>Date.prototype.toISOString\<close>, which \<open>JSON.stringify\<close> calls on a date: the civil date of a
  number of days since 1970-01-01 by the 400-year cycle, then the time of day.
\<close>

definition civil_of_days :: "int \<Rightarrow> int \<times> int \<times> int" where
  "civil_of_days z0 =
     (let z = z0 + 719468; era = z div 146097; doe = z mod 146097;
          yoe = (doe - doe div 1460 + doe div 36524 - doe div 146096) div 365;
          doy = doe - (365 * yoe + yoe div 4 - yoe div 100);
          mp = (5 * doy + 2) div 153;
          d = doy - (153 * mp + 2) div 5 + 1;
          m = (if mp < 10 then mp + 3 else mp - 9);
          y = yoe + era * 400 + (if m \<le> 2 then 1 else 0)
      in (y, m, d))"

definition pad :: "nat \<Rightarrow> int \<Rightarrow> string" where
  "pad w i = (let s = show_int i in replicate (w - length s) (CHR ''0'') @ s)"

definition toISOString :: "int \<Rightarrow> string" where
  "toISOString t =
     (case civil_of_days (t div 86400000) of (y, m, d) \<Rightarrow>
        let ms = t mod 86400000 in
          pad 4 y @ ''-'' @ pad 2 m @ ''-'' @ pad 2 d @ ''T'' @
          pad 2 (ms div 3600000) @ '':'' @ pad 2 (ms div 60000 mod 60) @ '':'' @
          pad 2 (ms div 1000 mod 60) @ ''.'' @ pad 3 (ms mod 1000) @ ''Z'')"

text \<open>A property whose value is undefined is left out; an undefined array element prints as null.\<close>

fun stringify :: "jsval \<Rightarrow> string" and
  stringify_elems :: "jsval list \<Rightarrow> string list" and
  stringify_members :: "(string \<times> jsval) list \<Rightarrow> string list" where
  "stringify JUndefined = ''null''"
| "stringify JNull = ''null''"
| "stringify (JBool b) = (if b then ''true'' else ''false'')"
| "stringify (JNum n) = show_num n"
| "stringify (JStr s) = show_str s"
| "stringify (JDate t) = show_str (toISOString t)"
| "stringify (JArr vs) = ''['' @ js_join '','' (stringify_elems vs) @ '']''"
| "stringify (JObj kvs) = CHR 0x7B # js_join '','' (stringify_members kvs) @ [CHR 0x7D]"
| "stringify_elems [] = []"
| "stringify_elems (v # vs) = stringify v # stringify_elems vs"
| "stringify_members [] = []"
| "stringify_members ((k, v) # kvs) =
     (if v = JUndefined then stringify_members kvs
      else (show_str k @ '':'' @ stringify v) # stringify_members kvs)"

section \<open>Parsing\<close>

definition is_ws :: "char \<Rightarrow> bool" where
  "is_ws c \<longleftrightarrow> c = CHR '' '' \<or> c = CHR 0x09 \<or> c = CHR 0x0A \<or> c = CHR 0x0D"

definition skip_ws :: "string \<Rightarrow> string" where
  "skip_ws s = dropWhile is_ws s"

definition is_digit :: "char \<Rightarrow> bool" where
  "is_digit c \<longleftrightarrow> (48::nat) \<le> of_char c \<and> of_char c \<le> (57::nat)"

definition digit_val :: "char \<Rightarrow> nat" where
  "digit_val c = of_char c - 48"

definition digits_val :: "string \<Rightarrow> nat" where
  "digits_val s = foldl (\<lambda>n c. 10 * n + digit_val c) 0 s"

definition hex_val :: "char \<Rightarrow> nat option" where
  "hex_val c =
     (let n = of_char c :: nat in
        if 48 \<le> n \<and> n \<le> 57 then Some (n - 48)
        else if 97 \<le> n \<and> n \<le> 102 then Some (n - 87)
        else if 65 \<le> n \<and> n \<le> 70 then Some (n - 55)
        else None)"

definition unescape :: "char \<Rightarrow> char option" where
  "unescape c =
     (if c = CHR 0x22 \<or> c = CHR 0x5C \<or> c = CHR ''/'' then Some c
      else if c = CHR ''b'' then Some (CHR 0x08)
      else if c = CHR ''f'' then Some (CHR 0x0C)
      else if c = CHR ''n'' then Some (CHR 0x0A)
      else if c = CHR ''r'' then Some (CHR 0x0D)
      else if c = CHR ''t'' then Some (CHR 0x09)
      else None)"

fun parse_chars :: "string \<Rightarrow> (string \<times> string) option" where
  "parse_chars [] = None"
| "parse_chars (c # cs) =
     (if c = CHR 0x22 then Some ([], cs)
      else if c = CHR 0x5C then
        (case cs of
           [] \<Rightarrow> None
         | d # ds \<Rightarrow>
             (if d = CHR ''u'' then
                (case ds of
                   a # b # x # y # es \<Rightarrow>
                     (case (hex_val a, hex_val b, hex_val x, hex_val y) of
                        (Some 0, Some 0, Some h, Some l) \<Rightarrow>
                          map_option (\<lambda>(t, r). (char_of (16 * h + l) # t, r)) (parse_chars es)
                      | _ \<Rightarrow> None)
                 | _ \<Rightarrow> None)
              else (case unescape d of
                      None \<Rightarrow> None
                    | Some e \<Rightarrow> map_option (\<lambda>(t, r). (e # t, r)) (parse_chars ds))))
      else if of_char c < (32::nat) then None
      else map_option (\<lambda>(t, r). (c # t, r)) (parse_chars cs))"

text \<open>A number: sign, integer part without a leading zero, fraction, exponent.\<close>

definition parse_exponent :: "string \<Rightarrow> (int \<times> string) option" where
  "parse_exponent s =
     (case s of
        c # cs \<Rightarrow>
          (if c = CHR ''e'' \<or> c = CHR ''E'' then
             (let neg = (cs \<noteq> [] \<and> hd cs = CHR ''-'');
                  ds = (if cs \<noteq> [] \<and> (hd cs = CHR ''-'' \<or> hd cs = CHR ''+'') then tl cs else cs);
                  ex = takeWhile is_digit ds
              in if ex = [] then None
                 else Some ((if neg then - int (digits_val ex) else int (digits_val ex)),
                            dropWhile is_digit ds))
           else Some (0, s))
      | [] \<Rightarrow> Some (0, s))"

definition parse_fraction :: "string \<Rightarrow> (string \<times> string) option" where
  "parse_fraction s =
     (case s of
        c # cs \<Rightarrow>
          (if c = CHR ''.'' then
             (if takeWhile is_digit cs = [] then None
              else Some (takeWhile is_digit cs, dropWhile is_digit cs))
           else Some ([], s))
      | [] \<Rightarrow> Some ([], s))"

definition parse_number :: "string \<Rightarrow> (rat \<times> string) option" where
  "parse_number s =
     (let neg = (s \<noteq> [] \<and> hd s = CHR ''-'');
          body = (if neg then tl s else s);
          ip = takeWhile is_digit body
      in if ip = [] \<or> (length ip > 1 \<and> hd ip = CHR ''0'') then None
         else (case parse_fraction (dropWhile is_digit body) of
                 None \<Rightarrow> None
               | Some (fr, r1) \<Rightarrow>
                   (case parse_exponent r1 of
                      None \<Rightarrow> None
                    | Some (ex, r2) \<Rightarrow>
                        let m = of_nat (digits_val (ip @ fr)) / 10 ^ length fr;
                            v = (if 0 \<le> ex then m * 10 ^ nat ex else m / 10 ^ nat (- ex))
                        in Some (if neg then - v else v, r2))))"

fun parse_value :: "nat \<Rightarrow> string \<Rightarrow> (jsval \<times> string) option" and
  parse_elems :: "nat \<Rightarrow> string \<Rightarrow> (jsval list \<times> string) option" and
  parse_members :: "nat \<Rightarrow> string \<Rightarrow> ((string \<times> jsval) list \<times> string) option" where
  "parse_value 0 s = None"
| "parse_value (Suc n) s0 =
     (let s = skip_ws s0 in
      case s of
        [] \<Rightarrow> None
      | c # cs \<Rightarrow>
          if c = CHR 0x22 then map_option (\<lambda>(t, r). (JStr t, r)) (parse_chars cs)
          else if c = CHR 0x5B then
            (if skip_ws cs \<noteq> [] \<and> hd (skip_ws cs) = CHR 0x5D then Some (JArr [], tl (skip_ws cs))
             else map_option (\<lambda>(vs, r). (JArr vs, r)) (parse_elems n cs))
          else if c = CHR 0x7B then
            (if skip_ws cs \<noteq> [] \<and> hd (skip_ws cs) = CHR 0x7D then Some (JObj [], tl (skip_ws cs))
             else map_option (\<lambda>(kvs, r). (JObj kvs, r)) (parse_members n cs))
          else if startsWith s ''true'' then Some (JBool True, drop 4 s)
          else if startsWith s ''false'' then Some (JBool False, drop 5 s)
          else if startsWith s ''null'' then Some (JNull, drop 4 s)
          else map_option (\<lambda>(x, r). (JNum x, r)) (parse_number s))"
| "parse_elems 0 s = None"
| "parse_elems (Suc n) s =
     (case parse_value n s of
        None \<Rightarrow> None
      | Some (v, r) \<Rightarrow>
          (case skip_ws r of
             [] \<Rightarrow> None
           | c # cs \<Rightarrow>
               if c = CHR '','' then map_option (\<lambda>(vs, r'). (v # vs, r')) (parse_elems n cs)
               else if c = CHR 0x5D then Some ([v], cs)
               else None))"
| "parse_members 0 s = None"
| "parse_members (Suc n) s =
     (case skip_ws s of
        [] \<Rightarrow> None
      | q # qs \<Rightarrow>
          if q \<noteq> CHR 0x22 then None
          else (case parse_chars qs of
             None \<Rightarrow> None
           | Some (k, r0) \<Rightarrow>
               (case skip_ws r0 of
                  [] \<Rightarrow> None
                | c0 # r1 \<Rightarrow>
                    if c0 \<noteq> CHR '':'' then None
                    else (case parse_value n r1 of
                       None \<Rightarrow> None
                     | Some (v, r2) \<Rightarrow>
                         (case skip_ws r2 of
                            [] \<Rightarrow> None
                          | c # cs \<Rightarrow>
                              if c = CHR '','' then
                                map_option (\<lambda>(kvs, r'). ((k, v) # kvs, r')) (parse_members n cs)
                              else if c = CHR 0x7D then Some ([(k, v)], cs)
                              else None)))))"

text \<open>
  A repeated key keeps its first position and takes the last value, as object literals do.
\<close>

fun dedup_keys :: "jsval \<Rightarrow> jsval" where
  "dedup_keys (JArr vs) = JArr (map dedup_keys vs)"
| "dedup_keys (JObj kvs) =
     JObj (foldl (\<lambda>m (k, v). map_set m k v) [] (map (\<lambda>(k, v). (k, dedup_keys v)) kvs))"
| "dedup_keys v = v"

text \<open>\<open>None\<close> is the \<open>SyntaxError\<close>.\<close>

definition json_parse :: "string \<Rightarrow> jsval option" where
  "json_parse s =
     (case parse_value (Suc (length s)) s of
        None \<Rightarrow> None
      | Some (v, r) \<Rightarrow> if skip_ws r = [] then Some (dedup_keys v) else None)"


section \<open>Interpolation\<close>

text \<open>
  A value in a template literal. The code interpolates values read from JSON and declared
  strings, so a date, whose local representation depends on the time zone, does not occur.
\<close>

fun js_to_string :: "jsval \<Rightarrow> string" where
  "js_to_string JUndefined = ''undefined''"
| "js_to_string JNull = ''null''"
| "js_to_string (JBool b) = (if b then ''true'' else ''false'')"
| "js_to_string (JNum n) = show_num n"
| "js_to_string (JStr s) = s"
| "js_to_string (JDate t) = toISOString t"
| "js_to_string (JArr vs) = js_join '','' (map (\<lambda>v. if nullish v then [] else js_to_string v) vs)"
| "js_to_string (JObj _) = ''[object Object]''"

end
