(* ===== verification/Platform.thy ===== *)
theory Platform
  imports Json
begin

text \<open>
  The libraries the services call and whose code is not in the repository, as parameters: the
  source of UUIDs, the clock and the configuration (\<open>rt_env\<close>), and a TypeORM repository
  (\<open>repo\<close>) whose operations act on the documents of a collection in their natural order. Every
  call may reject. What the documentation promises of a connected database is the named
  hypothesis \<open>repo_ok\<close>; \<open>mem_repo\<close> shows that it can hold and is what the witnesses run on.
\<close>

section \<open>Runtime\<close>

record rt_env =
  uuid_src :: "nat \<Rightarrow> string"
  clock :: "nat \<Rightarrow> int"
  config :: "string \<Rightarrow> string option"

text \<open>
  How many UUIDs have been drawn, how often the clock was read, how often the process was started again,
  and whether it has ended: the program installs no handler for unhandled rejections, so Node.js ends
  it at the first one.
\<close>

record runtime =
  uuid_count :: nat
  clock_reads :: nat
  starts :: nat
  process_ended :: bool

text \<open>
  A call whose promise nobody awaits and whose rejection nobody catches: the caller goes on, but a
  rejection ends the process. What the caller still does is kept, as if it came before the end.
\<close>

definition fire :: "('z runtime_scheme, 'a) act \<Rightarrow> ('z runtime_scheme, unit) act" where
  "fire m = (\<lambda>s. case m s of
       (Inl _, s') \<Rightarrow> (Inr (), s'\<lparr>process_ended := True\<rparr>)
     | (Inr _, s') \<Rightarrow> (Inr (), s'))"

lemma fire_Inr [simp]: "m s = (Inr x, s') \<Longrightarrow> fire m s = (Inr (), s')"
  by (simp add: fire_def)

lemma fire_Inl [simp]: "m s = (Inl e, s') \<Longrightarrow> fire m s = (Inr (), s'\<lparr>process_ended := True\<rparr>)"
  by (simp add: fire_def)

lemma fire_run [act_simps]:
  "fire m s = (Inr (), if isl (fst (m s)) then (snd (m s))\<lparr>process_ended := True\<rparr> else snd (m s))"
  by (simp add: fire_def split: prod.split sum.split)

text \<open>An invariant that does not speak of the end of the process is kept by it.\<close>

definition crash_blind :: "('z runtime_scheme \<Rightarrow> bool) \<Rightarrow> bool" where
  "crash_blind I \<longleftrightarrow> (\<forall>s. I s \<longrightarrow> I (s\<lparr>process_ended := True\<rparr>))"

lemma crash_blindI: "(\<And>s. I s \<Longrightarrow> I (s\<lparr>process_ended := True\<rparr>)) \<Longrightarrow> crash_blind I"
  by (simp add: crash_blind_def)

lemma crash_blindD: "crash_blind I \<Longrightarrow> I s \<Longrightarrow> I (s\<lparr>process_ended := True\<rparr>)"
  by (simp add: crash_blind_def)

lemma keeps_fire [keeps_intros]:
  assumes "keeps I m" "crash_blind I"
  shows "keeps I (fire m)"
proof (rule keepsI)
  fix s assume "I s"
  with assms(1) have "I (snd (m s))" by (rule keepsD)
  with crash_blindD[OF assms(2)] show "I (snd (fire m s))" by (simp add: fire_run)
qed

definition uuidv4 :: "'e rt_env_scheme \<Rightarrow> ('z runtime_scheme, string) act" where
  "uuidv4 E = (\<lambda>s. (Inr (uuid_src E (uuid_count s)), s\<lparr>uuid_count := Suc (uuid_count s)\<rparr>))"

definition date_now :: "'e rt_env_scheme \<Rightarrow> ('z runtime_scheme, int) act" where
  "date_now E = (\<lambda>s. (Inr (clock E (clock_reads s)), s\<lparr>clock_reads := Suc (clock_reads s)\<rparr>))"

text \<open>\<open>ConfigService.getOrThrow\<close>.\<close>

definition getOrThrow :: "'e rt_env_scheme \<Rightarrow> string \<Rightarrow> ('s, string) act" where
  "getOrThrow E k =
     (case config E k of
        None \<Rightarrow> throw (JsError (''Configuration key does not exist: '' @ k))
      | Some v \<Rightarrow> ok v)"

lemma uuidv4_run [act_simps]:
  "uuidv4 E s = (Inr (uuid_src E (uuid_count s)), s\<lparr>uuid_count := Suc (uuid_count s)\<rparr>)"
  by (simp add: uuidv4_def)

lemma date_now_run [act_simps]:
  "date_now E s = (Inr (clock E (clock_reads s)), s\<lparr>clock_reads := Suc (clock_reads s)\<rparr>)"
  by (simp add: date_now_def)

lemma getOrThrow_run [act_simps]:
  "getOrThrow E k s =
     (case config E k of
        None \<Rightarrow> (Inl (JsError (''Configuration key does not exist: '' @ k)), s)
      | Some v \<Rightarrow> (Inr v, s))"
  by (simp add: getOrThrow_def throw_def ok_def split: option.split)

lemma keeps_getOrThrow [keeps_intros]: "keeps I (getOrThrow E k)"
  by (simp add: keeps_def act_simps split: option.split)

section \<open>Repositories\<close>

record 'e repo =
  r_find :: "('e \<Rightarrow> bool) \<Rightarrow> ('e list, 'e list) act"
  r_findOne :: "('e \<Rightarrow> bool) \<Rightarrow> ('e list, 'e option) act"
  r_save :: "'e \<Rightarrow> ('e list, 'e) act"
  r_update :: "('e \<Rightarrow> bool) \<Rightarrow> ('e \<Rightarrow> 'e) \<Rightarrow> ('e list, unit) act"
  r_delete :: "('e \<Rightarrow> bool) \<Rightarrow> ('e list, unit) act"

text \<open>
  A connected database: \<open>find\<close> returns the documents that match, \<open>findOne\<close> the first of them in
  natural order or null, \<open>save\<close> of a new entity inserts it, \<open>update\<close> changes every document that
  matches, \<open>delete\<close> removes them. \<open>uniq\<close> says what the unique indexes of the collection allow; a
  save that would break it is rejected, and an update that would is rejected with the documents
  in a state of which only \<open>updates_ok\<close> below is promised.
\<close>

definition repo_ok :: "('e list \<Rightarrow> bool) \<Rightarrow> 'e repo \<Rightarrow> bool" where
  "repo_ok uniq R \<longleftrightarrow>
     (\<forall>p ds. r_find R p ds = (Inr (filter p ds), ds)) \<and>
     (\<forall>p ds. r_findOne R p ds = (Inr (List.find p ds), ds)) \<and>
     (\<forall>e ds. uniq (ds @ [e]) \<longrightarrow> r_save R e ds = (Inr e, ds @ [e])) \<and>
     (\<forall>e ds. \<not> uniq (ds @ [e]) \<longrightarrow> (\<exists>msg. r_save R e ds = (Inl (LibraryError msg), ds))) \<and>
     (\<forall>p f ds. uniq (map (\<lambda>d. if p d then f d else d) ds) \<longrightarrow>
        r_update R p f ds = (Inr (), map (\<lambda>d. if p d then f d else d) ds)) \<and>
     (\<forall>p ds. r_delete R p ds = (Inr (), filter (\<lambda>d. \<not> p d) ds))"

lemma repo_ok_simps:
  assumes "repo_ok uniq R"
  shows "r_find R p ds = (Inr (filter p ds), ds)"
    "r_findOne R p ds = (Inr (List.find p ds), ds)"
    "uniq (ds @ [e]) \<Longrightarrow> r_save R e ds = (Inr e, ds @ [e])"
    "uniq (map (\<lambda>d. if p d then f d else d) ds) \<Longrightarrow>
       r_update R p f ds = (Inr (), map (\<lambda>d. if p d then f d else d) ds)"
    "r_delete R p ds = (Inr (), filter (\<lambda>d. \<not> p d) ds)"
  using assms by (simp_all add: repo_ok_def)

lemma repo_ok_save_reject:
  assumes "repo_ok uniq R" "\<not> uniq (ds @ [e])"
  obtains msg where "r_save R e ds = (Inl (LibraryError msg), ds)"
  using assms unfolding repo_ok_def by metis

text \<open>An instance: an in-memory collection that checks its indexes.\<close>

definition mem_repo :: "('e list \<Rightarrow> bool) \<Rightarrow> 'e repo" where
  "mem_repo uniq = \<lparr>
     r_find = (\<lambda>p ds. (Inr (filter p ds), ds)),
     r_findOne = (\<lambda>p ds. (Inr (List.find p ds), ds)),
     r_save = (\<lambda>e ds. if uniq (ds @ [e]) then (Inr e, ds @ [e])
       else (Inl (LibraryError ''E11000 duplicate key error''), ds)),
     r_update = (\<lambda>p f ds. let ds' = map (\<lambda>d. if p d then f d else d) ds in
       if uniq ds' then (Inr (), ds') else (Inl (LibraryError ''E11000 duplicate key error''), ds)),
     r_delete = (\<lambda>p ds. (Inr (), filter (\<lambda>d. \<not> p d) ds))\<rparr>"

lemma repo_ok_mem_repo [simp]: "repo_ok uniq (mem_repo uniq)"
  by (simp add: repo_ok_def mem_repo_def)

text \<open>
  What MongoDB documents about an update of many documents: each one is changed as a whole or not at
  all, also when an index rejects one of them, and the indexes hold at every moment.
\<close>

definition updates_ok :: "('e list \<Rightarrow> bool) \<Rightarrow> 'e repo \<Rightarrow> bool" where
  "updates_ok uniq R \<longleftrightarrow> (\<forall>p f ds. uniq ds \<longrightarrow> uniq (snd (r_update R p f ds)) \<and>
     list_all2 (\<lambda>d d'. d' = d \<or> p d \<and> d' = f d) ds (snd (r_update R p f ds)))"

lemma updates_ok_mem_repo [simp]: "updates_ok uniq (mem_repo uniq)"
  by (auto simp: updates_ok_def mem_repo_def Let_def list_all2_map2 list.rel_refl)

lemma updated_keys:
  assumes "list_all2 (\<lambda>d d'. d' = d \<or> p d \<and> d' = f d) ds ds'" "\<And>d. key (f d) = key d"
  shows "map key ds' = map key ds"
  using assms by (induction rule: list_all2_induct) auto

text \<open>A unique index on one field: \<open>distinct\<close> is kept by updates that keep the field.\<close>

definition unique_by :: "('e \<Rightarrow> 'k) \<Rightarrow> 'e list \<Rightarrow> bool" where
  "unique_by key ds \<longleftrightarrow> distinct (map key ds)"

lemma unique_by_snoc [simp]:
  "unique_by key (ds @ [e]) \<longleftrightarrow> unique_by key ds \<and> key e \<notin> key ` set ds"
  by (auto simp: unique_by_def)

lemma unique_by_update:
  "(\<And>d. key (f d) = key d) \<Longrightarrow>
     unique_by key (map (\<lambda>d. if p d then f d else d) ds) \<longleftrightarrow> unique_by key ds"
  unfolding unique_by_def by (simp add: comp_def if_distrib cong: if_cong)

lemma unique_by_inj:
  "unique_by key ds \<Longrightarrow> x \<in> set ds \<Longrightarrow> y \<in> set ds \<Longrightarrow> key x = key y \<Longrightarrow> x = y"
  by (auto simp: unique_by_def distinct_map dest: inj_onD)

text \<open>Finding by the key of an index returns the document that has it.\<close>

lemma find_by_key:
  "unique_by key ds \<Longrightarrow> x \<in> set ds \<Longrightarrow> P x \<Longrightarrow> (\<And>y. P y \<Longrightarrow> key y = key x) \<Longrightarrow> List.find P ds = Some x"
  by (rule find_unique) (auto dest: unique_by_inj)

text \<open>A UUID that is still to come differs from every one already drawn.\<close>

definition uuids_distinct :: "'e rt_env_scheme \<Rightarrow> bool" where
  "uuids_distinct E \<longleftrightarrow> inj (uuid_src E)"

end
