(* ===== verification/MqttAdapter.thy ===== *)
theory MqttAdapter
  imports Platform
begin

text \<open>
  \<open>mqtt-client/adapter/mqtt-client.adapter.ts\<close> over the client of the \<open>mqtt\<close> package, which is a
  parameter (\<open>mqtt_lib\<close>). A callback is a value of a type \<open>'cb\<close> that the owner of the adapter
  interprets. The locale \<open>mqtt_port\<close> is the part of the interface \<open>IMqttClient\<close> by which the service
  talks to a broker; the adapter is its instance.
\<close>

section \<open>The library\<close>

record mqtt_options =
  mo_clientId :: "string option"
  mo_clean :: bool
  mo_connectTimeout :: rat
  mo_reconnectPeriod :: "rat option"
  mo_username :: "string option"
  mo_password :: "string option"

record publish_options =
  po_qos :: "nat option"
  po_retain :: "bool option"

text \<open>The events of a client that somebody listens to.\<close>

datatype mqtt_event = MessageEvent | ConnectEvent | CloseEvent | ErrorEvent | ReconnectEvent

text \<open>
  A client object: whether it is connected, its options, the subscriptions the broker holds for it,
  what it has published, and its listeners in the order they were added.
\<close>

record 'cb mqtt_conn =
  cn_connected :: bool
  cn_clientId :: "string option"
  cn_hostname :: "string option"
  cn_subscriptions :: "string list"
  cn_outbox :: "(string \<times> string \<times> publish_options) list"
  cn_listeners :: "(mqtt_event \<times> 'cb) list"

record 'cb mqtt_lib =
  ml_connect :: "string \<Rightarrow> mqtt_options \<Rightarrow> exn + 'cb mqtt_conn"
  ml_subscribe :: "string list \<Rightarrow> ('cb mqtt_conn, unit) act"
  ml_unsubscribe :: "string list \<Rightarrow> ('cb mqtt_conn, unit) act"
  ml_publish :: "string \<Rightarrow> string \<Rightarrow> publish_options \<Rightarrow> ('cb mqtt_conn, unit) act"
  ml_end :: "('cb mqtt_conn, unit) act"

text \<open>The event emitter every client is: \<open>on\<close> and \<open>removeAllListeners\<close>.\<close>

definition client_on :: "mqtt_event \<Rightarrow> 'cb \<Rightarrow> 'cb mqtt_conn \<Rightarrow> 'cb mqtt_conn" where
  "client_on ev cb c = c\<lparr>cn_listeners := cn_listeners c @ [(ev, cb)]\<rparr>"

definition client_removeAllListeners :: "mqtt_event \<Rightarrow> 'cb mqtt_conn \<Rightarrow> 'cb mqtt_conn" where
  "client_removeAllListeners ev c = c\<lparr>cn_listeners := filter (\<lambda>(e, _). e \<noteq> ev) (cn_listeners c)\<rparr>"

definition client_listeners :: "mqtt_event \<Rightarrow> 'cb mqtt_conn \<Rightarrow> 'cb list" where
  "client_listeners ev c = map snd (filter (\<lambda>(e, _). e = ev) (cn_listeners c))"

text \<open>The library refuses a URL without a protocol; with one \<open>connect\<close> returns at once, whether the broker answers or not.\<close>

definition has_protocol :: "string \<Rightarrow> bool" where
  "has_protocol url \<longleftrightarrow> list_ex (\<lambda>n. take 3 (drop n url) = ''://'') [0..<length url]"

lemma has_protocolI: "has_protocol (p @ ''://'' @ rest)"
  unfolding has_protocol_def list_ex_iff by (rule bexI[of _ "length p"]) simp_all

text \<open>
  A broker that grants everything: a new client is not connected yet and has the id it was
  given and no listeners; a connected one subscribes, unsubscribes and publishes; ending it closes
  the connection.
\<close>

definition mqtt_lib_ok :: "'cb mqtt_lib \<Rightarrow> bool" where
  "mqtt_lib_ok L \<longleftrightarrow>
     (\<forall>url opts. (\<exists>h. ml_connect L url opts = Inr \<lparr>cn_connected = False, cn_clientId = mo_clientId opts,
        cn_hostname = h, cn_subscriptions = [], cn_outbox = [], cn_listeners = []\<rparr>) \<or>
        \<not> has_protocol url \<and> (\<exists>e. ml_connect L url opts = Inl e)) \<and>
     (\<forall>ts c. cn_connected c \<longrightarrow>
        ml_subscribe L ts c = (Inr (), c\<lparr>cn_subscriptions := cn_subscriptions c @ ts\<rparr>)) \<and>
     (\<forall>ts c. cn_connected c \<longrightarrow> ml_unsubscribe L ts c =
        (Inr (), c\<lparr>cn_subscriptions := filter (\<lambda>t. t \<notin> set ts) (cn_subscriptions c)\<rparr>)) \<and>
     (\<forall>t p opts c. cn_connected c \<longrightarrow>
        ml_publish L t p opts c = (Inr (), c\<lparr>cn_outbox := cn_outbox c @ [(t, p, opts)]\<rparr>)) \<and>
     (\<forall>c. ml_end L c = (Inr (), c\<lparr>cn_connected := False, cn_subscriptions := []\<rparr>))"

definition mem_mqtt :: "'cb mqtt_lib" where
  "mem_mqtt = \<lparr>
     ml_connect = (\<lambda>url opts.
       if has_protocol url
       then Inr \<lparr>cn_connected = False, cn_clientId = mo_clientId opts, cn_hostname = Some ''localhost'',
         cn_subscriptions = [], cn_outbox = [], cn_listeners = []\<rparr>
       else Inl (JsError ''Missing protocol'')),
     ml_subscribe = (\<lambda>ts c. (Inr (), c\<lparr>cn_subscriptions := cn_subscriptions c @ ts\<rparr>)),
     ml_unsubscribe = (\<lambda>ts c.
       (Inr (), c\<lparr>cn_subscriptions := filter (\<lambda>t. t \<notin> set ts) (cn_subscriptions c)\<rparr>)),
     ml_publish = (\<lambda>t p opts c. (Inr (), c\<lparr>cn_outbox := cn_outbox c @ [(t, p, opts)]\<rparr>)),
     ml_end = (\<lambda>c. (Inr (), c\<lparr>cn_connected := False, cn_subscriptions := []\<rparr>))\<rparr>"

lemma mqtt_lib_ok_mem_mqtt [simp]: "mqtt_lib_ok mem_mqtt"
  by (simp add: mqtt_lib_ok_def mem_mqtt_def)

section \<open>The adapter\<close>

record 'cb adapter =
  ad_client :: "'cb mqtt_conn option"
  messageCallback :: "'cb option"
  connectCallback :: "'cb option"
  disconnectCallback :: "'cb option"
  errorCallback :: "'cb option"
  reconnectCallback :: "'cb option"

definition new_adapter :: "'cb adapter" where
  "new_adapter = \<lparr>ad_client = None, messageCallback = None, connectCallback = None,
     disconnectCallback = None, errorCallback = None, reconnectCallback = None\<rparr>"

text \<open>\<open>if (this.xCallback) this.client.on(event, this.xCallback)\<close>\<close>

definition on_if_set :: "mqtt_event \<Rightarrow> 'cb option \<Rightarrow> 'cb mqtt_conn \<Rightarrow> 'cb mqtt_conn" where
  "on_if_set ev callback c = (case callback of None \<Rightarrow> c | Some cb \<Rightarrow> client_on ev cb c)"

definition adapter_connect ::
  "'cb mqtt_lib \<Rightarrow> string \<Rightarrow> mqtt_options \<Rightarrow> ('cb adapter, unit) act" where
  "adapter_connect L brokerUrl options = (\<lambda>a.
     case ml_connect L brokerUrl options of
       Inl e \<Rightarrow> (Inl e, a)
     | Inr c0 \<Rightarrow>
         let c1 = on_if_set MessageEvent (messageCallback a) c0;
             c2 = on_if_set ConnectEvent (connectCallback a) c1;
             c3 = on_if_set CloseEvent (disconnectCallback a) c2;
             c4 = on_if_set ErrorEvent (errorCallback a) c3;
             c5 = on_if_set ReconnectEvent (reconnectCallback a) c4
         in (Inr (), a\<lparr>ad_client := Some c5\<rparr>))"

text \<open>A call of the library on the client: the adapter throws when it has none that is connected.\<close>

definition on_connected :: "('cb mqtt_conn, 'x) act \<Rightarrow> ('cb adapter, 'x) act" where
  "on_connected m = (\<lambda>a.
     case ad_client a of
       None \<Rightarrow> (Inl (JsError ''MQTT client not connected''), a)
     | Some c \<Rightarrow>
         if \<not> cn_connected c then (Inl (JsError ''MQTT client not connected''), a)
         else (case m c of (r, c') \<Rightarrow> (r, a\<lparr>ad_client := Some c'\<rparr>)))"

text \<open>\<open>string | string[]\<close>\<close>

datatype topics_arg = OneTopic string | ManyTopics "string list"

fun topicsArray :: "topics_arg \<Rightarrow> string list" where
  "topicsArray (OneTopic t) = [t]"
| "topicsArray (ManyTopics ts) = ts"

definition adapter_subscribe :: "'cb mqtt_lib \<Rightarrow> topics_arg \<Rightarrow> ('cb adapter, unit) act" where
  "adapter_subscribe L ts = on_connected (ml_subscribe L (topicsArray ts))"

definition adapter_unsubscribe :: "'cb mqtt_lib \<Rightarrow> topics_arg \<Rightarrow> ('cb adapter, unit) act" where
  "adapter_unsubscribe L ts = on_connected (ml_unsubscribe L (topicsArray ts))"

definition adapter_publish ::
  "'cb mqtt_lib \<Rightarrow> string \<Rightarrow> string \<Rightarrow> publish_options option \<Rightarrow> ('cb adapter, unit) act" where
  "adapter_publish L t payload options =
     on_connected (ml_publish L t payload
       (case options of None \<Rightarrow> \<lparr>po_qos = None, po_retain = None\<rparr> | Some opts \<Rightarrow> opts))"

definition removeAllListeners :: "'cb adapter \<Rightarrow> 'cb adapter" where
  "removeAllListeners a =
     (case ad_client a of
        None \<Rightarrow> a
      | Some c \<Rightarrow> \<lparr>ad_client = Some (client_removeAllListeners ReconnectEvent
            (client_removeAllListeners ErrorEvent (client_removeAllListeners CloseEvent
            (client_removeAllListeners ConnectEvent (client_removeAllListeners MessageEvent c))))),
          messageCallback = None, connectCallback = None, disconnectCallback = None,
          errorCallback = None, reconnectCallback = None\<rparr>)"

definition adapter_disconnect :: "'cb mqtt_lib \<Rightarrow> ('cb adapter, unit) act" where
  "adapter_disconnect L = (\<lambda>a.
     case ad_client a of
       None \<Rightarrow> (Inr (), a)
     | Some c \<Rightarrow>
         (case ml_end L c of
            (Inl e, c') \<Rightarrow> (Inl e, a\<lparr>ad_client := Some c'\<rparr>)
          | (Inr _, c') \<Rightarrow> (Inr (), (removeAllListeners (a\<lparr>ad_client := Some c'\<rparr>))\<lparr>ad_client := None\<rparr>)))"

definition adapter_isConnected :: "'cb adapter \<Rightarrow> bool" where
  "adapter_isConnected a = (case ad_client a of None \<Rightarrow> False | Some c \<Rightarrow> cn_connected c)"

definition adapter_getClientId :: "'cb adapter \<Rightarrow> string option" where
  "adapter_getClientId a = (case ad_client a of None \<Rightarrow> None | Some c \<Rightarrow> cn_clientId c)"

definition adapter_getBrokerUrl :: "'cb adapter \<Rightarrow> string" where
  "adapter_getBrokerUrl a =
     (case ad_client a of
        None \<Rightarrow> ''unknown''
      | Some c \<Rightarrow> (case cn_hostname c of None \<Rightarrow> ''unknown'' | Some h \<Rightarrow> h))"

definition onMessage :: "'cb \<Rightarrow> 'cb adapter \<Rightarrow> 'cb adapter" where
  "onMessage cb a =
     a\<lparr>messageCallback := Some cb, ad_client := map_option (client_on MessageEvent cb) (ad_client a)\<rparr>"

definition onConnect :: "'cb \<Rightarrow> 'cb adapter \<Rightarrow> 'cb adapter" where
  "onConnect cb a =
     a\<lparr>connectCallback := Some cb, ad_client := map_option (client_on ConnectEvent cb) (ad_client a)\<rparr>"

definition onDisconnect :: "'cb \<Rightarrow> 'cb adapter \<Rightarrow> 'cb adapter" where
  "onDisconnect cb a =
     a\<lparr>disconnectCallback := Some cb, ad_client := map_option (client_on CloseEvent cb) (ad_client a)\<rparr>"

definition onError :: "'cb \<Rightarrow> 'cb adapter \<Rightarrow> 'cb adapter" where
  "onError cb a =
     a\<lparr>errorCallback := Some cb, ad_client := map_option (client_on ErrorEvent cb) (ad_client a)\<rparr>"

definition onReconnect :: "'cb \<Rightarrow> 'cb adapter \<Rightarrow> 'cb adapter" where
  "onReconnect cb a =
     a\<lparr>reconnectCallback := Some cb, ad_client := map_option (client_on ReconnectEvent cb) (ad_client a)\<rparr>"

section \<open>The interface\<close>

text \<open>
  A port to a broker: what is published and subscribed through it, and that it throws and changes
  nothing while it is not live.
\<close>

locale mqtt_port =
  fixes good :: "'s \<Rightarrow> bool"
    and live :: "'s \<Rightarrow> bool"
    and subs :: "'s \<Rightarrow> string list"
    and sent :: "'s \<Rightarrow> (string \<times> string \<times> publish_options) list"
    and subscribe :: "topics_arg \<Rightarrow> ('s, unit) act"
    and publish :: "string \<Rightarrow> string \<Rightarrow> publish_options option \<Rightarrow> ('s, unit) act"
    and close_port :: "('s, unit) act"
  assumes subscribe_live: "good s \<Longrightarrow> live s \<Longrightarrow> \<exists>s'. subscribe ts s = (Inr (), s') \<and> good s' \<and> live s' \<and>
      subs s' = subs s @ topicsArray ts \<and> sent s' = sent s"
    and publish_live: "good s \<Longrightarrow> live s \<Longrightarrow> \<exists>s'. publish t p opts s = (Inr (), s') \<and> good s' \<and> live s' \<and>
      subs s' = subs s \<and> (\<exists>q. sent s' = sent s @ [(t, p, q)])"
    and subscribe_dead: "\<not> live s \<Longrightarrow> \<exists>e. subscribe ts s = (Inl e, s)"
    and publish_dead: "\<not> live s \<Longrightarrow> \<exists>e. publish t p opts s = (Inl e, s)"
    and close_run: "good s \<Longrightarrow> \<exists>s'. close_port s = (Inr (), s') \<and> good s' \<and> \<not> live s'"
begin

lemma subscribe_outcome: "good s \<Longrightarrow> fst (subscribe ts s) = Inr () \<longleftrightarrow> live s"
  using subscribe_live[of s ts] subscribe_dead[of s ts] by (cases "live s") auto

lemma subscribe_only_adds: "good s \<Longrightarrow> set (subs s) \<subseteq> set (subs (snd (subscribe ts s)))"
  using subscribe_live[of s ts] subscribe_dead[of s ts] by (cases "live s") auto

text \<open>A batch of messages goes out complete and in order, or not at all.\<close>

lemma publish_batch:
  "good s \<Longrightarrow> live s \<Longrightarrow> \<exists>s'. for_each (\<lambda>(t, p). publish t p opts) ms s = (Inr (), s') \<and> good s' \<and> live s' \<and>
     map (\<lambda>(t, p, _). (t, p)) (sent s') = map (\<lambda>(t, p, _). (t, p)) (sent s) @ ms"
proof (induction ms arbitrary: s)
  case (Cons m ms)
  obtain t p where m: "m = (t, p)" by (cases m)
  from publish_live[OF Cons.prems, of t p opts] obtain s1 q where
    1: "publish t p opts s = (Inr (), s1)" "good s1" "live s1" "sent s1 = sent s @ [(t, p, q)]" by blast
  from Cons.IH[OF 1(2,3)] 1 m show ?case by auto
qed simp

lemma publish_batch_dead:
  assumes "\<not> live s" "ms \<noteq> []"
  shows "\<exists>e. for_each (\<lambda>(t, p). publish t p opts) ms s = (Inl e, s)"
proof -
  obtain t p rest where ms: "ms = (t, p) # rest" using assms(2) by (cases ms) auto
  from publish_dead[OF assms(1), of t p opts] obtain e where "publish t p opts s = (Inl e, s)" by blast
  then show ?thesis by (simp add: ms)
qed

lemma closed_refuses:
  assumes "good s" "close_port s = (Inr (), s')"
  shows "\<exists>e. publish t p opts s' = (Inl e, s')" "\<exists>e. subscribe ts s' = (Inl e, s')"
  using assms(2) close_run[OF assms(1)] publish_dead[of s' t p opts] subscribe_dead[of s' ts] by auto

end

definition adapter_subs :: "'cb adapter \<Rightarrow> string list" where
  "adapter_subs a = (case ad_client a of None \<Rightarrow> [] | Some c \<Rightarrow> cn_subscriptions c)"

definition adapter_sent :: "'cb adapter \<Rightarrow> (string \<times> string \<times> publish_options) list" where
  "adapter_sent a = (case ad_client a of None \<Rightarrow> [] | Some c \<Rightarrow> cn_outbox c)"

lemma mqtt_lib_okD:
  assumes "mqtt_lib_ok L"
  shows "(\<exists>h. ml_connect L url opts = Inr \<lparr>cn_connected = False, cn_clientId = mo_clientId opts,
      cn_hostname = h, cn_subscriptions = [], cn_outbox = [], cn_listeners = []\<rparr>) \<or>
      \<not> has_protocol url \<and> (\<exists>e. ml_connect L url opts = Inl e)"
    "cn_connected c \<Longrightarrow> ml_subscribe L ts c = (Inr (), c\<lparr>cn_subscriptions := cn_subscriptions c @ ts\<rparr>)"
    "cn_connected c \<Longrightarrow> ml_unsubscribe L ts c =
      (Inr (), c\<lparr>cn_subscriptions := filter (\<lambda>t. t \<notin> set ts) (cn_subscriptions c)\<rparr>)"
    "cn_connected c \<Longrightarrow> ml_publish L t p q c = (Inr (), c\<lparr>cn_outbox := cn_outbox c @ [(t, p, q)]\<rparr>)"
    "ml_end L c = (Inr (), c\<lparr>cn_connected := False, cn_subscriptions := []\<rparr>)"
  using assms unfolding mqtt_lib_ok_def by blast+

lemma not_connected:
  "\<not> adapter_isConnected a \<Longrightarrow> on_connected m a = (Inl (JsError ''MQTT client not connected''), a)"
  by (simp add: on_connected_def adapter_isConnected_def split: option.splits)

lemma on_connected_run:
  "ad_client a = Some c \<Longrightarrow> cn_connected c \<Longrightarrow>
     on_connected m a = (fst (m c), a\<lparr>ad_client := Some (snd (m c))\<rparr>)"
  by (simp add: on_connected_def split: prod.split)

text \<open>Disconnecting leaves a new adapter: no client, no callbacks.\<close>

lemma adapter_disconnect_run:
  assumes "mqtt_lib_ok L"
  shows "adapter_disconnect L a = (Inr (), if ad_client a = None then a else new_adapter)"
  by (simp add: adapter_disconnect_def mqtt_lib_okD[OF assms] removeAllListeners_def new_adapter_def
      split: option.split)

interpretation ad: mqtt_port "\<lambda>_. mqtt_lib_ok L" adapter_isConnected adapter_subs adapter_sent
  "adapter_subscribe L" "adapter_publish L" "adapter_disconnect L" for L :: "'cb mqtt_lib"
proof (unfold_locales, goal_cases)
  case (1 a ts)
  then obtain c where "ad_client a = Some c" "cn_connected c"
    by (auto simp: adapter_isConnected_def split: option.splits)
  with 1(1) show ?case
    by (simp add: adapter_subscribe_def on_connected_run mqtt_lib_okD adapter_isConnected_def
        adapter_subs_def adapter_sent_def)
next
  case (2 a t p opts)
  then obtain c where "ad_client a = Some c" "cn_connected c"
    by (auto simp: adapter_isConnected_def split: option.splits)
  with 2(1) show ?case
    by (simp add: adapter_publish_def on_connected_run mqtt_lib_okD adapter_isConnected_def
        adapter_subs_def adapter_sent_def)
next
  case (3 a ts)
  then show ?case by (simp add: adapter_subscribe_def not_connected)
next
  case (4 a t p opts)
  then show ?case by (simp add: adapter_publish_def not_connected)
next
  case (5 a)
  then show ?case
    by (simp add: adapter_disconnect_run adapter_isConnected_def new_adapter_def)
qed

section \<open>Listeners\<close>

lemma client_listeners_on [simp]:
  "client_listeners ev (client_on ev' cb c) = client_listeners ev c @ (if ev = ev' then [cb] else [])"
  by (simp add: client_listeners_def client_on_def)

lemma client_listeners_on_if_set [simp]:
  "client_listeners ev (on_if_set ev' callback c) =
     client_listeners ev c @ (if ev = ev' then (case callback of None \<Rightarrow> [] | Some cb \<Rightarrow> [cb]) else [])"
  by (simp add: on_if_set_def split: option.split)

lemma on_if_set_fields [simp]:
  "cn_connected (on_if_set ev callback c) = cn_connected c"
  "cn_clientId (on_if_set ev callback c) = cn_clientId c"
  "cn_hostname (on_if_set ev callback c) = cn_hostname c"
  "cn_subscriptions (on_if_set ev callback c) = cn_subscriptions c"
  "cn_outbox (on_if_set ev callback c) = cn_outbox c"
  by (simp_all add: on_if_set_def client_on_def split: option.split)

lemma client_listeners_new [simp]: "cn_listeners c = [] \<Longrightarrow> client_listeners ev c = []"
  by (simp add: client_listeners_def)

text \<open>
  The callbacks set before connecting become the listeners of the new client, one per event at most;
  the adapter is otherwise as it was, also when the library refuses to connect.
\<close>

definition adapter_listeners :: "mqtt_event \<Rightarrow> 'cb adapter \<Rightarrow> 'cb list" where
  "adapter_listeners ev a = (case ad_client a of None \<Rightarrow> [] | Some c \<Rightarrow> client_listeners ev c)"

lemma adapter_connect_run:
  assumes "mqtt_lib_ok L" "has_protocol url"
  shows "\<exists>c. adapter_connect L url opts a = (Inr (), a\<lparr>ad_client := Some c\<rparr>) \<and>
    \<not> cn_connected c \<and> cn_clientId c = mo_clientId opts \<and> cn_subscriptions c = [] \<and> cn_outbox c = [] \<and>
    client_listeners MessageEvent c = (case messageCallback a of None \<Rightarrow> [] | Some cb \<Rightarrow> [cb]) \<and>
    client_listeners ConnectEvent c = (case connectCallback a of None \<Rightarrow> [] | Some cb \<Rightarrow> [cb]) \<and>
    client_listeners CloseEvent c = (case disconnectCallback a of None \<Rightarrow> [] | Some cb \<Rightarrow> [cb]) \<and>
    client_listeners ErrorEvent c = (case errorCallback a of None \<Rightarrow> [] | Some cb \<Rightarrow> [cb]) \<and>
    client_listeners ReconnectEvent c = (case reconnectCallback a of None \<Rightarrow> [] | Some cb \<Rightarrow> [cb])"
proof -
  from mqtt_lib_okD(1)[OF assms(1), of url opts] assms(2) obtain h where
    "ml_connect L url opts = Inr \<lparr>cn_connected = False, cn_clientId = mo_clientId opts,
      cn_hostname = h, cn_subscriptions = [], cn_outbox = [], cn_listeners = []\<rparr>" by blast
  then show ?thesis
    by (simp add: adapter_connect_def Let_def) (intro exI conjI, rule HOL.refl, simp_all)
qed

lemma adapter_connect_refused:
  "ml_connect L url opts = Inl e \<Longrightarrow> adapter_connect L url opts a = (Inl e, a)"
  by (simp add: adapter_connect_def)

end
