(* ===== verification/JsonRoundtrip.thy ===== *)
theory JsonRoundtrip
  imports Json
begin

text \<open>
  The round trip of \<open>JSON.parse\<close> after \<open>JSON.stringify\<close>, by layers: decimal digits, integers,
  escaped strings, then values by induction with the rest of the text and the fuel generalised.
\<close>

section \<open>Digits and integers\<close>

lemma of_char_digit_char [simp]: "d < 10 \<Longrightarrow> of_char (digit_char d) = (48 + d :: nat)"
  by (simp add: digit_char_def)

lemma is_digit_digit_char [simp]: "d < 10 \<Longrightarrow> is_digit (digit_char d)"
  by (simp add: is_digit_def)

lemma digit_val_digit_char [simp]: "d < 10 \<Longrightarrow> digit_val (digit_char d) = d"
  by (simp add: digit_val_def)

lemma digits_val_append: "digits_val (s @ [c]) = 10 * digits_val s + digit_val c"
  by (simp add: digits_val_def)

lemma digits_val_show_nat [simp]: "digits_val (show_nat n) = n"
proof (induction n rule: show_nat.induct)
  case (1 n)
  show ?case
  proof (cases "n < 10")
    case True
    then show ?thesis by (subst show_nat.simps) (simp add: digits_val_def)
  next
    case False
    then show ?thesis
      by (subst show_nat.simps) (simp add: digits_val_append 1)
  qed
qed

lemma show_nat_digits: "\<forall>c \<in> set (show_nat n). is_digit c"
proof (induction n rule: show_nat.induct)
  case (1 n)
  then show ?case by (subst show_nat.simps) auto
qed

lemma show_nat_nonempty [simp]: "show_nat n \<noteq> []"
  by (subst show_nat.simps) simp

lemma show_nat_0 [simp]: "show_nat 0 = [CHR ''0'']"
proof -
  have "digit_char 0 = char_of (of_char CHR ''0'' :: nat)" by (simp add: digit_char_def)
  then show ?thesis by (subst show_nat.simps) (simp only: char_of_char, simp)
qed

lemma hd_show_nat: "n \<noteq> 0 \<Longrightarrow> hd (show_nat n) \<noteq> CHR ''0''"
proof (induction n rule: show_nat.induct)
  case (1 n)
  show ?case
  proof (cases "n < 10")
    case True
    have "digit_char n \<noteq> CHR ''0''"
    proof
      assume "digit_char n = CHR ''0''"
      then have "of_char (digit_char n) = (48 :: nat)" by simp
      with True 1(2) show False by simp
    qed
    with True show ?thesis by (subst show_nat.simps) simp
  next
    case False
    then have "hd (show_nat (n div 10)) \<noteq> CHR ''0''" using 1(1) by simp
    with False show ?thesis by (subst show_nat.simps) simp
  qed
qed

lemma show_nat_no_leading_zero: "length (show_nat n) > 1 \<Longrightarrow> hd (show_nat n) \<noteq> CHR ''0''"
  by (cases "n = 0") (auto simp: hd_show_nat)

text \<open>What may follow a number in JSON text.\<close>

definition num_end :: "string \<Rightarrow> bool" where
  "num_end r \<longleftrightarrow>
     (case r of [] \<Rightarrow> True
      | c # _ \<Rightarrow> \<not> is_digit c \<and> c \<noteq> CHR ''.'' \<and> c \<noteq> CHR ''e'' \<and> c \<noteq> CHR ''E'')"

lemma num_end_takeWhile [simp]: "num_end r \<Longrightarrow> takeWhile is_digit r = []"
  by (auto simp: num_end_def split: list.splits)

lemma num_end_dropWhile [simp]: "num_end r \<Longrightarrow> dropWhile is_digit r = r"
  by (auto simp: num_end_def split: list.splits)

lemma parse_fraction_end: "num_end r \<Longrightarrow> parse_fraction r = Some ([], r)"
  by (auto simp: parse_fraction_def num_end_def split: list.splits)

lemma parse_exponent_end: "num_end r \<Longrightarrow> parse_exponent r = Some (0, r)"
  by (auto simp: parse_exponent_def num_end_def split: list.splits)

lemma hd_show_nat_digit: "is_digit (hd (show_nat n))"
  using show_nat_digits[of n] by (cases "show_nat n") auto

lemma is_digit_not_minus: "is_digit c \<Longrightarrow> c \<noteq> CHR ''-''"
  by (auto simp: is_digit_def)

lemma parse_number_nat:
  assumes "num_end r"
  shows "parse_number (show_nat n @ r) = Some (of_nat n, r)"
proof -
  have hd: "hd (show_nat n @ r) \<noteq> CHR ''-''"
    using hd_show_nat_digit[of n] is_digit_not_minus by simp
  show ?thesis
    using assms show_nat_digits[of n] show_nat_no_leading_zero[of n] hd
    by (simp add: parse_number_def parse_fraction_end
        parse_exponent_end Let_def)
qed

lemma parse_number_neg:
  assumes "num_end r"
  shows "parse_number (CHR ''-'' # show_nat n @ r) = Some (- of_nat n, r)"
  using assms show_nat_digits[of n] show_nat_no_leading_zero[of n]
  by (simp add: parse_number_def parse_fraction_end
      parse_exponent_end Let_def)

lemma parse_number_show_int:
  assumes "num_end r"
  shows "parse_number (show_int i @ r) = Some (of_int i, r)"
  using assms parse_number_nat[of r "nat i"] parse_number_neg[of r "nat (- i)"]
  by (cases "i < 0") (simp_all add: show_int_def)

section \<open>Strings\<close>

lemma hex_val_hex_char: "d < 16 \<Longrightarrow> hex_val (hex_char d) = Some d"
  by (simp add: hex_val_def hex_char_def Let_def)

lemma char_of_hex: "char_of (16 * (of_char c div 16) + of_char c mod (16::nat)) = (c::char)"
  by (simp add: mult_div_mod_eq)

lemma parse_chars_esc:
  "parse_chars (esc_char c @ s) = map_option (\<lambda>(t, r). (c # t, r)) (parse_chars s)"
proof (cases "of_char c < (32::nat)")
  case True
  then have "of_char c div 16 < (16::nat)" "of_char c mod 16 < (16::nat)" by auto
  moreover have "hex_val CHR ''0'' = Some 0" by (simp add: hex_val_def)
  ultimately show ?thesis
    using True char_of_hex[of c]
    by (auto simp: esc_char_def unescape_def hex_val_hex_char)
next
  case False
  then show ?thesis by (auto simp: esc_char_def unescape_def)
qed

lemma parse_chars_show:
  "parse_chars (concat (map esc_char s) @ CHR 0x22 # r) = Some (s, r)"
  by (induction s) (simp_all add: parse_chars_esc)

section \<open>Values\<close>

text \<open>
  What comes back: dates as ISO strings, undefined properties dropped, undefined elements null.
\<close>

fun as_json :: "jsval \<Rightarrow> jsval" and
  as_json_members :: "(string \<times> jsval) list \<Rightarrow> (string \<times> jsval) list" where
  "as_json JUndefined = JNull"
| "as_json (JDate t) = JStr (toISOString t)"
| "as_json (JArr vs) = JArr (map as_json vs)"
| "as_json (JObj kvs) = JObj (as_json_members kvs)"
| "as_json v = v"
| "as_json_members [] = []"
| "as_json_members ((k, v) # kvs) =
     (if v = JUndefined then as_json_members kvs else (k, as_json v) # as_json_members kvs)"

text \<open>The values the round trip is exact on: integral numbers, and no key twice in an object.\<close>

fun json_ok :: "jsval \<Rightarrow> bool" where
  "json_ok (JNum n) \<longleftrightarrow> of_int \<lfloor>n\<rfloor> = n"
| "json_ok (JArr vs) \<longleftrightarrow> (\<forall>v \<in> set vs. json_ok v)"
| "json_ok (JObj kvs) \<longleftrightarrow> distinct (map fst kvs) \<and> (\<forall>(k, v) \<in> set kvs. json_ok v)"
| "json_ok _ \<longleftrightarrow> True"

text \<open>The fuel a value needs, which its text pays for.\<close>

fun need :: "jsval \<Rightarrow> nat" and need_elems :: "jsval list \<Rightarrow> nat" and
  need_members :: "(string \<times> jsval) list \<Rightarrow> nat" where
  "need (JArr vs) = Suc (need_elems vs)"
| "need (JObj kvs) = Suc (need_members kvs)"
| "need _ = 1"
| "need_elems [] = 0"
| "need_elems (v # vs) = Suc (max (need v) (need_elems vs))"
| "need_members [] = 0"
| "need_members ((k, v) # kvs) =
     (if v = JUndefined then need_members kvs else Suc (max (need v) (need_members kvs)))"

lemma length_js_join_Cons:
  "length (js_join [c] (x # xs)) = length x + (if xs = [] then 0 else Suc (length (js_join [c] xs)))"
  by (cases xs) simp_all

lemma show_num_nonempty: "of_int \<lfloor>n\<rfloor> = n \<Longrightarrow> 1 \<le> length (show_num n)"
  by (simp add: show_num_def show_int_def Suc_le_eq)

lemma need_le_length:
  "json_ok v \<Longrightarrow> need v \<le> length (stringify v)"
  "\<forall>v \<in> set vs. json_ok v \<Longrightarrow> need_elems vs \<le> Suc (length (js_join '','' (stringify_elems vs)))"
  "\<forall>(k, v) \<in> set kvs. json_ok v \<Longrightarrow>
     need_members kvs \<le> Suc (length (js_join '','' (stringify_members kvs)))"
proof (induction v and vs and kvs rule: stringify_stringify_elems_stringify_members.induct)
  case (4 n)
  then show ?case using show_num_nonempty[of n] by simp
next
  case (10 v vs)
  then have "need v \<le> length (stringify v)"
    and "need_elems vs \<le> Suc (length (js_join '','' (stringify_elems vs)))" by auto
  then show ?case by (cases vs) (auto simp: length_js_join_Cons)
next
  case (12 k v kvs)
  then have *: "need_members kvs \<le> Suc (length (js_join '','' (stringify_members kvs)))" by auto
  show ?case
  proof (cases "v = JUndefined")
    case True
    with * show ?thesis by simp
  next
    case False
    with 12 have "need v \<le> length (stringify v)" by auto
    with * False show ?thesis
      by (cases "stringify_members kvs") (auto simp: length_js_join_Cons show_str_def)
  qed
qed (auto simp: show_str_def)


lemma skip_ws_Cons: "\<not> is_ws c \<Longrightarrow> skip_ws (c # s) = c # s"
  by (simp add: skip_ws_def)

text \<open>The first character of a printed number decides the branch of the parser.\<close>

lemma show_int_first:
  obtains c cs where "show_int i = c # cs" "is_digit c \<or> c = CHR ''-''"
proof (cases "i < 0")
  case True
  with that show ?thesis by (simp add: show_int_def)
next
  case False
  obtain c cs where "show_nat (nat i) = c # cs" using show_nat_nonempty list.exhaust by blast
  moreover have "is_digit c" using hd_show_nat_digit[of "nat i"] calculation by simp
  ultimately show ?thesis using False that by (simp add: show_int_def)
qed

lemma number_char_not:
  assumes "is_digit c \<or> c = CHR ''-''"
  shows "\<not> is_ws c" "c \<noteq> CHR 0x22" "c \<noteq> CHR 0x5B" "c \<noteq> CHR 0x7B" "c \<noteq> CHR 0x5D"
    "c \<noteq> CHR 0x7D" "c \<noteq> CHR ''t''" "c \<noteq> CHR ''f''" "c \<noteq> CHR ''n''"
  using assms by (auto simp: is_digit_def is_ws_def)

lemma stringify_first:
  assumes "json_ok v"
  obtains c cs where "stringify v = c # cs" "\<not> is_ws c" "c \<noteq> CHR 0x5D" "c \<noteq> CHR 0x7D"
proof (cases v)
  case (JNum n)
  then have "stringify v = show_int \<lfloor>n\<rfloor>" using assms by (simp add: show_num_def)
  then show ?thesis using that by (metis show_int_first number_char_not(1,5,6))
next
  case (JBool b)
  with that show ?thesis by (cases b) (auto simp: is_ws_def)
qed (use that in \<open>auto simp: is_ws_def show_str_def\<close>)

lemma parse_value_num:
  assumes "of_int \<lfloor>x\<rfloor> = x" "num_end r"
  shows "parse_value (Suc n) (show_num x @ r) = Some (JNum x, r)"
proof -
  obtain c cs where c: "show_int \<lfloor>x\<rfloor> = c # cs" "is_digit c \<or> c = CHR ''-''"
    by (rule show_int_first)
  have "parse_number (c # cs @ r) = Some (x, r)"
    using parse_number_show_int[OF assms(2), of "\<lfloor>x\<rfloor>"] assms(1) c(1) by simp
  moreover have "show_num x = c # cs" using assms(1) c(1) by (simp add: show_num_def)
  ultimately show ?thesis
    using number_char_not[OF c(2)] by (simp add: skip_ws_Cons startsWith_def)
qed

lemma stringify_members_nonempty_need:
  "stringify_members kvs \<noteq> [] \<Longrightarrow> 1 \<le> need_members kvs"
  by (induction kvs) auto

lemma as_json_members_Nil: "stringify_members kvs = [] \<Longrightarrow> as_json_members kvs = []"
  by (induction kvs) (auto split: if_splits)

lemma js_join_Cons:
  "js_join sep (x # xs) = x @ (if xs = [] then [] else sep @ js_join sep xs)"
  by (cases xs) simp_all

lemma num_end_sep [simp]:
  "num_end (CHR '','' # r)" "num_end (CHR 0x5D # r)" "num_end (CHR 0x7D # r)" "num_end []"
  by (simp_all add: num_end_def is_digit_def)

lemma is_ws_sep [simp]:
  "\<not> is_ws CHR '',''" "\<not> is_ws CHR 0x5D" "\<not> is_ws CHR 0x7D" "\<not> is_ws CHR 0x22"
  "\<not> is_ws CHR '':''" "\<not> is_ws CHR 0x5B" "\<not> is_ws CHR 0x7B"
  by (simp_all add: is_ws_def)

lemma parse_str: "parse_value (Suc n) (show_str t @ r) = Some (JStr t, r)"
  using parse_chars_show[of t r] by (simp add: show_str_def skip_ws_Cons)

lemma parse_array:
  assumes "\<forall>v \<in> set vs. json_ok v"
    and elems: "vs \<noteq> [] \<Longrightarrow> parse_elems n (js_join '','' (stringify_elems vs) @ CHR 0x5D # r) =
                 Some (map as_json vs, r)"
  shows "parse_value (Suc n) (stringify (JArr vs) @ r) = Some (as_json (JArr vs), r)"
proof (cases vs)
  case Nil
  then show ?thesis by (simp add: skip_ws_Cons)
next
  case (Cons w ws)
  then have "json_ok w" using assms(1) by simp
  then obtain c cs where "stringify w = c # cs" "\<not> is_ws c" "c \<noteq> CHR 0x5D"
    by (rule stringify_first)
  with elems Cons show ?thesis by (simp add: skip_ws_Cons js_join_Cons)
qed

lemma parse_object:
  assumes "stringify_members kvs \<noteq> [] \<Longrightarrow>
    parse_members n (js_join '','' (stringify_members kvs) @ CHR 0x7D # r) =
      Some (as_json_members kvs, r)"
  shows "parse_value (Suc n) (stringify (JObj kvs) @ r) = Some (as_json (JObj kvs), r)"
proof (cases "stringify_members kvs")
  case Nil
  then show ?thesis by (simp add: skip_ws_Cons as_json_members_Nil)
next
  case (Cons w ws)
  have "\<exists>t. w = CHR 0x22 # t"
    using Cons by (induction kvs) (auto simp: show_str_def split: if_splits)
  then obtain t where "w = CHR 0x22 # t" ..
  with assms Cons show ?thesis by (simp add: skip_ws_Cons js_join_Cons)
qed

lemma parse_stringify:
  "json_ok v \<Longrightarrow> need v \<le> n \<Longrightarrow> num_end r \<Longrightarrow>
     parse_value n (stringify v @ r) = Some (as_json v, r)"
  "\<forall>v \<in> set vs. json_ok v \<Longrightarrow> vs \<noteq> [] \<Longrightarrow> need_elems vs \<le> n \<Longrightarrow>
     parse_elems n (js_join '','' (stringify_elems vs) @ CHR 0x5D # r) = Some (map as_json vs, r)"
  "\<forall>(k, v) \<in> set kvs. json_ok v \<Longrightarrow> stringify_members kvs \<noteq> [] \<Longrightarrow> need_members kvs \<le> n \<Longrightarrow>
     parse_members n (js_join '','' (stringify_members kvs) @ CHR 0x7D # r) =
       Some (as_json_members kvs, r)"
proof (induction v and vs and kvs arbitrary: n r and n r and n r
       rule: stringify_stringify_elems_stringify_members.induct)
  case 1
  then show ?case by (cases n) (auto simp: skip_ws_Cons is_ws_def startsWith_def)
next
  case 2
  then show ?case by (cases n) (auto simp: skip_ws_Cons is_ws_def startsWith_def)
next
  case (3 b)
  then show ?case by (cases n) (auto simp: skip_ws_Cons is_ws_def startsWith_def)
next
  case (4 x)
  then show ?case using parse_value_num[of x r] by (cases n) auto
next
  case (5 t)
  then show ?case using parse_str by (cases n) auto
next
  case (6 t)
  then show ?case using parse_str by (cases n) auto
next
  case (7 vs)
  then obtain m where n: "n = Suc m" "need_elems vs \<le> m" by (cases n) auto
  have "vs \<noteq> [] \<Longrightarrow> parse_elems m (js_join '','' (stringify_elems vs) @ CHR 0x5D # r) =
      Some (map as_json vs, r)"
    using 7 n(2) by simp
  with parse_array[of vs m r] 7(2) n(1) show ?case by simp
next
  case (8 kvs)
  then obtain m where n: "n = Suc m" "need_members kvs \<le> m" by (cases n) auto
  have "stringify_members kvs \<noteq> [] \<Longrightarrow>
      parse_members m (js_join '','' (stringify_members kvs) @ CHR 0x7D # r) =
      Some (as_json_members kvs, r)"
    using 8 n(2) by simp
  with parse_object[of kvs m r] n(1) show ?case by simp
next
  case 9
  then show ?case by simp
next
  case (10 v vs)
  then obtain m where n: "n = Suc m" "need v \<le> m" "need_elems vs \<le> m" by (cases n) auto
  let ?tail = "(if vs = [] then [] else CHR '','' # js_join '','' (stringify_elems vs)) @ CHR 0x5D # r"
  have "stringify_elems vs = [] \<longleftrightarrow> vs = []" by (cases vs) auto
  then have body: "js_join '','' (stringify_elems (v # vs)) @ CHR 0x5D # r = stringify v @ ?tail"
    by (simp add: js_join_Cons)
  have "num_end ?tail" by simp
  then have "parse_value m (stringify v @ ?tail) = Some (as_json v, ?tail)"
    using 10 n(2) by simp
  moreover have "vs \<noteq> [] \<Longrightarrow> parse_elems m (js_join '','' (stringify_elems vs) @ CHR 0x5D # r) =
      Some (map as_json vs, r)"
    using 10 n(3) by simp
  ultimately show ?case unfolding body n(1) by (simp add: skip_ws_Cons)
next
  case 11
  then show ?case by simp
next
  case (12 k v kvs)
  show ?case
  proof (cases "v = JUndefined")
    case True
    with 12 show ?thesis by simp
  next
    case False
    with 12 obtain m where n: "n = Suc m" "need v \<le> m" "need_members kvs \<le> m" by (cases n) auto
    let ?tail = "(if stringify_members kvs = [] then []
        else CHR '','' # js_join '','' (stringify_members kvs)) @ CHR 0x7D # r"
    have body: "js_join '','' (stringify_members ((k, v) # kvs)) @ CHR 0x7D # r =
        CHR 0x22 # concat (map esc_char k) @ CHR 0x22 # CHR '':'' # stringify v @ ?tail"
      using False by (simp add: js_join_Cons show_str_def)
    have "num_end ?tail" by simp
    then have "parse_value m (stringify v @ ?tail) = Some (as_json v, ?tail)"
      using 12 n(2) False by simp
    moreover have "stringify_members kvs \<noteq> [] \<Longrightarrow>
        parse_members m (js_join '','' (stringify_members kvs) @ CHR 0x7D # r) =
          Some (as_json_members kvs, r)"
      using 12 n(3) False by simp
    ultimately show ?thesis
      unfolding body n(1) using False as_json_members_Nil[of kvs]
      by (simp add: skip_ws_Cons parse_chars_show)
  qed
qed

text \<open>Objects with distinct keys are not changed by the treatment of repeated keys.\<close>

lemma foldl_map_set_distinct:
  "distinct (map fst (acc @ kvs)) \<Longrightarrow> foldl (\<lambda>m (k, v). map_set m k v) acc kvs = acc @ kvs"
proof (induction kvs arbitrary: acc)
  case (Cons kv kvs)
  obtain k v where "kv = (k, v)" by (cases kv)
  with Cons show ?case by (force simp: map_set_new)
qed simp

lemma fst_as_json_members: "set (map fst (as_json_members kvs)) \<subseteq> set (map fst kvs)"
  by (induction kvs) (force split: if_splits)+

lemma distinct_as_json_members: "distinct (map fst kvs) \<Longrightarrow> distinct (map fst (as_json_members kvs))"
proof (induction kvs)
  case (Cons kv kvs)
  then show ?case using fst_as_json_members[of kvs] by (cases kv) auto
qed simp

lemma map_snd_dedup: "map fst (map (\<lambda>(k, v). (k, f v)) kvs) = map fst kvs"
  by (induction kvs) auto

lemma dedup_as_json:
  "json_ok v \<Longrightarrow> dedup_keys (as_json v) = as_json v"
  "\<forall>(k, v) \<in> set kvs. json_ok v \<Longrightarrow>
     map (\<lambda>(k, v). (k, dedup_keys v)) (as_json_members kvs) = as_json_members kvs"
proof (induction v and kvs rule: as_json_as_json_members.induct)
  case (4 kvs)
  then show ?case
    using foldl_map_set_distinct[of "[]" "as_json_members kvs"] by (auto simp: distinct_as_json_members)
qed (auto intro: map_idI)

lemma json_roundtrip:
  assumes "json_ok v"
  shows "json_parse (stringify v) = Some (as_json v)"
proof -
  have "need v \<le> Suc (length (stringify v))" using need_le_length(1)[OF assms] by simp
  then have "parse_value (Suc (length (stringify v))) (stringify v @ []) = Some (as_json v, [])"
    using assms parse_stringify(1) num_end_sep(4) by blast
  then show ?thesis
    using dedup_as_json(1)[OF assms] by (simp add: json_parse_def skip_ws_def)
qed


section \<open>Properties of objects that went through JSON\<close>

lemma json_ok_as_json:
  "json_ok v \<Longrightarrow> json_ok (as_json v)"
  "\<forall>(k, v) \<in> set kvs. json_ok v \<Longrightarrow> \<forall>(k, v) \<in> set (as_json_members kvs). json_ok v"
proof (induction v and kvs rule: as_json_as_json_members.induct)
  case (4 kvs)
  then show ?case by (auto simp: distinct_as_json_members)
qed (auto split: if_splits)

lemma map_of_as_json_members:
  "distinct (map fst kvs) \<Longrightarrow>
     map_of (as_json_members kvs) k =
       (case map_of kvs k of None \<Rightarrow> None | Some v \<Rightarrow> if v = JUndefined then None else Some (as_json v))"
proof (induction kvs)
  case (Cons kv kvs)
  obtain k' v where kv: "kv = (k', v)" by (cases kv)
  have "k' \<notin> set (map fst (as_json_members kvs))"
    using Cons.prems fst_as_json_members[of kvs] kv by auto
  then have "map_of (as_json_members kvs) k' = None" by (simp add: map_of_eq_None_iff)
  then show ?case using Cons kv by auto
qed simp

lemma json_ok_js_set:
  assumes "json_ok (JObj kvs)" "json_ok v"
  shows "json_ok (JObj (map_set kvs k v))"
proof -
  have "set (map_set kvs k v) \<subseteq> insert (k, v) (set kvs)"
    by (induction kvs k v rule: map_set.induct) auto
  then show ?thesis using assms distinct_map_set by force
qed

end
