(* ===== verification/Redis.thy ===== *)
theory Redis
  imports Platform JsonRoundtrip "HOL-Library.List_Lexorder" "HOL-Library.Char_ord"
begin

text \<open>
  \<open>redis/redis.service.ts\<close> over a Redis client. The client is a parameter that acts on the live
  keys of the store (\<open>kv\<close>: the value and the time to live it was given, in milliseconds); \<open>redis_ok\<close> states what
  the commands do on a reachable server. A key that expires is removed by the environment
  (\<open>expire_key\<close>).
\<close>

type_synonym kv_store = "string \<rightharpoonup> string \<times> int option"

record redis_client =
  rc_get :: "string \<Rightarrow> (kv_store, string option) act"
  rc_set :: "string \<Rightarrow> string \<Rightarrow> int option \<Rightarrow> (kv_store, unit) act"
  rc_setex :: "string \<Rightarrow> int \<Rightarrow> string \<Rightarrow> (kv_store, unit) act"
  rc_del :: "string \<Rightarrow> (kv_store, int) act"
  rc_scan :: "string \<Rightarrow> string \<Rightarrow> nat \<Rightarrow> (kv_store, string \<times> string list) act"
  rc_set_px_nx :: "string \<Rightarrow> string \<Rightarrow> int \<Rightarrow> (kv_store, string option) act"

record redis_env = rt_env +
  redis :: redis_client

record redis_state = runtime +
  kv :: kv_store

definition on_kv :: "(kv_store, 'a) act \<Rightarrow> ('z redis_state_scheme, 'a) act" where
  "on_kv m = zoom kv (\<lambda>d. kv_update (\<lambda>_. d)) m"

lemma on_kv_run [act_simps]: "on_kv m s = (fst (m (kv s)), s\<lparr>kv := snd (m (kv s))\<rparr>)"
  by (simp add: on_kv_def zoom_run)

section \<open>RedisService\<close>

text \<open>\<open>get\<close>: null for a missing or empty value, the parsed JSON, or the raw text if it is not JSON.\<close>

definition redis_get :: "'e redis_env_scheme \<Rightarrow> string \<Rightarrow> ('z redis_state_scheme, jsval) act" where
  "redis_get E key =
     bnd (on_kv (rc_get (redis E) key)) (\<lambda>raw.
       case raw of
         None \<Rightarrow> ok JNull
       | Some t \<Rightarrow>
           if t = [] then ok JNull
           else (case json_parse t of Some v \<Rightarrow> ok v | None \<Rightarrow> ok (JStr t)))"

definition redis_set ::
  "'e redis_env_scheme \<Rightarrow> string \<Rightarrow> jsval \<Rightarrow> int option \<Rightarrow> ('z redis_state_scheme, unit) act" where
  "redis_set E key value ttlSeconds =
     (let payload = (case value of JStr t \<Rightarrow> t | _ \<Rightarrow> stringify value) in
      case ttlSeconds of
        Some n \<Rightarrow> if n \<noteq> 0 then on_kv (rc_set (redis E) key payload (Some n))
                  else on_kv (rc_set (redis E) key payload None)
      | None \<Rightarrow> on_kv (rc_set (redis E) key payload None))"

definition redis_setex ::
  "'e redis_env_scheme \<Rightarrow> string \<Rightarrow> string \<Rightarrow> int \<Rightarrow> ('z redis_state_scheme, unit) act" where
  "redis_setex E key value ttlSeconds = on_kv (rc_setex (redis E) key ttlSeconds value)"

definition redis_scan ::
  "'e redis_env_scheme \<Rightarrow> string \<Rightarrow> string \<Rightarrow> nat \<Rightarrow>
     ('z redis_state_scheme, string \<times> string list) act" where
  "redis_scan E scanCursor pattern count = on_kv (rc_scan (redis E) scanCursor pattern count)"

definition redis_del :: "'e redis_env_scheme \<Rightarrow> string \<Rightarrow> ('z redis_state_scheme, int) act" where
  "redis_del E key = on_kv (rc_del (redis E) key)"

definition redis_setIfNotExists ::
  "'e redis_env_scheme \<Rightarrow> string \<Rightarrow> jsval \<Rightarrow> int \<Rightarrow> ('z redis_state_scheme, bool) act" where
  "redis_setIfNotExists E key value ttlMs =
     bnd (on_kv (rc_set_px_nx (redis E) key (stringify value) ttlMs)) (\<lambda>res. ok (res = Some ''OK''))"

section \<open>A reachable server\<close>

definition redis_ok :: "redis_client \<Rightarrow> bool" where
  "redis_ok C \<longleftrightarrow>
     (\<forall>k m. rc_get C k m = (Inr (map_option fst (m k)), m)) \<and>
     (\<forall>k v t m. rc_set C k v t m = (Inr (), m(k \<mapsto> (v, map_option ((*) 1000) t)))) \<and>
     (\<forall>k n v m. 0 < n \<longrightarrow> rc_setex C k n v m = (Inr (), m(k \<mapsto> (v, Some (1000 * n))))) \<and>
     (\<forall>k m. rc_del C k m = (Inr (if k \<in> dom m then 1 else 0), m(k := None))) \<and>
     (\<forall>k v n m. rc_set_px_nx C k v n m =
        (if k \<in> dom m then (Inr None, m) else (Inr (Some ''OK''), m(k \<mapsto> (v, Some n)))))"

lemma redis_ok_simps:
  assumes "redis_ok C"
  shows "rc_get C k m = (Inr (map_option fst (m k)), m)"
    "rc_set C k v t m = (Inr (), m(k \<mapsto> (v, map_option ((*) 1000) t)))"
    "0 < n \<Longrightarrow> rc_setex C k n v m = (Inr (), m(k \<mapsto> (v, Some (1000 * n))))"
    "rc_del C k m = (Inr (if k \<in> dom m then 1 else 0), m(k := None))"
    "rc_set_px_nx C k v n m =
       (if k \<in> dom m then (Inr None, m) else (Inr (Some ''OK''), m(k \<mapsto> (v, Some n))))"
  using assms by (simp_all add: redis_ok_def)

definition expire_key :: "string \<Rightarrow> 'z redis_state_scheme \<Rightarrow> 'z redis_state_scheme" where
  "expire_key k s = s\<lparr>kv := (kv s)(k := None)\<rparr>"

text \<open>What is read under a key.\<close>

definition cached :: "kv_store \<Rightarrow> string \<Rightarrow> jsval" where
  "cached m k =
     (case m k of
        None \<Rightarrow> JNull
      | Some (t, _) \<Rightarrow>
          if t = [] then JNull
          else (case json_parse t of Some v \<Rightarrow> v | None \<Rightarrow> JStr t))"

lemma redis_get_ok [act_simps]:
  "redis_ok (redis E) \<Longrightarrow> redis_get E k s = (Inr (cached (kv s) k), s)"
  by (auto simp: redis_get_def act_simps redis_ok_simps cached_def split: option.splits)

lemma redis_setex_ok [act_simps]:
  "redis_ok (redis E) \<Longrightarrow> 0 < n \<Longrightarrow>
     redis_setex E k v n s = (Inr (), s\<lparr>kv := (kv s)(k \<mapsto> (v, Some (1000 * n)))\<rparr>)"
  by (simp add: redis_setex_def act_simps redis_ok_simps)

lemma redis_del_ok [act_simps]:
  "redis_ok (redis E) \<Longrightarrow>
     redis_del E k s = (Inr (if k \<in> dom (kv s) then 1 else 0), s\<lparr>kv := (kv s)(k := None)\<rparr>)"
  by (simp add: redis_del_def act_simps redis_ok_simps)

lemma cached_upd [simp]: "k' \<noteq> k \<Longrightarrow> cached (m(k := x)) k' = cached m k'"
  by (simp add: cached_def)

lemma cached_None [simp]: "cached (m(k := None)) k = JNull"
  by (simp add: cached_def)

lemma stringify_JObj_nonempty [simp]: "stringify (JObj kvs) \<noteq> []"
  by simp

text \<open>What was stored with \<open>JSON.stringify\<close> comes back as JSON carries it.\<close>

lemma cached_stringify:
  "json_ok (JObj kvs) \<Longrightarrow> cached (m(k \<mapsto> (stringify (JObj kvs), t))) k = as_json (JObj kvs)"
  using json_roundtrip[of "JObj kvs"] by (simp add: cached_def)

text \<open>
  \<open>SCAN\<close>. A call leaves the store alone and returns stored keys that match the pattern; for a pattern
  that is literal text and a final star these are the keys with the prefix. An iteration is
  the sequence of calls from cursor 0 until cursor 0 comes back, the store possibly shrinking
  in between; it returns every matching key that was there throughout, and it ends.
\<close>

definition glob_literal :: "string \<Rightarrow> bool" where
  "glob_literal p \<longleftrightarrow> set p \<inter> {CHR ''*'', CHR ''?'', CHR 0x5B, CHR 0x5D, CHR 0x5C} = {}"

fun scan_trace :: "redis_client \<Rightarrow> string \<Rightarrow> string \<Rightarrow> (kv_store \<times> string list \<times> string) list \<Rightarrow> bool" where
  "scan_trace C pat cur [] = False"
| "scan_trace C pat cur ((m, ks, nxt) # rest) =
     (fst (rc_scan C cur pat 100 m) = Inr (nxt, ks) \<and>
      (if nxt = ''0'' then rest = [] else scan_trace C pat nxt rest))"

definition scan_ok :: "redis_client \<Rightarrow> bool" where
  "scan_ok C \<longleftrightarrow>
     (\<forall>p cur n m. glob_literal p \<longrightarrow>
        (\<exists>nxt ks. rc_scan C cur (p @ ''*'') n m = (Inr (nxt, ks), m) \<and>
           (\<forall>k \<in> set ks. k \<in> dom m \<and> startsWith k p))) \<and>
     (\<forall>p tr k. glob_literal p \<longrightarrow> scan_trace C (p @ ''*'') ''0'' tr \<longrightarrow>
        (\<forall>(m, _, _) \<in> set tr. finite (dom m) \<and> k \<in> dom m) \<longrightarrow> startsWith k p \<longrightarrow>
        (\<exists>(_, ks, _) \<in> set tr. k \<in> set ks)) \<and>
     (\<forall>p ms cs. glob_literal p \<longrightarrow> cs 0 = ''0'' \<longrightarrow> (\<forall>i. dom (ms (Suc i)) \<subseteq> dom (ms i)) \<longrightarrow>
        (\<forall>i. \<exists>ks. fst (rc_scan C (cs i) (p @ ''*'') 100 (ms i)) = Inr (cs (Suc i), ks)) \<longrightarrow>
        (\<exists>i. cs (Suc i) = ''0''))"

text \<open>An instance: an in-memory store whose \<open>SCAN\<close> answers in one reply.\<close>

definition mem_redis :: redis_client where
  "mem_redis = \<lparr>
     rc_get = (\<lambda>k m. (Inr (map_option fst (m k)), m)),
     rc_set = (\<lambda>k v t m. (Inr (), m(k \<mapsto> (v, map_option ((*) 1000) t)))),
     rc_setex = (\<lambda>k n v m.
       if 0 < n then (Inr (), m(k \<mapsto> (v, Some (1000 * n))))
       else (Inl (LibraryError ''ERR invalid expire time''), m)),
     rc_del = (\<lambda>k m. (Inr (if k \<in> dom m then 1 else 0), m(k := None))),
     rc_scan = (\<lambda>_ pat _ m.
       (Inr (''0'', sorted_list_of_set {k \<in> dom m. startsWith k (butlast pat)}), m)),
     rc_set_px_nx = (\<lambda>k v n m.
       if k \<in> dom m then (Inr None, m) else (Inr (Some ''OK''), m(k \<mapsto> (v, Some n))))\<rparr>"

lemma redis_ok_mem_redis [simp]: "redis_ok mem_redis"
  by (simp add: redis_ok_def mem_redis_def)

lemma sorted_list_of_set_subset: "set (sorted_list_of_set A) \<subseteq> A"
  by (cases "finite A") (simp_all add: sorted_list_of_set.fold_insort_key.infinite)

lemma mem_redis_scan:
  "rc_scan mem_redis cur (p @ ''*'') n m =
     (Inr (''0'', sorted_list_of_set {k \<in> dom m. startsWith k p}), m)"
  by (simp add: mem_redis_def butlast_append)

lemma scan_ok_mem_redis [simp]: "scan_ok mem_redis"
  unfolding scan_ok_def
proof (intro conjI allI impI, goal_cases)
  case (1 p cur n m)
  then show ?case
    using sorted_list_of_set_subset[of "{k \<in> dom m. startsWith k p}"]
    by (fastforce simp: mem_redis_scan)
next
  case (2 p tr k)
  obtain m ks nxt rest where tr: "tr = (m, ks, nxt) # rest"
    using 2(2) by (cases tr) auto
  with 2 have "finite {k \<in> dom m. startsWith k p}" "k \<in> dom m"
    "ks = sorted_list_of_set {k \<in> dom m. startsWith k p}"
    by (auto simp: mem_redis_scan)
  with tr 2(4) show ?case by simp
next
  case (3 p ms cs)
  then show ?case by (auto simp: mem_redis_scan)
qed

end
