(* ===== verification/Enums.thy ===== *)
theory Enums
  imports Main
begin

text \<open>
  The enumerations of \<open>config/enum\<close>, \<open>config/types\<close>, \<open>topic/enum\<close> and \<open>common/enum\<close> the modelled
  services branch on, with the strings or numbers they stand for.
\<close>

datatype role = VIEWER | TEST | ENGINEER | ADMIN | SUPER_ADMIN

fun role_value :: "role \<Rightarrow> string" where
  "role_value VIEWER = ''viewer''"
| "role_value TEST = ''test''"
| "role_value ENGINEER = ''engineer''"
| "role_value ADMIN = ''admin''"
| "role_value SUPER_ADMIN = ''super-admin''"

lemma role_value_inj [simp]: "role_value a = role_value b \<longleftrightarrow> a = b"
  by (cases a; cases b) auto

datatype topic_use_case =
    ASSIGN_DEVICE_FUNCTION | NETWORK_CONFIGURATION | SET_SENSOR_CONFIGURATION
  | GET_SENSOR_CONFIGURATION | HARDWARE_STATUS | FIRMWARE_STATUS | FIRMWARE_UPDATE
  | TELEMETRY_QUEUE | REBOOT_COMMAND | DEVICE_BASE | DIAGNOSTICS | DISCOVERY | TELEMETRY
  | HEARTBEAT | BROADCAST

fun use_case_value :: "topic_use_case \<Rightarrow> string" where
  "use_case_value ASSIGN_DEVICE_FUNCTION = ''assign''"
| "use_case_value NETWORK_CONFIGURATION = ''netconfig''"
| "use_case_value SET_SENSOR_CONFIGURATION = ''config/set''"
| "use_case_value GET_SENSOR_CONFIGURATION = ''config/get''"
| "use_case_value HARDWARE_STATUS = ''hardware-status''"
| "use_case_value FIRMWARE_STATUS = ''firmware/status''"
| "use_case_value FIRMWARE_UPDATE = ''firmware/upgrade''"
| "use_case_value TELEMETRY_QUEUE = ''telemetry-queue''"
| "use_case_value REBOOT_COMMAND = ''reboot''"
| "use_case_value DEVICE_BASE = ''base''"
| "use_case_value DIAGNOSTICS = ''diagnose''"
| "use_case_value DISCOVERY = ''discovery''"
| "use_case_value TELEMETRY = ''telemetry''"
| "use_case_value HEARTBEAT = ''heartbeat''"
| "use_case_value BROADCAST = ''broadcast''"

text \<open>\<open>Object.values(TopicUseCase)\<close>, in declaration order.\<close>

definition all_use_cases :: "topic_use_case list" where
  "all_use_cases =
     [ASSIGN_DEVICE_FUNCTION, NETWORK_CONFIGURATION, SET_SENSOR_CONFIGURATION,
      GET_SENSOR_CONFIGURATION, HARDWARE_STATUS, FIRMWARE_STATUS, FIRMWARE_UPDATE,
      TELEMETRY_QUEUE, REBOOT_COMMAND, DEVICE_BASE, DIAGNOSTICS, DISCOVERY, TELEMETRY,
      HEARTBEAT, BROADCAST]"

lemma all_use_cases_complete [simp]: "u \<in> set all_use_cases"
  by (cases u) (simp_all add: all_use_cases_def)

lemma distinct_all_use_cases: "distinct (map use_case_value all_use_cases)"
  by (simp add: all_use_cases_def)

lemma use_case_value_inj [simp]: "use_case_value a = use_case_value b \<longleftrightarrow> a = b"
  by (metis all_use_cases_complete distinct_all_use_cases distinct_map inj_onD)

datatype device_capability =
    TEMPERATURE | HUMIDITY | PRESSURE | LIGHT | MOTION | CO2 | RELAY | GPS | AMMONIA

fun capability_value :: "device_capability \<Rightarrow> string" where
  "capability_value TEMPERATURE = ''temperature''"
| "capability_value HUMIDITY = ''humidity''"
| "capability_value PRESSURE = ''pressure''"
| "capability_value LIGHT = ''light''"
| "capability_value MOTION = ''motion''"
| "capability_value CO2 = ''co2''"
| "capability_value RELAY = ''relay''"
| "capability_value GPS = ''gps''"
| "capability_value AMMONIA = ''ammonia''"

datatype provision_state = PS_DISCOVERED | PS_UNASSIGEND | PS_ASSIGNED | PS_ACTIVE | PS_ERROR

datatype connection_state = CS_ONLINE | CS_OFFLINE | CS_ERROR

datatype ack_status = ACCEPTED | REJECTED | ACK_ACCESS_DENIED

fun ack_status_value :: "ack_status \<Rightarrow> string" where
  "ack_status_value ACCEPTED = ''accepted''"
| "ack_status_value REJECTED = ''rejected''"
| "ack_status_value ACK_ACCESS_DENIED = ''access_denied''"

datatype reboot_status = RB_SUCCESS | RB_FAILURE | RB_SCHEDULED

datatype upgrade_status = UP_SUCCESS | UP_FAILURE | UP_PROCESSING | UP_SCHEDULED

fun upgrade_status_value :: "upgrade_status \<Rightarrow> string" where
  "upgrade_status_value UP_SUCCESS = ''success''"
| "upgrade_status_value UP_FAILURE = ''failure''"
| "upgrade_status_value UP_PROCESSING = ''processing''"
| "upgrade_status_value UP_SCHEDULED = ''scheduled''"

datatype token_type = ACCESS_TOKEN | REFRESH_TOKEN | RESET_TOKEN

fun token_type_value :: "token_type \<Rightarrow> string" where
  "token_type_value ACCESS_TOKEN = ''accessToken''"
| "token_type_value REFRESH_TOKEN = ''refreshToken''"
| "token_type_value RESET_TOKEN = ''resetToken''"

datatype request_message_code =
    REQUEST_DISCOVERY | REQUEST_ASSIGN_DEVICE_FUNCTION | REQUEST_SET_SENSOR_CONFIG
  | REQUEST_GET_SENSOR_CONFIG | REQUEST_NETWORK_CONFIG | REQUEST_FIRMWARE_UPDATE | REQUEST_REBOOT
  | REQUEST_AUTO_DIAGNOSTIC | REQUEST_OFFLINE_COMMAND_QUEUE | REQUEST_DEVICE_STATUS
  | REQUEST_HEARTBEAT | REQUEST_HARDWARE_METRICS | REQUEST_TELEMETRY_DATA

fun request_code_value :: "request_message_code \<Rightarrow> string" where
  "request_code_value REQUEST_DISCOVERY = ''REQUEST_DISCOVERY''"
| "request_code_value REQUEST_ASSIGN_DEVICE_FUNCTION = ''REQUEST_ASSIGN_DEVICE_FUNCTION''"
| "request_code_value REQUEST_SET_SENSOR_CONFIG = ''REQUEST_SET_SENSOR_CONFIG''"
| "request_code_value REQUEST_GET_SENSOR_CONFIG = ''REQUEST_GET_SENSOR_CONFIG''"
| "request_code_value REQUEST_NETWORK_CONFIG = ''REQUEST_NETWORK_CONFIG''"
| "request_code_value REQUEST_FIRMWARE_UPDATE = ''REQUEST_FIRMWARE_UPDATE''"
| "request_code_value REQUEST_REBOOT = ''REQUEST_REBOOT''"
| "request_code_value REQUEST_AUTO_DIAGNOSTIC = ''REQUEST_AUTO_DIAGNOSTIC''"
| "request_code_value REQUEST_OFFLINE_COMMAND_QUEUE = ''REQUEST_OFFLINE_COMMAND_QUEUE''"
| "request_code_value REQUEST_DEVICE_STATUS = ''REQUEST_DEVICE_STATUS''"
| "request_code_value REQUEST_HEARTBEAT = ''REQUEST_HEARTBEAT''"
| "request_code_value REQUEST_HARDWARE_METRICS = ''REQUEST_HARDWARE_METRICS''"
| "request_code_value REQUEST_TELEMETRY_DATA = ''REQUEST_TELEMETRY_DATA''"

datatype response_message_code =
    RESPONSE_DISCOVERY | RESPONSE_ASSIGN_DEVICE_FUNCTION | RESPONSE_SET_SENSOR_CONFIG
  | RESPONSE_GET_SENSOR_CONFIG | RESPONSE_NETWORK_CONFIGURATION_ACKNOWLEDGEMENT
  | RESPONSE_FIRMWARE_UPDATE_STATUS | RESPONSE_REBOOT_CONFIRMATION | RESPONSE_AUTO_DIAGNOSTIC
  | RESPONSE_OFFLINE_COMMAND_QUEUE | RESPONSE_DEVICE_STATUS | RESPONSE_HEARTBEAT
  | RESPONSE_HARDWARE_METRICS | RESPONSE_TELEMETRY_DATA

fun response_code_value :: "response_message_code \<Rightarrow> int" where
  "response_code_value RESPONSE_DISCOVERY = 200"
| "response_code_value RESPONSE_ASSIGN_DEVICE_FUNCTION = 201"
| "response_code_value RESPONSE_SET_SENSOR_CONFIG = 202"
| "response_code_value RESPONSE_GET_SENSOR_CONFIG = 203"
| "response_code_value RESPONSE_NETWORK_CONFIGURATION_ACKNOWLEDGEMENT = 204"
| "response_code_value RESPONSE_FIRMWARE_UPDATE_STATUS = 205"
| "response_code_value RESPONSE_REBOOT_CONFIRMATION = 206"
| "response_code_value RESPONSE_AUTO_DIAGNOSTIC = 207"
| "response_code_value RESPONSE_OFFLINE_COMMAND_QUEUE = 208"
| "response_code_value RESPONSE_DEVICE_STATUS = 209"
| "response_code_value RESPONSE_HEARTBEAT = 210"
| "response_code_value RESPONSE_HARDWARE_METRICS = 211"
| "response_code_value RESPONSE_TELEMETRY_DATA = 212"

end
