(* ===== verification/MqttRouter.thy ===== *)
theory MqttRouter
  imports JsValues "HOL-Library.Multiset"
begin

text \<open>
  The routing of incoming MQTT messages: the handler classes of
  \<open>mqtt-client/handler/mqtt-message.handler.ts\<close>, the router of
  \<open>mqtt-client/router/mqtt-message.router.ts\<close>, and the registry
  \<open>MqttClientService.initializeMessageRouter\<close> builds. The locale \<open>exclusive_handlers\<close> is the
  contract of a registry in which no topic has two handlers; the registry of the code is an
  instance of it, so its routing does not depend on priorities or on registration order.
\<close>

section \<open>Handlers\<close>

text \<open>
  The interface \<open>IMqttMessageHandler\<close>. A topic may be missing (\<open>topic?.endsWith\<close>), and
  \<open>getPriority\<close> is optional.
\<close>

record message_handler =
  constructor_name :: string
  can_handle :: "string option \<Rightarrow> bool"
  handle_message :: "string option \<Rightarrow> jsval \<Rightarrow> exn + string"
  get_priority :: "int option"

text \<open>A subclass of \<open>BaseMqttMessageHandler\<close> is its suffix, its priority and its event name.\<close>

record base_handler =
  class_name :: string
  topicSuffix :: string
  priority :: int
  event_name :: string

definition canHandle :: "base_handler \<Rightarrow> string option \<Rightarrow> bool" where
  "canHandle h topic = (case topic of None \<Rightarrow> False | Some t \<Rightarrow> endsWith t (topicSuffix h))"

definition validatePayload :: "jsval \<Rightarrow> exn + unit" where
  "validatePayload payload =
     (if payload = JNull \<or> payload = JUndefined
      then Inl (JsError ''Payload cannot be null or undefined'')
      else if js_typeof payload \<noteq> ''object''
      then Inl (JsError ''Payload must be a JSON object'')
      else Inr ())"

definition base_handle :: "base_handler \<Rightarrow> string option \<Rightarrow> jsval \<Rightarrow> exn + string" where
  "base_handle h topic payload =
     (case validatePayload payload of Inl e \<Rightarrow> Inl e | Inr _ \<Rightarrow> Inr (event_name h))"

definition as_handler :: "base_handler \<Rightarrow> message_handler" where
  "as_handler h = \<lparr>constructor_name = class_name h, can_handle = canHandle h,
     handle_message = base_handle h, get_priority = Some (priority h)\<rparr>"

definition DiscoveryMessageHandler :: base_handler where
  "DiscoveryMessageHandler = \<lparr>class_name = ''DiscoveryMessageHandler'',
     topicSuffix = ''/discovery'', priority = 10, event_name = ''mqtt/message/discovery''\<rparr>"

definition AssignmentMessageHandler :: base_handler where
  "AssignmentMessageHandler = \<lparr>class_name = ''AssignmentMessageHandler'',
     topicSuffix = ''/assign'', priority = 10, event_name = ''mqtt/message/assign''\<rparr>"

definition ConfigurationGetMessageHandler :: base_handler where
  "ConfigurationGetMessageHandler = \<lparr>class_name = ''ConfigurationGetMessageHandler'',
     topicSuffix = ''/config/get'', priority = 10, event_name = ''mqtt/message/config/get''\<rparr>"

definition ConfigurationSetMessageHandler :: base_handler where
  "ConfigurationSetMessageHandler = \<lparr>class_name = ''ConfigurationSetMessageHandler'',
     topicSuffix = ''/config/set'', priority = 10, event_name = ''mqtt/message/config/set''\<rparr>"

definition AcknowledgeMessageHandler :: base_handler where
  "AcknowledgeMessageHandler = \<lparr>class_name = ''AcknowledgeMessageHandler'',
     topicSuffix = ''/ack'', priority = 10, event_name = ''mqtt/message/ack''\<rparr>"

definition FirmwareUpgradeMessageHandler :: base_handler where
  "FirmwareUpgradeMessageHandler = \<lparr>class_name = ''FirmwareUpgradeMessageHandler'',
     topicSuffix = ''/upgrade'', priority = 10, event_name = ''mqtt/message/upgrade''\<rparr>"

definition HeartbeatMessageHandler :: base_handler where
  "HeartbeatMessageHandler = \<lparr>class_name = ''HeartbeatMessageHandler'',
     topicSuffix = ''/heartbeat'', priority = 5, event_name = ''mqtt/message/heartbeat''\<rparr>"

definition RebootMessageHandler :: base_handler where
  "RebootMessageHandler = \<lparr>class_name = ''RebootMessageHandler'',
     topicSuffix = ''/reboot'', priority = 10, event_name = ''mqtt/message/reboot''\<rparr>"

definition TelemetryMessageHandler :: base_handler where
  "TelemetryMessageHandler = \<lparr>class_name = ''TelemetryMessageHandler'',
     topicSuffix = ''/telemetry'', priority = 8, event_name = ''mqtt/message/telemetry''\<rparr>"

definition HardwareStatusMessageHandler :: base_handler where
  "HardwareStatusMessageHandler = \<lparr>class_name = ''HardwareStatusMessageHandler'',
     topicSuffix = ''/hardware_status'', priority = 8,
     event_name = ''mqtt/message/hardware-status''\<rparr>"

definition AlertMessageHandler :: base_handler where
  "AlertMessageHandler = \<lparr>class_name = ''AlertMessageHandler'',
     topicSuffix = ''/alert'', priority = 15, event_name = ''mqtt/message/alert''\<rparr>"

section \<open>Router\<close>

text \<open>The private \<open>Map\<close> from class names to handlers.\<close>

type_synonym router = "(string \<times> message_handler) list"

definition register :: "message_handler \<Rightarrow> router \<Rightarrow> router" where
  "register h r = map_set r (constructor_name h) h"

definition unregister :: "string \<Rightarrow> router \<Rightarrow> router" where
  "unregister handlerName r = map_delete r handlerName"

definition getRegisteredHandlers :: "router \<Rightarrow> string list" where
  "getRegisteredHandlers r = map fst r"

definition clear_handlers :: "router \<Rightarrow> router" where
  "clear_handlers r = []"

definition handler_priority :: "message_handler \<Rightarrow> int" where
  "handler_priority h = (case get_priority h of None \<Rightarrow> 0 | Some p \<Rightarrow> p)"

text \<open>\<open>Array.prototype.sort\<close> is stable, as \<open>sort_key\<close> is.\<close>

definition sorted_handlers :: "router \<Rightarrow> message_handler list" where
  "sorted_handlers r = sort_key (\<lambda>h. - handler_priority h) (map snd r)"

definition route :: "router \<Rightarrow> string option \<Rightarrow> jsval \<Rightarrow> exn + string" where
  "route r topic payload =
     (case List.find (\<lambda>h. can_handle h topic) (sorted_handlers r) of
        Some h \<Rightarrow> handle_message h topic payload
      | None \<Rightarrow> Inr ''mqtt/message/unknown'')"

text \<open>\<open>MqttClientService.initializeMessageRouter\<close>: the eleven handlers, in this order.\<close>

definition default_handlers :: "base_handler list" where
  "default_handlers =
     [DiscoveryMessageHandler, AssignmentMessageHandler, ConfigurationGetMessageHandler,
      ConfigurationSetMessageHandler, AcknowledgeMessageHandler, FirmwareUpgradeMessageHandler,
      HeartbeatMessageHandler, RebootMessageHandler, TelemetryMessageHandler,
      HardwareStatusMessageHandler, AlertMessageHandler]"

definition register_all :: "message_handler list \<Rightarrow> router" where
  "register_all hs = foldl (\<lambda>r h. register h r) [] hs"

definition initializeMessageRouter :: router where
  "initializeMessageRouter = register_all (map as_handler default_handlers)"

lemmas handler_class_defs =
  DiscoveryMessageHandler_def AssignmentMessageHandler_def ConfigurationGetMessageHandler_def
  ConfigurationSetMessageHandler_def AcknowledgeMessageHandler_def
  FirmwareUpgradeMessageHandler_def HeartbeatMessageHandler_def RebootMessageHandler_def
  TelemetryMessageHandler_def HardwareStatusMessageHandler_def AlertMessageHandler_def

section \<open>The registry\<close>

text \<open>Every key is the class name of its handler, and no key occurs twice.\<close>

definition router_wf :: "router \<Rightarrow> bool" where
  "router_wf r \<longleftrightarrow> distinct (map fst r) \<and> (\<forall>(n, h) \<in> set r. n = constructor_name h)"

lemma set_map_set_subset: "set (map_set kvs k v) \<subseteq> insert (k, v) (set kvs)"
  by (induction kvs k v rule: map_set.induct) auto

lemma router_wf_register: "router_wf r \<Longrightarrow> router_wf (register h r)"
  using set_map_set_subset[of r "constructor_name h" h]
  by (auto simp: router_wf_def register_def distinct_map_set)

lemma router_wf_unregister: "router_wf r \<Longrightarrow> router_wf (unregister n r)"
  using set_map_delete[of r n] by (auto simp: router_wf_def unregister_def distinct_map_delete)

lemma register_all_append:
  assumes "distinct (map constructor_name (hs @ gs))"
  shows "foldl (\<lambda>r h. register h r) (map (\<lambda>h. (constructor_name h, h)) hs) gs =
    map (\<lambda>h. (constructor_name h, h)) (hs @ gs)"
  using assms
proof (induction gs arbitrary: hs)
  case (Cons g gs)
  have "register g (map (\<lambda>h. (constructor_name h, h)) hs) = map (\<lambda>h. (constructor_name h, h)) (hs @ [g])"
    using Cons.prems by (auto simp: register_def image_image intro!: map_set_new)
  then show ?case using Cons.IH[of "hs @ [g]"] Cons.prems by simp
qed simp

lemma register_all_distinct:
  "distinct (map constructor_name hs) \<Longrightarrow> register_all hs = map (\<lambda>h. (constructor_name h, h)) hs"
  using register_all_append[of "[]" hs] by (simp add: register_all_def)

section \<open>The handler a message goes to\<close>

text \<open>
  The first element of a stably sorted list with a property: of the elements with the property,
  one with the least key, and of these the first in the original order.
\<close>

lemma find_sort_key:
  assumes "List.find P (sort_key f xs) = Some x"
  obtains pre post where "xs = pre @ x # post" "P x"
    "\<And>y. y \<in> set pre \<Longrightarrow> P y \<Longrightarrow> f x < f y" "\<And>y. y \<in> set post \<Longrightarrow> P y \<Longrightarrow> f x \<le> f y"
proof -
  have Px: "P x" using find_Some_in[OF assms] by simp
  obtain rest where "filter P (sort_key f xs) = x # rest"
    using assms by (auto simp: find_filter split: list.splits)
  then have rest: "sort_key f (filter P xs) = x # rest" by (simp add: filter_sort)
  have min: "f x \<le> f y" if "y \<in> set (filter P xs)" for y
  proof -
    have "sorted (map f (x # rest))" using sorted_sort_key[of f "filter P xs"] rest by simp
    moreover have "y \<in> set (x # rest)" using that rest by (metis set_sort)
    ultimately show ?thesis by auto
  qed
  have "filter (\<lambda>y. f y = f x) (filter P xs) = x # filter (\<lambda>y. f y = f x) rest"
    using sort_key_stable[of f "f x" "filter P xs"] rest by simp
  then have first: "filter (\<lambda>y. P y \<and> f y = f x) xs = x # filter (\<lambda>y. f y = f x) rest"
    by (simp add: conj_commute)
  then obtain pre post where xs: "xs = pre @ x # post" "\<forall>y \<in> set pre. \<not> (P y \<and> f y = f x)"
    by (auto simp: filter_eq_Cons_iff)
  show ?thesis
  proof (rule that[OF xs(1) Px])
    fix y assume "y \<in> set pre" "P y"
    then show "f x < f y" using min[of y] xs by force
  next
    fix y assume "y \<in> set post" "P y"
    then show "f x \<le> f y" using min[of y] xs by simp
  qed
qed


lemma sorted_handlers_decomp:
  assumes "List.find P (sorted_handlers r) = Some h"
  obtains pre post where "map snd r = pre @ h # post" "P h"
    "\<And>g. g \<in> set pre \<Longrightarrow> P g \<Longrightarrow> handler_priority g < handler_priority h"
    "\<And>g. g \<in> set post \<Longrightarrow> P g \<Longrightarrow> handler_priority g \<le> handler_priority h"
proof -
  from assms have *: "List.find P (sort_key (\<lambda>h. - handler_priority h) (map snd r)) = Some h"
    by (simp add: sorted_handlers_def)
  show ?thesis
    by (rule find_sort_key[OF *], rule that) auto
qed

lemma set_sorted_handlers [simp]: "set (sorted_handlers r) = snd ` set r"
  by (simp add: sorted_handlers_def)

lemma route_unknown:
  "(\<And>h. h \<in> snd ` set r \<Longrightarrow> \<not> can_handle h topic) \<Longrightarrow> route r topic payload = Inr ''mqtt/message/unknown''"
proof -
  assume "\<And>h. h \<in> snd ` set r \<Longrightarrow> \<not> can_handle h topic"
  then have "List.find (\<lambda>h. can_handle h topic) (sorted_handlers r) = None"
    by (simp add: find_None_all)
  then show ?thesis by (simp add: route_def)
qed

section \<open>Registries in which no topic has two handlers\<close>

locale exclusive_handlers =
  fixes hs :: "message_handler list"
  assumes names_distinct: "distinct (map constructor_name hs)"
    and exclusive: "h \<in> set hs \<Longrightarrow> g \<in> set hs \<Longrightarrow> can_handle h t \<Longrightarrow> can_handle g t \<Longrightarrow> h = g"
begin

lemma set_registered: "snd ` set (register_all hs) = set hs"
  by (force simp: register_all_distinct names_distinct)

text \<open>The handler that can take a topic takes it, whatever the priorities.\<close>

lemma route_to:
  assumes "h \<in> set hs" "can_handle h t"
  shows "route (register_all hs) t p = handle_message h t p"
proof -
  have "List.find (\<lambda>h. can_handle h t) (sorted_handlers (register_all hs)) = Some h"
    using assms exclusive by (intro find_unique) (auto simp: set_registered)
  then show ?thesis by (simp add: route_def)
qed

lemma route_none:
  "(\<And>h. h \<in> set hs \<Longrightarrow> \<not> can_handle h t) \<Longrightarrow>
     route (register_all hs) t p = Inr ''mqtt/message/unknown''"
  by (rule route_unknown) (simp add: set_registered)

end

text \<open>A permutation of an exclusive registry is one, and routes every message alike.\<close>

lemma exclusive_handlers_perm:
  assumes "exclusive_handlers hs" "mset gs = mset hs"
  shows "exclusive_handlers gs"
proof -
  have "set gs = set hs" using assms(2) by (rule mset_eq_setD)
  moreover have "distinct (map constructor_name gs)"
    using exclusive_handlers.names_distinct[OF assms(1)] assms(2)
    by (metis mset_eq_imp_distinct_iff mset_map)
  ultimately show ?thesis
    using exclusive_handlers.exclusive[OF assms(1)] by unfold_locales auto
qed


lemma exclusive_route_perm:
  assumes "exclusive_handlers hs" "mset gs = mset hs"
  shows "route (register_all gs) t p = route (register_all hs) t p"
proof -
  note gs = exclusive_handlers_perm[OF assms]
  have eq: "set gs = set hs" using assms(2) by (rule mset_eq_setD)
  show ?thesis
  proof (cases "\<exists>h \<in> set hs. can_handle h t")
    case True
    then obtain h where "h \<in> set hs" "can_handle h t" by blast
    then show ?thesis
      using exclusive_handlers.route_to[OF assms(1)] exclusive_handlers.route_to[OF gs] eq by simp
  next
    case False
    then show ?thesis
      using exclusive_handlers.route_none[OF assms(1)] exclusive_handlers.route_none[OF gs] eq
      by simp
  qed
qed

section \<open>The registry of the service\<close>

text \<open>No suffix of one handler ends with the suffix of another.\<close>

lemma default_suffixes_check:
  "list_all (\<lambda>a. list_all (\<lambda>b. endsWith (topicSuffix a) (topicSuffix b) \<longrightarrow> a = b) default_handlers)
     default_handlers"
  by code_simp

lemma default_suffixes:
  "a \<in> set default_handlers \<Longrightarrow> b \<in> set default_handlers \<Longrightarrow>
     endsWith (topicSuffix a) (topicSuffix b) \<Longrightarrow> a = b"
  using default_suffixes_check by (simp add: list_all_iff)

lemma canHandle_exclusive:
  assumes "a \<in> set default_handlers" "b \<in> set default_handlers" "canHandle a t" "canHandle b t"
  shows "a = b"
proof -
  from assms(3,4) obtain s where "endsWith s (topicSuffix a)" "endsWith s (topicSuffix b)"
    by (auto simp: canHandle_def split: option.splits)
  then have "endsWith (topicSuffix b) (topicSuffix a) \<or> endsWith (topicSuffix a) (topicSuffix b)"
    by (meson endsWith_both nat_le_linear)
  then show ?thesis using default_suffixes assms(1,2) by metis
qed

lemma can_handle_as_handler [simp]: "can_handle (as_handler b) = canHandle b"
  by (simp add: as_handler_def)

lemma handle_message_as_handler [simp]: "handle_message (as_handler b) = base_handle b"
  by (simp add: as_handler_def)

interpretation mqtt: exclusive_handlers "map as_handler default_handlers"
proof unfold_locales
  show "distinct (map constructor_name (map as_handler default_handlers))"
    by (simp add: default_handlers_def handler_class_defs as_handler_def)
next
  fix h g t
  assume "h \<in> set (map as_handler default_handlers)" "g \<in> set (map as_handler default_handlers)"
    "can_handle h t" "can_handle g t"
  then show "h = g" by (auto dest: canHandle_exclusive)
qed

section \<open>Properties\<close>

text \<open>
  Whatever the registry, a message goes to a handler that can take its topic and has the
  highest priority among those that can, the earliest registered one on a tie; the result is
  that handler's. If no handler can take the topic, the event is \<open>mqtt/message/unknown\<close>.
\<close>

theorem route_selects:
  "(\<exists>pre h post. map snd r = pre @ h # post \<and> can_handle h topic \<and>
      (\<forall>g \<in> set pre. \<not> can_handle g topic \<or> handler_priority g < handler_priority h) \<and>
      (\<forall>g \<in> set post. \<not> can_handle g topic \<or> handler_priority g \<le> handler_priority h) \<and>
      route r topic payload = handle_message h topic payload)
   \<or> (\<forall>h \<in> snd ` set r. \<not> can_handle h topic) \<and> route r topic payload = Inr ''mqtt/message/unknown''"
proof (cases "List.find (\<lambda>h. can_handle h topic) (sorted_handlers r)")
  case None
  then have "\<forall>h \<in> snd ` set r. \<not> can_handle h topic" by (simp add: find_None_all)
  with None show ?thesis by (auto simp: route_def)
next
  case (Some h)
  then obtain pre post where "map snd r = pre @ h # post" "can_handle h topic"
    "\<And>g. g \<in> set pre \<Longrightarrow> can_handle g topic \<Longrightarrow> handler_priority g < handler_priority h"
    "\<And>g. g \<in> set post \<Longrightarrow> can_handle g topic \<Longrightarrow> handler_priority g \<le> handler_priority h"
    by (rule sorted_handlers_decomp) blast
  moreover from Some have "route r topic payload = handle_message h topic payload"
    by (simp add: route_def)
  ultimately show ?thesis by blast
qed

theorem route_selects_witness:
  "route (register (as_handler TelemetryMessageHandler) []) (Some ''d/telemetry'') (JObj []) =
     Inr ''mqtt/message/telemetry''"
proof -
  let ?h = "as_handler TelemetryMessageHandler"
  have r: "map snd (register ?h []) = [?h]" by (simp add: register_def)
  have can: "can_handle ?h (Some ''d/telemetry'')"
    by (simp add: canHandle_def TelemetryMessageHandler_def endsWith_def)
  from route_selects[of "register ?h []" "Some ''d/telemetry''" "JObj []"]
  have "route (register ?h []) (Some ''d/telemetry'') (JObj []) =
      handle_message ?h (Some ''d/telemetry'') (JObj [])"
    unfolding r using can by (auto simp: Cons_eq_append_conv register_def)
  then show ?thesis
    by (simp add: base_handle_def validatePayload_def TelemetryMessageHandler_def)
qed

text \<open>
  Routing in the service does not depend on the order in which the eleven handlers are
  registered: every order gives every message the same event or the same error.
\<close>

theorem route_registration_order:
  assumes "mset bs = mset default_handlers"
  shows "route (register_all (map as_handler bs)) topic payload =
         route initializeMessageRouter topic payload"
proof -
  have "mset (map as_handler bs) = mset (map as_handler default_handlers)"
    using assms by (metis mset_map)
  with mqtt.exclusive_handlers_axioms show ?thesis
    unfolding initializeMessageRouter_def by (rule exclusive_route_perm)
qed

theorem route_registration_order_witness:
  "route (register_all (map as_handler (rev default_handlers))) (Some ''base/d1/alert'') (JObj []) =
     Inr ''mqtt/message/alert''"
proof -
  have "mset (rev default_handlers) = mset default_handlers" by simp
  note perm = route_registration_order[OF this, of "Some ''base/d1/alert''" "JObj []"]
  have "as_handler AlertMessageHandler \<in> set (map as_handler default_handlers)"
    by (simp add: default_handlers_def)
  moreover have "can_handle (as_handler AlertMessageHandler) (Some ''base/d1/alert'')"
    by (simp add: canHandle_def AlertMessageHandler_def endsWith_def)
  ultimately have "route initializeMessageRouter (Some ''base/d1/alert'') (JObj []) =
      base_handle AlertMessageHandler (Some ''base/d1/alert'') (JObj [])"
    unfolding initializeMessageRouter_def by (simp only: mqtt.route_to handle_message_as_handler)
  with perm show ?thesis
    by (simp add: base_handle_def validatePayload_def AlertMessageHandler_def)
qed

lemma route_suffix:
  "route initializeMessageRouter (Some topic) payload =
     (case List.find (\<lambda>b. endsWith topic (topicSuffix b)) default_handlers of
        None \<Rightarrow> Inr ''mqtt/message/unknown''
      | Some b \<Rightarrow>
          if nullish payload then Inl (JsError ''Payload cannot be null or undefined'')
          else if js_typeof payload = ''object'' then Inr (event_name b)
          else Inl (JsError ''Payload must be a JSON object''))"
proof (cases "List.find (\<lambda>b. endsWith topic (topicSuffix b)) default_handlers")
  case None
  then have "\<not> can_handle h (Some topic)" if "h \<in> set (map as_handler default_handlers)" for h
    using that by (auto simp: find_None_all canHandle_def)
  then have "route initializeMessageRouter (Some topic) payload = Inr ''mqtt/message/unknown''"
    unfolding initializeMessageRouter_def by (rule mqtt.route_none)
  with None show ?thesis by simp
next
  case (Some b)
  then have b: "b \<in> set default_handlers" "canHandle b (Some topic)"
    by (auto dest: find_Some_in simp: canHandle_def)
  then have "as_handler b \<in> set (map as_handler default_handlers)"
    "can_handle (as_handler b) (Some topic)" by simp_all
  then have "route initializeMessageRouter (Some topic) payload = base_handle b (Some topic) payload"
    unfolding initializeMessageRouter_def by (simp only: mqtt.route_to handle_message_as_handler)
  then show ?thesis
    using Some by (cases payload) (auto simp: base_handle_def validatePayload_def)
qed

text \<open>
  In the service a message is routed by the suffix of its topic alone: to the event of the
  handler with that suffix if the payload is an object (or an array), to the validation error if
  it is not, and to \<open>mqtt/message/unknown\<close> if no handler has the suffix.
\<close>

theorem route_by_suffix:
  "route initializeMessageRouter (Some topic) payload =
     (case List.find (\<lambda>b. endsWith topic (topicSuffix b)) default_handlers of
        None \<Rightarrow> Inr ''mqtt/message/unknown''
      | Some b \<Rightarrow>
          if nullish payload then Inl (JsError ''Payload cannot be null or undefined'')
          else if js_typeof payload = ''object'' then Inr (event_name b)
          else Inl (JsError ''Payload must be a JSON object''))"
  by (rule route_suffix)

end
