(* ===== verification/Topics.thy ===== *)
theory Topics
  imports Redis Enums MqttRouter
begin

text \<open>
  \<open>topic/topic.service.ts\<close> and \<open>topic/repository/mqtt-topic.entity.ts\<close>: the registry of MQTT topics,
  one per device and use case, in a collection with a unique index on the topic name.
\<close>

section \<open>Data\<close>

record topic_entity =
  t_brokerUrl :: string
  t_deviceId :: string
  t_topic :: string
  t_useCase :: topic_use_case
  t_isSubscribed :: bool

text \<open>The fields an update may carry.\<close>

record topic_update =
  tu_brokerUrl :: "string option"
  tu_deviceId :: "string option"
  tu_topic :: "string option"
  tu_useCase :: "topic_use_case option"
  tu_isSubscribed :: "bool option"

definition apply_topic_update :: "topic_update \<Rightarrow> topic_entity \<Rightarrow> topic_entity" where
  "apply_topic_update u t = \<lparr>
     t_brokerUrl = (case tu_brokerUrl u of None \<Rightarrow> t_brokerUrl t | Some x \<Rightarrow> x),
     t_deviceId = (case tu_deviceId u of None \<Rightarrow> t_deviceId t | Some x \<Rightarrow> x),
     t_topic = (case tu_topic u of None \<Rightarrow> t_topic t | Some x \<Rightarrow> x),
     t_useCase = (case tu_useCase u of None \<Rightarrow> t_useCase t | Some x \<Rightarrow> x),
     t_isSubscribed = (case tu_isSubscribed u of None \<Rightarrow> t_isSubscribed t | Some x \<Rightarrow> x)\<rparr>"

record topic_env = redis_env +
  topic_repo :: "topic_entity repo"

record topic_state = redis_state +
  topics :: "topic_entity list"

definition on_topics :: "(topic_entity list, 'a) act \<Rightarrow> ('z topic_state_scheme, 'a) act" where
  "on_topics m = zoom topics (\<lambda>d. topics_update (\<lambda>_. d)) m"

lemma on_topics_run [act_simps]:
  "on_topics m s = (fst (m (topics s)), s\<lparr>topics := snd (m (topics s))\<rparr>)"
  by (simp add: on_topics_def zoom_run)

section \<open>Operations\<close>

definition storeTopic ::
  "'e topic_env_scheme \<Rightarrow> string \<Rightarrow> string \<Rightarrow> topic_use_case \<Rightarrow> ('z topic_state_scheme, topic_entity) act" where
  "storeTopic E deviceId tpc useCase =
     bnd (getOrThrow E ''MQTT_BROKER_URL'') (\<lambda>brokerUrl.
     bnd (on_topics (r_findOne (topic_repo E)
            (\<lambda>t. t_topic t = tpc \<and> t_useCase t = useCase \<and> t_deviceId t = deviceId))) (\<lambda>isTopicExist.
     case isTopicExist of
       None \<Rightarrow>
         on_topics (r_save (topic_repo E)
           \<lparr>t_brokerUrl = brokerUrl, t_deviceId = deviceId, t_topic = tpc, t_useCase = useCase,
            t_isSubscribed = True\<rparr>)
     | Some t \<Rightarrow> ok t))"

definition createTopic ::
  "'e topic_env_scheme \<Rightarrow> string \<Rightarrow> topic_use_case \<Rightarrow> ('z topic_state_scheme, topic_entity) act" where
  "createTopic E deviceId useCase =
     bnd (getOrThrow E ''BASE_TOPIC'') (\<lambda>Base_Topic.
     bnd (getOrThrow E ''MQTT_BROKER_URL'') (\<lambda>brokerUrl.
     let deviceTopic = Base_Topic @ ''/'' @ deviceId @ ''/'' @ use_case_value useCase in
     bnd (on_topics (r_findOne (topic_repo E)
            (\<lambda>t. t_brokerUrl t = brokerUrl \<and> t_topic t = deviceTopic \<and> t_deviceId t = deviceId)))
       (\<lambda>storedTopic.
     case storedTopic of
       None \<Rightarrow> storeTopic E deviceId deviceTopic useCase
     | Some t \<Rightarrow> ok t)))"

definition createDeviceBaseTopic ::
  "'e topic_env_scheme \<Rightarrow> string \<Rightarrow> ('z topic_state_scheme, topic_entity) act" where
  "createDeviceBaseTopic E deviceId =
     bnd (getOrThrow E ''BASE_TOPIC'') (\<lambda>Base_Topic.
     storeTopic E deviceId (Base_Topic @ ''/'' @ deviceId) DEVICE_BASE)"

definition createAllTopicsForDevice ::
  "'e topic_env_scheme \<Rightarrow> string \<Rightarrow> ('z topic_state_scheme, topic_entity list) act" where
  "createAllTopicsForDevice E deviceId =
     bnd (createDeviceBaseTopic E deviceId) (\<lambda>baseTopic.
     bnd (collect (createTopic E deviceId) all_use_cases) (\<lambda>created.
     ok (baseTopic # created)))"

definition getBroadcastTopic :: "'e topic_env_scheme \<Rightarrow> ('z topic_state_scheme, topic_entity) act" where
  "getBroadcastTopic E =
     bnd (on_topics (r_findOne (topic_repo E)
            (\<lambda>t. t_useCase t = BROADCAST \<and> t_isSubscribed t \<and> t_deviceId t = ''Mqtt_Broker'')))
       (\<lambda>broadcastTopic.
     case broadcastTopic of
       None \<Rightarrow> throw (NotFoundException ''Broadcast topic not found'')
     | Some t \<Rightarrow> ok t)"

definition getDeviceTopicByUseCase ::
  "'e topic_env_scheme \<Rightarrow> string \<Rightarrow> topic_use_case \<Rightarrow> ('z topic_state_scheme, topic_entity) act" where
  "getDeviceTopicByUseCase E deviceId useCase =
     bnd (on_topics (r_findOne (topic_repo E)
            (\<lambda>t. t_deviceId t = deviceId \<and> t_useCase t = useCase))) (\<lambda>tpc.
     case tpc of None \<Rightarrow> throw (NotFoundException ''Topic not found'') | Some t \<Rightarrow> ok t)"

definition getAllTopicsForOneDevice ::
  "'e topic_env_scheme \<Rightarrow> string \<Rightarrow> ('z topic_state_scheme, topic_entity list) act" where
  "getAllTopicsForOneDevice E deviceId =
     bnd (on_topics (r_find (topic_repo E) (\<lambda>t. t_deviceId t = deviceId))) (\<lambda>ts.
     if ts = [] then throw (NotFoundException ''No Topic found for device'') else ok ts)"

definition getTopicByName ::
  "'e topic_env_scheme \<Rightarrow> string \<Rightarrow> ('z topic_state_scheme, topic_entity) act" where
  "getTopicByName E tpc =
     bnd (on_topics (r_findOne (topic_repo E) (\<lambda>t. t_topic t = tpc))) (\<lambda>storedTopic.
     case storedTopic of None \<Rightarrow> throw (NotFoundException ''Topic not found'') | Some t \<Rightarrow> ok t)"

definition getAllSubscribedTopics ::
  "'e topic_env_scheme \<Rightarrow> ('z topic_state_scheme, topic_entity list) act" where
  "getAllSubscribedTopics E =
     bnd (on_topics (r_find (topic_repo E) t_isSubscribed)) (\<lambda>ts.
     if ts = [] then throw (NotFoundException ''No Topic found'') else ok ts)"

definition updateTopic ::
  "'e topic_env_scheme \<Rightarrow> string \<Rightarrow> topic_update \<Rightarrow> ('z topic_state_scheme, topic_entity) act" where
  "updateTopic E tpc updateData =
     try_catch
       (bnd (on_topics (r_update (topic_repo E) (\<lambda>t. t_topic t = tpc) (apply_topic_update updateData)))
         (\<lambda>_.
        bnd (on_topics (r_findOne (topic_repo E) (\<lambda>t. t_topic t = tpc))) (\<lambda>updatedTopic.
        case updatedTopic of
          None \<Rightarrow> throw (ForbiddenException ''Update topic failed'')
        | Some t \<Rightarrow> ok t)))
       (\<lambda>_. throw (ForbiddenException ''Update topic failed''))"

section \<open>A connected registry\<close>

definition topic_env_ok :: "'e topic_env_scheme \<Rightarrow> bool" where
  "topic_env_ok E \<longleftrightarrow> repo_ok (unique_by t_topic) (topic_repo E) \<and>
     config E ''BASE_TOPIC'' \<noteq> None \<and> config E ''MQTT_BROKER_URL'' \<noteq> None"

definition topic_base :: "'e topic_env_scheme \<Rightarrow> string" where
  "topic_base E = the (config E ''BASE_TOPIC'')"

definition device_base :: "'e topic_env_scheme \<Rightarrow> string \<Rightarrow> string" where
  "device_base E d = topic_base E @ ''/'' @ d"

definition device_topic :: "'e topic_env_scheme \<Rightarrow> string \<Rightarrow> topic_use_case \<Rightarrow> string" where
  "device_topic E d u = device_base E d @ ''/'' @ use_case_value u"

definition new_topic ::
  "'e topic_env_scheme \<Rightarrow> string \<Rightarrow> string \<Rightarrow> topic_use_case \<Rightarrow> topic_entity" where
  "new_topic E d n u = \<lparr>t_brokerUrl = the (config E ''MQTT_BROKER_URL''), t_deviceId = d,
     t_topic = n, t_useCase = u, t_isSubscribed = True\<rparr>"

lemma topic_env_okD:
  assumes "topic_env_ok E"
  shows "repo_ok (unique_by t_topic) (topic_repo E)"
    "config E ''BASE_TOPIC'' = Some (topic_base E)"
    "\<exists>url. config E ''MQTT_BROKER_URL'' = Some url"
  using assms by (auto simp: topic_env_ok_def topic_base_def)

text \<open>A name the service gives for a device and use case.\<close>

definition service_name :: "'e topic_env_scheme \<Rightarrow> string \<Rightarrow> string \<Rightarrow> topic_use_case \<Rightarrow> bool" where
  "service_name E n d u \<longleftrightarrow> CHR ''/'' \<notin> set d \<and>
     (n = device_topic E d u \<or> n = device_base E d \<and> u = DEVICE_BASE)"

text \<open>
  The registry: names are unique, no topic is the base itself, and a topic whose name is one the
  service gives for a device and use case belongs to that device and use case.
\<close>

definition topics_inv :: "'e topic_env_scheme \<Rightarrow> topic_entity list \<Rightarrow> bool" where
  "topics_inv E ts \<longleftrightarrow> unique_by t_topic ts \<and>
     (\<forall>t \<in> set ts. t_topic t \<noteq> topic_base E \<and>
        (\<forall>d u. service_name E (t_topic t) d u \<longrightarrow> t_deviceId t = d \<and> t_useCase t = u))"

lemma device_topic_inj:
  assumes "device_topic E d u = device_topic E d' u'" "CHR ''/'' \<notin> set d" "CHR ''/'' \<notin> set d'"
  shows "d = d' \<and> u = u'"
proof -
  have tw: "takeWhile (\<lambda>c. c \<noteq> CHR ''/'') (x @ CHR ''/'' # y) = x" if "CHR ''/'' \<notin> set x" for x y
    using that by (subst takeWhile_append2) auto
  from assms(1) have eq: "d @ CHR ''/'' # use_case_value u = d' @ CHR ''/'' # use_case_value u'"
    by (simp add: device_topic_def device_base_def)
  then have "d = d'" using tw[OF assms(2)] tw[OF assms(3)] by metis
  with eq show ?thesis by simp
qed

lemma device_base_topic [simp]:
  "CHR ''/'' \<notin> set d \<Longrightarrow> device_base E d \<noteq> device_topic E d' u"
  "CHR ''/'' \<notin> set d \<Longrightarrow> device_topic E d' u \<noteq> device_base E d"
proof -
  assume d: "CHR ''/'' \<notin> set d"
  show "device_base E d \<noteq> device_topic E d' u"
  proof
    assume "device_base E d = device_topic E d' u"
    then have "d = d' @ ''/'' @ use_case_value u" by (simp add: device_topic_def device_base_def)
    with d show False by simp
  qed
  then show "device_topic E d' u \<noteq> device_base E d" by metis
qed

lemma device_base_inj [simp]: "device_base E d = device_base E d' \<longleftrightarrow> d = d'"
  by (simp add: device_base_def)

lemma topics_inv_name:
  assumes "topics_inv E ts" "t \<in> set ts" "t_topic t = n" "service_name E n d u"
  shows "t_deviceId t = d \<and> t_useCase t = u"
  using assms by (auto simp: topics_inv_def)

lemma service_name_inj:
  assumes "service_name E n d u" "service_name E n d' u'"
  shows "d = d' \<and> u = u'"
  using assms device_topic_inj[of E d u d' u'] device_base_topic device_base_inj[of E d d']
  unfolding service_name_def by metis

lemma service_name_not_base: "service_name E n d u \<Longrightarrow> n \<noteq> topic_base E"
  by (auto simp: service_name_def device_topic_def device_base_def)

lemma topics_inv_add:
  assumes "topics_inv E ts" "\<forall>t \<in> set ts. t_topic t \<noteq> n" "n \<noteq> topic_base E"
    "\<And>d' u'. service_name E n d' u' \<Longrightarrow> d = d' \<and> u = u'"
  shows "topics_inv E (ts @ [new_topic E d n u])"
  using assms by (auto simp: topics_inv_def new_topic_def)

lemma topics_inv_snoc:
  assumes "topics_inv E ts" "service_name E n d u" "\<forall>t \<in> set ts. t_topic t \<noteq> n"
  shows "topics_inv E (ts @ [new_topic E d n u])"
  using service_name_inj[OF assms(2)] service_name_not_base[OF assms(2)]
  by (intro topics_inv_add[OF assms(1,3)]) blast+

section \<open>Refinement: the registry as a set of names\<close>

text \<open>
  What creating a topic promises: if the registry has a topic of that name it is returned, else
  a new one is added.
\<close>

definition ensure :: "topic_entity \<Rightarrow> topic_entity list \<Rightarrow> topic_entity \<times> topic_entity list" where
  "ensure t ts =
     (case List.find (\<lambda>x. t_topic x = t_topic t) ts of
        Some x \<Rightarrow> (x, ts)
      | None \<Rightarrow> (t, ts @ [t]))"

fun ensure_all :: "topic_entity list \<Rightarrow> topic_entity list \<Rightarrow> topic_entity list \<times> topic_entity list" where
  "ensure_all [] ts = ([], ts)"
| "ensure_all (t # new) ts =
     (case ensure t ts of (x, ts1) \<Rightarrow> case ensure_all new ts1 of (xs, ts2) \<Rightarrow> (x # xs, ts2))"

lemma ensure_topic_name [simp]: "t_topic (fst (ensure t ts)) = t_topic t"
  by (auto simp: ensure_def dest: find_Some_in split: option.split)

lemma ensure_mem: "fst (ensure t ts) \<in> set (snd (ensure t ts))" "set ts \<subseteq> set (snd (ensure t ts))"
  by (auto simp: ensure_def dest: find_Some_in split: option.split)

lemma ensure_present: "t_topic t \<in> t_topic ` set ts \<Longrightarrow> snd (ensure t ts) = ts"
  by (auto simp: ensure_def find_None_all split: option.split)

lemma ensure_new: "set (snd (ensure t ts)) \<subseteq> insert t (set ts)"
  by (auto simp: ensure_def split: option.split)

lemma ensure_inv:
  assumes "topics_inv E ts" "service_name E n d u"
  shows "topics_inv E (snd (ensure (new_topic E d n u) ts))"
  using assms topics_inv_snoc[OF assms]
  by (auto simp: ensure_def new_topic_def find_None_all split: option.split)

lemma find_service_name:
  assumes inv: "topics_inv E ts" and n: "service_name E n d u"
    and P: "\<And>t. P t \<Longrightarrow> t_topic t = n"
    and Q: "\<And>t. t_topic t = n \<Longrightarrow> t_deviceId t = d \<Longrightarrow> t_useCase t = u \<Longrightarrow> P t"
  shows "List.find P ts = List.find (\<lambda>t. t_topic t = n) ts"
proof (cases "List.find (\<lambda>t. t_topic t = n) ts")
  case None
  then have "List.find P ts = None" using P by (auto simp: find_None_all)
  with None show ?thesis by simp
next
  case (Some t)
  then have t: "t \<in> set ts" "t_topic t = n" by (auto dest: find_Some_in)
  then have "P t" using Q topics_inv_name[OF inv t n] by blast
  moreover have "unique_by t_topic ts" using inv by (simp add: topics_inv_def)
  moreover have "t_topic y = t_topic t" if "P y" for y using P[OF that] t(2) by simp
  ultimately have "List.find P ts = Some t" by (intro find_by_key[OF _ t(1)])
  with Some show ?thesis by simp
qed

lemma storeTopic_run:
  assumes env: "topic_env_ok E" and inv: "topics_inv E (topics s)" and n: "service_name E n d u"
  shows "storeTopic E d n u s =
    (Inr (fst (ensure (new_topic E d n u) (topics s))),
     s\<lparr>topics := snd (ensure (new_topic E d n u) (topics s))\<rparr>)"
proof -
  note R = repo_ok_simps[OF topic_env_okD(1)[OF env]]
  obtain url where url: "config E ''MQTT_BROKER_URL'' = Some url" using topic_env_okD(3)[OF env] by blast
  have f: "List.find (\<lambda>t. t_topic t = n \<and> t_useCase t = u \<and> t_deviceId t = d) (topics s) =
      List.find (\<lambda>t. t_topic t = n) (topics s)"
    by (rule find_service_name[OF inv n]) auto
  show ?thesis
  proof (cases "List.find (\<lambda>t. t_topic t = n) (topics s)")
    case None
    then have "unique_by t_topic (topics s @ [new_topic E d n u])"
      using topics_inv_snoc[OF inv n] by (simp add: find_None_all topics_inv_def)
    with None f url show ?thesis
      by (simp add: storeTopic_def act_simps R ensure_def new_topic_def)
  next
    case (Some t)
    with f url show ?thesis
      by (simp add: storeTopic_def act_simps R ensure_def new_topic_def)
  qed
qed

lemma createTopic_run:
  assumes env: "topic_env_ok E" and inv: "topics_inv E (topics s)" and d: "CHR ''/'' \<notin> set d"
  shows "createTopic E d u s =
    (Inr (fst (ensure (new_topic E d (device_topic E d u) u) (topics s))),
     s\<lparr>topics := snd (ensure (new_topic E d (device_topic E d u) u) (topics s))\<rparr>)"
proof -
  note R = repo_ok_simps[OF topic_env_okD(1)[OF env]]
  obtain url where cfg: "config E ''BASE_TOPIC'' = Some (topic_base E)"
    "config E ''MQTT_BROKER_URL'' = Some url"
    using topic_env_okD(2,3)[OF env] by blast
  have n: "service_name E (device_topic E d u) d u" using d by (simp add: service_name_def)
  have name: "topic_base E @ ''/'' @ d @ ''/'' @ use_case_value u = device_topic E d u"
    by (simp add: device_topic_def device_base_def)
  let ?f = "\<lambda>t. t_brokerUrl t = url \<and> t_topic t = device_topic E d u \<and>
    t_deviceId t = d"
  show ?thesis
  proof (cases "List.find ?f (topics s)")
    case None
    then show ?thesis
      using cfg storeTopic_run[OF env inv n]
      by (simp add: createTopic_def act_simps R Let_def name[simplified])
  next
    case (Some t)
    then have t: "t \<in> set (topics s)" "?f t" by (auto dest: find_Some_in)
    then have "List.find (\<lambda>x. t_topic x = device_topic E d u) (topics s) = Some t"
      using inv by (intro find_by_key[OF _ t(1), of t_topic]) (simp_all add: topics_inv_def)
    with Some cfg show ?thesis
      by (simp add: createTopic_def act_simps R Let_def name[simplified] ensure_def new_topic_def)
  qed
qed

lemma createDeviceBaseTopic_run:
  assumes "topic_env_ok E" "topics_inv E (topics s)" "CHR ''/'' \<notin> set d"
  shows "createDeviceBaseTopic E d s =
    (Inr (fst (ensure (new_topic E d (device_base E d) DEVICE_BASE) (topics s))),
     s\<lparr>topics := snd (ensure (new_topic E d (device_base E d) DEVICE_BASE) (topics s))\<rparr>)"
  using assms storeTopic_run[OF assms(1,2), of "device_base E d" d DEVICE_BASE]
  by (simp add: createDeviceBaseTopic_def act_simps topic_env_okD(2) service_name_def device_base_def)

end
