(* ===== verification/TopicContract.thy ===== *)
theory TopicContract
  imports Topics
begin

text \<open>
  What \<open>TopicService\<close> promises the MQTT client and the device service: \<open>createAllTopicsForDevice\<close>
  as a refinement of \<open>ensure_all\<close>, the registry interface, the machine of the operations the
  program performs and the properties of the component, with the use cases whose topics the
  message router knows.
\<close>

section \<open>All topics of a device\<close>

definition device_topics :: "'e topic_env_scheme \<Rightarrow> string \<Rightarrow> topic_entity list" where
  "device_topics E d =
     new_topic E d (device_base E d) DEVICE_BASE #
     map (\<lambda>u. new_topic E d (device_topic E d u) u) all_use_cases"

lemma device_topics_service_name:
  "CHR ''/'' \<notin> set d \<Longrightarrow> t \<in> set (device_topics E d) \<Longrightarrow>
     \<exists>n u. t = new_topic E d n u \<and> service_name E n d u"
  by (auto simp: device_topics_def service_name_def)

lemma ensure_all_inv:
  assumes "\<forall>t \<in> set new. \<exists>n d u. t = new_topic E d n u \<and> service_name E n d u" "topics_inv E ts"
  shows "topics_inv E (snd (ensure_all new ts))"
  using assms
proof (induction new arbitrary: ts)
  case (Cons t new)
  then obtain n d u where "t = new_topic E d n u" "service_name E n d u" by auto
  with Cons.prems(2) have "topics_inv E (snd (ensure t ts))" using ensure_inv by blast
  with Cons show ?case by (simp add: split_beta)
qed simp

lemma ensure_all_names: "map t_topic (fst (ensure_all new ts)) = map t_topic new"
  by (induction new arbitrary: ts) (simp_all add: split_beta)

lemma ensure_all_mem:
  "set ts \<subseteq> set (snd (ensure_all new ts))" "set (fst (ensure_all new ts)) \<subseteq> set (snd (ensure_all new ts))"
proof (induction new arbitrary: ts)
  case (Cons t new)
  { case 1 show ?case using Cons(1)[of "snd (ensure t ts)"] ensure_mem(2)[of ts t] by (simp add: split_beta) }
  { case 2 show ?case using Cons(1,2)[of "snd (ensure t ts)"] ensure_mem(1)[of t ts]
      by (auto simp: split_beta) }
qed simp_all

lemma ensure_all_new: "set (snd (ensure_all new ts)) \<subseteq> set ts \<union> set new"
proof (induction new arbitrary: ts)
  case (Cons t new)
  show ?case using Cons[of "snd (ensure t ts)"] ensure_new[of t ts] by (auto simp: split_beta)
qed simp

lemma ensure_all_present:
  "\<forall>t \<in> set new. t_topic t \<in> t_topic ` set ts \<Longrightarrow> snd (ensure_all new ts) = ts"
  by (induction new arbitrary: ts) (simp_all add: split_beta ensure_present)

lemma collect_createTopic:
  assumes "topic_env_ok E" "topics_inv E (topics s)" "CHR ''/'' \<notin> set d"
  shows "collect (createTopic E d) us s =
    (let r = ensure_all (map (\<lambda>u. new_topic E d (device_topic E d u) u) us) (topics s) in
     (Inr (fst r), s\<lparr>topics := snd r\<rparr>))"
  using assms
proof (induction us arbitrary: s)
  case Nil
  then show ?case by (simp add: act_simps)
next
  case (Cons u us)
  let ?t = "new_topic E d (device_topic E d u) u"
  have "service_name E (device_topic E d u) d u" using Cons.prems by (simp add: service_name_def)
  then have "topics_inv E (snd (ensure ?t (topics s)))" using Cons.prems ensure_inv by blast
  then show ?case
    using Cons.IH[of "s\<lparr>topics := snd (ensure ?t (topics s))\<rparr>"] Cons.prems
    by (simp add: act_simps createTopic_run Let_def split_beta)
qed

lemma createAll_run:
  assumes "topic_env_ok E" "topics_inv E (topics s)" "CHR ''/'' \<notin> set d"
  shows "createAllTopicsForDevice E d s =
    (let r = ensure_all (device_topics E d) (topics s) in (Inr (fst r), s\<lparr>topics := snd r\<rparr>))"
proof -
  let ?t = "new_topic E d (device_base E d) DEVICE_BASE"
  have "service_name E (device_base E d) d DEVICE_BASE" using assms(3) by (simp add: service_name_def)
  then have "topics_inv E (snd (ensure ?t (topics s)))" using assms(2) ensure_inv by blast
  then show ?thesis
    using assms collect_createTopic[OF assms(1) _ assms(3), of "s\<lparr>topics := snd (ensure ?t (topics s))\<rparr>"]
    by (simp add: createAllTopicsForDevice_def act_simps createDeviceBaseTopic_run device_topics_def
        Let_def split_beta)
qed

section \<open>The interface\<close>

locale topic_registry =
  fixes good :: "'s \<Rightarrow> bool"
    and reg :: "'s \<Rightarrow> topic_entity list"
    and create :: "string \<Rightarrow> topic_use_case \<Rightarrow> ('s, topic_entity) act"
    and by_use_case :: "string \<Rightarrow> topic_use_case \<Rightarrow> ('s, topic_entity) act"
    and subscribed :: "('s, topic_entity list) act"
  assumes create_run: "good s \<Longrightarrow> CHR ''/'' \<notin> set d \<Longrightarrow>
      \<exists>t s'. create d u s = (Inr t, s') \<and> good s' \<and> t \<in> set (reg s') \<and> t_deviceId t = d \<and>
        t_useCase t = u \<and> (s' = s \<or> t \<notin> set (reg s) \<and> reg s' = reg s @ [t] \<and> t_isSubscribed t)"
    and by_use_case_run: "good s \<Longrightarrow> by_use_case d u s =
      (case List.find (\<lambda>t. t_deviceId t = d \<and> t_useCase t = u) (reg s) of
         None \<Rightarrow> Inl (NotFoundException ''Topic not found'') | Some t \<Rightarrow> Inr t, s)"
    and subscribed_run: "good s \<Longrightarrow> subscribed s =
      (if \<exists>t \<in> set (reg s). t_isSubscribed t then Inr (filter t_isSubscribed (reg s))
       else Inl (NotFoundException ''No Topic found''), s)"
begin

lemma lookup_present:
  assumes "good s" "t \<in> set (reg s)"
  shows "\<exists>x \<in> set (reg s). by_use_case (t_deviceId t) (t_useCase t) s = (Inr x, s) \<and>
    t_deviceId x = t_deviceId t \<and> t_useCase x = t_useCase t"
proof (cases "List.find (\<lambda>x. t_deviceId x = t_deviceId t \<and> t_useCase x = t_useCase t) (reg s)")
  case None
  with assms(2) show ?thesis by (auto simp: find_None_all)
next
  case (Some x)
  with by_use_case_run[OF assms(1), of "t_deviceId t" "t_useCase t"] find_Some_in[OF Some]
  show ?thesis by auto
qed

lemma create_then_lookup:
  assumes "good s" "CHR ''/'' \<notin> set d" "create d u s = (Inr t, s')"
  shows "\<exists>x \<in> set (reg s'). by_use_case d u s' = (Inr x, s') \<and> t_deviceId x = d \<and> t_useCase x = u"
proof -
  from create_run[OF assms(1,2), of u] assms(3) have "good s'" "t \<in> set (reg s')"
    "t_deviceId t = d" "t_useCase t = u" by auto
  with lookup_present[of s' t] show ?thesis by auto
qed

text \<open>A registry in which something is subscribed answers the listing of subscriptions.\<close>

lemma subscribed_lists:
  "good s \<Longrightarrow> t \<in> set (reg s) \<Longrightarrow> t_isSubscribed t \<Longrightarrow>
     subscribed s = (Inr (filter t_isSubscribed (reg s)), s)"
  using subscribed_run by auto

lemma subscribed_none:
  "good s \<Longrightarrow> \<forall>t \<in> set (reg s). \<not> t_isSubscribed t \<Longrightarrow>
     subscribed s = (Inl (NotFoundException ''No Topic found''), s)"
  using subscribed_run by auto

end

definition topics_good :: "'e topic_env_scheme \<Rightarrow> 'z topic_state_scheme \<Rightarrow> bool" where
  "topics_good E s \<longleftrightarrow> topic_env_ok E \<and> topics_inv E (topics s)"

lemma createTopic_contract:
  assumes "topics_good E s" "CHR ''/'' \<notin> set d"
  shows "\<exists>t s'. createTopic E d u s = (Inr t, s') \<and> topics_good E s' \<and> t \<in> set (topics s') \<and>
    t_deviceId t = d \<and> t_useCase t = u \<and>
    (s' = s \<or> t \<notin> set (topics s) \<and> topics s' = topics s @ [t] \<and> t_isSubscribed t)"
proof -
  let ?t = "new_topic E d (device_topic E d u) u"
  let ?r = "ensure ?t (topics s)"
  have env: "topic_env_ok E" "topics_inv E (topics s)" using assms(1) by (simp_all add: topics_good_def)
  have n: "service_name E (device_topic E d u) d u" using assms(2) by (simp add: service_name_def)
  have inv: "topics_inv E (snd ?r)" using ensure_inv[OF env(2) n] .
  have name: "t_topic (fst ?r) = device_topic E d u" by (simp add: new_topic_def)
  have "t_deviceId (fst ?r) = d \<and> t_useCase (fst ?r) = u"
    using topics_inv_name[OF inv ensure_mem(1) name n] .
  moreover have "snd ?r = topics s \<or>
      fst ?r \<notin> set (topics s) \<and> snd ?r = topics s @ [fst ?r] \<and> t_isSubscribed (fst ?r)"
    by (auto simp: ensure_def find_None_all new_topic_def split: option.split)
  ultimately show ?thesis
    using createTopic_run[OF env assms(2), of u] inv ensure_mem(1)[of ?t "topics s"] env(1)
    by (auto simp: topics_good_def)
qed

interpretation tr: topic_registry "topics_good E" topics "createTopic E" "getDeviceTopicByUseCase E"
  "getAllSubscribedTopics E" for E
proof (unfold_locales, goal_cases)
  case (1 s d u)
  then show ?case by (rule createTopic_contract)
next
  case (2 s d u)
  then show ?case
    by (simp add: topics_good_def getDeviceTopicByUseCase_def act_simps
        repo_ok_simps[OF topic_env_okD(1)] split: option.split)
next
  case (3 s)
  then show ?case
    by (auto simp: topics_good_def getAllSubscribedTopics_def act_simps
        repo_ok_simps[OF topic_env_okD(1)] filter_empty_conv)
qed

section \<open>The machine of the operations\<close>

text \<open>The update the program makes: the subscription flag of the topic with a name.\<close>

definition set_subscribed :: "bool \<Rightarrow> topic_update" where
  "set_subscribed b = \<lparr>tu_brokerUrl = None, tu_deviceId = None, tu_topic = None, tu_useCase = None,
     tu_isSubscribed = Some b\<rparr>"

lemma apply_set_subscribed [simp]:
  "apply_topic_update (set_subscribed b) t = t\<lparr>t_isSubscribed := b\<rparr>"
  by (simp add: apply_topic_update_def set_subscribed_def)

definition mark :: "bool \<Rightarrow> string \<Rightarrow> topic_entity list \<Rightarrow> topic_entity list" where
  "mark b n ts = map (\<lambda>t. if t_topic t = n then t\<lparr>t_isSubscribed := b\<rparr> else t) ts"

lemma mark_inv: "topics_inv E (mark b n ts) \<longleftrightarrow> topics_inv E ts"
proof -
  have "unique_by t_topic (mark b n ts) \<longleftrightarrow> unique_by t_topic ts"
    unfolding mark_def by (rule unique_by_update) simp
  moreover have "(\<forall>t \<in> set (mark b n ts). P t) \<longleftrightarrow> (\<forall>t \<in> set ts. P t)"
    if "\<And>t. P (t\<lparr>t_isSubscribed := b\<rparr>) = P t" for P
    unfolding mark_def set_map ball_simps using that by metis
  ultimately show ?thesis unfolding topics_inv_def by simp
qed

lemma updateTopic_run:
  assumes "topics_good E s"
  shows "updateTopic E n (set_subscribed b) s =
    (case List.find (\<lambda>t. t_topic t = n) (mark b n (topics s)) of
       None \<Rightarrow> Inl (ForbiddenException ''Update topic failed'') | Some t \<Rightarrow> Inr t,
     s\<lparr>topics := mark b n (topics s)\<rparr>)"
proof -
  have env: "topic_env_ok E" "topics_inv E (topics s)" using assms by (simp_all add: topics_good_def)
  have "unique_by t_topic (mark b n (topics s))"
    using mark_inv[of E b n "topics s"] env(2) by (simp add: topics_inv_def)
  then have "r_update (topic_repo E) (\<lambda>t. t_topic t = n) (apply_topic_update (set_subscribed b)) (topics s) =
      (Inr (), mark b n (topics s))"
    using repo_ok_simps(4)[OF topic_env_okD(1)[OF env(1)], of "\<lambda>t. t_topic t = n"
        "apply_topic_update (set_subscribed b)" "topics s"]
    by (simp add: mark_def cong: if_cong)
  then show ?thesis
    by (simp add: updateTopic_def act_simps repo_ok_simps(2)[OF topic_env_okD(1)[OF env(1)]] split: option.split)
qed

inductive topic_step ::
  "'e topic_env_scheme \<Rightarrow> 'z topic_state_scheme \<Rightarrow> 'z topic_state_scheme \<Rightarrow> bool" for E where
  create: "CHR ''/'' \<notin> set d \<Longrightarrow> topic_step E s (snd (createTopic E d u s))"
| create_all: "CHR ''/'' \<notin> set d \<Longrightarrow> topic_step E s (snd (createAllTopicsForDevice E d s))"
| update: "topic_step E s (snd (updateTopic E n (set_subscribed b) s))"

inductive topic_reachable :: "'e topic_env_scheme \<Rightarrow> 'z topic_state_scheme \<Rightarrow> bool" for E where
  start: "topics s = [] \<Longrightarrow> topic_reachable E s"
| step: "topic_reachable E s \<Longrightarrow> topic_step E s s' \<Longrightarrow> topic_reachable E s'"

lemma createAll_good:
  assumes "topics_good E s" "CHR ''/'' \<notin> set d"
  shows "topics_good E (snd (createAllTopicsForDevice E d s))"
proof -
  have "\<forall>t \<in> set (device_topics E d). \<exists>n d u. t = new_topic E d n u \<and> service_name E n d u"
    using device_topics_service_name[OF assms(2)] by blast
  with assms ensure_all_inv[OF this, of "topics s"] show ?thesis
    by (simp add: topics_good_def createAll_run Let_def)
qed

lemma topic_step_good:
  assumes "topic_step E s s'" "topics_good E s"
  shows "topics_good E s'"
  using assms(1)
proof cases
  case (create d u)
  then show ?thesis using createTopic_contract[OF assms(2), of d u] by auto
next
  case (create_all d)
  then show ?thesis using createAll_good[OF assms(2)] by simp
next
  case (update n b)
  then show ?thesis using assms(2) by (simp add: updateTopic_run mark_inv topics_good_def)
qed

lemma topic_reachable_good: "topic_reachable E s \<Longrightarrow> topic_env_ok E \<Longrightarrow> topics_good E s"
proof (induction rule: topic_reachable.induct)
  case (start s)
  then show ?case by (simp add: topics_good_def topics_inv_def unique_by_def)
qed (use topic_step_good in blast)

text \<open>The names of the registry are those of the naming scheme.\<close>

definition named_topic :: "'e topic_env_scheme \<Rightarrow> topic_entity \<Rightarrow> bool" where
  "named_topic E t \<longleftrightarrow> service_name E (t_topic t) (t_deviceId t) (t_useCase t)"

lemma topic_step_named:
  assumes "topic_step E s s'" "topics_good E s" "list_all (named_topic E) (topics s)"
  shows "list_all (named_topic E) (topics s')"
proof -
  have env: "topic_env_ok E" "topics_inv E (topics s)" using assms(2) by (simp_all add: topics_good_def)
  have new: "named_topic E (new_topic E d n u)" if "service_name E n d u" for d n u
    using that by (simp add: named_topic_def new_topic_def)
  from assms(1) show ?thesis
  proof cases
    case (create d u)
    then have "service_name E (device_topic E d u) d u" by (simp add: service_name_def)
    with create env assms(3) ensure_new[of "new_topic E d (device_topic E d u) u" "topics s"] new
    show ?thesis by (auto simp: createTopic_run list_all_iff)
  next
    case (create_all d)
    with device_topics_service_name[of d _ E] new
    have "\<forall>t \<in> set (device_topics E d). named_topic E t" by fastforce
    with create_all env assms(3) ensure_all_new[of "device_topics E d" "topics s"]
    show ?thesis by (auto simp: createAll_run Let_def list_all_iff)
  next
    case (update n b)
    with assms(2,3) show ?thesis
      by (auto simp: updateTopic_run mark_def list_all_iff named_topic_def)
  qed
qed

lemma topic_reachable_named:
  "topic_reachable E s \<Longrightarrow> topic_env_ok E \<Longrightarrow> list_all (named_topic E) (topics s)"
proof (induction rule: topic_reachable.induct)
  case (step s s')
  then show ?case using topic_step_named topic_reachable_good by blast
qed simp

section \<open>A concrete registry\<close>

definition demo_topic_env :: "unit topic_env_scheme" where
  "demo_topic_env = \<lparr>uuid_src = (\<lambda>n. replicate n CHR ''x''), clock = int,
     config = [''BASE_TOPIC'' \<mapsto> ''iot'', ''MQTT_BROKER_URL'' \<mapsto> ''mqtt://broker''],
     redis = mem_redis, topic_repo = mem_repo (unique_by t_topic)\<rparr>"

definition demo_topic_state :: "unit topic_state_scheme" where
  "demo_topic_state = \<lparr>uuid_count = 0, clock_reads = 0, starts = 0, process_ended = False, kv = Map.empty, topics = []\<rparr>"

lemma demo_topics_good [simp]: "topics_good demo_topic_env demo_topic_state"
  by (simp add: topics_good_def topic_env_ok_def demo_topic_env_def demo_topic_state_def topics_inv_def
      unique_by_def)

section \<open>Properties\<close>

lemma endsWith_rev: "endsWith s t \<longleftrightarrow> take (length t) (rev s) = rev t"
  by (auto simp: endsWith_iff take_rev) (metis append_take_drop_id length_append length_rev)


text \<open>
  C18. Creating all topics of a device, on any registry the program reaches, returns the base topic
  and one topic per use case, in that order and with the names of the naming scheme; nothing that
  was registered is lost or changed and only topics of this device are added. Afterwards every use
  case of the device is found by the lookup, and creating the topics again adds nothing.
\<close>

theorem all_device_topics:
  assumes "topic_env_ok E" "topic_reachable E s" "CHR ''/'' \<notin> set d"
    and run: "createAllTopicsForDevice E d s = (r, s')"
  shows "\<exists>ts. r = Inr ts \<and>
    map t_topic ts = device_base E d # map (device_topic E d) all_use_cases \<and>
    set ts \<subseteq> set (topics s') \<and> set (topics s) \<subseteq> set (topics s') \<and>
    (\<forall>t \<in> set (topics s') - set (topics s). t_deviceId t = d) \<and>
    (\<forall>u. \<exists>t \<in> set (topics s'). getDeviceTopicByUseCase E d u s' = (Inr t, s') \<and>
       t_deviceId t = d \<and> t_useCase t = u) \<and>
    snd (createAllTopicsForDevice E d s') = s'"
proof -
  let ?new = "device_topics E d"
  have good: "topics_good E s" using topic_reachable_good[OF assms(2,1)] .
  then have inv: "topics_inv E (topics s)" by (simp add: topics_good_def)
  have s': "r = Inr (fst (ensure_all ?new (topics s)))" "topics s' = snd (ensure_all ?new (topics s))"
    using run createAll_run[OF assms(1) inv assms(3)] by (auto simp: Let_def)
  have good': "topics_good E s'" using createAll_good[OF good assms(3)] run by simp
  have names: "map t_topic (fst (ensure_all ?new (topics s))) =
      device_base E d # map (device_topic E d) all_use_cases"
    unfolding ensure_all_names by (simp add: device_topics_def new_topic_def)
  have "\<exists>t \<in> set (topics s'). getDeviceTopicByUseCase E d u s' = (Inr t, s') \<and>
      t_deviceId t = d \<and> t_useCase t = u" for u
  proof -
    have "device_topic E d u \<in> set (map t_topic (fst (ensure_all ?new (topics s))))"
      unfolding names by simp
    then obtain t where t: "t \<in> set (topics s')" "t_topic t = device_topic E d u"
      using ensure_all_mem(2)[of ?new "topics s"] s'(2) by auto
    moreover have "service_name E (device_topic E d u) d u" using assms(3) by (simp add: service_name_def)
    moreover have "topics_inv E (topics s')" using good' by (simp add: topics_good_def)
    ultimately have "t_deviceId t = d \<and> t_useCase t = u" using topics_inv_name by blast
    then show ?thesis using tr.lookup_present[OF good' t(1)] t(1) by auto
  qed
  moreover have "topics s'' = topics s' \<and> s'' = s'" if "s'' = snd (createAllTopicsForDevice E d s')" for s''
  proof -
    have "t_topic ` set ?new = t_topic ` set (fst (ensure_all ?new (topics s)))"
      using ensure_all_names[of ?new "topics s"] by (metis list.set_map)
    then have "\<forall>t \<in> set ?new. t_topic t \<in> t_topic ` set (topics s')"
      using ensure_all_mem(2)[of ?new "topics s"] s'(2) by auto
    then show ?thesis
      using that createAll_run[OF assms(1) _ assms(3), of s'] good'
      by (simp add: topics_good_def Let_def ensure_all_present)
  qed
  moreover have "t_deviceId t = d" if "t \<in> set (topics s') - set (topics s)" for t
    using that ensure_all_new[of ?new "topics s"] s'(2)
    by (auto simp: device_topics_def new_topic_def)
  ultimately show ?thesis
    using s' names ensure_all_mem[of "topics s" ?new] ensure_all_mem(2)[of ?new "topics s"] by auto
qed

theorem all_device_topics_witness:
  "\<exists>ts. fst (createAllTopicsForDevice demo_topic_env ''d1'' demo_topic_state) = Inr ts \<and> length ts = 16"
proof -
  have "topic_reachable demo_topic_env demo_topic_state"
    by (rule topic_reachable.start) (simp add: demo_topic_state_def)
  moreover have "topic_env_ok demo_topic_env" using demo_topics_good by (simp add: topics_good_def)
  ultimately obtain ts where "fst (createAllTopicsForDevice demo_topic_env ''d1'' demo_topic_state) = Inr ts"
    "map t_topic ts = device_base demo_topic_env ''d1'' # map (device_topic demo_topic_env ''d1'') all_use_cases"
    using all_device_topics[of demo_topic_env demo_topic_state "''d1''"
        "fst (createAllTopicsForDevice demo_topic_env ''d1'' demo_topic_state)"
        "snd (createAllTopicsForDevice demo_topic_env ''d1'' demo_topic_state)"] by auto
  moreover from this(2) have "length ts = 16"
    by (subst length_map[of t_topic, symmetric]) (simp add: all_use_cases_def)
  ultimately show ?thesis by blast
qed

text \<open>
  In every state the program reaches, by creating topics and setting subscription flags in any
  order, names are unique and each name is that of the device and use case the topic is
  registered for, so two devices never share a topic.
\<close>

lemma topic_names_identify:
  assumes "topic_env_ok E" "topic_reachable E s" "t \<in> set (topics s)" "t' \<in> set (topics s)"
  shows "(t_topic t = t_topic t' \<longrightarrow> t = t') \<and>
    (t_topic t = device_topic E (t_deviceId t) (t_useCase t) \<or>
     t_topic t = device_base E (t_deviceId t) \<and> t_useCase t = DEVICE_BASE)"
proof -
  have inv: "topics_inv E (topics s)"
    using topic_reachable_good[OF assms(2,1)] by (simp add: topics_good_def)
  then have "t = t'" if "t_topic t = t_topic t'"
    using that assms(3,4) unique_by_inj[of t_topic "topics s" t t'] by (simp add: topics_inv_def)
  with topic_reachable_named[OF assms(2,1)] assms(3) show ?thesis
    by (auto simp: list_all_iff named_topic_def service_name_def)
qed

lemma topic_names_identify_witness:
  "let s = snd (createTopic demo_topic_env ''d1'' HEARTBEAT demo_topic_state) in
   \<forall>t \<in> set (topics s). t_topic t = ''iot/d1/heartbeat''"
proof -
  let ?s = "snd (createTopic demo_topic_env ''d1'' HEARTBEAT demo_topic_state)"
  let ?t = "new_topic demo_topic_env ''d1'' ''iot/d1/heartbeat'' HEARTBEAT"
  have env: "topic_env_ok demo_topic_env" using demo_topics_good by (simp add: topics_good_def)
  have reach: "topic_reachable demo_topic_env ?s"
    by (rule topic_reachable.step[OF topic_reachable.start topic_step.create])
      (simp_all add: demo_topic_state_def)
  have s: "topics ?s = [?t]"
    using createTopic_run[OF env, of demo_topic_state "''d1''" HEARTBEAT] demo_topics_good
    by (simp add: topics_good_def ensure_def demo_topic_state_def device_topic_def device_base_def
        topic_base_def) (simp add: demo_topic_env_def)
  then show ?thesis
    using topic_names_identify[OF env reach, of ?t ?t] by (simp add: new_topic_def)
qed

lemma use_case_handler:
  "List.find (\<lambda>b. endsWith (p @ CHR ''/'' # use_case_value u) (topicSuffix b)) default_handlers = (case u of
     ASSIGN_DEVICE_FUNCTION \<Rightarrow> Some AssignmentMessageHandler
   | SET_SENSOR_CONFIGURATION \<Rightarrow> Some ConfigurationSetMessageHandler
   | GET_SENSOR_CONFIGURATION \<Rightarrow> Some ConfigurationGetMessageHandler
   | FIRMWARE_UPDATE \<Rightarrow> Some FirmwareUpgradeMessageHandler
   | REBOOT_COMMAND \<Rightarrow> Some RebootMessageHandler
   | DISCOVERY \<Rightarrow> Some DiscoveryMessageHandler
   | TELEMETRY \<Rightarrow> Some TelemetryMessageHandler
   | HEARTBEAT \<Rightarrow> Some HeartbeatMessageHandler
   | _ \<Rightarrow> None)"
  by (cases u)
    (simp_all only: use_case_value.simps default_handlers_def handler_class_defs List.find.simps
      base_handler.simps endsWith_rev rev_append rev.simps append.simps append_Nil append_Cons list.size
      add_0 add_Suc add_Suc_right plus_nat.simps take_Suc_Cons take_0 list.inject char.inject simp_thms
      if_True if_False topic_use_case.case)

text \<open>
  What the service does with a message on the topic of a device depends on the use case of the
  topic: for eight of the fifteen use cases it is the event of that use case; the topics of
  \<open>netconfig\<close>, \<open>hardware-status\<close>, \<open>firmware/status\<close>, \<open>telemetry-queue\<close>, \<open>base\<close>, \<open>diagnose\<close> and
  \<open>broadcast\<close> are no handler's, so their messages go to \<open>mqtt/message/unknown\<close>.
\<close>

theorem use_case_routing:
  "route initializeMessageRouter (Some (device_topic E d u)) (JObj kvs) = Inr (case u of
     ASSIGN_DEVICE_FUNCTION \<Rightarrow> ''mqtt/message/assign''
   | SET_SENSOR_CONFIGURATION \<Rightarrow> ''mqtt/message/config/set''
   | GET_SENSOR_CONFIGURATION \<Rightarrow> ''mqtt/message/config/get''
   | FIRMWARE_UPDATE \<Rightarrow> ''mqtt/message/upgrade''
   | REBOOT_COMMAND \<Rightarrow> ''mqtt/message/reboot''
   | DISCOVERY \<Rightarrow> ''mqtt/message/discovery''
   | TELEMETRY \<Rightarrow> ''mqtt/message/telemetry''
   | HEARTBEAT \<Rightarrow> ''mqtt/message/heartbeat''
   | _ \<Rightarrow> ''mqtt/message/unknown'')"
proof -
  have topic: "device_topic E d u = device_base E d @ CHR ''/'' # use_case_value u"
    by (simp add: device_topic_def)
  show ?thesis
    unfolding route_suffix topic use_case_handler by (cases u) (simp_all add: handler_class_defs)
qed

end
