(* ===== verification/MqttClient.thy ===== *)
theory MqttClient
  imports MqttAdapter TopicContract
begin

text \<open>
  \<open>mqtt-client/mqtt-client.service.ts\<close>. The adapters the service has created are kept in a list, with
  the index of the one \<open>this.mqtt\<close> refers to: a replaced adapter stays alive with its client and its
  listeners. The closures the service registers are values of \<open>client_callback\<close> with the variables
  they capture; \<open>run_callback\<close> is their code. What the service emits on the event bus is appended to
  \<open>emitted\<close>.
\<close>

datatype client_callback =
    CbConnect string "string option"
  | CbMessage
  | CbError
  | CbDisconnect string "string option"
  | CbReconnect

record mqtt_env = topic_env +
  mqtt_lib :: "client_callback mqtt_lib"
  MAX_RECONNECTION_ATTEMPTS :: int
  process_pid :: nat

record mqtt_state = topic_state +
  clients :: "client_callback adapter list"
  mqtt :: "nat option"
  messageRouter :: "router option"
  isConnectedState :: bool
  connectionAttempts :: int
  emitted :: "(string \<times> jsval list) list"

definition emit :: "string \<Rightarrow> jsval list \<Rightarrow> ('z mqtt_state_scheme, unit) act" where
  "emit eventName args = modify (\<lambda>s. s\<lparr>emitted := emitted s @ [(eventName, args)]\<rparr>)"

text \<open>A method call on \<open>this.mqtt\<close>, which may be undefined.\<close>

definition on_mqtt :: "(client_callback adapter, 'a) act \<Rightarrow> ('z mqtt_state_scheme, 'a) act" where
  "on_mqtt m = (\<lambda>s.
     case mqtt s of
       None \<Rightarrow> (Inl (JsError ''Cannot read properties of undefined''), s)
     | Some i \<Rightarrow> (case m (clients s ! i) of (r, a) \<Rightarrow> (r, s\<lparr>clients := (clients s)[i := a]\<rparr>)))"

section \<open>Subscribing and publishing\<close>

record subscription_result =
  sr_success :: bool
  sr_topics :: topics_arg
  sr_description :: string
  sr_timestamp :: int

definition mqtt_subscribe ::
  "'e mqtt_env_scheme \<Rightarrow> topics_arg \<Rightarrow> ('z mqtt_state_scheme, subscription_result) act" where
  "mqtt_subscribe E ts =
     bnd (gets isConnectedState) (\<lambda>connected.
     if \<not> connected then throw (JsError ''MQTT client not connected'')
     else
       bnd (on_mqtt (adapter_subscribe (mqtt_lib E) ts)) (\<lambda>_.
       bnd (date_now E) (\<lambda>now.
       ok \<lparr>sr_success = True, sr_topics = ts, sr_description = ''Successfully subscribed to topic'',
           sr_timestamp = now\<rparr>)))"

record unsubscription_result =
  ur_success :: bool
  ur_topic :: string
  ur_error :: "string option"
  ur_timestamp :: int

definition mqtt_unsubscribe ::
  "'e mqtt_env_scheme \<Rightarrow> string \<Rightarrow> ('z mqtt_state_scheme, unsubscription_result) act" where
  "mqtt_unsubscribe E tpc =
     bnd (gets isConnectedState) (\<lambda>connected.
     if \<not> connected then throw (JsError ''MQTT client not connected'')
     else
       try_catch
         (bnd (on_mqtt (adapter_unsubscribe (mqtt_lib E) (OneTopic tpc))) (\<lambda>_.
          bnd (date_now E) (\<lambda>now.
          ok \<lparr>ur_success = True, ur_topic = tpc, ur_error = None, ur_timestamp = now\<rparr>)))
         (\<lambda>error.
          bnd (date_now E) (\<lambda>now.
          ok \<lparr>ur_success = False, ur_topic = tpc, ur_error = Some (exn_message error),
              ur_timestamp = now\<rparr>)))"

record publish_result =
  pr_success :: bool
  pr_topic :: string
  pr_payload :: string
  pr_description :: string
  pr_timestamp :: int

text \<open>The payload is sent as it is when it is a string, otherwise as JSON.\<close>

definition payloadStr :: "jsval \<Rightarrow> string" where
  "payloadStr payload = (case payload of JStr t \<Rightarrow> t | v \<Rightarrow> stringify v)"

definition mqtt_publish ::
  "'e mqtt_env_scheme \<Rightarrow> string \<Rightarrow> jsval \<Rightarrow> publish_options \<Rightarrow> ('z mqtt_state_scheme, publish_result) act"
where
  "mqtt_publish E tpc payload options =
     bnd (gets isConnectedState) (\<lambda>connected.
     if \<not> connected then throw (JsError ''MQTT client not connected'')
     else
       bnd (on_mqtt (adapter_publish (mqtt_lib E) tpc (payloadStr payload)
              (Some \<lparr>po_qos = po_qos options, po_retain = po_retain options\<rparr>))) (\<lambda>_.
       bnd (date_now E) (\<lambda>now.
       ok \<lparr>pr_success = True, pr_topic = tpc, pr_payload = payloadStr payload,
           pr_description = ''Message published successfully'', pr_timestamp = now\<rparr>)))"

section \<open>The callbacks\<close>

text \<open>\<open>onConnect\<close>: an array is truthy, so the branch for no stored topics is never taken.\<close>

definition on_connect ::
  "'e mqtt_env_scheme \<Rightarrow> string \<Rightarrow> string option \<Rightarrow> ('z mqtt_state_scheme, unit) act" where
  "on_connect E broker clientId =
     bnd (modify (\<lambda>s. s\<lparr>isConnectedState := True, connectionAttempts := connectionAttempts s + 1\<rparr>)) (\<lambda>_.
     bnd (createTopic E ''Mqtt_Broker'' BROADCAST) (\<lambda>broadcastTopic.
     bnd (getAllSubscribedTopics E) (\<lambda>stored.
     let storedTopics = map t_topic stored in
     bnd (if \<not> truthy (JArr (map JStr storedTopics))
          then bnd (mqtt_subscribe E (OneTopic (t_topic broadcastTopic))) (\<lambda>_. ok ()) else ok ()) (\<lambda>_.
     bnd (mqtt_subscribe E (ManyTopics (storedTopics @ [t_topic broadcastTopic]))) (\<lambda>_.
     emit ''mqtt/event/connected'' [JObj [(''broker'', JStr broker), (''status'', JBool True),
       (''clientId'', case clientId of None \<Rightarrow> JUndefined | Some i \<Rightarrow> JStr i)]])))))"

definition on_message ::
  "'e mqtt_env_scheme \<Rightarrow> string \<Rightarrow> string \<Rightarrow> ('z mqtt_state_scheme, unit) act" where
  "on_message E tpc payload =
     (case json_parse payload of
        None \<Rightarrow> throw (JsError ''Unexpected token in JSON'')
      | Some parsedPayload \<Rightarrow>
          bnd (gets messageRouter) (\<lambda>r.
          case r of
            None \<Rightarrow> throw (JsError ''Cannot read properties of undefined'')
          | Some rt \<Rightarrow>
              bnd (lift_res (route rt (Some tpc) parsedPayload)) (\<lambda>eventName.
              emit eventName [JStr tpc, parsedPayload])))"

definition on_error :: "string \<Rightarrow> ('z mqtt_state_scheme, unit) act" where
  "on_error message = emit ''mqtt/event/error'' [JObj [(''message'', JStr message)]]"

definition on_disconnect :: "string \<Rightarrow> string option \<Rightarrow> ('z mqtt_state_scheme, unit) act" where
  "on_disconnect broker clientId =
     bnd (modify (\<lambda>s. s\<lparr>isConnectedState := False, connectionAttempts := 0\<rparr>)) (\<lambda>_.
     emit ''mqtt/event/disconnected'' [JObj [(''brokerUrl'', JStr broker), (''status'', JBool False),
       (''clientId'', case clientId of None \<Rightarrow> JUndefined | Some i \<Rightarrow> JStr i)]])"

definition on_reconnect :: "'e mqtt_env_scheme \<Rightarrow> ('z mqtt_state_scheme, unit) act" where
  "on_reconnect E = modify (\<lambda>s.
     if connectionAttempts s < MAX_RECONNECTION_ATTEMPTS E
     then s\<lparr>connectionAttempts := connectionAttempts s + 1\<rparr> else s)"

text \<open>
  An event a client object raises, and what one listener does with it. The emitter does not await the
  async callbacks of \<open>connect\<close> and \<open>message\<close>, so their rejection ends the process.
\<close>

datatype client_event =
    Connected | Received string string | Errored string | Closed | Reconnecting

fun event_kind :: "client_event \<Rightarrow> mqtt_event" where
  "event_kind Connected = ConnectEvent"
| "event_kind (Received _ _) = MessageEvent"
| "event_kind (Errored _) = ErrorEvent"
| "event_kind Closed = CloseEvent"
| "event_kind Reconnecting = ReconnectEvent"

fun run_callback ::
  "'e mqtt_env_scheme \<Rightarrow> client_event \<Rightarrow> client_callback \<Rightarrow> ('z mqtt_state_scheme, unit) act" where
  "run_callback E Connected (CbConnect broker clientId) = fire (on_connect E broker clientId)"
| "run_callback E (Received tpc payload) CbMessage = fire (on_message E tpc payload)"
| "run_callback E (Errored message) CbError = on_error message"
| "run_callback E Closed (CbDisconnect broker clientId) = on_disconnect broker clientId"
| "run_callback E Reconnecting CbReconnect = on_reconnect E"
| "run_callback E _ _ = ok ()"

text \<open>
  The client of adapter \<open>i\<close> raises an event: \<open>connect\<close> and \<open>close\<close> change its connection first, then
  its listeners run in order. Without a connection it raises no message.
\<close>

definition client_event :: "client_event \<Rightarrow> client_callback mqtt_conn \<Rightarrow> client_callback mqtt_conn" where
  "client_event ev c = (case ev of
       Connected \<Rightarrow> c\<lparr>cn_connected := True\<rparr>
     | Closed \<Rightarrow> c\<lparr>cn_connected := False\<rparr>
     | _ \<Rightarrow> c)"

definition event_possible :: "client_event \<Rightarrow> client_callback mqtt_conn \<Rightarrow> bool" where
  "event_possible ev c = (case ev of Received _ _ \<Rightarrow> cn_connected c | Connected \<Rightarrow> \<not> cn_connected c | _ \<Rightarrow> True)"

definition raise_event ::
  "'e mqtt_env_scheme \<Rightarrow> nat \<Rightarrow> client_event \<Rightarrow> ('z mqtt_state_scheme, unit) act" where
  "raise_event E i ev = (\<lambda>s.
     case ad_client (clients s ! i) of
       None \<Rightarrow> (Inr (), s)
     | Some c \<Rightarrow>
         if \<not> event_possible ev c then (Inr (), s)
         else
           for_each (run_callback E ev) (client_listeners (event_kind ev) c)
             (s\<lparr>clients := (clients s)[i := (clients s ! i)\<lparr>ad_client := Some (client_event ev c)\<rparr>]\<rparr>))"

section \<open>Connecting and disconnecting\<close>

definition default_options :: "'e mqtt_env_scheme \<Rightarrow> ('z mqtt_state_scheme, mqtt_options) act" where
  "default_options E =
     bnd (date_now E) (\<lambda>now.
     bnd (getOrThrow E ''MQTT_USERNAME'') (\<lambda>username.
     bnd (getOrThrow E ''MQTT_PASSWORD'') (\<lambda>password.
     ok \<lparr>mo_clientId = Some (''Mqtt-'' @ show_nat (process_pid E) @ ''-'' @ show_int now), mo_clean = True,
         mo_connectTimeout = 4000, mo_reconnectPeriod = Some 2000, mo_username = Some username,
         mo_password = Some password\<rparr>)))"

text \<open>\<open>this.mqtt = new MqttClientAdapter()\<close> and the five registrations.\<close>

definition fresh_adapter :: "string \<Rightarrow> mqtt_options \<Rightarrow> client_callback adapter" where
  "fresh_adapter broker opts =
     onReconnect CbReconnect (onDisconnect (CbDisconnect broker (mo_clientId opts)) (onError CbError
       (onMessage CbMessage (onConnect (CbConnect broker (mo_clientId opts)) new_adapter))))"

definition initConnection ::
  "'e mqtt_env_scheme \<Rightarrow> string option \<Rightarrow> mqtt_options option \<Rightarrow> ('z mqtt_state_scheme, unit) act" where
  "initConnection E broker opts =
     bnd (case broker of None \<Rightarrow> getOrThrow E ''MQTT_BROKER_URL'' | Some b \<Rightarrow> ok b) (\<lambda>broker.
     bnd (case opts of None \<Rightarrow> default_options E | Some o' \<Rightarrow> ok o') (\<lambda>opts.
     try_catch
       (bnd (modify (\<lambda>s. s\<lparr>clients := clients s @ [fresh_adapter broker opts],
                           mqtt := Some (length (clients s))\<rparr>)) (\<lambda>_.
        on_mqtt (adapter_connect (mqtt_lib E) broker opts)))
       (\<lambda>_. throw (UnauthorizedException ''Failed to connect to MQTT broker''))))"

definition mqtt_onModuleInit :: "'e mqtt_env_scheme \<Rightarrow> ('z mqtt_state_scheme, unit) act" where
  "mqtt_onModuleInit E =
     bnd (modify (\<lambda>s. s\<lparr>messageRouter := Some initializeMessageRouter\<rparr>)) (\<lambda>_.
     initConnection E None None)"

definition mqtt_isConnected :: "('z mqtt_state_scheme, bool) act" where
  "mqtt_isConnected = gets isConnectedState"

text \<open>The attempt to connect is not awaited, so its failure is not reported and ends the process.\<close>

definition mqtt_reconnect :: "'e mqtt_env_scheme \<Rightarrow> ('z mqtt_state_scheme, bool \<times> string \<times> int) act" where
  "mqtt_reconnect E =
     bnd (gets isConnectedState) (\<lambda>connected.
     bnd (if \<not> connected then fire (initConnection E None None) else ok ()) (\<lambda>_.
     bnd (date_now E) (\<lambda>now.
     ok (True, ''Reconnection initiated'', now))))"

text \<open>
  Ending the connection: a client that is connected raises \<open>close\<close> on the way, while its listeners are
  still there.
\<close>

definition end_client :: "'e mqtt_env_scheme \<Rightarrow> ('z mqtt_state_scheme, unit) act" where
  "end_client E =
     bnd (\<lambda>s. case mqtt s of
            Some i \<Rightarrow> if adapter_isConnected (clients s ! i) then raise_event E i Closed s else (Inr (), s)
          | None \<Rightarrow> (Inr (), s)) (\<lambda>_.
     on_mqtt (adapter_disconnect (mqtt_lib E)))"

definition mqtt_disconnect :: "'e mqtt_env_scheme \<Rightarrow> ('z mqtt_state_scheme, unit) act" where
  "mqtt_disconnect E =
     try_catch
       (bnd (getAllSubscribedTopics E) (\<lambda>ts.
        bnd (for_each (\<lambda>t. fire (updateTopic E (t_topic t) (set_subscribed False))) ts) (\<lambda>_.
        bnd (modify (\<lambda>s. s\<lparr>isConnectedState := False\<rparr>)) (\<lambda>_.
        end_client E))))
       (\<lambda>_. throw (UnauthorizedException ''Failed to disconnect MQTT''))"

definition mqtt_onModuleDestroy :: "'e mqtt_env_scheme \<Rightarrow> ('z mqtt_state_scheme, unit) act" where
  "mqtt_onModuleDestroy E =
     bnd (gets mqtt) (\<lambda>m.
     if m = None then ok ()
     else try_catch (end_client E) (\<lambda>_. ok ()))"

section \<open>Status and configuration\<close>

definition getBrokerUrl :: "('z mqtt_state_scheme, string) act" where
  "getBrokerUrl =
     bnd (gets mqtt) (\<lambda>m.
     if m = None then ok ''unknown''
     else bnd (on_mqtt (gets adapter_getBrokerUrl)) (\<lambda>u. ok (if u = [] then ''unknown'' else u)))"

definition getClientId :: "('z mqtt_state_scheme, string option) act" where
  "getClientId = on_mqtt (gets adapter_getClientId)"

record connection_status =
  st_connected :: jsval
  st_brokerUrl :: string
  st_subscribedTopics :: "string list"
  st_timestamp :: int

text \<open>\<open>connected\<close> is the promise \<open>this.isConnected()\<close>, an object with no properties of its own.\<close>

definition getConnectionStatus :: "'e mqtt_env_scheme \<Rightarrow> ('z mqtt_state_scheme, connection_status) act" where
  "getConnectionStatus E =
     bnd getBrokerUrl (\<lambda>url.
     bnd (getAllSubscribedTopics E) (\<lambda>ts.
     bnd (date_now E) (\<lambda>now.
     ok \<lparr>st_connected = JObj [], st_brokerUrl = url, st_subscribedTopics = map t_topic ts,
         st_timestamp = now\<rparr>)))"

definition handleMessage :: "string \<Rightarrow> string \<Rightarrow> ('z mqtt_state_scheme, string) act" where
  "handleMessage tpc payload =
     (case json_parse payload of
        None \<Rightarrow> throw (JsError ''Unexpected token in JSON'')
      | Some parsedPayload \<Rightarrow>
          bnd (gets messageRouter) (\<lambda>r.
          case r of
            None \<Rightarrow> throw (JsError ''Cannot read properties of undefined'')
          | Some rt \<Rightarrow> lift_res (route rt (Some tpc) parsedPayload)))"

record configuration_result =
  cf_host :: string
  cf_port :: int
  cf_protocol :: string
  cf_clientId :: string
  cf_keepalive :: int
  cf_clean :: bool
  cf_autoReconnect :: bool
  cf_connectAtempts :: int
  cf_maxConnectionAttempts :: int
  cf_connected :: bool
  cf_timestamp :: int

definition getConfiguration :: "'e mqtt_env_scheme \<Rightarrow> ('z mqtt_state_scheme, configuration_result) act" where
  "getConfiguration E =
     bnd (gets isConnectedState) (\<lambda>connected.
     if \<not> connected then throw (UnauthorizedException ''MQTT client not initialized'')
     else
       bnd getBrokerUrl (\<lambda>host.
       bnd getClientId (\<lambda>clientId.
       bnd (gets connectionAttempts) (\<lambda>attempts.
       bnd mqtt_isConnected (\<lambda>conn.
       bnd (date_now E) (\<lambda>now.
       ok \<lparr>cf_host = host, cf_port = 1883, cf_protocol = ''mqtt'',
           cf_clientId = (case clientId of None \<Rightarrow> ''null'' | Some i \<Rightarrow> i), cf_keepalive = 60,
           cf_clean = True, cf_autoReconnect = True, cf_connectAtempts = attempts,
           cf_maxConnectionAttempts = MAX_RECONNECTION_ATTEMPTS E, cf_connected = conn,
           cf_timestamp = now\<rparr>))))))"

text \<open>The new configuration is logged and otherwise not used.\<close>

definition updateConfiguration ::
  "'e mqtt_env_scheme \<Rightarrow> jsval \<Rightarrow> ('z mqtt_state_scheme, unit) act" where
  "updateConfiguration E newConfig =
     bnd (gets (\<lambda>s. mqtt s \<noteq> None \<and> isConnectedState s)) (\<lambda>b.
     bnd (if b then mqtt_disconnect E else ok ()) (\<lambda>_.
     initConnection E None None))"

text \<open>The properties of \<open>MqttConfigDto\<close> that the service reads.\<close>

record mqtt_config =
  mc_host :: "string option"
  mc_port :: "rat option"
  mc_protocol :: "string option"
  mc_keepalive :: "rat option"
  mc_connectTimeout :: "rat option"
  mc_reconnectPeriod :: "rat option"
  mc_username :: "string option"
  mc_password :: "string option"
  mc_clean :: "bool option"

text \<open>\<open>x && x < bound\<close> for an optional number.\<close>

definition below :: "rat \<Rightarrow> rat option \<Rightarrow> bool" where
  "below bound x = (case x of None \<Rightarrow> False | Some n \<Rightarrow> n \<noteq> 0 \<and> n < bound)"

definition config_errors :: "mqtt_config \<Rightarrow> string list" where
  "config_errors c =
     (if mc_host c = None \<or> mc_host c = Some [] then [''Host is required''] else []) @
     (if (case mc_port c of None \<Rightarrow> True | Some p \<Rightarrow> p = 0 \<or> p < 1 \<or> p > 65535)
      then [''Port must be between 1 and 65535''] else []) @
     (if (case mc_protocol c of None \<Rightarrow> False
          | Some p \<Rightarrow> p \<noteq> [] \<and> p \<notin> set [''mqtt'', ''mqtts'', ''tcp'', ''ws'', ''wss''])
      then [''Protocol must be one of: mqtt, mqtts, tcp, ws, wss''] else []) @
     (if below 1 (mc_keepalive c) then [''Keep alive must be at least 1 second''] else []) @
     (if below 1000 (mc_connectTimeout c) then [''Connection timeout must be at least 1000ms''] else []) @
     (if below 1000 (mc_reconnectPeriod c) then [''Reconnect period must be at least 1000ms''] else [])"

datatype validation_result = InvalidConfiguration "string list" | ValidConfiguration string

definition validateConfiguration :: "mqtt_config \<Rightarrow> validation_result" where
  "validateConfiguration c =
     (let errors = config_errors c in
      if length errors > 0 then InvalidConfiguration errors
      else ValidConfiguration ''Configuration is valid'')"

section \<open>Testing a connection\<close>

text \<open>
  \<open>testConnection\<close>: an adapter of its own, a timer, and a promise that the first of connect, error,
  timeout and a failing connect call settles; settling it again does nothing.
\<close>

datatype test_callback = TestConnect | TestError

record test_result =
  te_clientId :: "string option"
  te_protocol :: string
  te_host :: "string option"
  te_port :: "rat option"
  te_timestamp :: int
  te_duration :: int

record test_state =
  te_adapter :: "test_callback adapter"
  te_timer :: bool
  te_promise :: "(exn + test_result) option"

definition settle :: "exn + test_result \<Rightarrow> test_state \<Rightarrow> test_state" where
  "settle r s = (if te_promise s = None then s\<lparr>te_promise := Some r\<rparr> else s)"

text \<open>\<open>a || b\<close> on an optional string and on an optional number.\<close>

definition or_string :: "string option \<Rightarrow> string \<Rightarrow> string" where
  "or_string a b = (case a of None \<Rightarrow> b | Some x \<Rightarrow> if x = [] then b else x)"

definition or_number :: "rat option \<Rightarrow> rat \<Rightarrow> rat" where
  "or_number a b = (case a of None \<Rightarrow> b | Some x \<Rightarrow> if x = 0 then b else x)"

definition test_broker_url :: "mqtt_config \<Rightarrow> string" where
  "test_broker_url c = or_string (mc_protocol c) ''mqtt'' @ ''://'' @
     (case mc_host c of None \<Rightarrow> ''undefined'' | Some h \<Rightarrow> h) @ '':'' @
     (case mc_port c of None \<Rightarrow> ''undefined'' | Some p \<Rightarrow> show_num p)"

definition test_disconnect :: "test_callback mqtt_lib \<Rightarrow> test_state \<Rightarrow> test_state" where
  "test_disconnect L s = s\<lparr>te_adapter := snd (adapter_disconnect L (te_adapter s))\<rparr>"

text \<open>The client id reads the clock again, after \<open>startTime\<close> has been taken.\<close>

definition test_start :: "test_callback mqtt_lib \<Rightarrow> mqtt_config \<Rightarrow> int \<Rightarrow> test_state" where
  "test_start L c now =
     (let testAdapter = onError TestError (onConnect TestConnect new_adapter) in
      case adapter_connect L (test_broker_url c)
          \<lparr>mo_clientId = Some (''test-'' @ show_int now), mo_clean = (mc_clean c \<noteq> Some False),
           mo_connectTimeout = or_number (mc_connectTimeout c) 10000, mo_reconnectPeriod = None,
           mo_username = mc_username c, mo_password = mc_password c\<rparr> testAdapter of
        (Inr _, a) \<Rightarrow> \<lparr>te_adapter = a, te_timer = True, te_promise = None\<rparr>
      | (Inl e, a) \<Rightarrow> settle (Inl (JsError (''Connection test failed: '' @ exn_message e)))
          \<lparr>te_adapter = a, te_timer = False, te_promise = None\<rparr>)"

definition test_timeout :: "test_callback mqtt_lib \<Rightarrow> int \<Rightarrow> int \<Rightarrow> test_state \<Rightarrow> test_state" where
  "test_timeout L startTime now s =
     (if \<not> te_timer s then s
      else settle (Inl (JsError (''Connection test timeout after '' @ show_int (now - startTime) @ ''ms'')))
        ((test_disconnect L s)\<lparr>te_timer := False\<rparr>))"

text \<open>The client id is read after the disconnect has begun; the client goes when it has ended.\<close>

definition test_connected ::
  "test_callback mqtt_lib \<Rightarrow> mqtt_config \<Rightarrow> int \<Rightarrow> int \<Rightarrow> test_state \<Rightarrow> test_state" where
  "test_connected L c startTime now s =
     settle (Inr \<lparr>te_clientId = adapter_getClientId (te_adapter s),
         te_protocol = or_string (mc_protocol c) ''mqtt'', te_host = mc_host c, te_port = mc_port c,
         te_timestamp = now, te_duration = now - startTime\<rparr>)
       ((test_disconnect L s)\<lparr>te_timer := False\<rparr>)"

definition test_errored :: "test_callback mqtt_lib \<Rightarrow> string \<Rightarrow> test_state \<Rightarrow> test_state" where
  "test_errored L message s =
     settle (Inl (ForbiddenException (''Connection test failed: '' @ message)))
       ((test_disconnect L s)\<lparr>te_timer := False\<rparr>)"

datatype test_event = TestTimeout | TestConnected | TestErrored string

text \<open>A listener runs only while the client has it.\<close>

definition test_listens :: "mqtt_event \<Rightarrow> test_state \<Rightarrow> bool" where
  "test_listens ev s =
     (case ad_client (te_adapter s) of None \<Rightarrow> False | Some c \<Rightarrow> client_listeners ev c \<noteq> [])"

fun test_step ::
  "test_callback mqtt_lib \<Rightarrow> mqtt_config \<Rightarrow> int \<Rightarrow> int \<times> test_event \<Rightarrow> test_state \<Rightarrow> test_state" where
  "test_step L c startTime (now, TestTimeout) s = test_timeout L startTime now s"
| "test_step L c startTime (now, TestConnected) s =
     (if test_listens ConnectEvent s then test_connected L c startTime now s else s)"
| "test_step L c startTime (now, TestErrored message) s =
     (if test_listens ErrorEvent s then test_errored L message s else s)"

definition testConnection ::
  "test_callback mqtt_lib \<Rightarrow> mqtt_config \<Rightarrow> int \<Rightarrow> int \<Rightarrow> (int \<times> test_event) list \<Rightarrow> test_state" where
  "testConnection L c startTime now evs = fold (test_step L c startTime) evs (test_start L c now)"

end
