(* ===== verification/ConnectionTest.thy ===== *)
theory ConnectionTest
  imports MqttClient
begin

text \<open>
  The two requests about a configuration that is not applied: \<open>validateConfiguration\<close> against the
  declarative range of a configuration, and \<open>testConnection\<close>, whose promise is settled by the first
  event of its client and timer.
\<close>

section \<open>Validation\<close>

definition config_in_range :: "mqtt_config \<Rightarrow> bool" where
  "config_in_range c \<longleftrightarrow>
     (\<exists>h p. mc_host c = Some h \<and> h \<noteq> [] \<and> mc_port c = Some p \<and> 1 \<le> p \<and> p \<le> 65535) \<and>
     (\<forall>q. mc_protocol c = Some q \<longrightarrow> q \<in> set [[], ''mqtt'', ''mqtts'', ''tcp'', ''ws'', ''wss'']) \<and>
     (\<forall>n. mc_keepalive c = Some n \<longrightarrow> n = 0 \<or> 1 \<le> n) \<and>
     (\<forall>n. mc_connectTimeout c = Some n \<longrightarrow> n = 0 \<or> 1000 \<le> n) \<and>
     (\<forall>n. mc_reconnectPeriod c = Some n \<longrightarrow> n = 0 \<or> 1000 \<le> n)"

lemma not_below: "\<not> below b x \<longleftrightarrow> (\<forall>n. x = Some n \<longrightarrow> n = 0 \<or> b \<le> n)"
  by (auto simp: below_def split: option.split)

lemma one_error_Nil: "(if b then [x] else []) = [] \<longleftrightarrow> \<not> b"
  by simp

lemma port_in_range:
  "\<not> (case q of None \<Rightarrow> True | Some p \<Rightarrow> p = 0 \<or> p < 1 \<or> p > 65535) \<longleftrightarrow>
     (\<exists>p. q = Some p \<and> 1 \<le> p \<and> p \<le> (65535 :: rat))"
  by (cases q) auto

lemma protocol_known:
  "\<not> (case q of None \<Rightarrow> False | Some p \<Rightarrow> p \<noteq> [] \<and> p \<notin> S) \<longleftrightarrow> (\<forall>p. q = Some p \<longrightarrow> p \<in> insert [] S)"
  by (cases q) auto

lemma host_given: "\<not> (h = None \<or> h = Some []) \<longleftrightarrow> (\<exists>x. h = Some x \<and> x \<noteq> [])"
  by (cases h) auto

lemma config_errors_Nil: "config_errors c = [] \<longleftrightarrow> config_in_range c"
  unfolding config_errors_def append_is_Nil_conv one_error_Nil port_in_range protocol_known host_given not_below
    config_in_range_def list.set(2)[of "[]"] by blast

text \<open>
  A configuration is valid exactly if it has a host, a port from 1 to 65535, a known protocol or
  none, a keepalive of at least a second and times of at least 1000 ms, where zero and absent
  numbers pass; otherwise at least one error and at most six are reported.
\<close>

theorem configuration_bounds:
  "case validateConfiguration c of
     ValidConfiguration m \<Rightarrow> config_in_range c
   | InvalidConfiguration errors \<Rightarrow> \<not> config_in_range c \<and> 1 \<le> length errors \<and> length errors \<le> 6"
proof (cases "config_errors c = []")
  case True
  then show ?thesis using config_errors_Nil[of c] by (simp add: validateConfiguration_def)
next
  case False
  have "length (config_errors c) \<le> 1 + (1 + (1 + (1 + (1 + 1))))"
    unfolding config_errors_def length_append by (intro add_mono) simp_all
  with False config_errors_Nil[of c] show ?thesis
    by (simp add: validateConfiguration_def Suc_le_eq)
qed

section \<open>The connection test\<close>

definition first_outcome :: "mqtt_config \<Rightarrow> int \<Rightarrow> int \<Rightarrow> int \<times> test_event \<Rightarrow> exn + test_result" where
  "first_outcome c startTime idTime e = (case e of
       (now, TestTimeout) \<Rightarrow> Inl (JsError (''Connection test timeout after '' @ show_int (now - startTime) @ ''ms''))
     | (now, TestErrored message) \<Rightarrow> Inl (ForbiddenException (''Connection test failed: '' @ message))
     | (now, TestConnected) \<Rightarrow> Inr \<lparr>te_clientId = Some (''test-'' @ show_int idTime),
         te_protocol = or_string (mc_protocol c) ''mqtt'', te_host = mc_host c, te_port = mc_port c,
         te_timestamp = now, te_duration = now - startTime\<rparr>)"

text \<open>Once settled, the test has no client and no timer, so no further event reaches it.\<close>

definition test_over :: "test_state \<Rightarrow> bool" where
  "test_over s \<longleftrightarrow> te_adapter s = new_adapter \<and> \<not> te_timer s \<and> te_promise s \<noteq> None"

lemma test_over_step: "test_over s \<Longrightarrow> test_step L c t e s = s"
  by (cases e; cases "snd e") (auto simp: test_over_def test_timeout_def test_listens_def new_adapter_def)

lemma test_over_fold: "test_over s \<Longrightarrow> fold (test_step L c t) es s = s"
  by (induction es) (simp_all add: test_over_step)

lemma test_started:
  assumes "mqtt_lib_ok L"
  shows "\<exists>c'. ad_client (te_adapter (test_start L c t)) = Some c' \<and>
    client_listeners ConnectEvent c' \<noteq> [] \<and> client_listeners ErrorEvent c' \<noteq> [] \<and>
    cn_clientId c' = Some (''test-'' @ show_int t)"
    "te_timer (test_start L c t)" "te_promise (test_start L c t) = None"
proof -
  let ?a = "onError TestError (onConnect TestConnect new_adapter)"
  let ?o = "\<lparr>mo_clientId = Some (''test-'' @ show_int t), mo_clean = (mc_clean c \<noteq> Some False),
           mo_connectTimeout = or_number (mc_connectTimeout c) 10000, mo_reconnectPeriod = None,
           mo_username = mc_username c, mo_password = mc_password c\<rparr>"
  have cb: "connectCallback ?a = Some TestConnect" "errorCallback ?a = Some TestError"
    by (simp_all add: onError_def onConnect_def)
  have "has_protocol (test_broker_url c)" unfolding test_broker_url_def by (rule has_protocolI)
  from adapter_connect_run[OF assms this, of ?o ?a] cb obtain c' where
    run: "adapter_connect L (test_broker_url c) ?o ?a = (Inr (), ?a\<lparr>ad_client := Some c'\<rparr>)"
    "cn_clientId c' = Some (''test-'' @ show_int t)" "client_listeners ConnectEvent c' = [TestConnect]"
    "client_listeners ErrorEvent c' = [TestError]" by auto
  have "test_start L c t = \<lparr>te_adapter = ?a\<lparr>ad_client := Some c'\<rparr>, te_timer = True, te_promise = None\<rparr>"
    unfolding test_start_def Let_def run(1) by simp
  with run show "\<exists>c'. ad_client (te_adapter (test_start L c t)) = Some c' \<and>
      client_listeners ConnectEvent c' \<noteq> [] \<and> client_listeners ErrorEvent c' \<noteq> [] \<and>
      cn_clientId c' = Some (''test-'' @ show_int t)"
    "te_timer (test_start L c t)" "te_promise (test_start L c t) = None" by simp_all
qed

lemma first_step:
  assumes "mqtt_lib_ok L"
  shows "te_promise (test_step L c t e (test_start L c t')) = Some (first_outcome c t t' e)"
    "test_over (test_step L c t e (test_start L c t'))"
proof -
  obtain now ev where e: "e = (now, ev)" by (cases e)
  from test_started[OF assms, of c t'] obtain c' where
    c': "ad_client (te_adapter (test_start L c t')) = Some c'" "client_listeners ConnectEvent c' \<noteq> []"
    "client_listeners ErrorEvent c' \<noteq> []" "cn_clientId c' = Some (''test-'' @ show_int t')" by blast
  note start = c' test_started(2,3)[OF assms, of c t']
  have disc: "te_adapter (test_disconnect L (test_start L c t')) = new_adapter"
    "te_promise (test_disconnect L (test_start L c t')) = None"
    using start by (simp_all add: test_disconnect_def adapter_disconnect_run[OF assms])
  show "te_promise (test_step L c t e (test_start L c t')) = Some (first_outcome c t t' e)"
    using e start disc by (cases ev) (simp_all add: test_timeout_def test_connected_def test_errored_def
        settle_def test_listens_def first_outcome_def adapter_getClientId_def)
  show "test_over (test_step L c t e (test_start L c t'))"
    using e start disc by (cases ev) (simp_all add: test_timeout_def test_connected_def test_errored_def
        settle_def test_listens_def test_over_def)
qed

text \<open>
  C37. A connection test is answered as soon as anything happens: the first event of the connection
  or of the timer settles the promise, with the outcome of that event, ends the test client and
  stops the timer; nothing that happens later changes the answer. The timer always fires in the
  end, so every test is answered.
\<close>

theorem connection_test_answered:
  assumes "mqtt_lib_ok L"
  shows "case evs of
      [] \<Rightarrow> te_timer (testConnection L c startTime idTime evs) \<and> te_promise (testConnection L c startTime idTime evs) = None
    | e # later \<Rightarrow>
        te_promise (testConnection L c startTime idTime evs) = Some (first_outcome c startTime idTime e) \<and>
        ad_client (te_adapter (testConnection L c startTime idTime evs)) = None \<and>
        \<not> te_timer (testConnection L c startTime idTime evs)"
proof (cases evs)
  case Nil
  then show ?thesis using test_started[OF assms] by (simp add: testConnection_def)
next
  case (Cons e later)
  then show ?thesis
    using first_step[OF assms, of c startTime e idTime] test_over_fold[OF first_step(2)[OF assms, of c startTime e idTime]]
    by (simp add: testConnection_def test_over_def new_adapter_def)
qed

theorem connection_test_answered_witness:
  "\<exists>m. te_promise (testConnection mem_mqtt
      \<lparr>mc_host = Some ''h'', mc_port = Some 1883, mc_protocol = None, mc_keepalive = None,
       mc_connectTimeout = None, mc_reconnectPeriod = None, mc_username = None, mc_password = None,
       mc_clean = None\<rparr> 5 6 [(15, TestTimeout), (16, TestConnected)]) = Some (Inl (JsError m))"
  using connection_test_answered[OF mqtt_lib_ok_mem_mqtt, where idTime = 6 and evs = "[(15, TestTimeout), (16, TestConnected)]"]
  by (simp add: first_outcome_def)

end
