(* ===== verification/Validation.thy ===== *)
theory Validation
  imports Platform Enums "HOL-Library.Word"
begin

text \<open>
  The validation of request and response bodies: the decorators the DTO classes carry, as lists of
  rules per property, the validators of \<open>config/decorator\<close>, and the rules of the DTOs of
  \<open>responser/dto\<close>. The \<open>class-validator\<close> package is a parameter \<open>dto_rules \<Rightarrow> int \<Rightarrow> jsval \<Rightarrow> bool\<close>;
  what its documentation says of each decorator is \<open>class_validator_ok\<close>.
\<close>

section \<open>Decorators of the repository\<close>

text \<open>\<open>parseInt(s, 10)\<close>: white space, a sign, the longest run of digits; NaN is None.\<close>

definition js_parse_int :: "string \<Rightarrow> int option" where
  "js_parse_int s =
     (let t = dropWhile js_space s;
          neg = (t \<noteq> [] \<and> hd t = CHR ''-'');
          u = (if t \<noteq> [] \<and> (hd t = CHR ''-'' \<or> hd t = CHR ''+'') then tl t else t);
          ds = takeWhile is_digit u
      in if ds = [] then None
         else Some (if neg then - int (digits_val ds) else int (digits_val ds)))"

definition validOctets :: "int list" where
  "validOctets = [0, 128, 192, 224, 240, 248, 252, 254, 255]"

fun octets_decrease :: "int \<Rightarrow> string list \<Rightarrow> bool" where
  "octets_decrease previous [] = True"
| "octets_decrease previous (part # rest) =
     (case js_parse_int part of
        None \<Rightarrow> False
      | Some num \<Rightarrow>
          if num \<notin> set validOctets then False
          else if num > previous then False
          else octets_decrease num rest)"

definition IsSubnetMask :: "jsval \<Rightarrow> bool" where
  "IsSubnetMask value =
     (case value of
        JStr s \<Rightarrow>
          (let parts = js_split CHR ''.'' s in length parts = 4 \<and> octets_decrease 255 parts)
      | _ \<Rightarrow> False)"

text \<open>The comparison with the clock is commented out in the code.\<close>

definition IsValidTimestampMillis :: "int \<Rightarrow> jsval \<Rightarrow> bool" where
  "IsValidTimestampMillis now value = (js_typeof value = ''number'')"

definition IsValidEpochMillis :: "int \<Rightarrow> jsval \<Rightarrow> bool" where
  "IsValidEpochMillis now value =
     (case value of JNum n \<Rightarrow> 0 \<le> n \<and> n \<le> of_int (now + 60000) | _ \<Rightarrow> False)"

section \<open>Rules\<close>

datatype validator =
    IsString | IsNotEmpty | IsBoolean | IsNumber | IsArray | IsObject | IsOptional
  | IsEnum "string list"
  | Custom "int \<Rightarrow> jsval \<Rightarrow> bool"
  | ValidateNested "(string \<times> validator list) list"

type_synonym dto_rules = "(string \<times> validator list) list"

text \<open>
  What the package documents: each decorator on the value of its property, none of them when the
  property is optional and the value is null or undefined, and nested objects by their own rules.
  The value itself has to be an object.
\<close>

fun passes :: "int \<Rightarrow> jsval \<Rightarrow> validator \<Rightarrow> bool" where
  "passes now v IsString = (js_typeof v = ''string'')"
| "passes now v IsNotEmpty = (\<not> nullish v \<and> v \<noteq> JStr [])"
| "passes now v IsBoolean = (js_typeof v = ''boolean'')"
| "passes now v IsNumber = (js_typeof v = ''number'')"
| "passes now v IsArray = (case v of JArr _ \<Rightarrow> True | _ \<Rightarrow> False)"
| "passes now v IsObject = (case v of JObj _ \<Rightarrow> True | JDate _ \<Rightarrow> True | _ \<Rightarrow> False)"
| "passes now v IsOptional = True"
| "passes now v (IsEnum values) = (case v of JStr s \<Rightarrow> s \<in> set values | _ \<Rightarrow> False)"
| "passes now v (Custom f) = f now v"
| "passes now v (ValidateNested rules) =
     ((case v of JObj _ \<Rightarrow> True | _ \<Rightarrow> False) \<and>
      list_all (\<lambda>(f, vs). (IsOptional \<in> set vs \<and> nullish (js_get v f)) \<or> list_all (passes now (js_get v f)) vs)
        rules)"

definition dto_valid :: "int \<Rightarrow> dto_rules \<Rightarrow> jsval \<Rightarrow> bool" where
  "dto_valid now rules v = passes now v (ValidateNested rules)"

definition class_validator_ok :: "(dto_rules \<Rightarrow> int \<Rightarrow> jsval \<Rightarrow> bool) \<Rightarrow> bool" where
  "class_validator_ok V \<longleftrightarrow> (\<forall>rules now v. V rules now v = dto_valid now rules v)"

lemma class_validator_ok_instance [simp]: "class_validator_ok (\<lambda>rules now v. dto_valid now rules v)"
  by (simp add: class_validator_ok_def)

text \<open>A valid value passes every rule of every property that is not optional.\<close>

lemma dto_valid_property:
  "dto_valid now rules v \<Longrightarrow> (f, vs) \<in> set rules \<Longrightarrow> IsOptional \<notin> set vs \<Longrightarrow> c \<in> set vs \<Longrightarrow>
     passes now (js_get v f) c"
  by (auto simp: dto_valid_def list_all_iff)

lemma dto_valid_object: "dto_valid now rules v \<Longrightarrow> \<exists>kvs. v = JObj kvs"
  by (cases v) (auto simp: dto_valid_def)

section \<open>The DTOs of device responses\<close>

text \<open>The decorators of \<open>common/decorator/api-properties\<close>.\<close>

definition RequiredString :: "validator list" where "RequiredString = [IsString, IsNotEmpty]"
definition RequiredNumber :: "validator list" where "RequiredNumber = [IsNumber, IsNotEmpty]"
definition OptionalString :: "validator list" where "OptionalString = [IsString, IsOptional]"
definition OptionalNumber :: "validator list" where "OptionalNumber = [IsNumber, IsOptional]"
definition UserIdProperty :: "validator list" where "UserIdProperty = [IsString, IsNotEmpty]"
definition DeviceIdProperty :: "validator list" where "DeviceIdProperty = [IsString, IsNotEmpty]"
definition RequestIdProperty :: "validator list" where "RequestIdProperty = [IsString, IsNotEmpty]"
definition ResponseIdProperty :: "validator list" where "ResponseIdProperty = [IsString, IsNotEmpty]"
definition RequestCodeProperty :: "validator list" where "RequestCodeProperty = [IsString, IsNotEmpty]"

text \<open>The code of a response is a number of the enum, and the decorator asks for a string.\<close>

definition ResponseCodeProperty :: "validator list" where "ResponseCodeProperty = [IsString, IsNotEmpty]"

definition TimeStampProperty :: "validator list" where
  "TimeStampProperty = [Custom IsValidTimestampMillis, IsNotEmpty]"

definition ack_values :: "string list" where
  "ack_values = [''accepted'', ''rejected'', ''access_denied'']"

definition AckResponseDto :: dto_rules where
  "AckResponseDto =
     [(''userId'', UserIdProperty), (''responseId'', ResponseIdProperty),
      (''responseCode'', ResponseCodeProperty), (''requestId'', RequestIdProperty),
      (''deviceId'', DeviceIdProperty), (''timestamp'', TimeStampProperty),
      (''ackStatus'', [IsEnum ack_values, IsNotEmpty]), (''details'', RequiredString)]"

definition DiscoveryResponseDto :: dto_rules where
  "DiscoveryResponseDto =
     [(''userId'', UserIdProperty), (''responseId'', ResponseIdProperty),
      (''responseCode'', ResponseCodeProperty), (''requestId'', RequestIdProperty),
      (''timestamp'', TimeStampProperty), (''isBroadcast'', [IsBoolean, IsNotEmpty]),
      (''sensorData'', [IsOptional, IsObject]), (''uptime'', [Custom IsValidEpochMillis]),
      (''additionalInfo'', [IsOptional, IsObject])]"

definition FwUpgradeResponseDto :: dto_rules where
  "FwUpgradeResponseDto =
     [(''userId'', UserIdProperty), (''responseId'', ResponseIdProperty),
      (''responseCode'', ResponseCodeProperty), (''requestId'', RequestIdProperty),
      (''deviceId'', DeviceIdProperty), (''timestamp'', TimeStampProperty),
      (''status'', [IsEnum [''success'', ''failure'', ''processing'', ''scheduled'']]),
      (''progress'', [IsNumber])]"

definition HardwareStatusResponseDto :: dto_rules where
  "HardwareStatusResponseDto =
     [(''userId'', UserIdProperty), (''responseId'', ResponseIdProperty),
      (''responseCode'', ResponseCodeProperty), (''requestId'', RequestIdProperty),
      (''deviceId'', DeviceIdProperty), (''timestamp'', TimeStampProperty),
      (''memoryUsage'', RequiredNumber), (''cpuUsage'', RequiredNumber),
      (''uptime'', [Custom IsValidEpochMillis]), (''internalTemp'', RequiredNumber),
      (''wifiRssi'', RequiredNumber)]"

definition HeartbeatDto :: dto_rules where
  "HeartbeatDto =
     [(''userId'', UserIdProperty), (''responseId'', ResponseIdProperty),
      (''responseCode'', ResponseCodeProperty), (''requestId'', RequestIdProperty),
      (''deviceId'', DeviceIdProperty), (''timestamp'', TimeStampProperty),
      (''connectionState'', [IsEnum [''online'', ''offline'', ''error'']]),
      (''uptime'', [Custom IsValidEpochMillis]), (''wifiRssi'', RequiredNumber)]"

definition DeviceRebootResponseDto :: dto_rules where
  "DeviceRebootResponseDto =
     [(''userId'', UserIdProperty), (''responseId'', ResponseIdProperty),
      (''responseCode'', ResponseCodeProperty), (''requestId'', RequestIdProperty),
      (''deviceId'', DeviceIdProperty), (''timestamp'', TimeStampProperty),
      (''status'', [IsEnum [''success'', ''failure'', ''scheduled'']]), (''message'', OptionalString)]"

definition SensorFunctionalityResponseDto :: dto_rules where
  "SensorFunctionalityResponseDto =
     [(''userId'', UserIdProperty), (''responseId'', ResponseIdProperty),
      (''responseCode'', ResponseCodeProperty), (''requestId'', RequestIdProperty),
      (''deviceId'', DeviceIdProperty), (''functionality'', [IsArray, IsNotEmpty]),
      (''status'', [IsEnum ack_values])]"

definition telemetry_metrics :: "string list" where
  "telemetry_metrics =
     [''temperature'', ''humidity'', ''pressure'', ''airQuality'', ''co2'', ''voc'', ''noise'', ''light'',
      ''voltage'', ''current'', ''power'', ''powerFactor'', ''energyConsumption'', ''waterFlow'',
      ''waterLevel'', ''gasLeak'', ''gasFlow'', ''accelerometer'', ''gyroscope'', ''magnetometer'',
      ''vibration'', ''tilt'', ''geoLatitude'', ''geoLongitude'', ''rpm'', ''torque'', ''batteryLevel'',
      ''heaterState'', ''motorState'', ''smoke'', ''flame'', ''motion'', ''doorState'', ''windowState'',
      ''soilMoisture'', ''soilTemperature'', ''ph'', ''ec'']"

definition DeviceLocationDto :: dto_rules where
  "DeviceLocationDto =
     [(''site'', OptionalString), (''floor'', OptionalNumber), (''unit'', OptionalString)]"

definition TelemetryMetaDto :: dto_rules where
  "TelemetryMetaDto =
     [(''firmwareVersion'', OptionalString), (''location'', [IsOptional, ValidateNested DeviceLocationDto]),
      (''comment'', OptionalString)]"

definition TelemetryResponseDto :: dto_rules where
  "TelemetryResponseDto =
     [(''userId'', UserIdProperty), (''responseId'', ResponseIdProperty),
      (''responseCode'', ResponseCodeProperty), (''requestId'', RequestIdProperty),
      (''deviceId'', DeviceIdProperty), (''timestamp'', TimeStampProperty),
      (''metric'', [IsEnum telemetry_metrics]), (''value'', RequiredNumber),
      (''meta'', [IsOptional, IsObject, ValidateNested TelemetryMetaDto])]"

text \<open>The DTOs of the listener, each of which carries the ids and the code of the response.\<close>

definition response_dtos :: "dto_rules list" where
  "response_dtos = [AckResponseDto, DiscoveryResponseDto, FwUpgradeResponseDto, HardwareStatusResponseDto,
     HeartbeatDto, DeviceRebootResponseDto, SensorFunctionalityResponseDto, TelemetryResponseDto]"

lemma response_dto_rules:
  assumes "rules \<in> set response_dtos"
  shows "(''responseCode'', [IsString, IsNotEmpty]) \<in> set rules"
    "(''requestId'', [IsString, IsNotEmpty]) \<in> set rules" "(''userId'', [IsString, IsNotEmpty]) \<in> set rules"
    "(''responseId'', [IsString, IsNotEmpty]) \<in> set rules"
  using assms
  by (auto simp: response_dtos_def AckResponseDto_def DiscoveryResponseDto_def FwUpgradeResponseDto_def
      HardwareStatusResponseDto_def HeartbeatDto_def DeviceRebootResponseDto_def
      SensorFunctionalityResponseDto_def TelemetryResponseDto_def ResponseCodeProperty_def
      RequestIdProperty_def UserIdProperty_def ResponseIdProperty_def)

lemma js_typeof_string: "js_typeof v = ''string'' \<longleftrightarrow> (\<exists>s. v = JStr s)"
  by (cases v) auto

text \<open>In a valid response the ids and the code are strings that are not empty.\<close>

lemma response_dto_strings:
  assumes "rules \<in> set response_dtos" "dto_valid now rules v"
    "f \<in> {''responseCode'', ''requestId'', ''userId'', ''responseId''}"
  shows "\<exists>s. js_get v f = JStr s \<and> s \<noteq> []"
proof -
  have "(f, [IsString, IsNotEmpty]) \<in> set rules" using response_dto_rules[OF assms(1)] assms(3) by auto
  from dto_valid_property[OF assms(2) this, of IsString] dto_valid_property[OF assms(2) this, of IsNotEmpty]
  show ?thesis by (auto simp: js_typeof_string)
qed

end
