(* ===== verification/SubnetMask.thy ===== *)
theory SubnetMask
  imports Validation JsonRoundtrip
begin

unbundle bit_operations_syntax

text \<open>
  \<open>IsSubnetMask\<close> against the masks of IPv4: the words of 32 bits whose ones are the high bits, in
  dotted decimal.
\<close>

definition prefix_mask :: "nat \<Rightarrow> 32 word" where
  "prefix_mask k = NOT (mask (32 - k))"

definition octets :: "32 word \<Rightarrow> nat list" where
  "octets w = map (\<lambda>i. unat (drop_bit i w AND 255)) [24, 16, 8, 0]"

definition dotted :: "32 word \<Rightarrow> string" where
  "dotted w = js_join ''.'' (map show_nat (octets w))"

fun decreasing_octets :: "int \<Rightarrow> nat list \<Rightarrow> bool" where
  "decreasing_octets p [] = True"
| "decreasing_octets p (n # ns) \<longleftrightarrow> int n \<in> set validOctets \<and> int n \<le> p \<and> decreasing_octets (int n) ns"

lemma prefix_octets: "list_all (\<lambda>k. decreasing_octets 255 (octets (prefix_mask k))) [0..<33]"
  by code_simp

lemma gap_octets: "list_all (\<lambda>k. octets (prefix_mask k) \<noteq> [255, 254, 252, 0]) [0..<33]"
  by code_simp


text \<open>Reading the decimal of an octet gives it back, and the parts of a dotted word are its octets.\<close>

lemma parse_int_show_nat: "js_parse_int (show_nat n) = Some (int n)"
proof -
  have hd: "is_digit (hd (show_nat n))" by (rule hd_show_nat_digit)
  then have "\<not> js_space (hd (show_nat n))" "hd (show_nat n) \<noteq> CHR ''-''" "hd (show_nat n) \<noteq> CHR ''+''"
    by (auto simp: is_digit_def js_space_def)
  moreover from this have "dropWhile js_space (show_nat n) = show_nat n"
    by (cases "show_nat n") auto
  moreover have "takeWhile is_digit (show_nat n) = show_nat n"
    using show_nat_digits[of n] by (simp add: takeWhile_eq_all_conv)
  ultimately show ?thesis by (simp add: js_parse_int_def Let_def del: takeWhile_eq_all_conv)
qed

lemma octets_decrease_show: "octets_decrease p (map show_nat ns) \<longleftrightarrow> decreasing_octets p ns"
  by (induction ns arbitrary: p) (simp_all add: parse_int_show_nat not_less)

lemma split_dotted: "js_split CHR ''.'' (dotted w) = map show_nat (octets w)"
proof -
  have "CHR ''.'' \<notin> set (show_nat n)" for n using show_nat_digits[of n] by (auto simp: is_digit_def)
  then show ?thesis unfolding dotted_def by (intro js_split_join) (auto simp: octets_def)
qed

lemma IsSubnetMask_dotted: "IsSubnetMask (JStr (dotted w)) \<longleftrightarrow> decreasing_octets 255 (octets w)"
proof -
  have "length (octets w) = 4" by (simp add: octets_def)
  then show ?thesis by (simp add: IsSubnetMask_def Let_def split_dotted octets_decrease_show)
qed

text \<open>A word whose octets all come from the list of valid ones: what the validator accepts.\<close>

definition gap_mask :: "32 word" where "gap_mask = 0xFFFEFC00"

lemma gap_mask_octets: "octets gap_mask = [255, 254, 252, 0]"
  by code_simp

text \<open>
  C38. The subnet mask validator accepts the dotted decimal of each of the 33 masks of IPv4, and of
  a word exactly if its octets are valid mask octets that do not increase; that admits words that
  are no masks, as 255.254.252.0 is. What is not a string is refused.
\<close>

theorem subnet_masks:
  "(k \<le> 32 \<longrightarrow> IsSubnetMask (JStr (dotted (prefix_mask k)))) \<and>
   (IsSubnetMask (JStr (dotted w)) \<longleftrightarrow> decreasing_octets 255 (octets w)) \<and>
   (IsSubnetMask (JStr (dotted gap_mask)) \<and> (k \<le> 32 \<longrightarrow> prefix_mask k \<noteq> gap_mask)) \<and>
   (js_typeof v \<noteq> ''string'' \<longrightarrow> \<not> IsSubnetMask v)"
proof -
  have "decreasing_octets 255 (octets (prefix_mask k))" "octets (prefix_mask k) \<noteq> [255, 254, 252, 0]" if "k \<le> 32"
    using prefix_octets gap_octets that by (auto simp: list_all_iff)
  moreover have "IsSubnetMask (JStr (dotted gap_mask))"
    unfolding IsSubnetMask_dotted gap_mask_octets by (simp add: validOctets_def)
  moreover have "\<not> IsSubnetMask v" if "js_typeof v \<noteq> ''string''"
    using that by (cases v) (auto simp: IsSubnetMask_def)
  ultimately show ?thesis using gap_mask_octets by (auto simp: IsSubnetMask_dotted)
qed

theorem subnet_masks_witness:
  "IsSubnetMask (JStr (dotted (prefix_mask 24))) \<and> \<not> IsSubnetMask (JNum 24) \<and> prefix_mask 24 \<noteq> gap_mask"
  using subnet_masks[of 24 0 "JNum 24"] by simp

end
