(* ===== verification/MqttContract.thy ===== *)
theory MqttContract
  imports MqttClient
begin

text \<open>
  What \<open>MqttClientService\<close> keeps and promises: the invariant of its clients and their listeners over
  every sequence of requests and broker events, the delivery of messages, what is subscribed when a
  connection opens, and what a disconnection leaves behind.
\<close>

section \<open>Invariant\<close>

definition mqtt_env_ok :: "'e mqtt_env_scheme \<Rightarrow> bool" where
  "mqtt_env_ok E \<longleftrightarrow> topic_env_ok E \<and> mqtt_lib_ok (mqtt_lib E) \<and>
     (\<exists>url. config E ''MQTT_BROKER_URL'' = Some url \<and> has_protocol url) \<and>
     config E ''MQTT_USERNAME'' \<noteq> None \<and> config E ''MQTT_PASSWORD'' \<noteq> None"

text \<open>A client object has one listener for each event, the one the service registers for it.\<close>

definition conn_wf :: "client_callback mqtt_conn \<Rightarrow> bool" where
  "conn_wf c \<longleftrightarrow> client_listeners MessageEvent c = [CbMessage] \<and>
     (\<exists>b i. client_listeners ConnectEvent c = [CbConnect b i]) \<and>
     (\<exists>b i. client_listeners CloseEvent c = [CbDisconnect b i]) \<and>
     client_listeners ErrorEvent c = [CbError] \<and> client_listeners ReconnectEvent c = [CbReconnect]"

definition adapter_wf :: "client_callback adapter \<Rightarrow> bool" where
  "adapter_wf a \<longleftrightarrow> (case ad_client a of None \<Rightarrow> True | Some c \<Rightarrow> conn_wf c)"

definition clients_inv :: "'z mqtt_state_scheme \<Rightarrow> bool" where
  "clients_inv s \<longleftrightarrow> messageRouter s = Some initializeMessageRouter \<and>
     (\<forall>i. mqtt s = Some i \<longrightarrow> i < length (clients s)) \<and> list_all adapter_wf (clients s)"

definition mqtt_good :: "'e mqtt_env_scheme \<Rightarrow> 'z mqtt_state_scheme \<Rightarrow> bool" where
  "mqtt_good E s \<longleftrightarrow> mqtt_env_ok E \<and> topics_good E s \<and> clients_inv s"

lemma mqtt_goodD:
  assumes "mqtt_good E s"
  shows "topics_good E s" "mqtt_lib_ok (mqtt_lib E)" "messageRouter s = Some initializeMessageRouter"
    "mqtt s = Some i \<Longrightarrow> i < length (clients s)" "mqtt s = Some i \<Longrightarrow> adapter_wf (clients s ! i)"
    "j < length (clients s) \<Longrightarrow> adapter_wf (clients s ! j)"
  using assms by (auto simp: mqtt_good_def mqtt_env_ok_def clients_inv_def list_all_length)

text \<open>The invariant reads the registry, the router and the clients.\<close>

lemma mqtt_good_cong:
  "topics s' = topics s \<Longrightarrow> messageRouter s' = messageRouter s \<Longrightarrow> mqtt s' = mqtt s \<Longrightarrow>
     clients s' = clients s \<Longrightarrow> mqtt_good E s' \<longleftrightarrow> mqtt_good E s"
  by (simp add: mqtt_good_def topics_good_def clients_inv_def)

lemma mqtt_good_clients:
  assumes "mqtt_good E s" "adapter_wf a"
  shows "mqtt_good E (s\<lparr>clients := (clients s)[i := a]\<rparr>)"
  using assms set_update_subset_insert[of "clients s" i a]
  by (auto simp: mqtt_good_def topics_good_def clients_inv_def list_all_iff)

lemma crash_blind_good [keeps_intros]: "crash_blind (mqtt_good E)"
  by (rule crash_blindI) (simp add: mqtt_good_def topics_good_def clients_inv_def)

lemma keeps_good_frame:
  assumes "\<And>s. topics (snd (m s)) = topics s \<and> messageRouter (snd (m s)) = messageRouter s \<and>
    mqtt (snd (m s)) = mqtt s \<and> clients (snd (m s)) = clients s"
  shows "keeps (mqtt_good E) m"
  using assms mqtt_good_cong[of "snd (m s)" s E for s] by (auto simp: keeps_def)

lemma keeps_date_now [keeps_intros]: "keeps (mqtt_good E) (date_now E')"
  by (rule keeps_good_frame) (simp add: act_simps)

lemma keeps_emit [keeps_intros]: "keeps (mqtt_good E) (emit n args)"
  by (rule keeps_good_frame) (simp add: emit_def act_simps)

lemma keeps_on_mqtt [keeps_intros]:
  assumes "\<And>a. adapter_wf a \<Longrightarrow> adapter_wf (snd (m a))"
  shows "keeps (mqtt_good E) (on_mqtt m)"
proof (rule keepsI)
  fix s assume g: "mqtt_good E s"
  show "mqtt_good E (snd (on_mqtt m s))"
  proof (cases "mqtt s")
    case (Some i)
    with mqtt_good_clients[OF g assms[OF mqtt_goodD(5)[OF g Some]], of i] show ?thesis
      by (simp add: on_mqtt_def split_beta)
  qed (simp add: on_mqtt_def g)
qed

lemma conn_wf_cong: "cn_listeners c' = cn_listeners c \<Longrightarrow> conn_wf c' \<longleftrightarrow> conn_wf c"
  by (simp add: conn_wf_def client_listeners_def)

lemma adapter_wf_on_connected:
  assumes "adapter_wf a" "\<And>c. cn_connected c \<Longrightarrow> cn_listeners (snd (m c)) = cn_listeners c"
  shows "adapter_wf (snd (on_connected m a))"
proof (cases "\<exists>c. ad_client a = Some c \<and> cn_connected c")
  case True
  then obtain c where c: "ad_client a = Some c" "cn_connected c" by blast
  with assms(1) conn_wf_cong[OF assms(2)[OF c(2)]] show ?thesis
    by (simp add: on_connected_run adapter_wf_def)
next
  case False
  with assms(1) show ?thesis by (auto simp: on_connected_def split: option.split)
qed

lemma adapter_wf_ops:
  assumes "mqtt_lib_ok L" "adapter_wf a"
  shows "adapter_wf (snd (adapter_subscribe L ts a))" "adapter_wf (snd (adapter_unsubscribe L ts a))"
    "adapter_wf (snd (adapter_publish L t p opts a))" "adapter_wf (snd (adapter_disconnect L a))"
  unfolding adapter_subscribe_def adapter_unsubscribe_def adapter_publish_def
  using assms(2)
  by (auto intro!: adapter_wf_on_connected[OF assms(2)] simp: mqtt_lib_okD[OF assms(1)])
    (auto simp: adapter_disconnect_run[OF assms(1)] adapter_wf_def new_adapter_def)

lemma fresh_adapter_simps [simp]:
  "ad_client (fresh_adapter b opts) = None" "messageCallback (fresh_adapter b opts) = Some CbMessage"
  "connectCallback (fresh_adapter b opts) = Some (CbConnect b (mo_clientId opts))"
  "disconnectCallback (fresh_adapter b opts) = Some (CbDisconnect b (mo_clientId opts))"
  "errorCallback (fresh_adapter b opts) = Some CbError"
  "reconnectCallback (fresh_adapter b opts) = Some CbReconnect"
  by (simp_all add: fresh_adapter_def onReconnect_def onDisconnect_def onError_def onMessage_def
      onConnect_def new_adapter_def)

section \<open>Opening a connection\<close>

text \<open>A new connection is a new client, with the listeners of the service and not connected yet.\<close>

definition opened ::
  "'z mqtt_state_scheme \<Rightarrow> 'z mqtt_state_scheme \<Rightarrow> client_callback mqtt_conn \<Rightarrow> bool" where
  "opened s s' c \<longleftrightarrow> (\<exists>a. clients s' = clients s @ [a] \<and> ad_client a = Some c) \<and>
     mqtt s' = Some (length (clients s)) \<and> conn_wf c \<and> \<not> cn_connected c \<and>
     cn_subscriptions c = [] \<and> cn_outbox c = [] \<and>
     topics s' = topics s \<and> messageRouter s' = messageRouter s \<and> emitted s' = emitted s \<and>
     isConnectedState s' = isConnectedState s \<and> connectionAttempts s' = connectionAttempts s \<and>
     process_ended s' = process_ended s"

lemma open_client_run:
  assumes "mqtt_lib_ok (mqtt_lib E)" "has_protocol b"
  shows "\<exists>s' c. try_catch
       (bnd (modify (\<lambda>s. s\<lparr>clients := clients s @ [fresh_adapter b opts], mqtt := Some (length (clients s))\<rparr>))
         (\<lambda>_. on_mqtt (adapter_connect (mqtt_lib E) b opts)))
       (\<lambda>_. throw (UnauthorizedException ''Failed to connect to MQTT broker'')) s = (Inr (), s') \<and>
      opened s s' c"
proof -
  from adapter_connect_run[OF assms, of opts "fresh_adapter b opts"] obtain c where
    "adapter_connect (mqtt_lib E) b opts (fresh_adapter b opts) =
      (Inr (), (fresh_adapter b opts)\<lparr>ad_client := Some c\<rparr>)"
    "conn_wf c \<and> \<not> cn_connected c \<and> cn_subscriptions c = [] \<and> cn_outbox c = []"
    by (auto simp: conn_wf_def)
  then show ?thesis by (simp add: act_simps on_mqtt_def opened_def)
qed

lemma connect_run:
  assumes "mqtt_env_ok E"
  shows "\<exists>s' c. initConnection E None opts s = (Inr (), s') \<and> opened s s' c"
proof -
  have lib: "mqtt_lib_ok (mqtt_lib E)" using assms by (simp add: mqtt_env_ok_def)
  obtain b u p where cfg: "config E ''MQTT_BROKER_URL'' = Some b" "has_protocol b"
    "config E ''MQTT_USERNAME'' = Some u" "config E ''MQTT_PASSWORD'' = Some p"
    using assms by (auto simp: mqtt_env_ok_def)
  show ?thesis
  proof (cases opts)
    case (Some o')
    with open_client_run[OF lib cfg(2), of o' s] cfg(1) show ?thesis by (simp add: initConnection_def getOrThrow_run)
  next
    case None
    let ?s = "s\<lparr>clock_reads := Suc (clock_reads s)\<rparr>"
    obtain o' where "default_options E s = (Inr o', ?s)"
      using cfg(3,4) by (simp add: default_options_def act_simps)
    with open_client_run[OF lib cfg(2), of o' ?s] cfg(1) None show ?thesis
      by (simp add: initConnection_def getOrThrow_run opened_def)
  qed
qed

lemma opened_good: "opened s s' c \<Longrightarrow> mqtt_good E s \<Longrightarrow> mqtt_good E s'"
  by (auto simp: opened_def mqtt_good_def topics_good_def clients_inv_def adapter_wf_def)

section \<open>Events of a client\<close>

lemma raise_event_run:
  assumes "ad_client (clients s ! i) = Some c" "event_possible ev c"
  shows "raise_event E i ev s = for_each (run_callback E ev) (client_listeners (event_kind ev) c)
     (s\<lparr>clients := (clients s)[i := (clients s ! i)\<lparr>ad_client := Some (client_event ev c)\<rparr>]\<rparr>)"
  using assms by (simp add: raise_event_def)

text \<open>
  What a message on a topic becomes: one event with the parsed payload, or none, and then the
  callback rejects and the process ends.
\<close>

definition message_events :: "string \<Rightarrow> string \<Rightarrow> (string \<times> jsval list) list" where
  "message_events tpc payload =
     (case json_parse payload of
        None \<Rightarrow> []
      | Some v \<Rightarrow> (case route initializeMessageRouter (Some tpc) v of Inl _ \<Rightarrow> [] | Inr n \<Rightarrow> [(n, [JStr tpc, v])]))"

lemma adapter_same: "ad_client a = Some c \<Longrightarrow> a\<lparr>ad_client := Some c\<rparr> = a"
  by (cases a) simp

definition heard :: "string \<Rightarrow> string \<Rightarrow> 'z mqtt_state_scheme \<Rightarrow> 'z mqtt_state_scheme" where
  "heard tpc payload s =
     (if message_events tpc payload = [] then s\<lparr>process_ended := True\<rparr>
      else s\<lparr>emitted := emitted s @ message_events tpc payload\<rparr>)"

lemma message_run:
  assumes good: "mqtt_good E s" and i: "i < length (clients s)"
    and c: "ad_client (clients s ! i) = Some c" "cn_connected c"
  shows "raise_event E i (Received tpc payload) s = (Inr (), heard tpc payload s)"
proof -
  have "client_listeners MessageEvent c = [CbMessage]"
    using mqtt_goodD(6)[OF good i] c(1) by (simp add: adapter_wf_def conn_wf_def)
  moreover have "fire (on_message E tpc payload) s = (Inr (), heard tpc payload s)"
    using mqtt_goodD(3)[OF good]
    by (simp add: on_message_def message_events_def heard_def act_simps emit_def split: option.split sum.split)
  ultimately show ?thesis
    using raise_event_run[where E = E and ev = "Received tpc payload", OF c(1)] c(2)
    by (simp add: event_possible_def client_event_def adapter_same[OF c(1)])
qed

lemma on_connect_run:
  fixes s :: "'z mqtt_state_scheme"
  defines "ts \<equiv> \<lambda>E. snd (ensure (new_topic E ''Mqtt_Broker'' (device_topic E ''Mqtt_Broker'' BROADCAST) BROADCAST) (topics s))"
  assumes good: "mqtt_good E s" and i: "mqtt s = Some i"
    and c: "ad_client (clients s ! i) = Some c" "cn_connected c"
  shows "\<exists>s'. fire (on_connect E b cid) s = (Inr (), s') \<and> mqtt_good E s' \<and> isConnectedState s' \<and>
    topics s' = ts E \<and> mqtt s' = mqtt s \<and> length (clients s') = length (clients s) \<and>
    (if \<exists>t \<in> set (ts E). t_isSubscribed t
     then (\<exists>c' args. ad_client (clients s' ! i) = Some c' \<and> cn_connected c' \<and>
         set (cn_subscriptions c') = set (cn_subscriptions c) \<union> t_topic ` {t \<in> set (ts E). t_isSubscribed t} \<union>
           {device_topic E ''Mqtt_Broker'' BROADCAST} \<and>
         emitted s' = emitted s @ [(''mqtt/event/connected'', args)]) \<and> process_ended s' = process_ended s
     else clients s' = clients s \<and> emitted s' = emitted s \<and> process_ended s')"
proof -
  let ?t = "new_topic E ''Mqtt_Broker'' (device_topic E ''Mqtt_Broker'' BROADCAST) BROADCAST"
  let ?s1 = "s\<lparr>isConnectedState := True, connectionAttempts := connectionAttempts s + 1, topics := ts E\<rparr>"
  let ?names = "map t_topic (filter t_isSubscribed (ts E)) @ [t_topic (fst (ensure ?t (topics s)))]"
  have env: "topic_env_ok E" "topics_inv E (topics s)"
    using mqtt_goodD(1)[OF good] by (simp_all add: topics_good_def)
  have create: "createTopic E ''Mqtt_Broker'' BROADCAST
      (s\<lparr>isConnectedState := True, connectionAttempts := connectionAttempts s + 1\<rparr>) =
      (Inr (fst (ensure ?t (topics s))), ?s1)"
    using createTopic_run[OF env(1), of "s\<lparr>isConnectedState := True, connectionAttempts := connectionAttempts s + 1\<rparr>" "''Mqtt_Broker''" BROADCAST]
      env(2) by (simp add: ts_def)
  have inv: "topics_inv E (ts E)"
    unfolding ts_def by (rule ensure_inv[OF env(2)]) (simp add: service_name_def)
  have good1: "mqtt_good E ?s1" using good inv by (simp add: mqtt_good_def topics_good_def clients_inv_def)
  have il: "i < length (clients s)" using mqtt_goodD(4)[OF good i] .
  note sub = tr.subscribed_run[OF mqtt_goodD(1)[OF good1]]
  show ?thesis
  proof (cases "\<exists>t \<in> set (ts E). t_isSubscribed t")
    case False
    with sub obtain e where "on_connect E b cid s = (Inl e, ?s1)"
      using create by (auto simp: on_connect_def modify_run)
    with False good1 crash_blindD[OF crash_blind_good good1] show ?thesis by simp
  next
    case True
    let ?c' = "c\<lparr>cn_subscriptions := cn_subscriptions c @ ?names\<rparr>"
    let ?a' = "(clients s ! i)\<lparr>ad_client := Some ?c'\<rparr>"
    let ?s2 = "?s1\<lparr>clients := (clients s)[i := ?a'], clock_reads := Suc (clock_reads s)\<rparr>"
    have "on_mqtt (adapter_subscribe (mqtt_lib E) (ManyTopics ?names)) ?s1 =
        (Inr (), ?s1\<lparr>clients := (clients s)[i := ?a']\<rparr>)"
      using c i by (simp add: on_mqtt_def adapter_subscribe_def on_connected_run mqtt_lib_okD(2)[OF mqtt_goodD(2)[OF good]])
    then have run: "on_connect E b cid s = (Inr (), ?s2\<lparr>emitted := emitted s @ [(''mqtt/event/connected'',
        [JObj [(''broker'', JStr b), (''status'', JBool True),
          (''clientId'', case cid of None \<Rightarrow> JUndefined | Some i \<Rightarrow> JStr i)]])]\<rparr>)"
      using sub True create
      by (simp add: on_connect_def modify_run mqtt_subscribe_def gets_run date_now_run emit_def Let_def)
    have "adapter_wf ?a'"
      using mqtt_goodD(6)[OF good il] c(1) conn_wf_cong[of ?c' c] by (simp add: adapter_wf_def)
    from mqtt_good_clients[OF good1 this, of i] have "mqtt_good E (?s2\<lparr>emitted := x\<rparr>)" for x
      by (simp add: mqtt_good_def topics_good_def clients_inv_def)
    with run True i il c show ?thesis by (auto simp: new_topic_def)
  qed
qed

section \<open>The machine of requests and broker events\<close>

lemma mqtt_good_topics:
  "mqtt_good E s \<Longrightarrow> topics_inv E ts \<Longrightarrow> mqtt_good E (s\<lparr>topics := ts\<rparr>)"
  by (simp add: mqtt_good_def topics_good_def clients_inv_def)

lemma keeps_createTopic [keeps_intros]:
  "CHR ''/'' \<notin> set d \<Longrightarrow> keeps (mqtt_good E) (createTopic E d u)"
proof (rule keepsI)
  fix s :: "'z mqtt_state_scheme" assume d: "CHR ''/'' \<notin> set d" and g: "mqtt_good E s"
  have env: "topic_env_ok E" "topics_inv E (topics s)"
    using mqtt_goodD(1)[OF g] by (simp_all add: topics_good_def)
  show "mqtt_good E (snd (createTopic E d u s))"
    using mqtt_good_topics[OF g ensure_inv[OF env(2)]] d
    by (simp add: createTopic_run[OF env] service_name_def)
qed

lemma keeps_createAll [keeps_intros]:
  "CHR ''/'' \<notin> set d \<Longrightarrow> keeps (mqtt_good E) (createAllTopicsForDevice E d)"
proof (rule keepsI)
  fix s :: "'z mqtt_state_scheme" assume d: "CHR ''/'' \<notin> set d" and g: "mqtt_good E s"
  have env: "topic_env_ok E" "topics_inv E (topics s)"
    using mqtt_goodD(1)[OF g] by (simp_all add: topics_good_def)
  have "\<forall>t \<in> set (device_topics E d). \<exists>n d u. t = new_topic E d n u \<and> service_name E n d u"
    using device_topics_service_name[OF d] by blast
  from mqtt_good_topics[OF g ensure_all_inv[OF this env(2)]] show "mqtt_good E (snd (createAllTopicsForDevice E d s))"
    by (simp add: createAll_run[OF env d] Let_def)
qed

lemma keeps_subscribed [keeps_intros]: "keeps (mqtt_good E) (getAllSubscribedTopics E)"
  by (rule keepsI) (simp add: tr.subscribed_run[OF mqtt_goodD(1)])

lemma keeps_updateTopic [keeps_intros]: "keeps (mqtt_good E) (updateTopic E n (set_subscribed b))"
proof (rule keepsI)
  fix s :: "'z mqtt_state_scheme" assume g: "mqtt_good E s"
  have "topics_inv E (mark b n (topics s))" using mqtt_goodD(1)[OF g] by (simp add: topics_good_def mark_inv)
  from mqtt_good_topics[OF g this] show "mqtt_good E (snd (updateTopic E n (set_subscribed b) s))"
    by (simp add: updateTopic_run[OF mqtt_goodD(1)[OF g]])
qed

lemma keeps_modify_flags [keeps_intros]:
  "keeps (mqtt_good E) (modify (\<lambda>s. s\<lparr>isConnectedState := b\<rparr>))"
  "keeps (mqtt_good E) (modify (\<lambda>s. s\<lparr>isConnectedState := b, connectionAttempts := 0\<rparr>))"
  "keeps (mqtt_good E) (modify (\<lambda>s. s\<lparr>isConnectedState := b, connectionAttempts := connectionAttempts s + 1\<rparr>))"
  by (rule keeps_good_frame, simp add: act_simps)+

text \<open>A refused connection leaves an adapter without a client.\<close>

lemma keeps_open [keeps_intros]:
  "keeps (mqtt_good E) (bnd (modify (\<lambda>s. s\<lparr>clients := clients s @ [fresh_adapter b opts], mqtt := Some (length (clients s))\<rparr>))
     (\<lambda>_. on_mqtt (adapter_connect (mqtt_lib E) b opts)))"
proof (rule keepsI)
  fix s :: "'z mqtt_state_scheme" assume g: "mqtt_good E s"
  let ?a = "fresh_adapter b opts"
  have "adapter_wf (snd (adapter_connect (mqtt_lib E) b opts ?a))"
  proof (cases "ml_connect (mqtt_lib E) b opts")
    case (Inl e)
    then show ?thesis by (simp add: adapter_connect_refused adapter_wf_def fresh_adapter_def onReconnect_def
        onDisconnect_def onError_def onMessage_def onConnect_def new_adapter_def)
  next
    case (Inr c)
    with mqtt_lib_okD(1)[OF mqtt_goodD(2)[OF g], of b opts] have "cn_listeners c = []" by auto
    with Inr show ?thesis
      by (simp add: adapter_connect_def Let_def adapter_wf_def conn_wf_def)
  qed
  with g show "mqtt_good E (snd (bnd (modify (\<lambda>s. s\<lparr>clients := clients s @ [?a], mqtt := Some (length (clients s))\<rparr>))
      (\<lambda>_. on_mqtt (adapter_connect (mqtt_lib E) b opts)) s))"
    by (auto simp: act_simps on_mqtt_def mqtt_good_def topics_good_def clients_inv_def split_beta)
qed

lemma keeps_initConnection [keeps_intros]: "keeps (mqtt_good E) (initConnection E broker opts)"
  unfolding initConnection_def default_options_def by (intro keeps_intros)

lemma keeps_requests [keeps_intros]:
  assumes "mqtt_lib_ok (mqtt_lib E)"
  shows "keeps (mqtt_good E) (mqtt_subscribe E ts)" "keeps (mqtt_good E) (mqtt_unsubscribe E t)"
    "keeps (mqtt_good E) (mqtt_publish E t p opts)"
  unfolding mqtt_subscribe_def mqtt_unsubscribe_def mqtt_publish_def
  by (intro keeps_intros adapter_wf_ops[OF assms] | assumption)+

lemma keeps_run_callback [keeps_intros]:
  assumes "mqtt_lib_ok (mqtt_lib E)"
  shows "keeps (mqtt_good E) (run_callback E ev cb)"
proof -
  have rec: "keeps (mqtt_good E) (on_reconnect E)"
    unfolding on_reconnect_def by (rule keeps_good_frame) (simp add: act_simps)
  have msg: "keeps (mqtt_good E) (on_message E t p)" for t p
    unfolding on_message_def by (intro keeps_intros | simp)+
  have conn: "keeps (mqtt_good E) (on_connect E b i)" for b i
    unfolding on_connect_def Let_def by (intro keeps_intros assms | simp)+
  show ?thesis
    by (cases ev; cases cb) (simp_all add: keeps_intros rec msg conn on_error_def on_disconnect_def)
qed

lemma raise_event_good:
  assumes "mqtt_good E s" "i < length (clients s)"
  shows "mqtt_good E (snd (raise_event E i ev s))"
proof (cases "\<exists>c. ad_client (clients s ! i) = Some c \<and> event_possible ev c")
  case True
  then obtain c where c: "ad_client (clients s ! i) = Some c" "event_possible ev c" by blast
  have "cn_listeners (client_event ev c) = cn_listeners c" by (simp add: client_event_def split: client_event.split)
  then have "adapter_wf ((clients s ! i)\<lparr>ad_client := Some (client_event ev c)\<rparr>)"
    using mqtt_goodD(6)[OF assms] c(1) conn_wf_cong[of "client_event ev c" c] by (simp add: adapter_wf_def)
  from mqtt_good_clients[OF assms(1) this, of i] show ?thesis
    unfolding raise_event_run[OF c]
    by (intro keepsD[of "mqtt_good E" "for_each _ _"] keeps_intros mqtt_goodD(2)[OF assms(1)])
next
  case False
  with assms(1) show ?thesis by (auto simp: raise_event_def split: option.split)
qed

lemma keeps_end_client [keeps_intros]:
  assumes "mqtt_lib_ok (mqtt_lib E)"
  shows "keeps (mqtt_good E) (end_client E)"
proof -
  have "keeps (mqtt_good E) (\<lambda>s. case mqtt s of
      Some i \<Rightarrow> if adapter_isConnected (clients s ! i) then raise_event E i Closed s else (Inr (), s)
    | None \<Rightarrow> (Inr (), s))"
    by (rule keepsI) (auto simp: raise_event_good mqtt_goodD(4) split: option.split)
  moreover have "keeps (mqtt_good E) (on_mqtt (adapter_disconnect (mqtt_lib E)))"
    by (intro keeps_intros adapter_wf_ops[OF assms])
  ultimately show ?thesis unfolding end_client_def by (rule keeps_bnd)
qed

lemma keeps_ending [keeps_intros]:
  assumes "mqtt_lib_ok (mqtt_lib E)"
  shows "keeps (mqtt_good E) (mqtt_disconnect E)" "keeps (mqtt_good E) (mqtt_onModuleDestroy E)"
  unfolding mqtt_disconnect_def mqtt_onModuleDestroy_def by (intro keeps_intros assms)+

text \<open>
  The requests of the controller and of the other services, and the events of any client object
  that exists, the replaced ones included, as long as the process runs.
\<close>

inductive mqtt_step ::
  "'e mqtt_env_scheme \<Rightarrow> 'z mqtt_state_scheme \<Rightarrow> 'z mqtt_state_scheme \<Rightarrow> bool" for E where
  event: "i < length (clients s) \<Longrightarrow> mqtt_step E s (snd (raise_event E i ev s))"
| connect: "mqtt_step E s (snd (initConnection E broker opts s))"
| reconnect: "mqtt_step E s (snd (mqtt_reconnect E s))"
| disconnect: "mqtt_step E s (snd (mqtt_disconnect E s))"
| update_configuration: "mqtt_step E s (snd (updateConfiguration E cfg s))"
| subscribe: "mqtt_step E s (snd (mqtt_subscribe E ts s))"
| unsubscribe: "mqtt_step E s (snd (mqtt_unsubscribe E t s))"
| publish: "mqtt_step E s (snd (mqtt_publish E t p options s))"
| device_topics: "CHR ''/'' \<notin> set d \<Longrightarrow> mqtt_step E s (snd (createAllTopicsForDevice E d s))"
| destroy: "mqtt_step E s (snd (mqtt_onModuleDestroy E s))"

inductive mqtt_reachable :: "'e mqtt_env_scheme \<Rightarrow> 'z mqtt_state_scheme \<Rightarrow> bool" for E where
  start: "topics_inv E (topics s) \<Longrightarrow> clients s = [] \<Longrightarrow> mqtt s = None \<Longrightarrow> \<not> process_ended s \<Longrightarrow>
    mqtt_reachable E (snd (mqtt_onModuleInit E s))"
| step: "mqtt_reachable E s \<Longrightarrow> \<not> process_ended s \<Longrightarrow> mqtt_step E s s' \<Longrightarrow> mqtt_reachable E s'"

lemma keeps_reconnect: "keeps (mqtt_good E) (mqtt_reconnect E)"
  unfolding mqtt_reconnect_def by (intro keeps_intros)

lemma keeps_updateConfiguration:
  assumes "mqtt_lib_ok (mqtt_lib E)"
  shows "keeps (mqtt_good E) (updateConfiguration E cfg)"
  unfolding updateConfiguration_def by (intro keeps_intros assms)

lemma keeps_good: "mqtt_good E s \<Longrightarrow> keeps (mqtt_good E) m \<Longrightarrow> mqtt_good E (snd (m s))"
  by (rule keepsD)

lemma mqtt_step_good:
  assumes "mqtt_step E s s'" "mqtt_good E s"
  shows "mqtt_good E s'"
  using assms(1)
proof cases
  case (event i ev)
  then show ?thesis using raise_event_good[OF assms(2)] by simp
qed (simp_all add: keeps_good[OF assms(2)] keeps_intros keeps_reconnect keeps_updateConfiguration
      mqtt_goodD(2)[OF assms(2)])

lemma mqtt_reachable_good: "mqtt_reachable E s \<Longrightarrow> mqtt_env_ok E \<Longrightarrow> mqtt_good E s"
proof (induction rule: mqtt_reachable.induct)
  case (start s)
  let ?s = "s\<lparr>messageRouter := Some initializeMessageRouter\<rparr>"
  have "mqtt_good E ?s"
    using start by (simp add: mqtt_good_def topics_good_def clients_inv_def mqtt_env_ok_def)
  from keepsD[OF keeps_initConnection this, of None None] show ?case
    by (simp add: mqtt_onModuleInit_def act_simps)
qed (use mqtt_step_good in blast)

text \<open>Opening a connection and its \<open>connect\<close> event, together.\<close>

definition broadcast_topic :: "'e topic_env_scheme \<Rightarrow> topic_entity" where
  "broadcast_topic E = new_topic E ''Mqtt_Broker'' (device_topic E ''Mqtt_Broker'' BROADCAST) BROADCAST"

lemma broadcast_topic_simps [simp]:
  "t_topic (broadcast_topic E) = device_topic E ''Mqtt_Broker'' BROADCAST" "t_isSubscribed (broadcast_topic E)"
  by (simp_all add: broadcast_topic_def new_topic_def)

definition connect_outcome ::
  "'e topic_env_scheme \<Rightarrow> 'z mqtt_state_scheme \<Rightarrow> 'z mqtt_state_scheme \<Rightarrow> bool" where
  "connect_outcome E s s' \<longleftrightarrow> isConnectedState s' \<and> mqtt s' = Some (length (clients s)) \<and>
     topics s' = snd (ensure (broadcast_topic E) (topics s)) \<and>
     (\<exists>c. ad_client (clients s' ! length (clients s)) = Some c \<and> cn_connected c \<and>
       (if \<exists>t \<in> set (topics s'). t_isSubscribed t
        then set (cn_subscriptions c) = insert (device_topic E ''Mqtt_Broker'' BROADCAST)
               (t_topic ` {t \<in> set (topics s'). t_isSubscribed t}) \<and>
             (\<exists>args. emitted s' = emitted s @ [(''mqtt/event/connected'', args)]) \<and>
             process_ended s' = process_ended s
        else cn_subscriptions c = [] \<and> emitted s' = emitted s \<and> process_ended s'))"

lemma open_connect:
  assumes good: "mqtt_good E s" and conn: "initConnection E None opts s = (r, s1)"
    and up: "raise_event E (length (clients s)) Connected s1 = (r2, s2)"
  shows "r = Inr () \<and> connect_outcome E s s2"
proof -
  let ?i = "length (clients s)"
  have env: "mqtt_env_ok E" using good by (simp add: mqtt_good_def)
  from connect_run[OF env, of opts s] conn obtain c where
    r: "r = Inr ()" and op: "opened s s1 c" by auto
  from op obtain a where a: "clients s1 = clients s @ [a]" "ad_client a = Some c" by (auto simp: opened_def)
  have c: "\<not> cn_connected c" "cn_subscriptions c = []" "conn_wf c" using op by (auto simp: opened_def)
  let ?c = "c\<lparr>cn_connected := True\<rparr>"
  let ?s = "s1\<lparr>clients := (clients s1)[?i := a\<lparr>ad_client := Some ?c\<rparr>]\<rparr>"
  obtain b cid where cb: "client_listeners ConnectEvent c = [CbConnect b cid]"
    using c(3) by (auto simp: conn_wf_def)
  have wf: "adapter_wf (a\<lparr>ad_client := Some ?c\<rparr>)" using c(3) conn_wf_cong[of ?c c] by (simp add: adapter_wf_def)
  have g: "mqtt_good E ?s" using mqtt_good_clients[OF opened_good[OF op good] wf] .
  have m: "mqtt ?s = Some ?i" "ad_client (clients ?s ! ?i) = Some ?c" "cn_connected ?c"
    using op a by (auto simp: opened_def)
  have ts: "topics ?s = topics s" "emitted ?s = emitted s" "process_ended ?s = process_ended s"
    using op by (simp_all add: opened_def)
  let ?ts = "snd (ensure (broadcast_topic E) (topics s))"
  obtain s' where run: "fire (on_connect E b cid) ?s = (Inr (), s')"
    using on_connect_run[OF g m, of b cid] by blast
  have "s' = s2"
    using up raise_event_run[where E = E and s = s1 and ev = Connected and c = c and i = ?i] a c(1) cb run
    by (auto simp: event_possible_def client_event_def)
  with run have up': "fire (on_connect E b cid) ?s = (Inr (), s2)" by simp
  note oc = on_connect_run[OF g m, of b cid, unfolded up' ts, folded broadcast_topic_def]
  show ?thesis
  proof (cases "\<exists>t \<in> set ?ts. t_isSubscribed t")
    case True
    with oc c(2) r m(1) show ?thesis by (auto simp: connect_outcome_def)
  next
    case False
    with oc c(2) r m show ?thesis by (auto simp: connect_outcome_def)
  qed
qed

section \<open>Disconnecting\<close>

lemma fold_mark:
  "fold (\<lambda>t. mark False (t_topic t)) ts us =
     map (\<lambda>x. if t_topic x \<in> t_topic ` set ts then x\<lparr>t_isSubscribed := False\<rparr> else x) us"
  by (induction ts arbitrary: us) (auto simp: mark_def)

lemma fold_mark_inv: "topics_inv E us \<Longrightarrow> topics_inv E (fold (\<lambda>t. mark False (t_topic t)) ts us)"
  by (induction ts arbitrary: us) (simp_all add: mark_inv)

lemma mark_names [simp]: "t_topic ` set (mark b n us) = t_topic ` set us"
proof -
  have "map t_topic (mark b n us) = map t_topic us" by (simp add: mark_def)
  from arg_cong[OF this, of set] show ?thesis by simp
qed

lemma unsubscribe_all_run:
  "topics_good E s \<Longrightarrow> t_topic ` set ts \<subseteq> t_topic ` set (topics s) \<Longrightarrow>
     for_each (\<lambda>t. fire (updateTopic E (t_topic t) (set_subscribed False))) ts s =
       (Inr (), s\<lparr>topics := fold (\<lambda>t. mark False (t_topic t)) ts (topics s)\<rparr>)"
proof (induction ts arbitrary: s)
  case (Cons t ts)
  let ?us = "mark False (t_topic t) (topics s)"
  have "topics_good E (s\<lparr>topics := ?us\<rparr>)"
    using Cons.prems(1) by (simp add: topics_good_def mark_inv)
  moreover have "t_topic t \<in> t_topic ` set ?us" using Cons.prems(2) by simp
  then have "List.find (\<lambda>x. t_topic x = t_topic t) ?us \<noteq> None"
    unfolding find_None_all by force
  ultimately show ?case using Cons by (auto simp: fire_run updateTopic_run)
qed simp

text \<open>The registry after a disconnection: the same topics, none of them subscribed.\<close>

definition unsubscribed :: "topic_entity list \<Rightarrow> topic_entity list" where
  "unsubscribed ts = map (\<lambda>t. t\<lparr>t_isSubscribed := False\<rparr>) ts"

lemma fold_mark_subscribed:
  "fold (\<lambda>t. mark False (t_topic t)) (filter t_isSubscribed us) us = unsubscribed us"
proof -
  have "x\<lparr>t_isSubscribed := False\<rparr> = x" if "\<not> t_isSubscribed x" for x :: topic_entity
    using that by (cases x) simp
  moreover have "\<not> t_isSubscribed x"
    if "x \<in> set us" "t_topic x \<notin> t_topic ` set (filter t_isSubscribed us)" for x
    using that by auto
  ultimately show ?thesis unfolding fold_mark unsubscribed_def by (intro map_cong) metis+
qed

text \<open>Ending the current client closes its connection, which is announced once if there was one.\<close>

definition closed_events :: "'z mqtt_state_scheme \<Rightarrow> nat \<Rightarrow> string list" where
  "closed_events s i = (if adapter_isConnected (clients s ! i) then [''mqtt/event/disconnected''] else [])"

lemma end_client_run:
  assumes good: "mqtt_good E s" and i: "mqtt s = Some i"
  shows "\<exists>a s'. end_client E s = (Inr (), s') \<and> \<not> adapter_isConnected a \<and> clients s' = (clients s)[i := a] \<and>
    topics s' = topics s \<and> mqtt s' = mqtt s \<and> messageRouter s' = messageRouter s \<and>
    (isConnectedState s' \<longrightarrow> isConnectedState s) \<and> process_ended s' = process_ended s \<and>
    (\<exists>evs. emitted s' = emitted s @ evs \<and> map fst evs = closed_events s i)"
proof -
  have il: "i < length (clients s)" using mqtt_goodD(4)[OF good i] .
  note close = ad.close_run[OF mqtt_goodD(2)[OF good]]
  show ?thesis
  proof (cases "adapter_isConnected (clients s ! i)")
    case False
    from close[of "clients s ! i"] obtain a where
      "adapter_disconnect (mqtt_lib E) (clients s ! i) = (Inr (), a)" "\<not> adapter_isConnected a" by auto
    with False i show ?thesis
      by (intro exI[of _ a]) (auto simp: end_client_def bnd_def on_mqtt_def closed_events_def)
  next
    case True
    then obtain c where c: "ad_client (clients s ! i) = Some c" "cn_connected c"
      by (auto simp: adapter_isConnected_def split: option.splits)
    obtain b cid where cb: "client_listeners CloseEvent c = [CbDisconnect b cid]"
      using mqtt_goodD(6)[OF good il] c(1) by (auto simp: adapter_wf_def conn_wf_def)
    let ?a = "(clients s ! i)\<lparr>ad_client := Some (client_event Closed c)\<rparr>"
    from close[of ?a] obtain a where
      a: "adapter_disconnect (mqtt_lib E) ?a = (Inr (), a)" "\<not> adapter_isConnected a" by auto
    have "event_possible Closed c" by (simp add: event_possible_def)
    from raise_event_run[OF c(1) this, of E] cb a i il show ?thesis
      by (intro exI[of _ a])
        (auto simp: end_client_def bnd_def on_disconnect_def modify_run emit_def on_mqtt_def closed_events_def True)
  qed
qed

lemma disconnect_run:
  assumes good: "mqtt_good E s" and i: "mqtt s = Some i" and sub: "\<exists>t \<in> set (topics s). t_isSubscribed t"
  shows "\<exists>a s' evs. mqtt_disconnect E s = (Inr (), s') \<and> \<not> adapter_isConnected a \<and>
    clients s' = (clients s)[i := a] \<and> topics s' = unsubscribed (topics s) \<and> mqtt s' = Some i \<and>
    \<not> isConnectedState s' \<and> process_ended s' = process_ended s \<and>
    emitted s' = emitted s @ evs \<and> map fst evs = closed_events s i"
proof -
  have tg: "topics_good E s" using good by (rule mqtt_goodD)
  let ?s = "s\<lparr>topics := unsubscribed (topics s), isConnectedState := False\<rparr>"
  have "for_each (\<lambda>t. fire (updateTopic E (t_topic t) (set_subscribed False)))
      (filter t_isSubscribed (topics s)) s = (Inr (), s\<lparr>topics := unsubscribed (topics s)\<rparr>)"
    using unsubscribe_all_run[OF tg, of "filter t_isSubscribed (topics s)"] by (auto simp: fold_mark_subscribed)
  moreover obtain t0 where "t0 \<in> set (topics s)" "t_isSubscribed t0" using sub by blast
  with tr.subscribed_lists[OF tg] have "getAllSubscribedTopics E s = (Inr (filter t_isSubscribed (topics s)), s)" .
  ultimately have run: "mqtt_disconnect E s =
      try_catch (end_client E) (\<lambda>_. throw (UnauthorizedException ''Failed to disconnect MQTT'')) ?s"
    by (simp add: mqtt_disconnect_def try_catch_def modify_run)
  have "topics_inv E (unsubscribed (topics s))"
    using tg fold_mark_inv[of E "topics s" "filter t_isSubscribed (topics s)"]
    by (simp add: topics_good_def fold_mark_subscribed)
  then have "mqtt_good E ?s" using good by (simp add: mqtt_good_def topics_good_def clients_inv_def)
  from end_client_run[OF this] i run show ?thesis by (auto simp: closed_events_def try_catch_def)
qed

lemma disconnect_refused:
  assumes "mqtt_good E s" "\<forall>t \<in> set (topics s). \<not> t_isSubscribed t"
  shows "mqtt_disconnect E s = (Inl (UnauthorizedException ''Failed to disconnect MQTT''), s)"
  using tr.subscribed_none[OF mqtt_goodD(1)[OF assms(1)] assms(2)]
  by (simp add: mqtt_disconnect_def try_catch_run)

section \<open>Publishing\<close>

lemma publish_run:
  assumes good: "mqtt_good E s" and i: "mqtt s = Some i"
    and up: "isConnectedState s" "adapter_isConnected (clients s ! i)"
  shows "\<exists>a q. mqtt_publish E t p opts s = (Inr \<lparr>pr_success = True, pr_topic = t, pr_payload = payloadStr p,
      pr_description = ''Message published successfully'', pr_timestamp = clock E (clock_reads s)\<rparr>,
      s\<lparr>clients := (clients s)[i := a], clock_reads := Suc (clock_reads s)\<rparr>) \<and>
    adapter_sent a = adapter_sent (clients s ! i) @ [(t, payloadStr p, q)] \<and> adapter_isConnected a \<and>
    adapter_subs a = adapter_subs (clients s ! i)"
proof -
  from ad.publish_live[OF mqtt_goodD(2)[OF good] up(2), of t "payloadStr p"
      "Some \<lparr>po_qos = po_qos opts, po_retain = po_retain opts\<rparr>"] obtain a q where
    "adapter_publish (mqtt_lib E) t (payloadStr p) (Some \<lparr>po_qos = po_qos opts, po_retain = po_retain opts\<rparr>)
       (clients s ! i) = (Inr (), a)" "adapter_isConnected a" "adapter_subs a = adapter_subs (clients s ! i)"
    "adapter_sent a = adapter_sent (clients s ! i) @ [(t, payloadStr p, q)]" by blast
  then show ?thesis using up(1) i
    by (intro exI[of _ a] exI[of _ q]) (simp add: mqtt_publish_def gets_run on_mqtt_def date_now_run)
qed

lemma publish_refused:
  assumes "\<not> (isConnectedState s \<and> (\<exists>i. mqtt s = Some i \<and> adapter_isConnected (clients s ! i)))"
  shows "\<exists>e. mqtt_publish E t p opts s = (Inl e, s)"
proof (cases "isConnectedState s")
  case True
  show ?thesis
  proof (cases "mqtt s")
    case (Some i)
    with True assms have "\<not> adapter_isConnected (clients s ! i)" by simp
    from ad.publish_dead[OF this, of "mqtt_lib E" t "payloadStr p"
        "Some \<lparr>po_qos = po_qos opts, po_retain = po_retain opts\<rparr>"] True Some
    show ?thesis by (auto simp: mqtt_publish_def gets_run on_mqtt_def bnd_def)
  qed (simp add: mqtt_publish_def gets_run on_mqtt_def True)
qed (simp add: mqtt_publish_def gets_run)

section \<open>A concrete client\<close>

definition demo_mqtt_env :: "unit mqtt_env_scheme" where
  "demo_mqtt_env = topic_env.extend
     (demo_topic_env\<lparr>config := [''BASE_TOPIC'' \<mapsto> ''iot'', ''MQTT_BROKER_URL'' \<mapsto> ''mqtt://broker'',
        ''MQTT_USERNAME'' \<mapsto> ''panel'', ''MQTT_PASSWORD'' \<mapsto> ''secret'']\<rparr>)
     (mqtt_env.fields mem_mqtt 10 42)"

definition demo_mqtt_state :: "unit mqtt_state_scheme" where
  "demo_mqtt_state = topic_state.extend demo_topic_state (mqtt_state.fields [] None None False 0 [])"

lemma demo_mqtt_simps [simp]:
  "mqtt_lib demo_mqtt_env = mem_mqtt" "MAX_RECONNECTION_ATTEMPTS demo_mqtt_env = 10"
  "topic_repo demo_mqtt_env = mem_repo (unique_by t_topic)" "clock demo_mqtt_env = int"
  "config demo_mqtt_env = [''BASE_TOPIC'' \<mapsto> ''iot'', ''MQTT_BROKER_URL'' \<mapsto> ''mqtt://broker'',
    ''MQTT_USERNAME'' \<mapsto> ''panel'', ''MQTT_PASSWORD'' \<mapsto> ''secret'']"
  "topics demo_mqtt_state = []" "clients demo_mqtt_state = []" "mqtt demo_mqtt_state = None"
  "emitted demo_mqtt_state = []" "\<not> process_ended demo_mqtt_state"
  by (simp_all add: demo_mqtt_env_def demo_topic_env_def demo_mqtt_state_def demo_topic_state_def
      topic_env.extend_def mqtt_env.fields_def topic_state.extend_def mqtt_state.fields_def)

lemma demo_url [simp]: "has_protocol ''mqtt://broker''"
  using has_protocolI[of "''mqtt''" "''broker''"] by simp

lemma demo_mqtt_env_ok [simp]: "mqtt_env_ok demo_mqtt_env"
  by (simp add: mqtt_env_ok_def topic_env_ok_def)

definition demo_started :: "unit mqtt_state_scheme" where
  "demo_started = snd (mqtt_onModuleInit demo_mqtt_env demo_mqtt_state)"

lemma demo_started_reachable: "mqtt_reachable demo_mqtt_env demo_started"
  unfolding demo_started_def by (rule mqtt_reachable.start) (simp_all add: topics_inv_def unique_by_def)

lemma demo_started_clients:
  "mqtt demo_started = Some 0 \<and> (\<exists>a c. clients demo_started = [a] \<and> ad_client a = Some c \<and> \<not> cn_connected c) \<and>
   topics demo_started = [] \<and> emitted demo_started = []"
proof -
  let ?s = "demo_mqtt_state\<lparr>messageRouter := Some initializeMessageRouter\<rparr>"
  from connect_run[OF demo_mqtt_env_ok, of None ?s] show ?thesis
    by (auto simp: demo_started_def mqtt_onModuleInit_def act_simps opened_def)
qed

lemma demo_started_runs: "\<not> process_ended demo_started"
proof -
  let ?s = "demo_mqtt_state\<lparr>messageRouter := Some initializeMessageRouter\<rparr>"
  from connect_run[OF demo_mqtt_env_ok, of None ?s] show ?thesis
    by (auto simp: demo_started_def mqtt_onModuleInit_def act_simps opened_def)
qed

section \<open>Properties\<close>

text \<open>
  C35. When a connection opens, the broadcast topic is registered if it was not and no registered topic
  is lost. If some topic of the registry is marked subscribed, the new client is subscribed to exactly
  the marked topics and the broadcast topic, the connection is announced, and the process goes on. If
  none is, the lookup of the subscribed topics throws inside the listener that nobody awaits: nothing is
  subscribed, nothing is announced, and the process ends.
\<close>

theorem connection_subscribes:
  assumes env: "mqtt_env_ok E" and reach: "mqtt_reachable E s" and runs: "\<not> process_ended s"
    and conn: "initConnection E None None s = (r, s1)"
    and up: "raise_event E (length (clients s)) Connected s1 = (r2, s2)"
  shows "r = Inr () \<and> set (topics s) \<subseteq> set (topics s2) \<and>
    device_topic E ''Mqtt_Broker'' BROADCAST \<in> t_topic ` set (topics s2) \<and>
    (\<exists>c. ad_client (clients s2 ! length (clients s)) = Some c \<and>
      (if \<exists>t \<in> set (topics s2). t_isSubscribed t
       then \<not> process_ended s2 \<and> isConnectedState s2 \<and> mqtt s2 = Some (length (clients s)) \<and> cn_connected c \<and>
            set (cn_subscriptions c) = insert (device_topic E ''Mqtt_Broker'' BROADCAST)
              (t_topic ` {t \<in> set (topics s2). t_isSubscribed t}) \<and>
            (\<exists>args. emitted s2 = emitted s @ [(''mqtt/event/connected'', args)])
       else process_ended s2 \<and> cn_subscriptions c = [] \<and> emitted s2 = emitted s))"
proof -
  have good: "mqtt_good E s" using mqtt_reachable_good[OF reach env] .
  from open_connect[OF good conn up] have r: "r = Inr ()" and out: "connect_outcome E s s2" by simp_all
  from out have ts: "topics s2 = snd (ensure (broadcast_topic E) (topics s))" by (simp add: connect_outcome_def)
  have "set (topics s) \<subseteq> set (topics s2)" unfolding ts by (rule ensure_mem)
  moreover have "device_topic E ''Mqtt_Broker'' BROADCAST \<in> t_topic ` set (topics s2)"
    unfolding ts using ensure_mem(1)[of "broadcast_topic E" "topics s"] ensure_topic_name[of "broadcast_topic E" "topics s"]
    by (metis imageI broadcast_topic_simps(1))
  moreover obtain c where "ad_client (clients s2 ! length (clients s)) = Some c" "cn_connected c"
    "if \<exists>t \<in> set (topics s2). t_isSubscribed t
     then set (cn_subscriptions c) = insert (device_topic E ''Mqtt_Broker'' BROADCAST)
            (t_topic ` {t \<in> set (topics s2). t_isSubscribed t}) \<and>
          (\<exists>args. emitted s2 = emitted s @ [(''mqtt/event/connected'', args)]) \<and>
          process_ended s2 = process_ended s
     else cn_subscriptions c = [] \<and> emitted s2 = emitted s \<and> process_ended s2"
    using out unfolding connect_outcome_def by blast
  moreover have "isConnectedState s2" "mqtt s2 = Some (length (clients s))"
    using out by (simp_all add: connect_outcome_def)
  ultimately show ?thesis
    using r runs by (cases "\<exists>t \<in> set (topics s2). t_isSubscribed t") simp_all
qed

theorem connection_subscribes_witness:
  "\<exists>s1 s2. initConnection demo_mqtt_env None None demo_started = (Inr (), s1) \<and>
     snd (raise_event demo_mqtt_env 1 Connected s1) = s2 \<and>
     device_topic demo_mqtt_env ''Mqtt_Broker'' BROADCAST \<in> t_topic ` set (topics s2)"
proof -
  obtain r s1 where 1: "initConnection demo_mqtt_env None None demo_started = (r, s1)" by fastforce
  obtain r2 s2 where 2: "raise_event demo_mqtt_env (length (clients demo_started)) Connected s1 = (r2, s2)" by fastforce
  with connection_subscribes[OF demo_mqtt_env_ok demo_started_reachable demo_started_runs 1 2] 1 demo_started_clients
  show ?thesis by auto
qed

text \<open>
  C36. A disconnection cannot be undone. It marks every topic of the registry as unsubscribed and ends
  the client; once the broadcast topic is registered, the next connection then ends the process, and a
  process started again on the same registry ends at its own first connection, with the registry
  unchanged. A disconnection in which no topic is marked subscribed is refused with a 401 and changes
  nothing.
\<close>

theorem disconnection_forgets:
  assumes env: "mqtt_env_ok E" and reach: "mqtt_reachable E s" and m: "mqtt s = Some i"
    and reg: "device_topic E ''Mqtt_Broker'' BROADCAST \<in> t_topic ` set (topics s)"
    and disc: "mqtt_disconnect E s = (r1, s1)" and conn: "initConnection E None None s1 = (r2, s2)"
    and up: "raise_event E (length (clients s1)) Connected s2 = (r3, s3)"
    and again: "topics t = topics s3" "clients t = []" "mqtt t = None" "mqtt_onModuleInit E t = (r4, t1)"
    and up_again: "raise_event E 0 Connected t1 = (r5, t2)"
  shows "if \<exists>t \<in> set (topics s). t_isSubscribed t
    then r1 = Inr () \<and> topics s1 = unsubscribed (topics s) \<and> \<not> adapter_isConnected (clients s1 ! i) \<and>
      process_ended s1 = process_ended s \<and>
      r2 = Inr () \<and> process_ended s3 \<and> topics s3 = unsubscribed (topics s) \<and>
      r4 = Inr () \<and> process_ended t2 \<and> topics t2 = unsubscribed (topics s)
    else r1 = Inl (UnauthorizedException ''Failed to disconnect MQTT'') \<and> s1 = s"
proof (cases "\<exists>t \<in> set (topics s). t_isSubscribed t")
  case False
  with disconnect_refused[OF mqtt_reachable_good[OF reach env]] disc show ?thesis by auto
next
  case True
  have good: "mqtt_good E s" using mqtt_reachable_good[OF reach env] .
  from disconnect_run[OF good m True] disc have s1: "r1 = Inr ()" "\<not> adapter_isConnected (clients s1 ! i)"
    "topics s1 = unsubscribed (topics s)" "process_ended s1 = process_ended s"
    using mqtt_goodD(4)[OF good m] by auto
  have good1: "mqtt_good E s1" using mqtt_step_good[OF mqtt_step.disconnect good] disc by (metis snd_conv)
  have "device_topic E ''Mqtt_Broker'' BROADCAST \<in> t_topic ` set (unsubscribed (topics s))"
    using reg by (auto simp: unsubscribed_def image_image)
  then have same: "snd (ensure (broadcast_topic E) (unsubscribed (topics s))) = unsubscribed (topics s)"
    by (simp add: ensure_present)
  have none: "\<not> t_isSubscribed t" if "t \<in> set (unsubscribed (topics s))" for t
    using that by (auto simp: unsubscribed_def)
  from open_connect[OF good1 conn up] same none s1(3) have s3: "r2 = Inr ()" "process_ended s3"
    "topics s3 = unsubscribed (topics s)" unfolding connect_outcome_def by auto
  let ?t = "t\<lparr>messageRouter := Some initializeMessageRouter\<rparr>"
  have "mqtt_good E ?t"
    using good1 again(1-3) s1(3) s3(3) by (simp add: mqtt_good_def topics_good_def clients_inv_def)
  moreover have "initConnection E None None ?t = (r4, t1)"
    using again(4) by (simp add: mqtt_onModuleInit_def bnd_run modify_run)
  ultimately have "r4 = Inr () \<and> connect_outcome E ?t t2"
    using open_connect[of E ?t None r4 t1 r5 t2] up_again again(2) by simp
  with same none again(1) s3(3) have "r4 = Inr ()" "process_ended t2" "topics t2 = unsubscribed (topics s)"
    unfolding connect_outcome_def by auto
  with s1 s3 True show ?thesis by simp
qed

text \<open>The service with its first connection up, and the broadcast topic in the registry.\<close>

definition demo_up :: "unit mqtt_state_scheme" where
  "demo_up = snd (raise_event demo_mqtt_env 0 Connected demo_started)"

lemma demo_up:
  "mqtt_reachable demo_mqtt_env demo_up" "mqtt demo_up = Some 0" "isConnectedState demo_up"
  "topics demo_up = [broadcast_topic demo_mqtt_env]"
  "\<exists>c. ad_client (clients demo_up ! 0) = Some c \<and> cn_connected c" "\<not> process_ended demo_up"
proof -
  let ?s = "demo_mqtt_state\<lparr>messageRouter := Some initializeMessageRouter\<rparr>"
  have g: "mqtt_good demo_mqtt_env ?s"
    by (simp add: mqtt_good_def topics_good_def clients_inv_def topics_inv_def unique_by_def
        demo_mqtt_env_ok[unfolded mqtt_env_ok_def])
  have init: "initConnection demo_mqtt_env None None ?s = (fst (initConnection demo_mqtt_env None None ?s), demo_started)"
    by (simp add: demo_started_def mqtt_onModuleInit_def bnd_run modify_run)
  obtain r t where t: "raise_event demo_mqtt_env (length (clients ?s)) Connected demo_started = (r, t)" by fastforce
  then have "t = demo_up" by (simp add: demo_up_def)
  with open_connect[OF g init t] have out: "connect_outcome demo_mqtt_env ?s demo_up" by simp
  show "mqtt_reachable demo_mqtt_env demo_up"
    unfolding demo_up_def using demo_started_clients
    by (intro mqtt_reachable.step[OF demo_started_reachable demo_started_runs] mqtt_step.event) auto
  show "mqtt demo_up = Some 0" "isConnectedState demo_up" "topics demo_up = [broadcast_topic demo_mqtt_env]"
    "\<exists>c. ad_client (clients demo_up ! 0) = Some c \<and> cn_connected c" "\<not> process_ended demo_up"
    using out by (auto simp: connect_outcome_def ensure_def)
qed

theorem disconnection_forgets_witness:
  "\<exists>s1 s2 s3 t1 t2. mqtt_disconnect demo_mqtt_env demo_up = (Inr (), s1) \<and> \<not> process_ended s1 \<and>
     initConnection demo_mqtt_env None None s1 = (Inr (), s2) \<and>
     snd (raise_event demo_mqtt_env (length (clients s1)) Connected s2) = s3 \<and> process_ended s3 \<and>
     mqtt_onModuleInit demo_mqtt_env (demo_mqtt_state\<lparr>topics := topics s3\<rparr>) = (Inr (), t1) \<and>
     snd (raise_event demo_mqtt_env 0 Connected t1) = t2 \<and> process_ended t2"
proof -
  obtain r1 s1 where 1: "mqtt_disconnect demo_mqtt_env demo_up = (r1, s1)" by fastforce
  obtain r2 s2 where 2: "initConnection demo_mqtt_env None None s1 = (r2, s2)" by fastforce
  obtain r3 s3 where 3: "raise_event demo_mqtt_env (length (clients s1)) Connected s2 = (r3, s3)" by fastforce
  obtain r4 t1 where 4: "mqtt_onModuleInit demo_mqtt_env (demo_mqtt_state\<lparr>topics := topics s3\<rparr>) = (r4, t1)" by fastforce
  obtain r5 t2 where 5: "raise_event demo_mqtt_env 0 Connected t1 = (r5, t2)" by fastforce
  from disconnection_forgets[OF demo_mqtt_env_ok demo_up(1,2) _ 1 2 3 _ _ _ 4 5] 1 2 3 4 5 demo_up(4,6)
  show ?thesis by simp
qed

text \<open>
  What the text of a message on a topic does, from the table of endings the router is built from: the
  specification of the delivery of a parsed value.
\<close>

definition delivered :: "string \<Rightarrow> jsval \<Rightarrow> 'z mqtt_state_scheme \<Rightarrow> 'z mqtt_state_scheme" where
  "delivered tpc v s =
     (case List.find (\<lambda>b. endsWith tpc (topicSuffix b)) default_handlers of
        None \<Rightarrow> s\<lparr>emitted := emitted s @ [(''mqtt/message/unknown'', [JStr tpc, v])]\<rparr>
      | Some b \<Rightarrow>
          if js_typeof v = ''object'' \<and> v \<noteq> JNull
          then s\<lparr>emitted := emitted s @ [(event_name b, [JStr tpc, v])]\<rparr>
          else s\<lparr>process_ended := True\<rparr>)"



text \<open>
  Publishing succeeds exactly when the service counts as connected and its current client is:
  then the message, as text, is the next one that client sends and no other client sends anything;
  otherwise the call throws and nothing changes.
\<close>

theorem publishing:
  assumes env: "mqtt_env_ok E" and reach: "mqtt_reachable E s"
  shows "if isConnectedState s \<and> (\<exists>i. mqtt s = Some i \<and> adapter_isConnected (clients s ! i))
    then \<exists>res s'. mqtt_publish E t p opts s = (Inr res, s') \<and> pr_payload res = payloadStr p \<and>
      topics s' = topics s \<and> emitted s' = emitted s \<and>
      (\<exists>q. map adapter_sent (clients s') = (map adapter_sent (clients s))
        [the (mqtt s) := adapter_sent (clients s ! the (mqtt s)) @ [(t, payloadStr p, q)]])
    else \<exists>e. mqtt_publish E t p opts s = (Inl e, s)"
proof (cases "isConnectedState s \<and> (\<exists>i. mqtt s = Some i \<and> adapter_isConnected (clients s ! i))")
  case True
  then obtain i where i: "mqtt s = Some i" "isConnectedState s" "adapter_isConnected (clients s ! i)" by blast
  from publish_run[OF mqtt_reachable_good[OF reach env] i, of t p opts] obtain a q where
    "mqtt_publish E t p opts s = (Inr \<lparr>pr_success = True, pr_topic = t, pr_payload = payloadStr p,
      pr_description = ''Message published successfully'', pr_timestamp = clock E (clock_reads s)\<rparr>,
      s\<lparr>clients := (clients s)[i := a], clock_reads := Suc (clock_reads s)\<rparr>)"
    "adapter_sent a = adapter_sent (clients s ! i) @ [(t, payloadStr p, q)]" by blast
  then show ?thesis using i by (auto simp: map_update)
next
  case False
  show ?thesis unfolding if_not_P[OF False] by (rule publish_refused[OF False])
qed

theorem publishing_witness:
  "\<exists>res s'. mqtt_publish demo_mqtt_env ''iot/dev'' (JObj [(''on'', JBool True)]) \<lparr>po_qos = Some 1, po_retain = None\<rparr>
     demo_up = (Inr res, s') \<and> emitted s' = emitted demo_up"
proof -
  have "adapter_isConnected (clients demo_up ! 0)" using demo_up(5) by (auto simp: adapter_isConnected_def)
  with publishing[OF demo_mqtt_env_ok demo_up(1), of "''iot/dev''" "JObj [(''on'', JBool True)]"
      "\<lparr>po_qos = Some 1, po_retain = None\<rparr>"] demo_up(2,3)
  show ?thesis by auto
qed

text \<open>
  A manual reconnection after the connection is lost adds a client and does not end the old one:
  the old client object stays with its listeners, so once both are connected each of them turns a
  message into an event.
\<close>

theorem reconnection_keeps_old_client:
  assumes env: "mqtt_env_ok E" and reach: "mqtt_reachable E s" and lost: "\<not> isConnectedState s"
    and old: "mqtt s = Some i" "ad_client (clients s ! i) = Some c"
    and run: "mqtt_reconnect E s = (r, s')"
  shows "(\<exists>now. r = Inr (True, ''Reconnection initiated'', now)) \<and>
    mqtt s' = Some (length (clients s)) \<and> length (clients s) \<noteq> i \<and>
    ad_client (clients s' ! i) = Some c \<and> client_listeners MessageEvent c = [CbMessage] \<and>
    (\<exists>c'. ad_client (clients s' ! length (clients s)) = Some c' \<and> client_listeners MessageEvent c' = [CbMessage])"
proof -
  have good: "mqtt_good E s" using mqtt_reachable_good[OF reach env] .
  have i: "i < length (clients s)" using mqtt_goodD(4)[OF good old(1)] .
  from connect_run[OF env, of None s] obtain t c' where
    t: "initConnection E None None s = (Inr (), t)" "opened s t c'" by blast
  then have "r = Inr (True, ''Reconnection initiated'', clock E (clock_reads t))"
    "s' = t\<lparr>clock_reads := Suc (clock_reads t)\<rparr>"
    using run lost by (simp_all add: mqtt_reconnect_def gets_run fire_run date_now_run)
  moreover have "conn_wf c" using mqtt_goodD(6)[OF good i] old(2) by (simp add: adapter_wf_def)
  ultimately show ?thesis using t(2) i old by (auto simp: opened_def conn_wf_def nth_append)
qed

theorem reconnection_keeps_old_client_witness:
  "\<exists>now. fst (mqtt_reconnect demo_mqtt_env demo_started) = Inr (True, ''Reconnection initiated'', now)"
proof -
  obtain a c where c: "clients demo_started = [a]" "ad_client a = Some c" using demo_started_clients by blast
  have "\<not> isConnectedState demo_started"
  proof -
    let ?s = "demo_mqtt_state\<lparr>messageRouter := Some initializeMessageRouter\<rparr>"
    from connect_run[OF demo_mqtt_env_ok, of None ?s] show ?thesis
      by (auto simp: demo_started_def mqtt_onModuleInit_def act_simps opened_def demo_mqtt_state_def
          topic_state.extend_def mqtt_state.fields_def)
  qed
  with reconnection_keeps_old_client[OF demo_mqtt_env_ok demo_started_reachable _ _ _ prod.collapse[symmetric], of 0 c]
    demo_started_clients c
  show ?thesis by simp
qed

end
