(* ===== verification/Devices.thy ===== *)
theory Devices
  imports MqttContract Validation
begin

text \<open>
  \<open>device/device.service.ts\<close> with the entities of \<open>device/repository\<close>. A device registers itself with
  an object the code does not check below its top level, so the columns filled from it hold
  arbitrary JSON values; the columns the services set themselves have their own types. Request
  bodies and messages are objects (\<open>jsval\<close>), spread and read by property as the code does.
\<close>

section \<open>Entities\<close>

record sensor =
  sn_deviceId :: jsval
  sn_deviceHardware :: jsval
  sn_capabilities :: jsval
  sn_controllers :: jsval
  sn_assignedFunctionality :: jsval
  sn_provisionState :: provision_state
  sn_connectionState :: jsval
  sn_isActuator :: bool
  sn_hasError :: jsval
  sn_errorMessage :: jsval
  sn_lastValue :: jsval
  sn_lastValueAt :: jsval
  sn_firmware :: jsval
  sn_broker :: jsval
  sn_isDeleted :: bool
  sn_isActive :: jsval
  sn_lastReboot :: jsval
  sn_lastUpgrade :: jsval
  sn_configuration :: jsval

record telemetry =
  tm_deviceId :: jsval
  tm_metric :: jsval
  tm_value :: jsval
  tm_meta :: jsval

record hardware_status =
  hs_userId :: jsval
  hs_responseId :: jsval
  hs_deviceId :: jsval
  hs_memoryUsage :: jsval
  hs_cpuUsage :: jsval
  hs_uptime :: jsval
  hs_timestamp :: jsval
  hs_internalTemp :: jsval
  hs_wifiRssi :: jsval

fun provision_value :: "provision_state \<Rightarrow> string" where
  "provision_value PS_DISCOVERED = ''discovered''"
| "provision_value PS_UNASSIGEND = ''unassigned''"
| "provision_value PS_ASSIGNED = ''assigned''"
| "provision_value PS_ACTIVE = ''active''"
| "provision_value PS_ERROR = ''error''"

record device_env = mqtt_env +
  sensor_repo :: "sensor repo"
  hardware_repo :: "hardware_status repo"
  telemetry_repo :: "telemetry repo"
  redis_ttl :: int
  cv_validate :: "dto_rules \<Rightarrow> int \<Rightarrow> jsval \<Rightarrow> bool"
  plainToInstance :: "dto_rules \<Rightarrow> jsval \<Rightarrow> jsval"

record device_state = mqtt_state +
  sensors :: "sensor list"
  hardware_statuses :: "hardware_status list"
  telemetries :: "telemetry list"
  ws_sent :: "(string \<times> jsval) list"

definition on_sensors :: "(sensor list, 'a) act \<Rightarrow> ('z device_state_scheme, 'a) act" where
  "on_sensors m = zoom sensors (\<lambda>d. sensors_update (\<lambda>_. d)) m"

definition on_hardware :: "(hardware_status list, 'a) act \<Rightarrow> ('z device_state_scheme, 'a) act" where
  "on_hardware m = zoom hardware_statuses (\<lambda>d. hardware_statuses_update (\<lambda>_. d)) m"

definition on_telemetries :: "(telemetry list, 'a) act \<Rightarrow> ('z device_state_scheme, 'a) act" where
  "on_telemetries m = zoom telemetries (\<lambda>d. telemetries_update (\<lambda>_. d)) m"

lemma on_sensors_run [act_simps]:
  "on_sensors m s = (fst (m (sensors s)), s\<lparr>sensors := snd (m (sensors s))\<rparr>)"
  by (simp add: on_sensors_def zoom_run)

lemma on_hardware_run [act_simps]:
  "on_hardware m s = (fst (m (hardware_statuses s)), s\<lparr>hardware_statuses := snd (m (hardware_statuses s))\<rparr>)"
  by (simp add: on_hardware_def zoom_run)

lemma on_telemetries_run [act_simps]:
  "on_telemetries m s = (fst (m (telemetries s)), s\<lparr>telemetries := snd (m (telemetries s))\<rparr>)"
  by (simp add: on_telemetries_def zoom_run)

section \<open>Queries\<close>

text \<open>\<open>findOne({where: {deviceId, isDeleted: false}})\<close>\<close>

definition find_live ::
  "'e device_env_scheme \<Rightarrow> jsval \<Rightarrow> ('z device_state_scheme, sensor option) act" where
  "find_live E deviceId =
     on_sensors (r_findOne (sensor_repo E) (\<lambda>d. sn_deviceId d = deviceId \<and> \<not> sn_isDeleted d))"

definition update_device ::
  "'e device_env_scheme \<Rightarrow> jsval \<Rightarrow> (sensor \<Rightarrow> sensor) \<Rightarrow> ('z device_state_scheme, unit) act" where
  "update_device E deviceId f = on_sensors (r_update (sensor_repo E) (\<lambda>d. sn_deviceId d = deviceId) f)"

definition getAllSensors :: "'e device_env_scheme \<Rightarrow> ('z device_state_scheme, sensor list \<times> nat) act" where
  "getAllSensors E =
     bnd (on_sensors (r_find (sensor_repo E) (\<lambda>d. \<not> sn_isDeleted d))) (\<lambda>devices.
     if length devices = 0 then throw (NotFoundException ''There is no device yet.'')
     else ok (devices, length devices))"

record query_device_dto =
  qd_provisionState :: "provision_state option"
  qd_functionality :: "device_capability list option"
  qd_deviceId :: "string option"

definition query_filter :: "query_device_dto \<Rightarrow> sensor \<Rightarrow> bool" where
  "query_filter q d \<longleftrightarrow>
     (case qd_deviceId q of None \<Rightarrow> True | Some i \<Rightarrow> i = [] \<or> sn_deviceId d = JStr i) \<and>
     (case qd_provisionState q of None \<Rightarrow> True | Some p \<Rightarrow> sn_provisionState d = p) \<and>
     (case qd_functionality q of None \<Rightarrow> True
      | Some fs \<Rightarrow> sn_assignedFunctionality d = JArr (map (\<lambda>c. JStr (capability_value c)) fs))"

definition querySensors ::
  "'e device_env_scheme \<Rightarrow> query_device_dto \<Rightarrow> ('z device_state_scheme, sensor list \<times> nat) act" where
  "querySensors E q =
     bnd (on_sensors (r_find (sensor_repo E) (query_filter q))) (\<lambda>devices.
     ok (devices, length devices))"

definition getSingleSensor ::
  "'e device_env_scheme \<Rightarrow> string \<Rightarrow> ('z device_state_scheme, sensor) act" where
  "getSingleSensor E deviceId =
     bnd (find_live E (JStr deviceId)) (\<lambda>device.
     case device of
       None \<Rightarrow> throw (NotFoundException (''Device with ID '' @ deviceId @ '' not found''))
     | Some d \<Rightarrow> ok d)"

definition getUnassignedSensor :: "'e device_env_scheme \<Rightarrow> ('z device_state_scheme, sensor list) act" where
  "getUnassignedSensor E =
     bnd (on_sensors (r_find (sensor_repo E)
            (\<lambda>d. sn_provisionState d = PS_DISCOVERED \<and> \<not> sn_isDeleted d))) (\<lambda>found.
     if length found = 0 then throw (NotFoundException ''No unassigned devices found'') else ok found)"

definition getDeviceConfiguration ::
  "'e device_env_scheme \<Rightarrow> string \<Rightarrow> ('z device_state_scheme, jsval) act" where
  "getDeviceConfiguration E deviceId =
     bnd (find_live E (JStr deviceId)) (\<lambda>storedDevice.
     case storedDevice of
       None \<Rightarrow> throw (NotFoundException ''Device not Found'')
     | Some d \<Rightarrow>
         if \<not> truthy (sn_configuration d) then throw (NotFoundException ''Device not Found'')
         else ok (sn_configuration d))"

definition getDeviceHistory :: "string \<Rightarrow> jsval" where
  "getDeviceHistory i = JObj [(''message'', JStr ''History data''), (''id'', JStr i)]"

definition controlDevice :: "string \<Rightarrow> jsval \<Rightarrow> jsval" where
  "controlDevice i data = JObj [(''message'', JStr ''Control command''), (''id'', JStr i), (''data'', data)]"

definition getDeviceStatus :: "'e device_env_scheme \<Rightarrow> string \<Rightarrow> ('z device_state_scheme, jsval) act" where
  "getDeviceStatus E deviceId =
     bnd (on_sensors (r_findOne (sensor_repo E) (\<lambda>d. sn_deviceId d = JStr deviceId))) (\<lambda>sensor.
     case sensor of
       None \<Rightarrow> throw (NotFoundException (''Device with ID '' @ deviceId @ '' not found''))
     | Some d \<Rightarrow> ok (JObj [(''id'', sn_deviceId d), (''state'', JStr (provision_value (sn_provisionState d))),
         (''error'', sn_hasError d), (''available'', JBool (if sn_isDeleted d then False else True)),
         (''connection'', sn_connectionState d)]))"

definition deleteSensor :: "'e device_env_scheme \<Rightarrow> string \<Rightarrow> ('z device_state_scheme, unit) act" where
  "deleteSensor E deviceId =
     bnd (find_live E (JStr deviceId)) (\<lambda>device.
     if device = None then throw (NotFoundException (''Device with ID '' @ deviceId @ '' not found''))
     else update_device E (JStr deviceId) (\<lambda>d. d\<lparr>sn_isDeleted := True\<rparr>))"

section \<open>Requests to devices\<close>

definition pending_key :: "jsval \<Rightarrow> string" where
  "pending_key requestId = ''pending:'' @ js_to_string requestId"

definition pending_value :: "jsval \<Rightarrow> jsval" where
  "pending_value dto = JObj [(''requestCode'', js_get dto ''requestCode''),
     (''userId'', js_get dto ''userId''), (''requestId'', js_get dto ''requestId'')]"

text \<open>The request is remembered until its response comes; the write is not awaited.\<close>

definition setCache :: "'e device_env_scheme \<Rightarrow> jsval \<Rightarrow> ('z device_state_scheme, unit) act" where
  "setCache E dto = fire (redis_setex E (pending_key (js_get dto ''requestId'')) (stringify (pending_value dto))
     (redis_ttl E))"

definition discoverDevicesBroadcast ::
  "'e device_env_scheme \<Rightarrow> jsval \<Rightarrow> ('z device_state_scheme, unit) act" where
  "discoverDevicesBroadcast E userId =
     bnd (getBroadcastTopic E) (\<lambda>broadcastTopic.
     bnd (uuidv4 E) (\<lambda>requestId.
     bnd (date_now E) (\<lambda>now.
     let payload = JObj [(''isBroadcast'', JBool True), (''userId'', userId), (''requestId'', JStr requestId),
           (''requestCode'', JStr (request_code_value REQUEST_DISCOVERY)), (''timestamp'', JNum (of_int now))]
     in
     bnd (setCache E payload) (\<lambda>_.
     bnd (storeTopic E ''Mqtt_Broker'' (t_topic broadcastTopic @ ''/'' @ use_case_value DISCOVERY) BROADCAST)
       (\<lambda>tpc.
     bnd (mqtt_publish E (t_topic tpc) (JStr (stringify payload)) \<lparr>po_qos = Some 0, po_retain = Some False\<rparr>)
       (\<lambda>_.
     bnd (mqtt_subscribe E (OneTopic (t_topic tpc))) (\<lambda>_. ok ())))))))"

text \<open>Here the topic object itself is interpolated, and the publication is not awaited.\<close>

definition discoverDeviceUnicast ::
  "'e device_env_scheme \<Rightarrow> jsval \<Rightarrow> jsval \<Rightarrow> ('z device_state_scheme, unit) act" where
  "discoverDeviceUnicast E userId deviceId =
     bnd (getBroadcastTopic E) (\<lambda>broadcastTopic.
     bnd (uuidv4 E) (\<lambda>requestId.
     bnd (date_now E) (\<lambda>now.
     let payload = JObj [(''deviceId'', deviceId), (''userId'', userId), (''isBroadcast'', JBool False),
           (''requestCode'', JStr (request_code_value REQUEST_DISCOVERY)), (''requestId'', JStr requestId),
           (''timestamp'', JNum (of_int now))]
     in
     bnd (setCache E payload) (\<lambda>_.
     bnd (storeTopic E ''Mqtt_Broker'' (''[object Object]'' @ ''/'' @ use_case_value DISCOVERY) BROADCAST)
       (\<lambda>tpc.
     bnd (fire (mqtt_publish E (t_topic tpc) (JStr (stringify payload)) \<lparr>po_qos = Some 0, po_retain = Some False\<rparr>))
       (\<lambda>_.
     bnd (mqtt_subscribe E (OneTopic (t_topic tpc))) (\<lambda>_. ok ())))))))"

definition getHardwareStatus ::
  "'e device_env_scheme \<Rightarrow> jsval \<Rightarrow> string \<Rightarrow> ('z device_state_scheme, unit) act" where
  "getHardwareStatus E currentUser deviceId =
     bnd (find_live E (JStr deviceId)) (\<lambda>device.
     case device of
       None \<Rightarrow> throw (NotFoundException (''Device with ID '' @ deviceId @ '' not found''))
     | Some d \<Rightarrow>
         try_catch
           (bnd (lift_res (js_get_or_throw currentUser ''userId'')) (\<lambda>userId.
            bnd (uuidv4 E) (\<lambda>requestId.
            bnd (date_now E) (\<lambda>now.
            let payload = JObj [(''deviceId'', sn_deviceId d), (''userId'', userId), (''requestId'', JStr requestId),
                  (''requestCode'', JStr (request_code_value REQUEST_HARDWARE_METRICS)),
                  (''timestamp'', JNum (of_int now))]
            in
            bnd (createTopic E deviceId HARDWARE_STATUS) (\<lambda>tpc.
            bnd (setCache E payload) (\<lambda>_.
            bnd (mqtt_publish E (t_topic tpc) (JStr (stringify payload)) \<lparr>po_qos = Some 1, po_retain = Some False\<rparr>)
              (\<lambda>_. ok ())))))))
           (\<lambda>_. throw (BadRequestException ''Hardware status request failed'')))"

text \<open>\<open>xs.includes(x)\<close> of an array or of a string; anything else has no such method.\<close>

fun js_contains :: "string \<Rightarrow> string \<Rightarrow> bool" where
  "js_contains [] t = (t = [])"
| "js_contains (c # cs) t = (startsWith (c # cs) t \<or> js_contains cs t)"

definition js_includes :: "jsval \<Rightarrow> jsval \<Rightarrow> exn + bool" where
  "js_includes xs x =
     (case xs of
        JArr vs \<Rightarrow> Inr (js_primitive x \<and> x \<in> set vs)
      | JStr t \<Rightarrow> Inr (js_contains t (js_to_string x))
      | _ \<Rightarrow> Inl (JsError ''includes is not a function''))"

text \<open>\<open>xs.filter(f)\<close> for a predicate that may throw.\<close>

fun filter_res :: "('a \<Rightarrow> exn + bool) \<Rightarrow> 'a list \<Rightarrow> exn + 'a list" where
  "filter_res p [] = Inr []"
| "filter_res p (x # xs) =
     (case p x of Inl e \<Rightarrow> Inl e
      | Inr b \<Rightarrow> (case filter_res p xs of Inl e \<Rightarrow> Inl e | Inr ys \<Rightarrow> Inr (if b then x # ys else ys)))"

definition js_elements :: "jsval \<Rightarrow> exn + jsval list" where
  "js_elements v = (case v of JArr vs \<Rightarrow> Inr vs | _ \<Rightarrow> Inl (JsError ''filter is not a function''))"

definition validateSensorTypes ::
  "'e device_env_scheme \<Rightarrow> jsval \<Rightarrow> jsval \<Rightarrow> ('z device_state_scheme, unit) act" where
  "validateSensorTypes E deviceId functionality =
     bnd (find_live E deviceId) (\<lambda>storedDevice.
     case storedDevice of
       None \<Rightarrow> throw (NotFoundException ''Device not found'')
     | Some d \<Rightarrow>
         bnd (lift_res (js_elements functionality)) (\<lambda>requested.
         bnd (lift_res (filter_res (\<lambda>x. map_sum id Not (js_includes (sn_capabilities d) x)) requested))
           (\<lambda>invalidSensorTypes.
         if length invalidSensorTypes > 0
         then throw (UnauthorizedException (js_to_string deviceId @ '' functionality validation failed''))
         else ok ())))"

definition assign_functionality :: "jsval \<Rightarrow> sensor \<Rightarrow> sensor" where
  "assign_functionality functionality d =
     d\<lparr>sn_assignedFunctionality := functionality, sn_provisionState := PS_ASSIGNED\<rparr>"

definition AssignDeviceFunction ::
  "'e device_env_scheme \<Rightarrow> jsval \<Rightarrow> jsval \<Rightarrow> ('z device_state_scheme, string) act" where
  "AssignDeviceFunction E currentUser provisionData =
     (let deviceId = js_get provisionData ''deviceId'';
          functionality = js_get provisionData ''functionality''
      in
      if js_get provisionData ''requestCode'' \<noteq> JStr (request_code_value REQUEST_ASSIGN_DEVICE_FUNCTION)
      then throw (BadRequestException ''Invalid Request'')
      else
        bnd (getDeviceTopicByUseCase E (js_to_string deviceId) ASSIGN_DEVICE_FUNCTION) (\<lambda>tpc.
        bnd (validateSensorTypes E deviceId functionality) (\<lambda>_.
        bnd (lift_res (js_get_or_throw currentUser ''userId'')) (\<lambda>userId.
        bnd (uuidv4 E) (\<lambda>requestId.
        let payload = js_set (js_set (js_set provisionData ''userId'' userId) ''requestCode''
              (JStr (request_code_value REQUEST_ASSIGN_DEVICE_FUNCTION))) ''requestId'' (JStr requestId)
        in
        bnd (setCache E payload) (\<lambda>_.
        bnd (update_device E deviceId (assign_functionality functionality)) (\<lambda>_.
        bnd (fire (mqtt_publish E (t_topic tpc) (JStr (stringify payload)) \<lparr>po_qos = Some 1, po_retain = Some False\<rparr>))
          (\<lambda>_.
        ok (''Device with id of '' @ js_to_string deviceId @ '' provisioned as '' @ js_to_string functionality)))))))))"

definition setDeviceConfiguration ::
  "'e device_env_scheme \<Rightarrow> jsval \<Rightarrow> ('z device_state_scheme, unit) act" where
  "setDeviceConfiguration E configData =
     (let deviceId = js_get configData ''deviceId'' in
      bnd (find_live E deviceId) (\<lambda>storedDevice.
      if storedDevice = None
      then throw (NotFoundException (''Device with id '' @ js_to_string deviceId @ '' not found''))
      else
        bnd (getDeviceTopicByUseCase E (js_to_string deviceId) SET_SENSOR_CONFIGURATION) (\<lambda>tpc.
        bnd (mqtt_publish E (t_topic tpc) (JStr (stringify configData)) \<lparr>po_qos = Some 1, po_retain = Some False\<rparr>)
          (\<lambda>_.
        update_device E deviceId (\<lambda>d. d\<lparr>sn_configuration := configData\<rparr>)))))"

text \<open>The class \<open>PublishTelemetryDto\<close>, a function without the properties read from it.\<close>

definition PublishTelemetryDto_class :: jsval where
  "PublishTelemetryDto_class = JObj []"

definition getDeviceTelemetry :: "'e device_env_scheme \<Rightarrow> jsval \<Rightarrow> ('z device_state_scheme, unit) act" where
  "getDeviceTelemetry E telemetry =
     (let deviceId = js_get telemetry ''deviceId'' in
      if js_get telemetry ''requestCode'' \<noteq> JStr (request_code_value REQUEST_TELEMETRY_DATA)
      then throw (BadRequestException ''Invalid request'')
      else
        bnd (on_sensors (r_findOne (sensor_repo E)
               (\<lambda>d. sn_deviceId d = deviceId \<and> sn_provisionState d = PS_ASSIGNED \<and> \<not> sn_isDeleted d)))
          (\<lambda>storedDevice.
        if storedDevice = None then throw (NotFoundException ''Device not found'')
        else
          bnd (getDeviceTopicByUseCase E (js_to_string deviceId) TELEMETRY) (\<lambda>tpc.
          bnd (setCache E PublishTelemetryDto_class) (\<lambda>_.
          bnd (mqtt_publish E (t_topic tpc) (JStr (stringify telemetry)) \<lparr>po_qos = Some 0, po_retain = Some False\<rparr>)
            (\<lambda>_. ok ())))))"

end
