(* ===== verification/Responses.thy ===== *)
theory Responses
  imports Devices
begin

text \<open>
  \<open>responser/responser.service.ts\<close>: what the service does with the validated response of a device. A
  handler compares codes and statuses strictly, except the one of the heartbeat; what it compares is
  the value the device sent. The gateway's broadcast to the web sockets is appended to \<open>ws_sent\<close>.
\<close>

section \<open>Comparison and dates\<close>

text \<open>\<open>Number(s)\<close> of a string, None where it is not a finite number.\<close>

definition radix_number :: "nat \<Rightarrow> string \<Rightarrow> rat option" where
  "radix_number r ds =
     (if ds \<noteq> [] \<and> list_all (\<lambda>c. case hex_val c of None \<Rightarrow> False | Some n \<Rightarrow> n < r) ds
      then Some (of_nat (fold (\<lambda>c n. r * n + the (hex_val c)) ds 0))
      else None)"

definition number_exponent :: "string \<Rightarrow> int option" where
  "number_exponent t =
     (if t = [] then Some 0
      else if hd t \<noteq> CHR ''e'' \<and> hd t \<noteq> CHR ''E'' then None
      else let u = tl t;
               neg = (u \<noteq> [] \<and> hd u = CHR ''-'');
               ds = (if u \<noteq> [] \<and> (hd u = CHR ''-'' \<or> hd u = CHR ''+'') then tl u else u)
           in if ds \<noteq> [] \<and> list_all is_digit ds
              then Some (if neg then - int (digits_val ds) else int (digits_val ds)) else None)"

definition decimal_number :: "string \<Rightarrow> rat option" where
  "decimal_number t =
     (let neg = (t \<noteq> [] \<and> hd t = CHR ''-'');
          u = (if t \<noteq> [] \<and> (hd t = CHR ''-'' \<or> hd t = CHR ''+'') then tl t else t);
          whole = takeWhile is_digit u;
          v = dropWhile is_digit u;
          point = (v \<noteq> [] \<and> hd v = CHR ''.'');
          frac = (if point then takeWhile is_digit (tl v) else []);
          w = (if point then dropWhile is_digit (tl v) else v)
      in if whole = [] \<and> frac = [] then None
         else (case number_exponent w of
                 None \<Rightarrow> None
               | Some e \<Rightarrow>
                   let m = of_nat (digits_val (whole @ frac)) * (10::rat) powi (e - int (length frac))
                   in Some (if neg then - m else m)))"

definition js_to_number :: "string \<Rightarrow> rat option" where
  "js_to_number s =
     (let t = js_trim s in
      if t = [] then Some 0
      else if startsWith t ''0x'' \<or> startsWith t ''0X'' then radix_number 16 (drop 2 t)
      else if startsWith t ''0o'' \<or> startsWith t ''0O'' then radix_number 8 (drop 2 t)
      else if startsWith t ''0b'' \<or> startsWith t ''0B'' then radix_number 2 (drop 2 t)
      else decimal_number t)"

text \<open>\<open>v == n\<close> for a number: text is converted, an array or object is first made text.\<close>

fun loose_eq_number :: "jsval \<Rightarrow> rat \<Rightarrow> bool" where
  "loose_eq_number JUndefined n = False"
| "loose_eq_number JNull n = False"
| "loose_eq_number (JBool b) n = ((if b then 1 else 0) = n)"
| "loose_eq_number (JNum m) n = (m = n)"
| "loose_eq_number (JStr s) n = (js_to_number s = Some n)"
| "loose_eq_number (JDate t) n = False"
| "loose_eq_number (JArr vs) n = (js_to_number (js_to_string (JArr vs)) = Some n)"
| "loose_eq_number (JObj kvs) n = False"

text \<open>
  \<open>new Date(n)\<close>: whole milliseconds, within 100 million days of the epoch. Another value makes an
  invalid date here, which is kept as null (as JSON writes it); the validated responses carry numbers.
\<close>

definition new_date :: "jsval \<Rightarrow> jsval" where
  "new_date v =
     (case v of
        JNum n \<Rightarrow> (if \<bar>n\<bar> \<le> 8640000000000000 then JDate (if n < 0 then - \<lfloor>- n\<rfloor> else \<lfloor>n\<rfloor>) else JNull)
      | _ \<Rightarrow> JNull)"

section \<open>ResponserService\<close>

definition response_code :: "response_message_code \<Rightarrow> jsval" where
  "response_code c = JNum (of_int (response_code_value c))"

definition deleteCache :: "'e device_env_scheme \<Rightarrow> jsval \<Rightarrow> ('z device_state_scheme, unit) act" where
  "deleteCache E dto =
     (let requestId = js_get dto ''requestId'' in
      if \<not> truthy requestId then ok ()
      else bnd (redis_del E (pending_key requestId)) (\<lambda>_. ok ()))"

text \<open>\<open>this.server.emit\<close> of the gateway, to every socket.\<close>

definition server_emit :: "string \<Rightarrow> jsval \<Rightarrow> ('z device_state_scheme, unit) act" where
  "server_emit eventName payload = modify (\<lambda>s. s\<lparr>ws_sent := ws_sent s @ [(eventName, payload)]\<rparr>)"

definition emitDiscoveryBroadcastMessage :: "jsval \<Rightarrow> ('z device_state_scheme, unit) act" where
  "emitDiscoveryBroadcastMessage payload =
     try_catch (server_emit ''ws/message/discovery/broadcast/response'' payload) (\<lambda>_. ok ())"

text \<open>The entity made of what the device says of itself; a property it leaves out is undefined.\<close>

definition device_record :: "jsval \<Rightarrow> sensor" where
  "device_record sensorData = \<lparr>
     sn_deviceId = js_get sensorData ''deviceId'',
     sn_deviceHardware = js_get sensorData ''deviceHardware'',
     sn_capabilities = js_get sensorData ''capabilities'',
     sn_controllers = js_get sensorData ''controllers'',
     sn_assignedFunctionality = js_get sensorData ''assignedFunctionality'',
     sn_provisionState = PS_DISCOVERED,
     sn_connectionState = js_get sensorData ''connectionState'',
     sn_isActuator = False,
     sn_hasError = js_get sensorData ''hasError'',
     sn_errorMessage = js_get sensorData ''errorMessage'',
     sn_lastValue = js_get sensorData ''lastValue'',
     sn_lastValueAt = js_get sensorData ''lastValueAt'',
     sn_firmware = js_get sensorData ''firmware'',
     sn_broker = js_get sensorData ''broker'',
     sn_isDeleted = False,
     sn_isActive = (if js_get sensorData ''isActive'' = JUndefined then JBool True
       else js_get sensorData ''isActive''),
     sn_lastReboot = js_get sensorData ''lastReboot'',
     sn_lastUpgrade = js_get sensorData ''lastUpgrade'',
     sn_configuration = js_get sensorData ''configuration''\<rparr>"

text \<open>The registration of a device that is not stored yet, between \<open>try\<close> and \<open>catch\<close>.\<close>

definition register_device ::
  "'e device_env_scheme \<Rightarrow> jsval \<Rightarrow> string \<Rightarrow> string \<Rightarrow> ('z device_state_scheme, unit) act" where
  "register_device E sensorData deviceId tpc =
     try_catch
       (bnd (on_sensors (r_save (sensor_repo E) (device_record sensorData))) (\<lambda>_.
        bnd (mqtt_subscribe E (OneTopic tpc)) (\<lambda>_.
        bnd (createAllTopicsForDevice E deviceId) (\<lambda>otherTopics.
        bnd (mqtt_subscribe E (ManyTopics (map t_topic otherTopics))) (\<lambda>_. ok ())))))
       (\<lambda>_. throw (ForbiddenException ''Discovery data malformed''))"

definition handleDiscoveryResponse ::
  "'e device_env_scheme \<Rightarrow> jsval \<Rightarrow> ('z device_state_scheme, unit) act" where
  "handleDiscoveryResponse E payload =
     (let sensorData = js_get payload ''sensorData'' in
      bnd (lift_res (js_get_or_throw sensorData ''deviceId'')) (\<lambda>deviceId.
      bnd (on_sensors (r_findOne (sensor_repo E) (\<lambda>d. sn_deviceId d = deviceId))) (\<lambda>storedDevice.
      bnd (case storedDevice of
             None \<Rightarrow> ok ()
           | Some d \<Rightarrow>
               if sn_isDeleted d then update_device E deviceId (\<lambda>d. d\<lparr>sn_isDeleted := False\<rparr>) else ok ())
        (\<lambda>_.
      bnd (createDeviceBaseTopic E (js_to_string deviceId)) (\<lambda>tpc.
      bnd (if storedDevice = None
           then register_device E sensorData (js_to_string deviceId) (t_topic tpc) else ok ()) (\<lambda>_.
      bnd (fire (emitDiscoveryBroadcastMessage payload)) (\<lambda>_.
      if \<not> truthy (js_get payload ''isBroadcast'') then deleteCache E payload else ok ())))))))"

definition handleAssignResponse ::
  "'e device_env_scheme \<Rightarrow> jsval \<Rightarrow> ('z device_state_scheme, unit) act" where
  "handleAssignResponse E payload =
     (let deviceId = js_get payload ''deviceId'';
          functionality = js_get payload ''functionality''
      in
      if \<not> strict_eq (js_get payload ''responseCode'') (response_code RESPONSE_ASSIGN_DEVICE_FUNCTION)
      then throw (ForbiddenException ''Invalid Response'')
      else if \<not> strict_eq (js_get payload ''status'') (JStr (ack_status_value ACCEPTED))
      then throw (BadRequestException ''Sensor functionality assign not accepted'')
      else
        bnd (validateSensorTypes E deviceId functionality) (\<lambda>_.
        bnd (update_device E deviceId (assign_functionality functionality)) (\<lambda>_.
        deleteCache E payload)))"

text \<open>The progress text, or undefined.\<close>

definition handleUpgradeResponse ::
  "'e device_env_scheme \<Rightarrow> jsval \<Rightarrow> ('z device_state_scheme, jsval) act" where
  "handleUpgradeResponse E payload =
     (let deviceId = js_get payload ''deviceId'';
          status = js_get payload ''status''
      in
      if \<not> strict_eq (js_get payload ''responseCode'') (response_code RESPONSE_FIRMWARE_UPDATE_STATUS)
      then ok JUndefined
      else if strict_eq status (JStr (upgrade_status_value UP_PROCESSING))
      then ok (JStr (''Processing... '' @ js_to_string (js_get payload ''progress'') @ '' %''))
      else if strict_eq status (JStr (upgrade_status_value UP_SUCCESS))
      then
        bnd (update_device E deviceId (\<lambda>d. d\<lparr>sn_lastUpgrade := new_date (js_get payload ''timestamp'')\<rparr>))
          (\<lambda>_. bnd (deleteCache E payload) (\<lambda>_. ok JUndefined))
      else ok JUndefined)"

definition handleDeviceHeartbeat ::
  "'e device_env_scheme \<Rightarrow> jsval \<Rightarrow> ('z device_state_scheme, unit) act" where
  "handleDeviceHeartbeat E payload =
     (let deviceId = js_get payload ''deviceId'' in
      if \<not> loose_eq_number (js_get payload ''responseCode'') (of_int (response_code_value RESPONSE_HEARTBEAT))
      then ok ()
      else
        bnd (on_sensors (r_findOne (sensor_repo E) (\<lambda>d. sn_deviceId d = deviceId))) (\<lambda>sensor.
        if sensor = None then throw (ForbiddenException ''Device not found'')
        else
          bnd (update_device E deviceId (\<lambda>d. d\<lparr>sn_connectionState := js_get payload ''connectionState''\<rparr>))
            (\<lambda>_. deleteCache E payload)))"

text \<open>A status other than success is logged, and the handler goes on.\<close>

definition handleRebootResponse ::
  "'e device_env_scheme \<Rightarrow> jsval \<Rightarrow> ('z device_state_scheme, unit) act" where
  "handleRebootResponse E payload =
     (let deviceId = js_get payload ''deviceId'' in
      if \<not> strict_eq (js_get payload ''responseCode'') (response_code RESPONSE_REBOOT_CONFIRMATION)
      then ok ()
      else
        bnd (update_device E deviceId (\<lambda>d. d\<lparr>sn_lastReboot := new_date (js_get payload ''timestamp'')\<rparr>))
          (\<lambda>_. deleteCache E payload))"

definition handleTelemetryResponse ::
  "'e device_env_scheme \<Rightarrow> jsval \<Rightarrow> ('z device_state_scheme, unit) act" where
  "handleTelemetryResponse E payload =
     (if \<not> strict_eq (js_get payload ''responseCode'') (response_code RESPONSE_TELEMETRY_DATA)
      then throw (BadRequestException ''Invalid response'')
      else
        bnd (suppress (on_telemetries (r_save (telemetry_repo E)
               \<lparr>tm_deviceId = js_get payload ''deviceId'', tm_metric = js_get payload ''metric'',
                tm_value = js_get payload ''value'', tm_meta = js_get payload ''meta''\<rparr>))) (\<lambda>_.
        deleteCache E payload))"

definition handleHardwareStatus ::
  "'e device_env_scheme \<Rightarrow> jsval \<Rightarrow> ('z device_state_scheme, unit) act" where
  "handleHardwareStatus E payload =
     (if \<not> strict_eq (js_get payload ''responseCode'') (response_code RESPONSE_HARDWARE_METRICS)
      then throw (UnauthorizedException ''Invalid response'')
      else
        bnd (find_live E (js_get payload ''deviceId'')) (\<lambda>record.
        if record = None then throw (NotFoundException ''Device not found'')
        else
          bnd (on_hardware (r_save (hardware_repo E)
                 \<lparr>hs_userId = js_get payload ''userId'', hs_responseId = js_get payload ''responseId'',
                  hs_deviceId = js_get payload ''deviceId'', hs_memoryUsage = js_get payload ''memoryUsage'',
                  hs_cpuUsage = js_get payload ''cpuUsage'', hs_uptime = js_get payload ''uptime'',
                  hs_timestamp = new_date (js_get payload ''timestamp''),
                  hs_internalTemp = js_get payload ''internalTemp'', hs_wifiRssi = js_get payload ''wifiRssi''\<rparr>))
            (\<lambda>_. deleteCache E payload)))"

definition handleAckMessage :: "jsval \<Rightarrow> ('z device_state_scheme, unit) act" where
  "handleAckMessage payload = throw (JsError ''Method not implemented.'')"

definition handleUnknownMessage :: "jsval \<Rightarrow> ('z device_state_scheme, bool) act" where
  "handleUnknownMessage payload = ok False"

end
