(* ===== verification/Listener.thy ===== *)
theory Listener
  imports Responses
begin

text \<open>
  \<open>responser/listener.service.ts\<close>: the handlers of the events the MQTT service emits. A response is
  transformed and validated by its DTO, matched against the cached request it answers, and handed to
  \<open>ResponserService\<close>. The event bus calls the handler of an event's name; what the handler throws is
  caught and logged by the bus (\<open>dispatch\<close>).
\<close>

definition transformAndValidate ::
  "'e device_env_scheme \<Rightarrow> dto_rules \<Rightarrow> jsval \<Rightarrow> ('z device_state_scheme, jsval) act" where
  "transformAndValidate E dtoClass payload =
     (let dtoInstance = plainToInstance E dtoClass payload in
      bnd (date_now E) (\<lambda>now.
      let valid = cv_validate E dtoClass now dtoInstance in
      bnd (lift_res (js_get_or_throw dtoInstance ''requestId'')) (\<lambda>requestId.
      let userId = js_get dtoInstance ''userId'' in
      if \<not> valid then throw (BadRequestException ''Invalid payload'')
      else
        bnd (redis_get E (pending_key requestId)) (\<lambda>cache.
        if cache = JNull then throw (BadRequestException ''Invalid request id or user id in payload'')
        else if \<not> strict_eq (js_get cache ''requestId'') requestId \<or> \<not> strict_eq (js_get cache ''userId'') userId
        then throw (BadRequestException ''Invalid id in response payload'')
        else ok dtoInstance))))"

definition handleDiscoveryEvent ::
  "'e device_env_scheme \<Rightarrow> string \<Rightarrow> jsval \<Rightarrow> ('z device_state_scheme, unit) act" where
  "handleDiscoveryEvent E tpc payload =
     (if \<not> endsWith tpc ''/discovery'' \<or> \<not> truthy (js_get payload ''responseId'') then ok ()
      else
        bnd (transformAndValidate E DiscoveryResponseDto payload) (\<lambda>validatedPayload.
        if truthy (js_get validatedPayload ''responseId'')
        then handleDiscoveryResponse E validatedPayload else ok ()))"

definition handleSensorAssignEvent ::
  "'e device_env_scheme \<Rightarrow> string \<Rightarrow> jsval \<Rightarrow> ('z device_state_scheme, unit) act" where
  "handleSensorAssignEvent E tpc payload =
     (if \<not> endsWith tpc ''/assign'' \<or> \<not> truthy (js_get payload ''responseId'') then ok ()
      else
        bnd (transformAndValidate E SensorFunctionalityResponseDto payload) (\<lambda>validatedPayload.
        handleAssignResponse E validatedPayload))"

definition handleAckEvent ::
  "'e device_env_scheme \<Rightarrow> string \<Rightarrow> jsval \<Rightarrow> ('z device_state_scheme, unit) act" where
  "handleAckEvent E tpc payload =
     (if \<not> endsWith tpc ''/ack'' \<and> \<not> truthy (js_get payload ''responseId'') then ok ()
      else
        bnd (transformAndValidate E AckResponseDto payload) (\<lambda>validatedPayload.
        handleAckMessage validatedPayload))"

definition handleUpgradeEvent ::
  "'e device_env_scheme \<Rightarrow> string \<Rightarrow> jsval \<Rightarrow> ('z device_state_scheme, unit) act" where
  "handleUpgradeEvent E tpc payload =
     (if \<not> endsWith tpc ''/upgrade'' \<and> \<not> truthy (js_get payload ''responseId'') then ok ()
      else
        bnd (transformAndValidate E FwUpgradeResponseDto payload) (\<lambda>validatedPayload.
        bnd (handleUpgradeResponse E validatedPayload) (\<lambda>_. ok ())))"

definition handleHeartbeatEvent ::
  "'e device_env_scheme \<Rightarrow> string \<Rightarrow> jsval \<Rightarrow> ('z device_state_scheme, unit) act" where
  "handleHeartbeatEvent E tpc payload =
     (if \<not> endsWith tpc ''/heartbeat'' \<and> \<not> truthy (js_get payload ''responseId'') then ok ()
      else
        bnd (transformAndValidate E HeartbeatDto payload) (\<lambda>validatedPayload.
        handleDeviceHeartbeat E validatedPayload))"

definition handleRebootEvent ::
  "'e device_env_scheme \<Rightarrow> string \<Rightarrow> jsval \<Rightarrow> ('z device_state_scheme, unit) act" where
  "handleRebootEvent E tpc payload =
     (if \<not> endsWith tpc ''/reboot'' \<and> \<not> truthy (js_get payload ''responseId'') then ok ()
      else
        bnd (transformAndValidate E DeviceRebootResponseDto payload) (\<lambda>validatedPayload.
        handleRebootResponse E validatedPayload))"

definition handleTelemetryEvent ::
  "'e device_env_scheme \<Rightarrow> string \<Rightarrow> jsval \<Rightarrow> ('z device_state_scheme, unit) act" where
  "handleTelemetryEvent E tpc payload =
     (if \<not> endsWith tpc ''/telemetry'' \<and> \<not> truthy (js_get payload ''responseId'') then ok ()
      else
        bnd (transformAndValidate E TelemetryResponseDto payload) (\<lambda>validatedPayload.
        handleTelemetryResponse E validatedPayload))"

definition handleMetricsEvent ::
  "'e device_env_scheme \<Rightarrow> string \<Rightarrow> jsval \<Rightarrow> ('z device_state_scheme, unit) act" where
  "handleMetricsEvent E tpc payload =
     (if \<not> endsWith tpc ''/hardware_status'' \<and> \<not> truthy (js_get payload ''responseId'') then ok ()
      else
        bnd (transformAndValidate E HardwareStatusResponseDto payload) (\<lambda>validatedPayload.
        handleHardwareStatus E validatedPayload))"

definition handleUnknownEvent ::
  "string \<Rightarrow> jsval \<Rightarrow> ('z device_state_scheme, unit) act" where
  "handleUnknownEvent tpc payload = bnd (handleUnknownMessage payload) (\<lambda>_. ok ())"

text \<open>The names the handlers are registered under.\<close>

definition on_event ::
  "'e device_env_scheme \<Rightarrow> string \<Rightarrow> string \<Rightarrow> jsval \<Rightarrow> ('z device_state_scheme, unit) act" where
  "on_event E eventName tpc payload =
     (if eventName = ''mqtt/message/discovery'' then handleDiscoveryEvent E tpc payload
      else if eventName = ''mqtt/message/assign'' then handleSensorAssignEvent E tpc payload
      else if eventName = ''mqtt/message/ack'' then handleAckEvent E tpc payload
      else if eventName = ''mqtt/message/upgrade'' then handleUpgradeEvent E tpc payload
      else if eventName = ''mqtt/message/heartbeat'' then handleHeartbeatEvent E tpc payload
      else if eventName = ''mqtt/message/reboot'' then handleRebootEvent E tpc payload
      else if eventName = ''mqtt/message/telemetry'' then handleTelemetryEvent E tpc payload
      else if eventName = ''mqtt/message/hardware-status'' then handleMetricsEvent E tpc payload
      else if eventName = ''mqtt/message/unknown'' then handleUnknownEvent tpc payload
      else ok ())"

text \<open>The events emitted since the bus last ran, in order; arguments of another shape have no listener here.\<close>

fun dispatch ::
  "'e device_env_scheme \<Rightarrow> (string \<times> jsval list) list \<Rightarrow> ('z device_state_scheme, unit) act" where
  "dispatch E [] = ok ()"
| "dispatch E ((eventName, [JStr tpc, payload]) # evs) =
     bnd (suppress (on_event E eventName tpc payload)) (\<lambda>_. dispatch E evs)"
| "dispatch E (_ # evs) = dispatch E evs"

text \<open>
  A message of the broker through the whole service: the client hands it to the callback of
  \<open>MqttClientService\<close>, which emits the event of its route, which the listeners handle.
\<close>

definition broker_message ::
  "'e device_env_scheme \<Rightarrow> nat \<Rightarrow> string \<Rightarrow> string \<Rightarrow> ('z device_state_scheme, unit) act" where
  "broker_message E i tpc message = (\<lambda>s.
     case raise_event E i (Received tpc message) s of
       (r, s1) \<Rightarrow> dispatch E (drop (length (emitted s)) (emitted s1)) s1)"

end
