(* ===== verification/DeviceInvariant.thy ===== *)
theory DeviceInvariant
  imports Listener
begin

text \<open>
  What the device service, the responses and the broker events keep, in every order: the registry of
  topics and the MQTT clients stay well-formed (\<open>mqtt_good\<close>), and no two devices have the same id.
\<close>

section \<open>The environment\<close>

text \<open>\<open>plainToInstance\<close> keeps the properties of an object, and makes objects only of objects.\<close>

definition transform_ok :: "(dto_rules \<Rightarrow> jsval \<Rightarrow> jsval) \<Rightarrow> bool" where
  "transform_ok T \<longleftrightarrow> (\<forall>rules kvs. T rules (JObj kvs) = JObj kvs) \<and>
     (\<forall>rules v. (\<forall>kvs. v \<noteq> JObj kvs) \<longrightarrow> (\<forall>kvs. T rules v \<noteq> JObj kvs))"

definition device_env_ok :: "'e device_env_scheme \<Rightarrow> bool" where
  "device_env_ok E \<longleftrightarrow> mqtt_env_ok E \<and> redis_ok (redis E) \<and> 0 < redis_ttl E \<and>
     repo_ok (\<lambda>_. True) (sensor_repo E) \<and> repo_ok (\<lambda>_. True) (hardware_repo E) \<and>
     repo_ok (\<lambda>_. True) (telemetry_repo E) \<and> class_validator_ok (cv_validate E) \<and>
     transform_ok (plainToInstance E) \<and> \<not> endsWith (topic_base E) ''/discovery'' \<and>
     topic_base E \<noteq> ''[object Object]''"

lemma device_env_okD:
  assumes "device_env_ok E"
  shows "mqtt_env_ok E" "redis_ok (redis E)" "0 < redis_ttl E" "repo_ok (\<lambda>_. True) (sensor_repo E)"
    "repo_ok (\<lambda>_. True) (hardware_repo E)" "repo_ok (\<lambda>_. True) (telemetry_repo E)"
    "cv_validate E rules now v = dto_valid now rules v" "plainToInstance E rules (JObj kvs) = JObj kvs"
    "plainToInstance E rules w = JObj kvs \<Longrightarrow> w = JObj kvs" "mqtt_lib_ok (mqtt_lib E)" "topic_env_ok E"
    "\<not> endsWith (topic_base E) ''/discovery''" "topic_base E \<noteq> ''[object Object]''"
proof -
  show "mqtt_lib_ok (mqtt_lib E)" "topic_env_ok E"
    using assms by (simp_all add: device_env_ok_def mqtt_env_ok_def)
  assume *: "plainToInstance E rules w = JObj kvs"
  with assms show "w = JObj kvs"
    by (cases w) (auto simp: device_env_ok_def transform_ok_def)
qed (use assms in \<open>simp_all add: device_env_ok_def class_validator_ok_def transform_ok_def\<close>)

lemmas sensor_repo_simps = repo_ok_simps[OF device_env_okD(4), simplified]
lemmas hardware_repo_simps = repo_ok_simps[OF device_env_okD(5), simplified]
lemmas telemetry_repo_simps = repo_ok_simps[OF device_env_okD(6), simplified]

definition update_where :: "('d \<Rightarrow> bool) \<Rightarrow> ('d \<Rightarrow> 'd) \<Rightarrow> 'd list \<Rightarrow> 'd list" where
  "update_where p f ds = map (\<lambda>d. if p d then f d else d) ds"

lemma find_live_run [act_simps]:
  "device_env_ok E \<Longrightarrow> find_live E i s =
     (Inr (List.find (\<lambda>d. sn_deviceId d = i \<and> \<not> sn_isDeleted d) (sensors s)), s)"
  by (simp add: find_live_def act_simps sensor_repo_simps)

lemma update_device_run [act_simps]:
  "device_env_ok E \<Longrightarrow> update_device E i f s =
     (Inr (), s\<lparr>sensors := update_where (\<lambda>d. sn_deviceId d = i) f (sensors s)\<rparr>)"
  by (simp add: update_device_def act_simps sensor_repo_simps update_where_def)

lemma setCache_run [act_simps]:
  "device_env_ok E \<Longrightarrow> setCache E dto s = (Inr (), s\<lparr>kv := (kv s)(pending_key (js_get dto ''requestId'') \<mapsto>
     (stringify (pending_value dto), Some (1000 * redis_ttl E)))\<rparr>)"
  by (simp add: setCache_def act_simps device_env_okD)

lemma deleteCache_run [act_simps]:
  "device_env_ok E \<Longrightarrow> deleteCache E dto s = (Inr (),
     if truthy (js_get dto ''requestId'')
     then s\<lparr>kv := (kv s)(pending_key (js_get dto ''requestId'') := None)\<rparr> else s)"
  by (simp add: deleteCache_def act_simps device_env_okD)

section \<open>What the topics and the client leave alone\<close>

text \<open>A predicate that reads nothing the topics, the MQTT client and the clock change.\<close>

definition broker_blind :: "('z mqtt_state_scheme \<Rightarrow> bool) \<Rightarrow> bool" where
  "broker_blind I \<longleftrightarrow> (\<forall>s. I s \<longrightarrow> (\<forall>f. I (clock_reads_update f s)) \<and> (\<forall>f. I (topics_update f s)) \<and>
     (\<forall>f. I (clients_update f s)) \<and> (\<forall>f. I (mqtt_update f s)) \<and> (\<forall>f. I (messageRouter_update f s)) \<and>
     (\<forall>f. I (isConnectedState_update f s)) \<and> (\<forall>f. I (connectionAttempts_update f s)) \<and> (\<forall>f. I (emitted_update f s)) \<and>
     (\<forall>f. I (process_ended_update f s)))"

lemma broker_blindD:
  assumes "broker_blind I" "I s"
  shows "I (clock_reads_update f1 s)" "I (topics_update f2 s)" "I (clients_update f3 s)" "I (mqtt_update f4 s)"
    "I (messageRouter_update f5 s)" "I (isConnectedState_update f6 s)" "I (connectionAttempts_update f7 s)"
    "I (emitted_update f8 s)" "I (process_ended_update f9 s)"
  using assms by (simp_all add: broker_blind_def)

lemma broker_blind_crash: "broker_blind I \<Longrightarrow> crash_blind I"
  by (rule crash_blindI) (rule broker_blindD(9))

lemma keeps_blind_base:
  assumes "broker_blind I"
  shows "keeps I (on_topics mt)" "keeps I (date_now E)" "keeps I (emit n args)" "keeps I (on_mqtt ma)"
    "keeps I (modify (\<lambda>s. s\<lparr>isConnectedState := b\<rparr>))"
    "keeps I (modify (\<lambda>s. s\<lparr>isConnectedState := b, connectionAttempts := 0\<rparr>))"
    "keeps I (modify (\<lambda>s. s\<lparr>isConnectedState := b, connectionAttempts := connectionAttempts s + 1\<rparr>))"
    "keeps I (modify (\<lambda>s. s\<lparr>connectionAttempts := connectionAttempts s + 1\<rparr>))"
    "keeps I (modify (\<lambda>s. s\<lparr>messageRouter := r\<rparr>))"
    "keeps I (modify (\<lambda>s. s\<lparr>clients := clients s @ [a], mqtt := Some (length (clients s))\<rparr>))"
  by (rule keepsI, simp add: act_simps emit_def on_mqtt_def broker_blindD[OF assms] split: option.split prod.split)+

lemma keeps_blind_topics:
  assumes "broker_blind I"
  shows "keeps I (storeTopic E d n u)" "keeps I (createTopic E d u)" "keeps I (createDeviceBaseTopic E d)"
    "keeps I (createAllTopicsForDevice E d)" "keeps I (getBroadcastTopic E)" "keeps I (getDeviceTopicByUseCase E d u)"
    "keeps I (getAllSubscribedTopics E)" "keeps I (getAllTopicsForOneDevice E d)" "keeps I (updateTopic E n upd)"
  unfolding createTopic_def createDeviceBaseTopic_def createAllTopicsForDevice_def storeTopic_def
    getBroadcastTopic_def getDeviceTopicByUseCase_def getAllSubscribedTopics_def getAllTopicsForOneDevice_def
    updateTopic_def Let_def
  by (intro keeps_intros keeps_blind_base[OF assms])+

lemma keeps_blind_mqtt:
  assumes "broker_blind I"
  shows "keeps I (mqtt_subscribe E ts)" "keeps I (mqtt_unsubscribe E t)" "keeps I (mqtt_publish E t p opts)"
    "keeps I (initConnection E broker options)" "keeps I (getConnectionStatus E)" "keeps I (getConfiguration E)"
  unfolding mqtt_subscribe_def mqtt_unsubscribe_def mqtt_publish_def initConnection_def default_options_def getConnectionStatus_def getConfiguration_def getBrokerUrl_def getClientId_def mqtt_isConnected_def Let_def
  by (intro keeps_intros keeps_blind_base[OF assms] keeps_blind_topics[OF assms])+

lemma keeps_blind_callback:
  assumes "broker_blind I"
  shows "keeps I (run_callback E ev cb)"
proof -
  note blind = keeps_blind_base[OF assms] keeps_blind_topics[OF assms] keeps_blind_mqtt[OF assms]
    broker_blind_crash[OF assms]
  have rec: "keeps I (on_reconnect E)"
    unfolding on_reconnect_def by (rule keepsI) (simp add: act_simps broker_blindD[OF assms])
  have msg: "keeps I (on_message E t p)" for t p
    unfolding on_message_def by (intro keeps_intros blind)
  have conn: "keeps I (on_connect E b i)" for b i
    unfolding on_connect_def Let_def by (intro keeps_intros blind)
  show ?thesis
    by (cases ev; cases cb) (simp_all add: keeps_intros blind rec msg conn on_error_def on_disconnect_def)
qed

lemma keeps_blind_raise_event:
  assumes "broker_blind I"
  shows "keeps I (raise_event E i ev)"
proof (rule keepsI)
  fix s assume s: "I s"
  show "I (snd (raise_event E i ev s))"
  proof (cases "\<exists>c. ad_client (clients s ! i) = Some c \<and> event_possible ev c")
    case True
    then obtain c where c: "ad_client (clients s ! i) = Some c" "event_possible ev c" by blast
    have "I (s\<lparr>clients := (clients s)[i := (clients s ! i)\<lparr>ad_client := Some (client_event ev c)\<rparr>]\<rparr>)"
      using broker_blindD(3)[OF assms s] by simp
    then show ?thesis
      unfolding raise_event_run[OF c] by (rule keepsD[OF keeps_for_each[OF keeps_blind_callback[OF assms]]])
  next
    case False
    with s show ?thesis by (auto simp: raise_event_def split: option.split)
  qed
qed

lemma keeps_blind_ending:
  assumes "broker_blind I"
  shows "keeps I (mqtt_disconnect E)" "keeps I (mqtt_onModuleDestroy E)"
proof -
  have "keeps I (\<lambda>s. case mqtt s of
      Some i \<Rightarrow> if adapter_isConnected (clients s ! i) then raise_event E i Closed s else (Inr (), s)
    | None \<Rightarrow> (Inr (), s))"
    by (rule keepsI) (auto intro: keepsD[OF keeps_blind_raise_event[OF assms]] split: option.split)
  then have ended: "keeps I (end_client E)"
    unfolding end_client_def by (intro keeps_bnd keeps_blind_base[OF assms])
  show "keeps I (mqtt_disconnect E)" "keeps I (mqtt_onModuleDestroy E)"
    unfolding mqtt_disconnect_def mqtt_onModuleDestroy_def
    by (intro ended keeps_intros keeps_blind_base[OF assms] keeps_blind_topics[OF assms] broker_blind_crash[OF assms])+
qed

lemma keeps_blind_requests:
  assumes "broker_blind I"
  shows "keeps I (mqtt_reconnect E)" "keeps I (updateConfiguration E cfg)" "keeps I (mqtt_onModuleInit E)"
  unfolding mqtt_reconnect_def updateConfiguration_def mqtt_onModuleInit_def Let_def
  by (intro keeps_intros keeps_blind_base[OF assms] keeps_blind_mqtt[OF assms] keeps_blind_ending[OF assms]
      broker_blind_crash[OF assms])+

text \<open>The stored devices with their records, and what was sent to browsers.\<close>

definition device_part ::
  "'z device_state_scheme \<Rightarrow> sensor list \<times> hardware_status list \<times> telemetry list \<times> (string \<times> jsval) list" where
  "device_part s = (sensors s, hardware_statuses s, telemetries s, ws_sent s)"

lemma device_part_simps [simp]:
  "device_part (uuid_count_update f1 s) = device_part s" "device_part (clock_reads_update f1 s) = device_part s"
  "device_part (kv_update f2 s) = device_part s" "device_part (topics_update f3 s) = device_part s"
  "device_part (clients_update f4 s) = device_part s" "device_part (mqtt_update f5 s) = device_part s"
  "device_part (messageRouter_update f6 s) = device_part s"
  "device_part (isConnectedState_update f7 s) = device_part s"
  "device_part (connectionAttempts_update f8 s) = device_part s" "device_part (emitted_update f9 s) = device_part s"
  "device_part (process_ended_update f10 s) = device_part s"
  by (simp_all add: device_part_def)

lemma device_part_blind: "broker_blind (\<lambda>s. P (device_part s))"
  by (simp add: broker_blind_def)

lemmas keeps_part_base = keeps_blind_base[OF device_part_blind]
  and keeps_part_topics = keeps_blind_topics[OF device_part_blind]
  and keeps_part_mqtt = keeps_blind_mqtt[OF device_part_blind]
  and keeps_part_requests = keeps_blind_requests[OF device_part_blind]
  and keeps_part_ending = keeps_blind_ending[OF device_part_blind]
  and keeps_part_raise_event = keeps_blind_raise_event[OF device_part_blind]

lemmas keeps_part_crash = broker_blind_crash[OF device_part_blind]

lemma keeps_part_cache:
  fixes P :: "sensor list \<times> hardware_status list \<times> telemetry list \<times> (string \<times> jsval) list \<Rightarrow> bool"
  shows "keeps (\<lambda>s :: 'z device_state_scheme. P (device_part s)) (on_kv mk)"
    "keeps (\<lambda>s :: 'z device_state_scheme. P (device_part s)) (uuidv4 E)"
    "keeps (\<lambda>s :: 'z device_state_scheme. P (device_part s)) (setCache E' dto)"
    "keeps (\<lambda>s :: 'z device_state_scheme. P (device_part s)) (deleteCache E' dto)"
  unfolding setCache_def deleteCache_def redis_setex_def redis_del_def Let_def
  by (intro keeps_intros keeps_part_crash | rule keepsI, simp add: act_simps)+

declare keeps_part_crash [keeps_intros] keeps_part_ending [keeps_intros] keeps_part_base [keeps_intros] keeps_part_topics [keeps_intros] keeps_part_mqtt [keeps_intros]
  keeps_part_requests [keeps_intros] keeps_part_raise_event [keeps_intros] keeps_part_cache [keeps_intros]

text \<open>Such a method leaves the stored devices as they were.\<close>

lemma device_part_same:
  assumes "\<And>P. keeps (\<lambda>s. P (device_part s)) m"
  shows "device_part (snd (m s)) = device_part s"
  using keepsD[OF assms[of "\<lambda>x. x = device_part s"], of s] by simp

section \<open>The invariant\<close>

definition sensors_ok :: "sensor list \<Rightarrow> bool" where
  "sensors_ok ds \<longleftrightarrow> unique_by sn_deviceId ds \<and>
     list_all (\<lambda>d. CHR ''/'' \<notin> set (js_to_string (sn_deviceId d))) ds"

definition device_good :: "'e device_env_scheme \<Rightarrow> 'z device_state_scheme \<Rightarrow> bool" where
  "device_good E s \<longleftrightarrow> device_env_ok E \<and> mqtt_good E s \<and> sensors_ok (sensors s)"

lemma device_goodD:
  assumes "device_good E s"
  shows "device_env_ok E" "mqtt_good E s" "sensors_ok (sensors s)" "unique_by sn_deviceId (sensors s)"
    "topics_good E s" "topics_inv E (topics s)"
  using assms by (simp_all add: device_good_def sensors_ok_def mqtt_good_def topics_good_def)

lemma sensors_ok_update:
  assumes "\<And>d. sn_deviceId (f d) = sn_deviceId d" "sensors_ok ds"
  shows "sensors_ok (update_where p f ds)"
  using assms by (auto simp: sensors_ok_def update_where_def unique_by_update list_all_iff)

lemma keeps_device_good:
  fixes m :: "('z device_state_scheme, 'a) act"
  assumes "device_env_ok E \<Longrightarrow> keeps (mqtt_good E) m" "\<And>P. keeps (\<lambda>s. P (device_part s)) m"
  shows "keeps (device_good E) m"
proof (rule keepsI)
  fix s :: "'z device_state_scheme" assume g: "device_good E s"
  have "sensors (snd (m s)) = sensors s"
    using device_part_same[OF assms(2), of s] by (simp add: device_part_def)
  with g keepsD[OF assms(1)[OF device_goodD(1)[OF g]] device_goodD(2)[OF g]]
  show "device_good E (snd (m s))" by (simp add: device_good_def)
qed

lemma keeps_good_plain [keeps_intros]:
  fixes E :: "'e device_env_scheme"
  shows "keeps (mqtt_good E :: 'z device_state_scheme \<Rightarrow> bool) (uuidv4 E')"
    "keeps (mqtt_good E :: 'z device_state_scheme \<Rightarrow> bool) (on_kv mk)"
    "keeps (mqtt_good E :: 'z device_state_scheme \<Rightarrow> bool) (on_sensors ms)"
    "keeps (mqtt_good E :: 'z device_state_scheme \<Rightarrow> bool) (on_hardware mh)"
    "keeps (mqtt_good E :: 'z device_state_scheme \<Rightarrow> bool) (on_telemetries mt)"
    "keeps (mqtt_good E :: 'z device_state_scheme \<Rightarrow> bool) (setCache E' dto)"
    "keeps (mqtt_good E :: 'z device_state_scheme \<Rightarrow> bool) (deleteCache E' dto)"
    "keeps (mqtt_good E :: 'z device_state_scheme \<Rightarrow> bool) (server_emit n v)"
  by (rule keeps_good_frame, simp add: act_simps setCache_def redis_setex_def deleteCache_def redis_del_def
      Let_def server_emit_def split: sum.split prod.split)+

lemma keeps_good_lookup [keeps_intros]:
  "keeps (mqtt_good E) (getDeviceTopicByUseCase E d u)" "keeps (mqtt_good E) (getBroadcastTopic E)"
proof -
  have env: "repo_ok (unique_by t_topic) (topic_repo E)" if "mqtt_good E s" for s
    using that by (simp add: mqtt_good_def topics_good_def topic_env_ok_def)
  show "keeps (mqtt_good E) (getDeviceTopicByUseCase E d u)"
    by (rule keepsI) (auto simp: getDeviceTopicByUseCase_def act_simps repo_ok_simps(2)[OF env] split: option.split)
  show "keeps (mqtt_good E) (getBroadcastTopic E)"
    by (rule keepsI) (auto simp: getBroadcastTopic_def act_simps repo_ok_simps(2)[OF env] split: option.split)
qed

lemma keeps_createDeviceBase [keeps_intros]:
  "CHR ''/'' \<notin> set d \<Longrightarrow> keeps (mqtt_good E) (createDeviceBaseTopic E d)"
proof (rule keepsI)
  fix s :: "'z mqtt_state_scheme" assume d: "CHR ''/'' \<notin> set d" and g: "mqtt_good E s"
  have env: "topic_env_ok E" "topics_inv E (topics s)"
    using mqtt_goodD(1)[OF g] by (simp_all add: topics_good_def)
  show "mqtt_good E (snd (createDeviceBaseTopic E d s))"
    using mqtt_good_topics[OF g ensure_inv[OF env(2)]] d
    by (simp add: createDeviceBaseTopic_run[OF env] service_name_def)
qed

text \<open>A topic under any name that no device and use case has.\<close>

definition free_name :: "'e topic_env_scheme \<Rightarrow> string \<Rightarrow> string \<Rightarrow> topic_use_case \<Rightarrow> bool" where
  "free_name E n d u \<longleftrightarrow> n \<noteq> topic_base E \<and> (\<forall>d' u'. service_name E n d' u' \<longrightarrow> d = d' \<and> u = u')"

lemma keeps_storeTopic [keeps_intros]:
  assumes "free_name E n d u"
  shows "keeps (mqtt_good E) (storeTopic E d n u)"
proof (rule keepsI)
  fix s :: "'z mqtt_state_scheme" assume g: "mqtt_good E s"
  have env: "topic_env_ok E" "topics_inv E (topics s)"
    using mqtt_goodD(1)[OF g] by (simp_all add: topics_good_def)
  obtain url where url: "config E ''MQTT_BROKER_URL'' = Some url" using topic_env_okD(3)[OF env(1)] by blast
  let ?t = "\<lparr>t_brokerUrl = url, t_deviceId = d, t_topic = n, t_useCase = u, t_isSubscribed = True\<rparr>"
  have t: "?t = new_topic E d n u" using url by (simp add: new_topic_def)
  note R = repo_ok_simps[OF topic_env_okD(1)[OF env(1)]]
  show "mqtt_good E (snd (storeTopic E d n u s))"
  proof (cases "\<exists>x \<in> set (topics s). t_topic x = n")
    case True
    then have "\<not> unique_by t_topic (topics s @ [?t])" by auto
    then obtain msg where "r_save (topic_repo E) ?t (topics s) = (Inl (LibraryError msg), topics s)"
      using repo_ok_save_reject[OF topic_env_okD(1)[OF env(1)]] by blast
    with g url show ?thesis by (simp add: storeTopic_def act_simps R split: option.split)
  next
    case False
    with assms env(2) have inv: "topics_inv E (topics s @ [?t])"
      unfolding t by (intro topics_inv_add) (auto simp: free_name_def)
    then have "unique_by t_topic (topics s @ [?t])" by (simp add: topics_inv_def)
    with g url mqtt_good_topics[OF g inv] show ?thesis
      by (simp add: storeTopic_def act_simps R split: option.split)
  qed
qed

text \<open>\<open>keeps\<close> of a sequence whose second part needs to know what the first returned.\<close>

lemma keeps_bnd_returns:
  assumes "keeps I m" "\<And>s x s'. I s \<Longrightarrow> m s = (Inr x, s') \<Longrightarrow> Q x" "\<And>x. Q x \<Longrightarrow> keeps I (f x)"
  shows "keeps I (bnd m f)"
proof (rule keepsI)
  fix s assume s: "I s"
  show "I (snd (bnd m f s))"
  proof (cases "m s")
    case (Pair r s')
    with keepsD[OF assms(1) s] have "I s'" by simp
    with Pair assms(2)[OF s] keepsD[OF assms(3)] show ?thesis by (cases r) auto
  qed
qed

section \<open>The names of the discovery topics\<close>

lemma last_segment_inj:
  assumes "x @ CHR ''/'' # a = y @ CHR ''/'' # b" "CHR ''/'' \<notin> set a" "CHR ''/'' \<notin> set b"
  shows "x = y \<and> a = b"
proof -
  have tw: "takeWhile (\<lambda>c. c \<noteq> CHR ''/'') (rev z @ CHR ''/'' # w) = rev z" if "CHR ''/'' \<notin> set z" for z w :: string
    using that by (subst takeWhile_append2) auto
  from assms(1) have "rev (x @ CHR ''/'' # a) = rev (y @ CHR ''/'' # b)" by simp
  then have "rev a @ CHR ''/'' # rev x = rev b @ CHR ''/'' # rev y" by simp
  with tw[OF assms(2), of "rev x"] tw[OF assms(3), of "rev y"] have "rev a = rev b" by metis
  with assms(1) show ?thesis by simp
qed

lemma discovery_suffix:
  assumes "service_name E (x @ ''/discovery'') d u"
  shows "x = topic_base E \<or> service_name E x d DEVICE_BASE"
proof -
  have d: "CHR ''/'' \<notin> set d" using assms by (simp add: service_name_def)
  consider "x @ ''/discovery'' = topic_base E @ ''/'' @ d"
    | "x @ ''/discovery'' = (topic_base E @ ''/'' @ d) @ ''/'' @ use_case_value u"
    using assms by (auto simp: service_name_def device_topic_def device_base_def)
  then show ?thesis
  proof cases
    case 1
    then have "x @ CHR ''/'' # ''discovery'' = topic_base E @ CHR ''/'' # d" by simp
    from last_segment_inj[OF this _ d] show ?thesis by simp
  next
    case 2
    then have "rev (x @ ''/discovery'') = rev ((topic_base E @ ''/'' @ d) @ ''/'' @ use_case_value u)" by (simp only:)
    then have "rev x = rev (topic_base E @ ''/'' @ d)" by (cases u) simp_all
    then have "x = topic_base E @ ''/'' @ d" by (simp only: rev_is_rev_conv)
    with d show ?thesis by (simp add: service_name_def device_base_def)
  qed
qed

definition broadcast_like :: "'e topic_env_scheme \<Rightarrow> topic_entity \<Rightarrow> bool" where
  "broadcast_like E t \<longleftrightarrow> t_topic t \<noteq> topic_base E \<and> (\<forall>d u. service_name E (t_topic t) d u \<longrightarrow> u = BROADCAST)"

lemma broadcast_returned:
  assumes "mqtt_good E s" "getBroadcastTopic E s = (Inr t, s')"
  shows "broadcast_like E t"
proof -
  have "repo_ok (unique_by t_topic) (topic_repo E)" and inv: "topics_inv E (topics s)"
    using assms(1) by (simp_all add: mqtt_good_def topics_good_def topic_env_ok_def)
  note R = repo_ok_simps(2)[OF this(1)]
  obtain f where "List.find f (topics s) = Some t" "\<And>x. f x \<Longrightarrow> t_useCase x = BROADCAST"
    using assms(2) by (auto simp: getBroadcastTopic_def act_simps R split: option.splits)
  then have "t \<in> set (topics s)" "t_useCase t = BROADCAST" by (auto dest: find_Some_in)
  with inv show ?thesis by (auto simp: broadcast_like_def topics_inv_def)
qed

lemma discovery_name_free:
  assumes "device_env_ok E" "broadcast_like E t"
  shows "free_name E (t_topic t @ ''/discovery'') ''Mqtt_Broker'' BROADCAST"
proof -
  have "t_topic t \<noteq> topic_base E" "\<not> service_name E (t_topic t) d DEVICE_BASE" for d
    using assms(2) by (auto simp: broadcast_like_def)
  then have "\<not> service_name E (t_topic t @ ''/discovery'') d u" for d u using discovery_suffix by blast
  moreover have "t_topic t @ ''/discovery'' \<noteq> topic_base E"
    using device_env_okD(12)[OF assms(1)] by (metis endsWith_append)
  ultimately show ?thesis by (simp add: free_name_def)
qed

lemma object_name_free:
  assumes "device_env_ok E"
  shows "free_name E (''[object Object]'' @ ''/discovery'') ''Mqtt_Broker'' BROADCAST"
proof -
  have "CHR ''/'' \<in> set n" if "service_name E n d u" for n d u
    using that by (auto simp: service_name_def device_topic_def device_base_def)
  then have "\<not> service_name E ''[object Object]'' d u" for d u by fastforce
  with discovery_suffix[of E "''[object Object]''"] device_env_okD(13)[OF assms]
  have "\<not> service_name E (''[object Object]'' @ ''/discovery'') d u" for d u by metis
  moreover have "''[object Object]'' @ ''/discovery'' \<noteq> topic_base E"
    using device_env_okD(12)[OF assms] by (metis endsWith_append)
  ultimately show ?thesis by (simp only: free_name_def simp_thms)
qed

end
