(* ===== verification/DeviceMachine.thy ===== *)
theory DeviceMachine
  imports DeviceInvariant
begin

text \<open>
  The machine of the device side of the program: the requests of the controllers and of the sockets,
  the messages of brokers with the responses of devices, the MQTT operations and the expiry of cached
  requests, in any order. Every reachable state is \<open>device_good\<close>.
\<close>

section \<open>Requests keep the invariant\<close>

lemma keeps_update_device [keeps_intros]:
  fixes E :: "'e device_env_scheme"
  assumes "\<And>d. sn_deviceId (f d) = sn_deviceId d"
  shows "keeps (device_good E :: 'z device_state_scheme \<Rightarrow> bool) (update_device E i f)"
proof (rule keepsI)
  fix s :: "'z device_state_scheme" assume g: "device_good E s"
  have "mqtt_good E (s\<lparr>sensors := update_where (\<lambda>d. sn_deviceId d = i) f (sensors s)\<rparr>)"
    using device_goodD(2)[OF g] by (subst mqtt_good_cong[of _ s]) simp_all
  with device_goodD[OF g] sensors_ok_update[OF assms] show "device_good E (snd (update_device E i f s))"
    by (simp add: update_device_run device_good_def)
qed

lemma crash_blind_device [keeps_intros]: "crash_blind (device_good E)"
  by (rule crash_blindI) (simp add: device_good_def crash_blindD[OF crash_blind_good])

lemma keeps_find_live [keeps_intros]: "keeps (device_good E) (find_live E i)"
  by (rule keepsI) (simp add: find_live_run device_goodD(1))

lemma keeps_findOne [keeps_intros]: "keeps (device_good E) (on_sensors (r_findOne (sensor_repo E) p))"
  by (rule keepsI) (simp add: act_simps sensor_repo_simps[OF device_goodD(1)])

text \<open>What only the topics, the client, the cache and the clock are used for.\<close>

lemma keeps_device_base [keeps_intros]:
  "keeps (device_good E) (getDeviceTopicByUseCase E d u)" "keeps (device_good E) (getBroadcastTopic E)"
  "keeps (device_good E) (uuidv4 E')" "keeps (device_good E) (date_now E')" "keeps (device_good E) (setCache E' dto)"
  "keeps (device_good E) (deleteCache E' dto)"
  by (rule keeps_device_good; intro keeps_intros)+

lemma keeps_device_storeTopic [keeps_intros]:
  "(device_env_ok E \<Longrightarrow> free_name E n d u) \<Longrightarrow> keeps (device_good E) (storeTopic E d n u)"
  by (rule keeps_device_good; intro keeps_intros; assumption)

lemma keeps_device_createTopic [keeps_intros]:
  "CHR ''/'' \<notin> set d \<Longrightarrow> keeps (device_good E) (createTopic E d u)"
  "CHR ''/'' \<notin> set d \<Longrightarrow> keeps (device_good E) (createDeviceBaseTopic E d)"
  "CHR ''/'' \<notin> set d \<Longrightarrow> keeps (device_good E) (createAllTopicsForDevice E d)"
  by (rule keeps_device_good; intro keeps_intros; assumption)+

lemma keeps_device_mqtt [keeps_intros]:
  "keeps (device_good E) (mqtt_subscribe E ts)" "keeps (device_good E) (mqtt_publish E t p opts)"
  "keeps (device_good E) (mqtt_unsubscribe E t)" "keeps (device_good E) (mqtt_disconnect E)"
  "keeps (device_good E) (mqtt_onModuleDestroy E)" "keeps (device_good E) (initConnection E broker options)"
  "keeps (device_good E) (mqtt_reconnect E)" "keeps (device_good E) (updateConfiguration E cfg)"
  by (rule keeps_device_good; intro keeps_intros keeps_reconnect keeps_updateConfiguration;
      simp add: device_env_okD(10))+

lemma keeps_discoverBroadcast: "keeps (device_good E) (discoverDevicesBroadcast E userId)"
  unfolding discoverDevicesBroadcast_def Let_def use_case_value.simps
  by (rule keeps_bnd_returns[where Q = "broadcast_like E"])
    (intro keeps_intros | auto intro: broadcast_returned[OF device_goodD(2)] discovery_name_free)+

lemma keeps_discoverUnicast: "keeps (device_good E) (discoverDeviceUnicast E userId deviceId)"
  unfolding discoverDeviceUnicast_def Let_def use_case_value.simps
  using object_name_free[of E] by (intro keeps_intros) simp

lemma keeps_validateSensorTypes [keeps_intros]: "keeps (device_good E) (validateSensorTypes E i f)"
  unfolding validateSensorTypes_def by (intro keeps_intros)

lemma keeps_requests_device:
  "keeps (device_good E) (AssignDeviceFunction E currentUser provisionData)"
  "keeps (device_good E) (setDeviceConfiguration E configData)"
  "keeps (device_good E) (getDeviceTelemetry E telemetryData)"
  "keeps (device_good E) (deleteSensor E i)"
  unfolding AssignDeviceFunction_def setDeviceConfiguration_def getDeviceTelemetry_def deleteSensor_def Let_def
  by (intro keeps_intros | simp add: assign_functionality_def)+

lemma keeps_getHardwareStatus: "keeps (device_good E) (getHardwareStatus E currentUser i)"
proof -
  have id_ok: "CHR ''/'' \<notin> set i"
    if g: "device_good E (s :: 'z device_state_scheme)"
      and f: "find_live E (JStr i) s = (Inr (Some d), s')" for s d s'
  proof -
    from f have f': "List.find (\<lambda>d. sn_deviceId d = JStr i \<and> \<not> sn_isDeleted d) (sensors s) = Some d"
      by (auto simp: find_live_run[OF device_goodD(1)[OF g]])
    then have "d \<in> set (sensors s)" "sn_deviceId d = JStr i" by (auto dest: find_Some_in)
    then show ?thesis using device_goodD(3)[OF g] by (auto simp: sensors_ok_def list_all_iff)
  qed
  show ?thesis
    unfolding getHardwareStatus_def Let_def
    by (rule keeps_bnd_returns[where Q = "\<lambda>d. d \<noteq> None \<longrightarrow> CHR ''/'' \<notin> set i"])
      (auto intro!: keeps_intros dest: id_ok split: option.split)
qed

section \<open>Responses keep the invariant\<close>

lemma keeps_store_records [keeps_intros]:
  fixes E :: "'e device_env_scheme"
  shows "keeps (device_good E :: 'z device_state_scheme \<Rightarrow> bool) (on_hardware mh)"
    "keeps (device_good E :: 'z device_state_scheme \<Rightarrow> bool) (on_telemetries mt)"
    "keeps (device_good E :: 'z device_state_scheme \<Rightarrow> bool) (server_emit n v)"
  by (rule keepsI, simp add: act_simps server_emit_def device_good_def mqtt_good_def topics_good_def clients_inv_def)+

lemma keeps_redis_get [keeps_intros]: "keeps (device_good E) (redis_get E k)"
  by (rule keepsI) (simp add: redis_get_ok device_env_okD(2)[OF device_goodD(1)])

lemma keeps_transformAndValidate [keeps_intros]: "keeps (device_good E) (transformAndValidate E rules v)"
  unfolding transformAndValidate_def Let_def by (intro keeps_intros)

lemma keeps_handlers [keeps_intros]:
  "keeps (device_good E) (handleAssignResponse E payload)" "keeps (device_good E) (handleUpgradeResponse E payload)"
  "keeps (device_good E) (handleDeviceHeartbeat E payload)" "keeps (device_good E) (handleRebootResponse E payload)"
  "keeps (device_good E) (handleTelemetryResponse E payload)" "keeps (device_good E) (handleHardwareStatus E payload)"
  "keeps (device_good E) (handleAckMessage payload)" "keeps (device_good E) (handleUnknownMessage payload)"
  unfolding handleAssignResponse_def handleUpgradeResponse_def handleDeviceHeartbeat_def handleRebootResponse_def
    handleTelemetryResponse_def handleHardwareStatus_def handleAckMessage_def handleUnknownMessage_def Let_def
  by (intro keeps_intros | simp add: assign_functionality_def)+

text \<open>Saving the record of a device that is not stored.\<close>

lemma save_new_device:
  assumes g: "device_good E s" and new: "\<forall>d \<in> set (sensors s). sn_deviceId d \<noteq> js_get v ''deviceId''"
    and id: "CHR ''/'' \<notin> set (js_to_string (js_get v ''deviceId''))"
  shows "on_sensors (r_save (sensor_repo E) (device_record v)) s =
      (Inr (device_record v), s\<lparr>sensors := sensors s @ [device_record v]\<rparr>)"
    "device_good E (s\<lparr>sensors := sensors s @ [device_record v]\<rparr>)"
proof -
  show "on_sensors (r_save (sensor_repo E) (device_record v)) s =
      (Inr (device_record v), s\<lparr>sensors := sensors s @ [device_record v]\<rparr>)"
    by (simp add: act_simps sensor_repo_simps[OF device_goodD(1)[OF g]])
  have "mqtt_good E (s\<lparr>sensors := sensors s @ [device_record v]\<rparr>)"
    using device_goodD(2)[OF g] by (subst mqtt_good_cong[of _ s]) simp_all
  moreover have "sensors_ok (sensors s @ [device_record v])"
    using device_goodD(3)[OF g] new id by (auto simp: sensors_ok_def device_record_def)
  ultimately show "device_good E (s\<lparr>sensors := sensors s @ [device_record v]\<rparr>)"
    using device_goodD(1)[OF g] by (simp add: device_good_def)
qed

text \<open>The part of the discovery handler after the device is stored, and the rest.\<close>

definition after_registration ::
  "'e device_env_scheme \<Rightarrow> jsval \<Rightarrow> ('z device_state_scheme, unit) act" where
  "after_registration E payload =
     bnd (fire (emitDiscoveryBroadcastMessage payload)) (\<lambda>_.
     if \<not> truthy (js_get payload ''isBroadcast'') then deleteCache E payload else ok ())"

lemma keeps_after_registration: "keeps (device_good E) (after_registration E payload)"
  unfolding after_registration_def emitDiscoveryBroadcastMessage_def by (intro keeps_intros)

lemma handleDiscovery_cases:
  assumes g: "device_good E s" and v: "\<not> nullish (js_get payload ''sensorData'')"
  shows "handleDiscoveryResponse E payload s =
    (let v = js_get payload ''sensorData''; i = js_get v ''deviceId'' in
     case List.find (\<lambda>d. sn_deviceId d = i) (sensors s) of
       None \<Rightarrow> bnd (createDeviceBaseTopic E (js_to_string i)) (\<lambda>t.
         bnd (register_device E v (js_to_string i) (t_topic t)) (\<lambda>_. after_registration E payload)) s
     | Some d \<Rightarrow> bnd (if sn_isDeleted d then update_device E i (\<lambda>d. d\<lparr>sn_isDeleted := False\<rparr>) else ok ()) (\<lambda>_.
         bnd (createDeviceBaseTopic E (js_to_string i)) (\<lambda>_. after_registration E payload)) s)"
proof -
  have f: "on_sensors (r_findOne (sensor_repo E) p) s = (Inr (List.find p (sensors s)), s)" for p
    by (simp add: act_simps sensor_repo_simps[OF device_goodD(1)[OF g]])
  let ?i = "js_get (js_get payload ''sensorData'') ''deviceId''"
  have okb: "bnd (ok ()) h = h ()" for h :: "unit \<Rightarrow> ('b device_state_scheme, unit) act"
    by (simp add: fun_eq_iff)
  show ?thesis
  proof (cases "List.find (\<lambda>d. sn_deviceId d = ?i) (sensors s)")
    case None
    with v show ?thesis
      by (simp add: handleDiscoveryResponse_def js_get_or_throw_def lift_res_run f Let_def after_registration_def)
  next
    case (Some d)
    with v show ?thesis
      by (simp add: handleDiscoveryResponse_def js_get_or_throw_def lift_res_run f Let_def
          after_registration_def okb)
  qed
qed

lemma keeps_register_device:
  assumes "device_good E s" "\<forall>d \<in> set (sensors s). sn_deviceId d \<noteq> js_get v ''deviceId''"
    "CHR ''/'' \<notin> set (js_to_string (js_get v ''deviceId''))"
  shows "device_good E (snd (register_device E v (js_to_string (js_get v ''deviceId'')) tpc s))"
proof -
  let ?rest = "bnd (mqtt_subscribe E (OneTopic tpc)) (\<lambda>_.
      bnd (createAllTopicsForDevice E (js_to_string (js_get v ''deviceId''))) (\<lambda>ts.
      bnd (mqtt_subscribe E (ManyTopics (map t_topic ts))) (\<lambda>_. ok ())))"
  have "keeps (device_good E) ?rest" by (intro keeps_intros assms(3))
  from keepsD[OF this save_new_device(2)[OF assms]] show ?thesis
    by (auto simp: register_device_def try_catch_run save_new_device(1)[OF assms] split: prod.split sum.split)
qed

lemma discovery_good:
  assumes g: "device_good E s"
    and id: "CHR ''/'' \<notin> set (js_to_string (js_get (js_get payload ''sensorData'') ''deviceId''))"
  shows "device_good E (snd (handleDiscoveryResponse E payload s))"
proof (cases "nullish (js_get payload ''sensorData'')")
  case True
  with g show ?thesis by (simp add: handleDiscoveryResponse_def js_get_or_throw_def lift_res_def bnd_def Let_def)
next
  case v: False
  let ?v = "js_get payload ''sensorData''"
  let ?i = "js_get ?v ''deviceId''"
  show ?thesis
  proof (cases "List.find (\<lambda>d. sn_deviceId d = ?i) (sensors s)")
    case None
    let ?s1 = "snd (createDeviceBaseTopic E (js_to_string ?i) s)"
    have "sensors ?s1 = sensors s"
      using device_part_same[OF keeps_part_topics(3), of E "js_to_string ?i" s] by (simp add: device_part_def)
    with None have new: "\<forall>d \<in> set (sensors ?s1). sn_deviceId d \<noteq> ?i" by (auto simp: find_None_all)
    have g1: "device_good E ?s1" by (rule keepsD[OF keeps_device_createTopic(2)[OF id] g])
    note reg = keeps_register_device[OF g1 new id]
    obtain r1 s1 where c: "createDeviceBaseTopic E (js_to_string ?i) s = (r1, s1)" by (cases "createDeviceBaseTopic E (js_to_string ?i) s")
    show ?thesis
    proof (cases r1)
      case (Inr t)
      obtain r2 s2 where c2: "register_device E ?v (js_to_string ?i) (t_topic t) s1 = (r2, s2)"
        by (cases "register_device E ?v (js_to_string ?i) (t_topic t) s1")
      have "device_good E s2" using reg[of "t_topic t"] c c2 by simp
      with keepsD[OF keeps_after_registration[of E payload] this] c c2 Inr None show ?thesis
        by (cases r2) (simp_all add: handleDiscovery_cases[OF g v] Let_def)
    qed (use None c g1 in \<open>simp add: handleDiscovery_cases[OF g v] Let_def\<close>)
  next
    case (Some d)
    have "keeps (device_good E) (bnd (if sn_isDeleted d then update_device E ?i (\<lambda>d. d\<lparr>sn_isDeleted := False\<rparr>) else ok ())
        (\<lambda>_. bnd (createDeviceBaseTopic E (js_to_string ?i)) (\<lambda>_. after_registration E payload)))"
      by (intro keeps_intros id keeps_after_registration) simp
    from keepsD[OF this g] Some show ?thesis by (simp add: handleDiscovery_cases[OF g v] Let_def)
  qed
qed

section \<open>Events\<close>

text \<open>A validated response is the object that was received.\<close>

lemma transformAndValidate_InrD:
  assumes env: "device_env_ok E" and run: "transformAndValidate E rules payload s = (Inr v, s')"
  shows "v = payload" "dto_valid (clock E (clock_reads s)) rules payload"
    "\<exists>kvs. payload = JObj kvs" "s' = s\<lparr>clock_reads := Suc (clock_reads s)\<rparr>"
    "cached (kv s) (pending_key (js_get payload ''requestId'')) \<noteq> JNull"
    "strict_eq (js_get (cached (kv s) (pending_key (js_get payload ''requestId''))) ''requestId'') (js_get payload ''requestId'')"
    "strict_eq (js_get (cached (kv s) (pending_key (js_get payload ''requestId''))) ''userId'') (js_get payload ''userId'')"
proof -
  let ?w = "plainToInstance E rules payload"
  let ?s1 = "s\<lparr>clock_reads := Suc (clock_reads s)\<rparr>"
  note get = redis_get_ok[OF device_env_okD(2)[OF env]]
  from run have *: "\<not> nullish ?w" "dto_valid (clock E (clock_reads s)) rules ?w" "v = ?w" "s' = ?s1"
    "cached (kv s) (pending_key (js_get ?w ''requestId'')) \<noteq> JNull"
    "strict_eq (js_get (cached (kv s) (pending_key (js_get ?w ''requestId''))) ''requestId'') (js_get ?w ''requestId'')"
    "strict_eq (js_get (cached (kv s) (pending_key (js_get ?w ''requestId''))) ''userId'') (js_get ?w ''userId'')"
    by (auto simp: transformAndValidate_def Let_def date_now_run lift_res_run js_get_or_throw_def get
        device_env_okD(7)[OF env] bnd_run split: if_splits)
  from dto_valid_object[OF *(2)] obtain kvs where kvs: "?w = JObj kvs" by blast
  with device_env_okD(9)[OF env] have p: "payload = JObj kvs" by blast
  with kvs have w: "?w = payload" by simp
  show "v = payload" "dto_valid (clock E (clock_reads s)) rules payload" "s' = ?s1"
    "cached (kv s) (pending_key (js_get payload ''requestId'')) \<noteq> JNull"
    "strict_eq (js_get (cached (kv s) (pending_key (js_get payload ''requestId''))) ''requestId'') (js_get payload ''requestId'')"
    "strict_eq (js_get (cached (kv s) (pending_key (js_get payload ''requestId''))) ''userId'') (js_get payload ''userId'')"
    using * unfolding w by simp_all
  from p show "\<exists>kvs. payload = JObj kvs" by blast
qed

text \<open>A response that is refused changes nothing but the reading of the clock.\<close>

lemma transformAndValidate_state:
  assumes "device_env_ok E"
  shows "snd (transformAndValidate E rules payload s) = s\<lparr>clock_reads := Suc (clock_reads s)\<rparr>"
  by (auto simp: transformAndValidate_def Let_def date_now_run lift_res_run js_get_or_throw_def bnd_run
      redis_get_ok[OF device_env_okD(2)[OF assms]])

definition response_id_ok :: "jsval \<Rightarrow> bool" where
  "response_id_ok payload \<longleftrightarrow> CHR ''/'' \<notin> set (js_to_string (js_get (js_get payload ''sensorData'') ''deviceId''))"

lemma keeps_discovery_event:
  assumes "response_id_ok payload"
  shows "keeps (device_good E) (handleDiscoveryEvent E tpc payload)"
proof -
  have "keeps (device_good E) (bnd (transformAndValidate E DiscoveryResponseDto payload) (\<lambda>v.
      if truthy (js_get v ''responseId'') then handleDiscoveryResponse E v else ok ()))"
    using assms unfolding response_id_ok_def
    by (intro keeps_bnd_returns[where Q = "\<lambda>x. x = payload"] keeps_transformAndValidate)
      (auto intro!: keeps_intros keepsI discovery_good dest: transformAndValidate_InrD(1)[OF device_goodD(1)])
  then show ?thesis unfolding handleDiscoveryEvent_def by (intro keeps_if keeps_ok)
qed

lemma keeps_on_event:
  assumes "response_id_ok payload"
  shows "keeps (device_good E) (on_event E n tpc payload)"
  unfolding on_event_def handleSensorAssignEvent_def handleAckEvent_def handleUpgradeEvent_def
    handleHeartbeatEvent_def handleRebootEvent_def handleTelemetryEvent_def handleMetricsEvent_def
    handleUnknownEvent_def
  by (intro keeps_intros keeps_discovery_event assms)

lemma keeps_dispatch:
  "list_all (\<lambda>(_, args). list_all response_id_ok args) evs \<Longrightarrow> keeps (device_good E) (dispatch E evs)"
  by (induction E evs rule: dispatch.induct) (auto intro!: keeps_intros keeps_on_event)

lemma raise_event_device_good:
  assumes "device_good E s" "i < length (clients s)"
  shows "device_good E (snd (raise_event E i ev s))"
  using raise_event_good[OF device_goodD(2)[OF assms(1)] assms(2)]
    device_part_same[OF keeps_part_raise_event, of E i ev s] assms(1)
  by (simp add: device_good_def device_part_def)

text \<open>What a message of the broker becomes, on any client.\<close>

lemma broker_message_run:
  assumes good: "mqtt_good E s" and i: "i < length (clients s)"
  shows "broker_message E i tpc message s =
    (if \<exists>c. ad_client (clients s ! i) = Some c \<and> cn_connected c
     then dispatch E (message_events tpc message) (heard tpc message s)
     else (Inr (), s))"
proof (cases "\<exists>c. ad_client (clients s ! i) = Some c \<and> cn_connected c")
  case True
  then obtain c where c: "ad_client (clients s ! i) = Some c" "cn_connected c" by blast
  with True show ?thesis by (simp add: broker_message_def message_run[OF good i c] heard_def)
next
  case False
  then have "raise_event E i (Received tpc message) s = (Inr (), s)"
    by (auto simp: raise_event_def event_possible_def split: option.split)
  then have "broker_message E i tpc message s = (Inr (), s)" by (simp add: broker_message_def)
  then show ?thesis unfolding if_not_P[OF False] .
qed

definition message_id_ok :: "string \<Rightarrow> bool" where
  "message_id_ok message \<longleftrightarrow> (case json_parse message of None \<Rightarrow> True | Some v \<Rightarrow> response_id_ok v)"

lemma response_id_ok_string: "response_id_ok (JStr t)"
  by (simp add: response_id_ok_def)

lemma broker_message_good:
  assumes "device_good E s" "i < length (clients s)" "message_id_ok message"
  shows "device_good E (snd (broker_message E i tpc message s))"
proof -
  have ev: "list_all (\<lambda>(_, args). list_all response_id_ok args) (message_events tpc message)"
    using assms(3)
    by (auto simp: message_id_ok_def message_events_def response_id_ok_string split: option.split sum.split)
  have "device_good E (heard tpc message s)"
    using assms(1) by (simp add: heard_def device_good_def mqtt_good_def topics_good_def clients_inv_def)
  from keepsD[OF keeps_dispatch[OF ev] this] assms(1) show ?thesis
    by (simp add: broker_message_run[OF device_goodD(2)[OF assms(1)] assms(2)])
qed

section \<open>The machine\<close>

inductive device_step ::
  "'e device_env_scheme \<Rightarrow> 'z device_state_scheme \<Rightarrow> 'z device_state_scheme \<Rightarrow> bool" for E where
  discover_all: "device_step E s (snd (discoverDevicesBroadcast E userId s))"
| discover_one: "device_step E s (snd (discoverDeviceUnicast E userId i s))"
| hardware: "device_step E s (snd (getHardwareStatus E user d s))"
| assign: "device_step E s (snd (AssignDeviceFunction E user dto s))"
| configure: "device_step E s (snd (setDeviceConfiguration E dto s))"
| request_telemetry: "device_step E s (snd (getDeviceTelemetry E dto s))"
| delete: "device_step E s (snd (deleteSensor E d s))"
| message: "i < length (clients s) \<Longrightarrow> message_id_ok m \<Longrightarrow> device_step E s (snd (broker_message E i tpc m s))"
| client_event: "i < length (clients s) \<Longrightarrow> device_step E s (snd (raise_event E i ev s))"
| connect: "device_step E s (snd (initConnection E broker opts s))"
| reconnect: "device_step E s (snd (mqtt_reconnect E s))"
| disconnect: "device_step E s (snd (mqtt_disconnect E s))"
| expire: "device_step E s (expire_key k s)"

inductive device_reachable :: "'e device_env_scheme \<Rightarrow> 'z device_state_scheme \<Rightarrow> bool" for E where
  start: "topics s = [] \<Longrightarrow> clients s = [] \<Longrightarrow> mqtt s = None \<Longrightarrow> sensors s = [] \<Longrightarrow> \<not> process_ended s \<Longrightarrow>
    device_reachable E (snd (mqtt_onModuleInit E s))"
| step: "device_reachable E s \<Longrightarrow> \<not> process_ended s \<Longrightarrow> device_step E s s' \<Longrightarrow> device_reachable E s'"

lemma device_step_good:
  assumes "device_step E s s'" "device_good E s"
  shows "device_good E s'"
  using assms(1)
proof cases
  case (message i m tpc)
  then show ?thesis using broker_message_good[OF assms(2)] by simp
next
  case (client_event i ev)
  then show ?thesis using raise_event_device_good[OF assms(2)] by simp
next
  case (expire k)
  with assms(2) show ?thesis
    by (simp add: expire_key_def device_good_def mqtt_good_def topics_good_def clients_inv_def)
qed (simp_all add: keepsD[of "device_good E", OF _ assms(2)] keeps_discoverBroadcast keeps_discoverUnicast keeps_getHardwareStatus
    keeps_requests_device keeps_device_mqtt)

lemma device_reachable_good: "device_reachable E s \<Longrightarrow> device_env_ok E \<Longrightarrow> device_good E s"
proof (induction rule: device_reachable.induct)
  case (start s)
  let ?s = "s\<lparr>messageRouter := Some initializeMessageRouter\<rparr>"
  have "device_good E ?s"
    using start device_env_okD(1,11)[OF start.prems]
    by (simp add: device_good_def mqtt_good_def topics_good_def clients_inv_def topics_inv_def unique_by_def
        sensors_ok_def)
  from keepsD[OF keeps_device_mqtt(6) this, of None None] show ?case
    by (simp add: mqtt_onModuleInit_def act_simps)
qed (use device_step_good in blast)

end
