(* ===== verification/PendingRequests.thy ===== *)
theory PendingRequests
  imports DeviceMachine
begin

text \<open>
  The cache of requests that wait for a response, as an interface between \<open>DeviceService\<close> (which
  remembers a request), \<open>ListenerService\<close> (which asks whether a response answers one) and
  \<open>ResponserService\<close> (which forgets it); and a concrete device service for the witnesses.
\<close>

section \<open>The interface\<close>

datatype pending_op = Remember string string string | Forget string

fun op_request :: "pending_op \<Rightarrow> string" where
  "op_request (Remember c u r) = r"
| "op_request (Forget r) = r"

locale pending_requests =
  fixes good :: "'s \<Rightarrow> bool"
    and pending :: "'s \<Rightarrow> string \<Rightarrow> string \<Rightarrow> bool"
    and remember :: "string \<Rightarrow> string \<Rightarrow> string \<Rightarrow> 's \<Rightarrow> 's"
    and forget :: "string \<Rightarrow> 's \<Rightarrow> 's"
  assumes good_remember: "good s \<Longrightarrow> good (remember c u r s)"
    and good_forget: "good s \<Longrightarrow> good (forget r s)"
    and pending_remember: "good s \<Longrightarrow> pending (remember c u r s) r' u' \<longleftrightarrow>
      (if r' = r then u' = u else pending s r' u')"
    and pending_forget: "good s \<Longrightarrow> pending (forget r s) r' u' \<longleftrightarrow> (r' \<noteq> r \<or> r = []) \<and> pending s r' u'"
begin

fun run_op :: "pending_op \<Rightarrow> 's \<Rightarrow> 's" where
  "run_op (Remember c u r) s = remember c u r s"
| "run_op (Forget r) s = forget r s"

lemma run_op_good: "good s \<Longrightarrow> good (run_op x s)"
  by (cases x) (simp_all add: good_remember good_forget)

text \<open>Whether a request is pending is decided by the last operation on its id.\<close>

lemma pending_history:
  assumes "good s" "r \<noteq> []"
  shows "pending (fold run_op xs s) r u \<longleftrightarrow>
    (case filter (\<lambda>x. op_request x = r) (rev xs) of
       [] \<Rightarrow> pending s r u | Remember c u' r' # _ \<Rightarrow> u = u' | Forget r' # _ \<Rightarrow> False)"
proof (induction xs rule: rev_induct)
  case (snoc x xs)
  have "good (fold run_op xs s)" using assms(1) by (induction xs arbitrary: s) (simp_all add: run_op_good)
  with snoc assms(2) show ?case
    by (cases x) (auto simp: pending_remember pending_forget)
qed simp

text \<open>One response answers a request, and a second one with its id does not.\<close>

lemma answered_once:
  assumes "good s" "r \<noteq> []"
  shows "pending (remember c u r s) r u" "\<not> pending (forget r (remember c u r s)) r u'"
  using assms by (simp_all add: pending_remember pending_forget good_remember)

end

section \<open>The cache of the service\<close>

text \<open>Whether a response is to a cached request, as the listener checks it.\<close>

definition answers :: "'z redis_state_scheme \<Rightarrow> jsval \<Rightarrow> bool" where
  "answers s payload \<longleftrightarrow>
     (let c = cached (kv s) (pending_key (js_get payload ''requestId'')) in
      c \<noteq> JNull \<and> strict_eq (js_get c ''requestId'') (js_get payload ''requestId'') \<and>
      strict_eq (js_get c ''userId'') (js_get payload ''userId''))"

definition request_of :: "string \<Rightarrow> string \<Rightarrow> string \<Rightarrow> jsval" where
  "request_of c u r = JObj [(''requestCode'', JStr c), (''userId'', JStr u), (''requestId'', JStr r)]"

lemma request_of_simps [simp]:
  "js_get (request_of c u r) ''requestId'' = JStr r" "js_get (request_of c u r) ''userId'' = JStr u"
  "pending_value (request_of c u r) = request_of c u r"
  by (simp_all add: request_of_def pending_value_def)

lemma cached_pending:
  "cached (m(k \<mapsto> (stringify (request_of c u r), t))) k = request_of c u r"
  using cached_stringify[of "[(''requestCode'', JStr c), (''userId'', JStr u), (''requestId'', JStr r)]" m k t]
  by (simp add: request_of_def)

lemma pending_key_inj [simp]: "pending_key (JStr r) = pending_key (JStr r') \<longleftrightarrow> r = r'"
  by (simp add: pending_key_def)

lemma request_of_object [simp]: "request_of c u r \<noteq> JNull"
  by (simp add: request_of_def)

lemma answers_remember:
  assumes "device_env_ok E"
  shows "answers (snd (setCache E (request_of c u r) s)) (request_of c' u' r') \<longleftrightarrow>
    (if r' = r then u' = u else answers s (request_of c' u' r'))"
  using assms by (cases "r' = r") (auto simp: setCache_run answers_def Let_def cached_pending strict_eq_def)

lemma answers_forget:
  assumes "device_env_ok E"
  shows "answers (snd (deleteCache E (request_of c u r) s)) (request_of c' u' r') \<longleftrightarrow>
    (r' \<noteq> r \<or> r = []) \<and> answers s (request_of c' u' r')"
  using assms by (cases "r' = r") (auto simp: deleteCache_run answers_def Let_def)

interpretation rq: pending_requests "\<lambda>s. device_env_ok E" "\<lambda>s r u. answers s (request_of c' u r)"
  "\<lambda>c u r s. snd (setCache E (request_of c u r) s)" "\<lambda>r s. snd (deleteCache E (request_of c' u' r) s)" for E c' u'
  by unfold_locales (simp_all add: answers_remember answers_forget)

text \<open>What the listener accepts, in these terms.\<close>

lemma transformAndValidate_answers:
  assumes "device_env_ok E" "transformAndValidate E rules payload s = (Inr v, s')"
  shows "answers s payload" "v = payload" "dto_valid (clock E (clock_reads s)) rules payload"
  using transformAndValidate_InrD[OF assms] by (simp_all add: answers_def Let_def)

lemma transformAndValidate_run:
  assumes env: "device_env_ok E" and v: "dto_valid (clock E (clock_reads s)) rules payload" and a: "answers s payload"
  shows "transformAndValidate E rules payload s = (Inr payload, s\<lparr>clock_reads := Suc (clock_reads s)\<rparr>)"
proof -
  obtain kvs where p: "payload = JObj kvs" using dto_valid_object[OF v] by blast
  then have w: "plainToInstance E rules payload = payload" using device_env_okD(8)[OF env] by simp
  have nn: "\<not> nullish payload" using p by simp
  show ?thesis
    using v a unfolding answers_def Let_def
    by (simp add: transformAndValidate_def Let_def w act_simps js_get_or_throw_def nn
        device_env_okD(7)[OF env] redis_get_ok[OF device_env_okD(2)[OF env]])
qed

lemma transformAndValidate_refuses:
  assumes "device_env_ok E" "\<not> (dto_valid (clock E (clock_reads s)) rules payload \<and> answers s payload)"
  shows "\<exists>e. transformAndValidate E rules payload s = (Inl e, s\<lparr>clock_reads := Suc (clock_reads s)\<rparr>)"
proof (cases "transformAndValidate E rules payload s")
  case (Pair r s')
  with transformAndValidate_state[OF assms(1), of rules payload s] have s': "s' = s\<lparr>clock_reads := Suc (clock_reads s)\<rparr>"
    by simp
  show ?thesis
  proof (cases r)
    case (Inr v)
    with Pair transformAndValidate_answers[OF assms(1)] assms(2) show ?thesis by blast
  qed (use Pair s' in simp)
qed

section \<open>A concrete service\<close>

definition demo_device_env :: "unit device_env_scheme" where
  "demo_device_env = mqtt_env.extend (demo_mqtt_env\<lparr>uuid_src := \<lambda>n. ''request-'' @ show_nat n\<rparr>)
     (device_env.fields (mem_repo (\<lambda>_. True)) (mem_repo (\<lambda>_. True)) (mem_repo (\<lambda>_. True)) 60
       (\<lambda>rules now v. dto_valid now rules v) (\<lambda>_ v. v))"

lemma demo_device_env_simps [simp]:
  "mqtt_lib demo_device_env = mem_mqtt" "topic_repo demo_device_env = mem_repo (unique_by t_topic)"
  "config demo_device_env = [''BASE_TOPIC'' \<mapsto> ''iot'', ''MQTT_BROKER_URL'' \<mapsto> ''mqtt://broker'',
    ''MQTT_USERNAME'' \<mapsto> ''panel'', ''MQTT_PASSWORD'' \<mapsto> ''secret'']"
  "clock demo_device_env = int" "redis demo_device_env = mem_redis"
  "uuid_src demo_device_env = (\<lambda>n. ''request-'' @ show_nat n)"
  "sensor_repo demo_device_env = mem_repo (\<lambda>_. True)" "hardware_repo demo_device_env = mem_repo (\<lambda>_. True)"
  "telemetry_repo demo_device_env = mem_repo (\<lambda>_. True)" "redis_ttl demo_device_env = 60"
  "cv_validate demo_device_env = (\<lambda>rules now v. dto_valid now rules v)"
  "plainToInstance demo_device_env = (\<lambda>_ v. v)" "MAX_RECONNECTION_ATTEMPTS demo_device_env = 10"
  by (simp_all add: demo_device_env_def demo_mqtt_env_def demo_topic_env_def topic_env.extend_def
      mqtt_env.fields_def mqtt_env.extend_def device_env.fields_def)

lemma demo_device_env_ok [simp]: "device_env_ok demo_device_env"
  by (simp add: device_env_ok_def mqtt_env_ok_def topic_env_ok_def transform_ok_def topic_base_def endsWith_def)

end
