(* ===== verification/DeviceContract.thy ===== *)
theory DeviceContract
  imports PendingRequests
begin

text \<open>
  What the device service and the listeners of responses promise: which messages of devices have an
  effect at all, what a discovery and a heartbeat do, the assignment of a function on every branch and
  the life of a device that is deleted and discovered again.
\<close>

section \<open>Messages without effect\<close>

text \<open>The stored devices and records, the registry, the cache, the clients and the sockets are as before.\<close>

definition untouched :: "'z device_state_scheme \<Rightarrow> 'z device_state_scheme \<Rightarrow> bool" where
  "untouched s s' \<longleftrightarrow> device_part s' = device_part s \<and> topics s' = topics s \<and> kv s' = kv s \<and>
     clients s' = clients s \<and> mqtt s' = mqtt s"

lemma untouched_refl [simp]: "untouched s s"
  by (simp add: untouched_def)

lemma untouched_trans: "untouched s t \<Longrightarrow> untouched t u \<Longrightarrow> untouched s u"
  by (simp add: untouched_def)

lemma untouched_clock [simp]:
  "untouched s (s\<lparr>clock_reads := n\<rparr>)" "untouched s (s\<lparr>emitted := es\<rparr>)" "untouched s (heard tpc m s)"
  by (simp_all add: untouched_def heard_def)

lemmas event_handlers = handleDiscoveryEvent_def handleSensorAssignEvent_def handleAckEvent_def
  handleUpgradeEvent_def handleHeartbeatEvent_def handleRebootEvent_def handleTelemetryEvent_def
  handleMetricsEvent_def handleUnknownEvent_def handleUnknownMessage_def handleAckMessage_def

lemma snd_bnd_ok: "snd (bnd m (\<lambda>_. ok ()) s) = snd (m s)"
  by (simp add: bnd_def ok_def split: prod.split sum.split)

lemma snd_if: "P (snd (A s)) \<Longrightarrow> P (snd (B s)) \<Longrightarrow> P (snd ((if b then A else B) s))"
  by simp

lemma refused_event:
  fixes s :: "'z device_state_scheme"
  assumes "\<And>rules. \<exists>e. transformAndValidate E rules payload s = (Inl e, s1)"
    and P: "P s" "P s1"
  shows "P (snd (on_event E n tpc payload s))"
proof -
  have *: "snd (bnd (transformAndValidate E rules payload) f s) = s1"
    for rules and f :: "jsval \<Rightarrow> ('z device_state_scheme, unit) act"
    using assms(1)[of rules] by auto
  show ?thesis unfolding on_event_def event_handlers
    by (intro snd_if[where P = P]; simp only: * snd_bnd_ok ok_run throw_run snd_conv P)
qed

text \<open>A code that is text is none of the numbers the handlers ask for.\<close>

lemma coded_handlers:
  assumes "js_get payload ''responseCode'' = JStr c"
  shows "snd (handleAssignResponse E payload s) = s" "snd (handleUpgradeResponse E payload s) = s"
    "snd (handleRebootResponse E payload s) = s" "snd (handleTelemetryResponse E payload s) = s"
    "snd (handleHardwareStatus E payload s) = s"
  by (simp_all add: handleAssignResponse_def handleUpgradeResponse_def handleRebootResponse_def
      handleTelemetryResponse_def handleHardwareStatus_def assms strict_eq_def response_code_def)

lemma coded_event:
  fixes s :: "'z device_state_scheme"
  assumes env: "device_env_ok E" and n: "n \<noteq> ''mqtt/message/discovery''" "n \<noteq> ''mqtt/message/heartbeat''"
  shows "untouched s (snd (on_event E n tpc payload s))"
proof -
  let ?s1 = "s\<lparr>clock_reads := Suc (clock_reads s)\<rparr>"
  have *: "snd (bnd (transformAndValidate E rules payload) f s) = ?s1"
    if "rules \<in> set response_dtos" "\<And>v c t. js_get v ''responseCode'' = JStr c \<Longrightarrow> snd (f v t) = t"
    for rules and f :: "jsval \<Rightarrow> ('z device_state_scheme, unit) act"
  proof (cases "transformAndValidate E rules payload s")
    case (Pair r s')
    note mem = that(1) and same = that(2)
    show ?thesis
    proof (cases r)
      case (Inl e)
      with Pair transformAndValidate_state[OF env, of rules payload s] show ?thesis by simp
    next
      case (Inr v)
      with Pair have run: "transformAndValidate E rules payload s = (Inr v, s')" by simp
      note D = transformAndValidate_InrD[OF env run]
      obtain c where "js_get v ''responseCode'' = JStr c"
        using response_dto_strings[OF mem D(2), of "''responseCode''"] D(1) by auto
      from same[OF this] run D(4) show ?thesis by simp
    qed
  qed
  have dtos: "SensorFunctionalityResponseDto \<in> set response_dtos" "AckResponseDto \<in> set response_dtos"
    "FwUpgradeResponseDto \<in> set response_dtos" "DeviceRebootResponseDto \<in> set response_dtos"
    "TelemetryResponseDto \<in> set response_dtos" "HardwareStatusResponseDto \<in> set response_dtos"
    by (simp_all add: response_dtos_def)
  show ?thesis
    using n by (simp add: on_event_def event_handlers * dtos coded_handlers snd_bnd_ok)
qed

text \<open>From events to messages.\<close>

lemma untouched_message:
  fixes s :: "'z device_state_scheme"
  assumes good: "mqtt_good E s" and i: "i < length (clients s)"
    and ev: "\<And>n v (t :: 'z device_state_scheme). message_events tpc message = [(n, [JStr tpc, v])] \<Longrightarrow> kv t = kv s \<Longrightarrow>
      untouched t (snd (on_event E n tpc v t))"
  shows "untouched s (snd (broker_message E i tpc message s))"
proof -
  let ?s1 = "heard tpc message s"
  have "message_events tpc message = [] \<or> (\<exists>n v. message_events tpc message = [(n, [JStr tpc, v])])"
    by (auto simp: message_events_def split: option.split sum.split)
  then have "untouched ?s1 (snd (dispatch E (message_events tpc message) ?s1))"
  proof
    assume "\<exists>n v. message_events tpc message = [(n, [JStr tpc, v])]"
    then obtain n v where m: "message_events tpc message = [(n, [JStr tpc, v])]" by blast
    from ev[OF m, of ?s1] show ?thesis by (simp add: m suppress_run bnd_run heard_def)
  qed simp
  with untouched_trans[of s ?s1] show ?thesis by (simp add: broker_message_run[OF good i])
qed

lemma unanswered_message:
  fixes s :: "'z device_state_scheme"
  assumes env: "device_env_ok E" and good: "mqtt_good E s" and i: "i < length (clients s)"
    and v: "json_parse message = Some v" "\<not> answers s v"
  shows "untouched s (snd (broker_message E i tpc message s))"
proof (rule untouched_message[OF good i])
  fix n w and t :: "'z device_state_scheme"
  assume m: "message_events tpc message = [(n, [JStr tpc, w])]" and kv: "kv t = kv s"
  from m v(1) have "w = v" by (auto simp: message_events_def split: sum.splits)
  with v(2) kv have "\<not> answers t w" by (simp add: answers_def)
  then have "\<exists>e. transformAndValidate E rules w t = (Inl e, t\<lparr>clock_reads := Suc (clock_reads t)\<rparr>)" for rules
    using transformAndValidate_refuses[OF env] by blast
  from refused_event[where P = "untouched t", OF this] show "untouched t (snd (on_event E n tpc w t))" by simp
qed

lemma message_event_name:
  assumes "message_events tpc message = [(n, [JStr tpc, v])]" "\<not> endsWith tpc ''/discovery''" "\<not> endsWith tpc ''/heartbeat''"
  shows "n \<noteq> ''mqtt/message/discovery'' \<and> n \<noteq> ''mqtt/message/heartbeat''"
proof -
  have r: "route initializeMessageRouter (Some tpc) v = Inr n"
    using assms(1) by (auto simp: message_events_def split: option.splits sum.splits)
  show ?thesis
  proof (cases "List.find (\<lambda>b. endsWith tpc (topicSuffix b)) default_handlers")
    case None
    with r show ?thesis by (auto simp: route_suffix)
  next
    case (Some b)
    then have "b \<in> set default_handlers" "endsWith tpc (topicSuffix b)" by (auto dest: find_Some_in)
    moreover have "event_name b = n" using r Some by (auto simp: route_suffix split: if_splits)
    ultimately show ?thesis using assms(2,3)
      by (auto simp: default_handlers_def handler_class_defs)
  qed
qed

section \<open>A connected service\<close>

definition live :: "nat \<Rightarrow> 'z mqtt_state_scheme \<Rightarrow> bool" where
  "live i s \<longleftrightarrow> mqtt s = Some i \<and> isConnectedState s \<and> i < length (clients s) \<and> adapter_isConnected (clients s ! i)"

definition subs_of :: "nat \<Rightarrow> 'z mqtt_state_scheme \<Rightarrow> string set" where
  "subs_of i s = set (adapter_subs (clients s ! i))"

definition sent_of :: "nat \<Rightarrow> 'z mqtt_state_scheme \<Rightarrow> (string \<times> string) list" where
  "sent_of i s = map (\<lambda>(t, p, _). (t, p)) (adapter_sent (clients s ! i))"

lemma subscribe_run:
  assumes lib: "mqtt_lib_ok (mqtt_lib E)" and up: "live i s"
  shows "\<exists>r a. mqtt_subscribe E ts s = (Inr r, s\<lparr>clients := (clients s)[i := a], clock_reads := Suc (clock_reads s)\<rparr>) \<and>
    adapter_isConnected a \<and> set (adapter_subs a) = subs_of i s \<union> set (topicsArray ts) \<and>
    adapter_sent a = adapter_sent (clients s ! i)"
proof -
  from ad.subscribe_live[OF lib, of "clients s ! i" ts] up obtain a where
    "adapter_subscribe (mqtt_lib E) ts (clients s ! i) = (Inr (), a)" "adapter_isConnected a"
    "adapter_subs a = adapter_subs (clients s ! i) @ topicsArray ts" "adapter_sent a = adapter_sent (clients s ! i)"
    by (auto simp: live_def)
  with up show ?thesis
    by (simp add: mqtt_subscribe_def act_simps on_mqtt_def live_def subs_of_def)
      (intro exI[of _ a] conjI, simp_all)
qed

text \<open>A method that may change the clients keeps the connection and the list of what is sent.\<close>

lemma live_clients:
  "live i s \<Longrightarrow> adapter_isConnected a \<Longrightarrow> live i (s\<lparr>clients := (clients s)[i := a], clock_reads := n\<rparr>)"
  "live i s \<Longrightarrow> subs_of i (s\<lparr>clients := (clients s)[i := a], clock_reads := n\<rparr>) = set (adapter_subs a)"
  "live i s \<Longrightarrow> sent_of i (s\<lparr>clients := (clients s)[i := a], clock_reads := n\<rparr>) =
     map (\<lambda>(t, p, _). (t, p)) (adapter_sent a)"
  by (simp_all add: live_def subs_of_def sent_of_def)

lemma live_cong:
  "clients s' = clients s \<Longrightarrow> mqtt s' = mqtt s \<Longrightarrow> isConnectedState s' = isConnectedState s \<Longrightarrow>
     live i s' = live i s"
  by (simp add: live_def)

lemma register_run:
  assumes good: "device_good E s" and up: "live i s"
    and new: "\<forall>d \<in> set (sensors s). sn_deviceId d \<noteq> js_get v ''deviceId''"
    and id: "CHR ''/'' \<notin> set (js_to_string (js_get v ''deviceId''))"
    and t: "t = device_base E (js_to_string (js_get v ''deviceId''))"
  shows "\<exists>s'. register_device E v (js_to_string (js_get v ''deviceId'')) t s = (Inr (), s') \<and>
    sensors s' = sensors s @ [device_record v] \<and> ws_sent s' = ws_sent s \<and> kv s' = kv s \<and> live i s' \<and>
    topics s' = snd (ensure_all (device_topics E (js_to_string (js_get v ''deviceId''))) (topics s)) \<and>
    subs_of i s' = subs_of i s \<union> t_topic ` set (device_topics E (js_to_string (js_get v ''deviceId''))) \<and>
    hardware_statuses s' = hardware_statuses s \<and> telemetries s' = telemetries s"
proof -
  let ?id = "js_to_string (js_get v ''deviceId'')"
  note save = save_new_device[OF good new id]
  note lib = device_env_okD(10)[OF device_goodD(1)[OF good]]
  let ?s1 = "s\<lparr>sensors := sensors s @ [device_record v]\<rparr>"
  have up1: "live i ?s1" using up by (simp add: live_def)
  from subscribe_run[OF lib up1, of "OneTopic t"] obtain r a where
    1: "mqtt_subscribe E (OneTopic t) ?s1 = (Inr r, ?s1\<lparr>clients := (clients ?s1)[i := a], clock_reads := Suc (clock_reads ?s1)\<rparr>)"
    "adapter_isConnected a" "set (adapter_subs a) = subs_of i ?s1 \<union> {t}" by auto
  let ?s2 = "?s1\<lparr>clients := (clients ?s1)[i := a], clock_reads := Suc (clock_reads ?s1)\<rparr>"
  let ?ts = "ensure_all (device_topics E ?id) (topics s)"
  have 2: "createAllTopicsForDevice E ?id ?s2 = (Inr (fst ?ts), ?s2\<lparr>topics := snd ?ts\<rparr>)"
    using createAll_run[OF device_env_okD(11)[OF device_goodD(1)[OF good]], of ?s2 ?id] device_goodD(6)[OF good] id
    by (simp add: Let_def)
  let ?s3 = "?s2\<lparr>topics := snd ?ts\<rparr>"
  have up3: "live i ?s3" using up 1(2) by (simp add: live_def)
  from subscribe_run[OF lib up3, of "ManyTopics (map t_topic (fst ?ts))"] obtain r' a' where
    3: "mqtt_subscribe E (ManyTopics (map t_topic (fst ?ts))) ?s3 =
      (Inr r', ?s3\<lparr>clients := (clients ?s3)[i := a'], clock_reads := Suc (clock_reads ?s3)\<rparr>)"
    "adapter_isConnected a'" "set (adapter_subs a') = subs_of i ?s3 \<union> t_topic ` set (device_topics E ?id)"
    using arg_cong[OF ensure_all_names[of "device_topics E ?id" "topics s"], of set] by auto
  let ?s4 = "?s3\<lparr>clients := (clients ?s3)[i := a'], clock_reads := Suc (clock_reads ?s3)\<rparr>"
  have run: "register_device E v ?id t s = (Inr (), ?s4)"
    using save(1) 1(1) 2 3(1) by (simp add: register_device_def try_catch_run)
  have "t \<in> t_topic ` set (device_topics E ?id)" by (simp add: t device_topics_def new_topic_def)
  moreover have "subs_of i ?s4 = set (adapter_subs a')" "subs_of i ?s3 = set (adapter_subs a)" "subs_of i ?s1 = subs_of i s"
    using up by (simp_all add: subs_of_def live_def)
  ultimately have "subs_of i ?s4 = subs_of i s \<union> t_topic ` set (device_topics E ?id)" using 1(3) 3(3) by auto
  moreover have "live i ?s4" using up 3(2) by (simp add: live_def)
  ultimately show ?thesis using run by (intro exI[of _ ?s4]) simp
qed

section \<open>Discovery\<close>

lemma after_registration_run:
  assumes "device_env_ok E"
  shows "after_registration E payload s = (Inr (),
    (if truthy (js_get payload ''isBroadcast'') \<or> \<not> truthy (js_get payload ''requestId'') then s
     else s\<lparr>kv := (kv s)(pending_key (js_get payload ''requestId'') := None)\<rparr>)
      \<lparr>ws_sent := ws_sent s @ [(''ws/message/discovery/broadcast/response'', payload)]\<rparr>)"
  using assms
  by (simp add: after_registration_def emitDiscoveryBroadcastMessage_def server_emit_def act_simps deleteCache_run)

definition device_names :: "'e topic_env_scheme \<Rightarrow> string \<Rightarrow> string set" where
  "device_names E d = insert (device_base E d) (device_topic E d ` set all_use_cases)"

lemma device_topics_names: "t_topic ` set (device_topics E d) = device_names E d"
  by (auto simp: device_topics_def device_names_def new_topic_def image_image)

lemma ensure_all_registers: "t_topic ` set new \<subseteq> t_topic ` set (snd (ensure_all new ts))"
  using ensure_all_mem(2)[of new ts] arg_cong[OF ensure_all_names[of new ts], of set] by (auto simp: image_iff) blast

lemma discovery_run:
  assumes good: "device_good E s" and up: "live i s"
    and v: "js_get (js_get payload ''sensorData'') ''deviceId'' = JStr d" "CHR ''/'' \<notin> set d"
    and new: "\<forall>x \<in> set (sensors s). sn_deviceId x \<noteq> JStr d"
  shows "\<exists>s'. handleDiscoveryResponse E payload s = (Inr (), s') \<and>
    sensors s' = sensors s @ [device_record (js_get payload ''sensorData'')] \<and>
    ws_sent s' = ws_sent s @ [(''ws/message/discovery/broadcast/response'', payload)] \<and>
    device_names E d \<subseteq> t_topic ` set (topics s') \<and> subs_of i s' = subs_of i s \<union> device_names E d \<and>
    kv s' = (if truthy (js_get payload ''isBroadcast'') \<or> \<not> truthy (js_get payload ''requestId'') then kv s
      else (kv s)(pending_key (js_get payload ''requestId'') := None)) \<and> live i s'"
proof -
  let ?v = "js_get payload ''sensorData''"
  note env = device_goodD(1)[OF good]
  have nn: "\<not> nullish ?v" using v(1) by (cases ?v) simp_all
  let ?t = "new_topic E d (device_base E d) DEVICE_BASE"
  let ?s1 = "s\<lparr>topics := snd (ensure ?t (topics s))\<rparr>"
  have base: "createDeviceBaseTopic E d s = (Inr (fst (ensure ?t (topics s))), ?s1)"
    by (rule createDeviceBaseTopic_run[OF device_env_okD(11)[OF env] device_goodD(6)[OF good] v(2)])
  have good1: "device_good E ?s1"
    using keepsD[OF keeps_device_createTopic(2)[OF v(2)] good] base by simp
  have name: "t_topic (fst (ensure ?t (topics s))) = device_base E (js_to_string (js_get ?v ''deviceId''))"
    by (simp add: v(1) new_topic_def)
  have find: "List.find (\<lambda>x. sn_deviceId x = JStr d) (sensors s) = None" using new by (simp add: find_None_all)
  from register_run[OF good1 _ _ _ name, of i] up new v obtain s2 where
    2: "register_device E ?v d (t_topic (fst (ensure ?t (topics s)))) ?s1 = (Inr (), s2)"
    "sensors s2 = sensors s @ [device_record ?v]" "ws_sent s2 = ws_sent s" "kv s2 = kv s" "live i s2"
    "topics s2 = snd (ensure_all (device_topics E d) (topics ?s1))"
    "subs_of i s2 = subs_of i s \<union> device_names E d"
    by (auto simp: live_def subs_of_def device_topics_names)
  have reg: "device_names E d \<subseteq> t_topic ` set (topics s2)"
    using ensure_all_registers[of "device_topics E d" "topics ?s1"] by (simp add: 2(6) device_topics_names)
  show ?thesis
    using 2 reg base find
    by (simp add: handleDiscovery_cases[OF good nn] Let_def v(1) after_registration_run[OF env] live_def subs_of_def)
qed

text \<open>The event a message on a discovery or heartbeat topic becomes.\<close>

lemma message_events_suffix:
  assumes "json_parse message = Some (JObj kvs)" "b \<in> set default_handlers" "endsWith tpc (topicSuffix b)"
  shows "message_events tpc message = [(event_name b, [JStr tpc, JObj kvs])]"
proof -
  have "List.find (\<lambda>b. endsWith tpc (topicSuffix b)) default_handlers = Some b"
  proof (rule find_unique[OF assms(2)])
    show "endsWith tpc (topicSuffix b)" by (rule assms(3))
  next
    fix y assume "y \<in> set default_handlers" "endsWith tpc (topicSuffix y)"
    then show "y = b" using canHandle_exclusive[of y b "Some tpc"] assms(2,3) by (simp add: canHandle_def)
  qed
  then have "route initializeMessageRouter (Some tpc) (JObj kvs) = Inr (event_name b)" by (simp add: route_suffix)
  with assms(1) show ?thesis by (simp add: message_events_def)
qed

lemma message_event_run:
  assumes good: "mqtt_good E s" and up: "live i s" and v: "json_parse message = Some (JObj kvs)"
    and b: "b \<in> set default_handlers" "endsWith tpc (topicSuffix b)"
  shows "snd (broker_message E i tpc message s) = snd (on_event E (event_name b) tpc (JObj kvs)
    (s\<lparr>emitted := emitted s @ [(event_name b, [JStr tpc, JObj kvs])]\<rparr>))"
proof -
  have c: "\<exists>c. ad_client (clients s ! i) = Some c \<and> cn_connected c" and i: "i < length (clients s)"
    using up by (auto simp: live_def adapter_isConnected_def split: option.splits)
  show ?thesis
    using c by (simp add: broker_message_run[OF good i] message_events_suffix[OF v b] suppress_run heard_def)
qed

lemma discovery_handler: "DiscoveryMessageHandler \<in> set default_handlers"
  "topicSuffix DiscoveryMessageHandler = ''/discovery''" "event_name DiscoveryMessageHandler = ''mqtt/message/discovery''"
  by (simp_all add: default_handlers_def DiscoveryMessageHandler_def)

lemma heartbeat_handler: "HeartbeatMessageHandler \<in> set default_handlers"
  "topicSuffix HeartbeatMessageHandler = ''/heartbeat''" "event_name HeartbeatMessageHandler = ''mqtt/message/heartbeat''"
  by (simp_all add: default_handlers_def HeartbeatMessageHandler_def)

lemma valid_ids:
  assumes "rules \<in> set response_dtos" "dto_valid now rules v"
  shows "truthy (js_get v ''requestId'')" "truthy (js_get v ''responseId'')" "\<exists>kvs. v = JObj kvs"
    "\<exists>r u. js_get v ''requestId'' = JStr r \<and> r \<noteq> [] \<and> js_get v ''userId'' = JStr u"
proof -
  obtain r q u where "js_get v ''requestId'' = JStr r" "r \<noteq> []" "js_get v ''responseId'' = JStr q" "q \<noteq> []"
    "js_get v ''userId'' = JStr u"
    using response_dto_strings[OF assms, of "''requestId''"] response_dto_strings[OF assms, of "''responseId''"]
      response_dto_strings[OF assms, of "''userId''"] by auto
  then show "truthy (js_get v ''requestId'')" "truthy (js_get v ''responseId'')"
    "\<exists>r u. js_get v ''requestId'' = JStr r \<and> r \<noteq> [] \<and> js_get v ''userId'' = JStr u" by simp_all
  show "\<exists>kvs. v = JObj kvs" using dto_valid_object[OF assms(2)] .
qed

text \<open>A valid response to a cached request reaches its handler.\<close>

lemma discovery_message_run:
  assumes good: "device_good E s" and up: "live i s" and tpc: "endsWith tpc ''/discovery''"
    and v: "json_parse message = Some v" "dto_valid (clock E (clock_reads s)) DiscoveryResponseDto v" "answers s v"
  shows "snd (broker_message E i tpc message s) = snd (handleDiscoveryResponse E v
    (s\<lparr>emitted := emitted s @ [(''mqtt/message/discovery'', [JStr tpc, v])], clock_reads := Suc (clock_reads s)\<rparr>))"
proof -
  have mem: "DiscoveryResponseDto \<in> set response_dtos" by (simp add: response_dtos_def)
  note ids = valid_ids[OF mem v(2)]
  obtain kvs where kvs: "v = JObj kvs" using ids(3) by blast
  let ?s1 = "s\<lparr>emitted := emitted s @ [(''mqtt/message/discovery'', [JStr tpc, v])]\<rparr>"
  have tv: "transformAndValidate E DiscoveryResponseDto v ?s1 = (Inr v, ?s1\<lparr>clock_reads := Suc (clock_reads s)\<rparr>)"
    using transformAndValidate_run[OF device_goodD(1)[OF good], of ?s1 DiscoveryResponseDto v] v(2,3) by (simp add: answers_def)
  show ?thesis
    using message_event_run[OF device_goodD(2)[OF good] up v(1)[unfolded kvs] discovery_handler(1)] tpc tv ids(2)
    by (simp add: discovery_handler on_event_def handleDiscoveryEvent_def kvs[symmetric])
qed

lemma heartbeat_message_run:
  assumes good: "device_good E s" and up: "live i s" and tpc: "endsWith tpc ''/heartbeat''"
    and v: "json_parse message = Some v" "dto_valid (clock E (clock_reads s)) HeartbeatDto v" "answers s v"
  shows "snd (broker_message E i tpc message s) = snd (handleDeviceHeartbeat E v
    (s\<lparr>emitted := emitted s @ [(''mqtt/message/heartbeat'', [JStr tpc, v])], clock_reads := Suc (clock_reads s)\<rparr>))"
proof -
  have mem: "HeartbeatDto \<in> set response_dtos" by (simp add: response_dtos_def)
  note ids = valid_ids[OF mem v(2)]
  obtain kvs where kvs: "v = JObj kvs" using ids(3) by blast
  let ?s1 = "s\<lparr>emitted := emitted s @ [(''mqtt/message/heartbeat'', [JStr tpc, v])]\<rparr>"
  have tv: "transformAndValidate E HeartbeatDto v ?s1 = (Inr v, ?s1\<lparr>clock_reads := Suc (clock_reads s)\<rparr>)"
    using transformAndValidate_run[OF device_goodD(1)[OF good], of ?s1 HeartbeatDto v] v(2,3) by (simp add: answers_def)
  show ?thesis
    using message_event_run[OF device_goodD(2)[OF good] up v(1)[unfolded kvs] heartbeat_handler(1)] tpc tv ids(2)
    by (simp add: heartbeat_handler on_event_def handleHeartbeatEvent_def kvs[symmetric])
qed

end
