(* ===== verification/DeviceLife.thy ===== *)
theory DeviceLife
  imports DeviceContract
begin

text \<open>
  The life of a device: the request that looks for devices and the response that registers one, its
  heartbeats, the assignment of a function, its deletion and its return.
\<close>

section \<open>The discovery request\<close>

lemma device_publish_run:
  assumes good: "mqtt_good E s" and up: "live i s"
  shows "\<exists>r a. mqtt_publish E t p opts s = (Inr r, s\<lparr>clients := (clients s)[i := a], clock_reads := Suc (clock_reads s)\<rparr>) \<and>
    live i (s\<lparr>clients := (clients s)[i := a], clock_reads := Suc (clock_reads s)\<rparr>) \<and>
    sent_of i (s\<lparr>clients := (clients s)[i := a], clock_reads := Suc (clock_reads s)\<rparr>) = sent_of i s @ [(t, payloadStr p)] \<and>
    subs_of i (s\<lparr>clients := (clients s)[i := a], clock_reads := Suc (clock_reads s)\<rparr>) = subs_of i s"
proof -
  from publish_run[OF good, of i t p opts] up obtain a q where
    1: "mqtt_publish E t p opts s = (Inr \<lparr>pr_success = True, pr_topic = t, pr_payload = payloadStr p,
      pr_description = ''Message published successfully'', pr_timestamp = clock E (clock_reads s)\<rparr>,
      s\<lparr>clients := (clients s)[i := a], clock_reads := Suc (clock_reads s)\<rparr>)"
    "adapter_sent a = adapter_sent (clients s ! i) @ [(t, payloadStr p, q)]" "adapter_isConnected a"
    "adapter_subs a = adapter_subs (clients s ! i)"
    unfolding live_def by blast
  then show ?thesis using live_clients[OF up]
    by (simp add: sent_of_def subs_of_def) (intro exI[of _ a] conjI, simp_all)
qed

definition discovery_name :: "topic_entity \<Rightarrow> string" where
  "discovery_name t = t_topic t @ ''/discovery''"

definition discovery_payload :: "jsval \<Rightarrow> string \<Rightarrow> int \<Rightarrow> jsval" where
  "discovery_payload userId r now = JObj [(''isBroadcast'', JBool True), (''userId'', userId),
     (''requestId'', JStr r), (''requestCode'', JStr ''REQUEST_DISCOVERY''), (''timestamp'', JNum (of_int now))]"

text \<open>The broadcast topic is known, and the name of the discovery topic is not taken by something else.\<close>

definition discovery_ready :: "topic_entity \<Rightarrow> 'z topic_state_scheme \<Rightarrow> bool" where
  "discovery_ready t s \<longleftrightarrow>
     List.find (\<lambda>t. t_useCase t = BROADCAST \<and> t_isSubscribed t \<and> t_deviceId t = ''Mqtt_Broker'') (topics s) = Some t \<and>
     (\<forall>x \<in> set (topics s). t_topic x = discovery_name t \<longrightarrow> t_useCase x = BROADCAST \<and> t_deviceId x = ''Mqtt_Broker'')"

lemma store_discovery_run:
  assumes env: "topic_env_ok E" and u: "unique_by t_topic (topics s)" and r: "discovery_ready t s"
  shows "\<exists>x ts. storeTopic E ''Mqtt_Broker'' (discovery_name t) BROADCAST s = (Inr x, s\<lparr>topics := ts\<rparr>) \<and>
    t_topic x = discovery_name t"
proof -
  note R = repo_ok_simps[OF topic_env_okD(1)[OF env]]
  obtain url where url: "config E ''MQTT_BROKER_URL'' = Some url" using topic_env_okD(3)[OF env] by blast
  let ?f = "\<lambda>x. t_topic x = discovery_name t \<and> t_useCase x = BROADCAST \<and> t_deviceId x = ''Mqtt_Broker''"
  show ?thesis
  proof (cases "List.find ?f (topics s)")
    case None
    with r have "discovery_name t \<notin> t_topic ` set (topics s)"
      by (auto simp: find_None_all discovery_ready_def)
    with None u url show ?thesis by (simp add: storeTopic_def act_simps R) (intro exI, rule HOL.refl)
  next
    case (Some x)
    then have "t_topic x = discovery_name t" by (auto dest: find_Some_in)
    with Some url show ?thesis by (simp add: storeTopic_def act_simps R) (intro exI[of _ "topics s"], simp)
  qed
qed

lemma discover_run:
  assumes good: "device_good E s" and up: "live i s" and ready: "discovery_ready t s"
  shows "\<exists>s'. discoverDevicesBroadcast E userId s = (Inr (), s') \<and> live i s' \<and> sensors s' = sensors s \<and>
    ws_sent s' = ws_sent s \<and> process_ended s' = process_ended s \<and> discovery_name t \<in> subs_of i s' \<and> subs_of i s \<subseteq> subs_of i s' \<and>
    sent_of i s' = sent_of i s @ [(discovery_name t,
      stringify (discovery_payload userId (uuid_src E (uuid_count s)) (clock E (clock_reads s))))] \<and>
    kv s' = (kv s)(pending_key (JStr (uuid_src E (uuid_count s))) \<mapsto>
      (stringify (pending_value (discovery_payload userId (uuid_src E (uuid_count s)) (clock E (clock_reads s)))),
       Some (1000 * redis_ttl E)))"
proof -
  note env = device_goodD(1)[OF good]
  let ?r = "uuid_src E (uuid_count s)"
  let ?p = "discovery_payload userId ?r (clock E (clock_reads s))"
  have req: "js_get ?p ''requestId'' = JStr ?r" by (simp add: discovery_payload_def)
  let ?s1 = "s\<lparr>uuid_count := Suc (uuid_count s), clock_reads := Suc (clock_reads s)\<rparr>"
  let ?s2 = "?s1\<lparr>kv := (kv s)(pending_key (JStr ?r) \<mapsto> (stringify (pending_value ?p), Some (1000 * redis_ttl E)))\<rparr>"
  have b: "getBroadcastTopic E s = (Inr t, s)"
    using ready repo_ok_simps(2)[OF topic_env_okD(1)[OF device_env_okD(11)[OF env]]]
    by (simp add: getBroadcastTopic_def act_simps discovery_ready_def)
  have r2: "discovery_ready t ?s2" and u2: "unique_by t_topic (topics ?s2)"
    using ready device_goodD(6)[OF good] by (simp_all add: discovery_ready_def topics_inv_def)
  from store_discovery_run[OF device_env_okD(11)[OF env] u2 r2] obtain x ts where
    3: "storeTopic E ''Mqtt_Broker'' (discovery_name t) BROADCAST ?s2 = (Inr x, ?s2\<lparr>topics := ts\<rparr>)"
    "t_topic x = discovery_name t" by blast
  let ?s3 = "?s2\<lparr>topics := ts\<rparr>"
  have "free_name E (discovery_name t) ''Mqtt_Broker'' BROADCAST"
    unfolding discovery_name_def by (rule discovery_name_free[OF env broadcast_returned[OF device_goodD(2)[OF good] b]])
  moreover have "mqtt_good E ?s2" using device_goodD(2)[OF good] by (subst mqtt_good_cong[of _ s]) simp_all
  ultimately have g3: "mqtt_good E ?s3"
    using keepsD[OF keeps_storeTopic, of E "discovery_name t" "''Mqtt_Broker''" BROADCAST ?s2] 3(1) by simp
  have up3: "live i ?s3" using up by (simp add: live_def)
  from device_publish_run[OF g3 up3, of "discovery_name t" "JStr (stringify ?p)" "\<lparr>po_qos = Some 0, po_retain = Some False\<rparr>"]
  obtain q a where 4: "mqtt_publish E (discovery_name t) (JStr (stringify ?p)) \<lparr>po_qos = Some 0, po_retain = Some False\<rparr> ?s3 =
      (Inr q, ?s3\<lparr>clients := (clients ?s3)[i := a], clock_reads := Suc (clock_reads ?s3)\<rparr>)"
    "live i (?s3\<lparr>clients := (clients ?s3)[i := a], clock_reads := Suc (clock_reads ?s3)\<rparr>)"
    "sent_of i (?s3\<lparr>clients := (clients ?s3)[i := a], clock_reads := Suc (clock_reads ?s3)\<rparr>) =
      sent_of i ?s3 @ [(discovery_name t, stringify ?p)]"
    "subs_of i (?s3\<lparr>clients := (clients ?s3)[i := a], clock_reads := Suc (clock_reads ?s3)\<rparr>) = subs_of i ?s3"
    by (auto simp: payloadStr_def)
  let ?s4 = "?s3\<lparr>clients := (clients ?s3)[i := a], clock_reads := Suc (clock_reads ?s3)\<rparr>"
  from subscribe_run[OF device_env_okD(10)[OF env] 4(2), of "OneTopic (discovery_name t)"] obtain q' a' where
    5: "mqtt_subscribe E (OneTopic (discovery_name t)) ?s4 =
      (Inr q', ?s4\<lparr>clients := (clients ?s4)[i := a'], clock_reads := Suc (clock_reads ?s4)\<rparr>)"
    "adapter_isConnected a'" "set (adapter_subs a') = subs_of i ?s4 \<union> {discovery_name t}"
    "adapter_sent a' = adapter_sent (clients ?s4 ! i)" by auto
  let ?s5 = "?s4\<lparr>clients := (clients ?s4)[i := a'], clock_reads := Suc (clock_reads ?s4)\<rparr>"
  have run: "discoverDevicesBroadcast E userId s = (Inr (), ?s5)"
    using b 3 4(1) 5(1)
    by (simp add: discoverDevicesBroadcast_def uuidv4_run date_now_run setCache_run[OF env] Let_def
        discovery_payload_def discovery_name_def)
  have live5: "live i ?s5" and subs5: "subs_of i ?s5 = set (adapter_subs a')"
    and sent5: "sent_of i ?s5 = map (\<lambda>(t, p, _). (t, p)) (adapter_sent a')"
    by (rule live_clients[OF 4(2)], rule 5(2), rule live_clients[OF 4(2)], rule live_clients[OF 4(2)])
  have base: "sent_of i ?s3 = sent_of i s" "subs_of i ?s3 = subs_of i s"
    by (simp_all add: sent_of_def subs_of_def)
  have sent: "sent_of i ?s5 = sent_of i s @ [(discovery_name t, stringify ?p)]"
    using 4(3) base(1) unfolding sent5 5(4) by (simp add: sent_of_def)
  have subs: "subs_of i ?s5 = insert (discovery_name t) (subs_of i s)"
    unfolding subs5 5(3) 4(4) base(2) by simp
  have rest: "sensors ?s5 = sensors s" "ws_sent ?s5 = ws_sent s" "process_ended ?s5 = process_ended s" "kv ?s5 = (kv s)(pending_key (JStr ?r) \<mapsto>
      (stringify (pending_value ?p), Some (1000 * redis_ttl E)))" by simp_all
  from run live5 sent subs rest show ?thesis by blast
qed

lemma cached_discovery:
  assumes "kv s = m(pending_key (JStr r) \<mapsto> (stringify (pending_value (discovery_payload (JStr u) r now)), x))"
    "js_get v ''requestId'' = JStr r" "js_get v ''userId'' = JStr u"
  shows "answers s v"
proof -
  have "pending_value (discovery_payload (JStr u) r now) = request_of ''REQUEST_DISCOVERY'' u r"
    by (simp add: pending_value_def discovery_payload_def request_of_def)
  with assms show ?thesis by (simp add: answers_def Let_def cached_pending strict_eq_def)
qed

section \<open>A concrete connected service\<close>

lemma boot:
  assumes env: "device_env_ok E"
    and s: "topics s = []" "clients s = []" "mqtt s = None" "sensors s = []" "\<not> process_ended s"
    and s1: "mqtt_onModuleInit E s = (r1, s1)" and s2: "raise_event E 0 Connected s1 = (r2, s2)"
  shows "device_reachable E s2" "live 0 s2" "topics s2 = [broadcast_topic E]" "device_part s2 = device_part s"
    "\<not> process_ended s2"
proof -
  let ?s = "s\<lparr>messageRouter := Some initializeMessageRouter\<rparr>"
  have good: "mqtt_good E ?s"
    using s device_env_okD(1,11)[OF env]
    by (simp add: mqtt_good_def topics_good_def clients_inv_def topics_inv_def unique_by_def)
  have init: "initConnection E None None ?s = (r1, s1)" using s1 by (simp add: mqtt_onModuleInit_def act_simps)
  have up: "raise_event E (length (clients ?s)) Connected s1 = (r2, s2)" using s2 s(2) by simp
  from open_connect[OF good init up] have out: "connect_outcome E ?s s2" by simp
  have c1: "length (clients s1) = 1" and runs: "\<not> process_ended s1"
    using connect_run[OF device_env_okD(1)[OF env], of None ?s] init s(2,5) by (auto simp: opened_def)
  have "device_reachable E s1" using device_reachable.start[OF s, of E] s1 by simp
  moreover have "device_step E s1 s2" using device_step.client_event[of 0 s1 E Connected] c1 s2 by simp
  ultimately show "device_reachable E s2" using runs by (blast intro: device_reachable.step)
  have g2: "mqtt_good E s2"
    using raise_event_good[of E s1 0 Connected] keepsD[OF keeps_initConnection good, of None None] init c1 s2 by simp
  then show "live 0 s2" using out s(2) mqtt_goodD(4)[OF g2, of 0]
    by (auto simp: connect_outcome_def live_def adapter_isConnected_def)
  show "topics s2 = [broadcast_topic E]" using out s(1) by (simp add: connect_outcome_def ensure_def)
  then show "\<not> process_ended s2" using out s(5) by (auto simp: connect_outcome_def)
  show "device_part s2 = device_part s"
    using device_part_same[OF keeps_part_raise_event, of E 0 Connected s1] device_part_same[OF keeps_part_requests(3), of E s]
      s1 s2 by simp
qed

definition demo_device_state :: "unit device_state_scheme" where
  "demo_device_state = mqtt_state.extend demo_mqtt_state (device_state.fields [] [] [] [])"

definition demo_device_up :: "unit device_state_scheme" where
  "demo_device_up = snd (raise_event demo_device_env 0 Connected (snd (mqtt_onModuleInit demo_device_env demo_device_state)))"

lemma demo_device_up:
  "device_reachable demo_device_env demo_device_up" "live 0 demo_device_up"
  "topics demo_device_up = [broadcast_topic demo_device_env]" "sensors demo_device_up = []"
  "ws_sent demo_device_up = []" "telemetries demo_device_up = []" "discovery_ready (broadcast_topic demo_device_env) demo_device_up"
  "\<not> process_ended demo_device_up"
proof -
  obtain r1 s1 where 1: "mqtt_onModuleInit demo_device_env demo_device_state = (r1, s1)" by fastforce
  obtain r2 s2 where 2: "raise_event demo_device_env 0 Connected s1 = (r2, s2)" by fastforce
  have up: "demo_device_up = s2" using 1 2 by (simp add: demo_device_up_def)
  have s: "topics demo_device_state = []" "clients demo_device_state = []" "mqtt demo_device_state = None"
    "sensors demo_device_state = []" "\<not> process_ended demo_device_state" "device_part demo_device_state = ([], [], [], [])"
    by (simp_all add: demo_device_state_def device_part_def mqtt_state.extend_def demo_mqtt_state_def
        demo_topic_state_def topic_state.extend_def mqtt_state.fields_def device_state.fields_def)
  note b = boot[OF demo_device_env_ok s(1-5) 1 2]
  then show "device_reachable demo_device_env demo_device_up" "live 0 demo_device_up"
    "topics demo_device_up = [broadcast_topic demo_device_env]" "\<not> process_ended demo_device_up" by (simp_all add: up)
  show "sensors demo_device_up = []" "ws_sent demo_device_up = []" "telemetries demo_device_up = []"
    using b(4) s(6) by (simp_all add: up device_part_def)
  show "discovery_ready (broadcast_topic demo_device_env) demo_device_up"
    using b(3) by (simp add: up discovery_ready_def broadcast_topic_def new_topic_def discovery_name_def)
qed

text \<open>A search and an answer to it from a new device.\<close>

lemma discovery_round:
  assumes env: "device_env_ok E" and good: "device_good E s" and up: "live i s" and ready: "discovery_ready t s"
    and s1: "discoverDevicesBroadcast E (JStr user) s = (res, s1)"
    and v: "endsWith tpc ''/discovery''" "json_parse message = Some v"
      "dto_valid (clock E (clock_reads s1)) DiscoveryResponseDto v"
      "js_get v ''requestId'' = JStr (uuid_src E (uuid_count s))" "js_get v ''userId'' = JStr user"
    and d: "js_get (js_get v ''sensorData'') ''deviceId'' = JStr d" "CHR ''/'' \<notin> set d"
      "\<forall>x \<in> set (sensors s). sn_deviceId x \<noteq> JStr d"
    and s2: "snd (broker_message E i tpc message s1) = s2"
  shows "res = Inr ()" "live i s1" "discovery_name t \<in> subs_of i s1"
    "map fst (sent_of i s1) = map fst (sent_of i s) @ [discovery_name t]"
    "sensors s2 = sensors s @ [device_record (js_get v ''sensorData'')]"
    "device_names E d \<subseteq> t_topic ` set (topics s2)" "device_names E d \<subseteq> subs_of i s2"
    "ws_sent s2 = ws_sent s @ [(''ws/message/discovery/broadcast/response'', v)]"
    "truthy (js_get v ''isBroadcast'') \<Longrightarrow> kv s2 = kv s1" "\<not> truthy (js_get v ''isBroadcast'') \<Longrightarrow> \<not> answers s2 v"
    "live i s2" "answers s1 v"
proof -
  have good1: "device_good E s1" using keepsD[OF keeps_discoverBroadcast good, of "JStr user"] s1 by simp
  from discover_run[OF good up ready, of "JStr user"] s1
  show res: "res = Inr ()" "live i s1" "discovery_name t \<in> subs_of i s1"
    "map fst (sent_of i s1) = map fst (sent_of i s) @ [discovery_name t]" by auto
  from discover_run[OF good up ready, of "JStr user"] s1
  have same: "sensors s1 = sensors s" "ws_sent s1 = ws_sent s" and
    kv: "kv s1 = (kv s)(pending_key (JStr (uuid_src E (uuid_count s))) \<mapsto>
      (stringify (pending_value (discovery_payload (JStr user) (uuid_src E (uuid_count s)) (clock E (clock_reads s)))),
       Some (1000 * redis_ttl E)))" by auto
  show ans: "answers s1 v" using cached_discovery[OF kv v(4,5)] .
  let ?s = "s1\<lparr>emitted := emitted s1 @ [(''mqtt/message/discovery'', [JStr tpc, v])], clock_reads := Suc (clock_reads s1)\<rparr>"
  have goods: "device_good E ?s"
    using good1 by (simp add: device_good_def mqtt_good_def topics_good_def clients_inv_def)
  have ups: "live i ?s" using res(2) by (simp add: live_def)
  have new: "\<forall>x \<in> set (sensors ?s). sn_deviceId x \<noteq> JStr d" using d(3) same(1) by simp
  from discovery_run[OF goods ups d(1,2) new] discovery_message_run[OF good1 res(2) v(1,2,3) ans] s2
  have 2: "sensors s2 = sensors s @ [device_record (js_get v ''sensorData'')]"
    "ws_sent s2 = ws_sent s @ [(''ws/message/discovery/broadcast/response'', v)]"
    "device_names E d \<subseteq> t_topic ` set (topics s2)" "subs_of i s2 = subs_of i ?s \<union> device_names E d"
    "kv s2 = (if truthy (js_get v ''isBroadcast'') \<or> \<not> truthy (js_get v ''requestId'') then kv s1
      else (kv s1)(pending_key (js_get v ''requestId'') := None))" "live i s2"
    using same by auto
  then show "sensors s2 = sensors s @ [device_record (js_get v ''sensorData'')]"
    "device_names E d \<subseteq> t_topic ` set (topics s2)" "device_names E d \<subseteq> subs_of i s2"
    "ws_sent s2 = ws_sent s @ [(''ws/message/discovery/broadcast/response'', v)]" "live i s2"
    "truthy (js_get v ''isBroadcast'') \<Longrightarrow> kv s2 = kv s1" by auto
  have "truthy (js_get v ''requestId'')" using valid_ids(1)[of DiscoveryResponseDto] v(3) by (simp add: response_dtos_def)
  with 2(5) show "\<not> truthy (js_get v ''isBroadcast'') \<Longrightarrow> \<not> answers s2 v" by (simp add: answers_def)
qed

text \<open>The concrete search and answer.\<close>

definition demo_answer :: "string \<Rightarrow> jsval" where
  "demo_answer r = JObj [(''userId'', JStr ''u1''), (''responseId'', JStr ''a1''), (''responseCode'', JStr ''200''),
     (''requestId'', JStr r), (''timestamp'', JNum 5), (''isBroadcast'', JBool True),
     (''sensorData'', JObj [(''deviceId'', JStr ''d1''), (''capabilities'', JArr [JStr ''temperature''])]),
     (''uptime'', JNum 0)]"

definition demo_searched :: "unit device_state_scheme" where
  "demo_searched = snd (discoverDevicesBroadcast demo_device_env (JStr ''u1'') demo_device_up)"

abbreviation demo_request :: string where
  "demo_request \<equiv> uuid_src demo_device_env (uuid_count demo_device_up)"

definition demo_registered :: "unit device_state_scheme" where
  "demo_registered = snd (broker_message demo_device_env 0 ''iot/Mqtt_Broker/broadcast/discovery''
     (stringify (demo_answer demo_request)) demo_searched)"

lemma demo_answer_facts:
  "json_parse (stringify (demo_answer r)) = Some (demo_answer r)"
  "r \<noteq> [] \<Longrightarrow> 0 \<le> now \<Longrightarrow> dto_valid now DiscoveryResponseDto (demo_answer r)"
  "js_get (demo_answer r) ''requestId'' = JStr r" "js_get (demo_answer r) ''userId'' = JStr ''u1''"
  "js_get (js_get (demo_answer r) ''sensorData'') ''deviceId'' = JStr ''d1''"
  "js_get (demo_answer r) ''isBroadcast'' = JBool True"
proof -
  have "json_ok (demo_answer r)" by (simp add: demo_answer_def)
  from json_roundtrip[OF this] show "json_parse (stringify (demo_answer r)) = Some (demo_answer r)"
    by (simp add: demo_answer_def)
qed (simp_all add: demo_answer_def dto_valid_def DiscoveryResponseDto_def UserIdProperty_def ResponseIdProperty_def
    ResponseCodeProperty_def RequestIdProperty_def TimeStampProperty_def IsValidTimestampMillis_def IsValidEpochMillis_def)

end
