(* ===== verification/DeviceProperties.thy ===== *)
theory DeviceProperties
  imports DeviceLife
begin

text \<open>The properties of the device side of the program, with their witnesses on a concrete service.\<close>

section \<open>A concrete registered device\<close>

lemma demo_searched:
  "discoverDevicesBroadcast demo_device_env (JStr ''u1'') demo_device_up = (Inr (), demo_searched)"
  "device_reachable demo_device_env demo_searched" "live 0 demo_searched" "sensors demo_searched = []"
  "\<not> process_ended demo_searched"
proof -
  have good: "device_good demo_device_env demo_device_up"
    using device_reachable_good[OF demo_device_up(1)] by simp
  from discover_run[OF good demo_device_up(2,7), of "JStr ''u1''"] obtain s1 where
    "discoverDevicesBroadcast demo_device_env (JStr ''u1'') demo_device_up = (Inr (), s1)" "live 0 s1"
    "sensors s1 = sensors demo_device_up" "process_ended s1 = process_ended demo_device_up" by blast
  then show "discoverDevicesBroadcast demo_device_env (JStr ''u1'') demo_device_up = (Inr (), demo_searched)"
    "live 0 demo_searched" "sensors demo_searched = []" "\<not> process_ended demo_searched"
    using demo_device_up(4,8) by (simp_all add: demo_searched_def)
  show "device_reachable demo_device_env demo_searched"
    unfolding demo_searched_def by (rule device_reachable.step[OF demo_device_up(1,8) device_step.discover_all])
qed

lemma demo_request_simps: "demo_request \<noteq> []" "CHR ''/'' \<notin> set ''d1''" "endsWith ''iot/Mqtt_Broker/broadcast/discovery'' ''/discovery''"
  by (simp_all add: endsWith_def)

lemma demo_answer_valid:
  "dto_valid (clock demo_device_env (clock_reads s)) DiscoveryResponseDto (demo_answer demo_request)"
  by (rule demo_answer_facts(2)) simp_all

lemma demo_registered:
  "sensors demo_registered = [device_record (js_get (demo_answer demo_request) ''sensorData'')]"
  "live 0 demo_registered" "device_reachable demo_device_env demo_registered"
  "kv demo_registered = kv demo_searched" "answers demo_searched (demo_answer demo_request)"
  "device_names demo_device_env ''d1'' \<subseteq> t_topic ` set (topics demo_registered)"
proof -
  have good: "device_good demo_device_env demo_device_up"
    using device_reachable_good[OF demo_device_up(1)] by simp
  have new: "\<forall>x \<in> set (sensors demo_device_up). sn_deviceId x \<noteq> JStr ''d1''" using demo_device_up(4) by simp
  note r = discovery_round[OF demo_device_env_ok good demo_device_up(2,7) demo_searched(1) demo_request_simps(3)
      demo_answer_facts(1) demo_answer_valid demo_answer_facts(3,4,5) demo_request_simps(2) new demo_registered_def[symmetric]]
  show "sensors demo_registered = [device_record (js_get (demo_answer demo_request) ''sensorData'')]"
    "live 0 demo_registered" "kv demo_registered = kv demo_searched" "answers demo_searched (demo_answer demo_request)"
    "device_names demo_device_env ''d1'' \<subseteq> t_topic ` set (topics demo_registered)"
    using r(5,6,9,11,12) demo_device_up(4) demo_answer_facts(6) by simp_all
  show "device_reachable demo_device_env demo_registered"
    unfolding demo_registered_def
    using demo_searched(3) by (intro device_reachable.step[OF demo_searched(2,5) device_step.message])
      (simp_all add: live_def message_id_ok_def demo_answer_facts response_id_ok_def)
qed

section \<open>Properties of messages\<close>

text \<open>
  C12. In every reachable state, a message from a broker that does not answer a cached request, by the
  ids of the request and the user, changes nothing stored: not the devices, their telemetry and
  hardware records, not the registry of topics, the cache or the clients, and no socket hears of it.
\<close>

theorem responses_need_request:
  assumes "device_env_ok E" "device_reachable E s" "i < length (clients s)"
    "json_parse message = Some v" "\<not> answers s v"
  shows "untouched s (snd (broker_message E i tpc message s))"
proof -
  have good: "device_good E s" using device_reachable_good[OF assms(2,1)] .
  show ?thesis by (rule unanswered_message[OF assms(1) device_goodD(2)[OF good] assms(3,4,5)])
qed

theorem responses_need_request_witness:
  "\<exists>v. js_get v ''requestId'' = JStr demo_request \<and> js_get v ''userId'' = JStr ''u2'' \<and>
     untouched demo_searched (snd (broker_message demo_device_env 0 ''iot/Mqtt_Broker/broadcast/discovery''
       (stringify v) demo_searched))"
proof -
  let ?v = "js_set (demo_answer demo_request) ''userId'' (JStr ''u2'')"
  have ids: "js_get ?v ''requestId'' = JStr demo_request" "js_get ?v ''userId'' = JStr ''u2''"
    by (simp_all add: demo_answer_def)
  have "json_ok ?v" by (simp add: demo_answer_def)
  from json_roundtrip[OF this] have p: "json_parse (stringify ?v) = Some ?v" by (simp add: demo_answer_def)
  have "\<not> answers demo_searched ?v"
    using demo_registered(5) unfolding answers_def Let_def ids demo_answer_facts by (simp add: strict_eq_def)
  from responses_need_request[OF demo_device_env_ok demo_searched(2) _ p this, of 0] demo_searched(3) ids
  show ?thesis by (intro exI[of _ ?v]) (simp add: live_def)
qed

text \<open>
  C13. In every reachable state, whatever a device sends on a topic that does not end in
  \<open>/discovery\<close> or \<open>/heartbeat\<close> changes nothing stored: the DTO of a response admits only text as its
  code, and the handlers of assignments, upgrades, reboots, telemetry and hardware metrics compare it
  strictly with a number. So no such response is ever recorded.
\<close>

theorem coded_responses_ignored:
  assumes "device_env_ok E" "device_reachable E s" "i < length (clients s)"
    "\<not> endsWith tpc ''/discovery''" "\<not> endsWith tpc ''/heartbeat''"
  shows "untouched s (snd (broker_message E i tpc message s))"
proof -
  have good: "device_good E s" using device_reachable_good[OF assms(2,1)] .
  show ?thesis
  proof (rule untouched_message[OF device_goodD(2)[OF good] assms(3)])
    fix n w and t :: "'b device_state_scheme"
    assume "message_events tpc message = [(n, [JStr tpc, w])]"
    from message_event_name[OF this assms(4,5)] coded_event[OF assms(1), of n t tpc w]
    show "untouched t (snd (on_event E n tpc w t))" by blast
  qed
qed

theorem coded_responses_ignored_witness:
  "untouched demo_registered (snd (broker_message demo_device_env 0 ''iot/d1/telemetry'' ''{}'' demo_registered))"
  using coded_responses_ignored[OF demo_device_env_ok demo_registered(3), of 0 "''iot/d1/telemetry''" "''{}''"] demo_registered(2)
  by (simp add: live_def endsWith_def)

text \<open>
  C11. A search for devices and the answer to it, end to end. In a reachable state with an open
  connection the search publishes one message on the discovery topic and subscribes to it; a valid
  answer that carries its request and user id, from a device that is not stored, registers the device
  with what it said of itself as \<open>discovered\<close>, registers and subscribes the topics of all its use
  cases, and passes the answer to the sockets. An answer to a search for one device uses the request
  up, an answer to a broadcast leaves it pending for the other devices.
\<close>

theorem discovery_round_trip:
  assumes "device_env_ok E" "device_reachable E s" "live i s" "discovery_ready t s"
    "discoverDevicesBroadcast E (JStr user) s = (res, s1)"
    "endsWith tpc ''/discovery''" "json_parse message = Some v"
    "dto_valid (clock E (clock_reads s1)) DiscoveryResponseDto v"
    "js_get v ''requestId'' = JStr (uuid_src E (uuid_count s))" "js_get v ''userId'' = JStr user"
    "js_get (js_get v ''sensorData'') ''deviceId'' = JStr d" "CHR ''/'' \<notin> set d"
    "list_all (\<lambda>x. sn_deviceId x \<noteq> JStr d) (sensors s)"
    "snd (broker_message E i tpc message s1) = s2"
  shows "res = Inr () \<and> discovery_name t \<in> subs_of i s1 \<and>
    map fst (sent_of i s1) = map fst (sent_of i s) @ [discovery_name t] \<and>
    sensors s2 = sensors s @ [device_record (js_get v ''sensorData'')] \<and>
    device_names E d \<subseteq> t_topic ` set (topics s2) \<and> device_names E d \<subseteq> subs_of i s2 \<and>
    ws_sent s2 = ws_sent s @ [(''ws/message/discovery/broadcast/response'', v)] \<and>
    (if truthy (js_get v ''isBroadcast'') then kv s2 = kv s1 else \<not> answers s2 v)"
proof -
  have new: "\<forall>x \<in> set (sensors s). sn_deviceId x \<noteq> JStr d" using assms(13) by (simp add: list_all_iff)
  from discovery_round[OF assms(1) device_reachable_good[OF assms(2,1)] assms(3-12) new assms(14)]
  show ?thesis by simp
qed

theorem discovery_round_trip_witness:
  "sensors demo_registered = [device_record (js_get (demo_answer demo_request) ''sensorData'')] \<and>
   ws_sent demo_registered = [(''ws/message/discovery/broadcast/response'', demo_answer demo_request)]"
  using discovery_round_trip[OF demo_device_env_ok demo_device_up(1,2,7) demo_searched(1) demo_request_simps(3)
      demo_answer_facts(1) demo_answer_valid demo_answer_facts(3,4,5) demo_request_simps(2) _ demo_registered_def[symmetric]]
    demo_device_up(4,5) by simp

section \<open>Heartbeats\<close>

text \<open>A response that was handled is no answer any more, as the interface of the cache says.\<close>

lemma used_up:
  assumes "device_env_ok E" "js_get v ''requestId'' = JStr r" "r \<noteq> []" "js_get v ''userId'' = JStr u"
  shows "\<not> answers (snd (deleteCache E v s)) v"
proof -
  have "answers t v = answers t (request_of ''REQUEST_HEARTBEAT'' u r)" for t :: "'b device_state_scheme"
    using assms(2,4) by (simp add: answers_def)
  moreover have "deleteCache E v s = deleteCache E (request_of ''REQUEST_HEARTBEAT'' u r) s"
    using assms(2) by (simp add: deleteCache_def)
  ultimately show ?thesis using assms(3) by (simp add: rq.pending_forget[OF assms(1)])
qed

lemma heartbeat_run:
  assumes env: "device_env_ok E" and code: "loose_eq_number (js_get v ''responseCode'') 210"
    and d: "d \<in> set (sensors s)" "sn_deviceId d = js_get v ''deviceId''"
  shows "handleDeviceHeartbeat E v s = deleteCache E v (s\<lparr>sensors := update_where (\<lambda>d. sn_deviceId d = js_get v ''deviceId'')
    (\<lambda>d. d\<lparr>sn_connectionState := js_get v ''connectionState''\<rparr>) (sensors s)\<rparr>)"
proof -
  from d obtain y where "List.find (\<lambda>d. sn_deviceId d = js_get v ''deviceId'') (sensors s) = Some y"
    by (cases "List.find (\<lambda>d. sn_deviceId d = js_get v ''deviceId'') (sensors s)") (auto simp: find_None_all)
  with code show ?thesis
    by (simp add: handleDeviceHeartbeat_def Let_def act_simps sensor_repo_simps[OF env] update_device_run[OF env])
qed

lemma heartbeat_ignored:
  assumes env: "device_env_ok E"
    and no: "\<not> loose_eq_number (js_get v ''responseCode'') 210 \<or> (\<forall>d \<in> set (sensors s). sn_deviceId d \<noteq> js_get v ''deviceId'')"
  shows "snd (handleDeviceHeartbeat E v s) = s"
proof (cases "loose_eq_number (js_get v ''responseCode'') 210")
  case True
  with no have "List.find (\<lambda>d. sn_deviceId d = js_get v ''deviceId'') (sensors s) = None" by (simp add: find_None_all)
  with True show ?thesis by (simp add: handleDeviceHeartbeat_def Let_def act_simps sensor_repo_simps[OF env])
qed (simp add: handleDeviceHeartbeat_def Let_def)

text \<open>
  C16. A valid heartbeat that answers a cached request, in a reachable state with an open connection:
  with a code that is loosely the number 210 (the text ``210'' is) and from a stored device it sets the
  connection state of that device and of no other, and uses the request up, so that the same message
  again changes nothing; with another code or from an unknown device it changes nothing.
\<close>

theorem heartbeat_sets_state:
  assumes "device_env_ok E" "device_reachable E s" "live i s" "endsWith tpc ''/heartbeat''"
    "json_parse message = Some v" "dto_valid (clock E (clock_reads s)) HeartbeatDto v" "answers s v"
    "snd (broker_message E i tpc message s) = s'"
  shows "if loose_eq_number (js_get v ''responseCode'') 210 \<and> js_get v ''deviceId'' \<in> sn_deviceId ` set (sensors s)
    then sensors s' = map (\<lambda>d. if sn_deviceId d = js_get v ''deviceId''
        then d\<lparr>sn_connectionState := js_get v ''connectionState''\<rparr> else d) (sensors s) \<and>
      \<not> answers s' v \<and> untouched s' (snd (broker_message E i tpc message s'))
    else untouched s s'"
proof -
  have good: "device_good E s" using device_reachable_good[OF assms(2,1)] .
  let ?s = "s\<lparr>emitted := emitted s @ [(''mqtt/message/heartbeat'', [JStr tpc, v])], clock_reads := Suc (clock_reads s)\<rparr>"
  have goods: "device_good E ?s" using good by (simp add: device_good_def mqtt_good_def topics_good_def clients_inv_def)
  have run: "s' = snd (handleDeviceHeartbeat E v ?s)" using heartbeat_message_run[OF good assms(3-7)] assms(8) by (simp only:)
  have good': "device_good E s'" using keepsD[OF keeps_handlers(3)[of E v], OF goods] by (simp only: run)
  have "HeartbeatDto \<in> set response_dtos" by (simp add: response_dtos_def)
  from valid_ids(4)[OF this assms(6)] obtain r u where
    ids: "js_get v ''requestId'' = JStr r" "r \<noteq> []" "js_get v ''userId'' = JStr u" by blast
  show ?thesis
  proof (cases "loose_eq_number (js_get v ''responseCode'') 210 \<and> js_get v ''deviceId'' \<in> sn_deviceId ` set (sensors s)")
    case True
    from conjunct2[OF this] obtain d where "js_get v ''deviceId'' = sn_deviceId d" "d \<in> set (sensors s)" by (rule imageE)
    then have d: "d \<in> set (sensors ?s)" "sn_deviceId d = js_get v ''deviceId''" by simp_all
    note hb = heartbeat_run[OF assms(1) conjunct1[OF True] d]
    have na: "\<not> answers s' v" unfolding run hb by (rule used_up[OF assms(1) ids(1,2,3)])
    have ss: "sensors s' = map (\<lambda>d. if sn_deviceId d = js_get v ''deviceId''
        then d\<lparr>sn_connectionState := js_get v ''connectionState''\<rparr> else d) (sensors s)"
      unfolding run hb by (simp add: deleteCache_run[OF assms(1)] update_where_def)
    have clients: "clients s' = clients s"
      unfolding run hb by (simp add: deleteCache_run[OF assms(1)])
    with assms(3) have i: "i < length (clients s')" by (simp add: live_def)
    from unanswered_message[OF assms(1) device_goodD(2)[OF good'] i assms(5) na]
    have "untouched s' (snd (broker_message E i tpc message s'))" .
    with True na ss show ?thesis by simp
  next
    case False
    have s': "s' = ?s" unfolding run using False by (intro heartbeat_ignored[OF assms(1)]) (auto simp: image_iff)
    have "untouched s s'" unfolding s' by (simp add: untouched_def device_part_def)
    then show ?thesis unfolding if_not_P[OF False] .
  qed
qed

definition demo_heartbeat :: "string \<Rightarrow> jsval" where
  "demo_heartbeat r = JObj [(''userId'', JStr ''u1''), (''responseId'', JStr ''b1''), (''responseCode'', JStr ''210''),
     (''requestId'', JStr r), (''deviceId'', JStr ''d1''), (''timestamp'', JNum 5),
     (''connectionState'', JStr ''online''), (''uptime'', JNum 0), (''wifiRssi'', JNum (-40))]"

lemma demo_heartbeat_facts:
  "json_parse (stringify (demo_heartbeat r)) = Some (demo_heartbeat r)"
  "r \<noteq> [] \<Longrightarrow> 0 \<le> now \<Longrightarrow> dto_valid now HeartbeatDto (demo_heartbeat r)"
  "js_get (demo_heartbeat r) ''requestId'' = JStr r" "js_get (demo_heartbeat r) ''userId'' = JStr ''u1''"
  "js_get (demo_heartbeat r) ''deviceId'' = JStr ''d1''" "js_get (demo_heartbeat r) ''connectionState'' = JStr ''online''"
  "loose_eq_number (js_get (demo_heartbeat r) ''responseCode'') 210"
proof -
  have "json_ok (demo_heartbeat r)" by (simp add: demo_heartbeat_def)
  from json_roundtrip[OF this] show "json_parse (stringify (demo_heartbeat r)) = Some (demo_heartbeat r)"
    by (simp add: demo_heartbeat_def)
  have "js_to_number ''210'' = Some 210" by code_simp
  then show "loose_eq_number (js_get (demo_heartbeat r) ''responseCode'') 210" by (simp add: demo_heartbeat_def)
qed (simp_all add: demo_heartbeat_def dto_valid_def HeartbeatDto_def UserIdProperty_def ResponseIdProperty_def
    ResponseCodeProperty_def RequestIdProperty_def TimeStampProperty_def DeviceIdProperty_def RequiredNumber_def
    IsValidTimestampMillis_def IsValidEpochMillis_def)

lemma demo_heartbeat_answers: "answers demo_registered (demo_heartbeat demo_request)"
  using demo_registered(5) unfolding answers_def Let_def demo_heartbeat_facts demo_answer_facts demo_registered(4) .

theorem heartbeat_sets_state_witness:
  "map sn_connectionState (sensors (snd (broker_message demo_device_env 0 ''iot/d1/heartbeat''
     (stringify (demo_heartbeat demo_request)) demo_registered))) = [JStr ''online'']"
proof -
  have tpc: "endsWith ''iot/d1/heartbeat'' ''/heartbeat''" by (simp add: endsWith_def)
  have valid: "dto_valid (clock demo_device_env (clock_reads demo_registered)) HeartbeatDto (demo_heartbeat demo_request)"
    by (rule demo_heartbeat_facts(2)) simp_all
  have id: "sn_deviceId (device_record (js_get (demo_answer r) ''sensorData'')) = JStr ''d1''" for r
    by (simp add: device_record_def demo_answer_facts)
  have c: "loose_eq_number (js_get (demo_heartbeat demo_request) ''responseCode'') 210 \<and>
      js_get (demo_heartbeat demo_request) ''deviceId'' \<in> sn_deviceId ` set (sensors demo_registered)"
    by (simp add: demo_registered(1) demo_heartbeat_facts id)
  from heartbeat_sets_state[OF demo_device_env_ok demo_registered(3,2) tpc demo_heartbeat_facts(1) valid
      demo_heartbeat_answers HOL.refl, unfolded if_P[OF c]] show ?thesis
    by (simp add: demo_registered(1) demo_heartbeat_facts id)
qed

section \<open>Assigning a function\<close>

lemma publish_frame:
  "kv (snd (mqtt_publish E t p opts s)) = kv s" "topics (snd (mqtt_publish E t p opts s)) = topics s"
  by (simp_all add: mqtt_publish_def act_simps on_mqtt_def split: option.split prod.split sum.split)

text \<open>A publication nobody awaits: it goes out, or there is no connection and the process ends.\<close>

definition can_publish :: "'z mqtt_state_scheme \<Rightarrow> bool" where
  "can_publish s \<longleftrightarrow> isConnectedState s \<and> (\<exists>i. mqtt s = Some i \<and> adapter_isConnected (clients s ! i))"

lemma fire_publish:
  assumes good: "mqtt_good E s"
  shows "fst (fire (mqtt_publish E t p opts) s) = Inr ()"
    "kv (snd (fire (mqtt_publish E t p opts) s)) = kv s" "topics (snd (fire (mqtt_publish E t p opts) s)) = topics s"
    "process_ended (snd (fire (mqtt_publish E t p opts) s)) \<longleftrightarrow> process_ended s \<or> \<not> can_publish s"
proof -
  show "fst (fire (mqtt_publish E t p opts) s) = Inr ()"
    "kv (snd (fire (mqtt_publish E t p opts) s)) = kv s" "topics (snd (fire (mqtt_publish E t p opts) s)) = topics s"
    by (simp_all add: fire_run publish_frame)
  show "process_ended (snd (fire (mqtt_publish E t p opts) s)) \<longleftrightarrow> process_ended s \<or> \<not> can_publish s"
  proof (cases "can_publish s")
    case True
    then obtain i where "mqtt s = Some i" "isConnectedState s" "adapter_isConnected (clients s ! i)"
      by (auto simp: can_publish_def)
    from publish_run[OF good this, of t p opts] True show ?thesis by auto
  next
    case False
    from publish_refused[OF this[unfolded can_publish_def], of E t p opts] False show ?thesis by auto
  qed
qed

lemma filter_res_includes:
  "filter_res (\<lambda>x. map_sum id Not (js_includes (JArr cs) x)) fs = Inr (filter (\<lambda>x. \<not> (js_primitive x \<and> x \<in> set cs)) fs)"
  by (induction fs) (simp_all add: js_includes_def)

lemma validateSensorTypes_run:
  assumes "device_env_ok E"
  shows "validateSensorTypes E d (JArr fs) s =
    (case List.find (\<lambda>x. sn_deviceId x = d \<and> \<not> sn_isDeleted x) (sensors s) of
       None \<Rightarrow> (Inl (NotFoundException ''Device not found''), s)
     | Some x \<Rightarrow> (case sn_capabilities x of
         JArr cs \<Rightarrow> if list_all (\<lambda>f. js_primitive f \<and> f \<in> set cs) fs then (Inr (), s)
           else (Inl (UnauthorizedException (js_to_string d @ '' functionality validation failed'')), s)
       | _ \<Rightarrow> validateSensorTypes E d (JArr fs) s))"
proof (cases "List.find (\<lambda>x. sn_deviceId x = d \<and> \<not> sn_isDeleted x) (sensors s)")
  case (Some x)
  have ne: "0 < length (filter (\<lambda>x. \<not> (js_primitive x \<and> x \<in> set cs)) fs) \<longleftrightarrow>
      \<not> list_all (\<lambda>f. js_primitive f \<and> f \<in> set cs) fs" for cs
    by (auto simp: filter_empty_conv list_all_iff)
  show ?thesis
  proof (cases "sn_capabilities x")
    case (JArr cs)
    show ?thesis
      unfolding validateSensorTypes_def bnd_run find_live_run[OF assms] lift_res_run Some
      using ne[of cs] by (simp add: JArr js_elements_def filter_res_includes bnd_run lift_res_run)
  qed (simp_all add: Some)
qed (simp add: validateSensorTypes_def bnd_run find_live_run[OF assms])

definition assign_payload :: "jsval \<Rightarrow> string \<Rightarrow> string \<Rightarrow> jsval" where
  "assign_payload dto u r = js_set (js_set (js_set dto ''userId'' (JStr u)) ''requestCode''
     (JStr ''REQUEST_ASSIGN_DEVICE_FUNCTION'')) ''requestId'' (JStr r)"

lemma assign_pending: "dto = JObj kvs \<Longrightarrow> pending_value (assign_payload dto u r) =
    request_of ''REQUEST_ASSIGN_DEVICE_FUNCTION'' u r \<and> js_get (assign_payload dto u r) ''requestId'' = JStr r"
  by (simp add: assign_payload_def pending_value_def request_of_def)

lemma topic_lookup:
  "topic_env_ok E \<Longrightarrow> getDeviceTopicByUseCase E d u s =
     (case List.find (\<lambda>t. t_deviceId t = d \<and> t_useCase t = u) (topics s) of
        None \<Rightarrow> (Inl (NotFoundException ''Topic not found''), s) | Some t \<Rightarrow> (Inr t, s))"
  by (simp add: getDeviceTopicByUseCase_def act_simps repo_ok_simps(2)[OF topic_env_okD(1)] split: option.split)

text \<open>The request that passes all checks.\<close>

lemma assign_accepted:
  assumes good: "device_good E s" and dto: "dto = JObj kvs" "js_get dto ''requestCode'' = JStr ''REQUEST_ASSIGN_DEVICE_FUNCTION''"
    "js_get dto ''functionality'' = JArr fs" and user: "js_get user ''userId'' = JStr u"
    and t: "List.find (\<lambda>t. t_deviceId t = js_to_string (js_get dto ''deviceId'') \<and> t_useCase t = ASSIGN_DEVICE_FUNCTION) (topics s) = Some t"
    and v: "validateSensorTypes E (js_get dto ''deviceId'') (JArr fs) s = (Inr (), s)"
  shows "\<exists>m s'. AssignDeviceFunction E user dto s = (Inr m, s') \<and> topics s' = topics s \<and>
    sensors s' = map (\<lambda>d. if sn_deviceId d = js_get dto ''deviceId'' then assign_functionality (JArr fs) d else d) (sensors s) \<and>
    answers s' (request_of ''REQUEST_ASSIGN_DEVICE_FUNCTION'' u (uuid_src E (uuid_count s))) \<and>
    (live i s \<longrightarrow> map fst (sent_of i s') = map fst (sent_of i s) @ [t_topic t]) \<and>
    (process_ended s' \<longleftrightarrow> process_ended s \<or> \<not> can_publish s)"
proof -
  note env = device_goodD(1)[OF good]
  let ?d = "js_get dto ''deviceId''"
  let ?r = "uuid_src E (uuid_count s)"
  let ?p = "assign_payload dto u ?r"
  note ap = assign_pending[OF dto(1), of u ?r]
  let ?s1 = "s\<lparr>uuid_count := Suc (uuid_count s), kv := (kv s)(pending_key (JStr ?r) \<mapsto>
    (stringify (request_of ''REQUEST_ASSIGN_DEVICE_FUNCTION'' u ?r), Some (1000 * redis_ttl E))),
    sensors := update_where (\<lambda>d. sn_deviceId d = ?d) (assign_functionality (JArr fs)) (sensors s)\<rparr>"
  let ?pub = "mqtt_publish E (t_topic t) (JStr (stringify ?p)) \<lparr>po_qos = Some 1, po_retain = Some False\<rparr>"
  let ?s2 = "snd (fire ?pub ?s1)"
  have g: "mqtt_good E ?s1" using device_goodD(2)[OF good] by (subst mqtt_good_cong[of _ s]) simp_all
  note pub = fire_publish[OF g, of "t_topic t" "JStr (stringify ?p)" "\<lparr>po_qos = Some 1, po_retain = Some False\<rparr>"]
  have sent: "fire ?pub ?s1 = (Inr (), ?s2)" using pub(1) by (metis prod.collapse)
  have uid: "js_get_or_throw user ''userId'' = Inr (JStr u)"
    using user by (cases user) (simp_all add: js_get_or_throw_def)
  have run: "\<exists>m. AssignDeviceFunction E user dto s = (Inr m, ?s2)"
    using ap sent unfolding assign_payload_def AssignDeviceFunction_def Let_def dto(2,3)
    by (simp add: topic_lookup[OF device_env_okD(11)[OF env]] t v lift_res_run uid uuidv4_run setCache_run[OF env]
        update_device_run[OF env])
  have same: "kv ?s2 = kv ?s1" "topics ?s2 = topics s" using pub(2,3) by simp_all
  have "device_part ?s2 = device_part ?s1"
    by (rule device_part_same) (intro keeps_fire keeps_part_mqtt keeps_part_crash)
  then have sens: "sensors ?s2 = sensors ?s1" by (simp add: device_part_def)
  have ans: "answers ?s2 (request_of ''REQUEST_ASSIGN_DEVICE_FUNCTION'' u ?r)"
    unfolding answers_def Let_def same by (simp add: cached_pending strict_eq_def)
  have "map fst (sent_of i ?s2) = map fst (sent_of i s) @ [t_topic t]" if up: "live i s"
  proof -
    have up1: "live i ?s1" using up by (simp add: live_def)
    have "sent_of i ?s1 = sent_of i s" by (simp add: sent_of_def)
    with device_publish_run[OF g up1, of "t_topic t" "JStr (stringify ?p)" "\<lparr>po_qos = Some 1, po_retain = Some False\<rparr>"]
    show ?thesis by auto
  qed
  moreover have "process_ended ?s2 \<longleftrightarrow> process_ended s \<or> \<not> can_publish s" using pub(4) by (simp add: can_publish_def)
  ultimately show ?thesis using run same(2) sens ans by (auto simp: update_where_def)
qed

text \<open>
  C28. Assigning a function, in a reachable state: a request with another code, for a
  device without an assignment topic or that is not stored (or deleted), or for something the device
  does not say it is capable of is refused, each with its exception, and changes nothing. Otherwise the
  functionality becomes the device's, which is \<open>assigned\<close> at once (before any answer), the request is
  cached for the answer, and with an open connection it is published on the device's topic; without one
  the request succeeds all the same, and the publication nobody awaits ends the process. (Nothing is said
  of a device whose capabilities are no list.)
\<close>

theorem assign_function:
  assumes "device_env_ok E" "device_reachable E s" "dto = JObj kvs" "js_get dto ''functionality'' = JArr fs"
    "js_get user ''userId'' = JStr u" "js_get dto ''deviceId'' = JStr d"
    "AssignDeviceFunction E user dto s = (res, s')"
  shows "if js_get dto ''requestCode'' \<noteq> JStr ''REQUEST_ASSIGN_DEVICE_FUNCTION''
    then res = Inl (BadRequestException ''Invalid Request'') \<and> s' = s
    else case List.find (\<lambda>t. t_deviceId t = d \<and> t_useCase t = ASSIGN_DEVICE_FUNCTION) (topics s) of
      None \<Rightarrow> res = Inl (NotFoundException ''Topic not found'') \<and> s' = s
    | Some t \<Rightarrow>
      (case List.find (\<lambda>x. sn_deviceId x = JStr d \<and> \<not> sn_isDeleted x) (sensors s) of
        None \<Rightarrow> res = Inl (NotFoundException ''Device not found'') \<and> s' = s
      | Some x \<Rightarrow>
        (case sn_capabilities x of
          JArr cs \<Rightarrow>
            if list_all (\<lambda>f. js_primitive f \<and> f \<in> set cs) fs
            then (\<exists>m. res = Inr m) \<and> topics s' = topics s \<and>
              sensors s' = map (\<lambda>y. if sn_deviceId y = JStr d
                then y\<lparr>sn_assignedFunctionality := JArr fs, sn_provisionState := PS_ASSIGNED\<rparr> else y) (sensors s) \<and>
              answers s' (request_of ''REQUEST_ASSIGN_DEVICE_FUNCTION'' u (uuid_src E (uuid_count s))) \<and>
              (live i s \<longrightarrow> map fst (sent_of i s') = map fst (sent_of i s) @ [t_topic t]) \<and>
              (process_ended s' \<longleftrightarrow> process_ended s \<or> \<not> can_publish s)
            else res = Inl (UnauthorizedException (d @ '' functionality validation failed'')) \<and> s' = s
        | _ \<Rightarrow> True))"
proof -
  have good: "device_good E s" using device_reachable_good[OF assms(2,1)] .
  note run = assms(7) and lookup = topic_lookup[OF device_env_okD(11)[OF assms(1)]]
  show ?thesis
  proof (cases "js_get dto ''requestCode'' = JStr ''REQUEST_ASSIGN_DEVICE_FUNCTION''")
    case False
    with run show ?thesis by (auto simp: AssignDeviceFunction_def Let_def)
  next
    case code: True
    show ?thesis
    proof (cases "List.find (\<lambda>t. t_deviceId t = d \<and> t_useCase t = ASSIGN_DEVICE_FUNCTION) (topics s)")
      case None
      with code run show ?thesis by (auto simp: AssignDeviceFunction_def Let_def assms(6) lookup)
    next
      case t: (Some t)
      show ?thesis
      proof (cases "List.find (\<lambda>x. sn_deviceId x = JStr d \<and> \<not> sn_isDeleted x) (sensors s)")
        case None
        with validateSensorTypes_run[OF assms(1), of "JStr d" fs s] code t run show ?thesis
          by (auto simp: AssignDeviceFunction_def Let_def assms(4,6) lookup)
      next
        case x: (Some x)
        show ?thesis
        proof (cases "sn_capabilities x")
          case caps: (JArr cs)
          show ?thesis
          proof (cases "list_all (\<lambda>f. js_primitive f \<and> f \<in> set cs) fs")
            case True
            with validateSensorTypes_run[OF assms(1), of "JStr d" fs s] x caps
            have v: "validateSensorTypes E (js_get dto ''deviceId'') (JArr fs) s = (Inr (), s)" by (simp add: assms(6))
            have t': "List.find (\<lambda>t. t_deviceId t = js_to_string (js_get dto ''deviceId'') \<and>
                t_useCase t = ASSIGN_DEVICE_FUNCTION) (topics s) = Some t" using t by (simp add: assms(6))
            from assign_accepted[OF good assms(3) code assms(4,5) t' v, of i] run True code t x caps
            show ?thesis by (auto simp: assign_functionality_def assms(6))
          next
            case False
            with validateSensorTypes_run[OF assms(1), of "JStr d" fs s] x caps code t run show ?thesis
              by (auto simp: AssignDeviceFunction_def Let_def assms(4,6) lookup)
          qed
        qed (simp_all add: code t x)
      qed
    qed
  qed
qed

definition demo_actor :: jsval where
  "demo_actor = JObj [(''userId'', JStr ''u1'')]"

definition demo_assignment :: jsval where
  "demo_assignment = JObj [(''requestCode'', JStr ''REQUEST_ASSIGN_DEVICE_FUNCTION''), (''deviceId'', JStr ''d1''),
     (''functionality'', JArr [JStr ''temperature''])]"

lemma demo_device:
  "sn_deviceId (device_record (js_get (demo_answer r) ''sensorData'')) = JStr ''d1''"
  "sn_capabilities (device_record (js_get (demo_answer r) ''sensorData'')) = JArr [JStr ''temperature'']"
  "\<not> sn_isDeleted (device_record (js_get (demo_answer r) ''sensorData''))"
  by (simp_all add: device_record_def demo_answer_def)

lemma demo_assign_topic:
  "\<exists>t. List.find (\<lambda>t. t_deviceId t = ''d1'' \<and> t_useCase t = ASSIGN_DEVICE_FUNCTION) (topics demo_registered) = Some t"
proof -
  have "device_topic demo_device_env ''d1'' ASSIGN_DEVICE_FUNCTION \<in> t_topic ` set (topics demo_registered)"
    using demo_registered(6) by (auto simp: device_names_def)
  then obtain t where t: "t \<in> set (topics demo_registered)" "t_topic t = device_topic demo_device_env ''d1'' ASSIGN_DEVICE_FUNCTION"
    by auto
  have "topics_inv demo_device_env (topics demo_registered)"
    by (rule device_goodD(6)[OF device_reachable_good[OF demo_registered(3) demo_device_env_ok]])
  from topics_inv_name[OF this t, of "''d1''" ASSIGN_DEVICE_FUNCTION] t(1) show ?thesis
    by (cases "List.find (\<lambda>t. t_deviceId t = ''d1'' \<and> t_useCase t = ASSIGN_DEVICE_FUNCTION) (topics demo_registered)")
      (auto simp: find_None_all service_name_def)
qed

theorem assign_function_witness:
  "\<exists>m s'. AssignDeviceFunction demo_device_env demo_actor demo_assignment demo_registered = (Inr m, s') \<and>
     map sn_provisionState (sensors s') = [PS_ASSIGNED]"
proof -
  obtain res s' where run: "AssignDeviceFunction demo_device_env demo_actor demo_assignment demo_registered = (res, s')"
    by fastforce
  obtain t where t: "List.find (\<lambda>t. t_deviceId t = ''d1'' \<and> t_useCase t = ASSIGN_DEVICE_FUNCTION) (topics demo_registered) = Some t"
    using demo_assign_topic by blast
  have p: "demo_assignment = JObj [(''requestCode'', JStr ''REQUEST_ASSIGN_DEVICE_FUNCTION''), (''deviceId'', JStr ''d1''),
     (''functionality'', JArr [JStr ''temperature''])]" "js_get demo_assignment ''functionality'' = JArr [JStr ''temperature'']"
    "js_get demo_actor ''userId'' = JStr ''u1''" "js_get demo_assignment ''deviceId'' = JStr ''d1''"
    "js_get demo_assignment ''requestCode'' = JStr ''REQUEST_ASSIGN_DEVICE_FUNCTION''"
    by (simp_all add: demo_assignment_def demo_actor_def)
  from assign_function[OF demo_device_env_ok demo_registered(3) p(1-4) run, of 0] show ?thesis
    using run unfolding p(5) t demo_registered(1) by (auto simp: demo_device)
qed

section \<open>Deleting a device\<close>

lemma discovery_of_deleted:
  assumes good: "device_good E s" and d: "js_get (js_get v ''sensorData'') ''deviceId'' = JStr d"
    and x: "List.find (\<lambda>x. sn_deviceId x = JStr d) (sensors s) = Some x" "sn_isDeleted x"
  shows "sensors (snd (handleDiscoveryResponse E v s)) =
    update_where (\<lambda>x. sn_deviceId x = JStr d) (\<lambda>x. x\<lparr>sn_isDeleted := False\<rparr>) (sensors s)"
proof -
  note env = device_goodD(1)[OF good]
  let ?s = "s\<lparr>sensors := update_where (\<lambda>x. sn_deviceId x = JStr d) (\<lambda>x. x\<lparr>sn_isDeleted := False\<rparr>) (sensors s)\<rparr>"
  have nn: "\<not> nullish (js_get v ''sensorData'')" using d by (cases "js_get v ''sensorData''") simp_all
  obtain r s1 where c: "createDeviceBaseTopic E d ?s = (r, s1)" by fastforce
  have "sensors s1 = sensors ?s"
    using device_part_same[OF keeps_part_topics(3), of E d ?s] c by (simp add: device_part_def)
  with c show ?thesis
    by (cases r) (simp_all add: handleDiscovery_cases[OF good nn] Let_def d x update_device_run[OF env]
        after_registration_run[OF env])
qed

text \<open>
  C15. Deleting a device in a reachable state: a device that is not stored or is already deleted is
  reported as not found; otherwise the one device of that id is marked as deleted and stays
  stored. From then on it is not found, cannot be configured and cannot be deleted again, its status still
  answers but as not available, and a discovery answer with its id brings back exactly the devices as
  they were before, whatever the answer says of it.
\<close>

theorem delete_and_return:
  assumes "device_env_ok E" "device_reachable E s" "deleteSensor E d s = (res, s1)"
    "js_get (js_get v ''sensorData'') ''deviceId'' = JStr d" "js_get cfg ''deviceId'' = JStr d"
  shows "case List.find (\<lambda>x. sn_deviceId x = JStr d \<and> \<not> sn_isDeleted x) (sensors s) of
      None \<Rightarrow> res = Inl (NotFoundException (''Device with ID '' @ d @ '' not found'')) \<and> s1 = s
    | Some x \<Rightarrow> res = Inr () \<and> s1 = s\<lparr>sensors := map (\<lambda>y. if y = x then x\<lparr>sn_isDeleted := True\<rparr> else y) (sensors s)\<rparr> \<and>
        getSingleSensor E d s1 = (Inl (NotFoundException (''Device with ID '' @ d @ '' not found'')), s1) \<and>
        deleteSensor E d s1 = (Inl (NotFoundException (''Device with ID '' @ d @ '' not found'')), s1) \<and>
        setDeviceConfiguration E cfg s1 = (Inl (NotFoundException (''Device with id '' @ d @ '' not found'')), s1) \<and>
        map_sum id (\<lambda>st. js_get st ''available'') (fst (getDeviceStatus E d s1)) = Inr (JBool False) \<and>
        sensors (snd (handleDiscoveryResponse E v s1)) = sensors s"
proof -
  have good: "device_good E s" using device_reachable_good[OF assms(2,1)] .
  note env = assms(1) and sim = find_live_run[OF assms(1)] update_device_run[OF assms(1)]
  show ?thesis
  proof (cases "List.find (\<lambda>x. sn_deviceId x = JStr d \<and> \<not> sn_isDeleted x) (sensors s)")
    case None
    with assms(3) show ?thesis by (simp add: deleteSensor_def sim)
  next
    case (Some x)
    then have x: "x \<in> set (sensors s)" "sn_deviceId x = JStr d" "\<not> sn_isDeleted x" by (auto dest: find_Some_in)
    have only: "sn_deviceId y = JStr d \<longleftrightarrow> y = x" if "y \<in> set (sensors s)" for y
      using unique_by_inj[OF device_goodD(4)[OF good] that x(1)] x(2) by auto
    let ?ds = "map (\<lambda>y. if y = x then x\<lparr>sn_isDeleted := True\<rparr> else y) (sensors s)"
    have upd: "update_where (\<lambda>y. sn_deviceId y = JStr d) (\<lambda>y. y\<lparr>sn_isDeleted := True\<rparr>) (sensors s) = ?ds"
      unfolding update_where_def using only by (intro map_cong) auto
    with assms(3) Some have del: "res = Inr ()" "s1 = s\<lparr>sensors := ?ds\<rparr>" by (simp_all add: deleteSensor_def sim)
    have gone: "List.find (\<lambda>y. sn_deviceId y = JStr d \<and> \<not> sn_isDeleted y) ?ds = None"
      using only by (auto simp: find_None_all)
    have there: "List.find (\<lambda>y. sn_deviceId y = JStr d) ?ds = Some (x\<lparr>sn_isDeleted := True\<rparr>)"
    proof (rule find_unique)
      show "x\<lparr>sn_isDeleted := True\<rparr> \<in> set ?ds" using x(1) by force
      show "sn_deviceId (x\<lparr>sn_isDeleted := True\<rparr>) = JStr d" using x(2) by simp
      show "y = x\<lparr>sn_isDeleted := True\<rparr>" if "y \<in> set ?ds" "sn_deviceId y = JStr d" for y
        using that only by (auto split: if_splits)
    qed
    have good1: "device_good E s1"
      using keepsD[OF keeps_requests_device(4), OF good, of d] assms(3) by simp
    have "update_where (\<lambda>y. sn_deviceId y = JStr d) (\<lambda>y. y\<lparr>sn_isDeleted := False\<rparr>) ?ds = sensors s"
      unfolding update_where_def map_map using only x(2,3) by (intro map_idI) (auto simp: sensor.splits)
    moreover have ss: "sensors s1 = ?ds" using del(2) by simp
    ultimately have restored: "sensors (snd (handleDiscoveryResponse E v s1)) = sensors s"
      using discovery_of_deleted[OF good1 assms(4) there[folded ss]] by simp
    have status: "map_sum id (\<lambda>st. js_get st ''available'') (fst (getDeviceStatus E d s1)) = Inr (JBool False)"
      by (simp add: getDeviceStatus_def act_simps sensor_repo_simps[OF env] del there)
    show ?thesis
      using Some del gone restored status
      by (simp add: getSingleSensor_def deleteSensor_def setDeviceConfiguration_def Let_def sim assms(5))
  qed
qed

theorem delete_and_return_witness:
  "\<exists>s1. deleteSensor demo_device_env ''d1'' demo_registered = (Inr (), s1) \<and> map sn_isDeleted (sensors s1) = [True] \<and>
     sensors (snd (handleDiscoveryResponse demo_device_env (demo_answer demo_request) s1)) = sensors demo_registered"
proof -
  obtain res s1 where del: "deleteSensor demo_device_env ''d1'' demo_registered = (res, s1)" by fastforce
  have cfg: "js_get (JObj [(''deviceId'', JStr ''d1'')]) ''deviceId'' = JStr ''d1''" by simp
  have f: "List.find (\<lambda>x. sn_deviceId x = JStr ''d1'' \<and> \<not> sn_isDeleted x) (sensors demo_registered) =
      Some (device_record (js_get (demo_answer demo_request) ''sensorData''))"
    unfolding demo_registered(1) by (simp add: demo_device)
  note out = delete_and_return[OF demo_device_env_ok demo_registered(3) del demo_answer_facts(5)[of demo_request] cfg,
      unfolded f option.case]
  from out have res: "res = Inr ()"
    and restored: "sensors (snd (handleDiscoveryResponse demo_device_env (demo_answer demo_request) s1)) = sensors demo_registered"
    by blast+
  from out have s1: "s1 = demo_registered\<lparr>sensors := map (\<lambda>y. if y = device_record (js_get (demo_answer demo_request) ''sensorData'')
      then (device_record (js_get (demo_answer demo_request) ''sensorData''))\<lparr>sn_isDeleted := True\<rparr> else y) (sensors demo_registered)\<rparr>"
    by (rule conjunct1[OF conjunct2])
  have "map sn_isDeleted (sensors s1) = [True]" unfolding s1 by (simp add: demo_registered(1))
  then show ?thesis by (intro exI[of _ s1] conjI del[unfolded res] restored)
qed

section \<open>Identity\<close>

text \<open>
  C17. In every state the program reaches, by requests, broker messages, connections and expiry in any
  order, the id of a stored device identifies it, and a topic under the name of a device and use case is
  registered for that device and use case. (An id in a discovery answer must not contain a slash: with
  one, two devices could claim the same topic.)
\<close>

theorem device_ids_identify:
  assumes "device_env_ok E" "device_reachable E s" "x \<in> set (sensors s)" "y \<in> set (sensors s)" "t \<in> set (topics s)"
  shows "(sn_deviceId x = sn_deviceId y \<longrightarrow> x = y) \<and>
    (t_topic t = device_topic E d u \<and> CHR ''/'' \<notin> set d \<longrightarrow> t_deviceId t = d \<and> t_useCase t = u)"
proof -
  have good: "device_good E s" using device_reachable_good[OF assms(2,1)] .
  have "x = y" if "sn_deviceId x = sn_deviceId y"
    using unique_by_inj[OF device_goodD(4)[OF good] assms(3,4)] that by simp
  moreover have "t_deviceId t = d \<and> t_useCase t = u" if "t_topic t = device_topic E d u" "CHR ''/'' \<notin> set d"
    using topics_inv_name[OF device_goodD(6)[OF good] assms(5) that(1), of d u] that(2) by (simp add: service_name_def)
  ultimately show ?thesis by blast
qed

theorem device_ids_identify_witness:
  "\<exists>x t. x \<in> set (sensors demo_registered) \<and> t \<in> set (topics demo_registered) \<and> t_deviceId t = ''d1'' \<and>
     t_useCase t = HEARTBEAT"
proof -
  have "device_topic demo_device_env ''d1'' HEARTBEAT \<in> t_topic ` set (topics demo_registered)"
    using demo_registered(6) by (auto simp: device_names_def)
  then obtain t where t: "t \<in> set (topics demo_registered)" "t_topic t = device_topic demo_device_env ''d1'' HEARTBEAT"
    by auto
  let ?x = "device_record (js_get (demo_answer demo_request) ''sensorData'')"
  have x: "?x \<in> set (sensors demo_registered)" unfolding demo_registered(1) by simp
  from device_ids_identify[OF demo_device_env_ok demo_registered(3) x x t(1), of "''d1''" HEARTBEAT] t x
  show ?thesis by auto
qed

end
