(* ===== verification/Errors.thy ===== *)
theory Errors
  imports Prelude
begin

text \<open>
  The exception definitions of \<open>common/errors/exceptions.ts\<close> and the HTTP statuses the services
  pass with them.
\<close>

definition PASSWORDS_DO_NOT_MATCH :: exception_def where
  "PASSWORDS_DO_NOT_MATCH = \<lparr>ed_code = ''PASSWORDS_DO_NOT_MATCH'',
     ed_message = ''Passwords do not match'',
     ed_logMessage = ''Password confirmation does not match the new password''\<rparr>"

definition INVALID_REQUEST :: exception_def where
  "INVALID_REQUEST = \<lparr>ed_code = ''INVALID_REQUEST'', ed_message = ''Invalid request'',
     ed_logMessage = ''Invalid request received from client''\<rparr>"

definition INVALID_CREDENTIALS :: exception_def where
  "INVALID_CREDENTIALS = \<lparr>ed_code = ''INVALID_CREDENTIALS'', ed_message = ''Invalid credentials'',
     ed_logMessage = ''Authentication failed due to invalid credentials''\<rparr>"

definition USER_NOT_FOUND :: exception_def where
  "USER_NOT_FOUND = \<lparr>ed_code = ''USER_NOT_FOUND'', ed_message = ''User not found'',
     ed_logMessage = ''User lookup failed because the user does not exist''\<rparr>"

definition EMAIL_ALREADY_EXISTS :: exception_def where
  "EMAIL_ALREADY_EXISTS = \<lparr>ed_code = ''EMAIL_ALREADY_EXISTS'', ed_message = ''Email already exists'',
     ed_logMessage = ''Registration attempted with an existing email''\<rparr>"

definition ACCESS_DENIED :: exception_def where
  "ACCESS_DENIED = \<lparr>ed_code = ''ACCESS_DENIED'', ed_message = ''Access denied'',
     ed_logMessage = ''User attempted to access a forbidden resource''\<rparr>"

definition ENCRYPTION_FAILED :: exception_def where
  "ENCRYPTION_FAILED = \<lparr>ed_code = ''ENCRYPTION_FAILED'', ed_message = ''Encryption failed'',
     ed_logMessage = ''The encryption method failed''\<rparr>"

definition SESSION_ESTABLISH_FAILED :: exception_def where
  "SESSION_ESTABLISH_FAILED = \<lparr>ed_code = ''SESSION_ESTABLISH_FAILED'',
     ed_message = ''Session establishment failed'',
     ed_logMessage = ''Failed to establish a new session''\<rparr>"

definition SESSION_VALIDATION_FAILED :: exception_def where
  "SESSION_VALIDATION_FAILED = \<lparr>ed_code = ''SESSION_VALIDATION_FAILED'',
     ed_message = ''Session validation failed'',
     ed_logMessage = ''Failed to validate the session''\<rparr>"

definition SESSION_DESTROY_FAILED :: exception_def where
  "SESSION_DESTROY_FAILED = \<lparr>ed_code = ''SESSION_DESTROY_FAILED'',
     ed_message = ''Session destruction failed'',
     ed_logMessage = ''Failed to destroy the session''\<rparr>"

definition SESSION_EXTENSION_FAILED :: exception_def where
  "SESSION_EXTENSION_FAILED = \<lparr>ed_code = ''SESSION_EXTENSION_FAILED'',
     ed_message = ''Session extension failed'',
     ed_logMessage = ''Failed to extend the session''\<rparr>"

definition SESSION_INVALIDATION_FAILED :: exception_def where
  "SESSION_INVALIDATION_FAILED = \<lparr>ed_code = ''SESSION_INVALIDATION_FAILED'',
     ed_message = ''Session invalidation failed'',
     ed_logMessage = ''Failed to invalidate user sessions''\<rparr>"

definition SESSION_RETRIEVE_FAILED :: exception_def where
  "SESSION_RETRIEVE_FAILED = \<lparr>ed_code = ''SESSION_RETRIEVE_FAILED'',
     ed_message = ''Session retrieval failed'',
     ed_logMessage = ''Failed to retrieve session data''\<rparr>"

text \<open>The entries of \<open>HttpStatus\<close> the code uses.\<close>

abbreviation BAD_REQUEST :: nat where "BAD_REQUEST \<equiv> 400"
abbreviation UNAUTHORIZED :: nat where "UNAUTHORIZED \<equiv> 401"
abbreviation NOT_FOUND :: nat where "NOT_FOUND \<equiv> 404"
abbreviation CONFLICT :: nat where "CONFLICT \<equiv> 409"
abbreviation INTERNAL_SERVER_ERROR :: nat where "INTERNAL_SERVER_ERROR \<equiv> 500"

end
