(* ===== verification/ExceptionFilter.thy ===== *)
theory ExceptionFilter
  imports Errors Platform
begin

text \<open>
  \<open>common/filter/global-exception-filter.ts\<close> and \<open>common/utils/environment.util.ts\<close>: the response to a
  request whose handling threw. An exception is described by its class and by what the filter reads of
  it: the status and the response object of an HTTP exception, the error of the database driver, the
  message and name of any other error, or the thrown value itself.
\<close>

section \<open>Exceptions as the filter sees them\<close>

datatype exception =
    AppExn exception_def nat
  | BadRequestExn jsval
  | DatabaseExn jsval
  | HttpExn nat jsval
  | ErrorExn string string
  | OtherExn jsval

text \<open>
  The response object NestJS makes of a message: the message, the name of the status, the status. An
  empty message is replaced by the name.
\<close>

definition exception_body :: "string \<Rightarrow> string \<Rightarrow> nat \<Rightarrow> jsval" where
  "exception_body m description status =
     (if m = [] then JObj [(''message'', JStr description), (''statusCode'', JNum (of_nat status))]
      else JObj [(''message'', JStr m), (''error'', JStr description), (''statusCode'', JNum (of_nat status))])"

text \<open>What class the error of a library has is for the library to say (\<open>lib\<close>).\<close>

fun exception_of :: "(string \<Rightarrow> exception) \<Rightarrow> exn \<Rightarrow> exception" where
  "exception_of lib (AppException d status) = AppExn d status"
| "exception_of lib (BadRequestException m) = BadRequestExn (exception_body m ''Bad Request'' 400)"
| "exception_of lib (UnauthorizedException m) = HttpExn 401 (exception_body m ''Unauthorized'' 401)"
| "exception_of lib (ForbiddenException m) = HttpExn 403 (exception_body m ''Forbidden'' 403)"
| "exception_of lib (NotFoundException m) = HttpExn 404 (exception_body m ''Not Found'' 404)"
| "exception_of lib (JsError m) = ErrorExn m ''Error''"
| "exception_of lib (LibraryError m) = lib m"

section \<open>Messages\<close>

fun formatValidationItem :: "jsval \<Rightarrow> string list" where
  "formatValidationItem (JStr s) = [s]"
| "formatValidationItem (JArr vs) = concat (map formatValidationItem vs)"
| "formatValidationItem (JObj kvs) = concat (map (\<lambda>(k, v). formatValidationItem v) kvs)"
| "formatValidationItem _ = []"

text \<open>An array or a date is an object too; neither has a property called message or error.\<close>

definition is_object :: "jsval \<Rightarrow> bool" where
  "is_object v \<longleftrightarrow> js_typeof v = ''object'' \<and> v \<noteq> JNull"

definition joined_message :: "jsval \<Rightarrow> string option" where
  "joined_message message =
     (case message of
        JArr vs \<Rightarrow> Some (js_join ''; '' (concat (map formatValidationItem vs)))
      | JStr m \<Rightarrow> Some m
      | _ \<Rightarrow> None)"

definition extractValidationMessage :: "jsval \<Rightarrow> string option" where
  "extractValidationMessage responseBody =
     (if \<not> is_object responseBody then None else joined_message (js_get responseBody ''message''))"

definition extractHttpExceptionMessage :: "jsval \<Rightarrow> string option" where
  "extractHttpExceptionMessage responseBody =
     (if \<not> truthy responseBody then None
      else case responseBody of
        JStr m \<Rightarrow> Some m
      | _ \<Rightarrow>
          if is_object responseBody
          then joined_message (js_coalesce (js_get responseBody ''message'') (js_get responseBody ''error''))
          else None)"

definition extractMongoErrorMessage :: "jsval \<Rightarrow> string option" where
  "extractMongoErrorMessage error =
     (if \<not> is_object error then None
      else case js_get error ''message'' of JStr m \<Rightarrow> Some m | _ \<Rightarrow> None)"

section \<open>The filter\<close>

definition js_upper :: "string \<Rightarrow> string" where
  "js_upper s = map (\<lambda>c. let n = of_char c :: nat in if 97 \<le> n \<and> n \<le> 122 then char_of (n - 32) else c) s"

definition js_lower :: "string \<Rightarrow> string" where
  "js_lower s = map (\<lambda>c. let n = of_char c :: nat in if 65 \<le> n \<and> n \<le> 90 then char_of (n + 32) else c) s"

definition isProductionEnvironment :: "string option \<Rightarrow> bool" where
  "isProductionEnvironment NODE_ENV = (case NODE_ENV of None \<Rightarrow> False | Some e \<Rightarrow> js_upper e = ''PRODUCTION'')"

definition isDevelopmentEnvironment :: "string option \<Rightarrow> bool" where
  "isDevelopmentEnvironment NODE_ENV =
     (case NODE_ENV of None \<Rightarrow> False | Some e \<Rightarrow> js_lower e = ''development'' \<or> js_lower e = ''dev'')"

record fault =
  ft_status :: nat
  ft_code :: string
  ft_message :: string
  ft_logMessage :: string

definition or_else :: "'a option \<Rightarrow> 'a \<Rightarrow> 'a" where
  "or_else x d = (case x of None \<Rightarrow> d | Some y \<Rightarrow> y)"

definition classify :: "exception \<Rightarrow> fault" where
  "classify exception =
     (case exception of
        AppExn d status \<Rightarrow>
          \<lparr>ft_status = status, ft_code = ed_code d, ft_message = ed_message d, ft_logMessage = ed_logMessage d\<rparr>
      | BadRequestExn responseBody \<Rightarrow>
          \<lparr>ft_status = BAD_REQUEST, ft_code = ''VALIDATION_ERROR'',
           ft_message = or_else (extractValidationMessage responseBody) ''Validation failed'',
           ft_logMessage = ''Validation failed''\<rparr>
      | DatabaseExn dbError \<Rightarrow>
          if strict_eq (js_get dbError ''code'') (JNum 11000)
          then \<lparr>ft_status = CONFLICT, ft_code = ''DATABASE_DUPLICATE_KEY'',
            ft_message = or_else (extractMongoErrorMessage dbError) ''Duplicate key error'',
            ft_logMessage = ''Database duplicate key error''\<rparr>
          else \<lparr>ft_status = BAD_REQUEST, ft_code = ''DATABASE_ERROR'',
            ft_message = or_else (extractMongoErrorMessage dbError) ''Database operation failed'',
            ft_logMessage = ''Database error''\<rparr>
      | HttpExn status responseBody \<Rightarrow>
          \<lparr>ft_status = status, ft_code = ''INTERNAL_SERVER_ERROR'',
           ft_message = or_else (extractHttpExceptionMessage responseBody) ''Internal server error'',
           ft_logMessage = ''HTTP '' @ show_nat status @ '' exception''\<rparr>
      | ErrorExn message name \<Rightarrow>
          \<lparr>ft_status = INTERNAL_SERVER_ERROR, ft_code = ''INTERNAL_SERVER_ERROR'',
           ft_message = (if message = [] then ''Internal server error'' else message), ft_logMessage = name\<rparr>
      | OtherExn v \<Rightarrow>
          \<lparr>ft_status = INTERNAL_SERVER_ERROR, ft_code = ''INTERNAL_SERVER_ERROR'',
           ft_message = ''Internal server error'', ft_logMessage = ''Unhandled exception''\<rparr>)"

text \<open>An error has a stack; a thrown value that is no error has none.\<close>

definition stack_of :: "(exception \<Rightarrow> string) \<Rightarrow> exception \<Rightarrow> string option" where
  "stack_of stack exception = (case exception of OtherExn _ \<Rightarrow> None | e \<Rightarrow> Some (stack e))"

record http_response =
  hr_status :: nat
  hr_body :: jsval

definition catch_exception ::
  "'e rt_env_scheme \<Rightarrow> string option \<Rightarrow> (exception \<Rightarrow> string) \<Rightarrow> string \<Rightarrow> exception \<Rightarrow>
     ('z runtime_scheme, http_response) act" where
  "catch_exception E NODE_ENV stack url exception =
     bnd (date_now E) (\<lambda>now.
     let f = classify exception;
         payload = [(''statusCode'', JNum (of_nat (ft_status f))), (''code'', JStr (ft_code f)),
           (''message'', JStr (ft_message f)), (''timestamp'', JStr (toISOString now)), (''path'', JStr url)]
     in ok \<lparr>hr_status = ft_status f,
          hr_body = JObj (payload @ (case stack_of stack exception of
            Some st \<Rightarrow> if \<not> isProductionEnvironment NODE_ENV \<and> st \<noteq> [] then [(''stack'', JStr st)] else []
          | None \<Rightarrow> []))\<rparr>)"

section \<open>Facts\<close>

text \<open>The strings of a value, in order: the reference for the flattening of validation messages.\<close>

inductive string_leaf :: "string \<Rightarrow> jsval \<Rightarrow> bool" where
  leaf: "string_leaf s (JStr s)"
| in_array: "v \<in> set vs \<Longrightarrow> string_leaf s v \<Longrightarrow> string_leaf s (JArr vs)"
| in_object: "(k, v) \<in> set kvs \<Longrightarrow> string_leaf s v \<Longrightarrow> string_leaf s (JObj kvs)"

inductive_simps string_leaf_simps [simp]:
  "string_leaf s JUndefined" "string_leaf s JNull" "string_leaf s (JBool b)" "string_leaf s (JNum n)"
  "string_leaf s (JDate t)" "string_leaf s (JStr t)" "string_leaf s (JArr vs)" "string_leaf s (JObj kvs)"

lemma format_leaves: "set (formatValidationItem v) = {s. string_leaf s v}"
  by (induction v rule: formatValidationItem.induct) (auto, blast+)

end
