(* ===== verification/FilterContract.thy ===== *)
theory FilterContract
  imports ExceptionFilter
begin

text \<open>
  The response of the exception filter to what the services throw, against a table of what a client
  is told.
\<close>

section \<open>What a client is told\<close>

definition or_name :: "string \<Rightarrow> string \<Rightarrow> string" where
  "or_name m d = (if m = [] then d else m)"

text \<open>Status, code and message.\<close>

fun reported :: "exn \<Rightarrow> (nat \<times> string \<times> string) option" where
  "reported (AppException d status) = Some (status, ed_code d, ed_message d)"
| "reported (BadRequestException m) = Some (400, ''VALIDATION_ERROR'', or_name m ''Bad Request'')"
| "reported (UnauthorizedException m) = Some (401, ''INTERNAL_SERVER_ERROR'', or_name m ''Unauthorized'')"
| "reported (ForbiddenException m) = Some (403, ''INTERNAL_SERVER_ERROR'', or_name m ''Forbidden'')"
| "reported (NotFoundException m) = Some (404, ''INTERNAL_SERVER_ERROR'', or_name m ''Not Found'')"
| "reported (JsError m) = Some (500, ''INTERNAL_SERVER_ERROR'', or_name m ''Internal server error'')"
| "reported (LibraryError m) = None"

lemma classify_reported:
  assumes "reported e = Some (status, code, message)"
  shows "ft_status (classify (exception_of lib e)) = status" "ft_code (classify (exception_of lib e)) = code"
    "ft_message (classify (exception_of lib e)) = message"
  using assms
  by (cases e; auto simp: classify_def or_name_def exception_body_def extractValidationMessage_def
      extractHttpExceptionMessage_def is_object_def joined_message_def or_else_def js_coalesce_def)+

section \<open>Properties\<close>

text \<open>
  C26. Every exception of a service is answered with the status, the code and the message of the table,
  the path of the request, and a stack exactly outside production; a 401, a 403 and a 404 carry the
  code of an internal error, and the text of an unexpected error is passed on.
\<close>

theorem error_responses:
  assumes e: "reported e = Some (status, code, message)"
  shows "\<exists>kvs. catch_exception E env stack url (exception_of lib e) s =
      (Inr \<lparr>hr_status = status, hr_body = JObj kvs\<rparr>, s\<lparr>clock_reads := Suc (clock_reads s)\<rparr>) \<and>
    map_of kvs ''statusCode'' = Some (JNum (of_nat status)) \<and> map_of kvs ''code'' = Some (JStr code) \<and>
    map_of kvs ''message'' = Some (JStr message) \<and> map_of kvs ''path'' = Some (JStr url) \<and>
    map_of kvs ''stack'' = (if isProductionEnvironment env \<or> stack (exception_of lib e) = [] then None
      else Some (JStr (stack (exception_of lib e))))"
proof -
  have "stack_of stack (exception_of lib e) = Some (stack (exception_of lib e))"
    using e by (cases e) (simp_all add: stack_of_def)
  then show ?thesis
    by (simp add: catch_exception_def act_simps date_now_def Let_def classify_reported[OF e])
qed

theorem error_responses_witness:
  "\<exists>kvs. fst (catch_exception \<lparr>uuid_src = (\<lambda>_. []), clock = int, config = Map.empty\<rparr> (Some ''production'') (\<lambda>_. ''trace'')
      ''/api/users'' (exception_of (\<lambda>m. ErrorExn m ''Error'') (NotFoundException ''gone''))
      \<lparr>uuid_count = 0, clock_reads = 0, starts = 0, process_ended = False\<rparr>) = Inr \<lparr>hr_status = 404, hr_body = JObj kvs\<rparr> \<and>
    map_of kvs ''code'' = Some (JStr ''INTERNAL_SERVER_ERROR'') \<and> map_of kvs ''stack'' = None"
proof -
  have "reported (NotFoundException ''gone'') = Some (404, ''INTERNAL_SERVER_ERROR'', ''gone'')" by (simp add: or_name_def)
  moreover have "isProductionEnvironment (Some ''production'')" by code_simp
  ultimately show ?thesis
    using error_responses[of "NotFoundException ''gone''" 404 "''INTERNAL_SERVER_ERROR''" "''gone''"
        "\<lparr>uuid_src = (\<lambda>_. []), clock = int, config = Map.empty\<rparr>" "Some ''production''" "\<lambda>_. ''trace''" "''/api/users''"
        "\<lambda>m. ErrorExn m ''Error''" "\<lparr>uuid_count = 0, clock_reads = 0, starts = 0, process_ended = False\<rparr>"]
    by auto
qed

end
