(* ===== verification/Sessions.thy ===== *)
theory Sessions
  imports Redis Errors Enums
begin

text \<open>
  \<open>session/session.service.ts\<close>: sessions in Redis under \<open>session:{id}\<close>, each with a tracking key
  \<open>user:sessions:{userId}:{id}\<close> by which all sessions of a user are found again.
\<close>

record session_env = redis_env +
  sessionTimeout :: int
  to_session_cache :: "jsval \<Rightarrow> jsval"

record create_session_dto =
  cs_userId :: string
  cs_username :: string
  cs_roles :: "role list"
  cs_ipAddress :: string
  cs_userAgent :: string

definition session_key :: "string \<Rightarrow> string" where
  "session_key sessionId = ''session:'' @ sessionId"

definition track_prefix :: "string \<Rightarrow> string" where
  "track_prefix userId = ''user:sessions:'' @ userId @ '':''"

definition track_key :: "string \<Rightarrow> string \<Rightarrow> string" where
  "track_key userId sessionId = track_prefix userId @ sessionId"

text \<open>\<open>{...data, loginTime: timestamp, lastActivity: timestamp}\<close>.\<close>

definition session_object :: "create_session_dto \<Rightarrow> int \<Rightarrow> jsval" where
  "session_object d t = JObj
     [(''userId'', JStr (cs_userId d)), (''username'', JStr (cs_username d)),
      (''roles'', JArr (map (\<lambda>r. JStr (role_value r)) (cs_roles d))),
      (''ipAddress'', JStr (cs_ipAddress d)), (''userAgent'', JStr (cs_userAgent d)),
      (''loginTime'', JDate t), (''lastActivity'', JDate t)]"

definition createSession ::
  "'e session_env_scheme \<Rightarrow> create_session_dto \<Rightarrow> ('z redis_state_scheme, string) act" where
  "createSession E data =
     try_catch
       (bnd (uuidv4 E) (\<lambda>sessionId.
        bnd (date_now E) (\<lambda>timestamp.
        bnd (redis_setex E (session_key sessionId) (stringify (session_object data timestamp))
               (sessionTimeout E)) (\<lambda>_.
        bnd (redis_setex E (track_key (cs_userId data) sessionId) ''true'' (sessionTimeout E)) (\<lambda>_.
        ok sessionId)))))
       (\<lambda>_. throw (AppException SESSION_ESTABLISH_FAILED INTERNAL_SERVER_ERROR))"

definition getTrackSession ::
  "'e session_env_scheme \<Rightarrow> string \<Rightarrow> string \<Rightarrow> ('z redis_state_scheme, jsval) act" where
  "getTrackSession E sessionId userId =
     bnd (redis_get E (track_key userId sessionId)) (\<lambda>data.
     if \<not> truthy data then throw (NotFoundException (''Session for user '' @ userId @ '' not found''))
     else ok (to_session_cache E data))"

definition getSession ::
  "'e session_env_scheme \<Rightarrow> string \<Rightarrow> ('z redis_state_scheme, jsval) act" where
  "getSession E sessionId =
     try_catch
       (bnd (redis_get E (session_key sessionId)) (\<lambda>data.
        if \<not> truthy data then ok JNull
        else (case data of
                JStr t \<Rightarrow> (case json_parse t of None \<Rightarrow> throw (JsError ''SyntaxError'') | Some v \<Rightarrow> ok v)
              | _ \<Rightarrow> ok data)))
       (\<lambda>_. throw (AppException SESSION_RETRIEVE_FAILED INTERNAL_SERVER_ERROR))"

definition validateSession ::
  "'e session_env_scheme \<Rightarrow> string \<Rightarrow> ('z redis_state_scheme, bool) act" where
  "validateSession E sessionId =
     try_catch
       (bnd (getSession E sessionId) (\<lambda>session. ok (session \<noteq> JNull)))
       (\<lambda>_. throw (AppException SESSION_VALIDATION_FAILED INTERNAL_SERVER_ERROR))"

definition destroySession ::
  "'e session_env_scheme \<Rightarrow> string \<Rightarrow> ('z redis_state_scheme, unit) act" where
  "destroySession E sessionId =
     try_catch
       (bnd (getSession E sessionId) (\<lambda>session.
        if truthy session then
          bnd (redis_del E (session_key sessionId)) (\<lambda>_.
          bnd (redis_del E (track_key (js_to_string (js_get session ''userId'')) sessionId)) (\<lambda>_.
          ok ()))
        else ok ()))
       (\<lambda>_. throw (AppException SESSION_DESTROY_FAILED INTERNAL_SERVER_ERROR))"

text \<open>Assigning a property: on a primitive value strict mode throws.\<close>

definition assign_prop :: "jsval \<Rightarrow> string \<Rightarrow> jsval \<Rightarrow> exn + jsval" where
  "assign_prop v k x =
     (case v of
        JObj _ \<Rightarrow> Inr (js_set v k x)
      | JArr _ \<Rightarrow> Inr v
      | JDate _ \<Rightarrow> Inr v
      | _ \<Rightarrow> Inl (JsError ''TypeError''))"

definition extendSession ::
  "'e session_env_scheme \<Rightarrow> string \<Rightarrow> ('z redis_state_scheme, jsval) act" where
  "extendSession E sessionId =
     try_catch
       (bnd (getSession E sessionId) (\<lambda>sessionData0.
        if \<not> truthy sessionData0 then ok JNull
        else
          bnd (date_now E) (\<lambda>now.
          bnd (lift_res (assign_prop sessionData0 ''lastActivity'' (JDate now))) (\<lambda>sessionData.
          bnd (redis_setex E (session_key sessionId) (stringify sessionData) (sessionTimeout E)) (\<lambda>_.
          bnd (redis_setex E (track_key (js_to_string (js_get sessionData ''userId'')) sessionId)
                 ''true'' (sessionTimeout E)) (\<lambda>_.
          ok sessionData))))))
       (\<lambda>_. throw (AppException SESSION_EXTENSION_FAILED INTERNAL_SERVER_ERROR))"

text \<open>
  \<open>invalidateUserSessions\<close>: the body of the \<open>for\<close> over the keys of one \<open>SCAN\<close> reply, and the
  \<open>do ... while (scanCursor !== '0')\<close> loop, which is \<open>None\<close> if the server never returns cursor 0.
  \<open>key.split(':')[3]\<close> is \<open>undefined\<close> for a key with fewer parts.
\<close>

definition session_id_of_key :: "string \<Rightarrow> string" where
  "session_id_of_key key =
     (case arr_get (js_split CHR '':'' key) 3 of None \<Rightarrow> ''undefined'' | Some p \<Rightarrow> p)"

definition drop_tracked_key ::
  "'e session_env_scheme \<Rightarrow> string \<Rightarrow> ('z redis_state_scheme, int) act" where
  "drop_tracked_key E key =
     bnd (redis_del E (session_key (session_id_of_key key))) (\<lambda>_. redis_del E key)"

partial_function (option) scan_loop ::
  "'e session_env_scheme \<Rightarrow> string \<Rightarrow> string \<Rightarrow> 'z redis_state_scheme \<Rightarrow>
     ((exn + unit) \<times> 'z redis_state_scheme) option" where
  "scan_loop E pattern scanCursor s =
     (case redis_scan E scanCursor pattern 100 s of
        (Inl e, s1) \<Rightarrow> Some (Inl e, s1)
      | (Inr (nextCursor, keys), s1) \<Rightarrow>
          (case for_each (drop_tracked_key E) keys s1 of
             (Inl e, s2) \<Rightarrow> Some (Inl e, s2)
           | (Inr _, s2) \<Rightarrow>
               if nextCursor = ''0'' then Some (Inr (), s2)
               else scan_loop E pattern nextCursor s2))"

definition invalidateUserSessions ::
  "'e session_env_scheme \<Rightarrow> string \<Rightarrow> 'z redis_state_scheme \<Rightarrow>
     ((exn + unit) \<times> 'z redis_state_scheme) option" where
  "invalidateUserSessions E userId s =
     (case scan_loop E (track_prefix userId @ ''*'') ''0'' s of
        None \<Rightarrow> None
      | Some (Inl e, s') \<Rightarrow> Some (Inl (AppException SESSION_INVALIDATION_FAILED INTERNAL_SERVER_ERROR), s')
      | Some (Inr _, s') \<Rightarrow> Some (Inr (), s'))"


section \<open>Keys\<close>

lemma session_key_inj [simp]: "session_key a = session_key b \<longleftrightarrow> a = b"
  by (simp add: session_key_def)

lemma session_key_not_track [simp]:
  "session_key a \<noteq> track_key u b" "track_key u b \<noteq> session_key a"
  by (simp_all add: session_key_def track_key_def track_prefix_def)

lemma append_sep_unique:
  assumes "a @ c # x = b @ c # y" "c \<notin> set x" "c \<notin> set y"
  shows "a = b \<and> x = y"
proof -
  have tw: "takeWhile (\<lambda>z. z \<noteq> c) (rev z @ c # w) = rev z" if "c \<notin> set z" for z w
    using that by (subst takeWhile_append2) auto
  have eq: "rev x @ c # rev a = rev y @ c # rev b" using arg_cong[OF assms(1), of rev] by simp
  then have "rev x = rev y"
    using tw[OF assms(2), of "rev a"] tw[OF assms(3), of "rev b"] by simp
  with eq show ?thesis by simp
qed

text \<open>A tracking key determines the user and the session where the id has no colon.\<close>

lemma track_key_inj:
  "track_key u a = track_key w b \<Longrightarrow> CHR '':'' \<notin> set a \<Longrightarrow> CHR '':'' \<notin> set b \<Longrightarrow> u = w \<and> a = b"
  using append_sep_unique[of u "CHR '':''" a w b] by (simp add: track_key_def track_prefix_def)

lemma session_id_of_track_key:
  assumes "CHR '':'' \<notin> set u" "CHR '':'' \<notin> set sid"
  shows "session_id_of_key (track_key u sid) = sid"
proof -
  have "track_key u sid = js_join [CHR '':''] [''user'', ''sessions'', u, sid]"
    by (simp add: track_key_def track_prefix_def)
  moreover have "js_split CHR '':'' (js_join [CHR '':''] [''user'', ''sessions'', u, sid]) =
      [''user'', ''sessions'', u, sid]"
    using assms by (intro js_split_join) auto
  ultimately show ?thesis by (simp add: session_id_of_key_def arr_get_def)
qed

section \<open>Single operations on a reachable server\<close>

definition session_env_ok :: "'e session_env_scheme \<Rightarrow> bool" where
  "session_env_ok E \<longleftrightarrow> redis_ok (redis E) \<and> 0 < sessionTimeout E"

lemma session_env_okD [simp]:
  "session_env_ok E \<Longrightarrow> redis_ok (redis E)" "session_env_ok E \<Longrightarrow> 0 < sessionTimeout E"
  by (simp_all add: session_env_ok_def)

text \<open>The session stored under an id, and its user.\<close>

definition session_at :: "kv_store \<Rightarrow> string \<Rightarrow> jsval" where
  "session_at m sid = cached m (session_key sid)"

definition session_user :: "kv_store \<Rightarrow> string \<Rightarrow> string option" where
  "session_user m sid =
     (case js_get (session_at m sid) ''userId'' of JStr u \<Rightarrow> Some u | _ \<Rightarrow> None)"

lemma session_at_upd [simp]:
  "k \<noteq> session_key sid \<Longrightarrow> session_at (m(k := x)) sid = session_at m sid"
  by (simp add: session_at_def cached_upd[of "session_key sid" k])

lemma session_at_restrict [simp]:
  "session_key sid \<notin> D \<Longrightarrow> session_at (m |` (- D)) sid = session_at m sid"
  by (simp add: session_at_def cached_def)

lemma session_at_missing [simp]: "m (session_key sid) = None \<Longrightarrow> session_at m sid = JNull"
  by (simp add: session_at_def cached_def)

lemma session_user_dom: "session_user m sid = Some u \<Longrightarrow> session_key sid \<in> dom m"
  by (cases "m (session_key sid)") (auto simp: session_user_def)

lemma getSession_missing:
  "redis_ok (redis E) \<Longrightarrow> session_at (kv s) sid = JNull \<Longrightarrow> getSession E sid s = (Inr JNull, s)"
  by (simp add: getSession_def act_simps session_at_def)

lemma getSession_object:
  "redis_ok (redis E) \<Longrightarrow> session_at (kv s) sid = JObj kvs \<Longrightarrow> getSession E sid s = (Inr (JObj kvs), s)"
  by (simp add: getSession_def act_simps session_at_def)

lemma json_ok_session_object: "json_ok (session_object d t)"
  by (simp add: session_object_def)

lemma createSession_run:
  assumes "session_env_ok E"
  shows "createSession E d s =
    (let sid = uuid_src E (uuid_count s) in
     (Inr sid, s\<lparr>uuid_count := Suc (uuid_count s), clock_reads := Suc (clock_reads s),
        kv := (kv s)(session_key sid \<mapsto>
                  (stringify (session_object d (clock E (clock_reads s))), Some (1000 * sessionTimeout E)),
                track_key (cs_userId d) sid \<mapsto> (''true'', Some (1000 * sessionTimeout E)))\<rparr>))"
  using assms by (simp add: createSession_def act_simps Let_def)

lemma destroySession_run:
  assumes "session_env_ok E" "session_at (kv s) sid = JObj kvs" "js_get (JObj kvs) ''userId'' = JStr u"
  shows "destroySession E sid s =
    (Inr (), s\<lparr>kv := (kv s)(session_key sid := None, track_key u sid := None)\<rparr>)"
  using assms by (simp add: destroySession_def act_simps getSession_object)

lemma destroySession_missing:
  assumes "session_env_ok E" "session_at (kv s) sid = JNull"
  shows "destroySession E sid s = (Inr (), s)"
  using assms by (simp add: destroySession_def act_simps getSession_missing)

lemma extendSession_missing:
  assumes "session_env_ok E" "session_at (kv s) sid = JNull"
  shows "extendSession E sid s = (Inr JNull, s)"
  using assms by (simp add: extendSession_def act_simps getSession_missing)

text \<open>The session object with \<open>lastActivity\<close> set to a date.\<close>

definition touched :: "(string \<times> jsval) list \<Rightarrow> int \<Rightarrow> jsval" where
  "touched kvs t = JObj (map_set kvs ''lastActivity'' (JDate t))"

lemma js_get_touched [simp]:
  "js_get (touched kvs t) k = (if k = ''lastActivity'' then JDate t else js_get (JObj kvs) k)"
  by (simp add: touched_def)

lemma extendSession_run:
  assumes "session_env_ok E" "session_at (kv s) sid = JObj kvs" "js_get (JObj kvs) ''userId'' = JStr u"
  shows "extendSession E sid s =
    (Inr (touched kvs (clock E (clock_reads s))),
     s\<lparr>clock_reads := Suc (clock_reads s),
       kv := (kv s)(session_key sid \<mapsto>
                 (stringify (touched kvs (clock E (clock_reads s))), Some (1000 * sessionTimeout E)),
               track_key u sid \<mapsto> (''true'', Some (1000 * sessionTimeout E)))\<rparr>)"
proof -
  have "js_get (JObj (map_set kvs ''lastActivity'' (JDate (clock E (clock_reads s))))) ''userId'' = JStr u"
    using assms(3) by simp
  then show ?thesis
    using assms(1) getSession_object[OF session_env_okD(1)[OF assms(1)] assms(2)]
    by (simp add: extendSession_def act_simps assign_prop_def touched_def del: js_get.simps)
qed

end
