(* ===== verification/Encrypt.thy ===== *)
theory Encrypt
  imports Sessions
begin

text \<open>
  \<open>encrypt/encrypt.service.ts\<close> over bcrypt. The library's \<open>hash\<close> and \<open>compare\<close> are parameters; the
  documented behaviour the services rely on is \<open>bcrypt_ok\<close>: a string is hashed with a salt, the
  result is not empty, and a comparison hashes the plain text with the salt of the stored hash
  and tells whether the result is the stored one.
\<close>

record encrypt_env = session_env +
  bc_hash :: "string \<Rightarrow> string \<Rightarrow> exn + string"
  bc_compare :: "string \<Rightarrow> string \<Rightarrow> exn + bool"
  es_salt :: "nat \<Rightarrow> string"

text \<open>
  \<open>this.salt\<close>: the constructor generates a salt once in the life of a process, so \<open>es_salt E n\<close> is the
  one in use after the \<open>n\<close>-th restart. A stored hash may have the salt of an earlier process.
\<close>

record hash_dto =
  hd_userName :: "string option"
  hd_email :: "string option"
  hd_password :: "string option"

text \<open>\<open>if (x) result.f = await bcrypt.hash(x, salt)\<close>: absent and empty fields are skipped.\<close>

definition bc_hash_salted :: "'e encrypt_env_scheme \<Rightarrow> string \<Rightarrow> ('z runtime_scheme, string) act" where
  "bc_hash_salted E v = (\<lambda>s. (bc_hash E v (es_salt E (starts s)), s))"

definition hash_field :: "'e encrypt_env_scheme \<Rightarrow> string option \<Rightarrow> ('z runtime_scheme, string option) act" where
  "hash_field E x =
     (case x of
        None \<Rightarrow> ok None
      | Some v \<Rightarrow>
          if v = [] then ok None
          else bnd (bc_hash_salted E v) (\<lambda>h. ok (Some h)))"

definition encrypt_hash :: "'e encrypt_env_scheme \<Rightarrow> hash_dto \<Rightarrow> ('z runtime_scheme, hash_dto) act" where
  "encrypt_hash E dataToHash =
     try_catch
       (bnd (hash_field E (hd_email dataToHash)) (\<lambda>email.
        bnd (hash_field E (hd_password dataToHash)) (\<lambda>password.
        bnd (hash_field E (hd_userName dataToHash)) (\<lambda>userName.
        ok \<lparr>hd_userName = userName, hd_email = email, hd_password = password\<rparr>))))
       (\<lambda>_. throw (AppException ENCRYPTION_FAILED BAD_REQUEST))"

definition hashLogin ::
  "'e encrypt_env_scheme \<Rightarrow> string \<Rightarrow> string \<Rightarrow> ('z runtime_scheme, string \<times> string) act" where
  "hashLogin E email password =
     try_catch
       (bnd (bc_hash_salted E email) (\<lambda>hashedEmail.
        bnd (bc_hash_salted E password) (\<lambda>hashedPassword.
        ok (hashedEmail, hashedPassword))))
       (\<lambda>_. throw (AppException ENCRYPTION_FAILED BAD_REQUEST))"

definition hashEmail :: "'e encrypt_env_scheme \<Rightarrow> string \<Rightarrow> ('z runtime_scheme, string) act" where
  "hashEmail E email =
     try_catch
       (bnd (bc_hash_salted E email) ok)
       (\<lambda>_. throw (AppException ENCRYPTION_FAILED BAD_REQUEST))"

definition compareHash :: "'e encrypt_env_scheme \<Rightarrow> string \<Rightarrow> string \<Rightarrow> ('s, bool) act" where
  "compareHash E hashedData plainText = lift_res (bc_compare E plainText hashedData)"

definition password_only :: "string \<Rightarrow> hash_dto" where
  "password_only p = \<lparr>hd_userName = None, hd_email = None, hd_password = Some p\<rparr>"

section \<open>bcrypt\<close>

definition bcrypt_ok :: "'e encrypt_env_scheme \<Rightarrow> bool" where
  "bcrypt_ok E \<longleftrightarrow>
     (\<forall>n p. \<exists>h. bc_hash E p (es_salt E n) = Inr h \<and> h \<noteq> [] \<and>
        (\<forall>q. bc_compare E q h = Inr (bc_hash E q (es_salt E n) = Inr h)))"

text \<open>The hash of a text with the salt of the process after the \<open>n\<close>-th restart.\<close>

definition hashed :: "'e encrypt_env_scheme \<Rightarrow> nat \<Rightarrow> string \<Rightarrow> string" where
  "hashed E n p = (case bc_hash E p (es_salt E n) of Inr h \<Rightarrow> h | Inl _ \<Rightarrow> [])"

lemma bcrypt_okD:
  assumes "bcrypt_ok E"
  shows "bc_hash E p (es_salt E n) = Inr (hashed E n p)" "hashed E n p \<noteq> []"
    "bc_compare E q (hashed E n p) = Inr (hashed E n q = hashed E n p)"
proof -
  from assms obtain h where h: "bc_hash E p (es_salt E n) = Inr h" "h \<noteq> []"
    "\<And>q. bc_compare E q h = Inr (bc_hash E q (es_salt E n) = Inr h)"
    unfolding bcrypt_ok_def by metis
  then show "bc_hash E p (es_salt E n) = Inr (hashed E n p)" "hashed E n p \<noteq> []"
    by (simp_all add: hashed_def)
  from assms obtain k where "bc_hash E q (es_salt E n) = Inr k" unfolding bcrypt_ok_def by metis
  with h show "bc_compare E q (hashed E n p) = Inr (hashed E n q = hashed E n p)"
    by (simp add: hashed_def)
qed

lemma bc_hash_salted_run [act_simps]:
  "bcrypt_ok E \<Longrightarrow> bc_hash_salted E p s = (Inr (hashed E (starts s) p), s)"
  by (simp add: bc_hash_salted_def bcrypt_okD)

lemma encrypt_hash_password:
  "bcrypt_ok E \<Longrightarrow> p \<noteq> [] \<Longrightarrow> encrypt_hash E (password_only p) s =
     (Inr (password_only (hashed E (starts s) p)), s)"
  by (simp add: encrypt_hash_def password_only_def hash_field_def act_simps)

lemma compareHash_run:
  "bcrypt_ok E \<Longrightarrow> compareHash E (hashed E n p) q s = (Inr (hashed E n q = hashed E n p), s)"
  by (simp add: compareHash_def act_simps bcrypt_okD)

lemma hd_password_only [simp]: "hd_password (password_only p) = Some p"
  by (simp add: password_only_def)

end
