(* ===== verification/Users.thy ===== *)
theory Users
  imports Encrypt
begin

text \<open>
  \<open>users/users.service.ts\<close> and \<open>users/entities/user.entity.ts\<close>: accounts in a collection with
  unique indexes on the id and on the email, deactivated instead of removed.
\<close>

section \<open>Data\<close>

record user =
  u_userId :: string
  u_email :: string
  u_username :: string
  u_password :: string
  u_firstName :: "string option"
  u_lastName :: "string option"
  u_photoUrl :: "string option"
  u_isActive :: bool
  u_roles :: "role list"

record create_user_dto =
  cu_username :: string
  cu_email :: string
  cu_password :: string
  cu_roles :: "role list"
  cu_firstName :: "string option"
  cu_lastName :: "string option"

text \<open>A field that is absent, undefined or null is \<open>None\<close>.\<close>

record update_user_dto =
  uu_username :: "string option"
  uu_email :: "string option"
  uu_password :: "string option"
  uu_firstName :: "string option"
  uu_lastName :: "string option"
  uu_photoUrl :: "string option"
  uu_roles :: "role list option"

record users_env = encrypt_env +
  user_repo :: "user repo"

record users_state = redis_state +
  users :: "user list"

definition on_users :: "(user list, 'a) act \<Rightarrow> ('z users_state_scheme, 'a) act" where
  "on_users m = zoom users (\<lambda>d. users_update (\<lambda>_. d)) m"

lemma on_users_run [act_simps]:
  "on_users m s = (fst (m (users s)), s\<lparr>users := snd (m (users s))\<rparr>)"
  by (simp add: on_users_def zoom_run)

section \<open>Lookups\<close>

definition findAllUsers :: "'e users_env_scheme \<Rightarrow> ('z users_state_scheme, user list) act" where
  "findAllUsers E = on_users (r_find (user_repo E) (\<lambda>_. True))"

definition findUserById ::
  "'e users_env_scheme \<Rightarrow> string \<Rightarrow> ('z users_state_scheme, user option) act" where
  "findUserById E userId =
     on_users (r_findOne (user_repo E) (\<lambda>u. u_userId u = userId \<and> u_isActive u))"

definition findUserByEmail ::
  "'e users_env_scheme \<Rightarrow> string \<Rightarrow> ('z users_state_scheme, user option) act" where
  "findUserByEmail E email =
     on_users (r_findOne (user_repo E) (\<lambda>u. u_email u = email \<and> u_isActive u))"

text \<open>\<open>findOne({where: {userId}})\<close>, with no condition on \<open>isActive\<close>.\<close>

definition find_any_by_id ::
  "'e users_env_scheme \<Rightarrow> string \<Rightarrow> ('z users_state_scheme, user option) act" where
  "find_any_by_id E userId = on_users (r_findOne (user_repo E) (\<lambda>u. u_userId u = userId))"

section \<open>Creation\<close>

text \<open>\<open>save\<close> of a new record: \<open>@BeforeInsert\<close> gives it a fresh id, also in the caller's object.\<close>

definition save_user ::
  "'e users_env_scheme \<Rightarrow> user \<Rightarrow> ('z users_state_scheme, user) act" where
  "save_user E u =
     bnd (uuidv4 E) (\<lambda>userId. on_users (r_save (user_repo E) (u\<lparr>u_userId := userId\<rparr>)))"

definition user_record :: "create_user_dto \<Rightarrow> string \<Rightarrow> user" where
  "user_record d password = \<lparr>u_userId = [], u_email = cu_email d, u_username = cu_username d,
     u_password = password, u_firstName = cu_firstName d, u_lastName = cu_lastName d,
     u_photoUrl = None, u_isActive = True, u_roles = cu_roles d\<rparr>"

definition createUser ::
  "'e users_env_scheme \<Rightarrow> create_user_dto \<Rightarrow> ('z users_state_scheme, user) act" where
  "createUser E d =
     bnd (findUserByEmail E (cu_email d)) (\<lambda>existing.
     if existing \<noteq> None then throw (UnauthorizedException ''Email in Use'')
     else
       bnd (save_user E (user_record d (cu_password d))) (\<lambda>userRecord.
       bnd (find_any_by_id E (u_userId userRecord)) (\<lambda>created.
       case created of
         None \<Rightarrow> throw (ForbiddenException ''Create user failed'')
       | Some u \<Rightarrow> ok u)))"

text \<open>An undefined result of hashing is stored as it is; the record then has no password.\<close>

definition createUserManually ::
  "'e users_env_scheme \<Rightarrow> create_user_dto \<Rightarrow> ('z users_state_scheme, user) act" where
  "createUserManually E d =
     bnd (findUserByEmail E (cu_email d)) (\<lambda>existing.
     if existing \<noteq> None then throw (UnauthorizedException ''Email in Use'')
     else
       bnd (encrypt_hash E (password_only (cu_password d))) (\<lambda>h.
       let password = (case hd_password h of Some p \<Rightarrow> p | None \<Rightarrow> []) in
       bnd (save_user E (user_record d password)) (\<lambda>userRecord.
       bnd (find_any_by_id E (u_userId userRecord)) (\<lambda>created.
       case created of
         None \<Rightarrow> throw (ForbiddenException ''Create user failed'')
       | Some u \<Rightarrow> ok u))))"

section \<open>Updates\<close>

definition apply_user_update :: "update_user_dto \<Rightarrow> user \<Rightarrow> user" where
  "apply_user_update d u = u\<lparr>
     u_username := (case uu_username d of None \<Rightarrow> u_username u | Some x \<Rightarrow> x),
     u_email := (case uu_email d of None \<Rightarrow> u_email u | Some x \<Rightarrow> x),
     u_password := (case uu_password d of None \<Rightarrow> u_password u | Some x \<Rightarrow> x),
     u_firstName := (case uu_firstName d of None \<Rightarrow> u_firstName u | Some x \<Rightarrow> Some x),
     u_lastName := (case uu_lastName d of None \<Rightarrow> u_lastName u | Some x \<Rightarrow> Some x),
     u_photoUrl := (case uu_photoUrl d of None \<Rightarrow> u_photoUrl u | Some x \<Rightarrow> Some x),
     u_roles := (case uu_roles d of None \<Rightarrow> u_roles u | Some x \<Rightarrow> x)\<rparr>"

definition update_by_id ::
  "'e users_env_scheme \<Rightarrow> string \<Rightarrow> (user \<Rightarrow> user) \<Rightarrow> ('z users_state_scheme, unit) act" where
  "update_by_id E userId f = on_users (r_update (user_repo E) (\<lambda>u. u_userId u = userId) f)"

definition updateUser ::
  "'e users_env_scheme \<Rightarrow> string \<Rightarrow> update_user_dto \<Rightarrow> ('z users_state_scheme, user) act" where
  "updateUser E userId d =
     bnd (findUserById E userId) (\<lambda>found.
     case found of
       None \<Rightarrow> throw (NotFoundException ''User not Found'')
     | Some _ \<Rightarrow>
         bnd (case uu_password d of
                None \<Rightarrow> ok d
              | Some p \<Rightarrow>
                  if p = [] then ok d
                  else bnd (encrypt_hash E (password_only p)) (\<lambda>h. ok (d\<lparr>uu_password := hd_password h\<rparr>)))
           (\<lambda>filteredData.
         bnd (update_by_id E userId (apply_user_update filteredData)) (\<lambda>_.
         bnd (find_any_by_id E userId) (\<lambda>updated.
         case updated of
           None \<Rightarrow> throw (ForbiddenException ''Update user failed'')
         | Some u \<Rightarrow> ok u))))"

text \<open>
  The same without a body, which the pipe hands on as undefined: \<open>Object.entries(undefined)\<close> throws once the
  account is found.
\<close>

definition updateUser_undefined ::
  "'e users_env_scheme \<Rightarrow> string \<Rightarrow> ('z users_state_scheme, user) act" where
  "updateUser_undefined E userId =
     bnd (findUserById E userId) (\<lambda>found.
     case found of
       None \<Rightarrow> throw (NotFoundException ''User not Found'')
     | Some _ \<Rightarrow> throw (JsError ''Cannot convert undefined or null to object''))"

definition deleteUser ::
  "'e users_env_scheme \<Rightarrow> string \<Rightarrow> ('z users_state_scheme, string) act" where
  "deleteUser E userId =
     bnd (findUserById E userId) (\<lambda>found.
     case found of
       None \<Rightarrow> throw (NotFoundException ''User not found'')
     | Some _ \<Rightarrow>
         bnd (update_by_id E userId (\<lambda>u. u\<lparr>u_isActive := False\<rparr>)) (\<lambda>_.
         ok (''User with id '' @ userId @ '' was successfully deleted'')))"

section \<open>Roles\<close>

definition assignRoles ::
  "'e users_env_scheme \<Rightarrow> string \<Rightarrow> role list \<Rightarrow> ('z users_state_scheme, user) act" where
  "assignRoles E userId new_roles =
     bnd (findUserById E userId) (\<lambda>found.
     case found of
       None \<Rightarrow> throw (NotFoundException ''User not found'')
     | Some _ \<Rightarrow>
         bnd (update_by_id E userId (\<lambda>u. u\<lparr>u_roles := new_roles\<rparr>)) (\<lambda>_.
         bnd (findUserById E userId) (\<lambda>updated.
         case updated of
           None \<Rightarrow> throw (ForbiddenException ''Role Assign Failed'')
         | Some u \<Rightarrow> ok u)))"

definition addRoles ::
  "'e users_env_scheme \<Rightarrow> string \<Rightarrow> role list \<Rightarrow> ('z users_state_scheme, user) act" where
  "addRoles E userId rolesToAdd =
     bnd (findUserById E userId) (\<lambda>found.
     case found of
       None \<Rightarrow> throw (NotFoundException ''User not found'')
     | Some usr \<Rightarrow>
         let updatedRoles = set_to_array (u_roles usr @ rolesToAdd) in
         bnd (update_by_id E userId (\<lambda>u. u\<lparr>u_roles := updatedRoles\<rparr>)) (\<lambda>_.
         bnd (findUserById E userId) (\<lambda>updated.
         case updated of
           None \<Rightarrow> throw (ForbiddenException ''Add role to user failed'')
         | Some u \<Rightarrow> ok u)))"

definition removeRoles ::
  "'e users_env_scheme \<Rightarrow> string \<Rightarrow> role list \<Rightarrow> ('z users_state_scheme, user) act" where
  "removeRoles E userId rolesToRemove =
     bnd (findUserById E userId) (\<lambda>found.
     case found of
       None \<Rightarrow> throw (NotFoundException ''User not found'')
     | Some usr \<Rightarrow>
         let updatedRoles = filter (\<lambda>r. r \<notin> set rolesToRemove) (u_roles usr) in
         if updatedRoles = [] then
           throw (UnauthorizedException (''User must have at least one role. Current roles: '' @
             js_join '', '' (map role_value (u_roles usr))))
         else
           bnd (update_by_id E userId (\<lambda>u. u\<lparr>u_roles := updatedRoles\<rparr>)) (\<lambda>_.
           bnd (findUserById E userId) (\<lambda>updated.
           case updated of
             None \<Rightarrow> throw (ForbiddenException ''Remove user role failed'')
           | Some u \<Rightarrow> ok u)))"

definition getUserRoles ::
  "'e users_env_scheme \<Rightarrow> string \<Rightarrow> ('z users_state_scheme, user) act" where
  "getUserRoles E userId =
     bnd (findUserById E userId) (\<lambda>found.
     case found of None \<Rightarrow> throw (NotFoundException ''User not found'') | Some u \<Rightarrow> ok u)"

end
