(* ===== verification/Auth.thy ===== *)
theory Auth
  imports Users
begin

text \<open>
  \<open>auth/cookie.service.ts\<close> and \<open>auth/auth.service.ts\<close>: session cookies on the response, and
  signup, login, logout, password change and reset over the user directory, bcrypt and the
  session store. The response is the list of cookie operations performed on it; a request carries
  what the service reads of it and what the guards attached to it.
\<close>

section \<open>Requests and responses\<close>

record cookie_options =
  co_httpOnly :: bool
  co_secure :: "bool option"
  co_sameSite :: string
  co_maxAge :: "int option"
  co_expires :: "int option"
  co_path :: "string option"

datatype cookie_op =
    SetCookie string string cookie_options
  | ClearCookie string cookie_options

record http_request =
  rq_cookies :: "string \<rightharpoonup> string"
  rq_headers :: "string \<Rightarrow> jsval"
  rq_remoteAddress :: "string option"
  rq_sessionId :: jsval
  rq_user :: jsval
  rq_roles :: jsval

record auth_env = users_env +
  cookie_created :: int

record auth_state = users_state +
  res_cookies :: "cookie_op list"

definition res_cookie :: "cookie_op \<Rightarrow> ('z auth_state_scheme, unit) act" where
  "res_cookie c = modify (\<lambda>s. s\<lparr>res_cookies := res_cookies s @ [c]\<rparr>)"

lemma res_cookie_run [act_simps]: "res_cookie c s = (Inr (), s\<lparr>res_cookies := res_cookies s @ [c]\<rparr>)"
  by (simp add: res_cookie_def act_simps)

section \<open>CookieService\<close>

text \<open>
  The cookie expires a day after the service was constructed. The name of the session cookie is
  read from the configuration at construction; here it is read where it is used.
\<close>

definition EXPIRE_DATE :: "'e auth_env_scheme \<Rightarrow> int" where
  "EXPIRE_DATE E = cookie_created E + 24 * 60 * 60 * 1000"

definition setTokensCookie ::
  "token_type \<Rightarrow> string \<Rightarrow> ('z auth_state_scheme, string) act" where
  "setTokensCookie tokenType token =
     try_catch
       (let cookieOptions = \<lparr>co_httpOnly = True, co_secure = None, co_sameSite = ''strict'',
              co_maxAge = Some (if tokenType = ACCESS_TOKEN then 15 * 60 * 1000
                                else 7 * 24 * 60 * 60 * 1000),
              co_expires = None, co_path = None\<rparr>;
            refreshToken = hd (js_split CHR ''.'' token) in
        bnd (res_cookie (SetCookie (token_type_value tokenType) refreshToken cookieOptions)) (\<lambda>_.
        ok (''Cookie for '' @ token_type_value tokenType @ '' set successfully'')))
       (\<lambda>_. throw (ForbiddenException ''Set Tokens Cookie Failed''))"

definition getRefreshTokenFromCookie ::
  "http_request \<Rightarrow> token_type \<Rightarrow> ('z auth_state_scheme, string) act" where
  "getRefreshTokenFromCookie req tokenType =
     (case rq_cookies req (token_type_value tokenType) of
        None \<Rightarrow> throw (UnauthorizedException ''Refresh token not found'')
      | Some t \<Rightarrow> if t = [] then throw (UnauthorizedException ''Refresh token not found'') else ok t)"

definition clearCookie :: "string \<Rightarrow> ('z auth_state_scheme, string) act" where
  "clearCookie key =
     try_catch
       (bnd (res_cookie (SetCookie key [] \<lparr>co_httpOnly = True, co_secure = None,
               co_sameSite = ''strict'', co_maxAge = Some 0, co_expires = None, co_path = Some ''/''\<rparr>)) (\<lambda>_.
        ok ''Cookie Cleared''))
       (\<lambda>_. throw (ForbiddenException ''Clear Cookie Failed''))"

definition setSessionCookie ::
  "'e auth_env_scheme \<Rightarrow> string \<Rightarrow> ('z auth_state_scheme, unit) act" where
  "setSessionCookie E sessionId =
     bnd (getOrThrow E ''SESSION_COOKIE_NAME'') (\<lambda>sessionCookieName.
     bnd (getOrThrow E ''NODE_ENV'') (\<lambda>env.
     res_cookie (SetCookie sessionCookieName sessionId
       \<lparr>co_httpOnly = True, co_secure = Some (env = ''production''), co_sameSite = ''strict'',
        co_maxAge = None, co_expires = Some (EXPIRE_DATE E), co_path = Some ''/''\<rparr>)))"

definition clearSessionCookie ::
  "'e auth_env_scheme \<Rightarrow> ('z auth_state_scheme, unit) act" where
  "clearSessionCookie E =
     bnd (getOrThrow E ''SESSION_COOKIE_NAME'') (\<lambda>sessionCookieName.
     res_cookie (ClearCookie sessionCookieName
       \<lparr>co_httpOnly = True, co_secure = None, co_sameSite = ''strict'',
        co_maxAge = None, co_expires = None, co_path = Some ''/''\<rparr>))"

section \<open>AuthService\<close>

record signup_dto =
  sg_username :: string
  sg_email :: string
  sg_password :: string

record login_dto =
  li_email :: string
  li_password :: string

record change_password_dto =
  cp_oldPassword :: string
  cp_newPassword :: string
  cp_retypePassword :: string

record reset_password_dto =
  rp_token :: string
  rp_newPassword :: string
  rp_retypePassword :: string

definition getClientIp :: "http_request \<Rightarrow> string" where
  "getClientIp req =
     (case rq_headers req ''x-forwarded-for'' of
        JStr forwarded \<Rightarrow> js_trim (hd (js_split CHR '','' forwarded))
      | _ \<Rightarrow> (case rq_remoteAddress req of
                None \<Rightarrow> ''unknown''
              | Some a \<Rightarrow> if a = [] then ''unknown'' else a))"

definition getClientUserAgent :: "http_request \<Rightarrow> string" where
  "getClientUserAgent req =
     (case rq_headers req ''user-agent'' of
        JStr a \<Rightarrow> if a = [] then ''unknown'' else a
      | _ \<Rightarrow> ''unknown'')"

definition auth_createSession ::
  "'e auth_env_scheme \<Rightarrow> user \<Rightarrow> http_request \<Rightarrow> ('z auth_state_scheme, unit) act" where
  "auth_createSession E usr req =
     bnd (createSession E \<lparr>cs_userId = u_userId usr, cs_username = u_username usr, cs_roles = u_roles usr,
            cs_ipAddress = getClientIp req, cs_userAgent = getClientUserAgent req\<rparr>) (\<lambda>sessionId.
     setSessionCookie E sessionId)"

definition signup ::
  "'e auth_env_scheme \<Rightarrow> signup_dto \<Rightarrow> http_request \<Rightarrow> ('z auth_state_scheme, user) act" where
  "signup E d req =
     (if sg_email d = [] \<or> sg_username d = [] \<or> sg_password d = []
      then throw (AppException INVALID_REQUEST BAD_REQUEST)
      else
        bnd (findUserByEmail E (sg_email d)) (\<lambda>existingUser.
        if existingUser \<noteq> None then throw (AppException EMAIL_ALREADY_EXISTS CONFLICT)
        else
          bnd (encrypt_hash E (password_only (sg_password d))) (\<lambda>h.
          case hd_password h of
            None \<Rightarrow> throw (AppException INVALID_CREDENTIALS UNAUTHORIZED)
          | Some hashedPassword \<Rightarrow>
              if hashedPassword = [] then throw (AppException INVALID_CREDENTIALS UNAUTHORIZED)
              else
                bnd (createUser E \<lparr>cu_username = sg_username d, cu_email = sg_email d,
                       cu_password = hashedPassword, cu_roles = [VIEWER], cu_firstName = None,
                       cu_lastName = None\<rparr>) (\<lambda>createdUser.
                bnd (auth_createSession E createdUser req) (\<lambda>_. ok createdUser)))))"

definition login ::
  "'e auth_env_scheme \<Rightarrow> login_dto \<Rightarrow> http_request \<Rightarrow> ('z auth_state_scheme, user) act" where
  "login E d req =
     bnd (findUserByEmail E (li_email d)) (\<lambda>found.
     case found of
       None \<Rightarrow> throw (AppException INVALID_CREDENTIALS UNAUTHORIZED)
     | Some usr \<Rightarrow>
         bnd (compareHash E (u_password usr) (li_password d)) (\<lambda>isPasswordValid.
         if \<not> isPasswordValid then throw (AppException INVALID_CREDENTIALS UNAUTHORIZED)
         else bnd (auth_createSession E usr req) (\<lambda>_. ok usr)))"

text \<open>\<open>req.user?.userId\<close>.\<close>

definition req_userId :: "http_request \<Rightarrow> jsval" where
  "req_userId req = (if nullish (rq_user req) then JUndefined else js_get (rq_user req) ''userId'')"

definition logout ::
  "'e auth_env_scheme \<Rightarrow> http_request \<Rightarrow> ('z auth_state_scheme, string) act" where
  "logout E req =
     (if \<not> truthy (rq_sessionId req) then throw (UnauthorizedException ''Session not found'')
      else
        bnd (destroySession E (js_to_string (rq_sessionId req))) (\<lambda>_.
        bnd (clearSessionCookie E) (\<lambda>_.
        ok ''Logged out successfully'')))"

text \<open>An act that may run forever, from \<open>invalidateUserSessions\<close> on, is an option.\<close>

definition run_after ::
  "('s, 'a) act \<Rightarrow> ('a \<Rightarrow> 's \<Rightarrow> ((exn + 'b) \<times> 's) option) \<Rightarrow> 's \<Rightarrow> ((exn + 'b) \<times> 's) option" where
  "run_after m f s = (case m s of (Inl e, s') \<Rightarrow> Some (Inl e, s') | (Inr x, s') \<Rightarrow> f x s')"

definition password_update :: "string \<Rightarrow> update_user_dto" where
  "password_update p = \<lparr>uu_username = None, uu_email = None, uu_password = Some p, uu_firstName = None,
     uu_lastName = None, uu_photoUrl = None, uu_roles = None\<rparr>"

text \<open>The last two steps of changing and of resetting a password.\<close>

definition store_password ::
  "'e auth_env_scheme \<Rightarrow> string \<Rightarrow> string \<Rightarrow> string \<Rightarrow> 'z auth_state_scheme \<Rightarrow>
     ((exn + string) \<times> 'z auth_state_scheme) option" where
  "store_password E userId newPassword reply =
     run_after
       (bnd (encrypt_hash E (password_only newPassword)) (\<lambda>h.
        case hd_password h of
          None \<Rightarrow> throw (AppException ENCRYPTION_FAILED INTERNAL_SERVER_ERROR)
        | Some hashedPassword \<Rightarrow>
            if hashedPassword = [] then throw (AppException ENCRYPTION_FAILED INTERNAL_SERVER_ERROR)
            else updateUser E userId (password_update hashedPassword)))
       (\<lambda>_ s. case invalidateUserSessions E userId s of
          None \<Rightarrow> None
        | Some (Inl e, s') \<Rightarrow> Some (Inl e, s')
        | Some (Inr _, s') \<Rightarrow> Some (Inr reply, s'))"

definition changePassword ::
  "'e auth_env_scheme \<Rightarrow> http_request \<Rightarrow> change_password_dto \<Rightarrow> 'z auth_state_scheme \<Rightarrow>
     ((exn + string) \<times> 'z auth_state_scheme) option" where
  "changePassword E req d =
     run_after
       (if cp_newPassword d \<noteq> cp_retypePassword d
        then throw (AppException PASSWORDS_DO_NOT_MATCH BAD_REQUEST)
        else if \<not> truthy (req_userId req) then throw (AppException USER_NOT_FOUND NOT_FOUND)
        else
          (let userId = js_to_string (req_userId req) in
           bnd (findUserById E userId) (\<lambda>found.
           case found of
             None \<Rightarrow> throw (AppException USER_NOT_FOUND NOT_FOUND)
           | Some usr \<Rightarrow>
               bnd (compareHash E (u_password usr) (cp_oldPassword d)) (\<lambda>isOldPasswordValid.
               if \<not> isOldPasswordValid then throw (AppException INVALID_CREDENTIALS UNAUTHORIZED)
               else ok userId))))
       (\<lambda>userId. store_password E userId (cp_newPassword d)
          ''Password changed successfully. Please login again.'')"

definition requestPasswordReset ::
  "'e auth_env_scheme \<Rightarrow> string \<Rightarrow> ('z auth_state_scheme, string) act" where
  "requestPasswordReset E email =
     bnd (findUserByEmail E email) (\<lambda>found.
     if found = None then throw (AppException USER_NOT_FOUND NOT_FOUND)
     else uuidv4 E)"

definition resetPassword ::
  "'e auth_env_scheme \<Rightarrow> reset_password_dto \<Rightarrow> 'z auth_state_scheme \<Rightarrow>
     ((exn + string) \<times> 'z auth_state_scheme) option" where
  "resetPassword E d =
     (let userId = ''user-id-from-token'' in
      run_after
        (if rp_token d = [] then throw (AppException INVALID_REQUEST BAD_REQUEST)
         else if rp_newPassword d \<noteq> rp_retypePassword d
         then throw (AppException PASSWORDS_DO_NOT_MATCH BAD_REQUEST)
         else if userId = ''user-id-from-token'' then throw (AppException INVALID_REQUEST BAD_REQUEST)
         else
           bnd (findUserById E userId) (\<lambda>found.
           if found = None then throw (AppException USER_NOT_FOUND NOT_FOUND) else ok ()))
        (\<lambda>_. store_password E userId (rp_newPassword d)
           ''Password reset successfully. Please login with your new password.''))"

end
