(* ===== verification/Guards.thy ===== *)
theory Guards
  imports Auth
begin

text \<open>
  What stands before the handlers: \<open>common/guard/session-auth.guard.ts\<close>,
  \<open>common/guard/roles.guard.ts\<close>, the session middleware, and the pipeline NestJS runs for a route
  with \<open>@UseGuards(SessionAuthGuard, RolesGuard)\<close> and \<open>@Roles(...)\<close>. A guard that lets a request
  through returns it with what it attached.
\<close>

section \<open>SessionAuthGuard\<close>

definition attach_session :: "jsval \<Rightarrow> string \<Rightarrow> http_request \<Rightarrow> http_request" where
  "attach_session sessionData sessionId req = req\<lparr>
     rq_user := JObj [(''userId'', js_get sessionData ''userId''),
                      (''username'', js_get sessionData ''username''),
                      (''roles'', js_get sessionData ''roles''),
                      (''loginTime'', js_get sessionData ''loginTime''),
                      (''lastActivity'', js_get sessionData ''lastActivity'')],
     rq_roles := js_get sessionData ''roles'',
     rq_sessionId := JStr sessionId\<rparr>"

text \<open>The debug line joins \<open>sessionData.roles\<close>, which only an array can do.\<close>

definition join_roles :: "jsval \<Rightarrow> ('s, unit) act" where
  "join_roles v = (case v of JArr _ \<Rightarrow> ok () | _ \<Rightarrow> throw (JsError ''TypeError''))"

definition SessionAuthGuard ::
  "'e session_env_scheme \<Rightarrow> http_request \<Rightarrow> ('z redis_state_scheme, http_request) act" where
  "SessionAuthGuard E req =
     bnd (getOrThrow E ''SESSION_COOKIE_NAME'') (\<lambda>cookieName.
     let sessionId = (case rq_cookies req cookieName of None \<Rightarrow> [] | Some c \<Rightarrow> c) in
     if sessionId = [] then throw (UnauthorizedException ''Session not found. Please login.'')
     else
       try_catch
         (bnd (getSession E sessionId) (\<lambda>sessionData0.
          if \<not> truthy sessionData0
          then throw (UnauthorizedException ''Session expired or invalid. Please login again.'')
          else
            bnd (extendSession E sessionId) (\<lambda>sessionData.
            if \<not> truthy sessionData
            then throw (UnauthorizedException ''Failed to extend session. Please login again.'')
            else
              bnd (join_roles (js_get sessionData ''roles'')) (\<lambda>_.
              ok (attach_session sessionData sessionId req)))))
         (\<lambda>e. case e of
            UnauthorizedException m \<Rightarrow> throw (UnauthorizedException m)
          | _ \<Rightarrow> throw (UnauthorizedException ''Authentication failed. Please login again.'')))"

section \<open>RolesGuard\<close>

definition join_vals :: "jsval list \<Rightarrow> string" where
  "join_vals vs = js_join '', '' (map (\<lambda>v. if nullish v then [] else js_to_string v) vs)"

text \<open>
  \<open>requiredRoles\<close> is what the reflector finds on the handler or else on the class. Roles that are
  neither falsy nor an array have no \<open>includes\<close> or no \<open>join\<close>, so the guard throws.
\<close>

definition RolesGuard :: "role list option \<Rightarrow> http_request \<Rightarrow> exn + bool" where
  "RolesGuard requiredRoles req =
     (case requiredRoles of
        None \<Rightarrow> Inr True
      | Some required \<Rightarrow>
          if required = [] then Inr True
          else
            (case rq_roles req of
               JArr userRoles \<Rightarrow>
                 if userRoles = [] then Inl (ForbiddenException ''Access denied - no user roles found'')
                 else if \<exists>r \<in> set required. JStr (role_value r) \<in> set userRoles then Inr True
                 else Inl (ForbiddenException (''Access denied. Required roles: '' @
                        js_join '', '' (map role_value required) @ ''. Your roles: '' @ join_vals userRoles))
             | userRoles \<Rightarrow>
                 if \<not> truthy userRoles
                 then Inl (ForbiddenException ''Access denied - no user roles found'')
                 else Inl (JsError ''TypeError'')))"

section \<open>SessionMiddleware\<close>

definition SESSION_COOKIE_NAME :: string where
  "SESSION_COOKIE_NAME = ''sessionId''"

definition SessionMiddleware ::
  "'e session_env_scheme \<Rightarrow> http_request \<Rightarrow> ('z redis_state_scheme, http_request) act" where
  "SessionMiddleware E req =
     (let sessionId = (case rq_cookies req SESSION_COOKIE_NAME of None \<Rightarrow> [] | Some c \<Rightarrow> c) in
      if sessionId = [] then throw (UnauthorizedException ''Session ended'')
      else
        bnd (getSession E sessionId) (\<lambda>data.
        if data = JNull then throw (UnauthorizedException ''Session empty'')
        else
          ok (req\<lparr>rq_user := JObj [(''userId'', js_get data ''userId''),
                (''username'', js_get data ''username''), (''userAgent'', js_get data ''userAgent''),
                (''userIp'', js_get data ''ipAddress''), (''userLoginTime'', js_get data ''loginTime''),
                (''userLastActivity'', js_get data ''lastActivity''),
                (''roles'', js_get data ''roles'')]\<rparr>)))"

section \<open>Routes\<close>

text \<open>
  The guards a route has: none, the session guard, or both with the roles of \<open>@Roles(...)\<close>.
\<close>

datatype route_guard = Public | Authenticated | Restricted "role list"

definition run_route ::
  "'e session_env_scheme \<Rightarrow> route_guard \<Rightarrow> (http_request \<Rightarrow> ('z redis_state_scheme, 'a) act) \<Rightarrow>
     http_request \<Rightarrow> ('z redis_state_scheme, 'a) act" where
  "run_route E g handler req =
     (case g of
        Public \<Rightarrow> handler req
      | Authenticated \<Rightarrow> bnd (SessionAuthGuard E req) handler
      | Restricted roles \<Rightarrow>
          bnd (SessionAuthGuard E req) (\<lambda>req'.
          bnd (lift_res (RolesGuard (Some roles) req')) (\<lambda>_. handler req')))"

end
