(* ===== verification/RequestDtos.thy ===== *)
theory RequestDtos
  imports Validation Users
begin

text \<open>
  The bodies of requests: the DTO classes of \<open>auth/dto\<close>, \<open>users/dto\<close>, \<open>mqtt-client/dto\<close> and
  \<open>device/dto\<close> as rules, and the global \<open>ValidationPipe\<close> of \<open>main.ts\<close>, which refuses properties that
  have no rule. Whether a text is an email address or a URL is for the package to say.
\<close>

section \<open>More decorators\<close>

definition MinLength :: "nat \<Rightarrow> validator" where
  "MinLength n = Custom (\<lambda>_ v. case v of JStr s \<Rightarrow> n \<le> length s | _ \<Rightarrow> False)"

definition MaxLength :: "nat \<Rightarrow> validator" where
  "MaxLength n = Custom (\<lambda>_ v. case v of JStr s \<Rightarrow> length s \<le> n | _ \<Rightarrow> False)"

definition MinNumber :: "rat \<Rightarrow> validator" where
  "MinNumber n = Custom (\<lambda>_ v. case v of JNum m \<Rightarrow> n \<le> m | _ \<Rightarrow> False)"

definition MaxNumber :: "rat \<Rightarrow> validator" where
  "MaxNumber n = Custom (\<lambda>_ v. case v of JNum m \<Rightarrow> m \<le> n | _ \<Rightarrow> False)"

definition ArrayMinSize :: "nat \<Rightarrow> validator" where
  "ArrayMinSize n = Custom (\<lambda>_ v. case v of JArr vs \<Rightarrow> n \<le> length vs | _ \<Rightarrow> False)"

definition ArrayMaxSize :: "nat \<Rightarrow> validator" where
  "ArrayMaxSize n = Custom (\<lambda>_ v. case v of JArr vs \<Rightarrow> length vs \<le> n | _ \<Rightarrow> False)"

text \<open>\<open>each: true\<close>: on an array the rule is applied to every element, on another value to the value.\<close>

definition Each :: "validator \<Rightarrow> validator" where
  "Each c = Custom (\<lambda>now v. case v of JArr vs \<Rightarrow> list_all (\<lambda>x. passes now x c) vs | _ \<Rightarrow> passes now v c)"

text \<open>\<open>/^[a-zA-Z0-9_]+$/\<close>\<close>

definition word_char :: "char \<Rightarrow> bool" where
  "word_char c \<longleftrightarrow> (let n = of_char c :: nat in
     (97 \<le> n \<and> n \<le> 122) \<or> (65 \<le> n \<and> n \<le> 90) \<or> (48 \<le> n \<and> n \<le> 57) \<or> n = 95)"

definition MatchesWord :: validator where
  "MatchesWord = Custom (\<lambda>_ v. case v of JStr s \<Rightarrow> s \<noteq> [] \<and> list_all word_char s | _ \<Rightarrow> False)"

record text_checks =
  is_email :: "string \<Rightarrow> bool"
  is_url :: "string \<Rightarrow> bool"

definition IsEmail :: "text_checks \<Rightarrow> validator" where
  "IsEmail T = Custom (\<lambda>_ v. case v of JStr s \<Rightarrow> is_email T s | _ \<Rightarrow> False)"

definition IsUrl :: "text_checks \<Rightarrow> validator" where
  "IsUrl T = Custom (\<lambda>_ v. case v of JStr s \<Rightarrow> is_url T s | _ \<Rightarrow> False)"

section \<open>Accounts\<close>

definition SignupDto :: "text_checks \<Rightarrow> dto_rules" where
  "SignupDto T = [(''username'', RequiredString), (''email'', [IsEmail T, IsNotEmpty]), (''password'', RequiredString)]"

definition LoginDto :: "text_checks \<Rightarrow> dto_rules" where
  "LoginDto T = [(''email'', [IsEmail T, IsNotEmpty]), (''password'', RequiredString)]"

definition ChangePasswordDto :: dto_rules where
  "ChangePasswordDto =
     [(''oldPassword'', RequiredString), (''newPassword'', RequiredString), (''retypePassword'', RequiredString)]"

definition ForgetPasswordDto :: "text_checks \<Rightarrow> dto_rules" where
  "ForgetPasswordDto T = [(''email'', [IsEmail T])]"

definition ResetPasswordDto :: dto_rules where
  "ResetPasswordDto = [(''token'', [IsString]), (''newPassword'', [IsString, MinLength 6]),
     (''retypePassword'', [IsString, MinLength 6])]"

definition CreateUserDto :: "text_checks \<Rightarrow> dto_rules" where
  "CreateUserDto T = [(''username'', [IsString, IsNotEmpty]), (''email'', [IsEmail T, IsNotEmpty]),
     (''password'', [IsString, IsNotEmpty]), (''roles'', [IsArray, IsNotEmpty]),
     (''firstName'', [IsString, IsOptional]), (''lastName'', [IsString, IsOptional])]"

text \<open>The roles of an update are any array.\<close>

definition UpdateUserDto :: "text_checks \<Rightarrow> dto_rules" where
  "UpdateUserDto T = [(''username'', [IsString, MinLength 3, MaxLength 20, MatchesWord, IsOptional]),
     (''email'', [IsEmail T, IsOptional]), (''password'', [IsString, MinLength 8, IsOptional]),
     (''firstName'', [IsString, MinLength 2, MaxLength 50, IsOptional]),
     (''lastName'', [IsString, MinLength 2, MaxLength 50, IsOptional]),
     (''photoUrl'', [IsUrl T, IsOptional]), (''roles'', [IsArray, IsOptional])]"

definition all_roles :: "role list" where
  "all_roles = [VIEWER, TEST, ENGINEER, ADMIN, SUPER_ADMIN]"

definition AssignRolesDto :: dto_rules where
  "AssignRolesDto = [(''roles'', [IsArray, Each (IsEnum (map role_value all_roles)), ArrayMinSize 1,
     ArrayMaxSize (length all_roles)])]"

section \<open>MQTT\<close>

definition MqttPublishDto :: dto_rules where
  "MqttPublishDto = [(''topic'', RequiredString), (''message'', [IsNotEmpty]), (''qos'', RequiredNumber),
     (''retain'', [IsBoolean, IsNotEmpty])]"

definition MqttSubscribeDto :: dto_rules where
  "MqttSubscribeDto = [(''topics'', [Each IsString, IsArray, IsNotEmpty]), (''deviceId'', DeviceIdProperty)]"

definition MqttConfigDto :: dto_rules where
  "MqttConfigDto =
     [(''host'', RequiredString), (''port'', RequiredNumber @ [MinNumber 1, MaxNumber 65535]),
      (''protocol'', OptionalString), (''username'', OptionalString), (''password'', OptionalString),
      (''clientId'', OptionalString), (''keepalive'', OptionalNumber @ [MinNumber 1]),
      (''ssl'', [IsBoolean, IsOptional]), (''ca'', OptionalString), (''cert'', OptionalString),
      (''key'', OptionalString), (''connectTimeout'', OptionalNumber @ [MinNumber 1000]),
      (''reconnectPeriod'', OptionalNumber @ [MinNumber 1000]), (''clean'', [IsBoolean, IsOptional]),
      (''autoReconnect'', [IsBoolean, IsOptional]), (''maxReconnectAttempts'', OptionalNumber @ [MinNumber 1]),
      (''willTopic'', OptionalString), (''willMessage'', OptionalString),
      (''willQos'', OptionalNumber @ [MinNumber 0, MaxNumber 2]), (''willRetain'', [IsBoolean, IsOptional])]"

section \<open>Devices\<close>

definition capability_values :: "string list" where
  "capability_values = map capability_value
     [TEMPERATURE, HUMIDITY, PRESSURE, LIGHT, MOTION, CO2, RELAY, GPS, AMMONIA]"

definition ControlDeviceDto :: dto_rules where
  "ControlDeviceDto = [(''command'', RequiredString)]"

definition QueryDeviceDto :: dto_rules where
  "QueryDeviceDto = [(''provisionState'', [IsOptional, IsEnum [''discovered'', ''unassigned'', ''assigned'', ''active'', ''error'']]),
     (''functionality'', [IsOptional, IsArray]), (''deviceId'', OptionalString)]"

definition PublishSensorFunctionalityDto :: dto_rules where
  "PublishSensorFunctionalityDto =
     [(''userId'', UserIdProperty), (''requestId'', RequestIdProperty), (''requestCode'', RequestCodeProperty),
      (''deviceId'', DeviceIdProperty), (''timestamp'', TimeStampProperty),
      (''functionality'', [Each (IsEnum capability_values), IsArray, IsNotEmpty]),
      (''publishTopic'', RequiredString), (''interval'', RequiredNumber), (''highSetPoint'', [IsNotEmpty]),
      (''lowSetPoint'', [IsNotEmpty]), (''ackRequired'', [IsBoolean, IsNotEmpty]), (''signature'', [IsString])]"

definition PublishTelemetryDto :: dto_rules where
  "PublishTelemetryDto =
     [(''userId'', UserIdProperty), (''requestId'', RequestIdProperty), (''requestCode'', RequestCodeProperty),
      (''deviceId'', DeviceIdProperty), (''timestamp'', TimeStampProperty)]"

text \<open>The property \<open>configuration\<close> of the class has no validation decorator, so it is no rule.\<close>

definition PublishSetDeviceConfigDto :: dto_rules where
  "PublishSetDeviceConfigDto =
     [(''userId'', UserIdProperty), (''requestId'', RequestIdProperty), (''requestCode'', RequestCodeProperty),
      (''deviceId'', DeviceIdProperty), (''timestamp'', TimeStampProperty)]"

section \<open>The pipe\<close>

fun own_keys :: "jsval \<Rightarrow> string list" where
  "own_keys (JObj kvs) = map fst kvs"
| "own_keys _ = []"

text \<open>\<open>whitelist\<close> and \<open>forbidNonWhitelisted\<close>; a body that is missing counts as an empty object.\<close>

definition empty_if_nil :: "jsval \<Rightarrow> jsval" where
  "empty_if_nil v = (if nullish v then JObj [] else v)"

definition pipe_accepts :: "int \<Rightarrow> dto_rules \<Rightarrow> jsval \<Rightarrow> bool" where
  "pipe_accepts now rules body \<longleftrightarrow>
     dto_valid now rules (empty_if_nil body) \<and> list_all (\<lambda>k. k \<in> set (map fst rules)) (own_keys (empty_if_nil body))"

lemma pipe_keys: "pipe_accepts now rules (JObj kvs) \<Longrightarrow> (k, v) \<in> set kvs \<Longrightarrow> k \<in> fst ` set rules"
  by (auto simp: pipe_accepts_def empty_if_nil_def list_all_iff) (metis fst_conv)

lemma pipe_property:
  assumes "pipe_accepts now rules body" "(f, vs) \<in> set rules" "IsOptional \<notin> set vs" "c \<in> set vs"
  shows "passes now (js_get (empty_if_nil body) f) c"
  using assms(1) dto_valid_property[OF _ assms(2-4)] by (simp add: pipe_accepts_def)

end
