(* ===== verification/AccountControllers.thy ===== *)
theory AccountControllers
  imports Guards RequestDtos ExceptionFilter
begin

text \<open>
  \<open>auth/auth.controller.ts\<close> and \<open>users/users.controller.ts\<close>: what each route makes of its validated
  body and parameters, and of the result of the service. A response body goes through
  \<open>common/interceptors/serialize.interceptor.ts\<close>, whose \<open>plainToInstance\<close> is a parameter; what its
  documentation says of \<open>excludeExtraneousValues\<close> is \<open>expose_ok\<close>.
\<close>

section \<open>Serialization\<close>

type_synonym exposer = "string list \<Rightarrow> jsval \<Rightarrow> jsval"

text \<open>
  Of an object only exposed properties remain, those with a primitive value unchanged; an array is
  taken element by element; null stays null.
\<close>

definition expose_ok :: "exposer \<Rightarrow> bool" where
  "expose_ok X \<longleftrightarrow>
     (\<forall>ks kvs. set (own_keys (X ks (JObj kvs))) \<subseteq> set ks \<and> (\<exists>m. X ks (JObj kvs) = JObj m) \<and>
        (\<forall>k \<in> set ks. js_primitive (js_get (JObj kvs) k) \<longrightarrow> js_get (X ks (JObj kvs)) k = js_get (JObj kvs) k)) \<and>
     (\<forall>ks vs. X ks (JArr vs) = JArr (map (X ks) vs)) \<and> (\<forall>ks. X ks JNull = JNull)"

fun mem_expose :: "string list \<Rightarrow> jsval \<Rightarrow> jsval" where
  "mem_expose ks (JObj kvs) = JObj (map (\<lambda>k. (k, js_get (JObj kvs) k)) ks)"
| "mem_expose ks (JArr vs) = JArr (map (mem_expose ks) vs)"
| "mem_expose ks v = v"

lemma mem_expose_ok [simp]: "expose_ok mem_expose"
proof -
  have "map_of (map (\<lambda>k. (k, f k)) ks) k = (if k \<in> set ks then Some (f k) else None)"
    for ks and k :: string and f :: "string \<Rightarrow> jsval" by (induction ks) auto
  then show ?thesis by (auto simp: expose_ok_def comp_def)
qed

definition UserResponseDto :: "string list" where
  "UserResponseDto = [''userId'', ''email'', ''username'', ''firstName'', ''lastName'', ''photoUrl'', ''isActive'',
     ''roles'', ''createdAt'', ''updatedAt'']"

definition AuthResponseDto :: "string list" where
  "AuthResponseDto = [''userId'', ''username'', ''roles'']"

definition RolesResponseDto :: "string list" where
  "RolesResponseDto = [''userId'', ''roles'']"

text \<open>\<open>SerializeInterceptor\<close>, and the entity it is applied to.\<close>

definition Serialize :: "exposer \<Rightarrow> string list \<Rightarrow> jsval \<Rightarrow> jsval" where
  "Serialize X exposed data = X exposed data"

definition opt_value :: "string option \<Rightarrow> jsval" where
  "opt_value v = (case v of None \<Rightarrow> JUndefined | Some t \<Rightarrow> JStr t)"

definition user_json :: "user \<Rightarrow> jsval" where
  "user_json u = JObj [(''userId'', JStr (u_userId u)), (''email'', JStr (u_email u)),
     (''username'', JStr (u_username u)), (''password'', JStr (u_password u)),
     (''firstName'', opt_value (u_firstName u)), (''lastName'', opt_value (u_lastName u)),
     (''photoUrl'', opt_value (u_photoUrl u)), (''isActive'', JBool (u_isActive u)),
     (''roles'', JArr (map (\<lambda>r. JStr (role_value r)) (u_roles u)))]"

section \<open>Bodies\<close>

text \<open>A validated text property; a property that is null or undefined is absent.\<close>

definition text_of :: "jsval \<Rightarrow> string" where
  "text_of v = (case v of JStr t \<Rightarrow> t | _ \<Rightarrow> [])"

definition opt_text :: "jsval \<Rightarrow> string option" where
  "opt_text v = (case v of JStr t \<Rightarrow> Some t | _ \<Rightarrow> None)"

definition role_of :: "jsval \<Rightarrow> role option" where
  "role_of v = List.find (\<lambda>r. v = JStr (role_value r)) all_roles"

fun roles_of_list :: "jsval list \<Rightarrow> role list option" where
  "roles_of_list [] = Some []"
| "roles_of_list (v # vs) =
     (case role_of v of
        None \<Rightarrow> None
      | Some r \<Rightarrow> (case roles_of_list vs of None \<Rightarrow> None | Some rs \<Rightarrow> Some (r # rs)))"

text \<open>None: an array with something that is no role, which the model of an account does not hold.\<close>

definition roles_of :: "jsval \<Rightarrow> role list option" where
  "roles_of v = (case v of JArr vs \<Rightarrow> roles_of_list vs | _ \<Rightarrow> None)"

definition opt_roles_of :: "jsval \<Rightarrow> role list option option" where
  "opt_roles_of v = (if nullish v then Some None else map_option Some (roles_of v))"

lemma roles_of_list_values [simp]: "roles_of_list (map (\<lambda>r. JStr (role_value r)) rs) = Some rs"
proof (induction rs)
  case (Cons r rs)
  then show ?case by (cases r) (simp_all add: role_of_def all_roles_def)
qed simp

text \<open>A handler: None when it does not end, or leaves what is modelled.\<close>

type_synonym ('s, 'a) reply = "'s \<Rightarrow> ((exn + 'a) \<times> 's) option"

definition replies :: "('s, 'a) act \<Rightarrow> ('a \<Rightarrow> jsval) \<Rightarrow> ('s, jsval) reply" where
  "replies m f = (\<lambda>s. Some (map_prod (map_sum id f) id (m s)))"

definition message_body :: "string \<Rightarrow> jsval" where
  "message_body m = JObj [(''message'', JStr m)]"

section \<open>AuthController\<close>

definition AuthController_signup ::
  "exposer \<Rightarrow> 'e auth_env_scheme \<Rightarrow> jsval \<Rightarrow> http_request \<Rightarrow> ('z auth_state_scheme, jsval) reply" where
  "AuthController_signup X E signupData req =
     replies (signup E \<lparr>sg_username = text_of (js_get signupData ''username''),
         sg_email = text_of (js_get signupData ''email''), sg_password = text_of (js_get signupData ''password'')\<rparr> req)
       (\<lambda>u. Serialize X AuthResponseDto (user_json u))"

definition AuthController_login ::
  "exposer \<Rightarrow> 'e auth_env_scheme \<Rightarrow> jsval \<Rightarrow> http_request \<Rightarrow> ('z auth_state_scheme, jsval) reply" where
  "AuthController_login X E loginData req =
     replies (login E \<lparr>li_email = text_of (js_get loginData ''email''),
         li_password = text_of (js_get loginData ''password'')\<rparr> req)
       (\<lambda>u. Serialize X AuthResponseDto (user_json u))"

definition AuthController_logout ::
  "'e auth_env_scheme \<Rightarrow> http_request \<Rightarrow> ('z auth_state_scheme, jsval) reply" where
  "AuthController_logout E req = replies (logout E req) message_body"

definition AuthController_changePassword ::
  "'e auth_env_scheme \<Rightarrow> jsval \<Rightarrow> http_request \<Rightarrow> ('z auth_state_scheme, jsval) reply" where
  "AuthController_changePassword E d req = (\<lambda>s. map_option (map_prod (map_sum id message_body) id)
     (changePassword E req \<lparr>cp_oldPassword = text_of (js_get d ''oldPassword''),
        cp_newPassword = text_of (js_get d ''newPassword''), cp_retypePassword = text_of (js_get d ''retypePassword'')\<rparr> s))"

definition AuthController_forgetPassword ::
  "'e auth_env_scheme \<Rightarrow> jsval \<Rightarrow> ('z auth_state_scheme, jsval) reply" where
  "AuthController_forgetPassword E forgetDto =
     replies (requestPasswordReset E (text_of (js_get forgetDto ''email''))) (\<lambda>t. JObj [(''resetToken'', JStr t)])"

definition AuthController_resetPassword ::
  "'e auth_env_scheme \<Rightarrow> jsval \<Rightarrow> ('z auth_state_scheme, jsval) reply" where
  "AuthController_resetPassword E d = (\<lambda>s. map_option (map_prod (map_sum id message_body) id)
     (resetPassword E \<lparr>rp_token = text_of (js_get d ''token''), rp_newPassword = text_of (js_get d ''newPassword''),
        rp_retypePassword = text_of (js_get d ''retypePassword'')\<rparr> s))"

section \<open>UsersController\<close>

definition UsersController_create ::
  "exposer \<Rightarrow> 'e users_env_scheme \<Rightarrow> jsval \<Rightarrow> ('z users_state_scheme, jsval) reply" where
  "UsersController_create X E d =
     (case roles_of (js_get d ''roles'') of
        None \<Rightarrow> (\<lambda>s. None)
      | Some rs \<Rightarrow>
          replies (createUserManually E \<lparr>cu_username = text_of (js_get d ''username''),
              cu_email = text_of (js_get d ''email''), cu_password = text_of (js_get d ''password''), cu_roles = rs,
              cu_firstName = opt_text (js_get d ''firstName''), cu_lastName = opt_text (js_get d ''lastName'')\<rparr>)
            (\<lambda>u. Serialize X UserResponseDto (user_json u)))"

definition UsersController_findAll ::
  "exposer \<Rightarrow> 'e users_env_scheme \<Rightarrow> ('z users_state_scheme, jsval) reply" where
  "UsersController_findAll X E =
     replies (findAllUsers E) (\<lambda>us. Serialize X UserResponseDto (JArr (map user_json us)))"

definition found_json :: "user option \<Rightarrow> jsval" where
  "found_json u = (case u of None \<Rightarrow> JNull | Some v \<Rightarrow> user_json v)"

definition UsersController_findById ::
  "exposer \<Rightarrow> 'e users_env_scheme \<Rightarrow> string \<Rightarrow> ('z users_state_scheme, jsval) reply" where
  "UsersController_findById X E i = replies (findUserById E i) (\<lambda>u. Serialize X UserResponseDto (found_json u))"

definition UsersController_getUserProfile ::
  "exposer \<Rightarrow> 'e users_env_scheme \<Rightarrow> http_request \<Rightarrow> ('z users_state_scheme, jsval) reply" where
  "UsersController_getUserProfile X E req =
     replies (findUserById E (text_of (req_userId req))) (\<lambda>u. Serialize X UserResponseDto (found_json u))"

definition update_body :: "jsval \<Rightarrow> update_user_dto option" where
  "update_body d = map_option (\<lambda>rs. \<lparr>uu_username = opt_text (js_get d ''username''),
       uu_email = opt_text (js_get d ''email''), uu_password = opt_text (js_get d ''password''),
       uu_firstName = opt_text (js_get d ''firstName''), uu_lastName = opt_text (js_get d ''lastName''),
       uu_photoUrl = opt_text (js_get d ''photoUrl''), uu_roles = rs\<rparr>) (opt_roles_of (js_get d ''roles''))"

definition UsersController_updateUser ::
  "exposer \<Rightarrow> 'e users_env_scheme \<Rightarrow> string \<Rightarrow> jsval \<Rightarrow> ('z users_state_scheme, jsval) reply" where
  "UsersController_updateUser X E i body =
     (if nullish body
      then replies (updateUser_undefined E i) (\<lambda>u. Serialize X UserResponseDto (user_json u))
      else case update_body body of
        None \<Rightarrow> (\<lambda>s. None)
      | Some d \<Rightarrow> replies (updateUser E i d) (\<lambda>u. Serialize X UserResponseDto (user_json u)))"

definition UsersController_updateUserProfile ::
  "exposer \<Rightarrow> 'e users_env_scheme \<Rightarrow> jsval \<Rightarrow> http_request \<Rightarrow> ('z users_state_scheme, jsval) reply" where
  "UsersController_updateUserProfile X E body req = UsersController_updateUser X E (text_of (req_userId req)) body"

definition UsersController_remove ::
  "'e users_env_scheme \<Rightarrow> string \<Rightarrow> ('z users_state_scheme, jsval) reply" where
  "UsersController_remove E i = replies (deleteUser E i) JStr"

text \<open>The four routes about roles serialize twice.\<close>

definition roles_response :: "exposer \<Rightarrow> user \<Rightarrow> jsval" where
  "roles_response X u = Serialize X RolesResponseDto (X RolesResponseDto (user_json u))"

definition with_roles ::
  "jsval \<Rightarrow> (role list \<Rightarrow> ('s, jsval) reply) \<Rightarrow> ('s, jsval) reply" where
  "with_roles body f = (case roles_of (js_get body ''roles'') of None \<Rightarrow> (\<lambda>s. None) | Some rs \<Rightarrow> f rs)"

definition UsersController_assignRoles ::
  "exposer \<Rightarrow> 'e users_env_scheme \<Rightarrow> string \<Rightarrow> jsval \<Rightarrow> ('z users_state_scheme, jsval) reply" where
  "UsersController_assignRoles X E i body = with_roles body (\<lambda>rs. replies (assignRoles E i rs) (roles_response X))"

definition UsersController_getUserRoles ::
  "exposer \<Rightarrow> 'e users_env_scheme \<Rightarrow> string \<Rightarrow> ('z users_state_scheme, jsval) reply" where
  "UsersController_getUserRoles X E i = replies (getUserRoles E i) (roles_response X)"

definition UsersController_addRoles ::
  "exposer \<Rightarrow> 'e users_env_scheme \<Rightarrow> string \<Rightarrow> jsval \<Rightarrow> ('z users_state_scheme, jsval) reply" where
  "UsersController_addRoles X E i body = with_roles body (\<lambda>rs. replies (addRoles E i rs) (roles_response X))"

definition UsersController_removeRoles ::
  "exposer \<Rightarrow> 'e users_env_scheme \<Rightarrow> string \<Rightarrow> jsval \<Rightarrow> ('z users_state_scheme, jsval) reply" where
  "UsersController_removeRoles X E i body = with_roles body (\<lambda>rs. replies (removeRoles E i rs) (roles_response X))"

end
