(* ===== verification/Gateway.thy ===== *)
theory Gateway
  imports Responses
begin

text \<open>
  \<open>gateway/gateway.service.ts\<close> with the entities and transfer objects of \<open>gateway/repository\<close> and
  \<open>gateway/dto\<close>: the sockets of the web clients, the messages they send, the handlers that store a
  message of a device and keep the last hundred in memory, and the topics the gateway follows. The
  handlers of messages are private and no listener is registered for them in this commit; they are
  modelled as the code states them.
\<close>

section \<open>Transfer objects and entities\<close>

datatype message_format = MF_JSON | MF_TEXT | MF_BINARY

datatype data_quality = DQ_EXCELLENT | DQ_GOOD | DQ_FAIR | DQ_POOR | DQ_ERROR

fun data_quality_value :: "data_quality \<Rightarrow> string" where
  "data_quality_value DQ_EXCELLENT = ''excellent''"
| "data_quality_value DQ_GOOD = ''good''"
| "data_quality_value DQ_FAIR = ''fair''"
| "data_quality_value DQ_POOR = ''poor''"
| "data_quality_value DQ_ERROR = ''error''"

text \<open>What a message says, as far as it is taken from the message: any value.\<close>

record sensor_data =
  sd_deviceId :: jsval
  sd_sensorType :: jsval
  sd_value :: jsval
  sd_unit :: jsval
  sd_quality :: jsval
  sd_location :: jsval
  sd_battery :: jsval
  sd_signalStrength :: jsval
  sd_additionalData :: jsval
  sd_timestamp :: jsval

record income_message =
  im_topic :: string
  im_rawData :: string
  im_parsedData :: sensor_data
  im_timestamp :: int
  im_messageFormat :: message_format
  im_messageSize :: nat
  im_qualityScore :: rat

text \<open>The stored message. A column that the constructor was not given is None.\<close>

record message_incoming =
  mi_deviceId :: jsval
  mi_topic :: string
  mi_payload :: "string option"
  mi_parsedPayload :: "sensor_data option"
  mi_messageSize :: nat
  mi_messageFormat :: message_format
  mi_qos :: "nat option"
  mi_retain :: "bool option"
  mi_dup :: "bool option"
  mi_direction :: string
  mi_status :: string
  mi_error :: "string option"
  mi_processingTime :: "int option"
  mi_processedAt :: "int option"

text \<open>\<open>/[\x00-\x08\x0E-\x1F]/.test(s)\<close>, and the format of a text.\<close>

definition binary_char :: "char \<Rightarrow> bool" where
  "binary_char c \<longleftrightarrow> (let n = of_char c :: nat in n \<le> 8 \<or> (14 \<le> n \<and> n \<le> 31))"

definition detectMessageFormat :: "string \<Rightarrow> message_format" where
  "detectMessageFormat rawData =
     (if json_parse rawData \<noteq> None then MF_JSON
      else if list_ex binary_char rawData then MF_BINARY else MF_TEXT)"

text \<open>The constructor of the entity: size and format come from the payload, whatever was passed.\<close>

definition entity_format :: "string option \<Rightarrow> message_format" where
  "entity_format payload =
     (case payload of None \<Rightarrow> MF_TEXT | Some p \<Rightarrow> if p = [] then MF_TEXT else detectMessageFormat p)"

definition new_MessageIncoming :: "message_incoming \<Rightarrow> message_incoming" where
  "new_MessageIncoming partial = partial\<lparr>
     mi_messageSize := (case mi_payload partial of None \<Rightarrow> 0 | Some p \<Rightarrow> length p),
     mi_messageFormat := entity_format (mi_payload partial)\<rparr>"

record gateway_env = device_env +
  message_repo :: "message_incoming repo"

text \<open>A socket is known by its \<open>id\<close>.\<close>

record gateway_state = device_state +
  messages :: "message_incoming list"
  recentSensorData :: "income_message list"
  subscriptionTracking :: "(string \<times> bool) list"
  connectedClients :: "(string \<times> string) list"
  clientSubscriptions :: "(string \<times> string list) list"

definition on_messages :: "(message_incoming list, 'a) act \<Rightarrow> ('z gateway_state_scheme, 'a) act" where
  "on_messages m = zoom messages (\<lambda>d. messages_update (\<lambda>_. d)) m"

lemma on_messages_run [act_simps]:
  "on_messages m s = (fst (m (messages s)), s\<lparr>messages := snd (m (messages s))\<rparr>)"
  by (simp add: on_messages_def zoom_run)

section \<open>Sockets\<close>

definition handleConnection :: "string \<Rightarrow> ('z gateway_state_scheme, unit) act" where
  "handleConnection clientId = modify (\<lambda>s. s\<lparr>
     connectedClients := map_set (connectedClients s) clientId clientId,
     clientSubscriptions := map_set (clientSubscriptions s) clientId []\<rparr>)"

definition handleDisconnect :: "string \<Rightarrow> ('z gateway_state_scheme, unit) act" where
  "handleDisconnect clientId = modify (\<lambda>s. s\<lparr>
     connectedClients := map_delete (connectedClients s) clientId,
     clientSubscriptions := map_delete (clientSubscriptions s) clientId\<rparr>)"

text \<open>The error message of a thrown value: of a value that is no error object, its JSON.\<close>

definition getErrorMessage :: "jsval + exn \<Rightarrow> string" where
  "getErrorMessage e =
     (case e of
        Inr ex \<Rightarrow> exn_message ex
      | Inl (JStr m) \<Rightarrow> m
      | Inl JUndefined \<Rightarrow> ''undefined''
      | Inl v \<Rightarrow> stringify v)"

section \<open>Messages to the web clients\<close>

definition emitDiscoveryUnicastMessage :: "jsval \<Rightarrow> ('z device_state_scheme, unit) act" where
  "emitDiscoveryUnicastMessage payload =
     try_catch (server_emit ''ws/message/discovery/unicast/response'' payload) (\<lambda>_. ok ())"

text \<open>A stored device as the object that goes over the socket; the database fills \<open>_id\<close> and the dates.\<close>

definition sensor_json :: "sensor \<Rightarrow> jsval" where
  "sensor_json d = JObj [(''isActive'', sn_isActive d), (''deviceId'', sn_deviceId d),
     (''deviceHardware'', sn_deviceHardware d), (''capabilities'', sn_capabilities d),
     (''controllers'', sn_controllers d), (''assignedFunctionality'', sn_assignedFunctionality d),
     (''provisionState'', JStr (provision_value (sn_provisionState d))),
     (''connectionState'', sn_connectionState d), (''isActuator'', JBool (sn_isActuator d)),
     (''hasError'', sn_hasError d), (''errorMessage'', sn_errorMessage d), (''lastValue'', sn_lastValue d),
     (''lastValueAt'', sn_lastValueAt d), (''firmware'', sn_firmware d), (''broker'', sn_broker d),
     (''isDeleted'', JBool (sn_isDeleted d)), (''lastReboot'', sn_lastReboot d),
     (''lastUpgrade'', sn_lastUpgrade d), (''configuration'', sn_configuration d)]"

definition emitQueryUnassignedDeviceMessage :: "sensor list \<Rightarrow> ('z device_state_scheme, unit) act" where
  "emitQueryUnassignedDeviceMessage result =
     try_catch (server_emit ''ws/message/unassinged/query/response'' (JArr (map sensor_json result))) (\<lambda>_. ok ())"

definition emitGetAllSensorsMessage :: "sensor list \<times> nat \<Rightarrow> ('z device_state_scheme, unit) act" where
  "emitGetAllSensorsMessage result =
     try_catch (server_emit ''ws/message/query/devices/all/response''
       (JObj [(''data'', JArr (map sensor_json (fst result))), (''total'', JNum (of_nat (snd result)))])) (\<lambda>_. ok ())"

section \<open>Messages of the web clients\<close>

definition handleDiscoveryBroadcast ::
  "'e device_env_scheme \<Rightarrow> jsval \<Rightarrow> ('z device_state_scheme, unit) act" where
  "handleDiscoveryBroadcast E payload =
     bnd (lift_res (js_get_or_throw payload ''userId'')) (\<lambda>userId. discoverDevicesBroadcast E userId)"

definition handleDiscoveryUnicast ::
  "'e device_env_scheme \<Rightarrow> jsval \<Rightarrow> ('z device_state_scheme, unit) act" where
  "handleDiscoveryUnicast E payload =
     bnd (lift_res (js_get_or_throw payload ''deviceId'')) (\<lambda>deviceId.
     discoverDeviceUnicast E (js_get payload ''userId'') deviceId)"

definition handleUnassigendDevicesQuery ::
  "'e device_env_scheme \<Rightarrow> jsval \<Rightarrow> ('z device_state_scheme, unit) act" where
  "handleUnassigendDevicesQuery E payload =
     bnd (getUnassignedSensor E) (\<lambda>result. emitQueryUnassignedDeviceMessage result)"

definition handleSensorProvision ::
  "'e device_env_scheme \<Rightarrow> jsval \<Rightarrow> jsval \<Rightarrow> ('z device_state_scheme, unit) act" where
  "handleSensorProvision E currentUser payload =
     bnd (AssignDeviceFunction E currentUser payload) (\<lambda>_. ok ())"

definition handleGetSensorsConfiguration ::
  "'e device_env_scheme \<Rightarrow> jsval \<Rightarrow> ('z device_state_scheme, unit) act" where
  "handleGetSensorsConfiguration E payload =
     bnd (getAllSensors E) (\<lambda>result. emitGetAllSensorsMessage result)"

text \<open>The events a socket may send, and what \<open>@SubscribeMessage\<close> makes of them.\<close>

definition socket_message ::
  "'e device_env_scheme \<Rightarrow> jsval \<Rightarrow> string \<Rightarrow> jsval \<Rightarrow> ('z device_state_scheme, unit) act" where
  "socket_message E currentUser eventName payload =
     (if eventName = ''react/message/discovery/broadcast/request'' then handleDiscoveryBroadcast E payload
      else if eventName = ''react/message/discovery/unicast/request'' then handleDiscoveryUnicast E payload
      else if eventName = ''react/message/device/query/unassinged/request''
      then handleUnassigendDevicesQuery E payload
      else if eventName = ''react/message/device/function/assign/request''
      then handleSensorProvision E currentUser payload
      else if eventName = ''react/message/query/devices/all/request''
      then handleGetSensorsConfiguration E payload
      else ok ())"

end
