(* ===== verification/GatewayMessages.thy ===== *)
theory GatewayMessages
  imports Gateway
begin

text \<open>
  The message side of \<open>gateway/gateway.service.ts\<close>: what a message of a device is parsed into, its
  quality, how it is stored and kept among the recent ones, the handlers per type of message, the
  topics the gateway subscribes to and the commands it publishes.
\<close>

section \<open>Parsing\<close>

text \<open>\<open>v < n\<close>: the left side is made a number first; an object or a text that is no number compares false.\<close>

definition text_below :: "string \<Rightarrow> rat \<Rightarrow> bool" where
  "text_below t n \<longleftrightarrow>
     (if js_trim t = ''-Infinity'' then True
      else case js_to_number t of None \<Rightarrow> False | Some m \<Rightarrow> m < n)"

fun js_below :: "jsval \<Rightarrow> rat \<Rightarrow> bool" where
  "js_below JUndefined n = False"
| "js_below JNull n = (0 < n)"
| "js_below (JBool b) n = ((if b then 1 else 0) < n)"
| "js_below (JNum m) n = (m < n)"
| "js_below (JStr t) n = text_below t n"
| "js_below (JDate t) n = (of_int t < n)"
| "js_below (JArr vs) n = text_below (js_to_string (JArr vs)) n"
| "js_below (JObj kvs) n = False"

definition unit_map :: "(string \<times> string) list" where
  "unit_map = [(''temperature'', [CHR 0xB0, CHR ''C'']), (''humidity'', ''%''), (''pressure'', ''hPa''),
     (''voltage'', ''V''), (''current'', ''A''), (''power'', ''W''), (''light'', ''lux'')]"

text \<open>
  Reading a property by a computed name also finds those every object inherits. They are functions,
  or the prototype itself; here such a value is an object without properties of its own.
\<close>

definition inherited_names :: "string list" where
  "inherited_names = [''constructor'', ''hasOwnProperty'', ''isPrototypeOf'', ''propertyIsEnumerable'',
     ''toLocaleString'', ''toString'', ''valueOf'', ''__proto__'', ''__defineGetter__'',
     ''__defineSetter__'', ''__lookupGetter__'', ''__lookupSetter__'']"

definition inferUnit :: "jsval \<Rightarrow> jsval" where
  "inferUnit sensorType =
     (let k = js_to_string sensorType in
      case map_of unit_map k of
        Some u \<Rightarrow> JStr u
      | None \<Rightarrow> if k \<in> set inherited_names then JObj [] else JStr ''unknown'')"

definition inferLocation :: "string \<Rightarrow> jsval" where
  "inferLocation tpc =
     (let parts = js_split (CHR ''/'') tpc in if length parts > 2 then JStr (parts ! 2) else JStr ''unknown'')"

definition determineDataQuality :: "jsval \<Rightarrow> jsval" where
  "determineDataQuality payload =
     (if truthy (js_get payload ''error'') \<or> strict_eq (js_get payload ''status'') (JStr ''error'')
      then JStr (data_quality_value DQ_ERROR)
      else if js_below (js_get payload ''battery'') 10 then JStr (data_quality_value DQ_POOR)
      else if js_below (js_get payload ''signalStrength'') (- 80) then JStr (data_quality_value DQ_FAIR)
      else if truthy (js_get payload ''quality'') then js_get payload ''quality''
      else JStr (data_quality_value DQ_GOOD))"

definition reservedFields :: "string list" where
  "reservedFields = [''value'', ''unit'', ''quality'', ''deviceId'', ''sensorType'', ''location'', ''battery'',
     ''signalStrength'', ''timestamp'', ''rssi'', ''error'', ''status'']"

text \<open>\<open>Object.entries\<close> of a value that is not nullish.\<close>

fun js_entries :: "jsval \<Rightarrow> (string \<times> jsval) list" where
  "js_entries (JObj kvs) = kvs"
| "js_entries (JArr vs) = zip (map show_nat [0..<length vs]) vs"
| "js_entries (JStr s) = zip (map show_nat [0..<length s]) (map (\<lambda>c. JStr [c]) s)"
| "js_entries _ = []"

text \<open>Assigning \<open>__proto__\<close> sets the prototype and adds no property.\<close>

definition extractAdditionalData :: "jsval \<Rightarrow> jsval" where
  "extractAdditionalData payload =
     JObj (foldl (\<lambda>d (k, v). if k \<notin> set reservedFields \<and> k \<noteq> ''__proto__'' then map_set d k v else d)
       [] (js_entries payload))"

text \<open>The properties are read in the order of the code; only the first read can fail.\<close>

definition parseSensorData ::
  "'e rt_env_scheme \<Rightarrow> string \<Rightarrow> jsval \<Rightarrow> ('z runtime_scheme, sensor_data) act" where
  "parseSensorData E tpc payload =
     (let topicParts = js_split (CHR ''/'') tpc in
      bnd (if length topicParts > 2 then ok (JStr (topicParts ! 2))
           else bnd (lift_res (js_get_or_throw payload ''deviceId'')) (\<lambda>d. ok (js_or d (JStr ''unknown'')))) (\<lambda>deviceId.
      bnd (if length topicParts > 1 \<and> topicParts ! 1 \<noteq> [] then ok (JStr (topicParts ! 1))
           else bnd (lift_res (js_get_or_throw payload ''sensorType'')) (\<lambda>t. ok (js_or t (JStr ''unknown'')))) (\<lambda>sensorType.
      bnd (lift_res (js_get_or_throw payload ''value'')) (\<lambda>value0.
      bnd (if nullish (js_get payload ''timestamp'')
           then bnd (date_now E) (\<lambda>now. ok (JStr (toISOString now)))
           else ok (js_get payload ''timestamp'')) (\<lambda>timestamp.
      ok \<lparr>sd_deviceId = deviceId, sd_sensorType = sensorType,
          sd_value = js_coalesce value0 (js_coalesce (js_get payload ''data'')
            (js_coalesce (js_get payload ''measurement'') (JStr ''unknown''))),
          sd_unit = js_coalesce (js_get payload ''unit'') (inferUnit sensorType),
          sd_quality = determineDataQuality payload,
          sd_location = js_coalesce (js_get payload ''location'') (inferLocation tpc),
          sd_battery = js_get payload ''battery'',
          sd_signalStrength = js_coalesce (js_get payload ''signalStrength'') (js_get payload ''rssi''),
          sd_additionalData = extractAdditionalData payload,
          sd_timestamp = timestamp\<rparr>)))))"

definition calculateQualityScore :: "sensor_data \<Rightarrow> rat" where
  "calculateQualityScore parsedData =
     (let s0 = 1;
          s1 = (if \<not> truthy (sd_value parsedData) \<or> sd_value parsedData = JStr ''unknown'' then s0 - 3 / 10 else s0);
          s2 = (if sd_unit parsedData = JStr ''unknown'' then s1 - 1 / 10 else s1);
          s3 = (if sd_quality parsedData = JStr (data_quality_value DQ_ERROR) then s2 - 5 / 10 else s2);
          s4 = (if sd_quality parsedData = JStr (data_quality_value DQ_POOR) then s3 - 3 / 10 else s3)
      in max 0 (min 1 s4))"

text \<open>\<open>Buffer.byteLength\<close>: the length in UTF-8.\<close>

definition byteLength :: "string \<Rightarrow> nat" where
  "byteLength s = sum_list (map (\<lambda>c. if of_char c < (128 :: nat) then 1 else 2) s)"

text \<open>For an undefined payload \<open>rawData\<close> is undefined, but then parsing has thrown.\<close>

definition createMessageDto ::
  "'e rt_env_scheme \<Rightarrow> string \<Rightarrow> jsval \<Rightarrow> string \<Rightarrow> ('z runtime_scheme, income_message) act" where
  "createMessageDto E tpc payload messageType =
     (let rawData = payloadStr payload in
      bnd (parseSensorData E tpc payload) (\<lambda>parsedData.
      bnd (date_now E) (\<lambda>now.
      ok \<lparr>im_topic = tpc, im_rawData = rawData, im_parsedData = parsedData, im_timestamp = now,
          im_messageFormat = MF_JSON, im_messageSize = byteLength rawData,
          im_qualityScore = calculateQualityScore parsedData\<rparr>)))"

section \<open>Storing\<close>

definition storeMessageInDatabase ::
  "'e gateway_env_scheme \<Rightarrow> income_message \<Rightarrow> int \<Rightarrow> ('z gateway_state_scheme, unit) act" where
  "storeMessageInDatabase E m processingTime =
     bnd (date_now E) (\<lambda>now.
     let messageEntity = new_MessageIncoming \<lparr>
           mi_deviceId = sd_deviceId (im_parsedData m), mi_topic = im_topic m,
           mi_payload = Some (im_rawData m), mi_parsedPayload = Some (im_parsedData m),
           mi_messageSize = im_messageSize m, mi_messageFormat = im_messageFormat m,
           mi_qos = Some 0, mi_retain = Some False, mi_dup = Some False,
           mi_direction = ''incoming'', mi_status = ''processed'', mi_error = None,
           mi_processingTime = Some processingTime, mi_processedAt = Some now\<rparr>
     in bnd (on_messages (r_save (message_repo E) messageEntity)) (\<lambda>_. ok ()))"

definition storeErrorInDatabase ::
  "'e gateway_env_scheme \<Rightarrow> string \<Rightarrow> jsval \<Rightarrow> string \<Rightarrow> ('z gateway_state_scheme, unit) act" where
  "storeErrorInDatabase E tpc payload err =
     (let errorEntity = new_MessageIncoming \<lparr>
           mi_deviceId = JStr ''unknown'', mi_topic = tpc,
           mi_payload = (if payload = JUndefined then None else Some (payloadStr payload)),
           mi_parsedPayload = None, mi_messageSize = 0, mi_messageFormat = MF_TEXT,
           mi_qos = None, mi_retain = None, mi_dup = None,
           mi_direction = ''incoming'', mi_status = ''error'', mi_error = Some err,
           mi_processingTime = None, mi_processedAt = None\<rparr>
      in try_catch (bnd (on_messages (r_save (message_repo E) errorEntity)) (\<lambda>_. ok ())) (\<lambda>_. ok ()))"

abbreviation MAX_RECENT_DATA :: nat where "MAX_RECENT_DATA \<equiv> 100"

definition push_recent :: "income_message \<Rightarrow> income_message list \<Rightarrow> income_message list" where
  "push_recent m recent =
     (let r = m # recent in if length r > MAX_RECENT_DATA then take MAX_RECENT_DATA r else r)"

definition storeRecentData :: "income_message \<Rightarrow> ('z gateway_state_scheme, unit) act" where
  "storeRecentData sensorData = modify (\<lambda>s. s\<lparr>recentSensorData := push_recent sensorData (recentSensorData s)\<rparr>)"

definition getRecentSensorData :: "('z gateway_state_scheme, income_message list) act" where
  "getRecentSensorData = gets recentSensorData"

section \<open>The handlers\<close>

text \<open>What the handlers have in common, between \<open>try\<close> and \<open>catch\<close>; they differ in three strings.\<close>

definition handle_stored ::
  "'e gateway_env_scheme \<Rightarrow> string \<Rightarrow> string \<Rightarrow> string \<Rightarrow> string \<Rightarrow> jsval \<Rightarrow> ('z gateway_state_scheme, unit) act" where
  "handle_stored E messageType channel eventName tpc payload =
     try_catch
       (bnd (createMessageDto E tpc payload messageType) (\<lambda>incomeMessage.
        bnd (storeMessageInDatabase E incomeMessage 0) (\<lambda>_.
        bnd (storeRecentData incomeMessage) (\<lambda>_.
        bnd (date_now E) (\<lambda>now.
        emit channel [JObj [(''event'', JStr eventName), (''data'', payload), (''timestamp'', JDate now)]])))))
       (\<lambda>e. storeErrorInDatabase E tpc payload (getErrorMessage (Inr e)))"

definition handleAssignmentMessage where
  "handleAssignmentMessage E = handle_stored E ''assignment'' ''ws/assignment'' ''device-assigned''"

definition gateway_handleAckMessage where
  "gateway_handleAckMessage E = handle_stored E ''ack'' ''ws/ack'' ''acknowledgment-received''"

definition handleFirmwareUpgradeMessage where
  "handleFirmwareUpgradeMessage E = handle_stored E ''upgrade'' ''ws/upgrade'' ''firmware-upgrade-status''"

definition handleHeartbeatMessage where
  "handleHeartbeatMessage E = handle_stored E ''heartbeat'' ''ws/heartbeat'' ''heartbeat-received''"

definition handleRebootMessage where
  "handleRebootMessage E = handle_stored E ''reboot'' ''ws/reboot'' ''device-rebooted''"

definition handleTelemetryMessage where
  "handleTelemetryMessage E = handle_stored E ''telemetry'' ''ws/telemetry'' ''telemetry-received''"

definition handleHardwareStatusMessage where
  "handleHardwareStatusMessage E =
     handle_stored E ''hardware-status'' ''ws/hardware-status'' ''hardware-status-received''"

definition handleAlertMessage where
  "handleAlertMessage E = handle_stored E ''alert'' ''ws/alert'' ''alert-received''"

section \<open>Topics and commands\<close>

definition getMqttStatus :: "'e mqtt_env_scheme \<Rightarrow> ('z mqtt_state_scheme, connection_status) act" where
  "getMqttStatus E = getConnectionStatus E"

definition track :: "string \<Rightarrow> ('z gateway_state_scheme, unit) act" where
  "track tpc = modify (\<lambda>s. s\<lparr>subscriptionTracking := map_set (subscriptionTracking s) tpc True\<rparr>)"

definition untrack :: "string \<Rightarrow> ('z gateway_state_scheme, unit) act" where
  "untrack tpc = modify (\<lambda>s. s\<lparr>subscriptionTracking := map_delete (subscriptionTracking s) tpc\<rparr>)"

text \<open>The bodies of the two loops.\<close>

definition follow_topic :: "'e mqtt_env_scheme \<Rightarrow> string \<Rightarrow> ('z gateway_state_scheme, unit) act" where
  "follow_topic E tpc = try_catch (bnd (mqtt_subscribe E (OneTopic tpc)) (\<lambda>_. track tpc)) (\<lambda>_. ok ())"

definition unfollow_topic :: "'e mqtt_env_scheme \<Rightarrow> string \<Rightarrow> ('z gateway_state_scheme, unit) act" where
  "unfollow_topic E tpc = try_catch (bnd (mqtt_unsubscribe E tpc) (\<lambda>_. untrack tpc)) (\<lambda>_. ok ())"

definition subscribeToTopics ::
  "'e mqtt_env_scheme \<Rightarrow> string list \<Rightarrow> string \<Rightarrow> ('z gateway_state_scheme, unit) act" where
  "subscribeToTopics E tpcs deviceId = for_each (follow_topic E) tpcs"

definition unsubscribeFromTopics ::
  "'e mqtt_env_scheme \<Rightarrow> string list \<Rightarrow> ('z gateway_state_scheme, unit) act" where
  "unsubscribeFromTopics E tpcs = for_each (unfollow_topic E) tpcs"

definition publishCommand ::
  "'e mqtt_env_scheme \<Rightarrow> string \<Rightarrow> string \<Rightarrow> jsval \<Rightarrow> ('z mqtt_state_scheme, unit) act" where
  "publishCommand E deviceId command parameters =
     bnd (date_now E) (\<lambda>now.
     let tpc = ''devices/'' @ deviceId @ ''/commands'';
         payload = JObj [(''command'', JStr command), (''parameters'', parameters),
           (''timestamp'', JStr (toISOString now))]
     in try_catch
       (bnd (mqtt_publish E tpc (JStr (stringify payload)) \<lparr>po_qos = Some 1, po_retain = Some False\<rparr>) (\<lambda>_. ok ()))
       (\<lambda>e. throw (JsError (getErrorMessage (Inr e)))))"

end
