(* ===== verification/DeviceControllers.thy ===== *)
theory DeviceControllers
  imports AccountControllers GatewayMessages
begin

text \<open>
  \<open>device/device.controller.ts\<close>, \<open>topic/topic.controller.ts\<close>, \<open>mqtt-client/mqtt-client.controller.ts\<close>
  and \<open>app.controller.ts\<close>: the routes over devices, topics and the broker.
\<close>

section \<open>Results as JSON\<close>

definition SensorDto :: "string list" where
  "SensorDto = [''deviceId'', ''capabilities'', ''deviceHardware'', ''configuration'', ''controllers'',
     ''assignedFunctionality'', ''provisionState'', ''connectionState'', ''isActuator'', ''hasError'',
     ''errorMessage'', ''lastValue'', ''lastValueAt'', ''firmware'', ''broker'', ''isDeleted'', ''lastReboot'',
     ''lastUpgrade'']"

definition GetAllDevicesDto :: "string list" where
  "GetAllDevicesDto = [''data'', ''total'', ''page'', ''limit'', ''totalPages'', ''hasMore'']"

text \<open>No property of \<open>SensorConfigDto\<close> is exposed.\<close>

definition SensorConfigDto :: "string list" where
  "SensorConfigDto = []"

definition TopicDto :: "string list" where
  "TopicDto = [''brokerUrl'', ''deviceId'', ''topic'', ''useCase'', ''isSubscribed'', ''createdAt'', ''updatedAt'']"

definition devices_json :: "sensor list \<times> nat \<Rightarrow> jsval" where
  "devices_json r = JObj [(''data'', JArr (map sensor_json (fst r))), (''total'', JNum (of_nat (snd r)))]"

definition topic_json :: "topic_entity \<Rightarrow> jsval" where
  "topic_json t = JObj [(''brokerUrl'', JStr (t_brokerUrl t)), (''deviceId'', JStr (t_deviceId t)),
     (''topic'', JStr (t_topic t)), (''useCase'', JStr (use_case_value (t_useCase t))),
     (''isSubscribed'', JBool (t_isSubscribed t))]"

definition no_body :: "unit \<Rightarrow> jsval" where
  "no_body _ = JUndefined"

section \<open>DeviceController\<close>

definition DeviceController_getAllSensors ::
  "exposer \<Rightarrow> 'e device_env_scheme \<Rightarrow> ('z device_state_scheme, jsval) reply" where
  "DeviceController_getAllSensors X E =
     replies (getAllSensors E) (\<lambda>r. Serialize X GetAllDevicesDto (devices_json r))"

definition DeviceController_getSingleSensor ::
  "exposer \<Rightarrow> 'e device_env_scheme \<Rightarrow> string \<Rightarrow> ('z device_state_scheme, jsval) reply" where
  "DeviceController_getSingleSensor X E i =
     replies (getSingleSensor E i) (\<lambda>d. Serialize X SensorDto (sensor_json d))"

definition provision_of :: "string \<Rightarrow> provision_state option" where
  "provision_of t = List.find (\<lambda>p. provision_value p = t) [PS_DISCOVERED, PS_UNASSIGEND, PS_ASSIGNED, PS_ACTIVE, PS_ERROR]"

definition capability_of :: "jsval \<Rightarrow> device_capability option" where
  "capability_of v = List.find (\<lambda>c. v = JStr (capability_value c))
     [TEMPERATURE, HUMIDITY, PRESSURE, LIGHT, MOTION, CO2, RELAY, GPS, AMMONIA]"

fun capabilities_of :: "jsval list \<Rightarrow> device_capability list option" where
  "capabilities_of [] = Some []"
| "capabilities_of (v # vs) =
     (case capability_of v of
        None \<Rightarrow> None
      | Some c \<Rightarrow> (case capabilities_of vs of None \<Rightarrow> None | Some cs \<Rightarrow> Some (c # cs)))"

text \<open>None: a list with something that is no functionality, which the filter of the model does not hold.\<close>

definition query_of :: "jsval \<Rightarrow> query_device_dto option" where
  "query_of q =
     map_option (\<lambda>fs. \<lparr>qd_provisionState = (case js_get q ''provisionState'' of JStr t \<Rightarrow> provision_of t | _ \<Rightarrow> None),
         qd_functionality = fs, qd_deviceId = opt_text (js_get q ''deviceId'')\<rparr>)
       (case js_get q ''functionality'' of
          JArr vs \<Rightarrow> map_option Some (capabilities_of vs)
        | _ \<Rightarrow> Some None)"

definition DeviceController_querySensors ::
  "exposer \<Rightarrow> 'e device_env_scheme \<Rightarrow> jsval \<Rightarrow> ('z device_state_scheme, jsval) reply" where
  "DeviceController_querySensors X E q =
     (case query_of q of
        None \<Rightarrow> (\<lambda>s. None)
      | Some d \<Rightarrow> replies (querySensors E d) (\<lambda>r. Serialize X GetAllDevicesDto (devices_json r)))"

text \<open>\<open>@CurrentUser()\<close> and \<open>@CurrentUser('userId')\<close>: a missing user is null.\<close>

definition CurrentUser :: "http_request \<Rightarrow> jsval" where
  "CurrentUser req = (if \<not> truthy (rq_user req) then JNull else rq_user req)"

definition CurrentUser_userId :: "http_request \<Rightarrow> jsval" where
  "CurrentUser_userId req = (if \<not> truthy (rq_user req) then JNull else js_get (rq_user req) ''userId'')"

definition DeviceController_discoverDevicesBroadcast ::
  "'e device_env_scheme \<Rightarrow> http_request \<Rightarrow> ('z device_state_scheme, jsval) reply" where
  "DeviceController_discoverDevicesBroadcast E req = replies (discoverDevicesBroadcast E (CurrentUser_userId req)) no_body"

definition DeviceController_discoverDeviceUnicast ::
  "'e device_env_scheme \<Rightarrow> string \<Rightarrow> http_request \<Rightarrow> ('z device_state_scheme, jsval) reply" where
  "DeviceController_discoverDeviceUnicast E i req =
     replies (discoverDeviceUnicast E (CurrentUser_userId req) (JStr i)) no_body"

definition DeviceController_getUnassignedSensor ::
  "exposer \<Rightarrow> 'e device_env_scheme \<Rightarrow> ('z device_state_scheme, jsval) reply" where
  "DeviceController_getUnassignedSensor X E =
     replies (getUnassignedSensor E) (\<lambda>ds. Serialize X SensorDto (JArr (map sensor_json ds)))"

definition DeviceController_getHardwareStatus ::
  "'e device_env_scheme \<Rightarrow> string \<Rightarrow> http_request \<Rightarrow> ('z device_state_scheme, jsval) reply" where
  "DeviceController_getHardwareStatus E i req = replies (getHardwareStatus E (CurrentUser req) i) no_body"

definition DeviceController_provisionDevice ::
  "'e device_env_scheme \<Rightarrow> jsval \<Rightarrow> http_request \<Rightarrow> ('z device_state_scheme, jsval) reply" where
  "DeviceController_provisionDevice E body req = replies (AssignDeviceFunction E (CurrentUser req) body) JStr"

definition DeviceController_deleteSensor ::
  "'e device_env_scheme \<Rightarrow> string \<Rightarrow> ('z device_state_scheme, jsval) reply" where
  "DeviceController_deleteSensor E i = replies (deleteSensor E i) no_body"

definition DeviceController_getDeviceConfiguration ::
  "exposer \<Rightarrow> 'e device_env_scheme \<Rightarrow> string \<Rightarrow> ('z device_state_scheme, jsval) reply" where
  "DeviceController_getDeviceConfiguration X E i =
     replies (getDeviceConfiguration E i) (Serialize X SensorConfigDto)"

definition DeviceController_reconfigureDevice ::
  "'e device_env_scheme \<Rightarrow> jsval \<Rightarrow> ('z device_state_scheme, jsval) reply" where
  "DeviceController_reconfigureDevice E configData = replies (setDeviceConfiguration E configData) no_body"

definition DeviceController_getHistory :: "string \<Rightarrow> ('s, jsval) reply" where
  "DeviceController_getHistory i = replies (ok (getDeviceHistory i)) id"

definition DeviceController_controlDevice :: "string \<Rightarrow> jsval \<Rightarrow> ('s, jsval) reply" where
  "DeviceController_controlDevice i body = replies (ok (controlDevice i body)) id"

definition DeviceController_getDeviceStatus ::
  "'e device_env_scheme \<Rightarrow> string \<Rightarrow> ('z device_state_scheme, jsval) reply" where
  "DeviceController_getDeviceStatus E i = replies (getDeviceStatus E i) id"

definition DeviceController_getDeviceTelemetry ::
  "'e device_env_scheme \<Rightarrow> jsval \<Rightarrow> ('z device_state_scheme, jsval) reply" where
  "DeviceController_getDeviceTelemetry E body = replies (getDeviceTelemetry E body) no_body"

section \<open>TopicController\<close>

definition TopicController_getDeviceTopicsByDeviceId ::
  "'e topic_env_scheme \<Rightarrow> string \<Rightarrow> ('z topic_state_scheme, jsval) reply" where
  "TopicController_getDeviceTopicsByDeviceId E i =
     replies (getAllTopicsForOneDevice E i) (\<lambda>ts. JArr (map topic_json ts))"

definition TopicController_getSubscribedTopics ::
  "exposer \<Rightarrow> 'e topic_env_scheme \<Rightarrow> ('z topic_state_scheme, jsval) reply" where
  "TopicController_getSubscribedTopics X E =
     replies (getAllSubscribedTopics E) (\<lambda>ts. Serialize X TopicDto (JArr (map topic_json ts)))"

section \<open>MqttManagementController\<close>

definition configuration_json :: "configuration_result \<Rightarrow> jsval" where
  "configuration_json c = JObj [(''host'', JStr (cf_host c)), (''port'', JNum (of_int (cf_port c))),
     (''protocol'', JStr (cf_protocol c)), (''clientId'', JStr (cf_clientId c)),
     (''keepalive'', JNum (of_int (cf_keepalive c))), (''clean'', JBool (cf_clean c)),
     (''autoReconnect'', JBool (cf_autoReconnect c)), (''connectAtempts'', JNum (of_int (cf_connectAtempts c))),
     (''maxConnectionAttempts'', JNum (of_int (cf_maxConnectionAttempts c))),
     (''connected'', JBool (cf_connected c)), (''timestamp'', JDate (cf_timestamp c))]"

definition MqttController_getConfig ::
  "'e mqtt_env_scheme \<Rightarrow> ('z mqtt_state_scheme, jsval) reply" where
  "MqttController_getConfig E = replies (getConfiguration E) configuration_json"

definition MqttController_updateConfig ::
  "'e mqtt_env_scheme \<Rightarrow> jsval \<Rightarrow> ('z mqtt_state_scheme, jsval) reply" where
  "MqttController_updateConfig E configDto =
     replies (bnd (updateConfiguration E configDto) (\<lambda>_. getConfiguration E))
       (\<lambda>c. JObj [(''message'', JStr ''Configuration updated successfully''), (''config'', configuration_json c)])"

definition opt_number :: "jsval \<Rightarrow> rat option" where
  "opt_number v = (case v of JNum n \<Rightarrow> Some n | _ \<Rightarrow> None)"

definition opt_bool :: "jsval \<Rightarrow> bool option" where
  "opt_bool v = (case v of JBool b \<Rightarrow> Some b | _ \<Rightarrow> None)"

definition config_body :: "jsval \<Rightarrow> mqtt_config" where
  "config_body d = \<lparr>mc_host = opt_text (js_get d ''host''), mc_port = opt_number (js_get d ''port''),
     mc_protocol = opt_text (js_get d ''protocol''), mc_keepalive = opt_number (js_get d ''keepalive''),
     mc_connectTimeout = opt_number (js_get d ''connectTimeout''),
     mc_reconnectPeriod = opt_number (js_get d ''reconnectPeriod''), mc_username = opt_text (js_get d ''username''),
     mc_password = opt_text (js_get d ''password''), mc_clean = opt_bool (js_get d ''clean'')\<rparr>"

definition validation_json :: "validation_result \<Rightarrow> jsval" where
  "validation_json r =
     (case r of
        InvalidConfiguration errors \<Rightarrow> JObj [(''valid'', JBool False), (''errors'', JArr (map JStr errors))]
      | ValidConfiguration m \<Rightarrow> JObj [(''valid'', JBool True), (''message'', JStr m)])"

definition MqttController_validateConfig :: "jsval \<Rightarrow> ('s, jsval) reply" where
  "MqttController_validateConfig configDto = replies (ok (validateConfiguration (config_body configDto))) validation_json"

definition test_json :: "test_result \<Rightarrow> jsval" where
  "test_json r = JObj [(''success'', JBool True), (''message'', JStr ''Successfully connected to MQTT broker''),
     (''brokerInfo'', JObj [(''clientId'', (case te_clientId r of None \<Rightarrow> JNull | Some i \<Rightarrow> JStr i)),
        (''protocol'', JStr (te_protocol r)), (''host'', opt_value (te_host r)),
        (''port'', (case te_port r of None \<Rightarrow> JUndefined | Some p \<Rightarrow> JNum p))]),
     (''timestamp'', JDate (te_timestamp r)), (''duration'', JNum (of_int (te_duration r)))]"

text \<open>The answer comes with the first event of the test client; without one there is none.\<close>

definition MqttController_testConnection ::
  "test_callback mqtt_lib \<Rightarrow> (int \<times> test_event) list \<Rightarrow> 'e mqtt_env_scheme \<Rightarrow> jsval \<Rightarrow>
     ('z mqtt_state_scheme, jsval) reply" where
  "MqttController_testConnection L events E configDto = (\<lambda>s.
     case bnd (date_now E) (\<lambda>startTime. bnd (date_now E) (\<lambda>idTime. ok (startTime, idTime))) s of
       (Inl e, s') \<Rightarrow> Some (Inl e, s')
     | (Inr (startTime, idTime), s') \<Rightarrow>
         map_option (\<lambda>r. (map_sum id test_json r, s'))
           (te_promise (testConnection L (config_body configDto) startTime idTime events)))"

text \<open>The parameter of the route is not used.\<close>

definition MqttController_connect ::
  "'e mqtt_env_scheme \<Rightarrow> string \<Rightarrow> ('z mqtt_state_scheme, jsval) reply" where
  "MqttController_connect E brokerUrl = replies (initConnection E None None) no_body"

definition status_json :: "connection_status \<Rightarrow> jsval" where
  "status_json c = JObj [(''connected'', st_connected c), (''brokerUrl'', JStr (st_brokerUrl c)),
     (''subscribedTopics'', JArr (map JStr (st_subscribedTopics c))), (''timestamp'', JDate (st_timestamp c))]"

definition MqttController_getMqttStatus ::
  "'e mqtt_env_scheme \<Rightarrow> ('z mqtt_state_scheme, jsval) reply" where
  "MqttController_getMqttStatus E = replies (getConnectionStatus E) status_json"

definition publish_json :: "publish_result \<Rightarrow> jsval" where
  "publish_json r = JObj [(''success'', JBool (pr_success r)), (''topic'', JStr (pr_topic r)),
     (''payload'', JStr (pr_payload r)), (''description'', JStr (pr_description r)), (''timestamp'', JDate (pr_timestamp r))]"

text \<open>A quality of service is used as it is; one that is no natural number is left to the client.\<close>

definition qos_of :: "jsval \<Rightarrow> nat option" where
  "qos_of v = (case v of JNum n \<Rightarrow> if of_nat (nat \<lfloor>n\<rfloor>) = n then Some (nat \<lfloor>n\<rfloor>) else None | _ \<Rightarrow> None)"

definition MqttController_publish ::
  "'e mqtt_env_scheme \<Rightarrow> jsval \<Rightarrow> ('z mqtt_state_scheme, jsval) reply" where
  "MqttController_publish E publishDto =
     replies (mqtt_publish E (text_of (js_get publishDto ''topic'')) (JStr (payloadStr (js_get publishDto ''message'')))
         \<lparr>po_qos = qos_of (js_get publishDto ''qos''), po_retain = opt_bool (js_get publishDto ''retain'')\<rparr>)
       publish_json"

text \<open>
  \<open>Promise.all(xs.map(f))\<close>: every call is made; the first rejection is the outcome. Here the calls run
  one after the other.
\<close>

fun promise_all :: "('x \<Rightarrow> ('s, 'a) act) \<Rightarrow> 'x list \<Rightarrow> ('s, 'a list) act" where
  "promise_all f [] s = (Inr [], s)"
| "promise_all f (x # xs) s =
     (case f x s of (r, s1) \<Rightarrow>
        (case promise_all f xs s1 of (rs, s2) \<Rightarrow>
           (case r of
              Inl e \<Rightarrow> (Inl e, s2)
            | Inr y \<Rightarrow> (case rs of Inl e \<Rightarrow> (Inl e, s2) | Inr ys \<Rightarrow> (Inr (y # ys), s2)))))"

fun texts_of :: "jsval \<Rightarrow> string list" where
  "texts_of (JArr vs) = map text_of vs"
| "texts_of _ = []"

definition topics_json :: "topics_arg \<Rightarrow> jsval" where
  "topics_json ts = (case ts of OneTopic t \<Rightarrow> JStr t | ManyTopics l \<Rightarrow> JArr (map JStr l))"

definition subscription_json :: "subscription_result \<Rightarrow> jsval" where
  "subscription_json r = JObj [(''success'', JBool (sr_success r)), (''topics'', topics_json (sr_topics r)),
     (''description'', JStr (sr_description r)), (''timestamp'', JDate (sr_timestamp r))]"

definition MqttController_subscribe ::
  "'e mqtt_env_scheme \<Rightarrow> jsval \<Rightarrow> ('z mqtt_state_scheme, jsval) reply" where
  "MqttController_subscribe E subscribeDto =
     replies (promise_all (\<lambda>t. mqtt_subscribe E (OneTopic t)) (texts_of (js_get subscribeDto ''topics'')))
       (\<lambda>rs. JObj [(''deviceId'', js_get subscribeDto ''deviceId''), (''results'', JArr (map subscription_json rs))])"

definition unsubscription_json :: "unsubscription_result \<Rightarrow> jsval" where
  "unsubscription_json r = JObj ([(''success'', JBool (ur_success r)), (''topic'', JStr (ur_topic r))] @
     (case ur_error r of None \<Rightarrow> [] | Some e \<Rightarrow> [(''error'', JStr e)]) @ [(''timestamp'', JDate (ur_timestamp r))])"

definition MqttController_unsubscribe ::
  "'e mqtt_env_scheme \<Rightarrow> string \<Rightarrow> ('z mqtt_state_scheme, jsval) reply" where
  "MqttController_unsubscribe E t = replies (mqtt_unsubscribe E t) unsubscription_json"

definition MqttController_reconnect ::
  "'e mqtt_env_scheme \<Rightarrow> ('z mqtt_state_scheme, jsval) reply" where
  "MqttController_reconnect E = replies (mqtt_reconnect E)
     (\<lambda>(b, m, t). JObj [(''success'', JBool b), (''message'', JStr m), (''timestamp'', JDate t)])"

section \<open>AppController\<close>

definition AppController_getHello :: "('s, jsval) reply" where
  "AppController_getHello = replies (ok ''Hello World!'') JStr"

definition AppController_getStatus :: "rat \<Rightarrow> 'e rt_env_scheme \<Rightarrow> ('z runtime_scheme, jsval) reply" where
  "AppController_getStatus uptime E = replies (date_now E)
     (\<lambda>now. JObj [(''status'', JStr ''healthy''), (''timestamp'', JStr (toISOString now)), (''uptime'', JNum uptime),
        (''version'', JStr ''1.0.0'')])"

end
