(* ===== verification/Server.thy ===== *)
theory Server
  imports DeviceControllers DeviceLife
begin

text \<open>
  The HTTP side of the whole program: the table of routes of the controllers with their guards and
  validated bodies, the choice of a route as the router of the framework makes it (the first one whose
  method and path match), and the treatment of a request from the guards to the response. The accounts
  and the devices are two states that share the clock, the source of UUIDs, the cache and the process.
\<close>

section \<open>Routes\<close>

datatype http_method = GET | POST | PUT | PATCH | DELETE

text \<open>A path is the list of its segments after the global prefix, decoded.\<close>

datatype segment = Lit string | Param

text \<open>What is validated: the body or the query against rules, which may depend on the text checks.\<close>

datatype input = NoInput | Body "text_checks \<Rightarrow> dto_rules" | Query "text_checks \<Rightarrow> dto_rules"

text \<open>The handlers, named as the methods of the controllers.\<close>

datatype route_handler =
    App_getHello | App_getStatus
  | Auth_signup | Auth_login | Auth_logout | Auth_changePassword | Auth_forgetPassword | Auth_resetPassword
  | Users_create | Users_findAll | Users_findById | Users_getUserProfile | Users_updateUserProfile
  | Users_updateUser | Users_remove | Users_assignRoles | Users_getUserRoles | Users_addRoles | Users_removeRoles
  | Devices_getAllSensors | Devices_getSingleSensor | Devices_querySensors | Devices_discoverDevicesBroadcast
  | Devices_discoverDeviceUnicast | Devices_getUnassignedSensor | Devices_getHardwareStatus
  | Devices_provisionDevice | Devices_deleteSensor | Devices_getDeviceConfiguration | Devices_reconfigureDevice
  | Devices_getHistory | Devices_controlDevice | Devices_getDeviceStatus | Devices_getDeviceTelemetry
  | Topics_getDeviceTopicsByDeviceId | Topics_getSubscribedTopics
  | Mqtt_getConfig | Mqtt_updateConfig | Mqtt_validateConfig | Mqtt_testConnection | Mqtt_connect
  | Mqtt_getMqttStatus | Mqtt_publish | Mqtt_subscribe | Mqtt_unsubscribe | Mqtt_reconnect

record route_entry =
  re_method :: http_method
  re_path :: "segment list"
  re_guard :: route_guard
  re_input :: input
  re_status :: nat
  re_handler :: route_handler

definition app_routes :: "route_entry list" where
  "app_routes = [
     \<lparr>re_method = GET, re_path = [], re_guard = Public, re_input = NoInput, re_status = 200, re_handler = App_getHello\<rparr>,
     \<lparr>re_method = GET, re_path = [Lit ''status''], re_guard = Public, re_input = NoInput, re_status = 200,
      re_handler = App_getStatus\<rparr>]"

definition auth_route ::
  "string \<Rightarrow> route_guard \<Rightarrow> input \<Rightarrow> route_handler \<Rightarrow> route_entry" where
  "auth_route p g i h = \<lparr>re_method = POST, re_path = [Lit ''auth'', Lit p], re_guard = g, re_input = i,
     re_status = 201, re_handler = h\<rparr>"

definition auth_routes :: "route_entry list" where
  "auth_routes = [
     auth_route ''signup'' Public (Body SignupDto) Auth_signup,
     auth_route ''login'' Public (Body LoginDto) Auth_login,
     auth_route ''logout'' Authenticated NoInput Auth_logout,
     auth_route ''change-password'' Authenticated (Body (\<lambda>_. ChangePasswordDto)) Auth_changePassword,
     auth_route ''forget-password'' Public (Body ForgetPasswordDto) Auth_forgetPassword,
     auth_route ''reset-password'' Public (Body (\<lambda>_. ResetPasswordDto)) Auth_resetPassword]"

text \<open>The status is 201 for a POST and 200 for the others, unless \<open>@HttpCode\<close> says otherwise.\<close>

definition default_status :: "http_method \<Rightarrow> nat" where
  "default_status m = (if m = POST then 201 else 200)"

definition entry ::
  "http_method \<Rightarrow> segment list \<Rightarrow> route_guard \<Rightarrow> input \<Rightarrow> route_handler \<Rightarrow> route_entry" where
  "entry m p g i h = \<lparr>re_method = m, re_path = p, re_guard = g, re_input = i, re_status = default_status m,
     re_handler = h\<rparr>"

definition users_routes :: "route_entry list" where
  "users_routes = [
     entry POST [Lit ''users'', Lit ''create''] (Restricted [ADMIN, SUPER_ADMIN]) (Body CreateUserDto) Users_create,
     entry GET [Lit ''users'', Lit ''all''] (Restricted [ADMIN, SUPER_ADMIN]) NoInput Users_findAll,
     entry GET [Lit ''users'', Lit ''find'', Param] (Restricted [ADMIN, SUPER_ADMIN]) NoInput Users_findById,
     entry GET [Lit ''users'', Lit ''profile'', Lit ''get''] Authenticated NoInput Users_getUserProfile,
     entry PATCH [Lit ''users'', Lit ''profile'', Lit ''update'']
       (Restricted [ADMIN, SUPER_ADMIN, ENGINEER, TEST, VIEWER]) (Body UpdateUserDto) Users_updateUserProfile,
     entry PATCH [Lit ''users'', Lit ''update'', Param] (Restricted [ADMIN, SUPER_ADMIN]) (Body UpdateUserDto)
       Users_updateUser,
     entry DELETE [Lit ''users'', Lit ''delete'', Param] (Restricted [SUPER_ADMIN]) NoInput Users_remove,
     entry PATCH [Lit ''users'', Lit ''roles'', Lit ''update'', Param] (Restricted [SUPER_ADMIN])
       (Body (\<lambda>_. AssignRolesDto)) Users_assignRoles,
     entry GET [Lit ''users'', Lit ''roles'', Lit ''get'', Param] (Restricted [ADMIN, SUPER_ADMIN]) NoInput
       Users_getUserRoles,
     entry POST [Lit ''users'', Lit ''roles'', Lit ''add'', Param] (Restricted [SUPER_ADMIN])
       (Body (\<lambda>_. AssignRolesDto)) Users_addRoles,
     entry POST [Lit ''users'', Lit ''roles'', Lit ''remove'', Param] (Restricted [SUPER_ADMIN])
       (Body (\<lambda>_. AssignRolesDto)) Users_removeRoles]"

definition device_routes :: "route_entry list" where
  "device_routes = [
     entry GET [Lit ''devices'', Lit ''all''] (Restricted [ENGINEER, ADMIN, SUPER_ADMIN]) NoInput Devices_getAllSensors,
     entry GET [Lit ''devices'', Param] (Restricted [ENGINEER, ADMIN, SUPER_ADMIN]) NoInput Devices_getSingleSensor,
     entry GET [Lit ''devices'', Lit ''query''] (Restricted [ENGINEER, ADMIN, SUPER_ADMIN])
       (Query (\<lambda>_. QueryDeviceDto)) Devices_querySensors,
     entry POST [Lit ''devices'', Lit ''discover-broadcast''] (Restricted [ENGINEER, ADMIN, SUPER_ADMIN]) NoInput
       Devices_discoverDevicesBroadcast,
     entry POST [Lit ''devices'', Lit ''discover-unicast'', Param] (Restricted [ENGINEER, ADMIN, SUPER_ADMIN]) NoInput
       Devices_discoverDeviceUnicast,
     entry GET [Lit ''devices'', Lit ''unassigned''] (Restricted [ENGINEER, ADMIN, SUPER_ADMIN]) NoInput
       Devices_getUnassignedSensor,
     entry POST [Lit ''devices'', Lit ''hardware-status'', Param] (Restricted [ENGINEER, ADMIN, SUPER_ADMIN]) NoInput
       Devices_getHardwareStatus,
     entry PUT [Lit ''devices'', Lit ''provision''] (Restricted [ADMIN, SUPER_ADMIN])
       (Body (\<lambda>_. PublishSensorFunctionalityDto)) Devices_provisionDevice,
     (entry DELETE [Lit ''devices'', Param] (Restricted [ADMIN, SUPER_ADMIN]) NoInput Devices_deleteSensor)
       \<lparr>re_status := 204\<rparr>,
     entry GET [Lit ''devices'', Lit ''config'', Param] (Restricted [ENGINEER, ADMIN, SUPER_ADMIN]) NoInput
       Devices_getDeviceConfiguration,
     entry POST [Lit ''devices'', Lit ''config''] (Restricted [ENGINEER, ADMIN, SUPER_ADMIN])
       (Body (\<lambda>_. PublishSetDeviceConfigDto)) Devices_reconfigureDevice,
     entry GET [Lit ''devices'', Param, Lit ''history''] (Restricted [VIEWER, ENGINEER, ADMIN, SUPER_ADMIN]) NoInput
       Devices_getHistory,
     entry POST [Lit ''devices'', Param, Lit ''control''] (Restricted [ENGINEER, ADMIN, SUPER_ADMIN])
       (Body (\<lambda>_. ControlDeviceDto)) Devices_controlDevice,
     entry GET [Lit ''devices'', Param, Lit ''status''] (Restricted [VIEWER, ENGINEER, ADMIN, SUPER_ADMIN]) NoInput
       Devices_getDeviceStatus,
     entry GET [Lit ''devices'', Lit ''telemetry''] (Restricted [VIEWER, ENGINEER, ADMIN, SUPER_ADMIN])
       (Body (\<lambda>_. PublishTelemetryDto)) Devices_getDeviceTelemetry]"

definition topic_routes :: "route_entry list" where
  "topic_routes = [
     entry GET [Lit ''topic'', Lit ''device'', Param] (Restricted [ADMIN, SUPER_ADMIN]) NoInput
       Topics_getDeviceTopicsByDeviceId,
     entry GET [Lit ''topic'', Lit ''subscribed''] (Restricted [VIEWER, ENGINEER, ADMIN, SUPER_ADMIN]) NoInput
       Topics_getSubscribedTopics]"

definition mqtt_routes :: "route_entry list" where
  "mqtt_routes = [
     entry GET [Lit ''mqtt'', Lit ''config''] (Restricted [ADMIN, SUPER_ADMIN]) NoInput Mqtt_getConfig,
     entry PUT [Lit ''mqtt'', Lit ''config''] (Restricted [ADMIN, SUPER_ADMIN]) (Body (\<lambda>_. MqttConfigDto))
       Mqtt_updateConfig,
     entry POST [Lit ''mqtt'', Lit ''config'', Lit ''validate''] (Restricted [ENGINEER, ADMIN, SUPER_ADMIN])
       (Body (\<lambda>_. MqttConfigDto)) Mqtt_validateConfig,
     entry POST [Lit ''mqtt'', Lit ''config'', Lit ''test-connection''] (Restricted [ENGINEER, ADMIN, SUPER_ADMIN])
       (Body (\<lambda>_. MqttConfigDto)) Mqtt_testConnection,
     entry POST [Lit ''mqtt'', Lit ''connect'', Param] (Restricted [ADMIN, SUPER_ADMIN]) NoInput Mqtt_connect,
     entry GET [Lit ''mqtt'', Lit ''status''] (Restricted [ENGINEER, ADMIN, SUPER_ADMIN]) NoInput Mqtt_getMqttStatus,
     entry POST [Lit ''mqtt'', Lit ''publish''] (Restricted [ENGINEER, ADMIN, SUPER_ADMIN])
       (Body (\<lambda>_. MqttPublishDto)) Mqtt_publish,
     entry POST [Lit ''mqtt'', Lit ''subscribe''] (Restricted [ENGINEER, ADMIN, SUPER_ADMIN])
       (Body (\<lambda>_. MqttSubscribeDto)) Mqtt_subscribe,
     entry DELETE [Lit ''mqtt'', Lit ''unsubscribe'', Param] (Restricted [ENGINEER, ADMIN, SUPER_ADMIN]) NoInput
       Mqtt_unsubscribe,
     entry POST [Lit ''mqtt'', Lit ''reconnect''] (Restricted [ADMIN, SUPER_ADMIN]) NoInput Mqtt_reconnect]"

definition all_routes :: "route_entry list" where
  "all_routes = app_routes @ auth_routes @ users_routes @ device_routes @ topic_routes @ mqtt_routes"

section \<open>Choosing a route\<close>

text \<open>Fixed segments are compared without regard to case; a parameter takes any segment that is not empty.\<close>

fun match_path :: "segment list \<Rightarrow> string list \<Rightarrow> string list option" where
  "match_path [] [] = Some []"
| "match_path (Lit l # ps) (x # xs) = (if js_lower l = js_lower x then match_path ps xs else None)"
| "match_path (Param # ps) (x # xs) = (if x = [] then None else map_option (\<lambda>params. x # params) (match_path ps xs))"
| "match_path _ _ = None"

fun resolve :: "route_entry list \<Rightarrow> http_method \<Rightarrow> string list \<Rightarrow> (route_entry \<times> string list) option" where
  "resolve [] m path = None"
| "resolve (r # rs) m path =
     (case (if re_method r = m then match_path (re_path r) path else None) of
        None \<Rightarrow> resolve rs m path
      | Some params \<Rightarrow> Some (r, params))"

section \<open>The server\<close>

record api_request =
  aq_method :: http_method
  aq_path :: "string list"
  aq_url :: string
  aq_body :: jsval
  aq_query :: jsval
  aq_http :: http_request

record server_env =
  account_env :: "unit auth_env_scheme"
  panel_env :: "unit gateway_env_scheme"
  expose :: exposer
  checks :: text_checks
  vp_valid :: "int \<Rightarrow> dto_rules \<Rightarrow> jsval \<Rightarrow> bool"
  vp_messages :: "dto_rules \<Rightarrow> jsval \<Rightarrow> string list"
  test_lib :: "test_callback mqtt_lib"
  test_events :: "(int \<times> test_event) list"
  node_env :: "string option"
  lib_exception :: "string \<Rightarrow> exception"
  error_stack :: "exception \<Rightarrow> string"
  process_uptime :: rat

text \<open>\<open>panel\<close> has its own copy of what the two states share; it is refreshed before each use.\<close>

record server =
  account :: "unit auth_state_scheme"
  panel :: "unit gateway_state_scheme"

definition share :: "'a redis_state_scheme \<Rightarrow> 'b redis_state_scheme \<Rightarrow> 'b redis_state_scheme" where
  "share a b = b\<lparr>uuid_count := uuid_count a, clock_reads := clock_reads a, starts := starts a,
     process_ended := process_ended a, kv := kv a\<rparr>"

definition on_account :: "(unit auth_state_scheme, 'a) reply \<Rightarrow> (server, 'a) reply" where
  "on_account m = (\<lambda>s. case m (account s) of
      None \<Rightarrow> None
    | Some (r, a) \<Rightarrow> Some (r, s\<lparr>account := a, panel := share a (panel s)\<rparr>))"

definition on_panel :: "(unit gateway_state_scheme, 'a) reply \<Rightarrow> (server, 'a) reply" where
  "on_panel m = (\<lambda>s. case m (share (account s) (panel s)) of
      None \<Rightarrow> None
    | Some (r, p) \<Rightarrow> Some (r, s\<lparr>account := share p (account s), panel := p\<rparr>))"

text \<open>The handler of a route, given the parameters of the path and the request the guards let through.\<close>

definition run_handler ::
  "server_env \<Rightarrow> route_handler \<Rightarrow> string list \<Rightarrow> jsval \<Rightarrow> http_request \<Rightarrow> (server, jsval) reply" where
  "run_handler V h params b req =
     (let E = account_env V; D = panel_env V; X = expose V;
          i = (case params of [] \<Rightarrow> [] | p # _ \<Rightarrow> p) in
      case h of
        App_getHello \<Rightarrow> AppController_getHello
      | App_getStatus \<Rightarrow> on_account (AppController_getStatus (process_uptime V) E)
      | Auth_signup \<Rightarrow> on_account (AuthController_signup X E b req)
      | Auth_login \<Rightarrow> on_account (AuthController_login X E b req)
      | Auth_logout \<Rightarrow> on_account (AuthController_logout E req)
      | Auth_changePassword \<Rightarrow> on_account (AuthController_changePassword E b req)
      | Auth_forgetPassword \<Rightarrow> on_account (AuthController_forgetPassword E b)
      | Auth_resetPassword \<Rightarrow> on_account (AuthController_resetPassword E b)
      | Users_create \<Rightarrow> on_account (UsersController_create X E b)
      | Users_findAll \<Rightarrow> on_account (UsersController_findAll X E)
      | Users_findById \<Rightarrow> on_account (UsersController_findById X E i)
      | Users_getUserProfile \<Rightarrow> on_account (UsersController_getUserProfile X E req)
      | Users_updateUserProfile \<Rightarrow> on_account (UsersController_updateUserProfile X E b req)
      | Users_updateUser \<Rightarrow> on_account (UsersController_updateUser X E i b)
      | Users_remove \<Rightarrow> on_account (UsersController_remove E i)
      | Users_assignRoles \<Rightarrow> on_account (UsersController_assignRoles X E i b)
      | Users_getUserRoles \<Rightarrow> on_account (UsersController_getUserRoles X E i)
      | Users_addRoles \<Rightarrow> on_account (UsersController_addRoles X E i b)
      | Users_removeRoles \<Rightarrow> on_account (UsersController_removeRoles X E i b)
      | Devices_getAllSensors \<Rightarrow> on_panel (DeviceController_getAllSensors X D)
      | Devices_getSingleSensor \<Rightarrow> on_panel (DeviceController_getSingleSensor X D i)
      | Devices_querySensors \<Rightarrow> on_panel (DeviceController_querySensors X D b)
      | Devices_discoverDevicesBroadcast \<Rightarrow> on_panel (DeviceController_discoverDevicesBroadcast D req)
      | Devices_discoverDeviceUnicast \<Rightarrow> on_panel (DeviceController_discoverDeviceUnicast D i req)
      | Devices_getUnassignedSensor \<Rightarrow> on_panel (DeviceController_getUnassignedSensor X D)
      | Devices_getHardwareStatus \<Rightarrow> on_panel (DeviceController_getHardwareStatus D i req)
      | Devices_provisionDevice \<Rightarrow> on_panel (DeviceController_provisionDevice D b req)
      | Devices_deleteSensor \<Rightarrow> on_panel (DeviceController_deleteSensor D i)
      | Devices_getDeviceConfiguration \<Rightarrow> on_panel (DeviceController_getDeviceConfiguration X D i)
      | Devices_reconfigureDevice \<Rightarrow> on_panel (DeviceController_reconfigureDevice D b)
      | Devices_getHistory \<Rightarrow> on_panel (DeviceController_getHistory i)
      | Devices_controlDevice \<Rightarrow> on_panel (DeviceController_controlDevice i b)
      | Devices_getDeviceStatus \<Rightarrow> on_panel (DeviceController_getDeviceStatus D i)
      | Devices_getDeviceTelemetry \<Rightarrow> on_panel (DeviceController_getDeviceTelemetry D b)
      | Topics_getDeviceTopicsByDeviceId \<Rightarrow> on_panel (TopicController_getDeviceTopicsByDeviceId D i)
      | Topics_getSubscribedTopics \<Rightarrow> on_panel (TopicController_getSubscribedTopics X D)
      | Mqtt_getConfig \<Rightarrow> on_panel (MqttController_getConfig D)
      | Mqtt_updateConfig \<Rightarrow> on_panel (MqttController_updateConfig D b)
      | Mqtt_validateConfig \<Rightarrow> on_panel (MqttController_validateConfig b)
      | Mqtt_testConnection \<Rightarrow> on_panel (MqttController_testConnection (test_lib V) (test_events V) D b)
      | Mqtt_connect \<Rightarrow> on_panel (MqttController_connect D i)
      | Mqtt_getMqttStatus \<Rightarrow> on_panel (MqttController_getMqttStatus D)
      | Mqtt_publish \<Rightarrow> on_panel (MqttController_publish D b)
      | Mqtt_subscribe \<Rightarrow> on_panel (MqttController_subscribe D b)
      | Mqtt_unsubscribe \<Rightarrow> on_panel (MqttController_unsubscribe D i)
      | Mqtt_reconnect \<Rightarrow> on_panel (MqttController_reconnect D))"

section \<open>A request\<close>

text \<open>What the guards of a route let through, as \<open>run_route\<close> runs them before the handler.\<close>

definition guard_request ::
  "'e session_env_scheme \<Rightarrow> route_guard \<Rightarrow> http_request \<Rightarrow> ('z redis_state_scheme, http_request) act" where
  "guard_request E g req = run_route E g (\<lambda>req'. ok req') req"

text \<open>
  The \<open>ValidationPipe\<close>, which has no \<open>transform\<close>: a missing body is validated as an empty object, but the
  handler gets what came. The clock is there for the validators of times.
\<close>

definition check_input ::
  "server_env \<Rightarrow> input \<Rightarrow> api_request \<Rightarrow> server \<Rightarrow> (exception + jsval) \<times> server" where
  "check_input V i q s =
     (case (case i of NoInput \<Rightarrow> None | Body rules \<Rightarrow> Some (rules (checks V), aq_body q)
              | Query rules \<Rightarrow> Some (rules (checks V), aq_query q)) of
        None \<Rightarrow> (Inr JUndefined, s)
      | Some (rules, v) \<Rightarrow>
          let now = clock (account_env V) (clock_reads (account s));
              s' = s\<lparr>account := (account s)\<lparr>clock_reads := Suc (clock_reads (account s))\<rparr>\<rparr>
          in if vp_valid V now rules (empty_if_nil v) \<and> list_all (\<lambda>k. k \<in> set (map fst rules)) (own_keys (empty_if_nil v))
             then (Inr v, s')
             else (Inl (BadRequestExn (JObj [(''message'', JArr (map JStr (vp_messages V rules v))),
               (''error'', JStr ''Bad Request''), (''statusCode'', JNum 400)])), s'))"

text \<open>The exception filter writes the response.\<close>

definition fail_request :: "server_env \<Rightarrow> api_request \<Rightarrow> exception \<Rightarrow> server \<Rightarrow> (http_response \<times> server) option" where
  "fail_request V q ex s =
     (case catch_exception (account_env V) (node_env V) (error_stack V) (aq_url q) ex (account s) of
        (Inr resp, a) \<Rightarrow> Some (resp, s\<lparr>account := a\<rparr>)
      | (Inl _, a) \<Rightarrow> None)"

definition method_name :: "http_method \<Rightarrow> string" where
  "method_name m = (case m of GET \<Rightarrow> ''GET'' | POST \<Rightarrow> ''POST'' | PUT \<Rightarrow> ''PUT'' | PATCH \<Rightarrow> ''PATCH'' | DELETE \<Rightarrow> ''DELETE'')"

definition no_route :: "api_request \<Rightarrow> exception" where
  "no_route q = exception_of (\<lambda>m. ErrorExn m ''Error'')
     (NotFoundException (''Cannot '' @ method_name (aq_method q) @ '' '' @ aq_url q))"

definition serve_route ::
  "server_env \<Rightarrow> api_request \<Rightarrow> route_entry \<Rightarrow> string list \<Rightarrow> server \<Rightarrow> (http_response \<times> server) option" where
  "serve_route V q r params s0 =
     (case guard_request (account_env V) (re_guard r) (aq_http q) (account s0) of
        (Inl e, a) \<Rightarrow> fail_request V q (exception_of (lib_exception V) e) (s0\<lparr>account := a\<rparr>)
      | (Inr req, a) \<Rightarrow>
          (case check_input V (re_input r) q (s0\<lparr>account := a\<rparr>) of
             (Inl ex, s) \<Rightarrow> fail_request V q ex s
           | (Inr b, s) \<Rightarrow>
               (case run_handler V (re_handler r) params b req s of
                  None \<Rightarrow> None
                | Some (Inl e, s') \<Rightarrow> fail_request V q (exception_of (lib_exception V) e) s'
                | Some (Inr v, s') \<Rightarrow> Some (\<lparr>hr_status = re_status r, hr_body = v\<rparr>, s'))))"

text \<open>A request starts with an empty list of cookie operations on its response.\<close>

definition serve :: "server_env \<Rightarrow> api_request \<Rightarrow> server \<Rightarrow> (http_response \<times> server) option" where
  "serve V q s =
     (let s0 = s\<lparr>account := (account s)\<lparr>res_cookies := []\<rparr>\<rparr> in
      case resolve all_routes (aq_method q) (aq_path q) of
        None \<Rightarrow> fail_request V q (no_route q) s0
      | Some (r, params) \<Rightarrow> serve_route V q r params s0)"

end
