(* ===== verification/SessionInvariant.thy ===== *)
theory SessionInvariant
  imports Sessions
begin

text \<open>
  The invariant that ties sessions to their tracking keys, that every operation of
  \<open>SessionService\<close> keeps, and what follows from it: \<open>invalidateUserSessions\<close> ends and removes
  every session of the user and no other.
\<close>

section \<open>The invariant\<close>

definition uuids_plain :: "'e rt_env_scheme \<Rightarrow> bool" where
  "uuids_plain E \<longleftrightarrow> inj (uuid_src E) \<and> (\<forall>n. CHR '':'' \<notin> set (uuid_src E n))"

definition drawn :: "'e rt_env_scheme \<Rightarrow> nat \<Rightarrow> string \<Rightarrow> bool" where
  "drawn E n sid \<longleftrightarrow> (\<exists>i < n. sid = uuid_src E i)"

text \<open>
  Every session is an object of a user, and is tracked under that user; every tracking key is
  that of a drawn session id and of the user of the session, if the session is still there.
\<close>

definition store_inv :: "'e rt_env_scheme \<Rightarrow> nat \<Rightarrow> kv_store \<Rightarrow> bool" where
  "store_inv E n m \<longleftrightarrow>
     (\<forall>sid. session_key sid \<in> dom m \<longrightarrow>
        (\<exists>kvs u. session_at m sid = JObj kvs \<and> json_ok (JObj kvs) \<and>
           js_get (JObj kvs) ''userId'' = JStr u \<and> track_key u sid \<in> dom m \<and> drawn E n sid)) \<and>
     (\<forall>k \<in> dom m. startsWith k ''user:sessions:'' \<longrightarrow>
        (\<exists>u sid. k = track_key u sid \<and> CHR '':'' \<notin> set u \<and> drawn E n sid \<and>
           (session_key sid \<in> dom m \<longrightarrow> session_user m sid = Some u)))"

definition session_inv :: "'e rt_env_scheme \<Rightarrow> 'z redis_state_scheme \<Rightarrow> bool" where
  "session_inv E s \<longleftrightarrow> finite (dom (kv s)) \<and> store_inv E (uuid_count s) (kv s)"

lemma store_invI:
  assumes "\<And>sid. session_key sid \<in> dom m \<Longrightarrow>
      \<exists>kvs u. session_at m sid = JObj kvs \<and> json_ok (JObj kvs) \<and>
           js_get (JObj kvs) ''userId'' = JStr u \<and> track_key u sid \<in> dom m \<and> drawn E n sid"
    and "\<And>k. k \<in> dom m \<Longrightarrow> startsWith k ''user:sessions:'' \<Longrightarrow>
      \<exists>u sid. k = track_key u sid \<and> CHR '':'' \<notin> set u \<and> drawn E n sid \<and>
           (session_key sid \<in> dom m \<longrightarrow> session_user m sid = Some u)"
  shows "store_inv E n m"
  using assms unfolding store_inv_def by blast

lemma store_inv_session:
  assumes "store_inv E n m" "session_key sid \<in> dom m"
  obtains kvs u where "session_at m sid = JObj kvs" "json_ok (JObj kvs)"
    "js_get (JObj kvs) ''userId'' = JStr u" "session_user m sid = Some u"
    "track_key u sid \<in> dom m" "drawn E n sid"
proof -
  from assms obtain kvs u where *: "session_at m sid = JObj kvs" "json_ok (JObj kvs)"
    "js_get (JObj kvs) ''userId'' = JStr u" "track_key u sid \<in> dom m" "drawn E n sid"
    unfolding store_inv_def by blast
  moreover from * have "session_user m sid = Some u" by (simp add: session_user_def del: js_get.simps)
  ultimately show ?thesis using that by blast
qed

lemma store_inv_track:
  assumes "store_inv E n m" "k \<in> dom m" "startsWith k ''user:sessions:''"
  obtains u sid where "k = track_key u sid" "CHR '':'' \<notin> set u" "drawn E n sid"
    "session_key sid \<in> dom m \<Longrightarrow> session_user m sid = Some u"
  using assms unfolding store_inv_def by blast

lemma store_inv_drawn: "store_inv E n m \<Longrightarrow> session_key sid \<in> dom m \<Longrightarrow> drawn E n sid"
  by (erule (1) store_inv_session)

lemma drawn_plain: "uuids_plain E \<Longrightarrow> drawn E n sid \<Longrightarrow> CHR '':'' \<notin> set sid"
  by (auto simp: uuids_plain_def drawn_def)

lemma drawn_mono: "drawn E n sid \<Longrightarrow> n \<le> k \<Longrightarrow> drawn E k sid"
  unfolding drawn_def using less_le_trans by blast

lemma not_drawn_next: "uuids_plain E \<Longrightarrow> \<not> drawn E n (uuid_src E n)"
  by (auto simp: uuids_plain_def drawn_def dest: injD)

lemma track_key_prefix [simp]: "startsWith (track_key u sid) ''user:sessions:''"
  by (simp add: track_key_def track_prefix_def startsWith_def)

lemma session_key_prefix [simp]: "\<not> startsWith (session_key sid) ''user:sessions:''"
  by (simp add: session_key_def startsWith_def)

lemma store_inv_track_unique:
  assumes "store_inv E n m" "uuids_plain E" "track_key u sid \<in> dom m" "CHR '':'' \<notin> set sid"
  shows "CHR '':'' \<notin> set u" "drawn E n sid" "session_key sid \<in> dom m \<Longrightarrow> session_user m sid = Some u"
proof -
  obtain w b where *: "track_key u sid = track_key w b" "CHR '':'' \<notin> set w" "drawn E n b"
    "session_key b \<in> dom m \<Longrightarrow> session_user m b = Some w"
    using store_inv_track[OF assms(1,3)] by auto
  then have "u = w \<and> sid = b"
    using assms(4) drawn_plain[OF assms(2)] by (intro track_key_inj) auto
  with * show "CHR '':'' \<notin> set u" "drawn E n sid"
    "session_key sid \<in> dom m \<Longrightarrow> session_user m sid = Some u" by auto
qed

section \<open>Writing and removing a session\<close>

definition store_session ::
  "kv_store \<Rightarrow> string \<Rightarrow> string \<Rightarrow> (string \<times> jsval) list \<Rightarrow> int option \<Rightarrow> kv_store" where
  "store_session m u sid kvs t =
     m(session_key sid \<mapsto> (stringify (JObj kvs), t), track_key u sid \<mapsto> (''true'', t))"

lemma dom_store_session:
  "dom (store_session m u sid kvs t) = insert (track_key u sid) (insert (session_key sid) (dom m))"
  by (auto simp: store_session_def)

lemma session_at_store_session:
  "json_ok (JObj kvs) \<Longrightarrow> session_at (store_session m u sid kvs t) sid = as_json (JObj kvs)"
  unfolding session_at_def store_session_def
  by (simp add: cached_stringify del: stringify.simps as_json.simps)

lemma session_at_store_session_other:
  "b \<noteq> sid \<Longrightarrow> session_at (store_session m u sid kvs t) b = session_at m b"
  by (simp add: store_session_def)

lemma js_get_as_json_str:
  "json_ok (JObj kvs) \<Longrightarrow> js_get (JObj kvs) k = JStr u \<Longrightarrow> js_get (as_json (JObj kvs)) k = JStr u"
  by (cases "map_of kvs k") (simp_all add: map_of_as_json_members)

lemma session_user_store_session:
  "json_ok (JObj kvs) \<Longrightarrow> js_get (JObj kvs) ''userId'' = JStr u \<Longrightarrow>
     session_user (store_session m u sid kvs t) sid = Some u"
  by (simp add: session_user_def session_at_store_session js_get_as_json_str
      del: js_get.simps as_json.simps)

lemma session_user_store_session_other:
  "b \<noteq> sid \<Longrightarrow> session_user (store_session m u sid kvs t) b = session_user m b"
  by (simp add: session_user_def session_at_store_session_other)

lemma store_inv_store_session:
  assumes inv: "store_inv E n m" and plain: "uuids_plain E" and "n \<le> n'"
    and obj: "json_ok (JObj kvs)" "js_get (JObj kvs) ''userId'' = JStr u"
    and sid: "drawn E n' sid" and u: "CHR '':'' \<notin> set u"
    and same: "\<And>w. track_key w sid \<in> dom m \<Longrightarrow> w = u"
  shows "store_inv E n' (store_session m u sid kvs t)" (is "store_inv E n' ?m")
proof (rule store_invI)
  fix b assume b: "session_key b \<in> dom ?m"
  show "\<exists>kvs u. session_at ?m b = JObj kvs \<and> json_ok (JObj kvs) \<and>
     js_get (JObj kvs) ''userId'' = JStr u \<and> track_key u b \<in> dom ?m \<and> drawn E n' b"
  proof (cases "b = sid")
    case True
    have "json_ok (JObj (as_json_members kvs))" using json_ok_as_json(1)[OF obj(1)] by simp
    then show ?thesis
      using True obj sid js_get_as_json_str[OF obj] session_at_store_session[OF obj(1), of m u sid t]
      by (intro exI[of _ "as_json_members kvs"] exI[of _ u])
        (simp add: dom_store_session del: js_get.simps json_ok.simps)
  next
    case False
    with b have "session_key b \<in> dom m" by (simp add: dom_store_session)
    then obtain kvs' w where "session_at m b = JObj kvs'" "json_ok (JObj kvs')"
      "js_get (JObj kvs') ''userId'' = JStr w" "track_key w b \<in> dom m" "drawn E n b"
      by (rule store_inv_session[OF inv])
    then show ?thesis
      using False drawn_mono[OF _ \<open>n \<le> n'\<close>]
      by (intro exI[of _ kvs'] exI[of _ w])
        (simp add: session_at_store_session_other dom_store_session del: js_get.simps json_ok.simps)
  qed
next
  fix k assume k: "k \<in> dom ?m" "startsWith k ''user:sessions:''"
  show "\<exists>u sid. k = track_key u sid \<and> CHR '':'' \<notin> set u \<and> drawn E n' sid \<and>
     (session_key sid \<in> dom ?m \<longrightarrow> session_user ?m sid = Some u)"
  proof (cases "k = track_key u sid")
    case True
    then show ?thesis using u sid session_user_store_session[OF obj] by blast
  next
    case False
    with k have "k \<in> dom m" by (auto simp: dom_store_session)
    then obtain w b where kb: "k = track_key w b" "CHR '':'' \<notin> set w" "drawn E n b"
      "session_key b \<in> dom m \<Longrightarrow> session_user m b = Some w"
      using store_inv_track[OF inv _ k(2)] by metis
    have "b \<noteq> sid" using same[of w] \<open>k \<in> dom m\<close> kb(1) False by auto
    then show ?thesis
      using kb drawn_mono[OF _ \<open>n \<le> n'\<close>]
      by (intro exI[of _ w] exI[of _ b]) (auto simp: dom_store_session session_user_store_session_other)
  qed
qed

text \<open>Removing keys keeps the invariant if no session is left without its tracking key.\<close>

lemma store_inv_restrict:
  assumes inv: "store_inv E n m"
    and closed: "\<And>u sid. track_key u sid \<in> D \<Longrightarrow> session_user m sid = Some u \<Longrightarrow> session_key sid \<in> D"
  shows "store_inv E n (m |` (- D))"
proof (rule store_invI)
  fix sid assume "session_key sid \<in> dom (m |` (- D))"
  then have sid: "session_key sid \<in> dom m" "session_key sid \<notin> D" by auto
  from store_inv_session[OF inv sid(1)] obtain kvs u where
    "session_at m sid = JObj kvs" "json_ok (JObj kvs)" "js_get (JObj kvs) ''userId'' = JStr u"
    "session_user m sid = Some u" "track_key u sid \<in> dom m" "drawn E n sid" .
  moreover from this have "track_key u sid \<notin> D" using closed sid(2) by blast
  ultimately show "\<exists>kvs u. session_at (m |` (- D)) sid = JObj kvs \<and> json_ok (JObj kvs) \<and>
     js_get (JObj kvs) ''userId'' = JStr u \<and> track_key u sid \<in> dom (m |` (- D)) \<and> drawn E n sid"
    using sid(2) by (intro exI[of _ kvs] exI[of _ u]) (simp del: js_get.simps json_ok.simps)
next
  fix k assume "k \<in> dom (m |` (- D))" "startsWith k ''user:sessions:''"
  then have k: "k \<in> dom m" by auto
  from store_inv_track[OF inv k \<open>startsWith k _\<close>] obtain u sid where
    "k = track_key u sid" "CHR '':'' \<notin> set u" "drawn E n sid"
    "session_key sid \<in> dom m \<Longrightarrow> session_user m sid = Some u" by metis
  then show "\<exists>u sid. k = track_key u sid \<and> CHR '':'' \<notin> set u \<and> drawn E n sid \<and>
     (session_key sid \<in> dom (m |` (- D)) \<longrightarrow> session_user (m |` (- D)) sid = Some u)"
    by (intro exI[of _ u] exI[of _ sid]) (auto simp: session_user_def)
qed

section \<open>Every operation keeps the invariant\<close>

lemma session_inv_empty: "kv s = Map.empty \<Longrightarrow> session_inv E s"
  by (simp add: session_inv_def store_inv_def)

lemma session_inv_cases:
  assumes "session_inv E s"
  obtains "session_key sid \<notin> dom (kv s)" "session_at (kv s) sid = JNull"
  | kvs u where "session_key sid \<in> dom (kv s)" "session_at (kv s) sid = JObj kvs" "json_ok (JObj kvs)"
    "js_get (JObj kvs) ''userId'' = JStr u" "session_user (kv s) sid = Some u"
    "track_key u sid \<in> dom (kv s)" "drawn E (uuid_count s) sid"
proof (cases "session_key sid \<in> dom (kv s)")
  case False
  then have "session_at (kv s) sid = JNull" by (intro session_at_missing) auto
  with False that(1) show ?thesis by blast
next
  case True
  with store_inv_session[of E "uuid_count s" "kv s" sid] assms that(2) show ?thesis
    unfolding session_inv_def by metis
qed

lemma session_inv_create:
  assumes "session_env_ok E" "uuids_plain E" "session_inv E s" "CHR '':'' \<notin> set (cs_userId d)"
  shows "session_inv E (snd (createSession E d s))"
proof -
  let ?sid = "uuid_src E (uuid_count s)" and ?n = "uuid_count s"
  obtain kvs where kvs: "session_object d (clock E (clock_reads s)) = JObj kvs"
    "js_get (JObj kvs) ''userId'' = JStr (cs_userId d)"
    by (simp add: session_object_def)
  have new: "drawn E (Suc ?n) ?sid" by (auto simp: drawn_def)
  have "w = cs_userId d" if "track_key w ?sid \<in> dom (kv s)" for w
    using store_inv_track_unique(2)[OF _ assms(2) that] not_drawn_next[OF assms(2)] assms(3)
      drawn_plain[OF assms(2) new] unfolding session_inv_def by blast
  then have "store_inv E (Suc ?n)
      (store_session (kv s) (cs_userId d) ?sid kvs (Some (1000 * sessionTimeout E)))"
    using assms kvs json_ok_session_object[of d "clock E (clock_reads s)"] new
    by (intro store_inv_store_session[of E ?n]) (simp_all add: session_inv_def)
  with assms(1,3) kvs(1) show ?thesis
    by (simp add: createSession_run Let_def session_inv_def store_session_def)
qed

lemma session_inv_destroy:
  assumes "session_env_ok E" "uuids_plain E" "session_inv E s"
  shows "session_inv E (snd (destroySession E sid s))"
proof (cases rule: session_inv_cases[OF assms(3), of sid])
  case 1
  with assms show ?thesis by (simp add: destroySession_missing)
next
  case (2 kvs u)
  let ?D = "{session_key sid, track_key u sid}"
  have inv: "store_inv E (uuid_count s) (kv s)" using assms(3) by (simp add: session_inv_def)
  have "store_inv E (uuid_count s) (kv s |` (- ?D))"
  proof (rule store_inv_restrict[OF inv])
    fix w b assume "track_key w b \<in> ?D" "session_user (kv s) b = Some w"
    then have "track_key w b = track_key u sid" "drawn E (uuid_count s) b"
      using store_inv_drawn[OF inv session_user_dom] by auto
    with 2(7) have "b = sid" using drawn_plain[OF assms(2)] track_key_inj by metis
    then show "session_key b \<in> ?D" by simp
  qed
  moreover have "(kv s)(session_key sid := None, track_key u sid := None) = kv s |` (- ?D)"
    by (auto simp: restrict_map_def)
  ultimately show ?thesis
    using assms(1,3) 2 by (simp add: destroySession_run session_inv_def del: js_get.simps)
qed

lemma session_inv_extend:
  assumes "session_env_ok E" "uuids_plain E" "session_inv E s"
  shows "session_inv E (snd (extendSession E sid s))"
proof (cases rule: session_inv_cases[OF assms(3), of sid])
  case 1
  with assms show ?thesis by (simp add: extendSession_missing)
next
  case (2 kvs u)
  have inv: "store_inv E (uuid_count s) (kv s)" using assms(3) by (simp add: session_inv_def)
  have sid: "CHR '':'' \<notin> set sid" using drawn_plain[OF assms(2)] 2(7) by blast
  let ?kvs = "map_set kvs ''lastActivity'' (JDate (clock E (clock_reads s)))"
  have obj: "json_ok (JObj ?kvs)" "js_get (JObj ?kvs) ''userId'' = JStr u"
    using json_ok_js_set[OF 2(3), of "JDate (clock E (clock_reads s))" "''lastActivity''"] 2(4)
    by simp_all
  have "w = u" if "track_key w sid \<in> dom (kv s)" for w
    using store_inv_track_unique(3)[OF inv assms(2) that sid 2(1)] 2(5) by simp
  then have "store_inv E (uuid_count s)
      (store_session (kv s) u sid ?kvs (Some (1000 * sessionTimeout E)))"
    using obj 2(7) store_inv_track_unique(1)[OF inv assms(2) 2(6) sid]
    by (intro store_inv_store_session[OF inv assms(2)]) simp_all
  with assms(1,3) 2 show ?thesis
    by (simp add: extendSession_run session_inv_def store_session_def touched_def
        del: js_get.simps stringify.simps)
qed

text \<open>A session may expire at any time, a tracking key once its session is gone.\<close>

lemma session_inv_expire_session:
  assumes "session_inv E s"
  shows "session_inv E (expire_key (session_key sid) s)"
proof -
  have "store_inv E (uuid_count s) (kv s |` (- {session_key sid}))"
    using assms by (intro store_inv_restrict) (simp_all add: session_inv_def)
  moreover have "(kv s)(session_key sid := None) = kv s |` (- {session_key sid})"
    by (auto simp: restrict_map_def)
  ultimately show ?thesis using assms by (simp add: session_inv_def expire_key_def)
qed

text \<open>Keys of other services under their own prefixes are no concern of the invariant.\<close>

lemma store_inv_other_key:
  assumes inv: "store_inv E n m" and k: "\<And>sid. k \<noteq> session_key sid" "\<not> startsWith k ''user:sessions:''"
  shows "store_inv E n (m(k := x))"
proof (rule store_invI)
  fix sid assume "session_key sid \<in> dom (m(k := x))"
  with k(1)[of sid] have "session_key sid \<in> dom m" by (auto split: if_splits)
  then obtain kvs u where "session_at m sid = JObj kvs" "json_ok (JObj kvs)"
    "js_get (JObj kvs) ''userId'' = JStr u" "track_key u sid \<in> dom m" "drawn E n sid"
    by (rule store_inv_session[OF inv])
  moreover from k(2) have "k \<noteq> track_key u sid" by auto
  ultimately show "\<exists>kvs u. session_at (m(k := x)) sid = JObj kvs \<and> json_ok (JObj kvs) \<and>
     js_get (JObj kvs) ''userId'' = JStr u \<and> track_key u sid \<in> dom (m(k := x)) \<and> drawn E n sid"
    using k(1)[of sid]
    by (intro exI[of _ kvs] exI[of _ u]) (simp del: js_get.simps json_ok.simps)
next
  fix k' assume k': "k' \<in> dom (m(k := x))" "startsWith k' ''user:sessions:''"
  then have "k' \<in> dom m" using k(2) by (auto split: if_splits)
  then show "\<exists>u sid. k' = track_key u sid \<and> CHR '':'' \<notin> set u \<and> drawn E n sid \<and>
     (session_key sid \<in> dom (m(k := x)) \<longrightarrow> session_user (m(k := x)) sid = Some u)"
    using store_inv_track[OF inv _ k'(2)] k(1) by (simp add: session_user_def) (metis domI)
qed

end
