(* ===== verification/SessionInvalidation.thy ===== *)
theory SessionInvalidation
  imports SessionInvariant
begin

text \<open>
  \<open>invalidateUserSessions\<close>: the \<open>SCAN\<close> loop ends, and what it removes is the sessions of the user
  and their tracking keys.
\<close>

section \<open>One reply\<close>

definition dropped :: "string list \<Rightarrow> string set" where
  "dropped ks = set ks \<union> (\<lambda>k. session_key (session_id_of_key k)) ` set ks"

lemma dropped_simps [simp]:
  "dropped [] = {}" "dropped (ks @ ls) = dropped ks \<union> dropped ls"
  by (auto simp: dropped_def)

lemma dropped_Cons:
  "dropped (k # ks) = insert k (insert (session_key (session_id_of_key k)) (dropped ks))"
  by (auto simp: dropped_def)

lemma drop_tracked_key_run:
  assumes "redis_ok (redis E)"
  obtains n where "drop_tracked_key E k s =
    (Inr n, s\<lparr>kv := (kv s)(session_key (session_id_of_key k) := None, k := None)\<rparr>)"
  using assms by (simp add: drop_tracked_key_def act_simps)

lemma drop_keys_run:
  assumes "redis_ok (redis E)"
  shows "for_each (drop_tracked_key E) ks s = (Inr (), s\<lparr>kv := kv s |` (- dropped ks)\<rparr>)"
proof (induction ks arbitrary: s)
  case Nil
  then show ?case by (simp add: act_simps)
next
  case (Cons k ks)
  let ?m = "(kv s)(session_key (session_id_of_key k) := None, k := None)"
  have m: "?m |` (- dropped ks) = kv s |` (- dropped (k # ks))"
    by (auto simp: restrict_map_def dropped_Cons)
  obtain n where "drop_tracked_key E k s = (Inr n, s\<lparr>kv := ?m\<rparr>)"
    using drop_tracked_key_run[OF assms] .
  then have "for_each (drop_tracked_key E) (k # ks) s = for_each (drop_tracked_key E) ks (s\<lparr>kv := ?m\<rparr>)"
    by simp
  also have "\<dots> = (Inr (), s\<lparr>kv := ?m |` (- dropped ks)\<rparr>)"
    unfolding Cons.IH by simp
  finally show ?case unfolding m .
qed

text \<open>One turn of the loop: the reply, and the store after its keys are dropped.\<close>

lemma scan_loop_step:
  assumes "redis_ok (redis E)" "rc_scan (redis E) cur pat 100 (kv s) = (Inr (nxt, ks), kv s)"
  shows "scan_loop E pat cur s =
    (let s' = s\<lparr>kv := kv s |` (- dropped ks)\<rparr> in
     if nxt = ''0'' then Some (Inr (), s') else scan_loop E pat nxt s')"
  by (subst scan_loop.simps)
    (simp add: redis_scan_def on_kv_run assms drop_keys_run[OF assms(1)] Let_def)

lemma scan_reply:
  assumes "scan_ok C" "glob_literal p"
  obtains nxt ks where "rc_scan C cur (p @ ''*'') n m = (Inr (nxt, ks), m)"
    "\<And>k. k \<in> set ks \<Longrightarrow> k \<in> dom m \<and> startsWith k p"
proof -
  have "\<exists>nxt ks. rc_scan C cur (p @ ''*'') n m = (Inr (nxt, ks), m) \<and>
      (\<forall>k \<in> set ks. k \<in> dom m \<and> startsWith k p)"
    using assms(1)[unfolded scan_ok_def, THEN conjunct1, rule_format, OF assms(2)] .
  then show ?thesis using that by blast
qed

section \<open>The loop ends\<close>

definition loop_next ::
  "'e session_env_scheme \<Rightarrow> string \<Rightarrow> string \<times> 'z redis_state_scheme \<Rightarrow> string \<times> 'z redis_state_scheme" where
  "loop_next E pat = (\<lambda>(cur, s).
     case fst (rc_scan (redis E) cur pat 100 (kv s)) of
       Inr (nxt, ks) \<Rightarrow> (nxt, s\<lparr>kv := kv s |` (- dropped ks)\<rparr>)
     | Inl e \<Rightarrow> (cur, s))"

lemma loop_next_reply:
  "rc_scan (redis E) (fst x) pat 100 (kv (snd x)) = (Inr (nxt, ks), m) \<Longrightarrow>
     loop_next E pat x = (nxt, (snd x)\<lparr>kv := kv (snd x) |` (- dropped ks)\<rparr>)"
  by (simp add: loop_next_def split_beta)

lemma scan_loop_terminates:
  assumes R: "redis_ok (redis E)" and S: "scan_ok (redis E)" and p: "glob_literal p"
  shows "scan_loop E (p @ ''*'') ''0'' s \<noteq> None"
proof
  assume none: "scan_loop E (p @ ''*'') ''0'' s = None"
  let ?st = "\<lambda>i. (loop_next E (p @ ''*'') ^^ i) (''0'', s)"
  let ?cs = "\<lambda>i. fst (?st i)" and ?ms = "\<lambda>i. kv (snd (?st i))"
  have step: "scan_loop E (p @ ''*'') (fst (?st (Suc i))) (snd (?st (Suc i))) = None \<and>
      ?cs (Suc i) \<noteq> ''0'' \<and> dom (?ms (Suc i)) \<subseteq> dom (?ms i) \<and>
      (\<exists>ks. fst (rc_scan (redis E) (?cs i) (p @ ''*'') 100 (?ms i)) = Inr (?cs (Suc i), ks))"
    if i: "scan_loop E (p @ ''*'') (fst (?st i)) (snd (?st i)) = None" for i
  proof -
    obtain nxt ks where r: "rc_scan (redis E) (?cs i) (p @ ''*'') 100 (?ms i) = (Inr (nxt, ks), ?ms i)"
      using scan_reply[OF S p] by metis
    have st: "?st (Suc i) = (nxt, (snd (?st i))\<lparr>kv := ?ms i |` (- dropped ks)\<rparr>)"
      using loop_next_reply[OF r] by simp
    from i show ?thesis
      unfolding st scan_loop_step[OF R r] by (auto simp: r Let_def split: if_splits)
  qed
  have all: "scan_loop E (p @ ''*'') (fst (?st i)) (snd (?st i)) = None" for i
  proof (induction i)
    case 0
    show ?case using none by simp
  next
    case (Suc i)
    show ?case using step[OF Suc] by blast
  qed
  have "\<exists>i. ?cs (Suc i) = ''0''"
    using S[unfolded scan_ok_def, THEN conjunct2, THEN conjunct2, rule_format, of p ?cs ?ms] p step[OF all]
    by simp
  with step[OF all] show False by blast
qed

section \<open>What the loop removes\<close>

definition loop_effect ::
  "'e session_env_scheme \<Rightarrow> string \<Rightarrow> string \<Rightarrow> string \<Rightarrow> 'z redis_state_scheme \<Rightarrow>
     (exn + unit) \<times> 'z redis_state_scheme \<Rightarrow> bool" where
  "loop_effect E p pat cur s r \<longleftrightarrow>
     (\<exists>tr. scan_trace (redis E) pat cur tr \<and>
      r = (Inr (), s\<lparr>kv := kv s |` (- dropped (concat (map (fst \<circ> snd) tr)))\<rparr>) \<and>
      (\<forall>(m, ks, _) \<in> set tr. (\<forall>k \<in> set ks. k \<in> dom (kv s) \<and> startsWith k p) \<and>
         (\<exists>D \<subseteq> dropped (concat (map (fst \<circ> snd) tr)). m = kv s |` (- D))))"

lemma scan_loop_effect:
  assumes p: "glob_literal p" and run: "scan_loop E pat cur s = Some r"
  shows "redis_ok (redis E) \<longrightarrow> scan_ok (redis E) \<longrightarrow> pat = p @ ''*'' \<longrightarrow> loop_effect E p pat cur s r"
proof (rule scan_loop.raw_induct[where P = "\<lambda>E pat cur s r. redis_ok (redis E) \<longrightarrow>
      scan_ok (redis E) \<longrightarrow> pat = p @ ''*'' \<longrightarrow> loop_effect E p pat cur s r", OF _ run],
    intro impI, goal_cases)
  case (1 loop E pat cur s r)
  note R = 1(3) and S = 1(4) and pat = 1(5)
  let ?C = "redis E"
  obtain nxt ks where reply: "rc_scan ?C cur pat 100 (kv s) = (Inr (nxt, ks), kv s)"
    and ks: "\<And>k. k \<in> set ks \<Longrightarrow> k \<in> dom (kv s) \<and> startsWith k p"
    using scan_reply[OF S p] pat by metis
  let ?s' = "s\<lparr>kv := kv s |` (- dropped ks)\<rparr>"
  have body: "(if nxt = ''0'' then Some (Inr (), ?s') else loop E pat nxt ?s') = Some r"
    using 1(2) by (simp add: redis_scan_def on_kv_run reply drop_keys_run[OF R] split: if_splits)
  have m: "kv s = kv s |` (- {})" by (simp add: restrict_map_def)
  show ?case
  proof (cases "nxt = ''0''")
    case True
    with body reply ks m show ?thesis
      unfolding loop_effect_def by (intro exI[of _ "[(kv s, ks, ''0'')]"]) (auto intro!: exI[of _ "{}"])
  next
    case False
    with body have "loop E pat nxt ?s' = Some r" by simp
    from 1(1)[OF this, THEN mp, OF R, THEN mp, OF S, THEN mp, OF pat, unfolded loop_effect_def] obtain tr where
      tr: "scan_trace ?C pat nxt tr"
      and r: "r = (Inr (), ?s'\<lparr>kv := kv ?s' |` (- dropped (concat (map (fst \<circ> snd) tr)))\<rparr>)"
      and mem: "\<forall>(m, ls, _) \<in> set tr. (\<forall>k \<in> set ls. k \<in> dom (kv ?s') \<and> startsWith k p) \<and>
        (\<exists>D \<subseteq> dropped (concat (map (fst \<circ> snd) tr)). m = kv ?s' |` (- D))"
      by blast
    let ?tr = "(kv s, ks, nxt) # tr"
    have sub: "kv ?s' |` (- D) = kv s |` (- (dropped ks \<union> D))" for D
      by (auto simp: restrict_map_def)
    have trace: "scan_trace ?C pat cur ?tr" using tr reply False by simp
    have res: "r = (Inr (), s\<lparr>kv := kv s |` (- dropped (concat (map (fst \<circ> snd) ?tr)))\<rparr>)"
      using r unfolding sub by simp
    have stores: "(\<forall>k \<in> set ls. k \<in> dom (kv s) \<and> startsWith k p) \<and>
        (\<exists>D \<subseteq> dropped (concat (map (fst \<circ> snd) ?tr)). m = kv s |` (- D))"
      if "(m, ls, c) \<in> set ?tr" for m ls c
    proof (cases "(m, ls, c) \<in> set tr")
      case True
      from bspec[OF mem True] obtain D where "\<forall>k \<in> set ls. k \<in> dom (kv ?s') \<and> startsWith k p"
        "D \<subseteq> dropped (concat (map (fst \<circ> snd) tr))" "m = kv ?s' |` (- D)"
        by auto
      then show ?thesis unfolding sub by (intro conjI exI[of _ "dropped ks \<union> D"]) auto
    next
      case False
      with that have "m = kv s" "ls = ks" by auto
      with ks m show ?thesis by (intro conjI exI[of _ "{}"]) auto
    qed
    show ?thesis
      unfolding loop_effect_def
    proof (intro exI[of _ ?tr] conjI trace res ballI, goal_cases)
      case (1 x)
      obtain m ls c where "x = (m, ls, c)" by (cases x)
      with stores 1 show ?case by simp
    qed
  qed
qed

section \<open>The effect of \<open>invalidateUserSessions\<close>\<close>

text \<open>The keys of a user: its tracking keys, and the sessions it has.\<close>

definition user_keys :: "kv_store \<Rightarrow> string \<Rightarrow> string set" where
  "user_keys m uid =
     {k. startsWith k (track_prefix uid)} \<union> {session_key sid | sid. session_user m sid = Some uid}"

lemma startsWith_track_prefix:
  "startsWith k (track_prefix u) \<Longrightarrow> startsWith k ''user:sessions:''"
  by (auto simp: startsWith_iff track_prefix_def)

lemma track_key_startsWith [simp]: "startsWith (track_key u sid) (track_prefix u)"
  by (simp add: track_key_def startsWith_def)

lemma startsWith_track_key_user:
  assumes "startsWith (track_key u sid) (track_prefix w)" "CHR '':'' \<notin> set u" "CHR '':'' \<notin> set w"
  shows "u = w"
proof -
  have tw: "takeWhile (\<lambda>c. c \<noteq> CHR '':'') (x @ CHR '':'' # y) = x" if "CHR '':'' \<notin> set x" for x y
    using that by (subst takeWhile_append2) auto
  from assms(1) obtain r where "u @ CHR '':'' # sid = w @ CHR '':'' # r"
    by (auto simp: track_key_def track_prefix_def startsWith_iff)
  then have "takeWhile (\<lambda>c. c \<noteq> CHR '':'') (u @ CHR '':'' # sid)
      = takeWhile (\<lambda>c. c \<noteq> CHR '':'') (w @ CHR '':'' # r)" by simp
  then show ?thesis unfolding tw[OF assms(2)] tw[OF assms(3)] .
qed

lemma glob_literal_track_prefix: "glob_literal uid \<Longrightarrow> glob_literal (track_prefix uid)"
  by (simp add: glob_literal_def track_prefix_def)

lemma dropped_user_keys:
  assumes inv: "store_inv E n m" and plain: "uuids_plain E" and uid: "CHR '':'' \<notin> set uid"
    and ks: "\<And>k. k \<in> set ks \<Longrightarrow> k \<in> dom m \<and> startsWith k (track_prefix uid)"
    and all: "\<And>k. k \<in> dom m \<Longrightarrow> startsWith k (track_prefix uid) \<Longrightarrow> k \<in> dropped ks"
  shows "m |` (- dropped ks) = m |` (- user_keys m uid)"
proof -
  have key: "\<exists>sid. k = track_key uid sid \<and> session_id_of_key k = sid \<and>
      (session_key sid \<in> dom m \<longrightarrow> session_user m sid = Some uid)" if "k \<in> set ks" for k
  proof -
    from ks[OF that] obtain u sid where u: "k = track_key u sid" "CHR '':'' \<notin> set u" "drawn E n sid"
      "session_key sid \<in> dom m \<Longrightarrow> session_user m sid = Some u"
      using store_inv_track[OF inv _ startsWith_track_prefix] by metis
    moreover have "u = uid" using ks[OF that] u uid startsWith_track_key_user by blast
    ultimately show ?thesis using session_id_of_track_key drawn_plain[OF plain] by blast
  qed
  have "k \<in> dropped ks \<longleftrightarrow> k \<in> user_keys m uid" if k: "k \<in> dom m" for k
  proof
    assume "k \<in> dropped ks"
    then consider "k \<in> set ks" | k' where "k' \<in> set ks" "k = session_key (session_id_of_key k')"
      by (auto simp: dropped_def)
    then show "k \<in> user_keys m uid"
    proof cases
      case 1
      with ks show ?thesis by (simp add: user_keys_def)
    next
      case 2
      with key[OF 2(1)] k show ?thesis by (auto simp: user_keys_def)
    qed
  next
    assume "k \<in> user_keys m uid"
    then consider "startsWith k (track_prefix uid)"
      | sid where "k = session_key sid" "session_user m sid = Some uid"
      by (auto simp: user_keys_def)
    then show "k \<in> dropped ks"
    proof cases
      case 1
      with all k show ?thesis by blast
    next
      case 2
      from store_inv_session[OF inv session_user_dom[OF 2(2)]] 2(2)
      have "track_key uid sid \<in> dom m" by (metis option.inject)
      with all have "track_key uid sid \<in> dropped ks" by simp
      then have "track_key uid sid \<in> set ks" by (auto simp: dropped_def)
      from key[OF this] store_inv_drawn[OF inv session_user_dom[OF 2(2)]]
      have "session_id_of_key (track_key uid sid) = sid"
        using session_id_of_track_key[OF uid] drawn_plain[OF plain] by blast
      with \<open>track_key uid sid \<in> set ks\<close> 2(1) show ?thesis
        unfolding dropped_def by (metis UnI2 imageI)
    qed
  qed
  then have "(m |` (- dropped ks)) k = (m |` (- user_keys m uid)) k" for k
    by (cases "m k") (auto simp: restrict_map_def)
  then show ?thesis by blast
qed

lemma invalidate_run:
  assumes R: "redis_ok (redis E)" and S: "scan_ok (redis E)" and plain: "uuids_plain E"
    and uid: "CHR '':'' \<notin> set uid" "glob_literal uid" and inv: "session_inv E s"
  shows "invalidateUserSessions E uid s = Some (Inr (), s\<lparr>kv := kv s |` (- user_keys (kv s) uid)\<rparr>)"
proof -
  let ?p = "track_prefix uid" and ?C = "redis E"
  have p: "glob_literal ?p" using uid(2) by (rule glob_literal_track_prefix)
  obtain r where run: "scan_loop E (?p @ ''*'') ''0'' s = Some r"
    using scan_loop_terminates[OF R S p] by blast
  have "loop_effect E ?p (?p @ ''*'') ''0'' s r"
    using scan_loop_effect[OF p run] R S by blast
  then obtain tr where tr: "scan_trace ?C (?p @ ''*'') ''0'' tr"
    and r: "r = (Inr (), s\<lparr>kv := kv s |` (- dropped (concat (map (fst \<circ> snd) tr)))\<rparr>)"
    and mem: "\<forall>(m, ks, _) \<in> set tr. (\<forall>k \<in> set ks. k \<in> dom (kv s) \<and> startsWith k ?p) \<and>
      (\<exists>D \<subseteq> dropped (concat (map (fst \<circ> snd) tr)). m = kv s |` (- D))"
    unfolding loop_effect_def by blast
  let ?ks = "concat (map (fst \<circ> snd) tr)"
  have all: "k \<in> dropped ?ks" if k: "k \<in> dom (kv s)" "startsWith k ?p" for k
  proof (rule ccontr)
    assume not: "k \<notin> dropped ?ks"
    have "finite (dom m) \<and> k \<in> dom m" if in_tr: "(m, ls, c) \<in> set tr" for m ls c
    proof -
      from bspec[OF mem in_tr] obtain D where "D \<subseteq> dropped ?ks" "m = kv s |` (- D)" by auto
      with k(1) not inv show ?thesis by (auto simp: session_inv_def)
    qed
    then have "\<forall>(m, _, _) \<in> set tr. finite (dom m) \<and> k \<in> dom m" by blast
    with S[unfolded scan_ok_def, THEN conjunct2, THEN conjunct1, rule_format, OF p tr _ k(2)]
    have "\<exists>(_, ks, _) \<in> set tr. k \<in> set ks" by blast
    then have "k \<in> dropped ?ks" by (force simp: dropped_def)
    with not show False ..
  qed
  have keys: "k \<in> dom (kv s) \<and> startsWith k ?p" if k: "k \<in> set ?ks" for k
  proof -
    from k obtain m ls c where "(m, ls, c) \<in> set tr" "k \<in> set ls" by auto
    with bspec[OF mem this(1)] show ?thesis by simp
  qed
  have "kv s |` (- dropped ?ks) = kv s |` (- user_keys (kv s) uid)"
    using inv by (intro dropped_user_keys[of E "uuid_count s", OF _ plain uid(1) keys all])
      (simp_all add: session_inv_def)
  with run r show ?thesis by (simp add: invalidateUserSessions_def)
qed

end
