(* ===== verification/SessionContract.thy ===== *)
theory SessionContract
  imports SessionInvalidation
begin

text \<open>
  What \<open>SessionService\<close> promises its clients (the guards, \<open>AuthService\<close>, \<open>UsersService\<close>), as a
  locale interpreted on the operations of the service, the machine of all its operations with
  its invariant, and the properties of the component.
\<close>

section \<open>The interface\<close>

locale session_service =
  fixes good :: "'s \<Rightarrow> bool"
    and live :: "'s \<Rightarrow> string \<Rightarrow> jsval"
    and fresh :: "create_session_dto \<Rightarrow> 's \<Rightarrow> jsval"
    and create :: "create_session_dto \<Rightarrow> ('s, string) act"
    and get :: "string \<Rightarrow> ('s, jsval) act"
    and extend :: "string \<Rightarrow> ('s, jsval) act"
    and destroy :: "string \<Rightarrow> ('s, unit) act"
  assumes get_run: "good s \<Longrightarrow> get sid s = (Inr (live s sid), s)"
    and live_cases: "good s \<Longrightarrow> live s sid = JNull \<or> (\<exists>kvs u. live s sid = JObj kvs \<and> map_of kvs ''userId'' = Some (JStr u))"
    and create_run: "good s \<Longrightarrow> CHR '':'' \<notin> set (cs_userId d) \<Longrightarrow>
      \<exists>sid s'. create d s = (Inr sid, s') \<and> good s' \<and> live s sid = JNull \<and>
        live s' = (live s)(sid := fresh d s)"
    and fresh_user: "js_get (fresh d s) ''userId'' = JStr (cs_userId d)"
      "js_get (fresh d s) ''roles'' = JArr (map (\<lambda>r. JStr (role_value r)) (cs_roles d))"
    and extend_null: "good s \<Longrightarrow> live s sid = JNull \<Longrightarrow> extend sid s = (Inr JNull, s)"
    and extend_run: "good s \<Longrightarrow> live s sid = JObj kvs \<Longrightarrow>
      \<exists>t s' kvs'. extend sid s = (Inr (JObj (map_set kvs ''lastActivity'' (JDate t))), s') \<and> good s' \<and>
        live s' = (live s)(sid := JObj kvs') \<and>
        (\<forall>k v. map_of kvs k = Some (JStr v) \<longrightarrow> k \<noteq> ''lastActivity'' \<longrightarrow> map_of kvs' k = Some (JStr v))"
    and destroy_run: "good s \<Longrightarrow>
      \<exists>s'. destroy sid s = (Inr (), s') \<and> good s' \<and> live s' = (live s)(sid := JNull)"
begin

lemma create_get:
  assumes "good s" "CHR '':'' \<notin> set (cs_userId d)" "create d s = (Inr sid, s')"
  shows "get sid s' = (Inr (fresh d s), s')"
  using create_run[OF assms(1,2)] assms(3) get_run[of s' sid] by auto

lemma create_keeps_others:
  assumes "good s" "CHR '':'' \<notin> set (cs_userId d)" "create d s = (Inr sid, s')" "live s b \<noteq> JNull"
  shows "live s' b = live s b"
  using create_run[OF assms(1,2)] assms(3,4) by auto

lemma destroy_get:
  assumes "good s" "destroy sid s = (Inr (), s')"
  shows "get sid s' = (Inr JNull, s')" "b \<noteq> sid \<Longrightarrow> get b s' = (Inr (live s b), s')"
  using destroy_run[OF assms(1), of sid] assms(2) get_run[of s'] by auto

lemma destroyed_stays_out:
  assumes "good s" "destroy sid s = (Inr (), s')"
  shows "extend sid s' = (Inr JNull, s')"
  using destroy_run[OF assms(1), of sid] assms(2) extend_null[of s' sid] by auto

lemma extend_same_user:
  assumes "good s" "extend sid s = (Inr v, s')" "v \<noteq> JNull"
  shows "\<exists>u. js_get (live s sid) ''userId'' = JStr u \<and> js_get v ''userId'' = JStr u \<and>
    js_get (live s' sid) ''userId'' = JStr u"
proof -
  from live_cases[OF assms(1), of sid] extend_null[OF assms(1), of sid] assms(2,3)
  obtain kvs u where *: "live s sid = JObj kvs" "map_of kvs ''userId'' = Some (JStr u)" by auto
  from extend_run[OF assms(1) *(1)] obtain t s2 kvs' where
    "extend sid s = (Inr (JObj (map_set kvs ''lastActivity'' (JDate t))), s2)"
    "live s2 = (live s)(sid := JObj kvs')" "map_of kvs' ''userId'' = Some (JStr u)"
    using *(2) by fastforce
  with * assms(2) show ?thesis by auto
qed

end

section \<open>The model provides it\<close>

definition session_good :: "'e session_env_scheme \<Rightarrow> 'z redis_state_scheme \<Rightarrow> bool" where
  "session_good E s \<longleftrightarrow> session_env_ok E \<and> uuids_plain E \<and> session_inv E s"

definition session_fresh :: "'e session_env_scheme \<Rightarrow> create_session_dto \<Rightarrow> 'z redis_state_scheme \<Rightarrow> jsval" where
  "session_fresh E d s = as_json (session_object d (clock E (clock_reads s)))"

lemma session_good_cases:
  assumes "session_good E s"
  obtains "session_key sid \<notin> dom (kv s)" "session_at (kv s) sid = JNull"
  | kvs u where "session_key sid \<in> dom (kv s)" "session_at (kv s) sid = JObj kvs" "json_ok (JObj kvs)"
    "js_get (JObj kvs) ''userId'' = JStr u" "session_user (kv s) sid = Some u"
    "track_key u sid \<in> dom (kv s)" "drawn E (uuid_count s) sid"
  using assms session_inv_cases unfolding session_good_def by metis

lemma session_at_put:
  assumes "json_ok (JObj kvs)"
  shows "session_at (m(session_key sid \<mapsto> (stringify (JObj kvs), t))) =
    (session_at m)(sid := as_json (JObj kvs))"
proof
  fix b
  show "session_at (m(session_key sid \<mapsto> (stringify (JObj kvs), t))) b =
      ((session_at m)(sid := as_json (JObj kvs))) b"
    using cached_stringify[OF assms] by (cases "b = sid") (simp_all add: session_at_def)
qed

lemma session_at_drop: "session_at (m(session_key sid := None)) = (session_at m)(sid := JNull)"
  by (rule ext) (simp add: session_at_def)

lemma js_get_str_map_of: "js_get (JObj kvs) k = JStr u \<longleftrightarrow> map_of kvs k = Some (JStr u)"
  by (cases "map_of kvs k") simp_all

lemma track_key_upd_session_at: "session_at (m(track_key u sid := x)) = session_at m"
  by (rule ext) simp

lemma good_get:
  assumes "session_good E s"
  shows "getSession E sid s = (Inr (session_at (kv s) sid), s)"
    "session_at (kv s) sid = JNull \<or>
       (\<exists>kvs u. session_at (kv s) sid = JObj kvs \<and> map_of kvs ''userId'' = Some (JStr u))"
proof -
  have R: "redis_ok (redis E)" using assms by (simp add: session_good_def)
  show "getSession E sid s = (Inr (session_at (kv s) sid), s)"
    by (cases rule: session_good_cases[OF assms, of sid])
      (simp_all add: getSession_missing[OF R] getSession_object[OF R])
  show "session_at (kv s) sid = JNull \<or>
       (\<exists>kvs u. session_at (kv s) sid = JObj kvs \<and> map_of kvs ''userId'' = Some (JStr u))"
    by (cases rule: session_good_cases[OF assms, of sid])
      (simp_all add: js_get_str_map_of del: js_get.simps)
qed

lemma good_create:
  assumes "session_good E s" "CHR '':'' \<notin> set (cs_userId d)"
  shows "\<exists>sid s'. createSession E d s = (Inr sid, s') \<and> session_good E s' \<and>
    session_at (kv s) sid = JNull \<and>
    session_at (kv s') = (session_at (kv s))(sid := session_fresh E d s)"
proof -
  let ?sid = "uuid_src E (uuid_count s)"
  have env: "session_env_ok E" "uuids_plain E" "session_inv E s"
    using assms(1) by (simp_all add: session_good_def)
  have "session_key ?sid \<notin> dom (kv s)"
    using env not_drawn_next store_inv_drawn unfolding session_inv_def by metis
  then have "session_at (kv s) ?sid = JNull" by (intro session_at_missing) auto
  moreover have "session_good E (snd (createSession E d s))"
    using session_inv_create[OF env assms(2)] env by (simp add: session_good_def)
  moreover obtain kvs where obj: "session_object d (clock E (clock_reads s)) = JObj kvs"
    by (simp add: session_object_def)
  with json_ok_session_object have "json_ok (JObj kvs)" by metis
  ultimately show ?thesis
    using env(1) obj
    by (simp add: createSession_run Let_def track_key_upd_session_at session_fresh_def session_at_put
        del: stringify.simps json_ok.simps as_json.simps)
qed

lemma good_extend:
  assumes "session_good E s" "session_at (kv s) sid = JObj kvs"
  shows "\<exists>t s' kvs'. extendSession E sid s = (Inr (JObj (map_set kvs ''lastActivity'' (JDate t))), s') \<and>
    session_good E s' \<and> session_at (kv s') = (session_at (kv s))(sid := JObj kvs') \<and>
    (\<forall>k v. map_of kvs k = Some (JStr v) \<longrightarrow> k \<noteq> ''lastActivity'' \<longrightarrow> map_of kvs' k = Some (JStr v))"
proof (cases rule: session_good_cases[OF assms(1), of sid])
  case (2 kvs0 u)
  let ?t = "clock E (clock_reads s)"
  let ?kvs = "map_set kvs ''lastActivity'' (JDate ?t)"
  have env: "session_env_ok E" "uuids_plain E" "session_inv E s"
    using assms(1) by (simp_all add: session_good_def)
  have obj: "json_ok (JObj kvs)" "js_get (JObj kvs) ''userId'' = JStr u" using 2 assms(2) by simp_all
  have ok: "json_ok (JObj ?kvs)" 
    using json_ok_js_set[OF obj(1), of "JDate ?t"] by simp
  have "session_good E (snd (extendSession E sid s))"
    using session_inv_extend[OF env] env by (simp add: session_good_def)
  moreover have "map_of (as_json_members ?kvs) k = Some (JStr v)"
    if "map_of kvs k = Some (JStr v)" "k \<noteq> ''lastActivity''" for k v
    using that ok by (simp add: map_of_as_json_members)
  ultimately show ?thesis
    using extendSession_run[OF env(1) assms(2) obj(2)]
    by (intro exI[of _ ?t] exI[of _ "snd (extendSession E sid s)"] exI[of _ "as_json_members ?kvs"])
      (simp add: touched_def track_key_upd_session_at session_at_put[OF ok]
        del: stringify.simps json_ok.simps)
qed (use assms in simp)

lemma good_destroy:
  assumes "session_good E s"
  shows "\<exists>s'. destroySession E sid s = (Inr (), s') \<and> session_good E s' \<and>
    session_at (kv s') = (session_at (kv s))(sid := JNull)"
proof (cases rule: session_good_cases[OF assms, of sid])
  case 1
  with assms show ?thesis
    by (auto simp: session_good_def destroySession_missing)
next
  case (2 kvs u)
  have env: "session_env_ok E" "uuids_plain E" "session_inv E s"
    using assms by (simp_all add: session_good_def)
  have "session_good E (snd (destroySession E sid s))"
    using session_inv_destroy[OF env] env by (simp add: session_good_def)
  then show ?thesis
    using destroySession_run[OF env(1) 2(2,4)]
    by (simp add: track_key_upd_session_at session_at_drop)
qed

interpretation sess: session_service "session_good E" "\<lambda>s. session_at (kv s)" "session_fresh E"
  "createSession E" "getSession E" "extendSession E" "destroySession E" for E
proof (unfold_locales, goal_cases)
  case (1 s sid)
  then show ?case by (rule good_get)
next
  case (2 s sid)
  then show ?case by (rule good_get)
next
  case (3 s d)
  then show ?case by (rule good_create)
next
  case (6 s sid)
  then show ?case by (simp add: session_good_def extendSession_missing)
next
  case (7 s sid kvs)
  then show ?case by (rule good_extend)
next
  case (8 s sid)
  then show ?case by (rule good_destroy)
qed (simp_all add: session_fresh_def session_object_def comp_def)

section \<open>The machine of all operations\<close>

text \<open>
  Calls of the service in any order, between them a session that expires, a tracking key that
  expires once its session is gone (both get the same time to live, the session first), a UUID
  drawn by another service and a key of another service that is written or removed.
\<close>

inductive session_step ::
  "'e session_env_scheme \<Rightarrow> 'z redis_state_scheme \<Rightarrow> 'z redis_state_scheme \<Rightarrow> bool" for E where
  create: "CHR '':'' \<notin> set (cs_userId d) \<Longrightarrow> session_step E s (snd (createSession E d s))"
| extend: "session_step E s (snd (extendSession E sid s))"
| destroy: "session_step E s (snd (destroySession E sid s))"
| invalidate: "CHR '':'' \<notin> set uid \<Longrightarrow> glob_literal uid \<Longrightarrow>
    invalidateUserSessions E uid s = Some (r, s') \<Longrightarrow> session_step E s s'"
| expire_session: "session_step E s (expire_key (session_key sid) s)"
| expire_track: "session_key sid \<notin> dom (kv s) \<Longrightarrow> CHR '':'' \<notin> set sid \<Longrightarrow>
    session_step E s (expire_key (track_key u sid) s)"
| other_uuid: "session_step E s (snd (uuidv4 E s))"
| other_key: "(\<And>sid. k \<noteq> session_key sid) \<Longrightarrow> \<not> startsWith k ''user:sessions:'' \<Longrightarrow>
    session_step E s (s\<lparr>kv := (kv s)(k := x)\<rparr>)"

inductive session_reachable :: "'e session_env_scheme \<Rightarrow> 'z redis_state_scheme \<Rightarrow> bool" for E where
  start: "kv s = Map.empty \<Longrightarrow> session_reachable E s"
| step: "session_reachable E s \<Longrightarrow> session_step E s s' \<Longrightarrow> session_reachable E s'"

inductive_cases session_stepE: "session_step E s s'"

lemma store_inv_mono:
  assumes inv: "store_inv E n m" and "n \<le> k"
  shows "store_inv E k m"
proof (rule store_invI, goal_cases)
  case (1 sid)
  then show ?case
    by (elim store_inv_session[OF inv]) (use drawn_mono[OF _ \<open>n \<le> k\<close>] in blast)
next
  case (2 k')
  then show ?case
    using store_inv_track[OF inv 2] drawn_mono[OF _ \<open>n \<le> k\<close>] by metis
qed

lemma session_inv_expire_track:
  assumes "session_inv E s" "uuids_plain E" "session_key sid \<notin> dom (kv s)" "CHR '':'' \<notin> set sid"
  shows "session_inv E (expire_key (track_key u sid) s)"
proof -
  have inv: "store_inv E (uuid_count s) (kv s)" using assms(1) by (simp add: session_inv_def)
  have "store_inv E (uuid_count s) (kv s |` (- {track_key u sid}))"
  proof (rule store_inv_restrict[OF inv])
    fix w b assume *: "track_key w b \<in> {track_key u sid}" "session_user (kv s) b = Some w"
    then have "b = sid"
      using track_key_inj[of w b u sid] assms(4) drawn_plain[OF assms(2)]
        store_inv_drawn[OF inv session_user_dom[OF *(2)]] by blast
    with *(2) assms(3) session_user_dom show "session_key b \<in> {track_key u sid}" by metis
  qed
  moreover have "(kv s)(track_key u sid := None) = kv s |` (- {track_key u sid})"
    by (auto simp: restrict_map_def)
  ultimately show ?thesis using assms(1) by (simp add: session_inv_def expire_key_def)
qed

lemma session_inv_invalidate:
  assumes "session_env_ok E" "uuids_plain E" "session_inv E s" "scan_ok (redis E)"
    and uid: "CHR '':'' \<notin> set uid" "glob_literal uid"
    and run: "invalidateUserSessions E uid s = Some (r, s')"
  shows "session_inv E s'"
proof -
  have s': "s' = s\<lparr>kv := kv s |` (- user_keys (kv s) uid)\<rparr>"
    using invalidate_run[OF session_env_okD(1)[OF assms(1)] assms(4,2) uid assms(3)] run by simp
  have inv: "store_inv E (uuid_count s) (kv s)" using assms(3) by (simp add: session_inv_def)
  have "store_inv E (uuid_count s) (kv s |` (- user_keys (kv s) uid))"
  proof (rule store_inv_restrict[OF inv])
    fix u sid assume *: "track_key u sid \<in> user_keys (kv s) uid" "session_user (kv s) sid = Some u"
    have "CHR '':'' \<notin> set u"
    proof -
      from store_inv_session[OF inv session_user_dom[OF *(2)]] *(2)
      have "track_key u sid \<in> dom (kv s)" "drawn E (uuid_count s) sid" by (metis option.inject)+
      then show ?thesis using store_inv_track_unique(1)[OF inv assms(2)] drawn_plain[OF assms(2)] by blast
    qed
    with * have "u = uid" using startsWith_track_key_user[OF _ _ uid(1)] by (auto simp: user_keys_def)
    with *(2) show "session_key sid \<in> user_keys (kv s) uid" by (auto simp: user_keys_def)
  qed
  then show ?thesis using s' assms(3) by (simp add: session_inv_def)
qed

lemma session_step_good:
  assumes "session_step E s s'" "session_good E s" "scan_ok (redis E)"
  shows "session_good E s'"
proof -
  have env: "session_env_ok E" "uuids_plain E" "session_inv E s"
    using assms(2) by (simp_all add: session_good_def)
  from assms(1) have "session_inv E s'"
  proof cases
    case (create d)
    then show ?thesis using session_inv_create[OF env] by simp
  next
    case (extend sid)
    then show ?thesis using session_inv_extend[OF env] by simp
  next
    case (destroy sid)
    then show ?thesis using session_inv_destroy[OF env] by simp
  next
    case (invalidate uid r)
    then show ?thesis using session_inv_invalidate[OF env assms(3)] by simp
  next
    case (expire_session sid)
    then show ?thesis using session_inv_expire_session[OF env(3)] by simp
  next
    case (expire_track sid u)
    then show ?thesis using session_inv_expire_track[OF env(3,2)] by simp
  next
    case other_uuid
    with env(3) show ?thesis
      by (simp add: act_simps session_inv_def store_inv_mono[of _ "uuid_count s"])
  next
    case other_key
    with env(3) show ?thesis by (simp add: session_inv_def store_inv_other_key)
  qed
  with env show ?thesis by (simp add: session_good_def)
qed

lemma session_reachable_good:
  assumes "session_reachable E s" "session_env_ok E" "uuids_plain E" "scan_ok (redis E)"
  shows "session_good E s"
  using assms
proof (induction rule: session_reachable.induct)
  case (start s)
  then show ?case by (simp add: session_good_def session_inv_empty)
next
  case (step s s')
  then show ?case using session_step_good by blast
qed

section \<open>A concrete server\<close>

definition demo_session_env :: "unit session_env_scheme" where
  "demo_session_env = \<lparr>uuid_src = (\<lambda>n. replicate n CHR ''x''), clock = (\<lambda>n. 1700000000000 + int n),
     config = Map.empty, redis = mem_redis, sessionTimeout = 3600, to_session_cache = id\<rparr>"

definition demo_redis_state :: "unit redis_state_scheme" where
  "demo_redis_state = \<lparr>uuid_count = 0, clock_reads = 0, starts = 0, process_ended = False, kv = Map.empty\<rparr>"

definition demo_login :: "string \<Rightarrow> create_session_dto" where
  "demo_login u = \<lparr>cs_userId = u, cs_username = ''ann'', cs_roles = [ADMIN],
     cs_ipAddress = ''10.0.0.1'', cs_userAgent = ''curl''\<rparr>"

text \<open>The server after a session of \<open>u1\<close> (id \<open>[]\<close>) and one of \<open>u2\<close> (id \<open>x\<close>) were created.\<close>

definition demo_two_sessions :: "unit redis_state_scheme" where
  "demo_two_sessions = snd (createSession demo_session_env (demo_login ''u2'')
     (snd (createSession demo_session_env (demo_login ''u1'') demo_redis_state)))"

lemma demo_simps [simp]:
  "uuid_src demo_session_env n = replicate n CHR ''x''"
  "clock demo_session_env n = 1700000000000 + int n"
  "redis demo_session_env = mem_redis" "sessionTimeout demo_session_env = 3600"
  "uuid_count demo_redis_state = 0" "clock_reads demo_redis_state = 0" "kv demo_redis_state = Map.empty"
  "cs_userId (demo_login u) = u"
  by (simp_all add: demo_session_env_def demo_redis_state_def demo_login_def)

lemma demo_env_ok [simp]:
  "session_env_ok demo_session_env" "uuids_plain demo_session_env" "scan_ok (redis demo_session_env)"
proof -
  have "inj (\<lambda>n. replicate n CHR ''x'')"
    by (rule injI) (metis length_replicate)
  then show "uuids_plain demo_session_env"
    by (auto simp: uuids_plain_def demo_session_env_def)
qed (simp_all add: session_env_ok_def demo_session_env_def)

lemma demo_reachable:
  "session_reachable demo_session_env demo_redis_state"
  "session_reachable demo_session_env demo_two_sessions"
proof -
  show start: "session_reachable demo_session_env demo_redis_state"
    by (rule session_reachable.start) (simp add: demo_redis_state_def)
  show "session_reachable demo_session_env demo_two_sessions"
    unfolding demo_two_sessions_def by (rule session_reachable.step[OF session_reachable.step[OF start session_step.create]
          session_step.create]) (simp_all add: demo_login_def)
qed

lemma demo_good [simp]:
  "session_good demo_session_env demo_redis_state" "session_good demo_session_env demo_two_sessions"
  using session_reachable_good[OF demo_reachable(1)] session_reachable_good[OF demo_reachable(2)]
    demo_env_ok by simp_all

lemma demo_two_sessions_eq:
  "demo_two_sessions = \<lparr>uuid_count = 2, clock_reads = 2, starts = 0, process_ended = False,
     kv = Map.empty(
       ''session:'' \<mapsto> (stringify (session_object (demo_login ''u1'') 1700000000000), Some 3600000),
       ''user:sessions:u1:'' \<mapsto> (''true'', Some 3600000),
       ''session:x'' \<mapsto> (stringify (session_object (demo_login ''u2'') 1700000000001), Some 3600000),
       ''user:sessions:u2:x'' \<mapsto> (''true'', Some 3600000))\<rparr>"
  by (simp add: demo_two_sessions_def createSession_run Let_def del: stringify.simps)
    (simp add: demo_session_env_def demo_redis_state_def demo_login_def session_key_def track_key_def
      track_prefix_def del: stringify.simps)

section \<open>Properties\<close>

text \<open>
  C32. A session that was created is read back: \<open>getSession\<close> returns what JSON carries of the login
  data with both timestamps, \<open>validateSession\<close> accepts it, it and its tracking key have the
  configured time to live, and every session that was live before is read as before.
\<close>

theorem session_roundtrip:
  assumes good: "session_good E s" and "CHR '':'' \<notin> set (cs_userId d)"
    and run: "createSession E d s = (Inr sid, s')"
  shows "getSession E sid s' = (Inr (as_json (session_object d (clock E (clock_reads s)))), s') \<and>
    validateSession E sid s' = (Inr True, s') \<and>
    map_option snd (kv s' (session_key sid)) = Some (Some (1000 * sessionTimeout E)) \<and>
    kv s' (track_key (cs_userId d) sid) = Some (''true'', Some (1000 * sessionTimeout E)) \<and>
    (\<forall>b. session_at (kv s) b \<noteq> JNull \<longrightarrow> getSession E b s' = (Inr (session_at (kv s) b), s'))"
proof -
  from sess.create_run[OF assms(1,2)] run have good': "session_good E s'"
    and new: "session_at (kv s) sid = JNull"
    and live: "session_at (kv s') = (session_at (kv s))(sid := session_fresh E d s)" by auto
  have get: "getSession E sid s' = (Inr (as_json (session_object d (clock E (clock_reads s)))), s')"
    using sess.create_get[OF assms] by (simp add: session_fresh_def)
  have "as_json (session_object d (clock E (clock_reads s))) \<noteq> JNull" by (simp add: session_object_def)
  with get have "validateSession E sid s' = (Inr True, s')" by (simp add: validateSession_def act_simps)
  moreover have "getSession E b s' = (Inr (session_at (kv s) b), s')" if "session_at (kv s) b \<noteq> JNull" for b
    using sess.get_run[OF good', of b] live new that by auto
  moreover have "kv s' (track_key (cs_userId d) sid) = Some (''true'', Some (1000 * sessionTimeout E))"
    "map_option snd (kv s' (session_key sid)) = Some (Some (1000 * sessionTimeout E))"
    using good run by (auto simp: session_good_def createSession_run Let_def)
  ultimately show ?thesis using get by blast
qed

theorem session_roundtrip_witness:
  "let s = demo_redis_state; d = demo_login ''u1'' in
   getSession demo_session_env [] (snd (createSession demo_session_env d s)) =
     (Inr (as_json (session_object d 1700000000000)), snd (createSession demo_session_env d s))"
  using session_roundtrip[of demo_session_env demo_redis_state "demo_login ''u1''" "[]"
      "snd (createSession demo_session_env (demo_login ''u1'') demo_redis_state)"]
  by (simp add: createSession_run Let_def del: as_json.simps)

text \<open>
  A destroyed session is gone for good: it is read as null, no longer validates, cannot be
  extended again and its tracking key is removed; the other sessions are untouched.
\<close>

theorem session_destroyed:
  assumes good: "session_good E s" and run: "destroySession E sid s = (r, s')"
  shows "r = Inr () \<and> getSession E sid s' = (Inr JNull, s') \<and>
    validateSession E sid s' = (Inr False, s') \<and> extendSession E sid s' = (Inr JNull, s') \<and>
    (\<forall>u. session_user (kv s) sid = Some u \<longrightarrow> track_key u sid \<notin> dom (kv s')) \<and>
    (\<forall>b. b \<noteq> sid \<longrightarrow> getSession E b s' = (Inr (session_at (kv s) b), s'))"
proof -
  from sess.destroy_run[OF good, of sid] run have run': "destroySession E sid s = (Inr (), s')"
    and r: "r = Inr ()" by auto
  have "track_key u sid \<notin> dom (kv s')" if "session_user (kv s) sid = Some u" for u
    using good that
  proof (cases rule: session_good_cases[OF good, of sid])
    case (2 kvs w)
    with good that run' show ?thesis
      by (auto simp: session_good_def destroySession_run simp del: js_get.simps)
  qed (simp add: session_user_def)
  moreover note sess.destroy_get[OF good run'] sess.destroyed_stays_out[OF good run']
  ultimately show ?thesis using r by (auto simp: validateSession_def act_simps)
qed

theorem session_destroyed_witness:
  "fst (getSession demo_session_env ''x'' (snd (destroySession demo_session_env ''x'' demo_two_sessions))) = Inr JNull"
  using session_destroyed[of demo_session_env demo_two_sessions "''x''"
      "fst (destroySession demo_session_env ''x'' demo_two_sessions)"
      "snd (destroySession demo_session_env ''x'' demo_two_sessions)"]
  by simp

text \<open>What is stored when a live session was extended.\<close>

lemma extend_store:
  assumes good: "session_good E s" and at: "session_at (kv s) sid = JObj kvs" and run: "extendSession E sid s = (r, s')"
  shows "session_at (kv s') = (session_at (kv s))(sid :=
    as_json (JObj (map_set kvs ''lastActivity'' (JDate (clock E (clock_reads s))))))"
proof (cases rule: session_good_cases[OF good, of sid])
  case (2 kvs' u)
  have env: "session_env_ok E" using good by (simp add: session_good_def)
  have same: "kvs' = kvs" using 2(2) at by simp
  have ok: "json_ok (JObj (map_set kvs ''lastActivity'' (JDate (clock E (clock_reads s)))))"
    using json_ok_js_set[OF 2(3), of "JDate (clock E (clock_reads s))"] same by simp
  show ?thesis
    using run extendSession_run[OF env 2(2,4)]
    by (auto simp: same touched_def track_key_upd_session_at session_at_put[OF ok]
        simp del: stringify.simps json_ok.simps as_json.simps)
qed (use at in simp)

text \<open>
  Extending a live session changes its \<open>lastActivity\<close> and nothing else, gives the session and
  its tracking key the full time to live again, and leaves every other session alone; a session
  that is not there is not brought back.
\<close>

theorem session_extended:
  assumes good: "session_good E s" and run: "extendSession E sid s = (r, s')"
  shows "if session_at (kv s) sid = JNull then r = Inr JNull \<and> s' = s
    else \<exists>kvs u. session_at (kv s) sid = JObj kvs \<and> session_user (kv s) sid = Some u \<and>
      r = Inr (JObj (map_set kvs ''lastActivity'' (JDate (clock E (clock_reads s))))) \<and>
      getSession E sid s' =
        (Inr (as_json (JObj (map_set kvs ''lastActivity'' (JDate (clock E (clock_reads s)))))), s') \<and>
      map_option snd (kv s' (session_key sid)) = Some (Some (1000 * sessionTimeout E)) \<and>
      map_option snd (kv s' (track_key u sid)) = Some (Some (1000 * sessionTimeout E)) \<and>
      (\<forall>b. b \<noteq> sid \<longrightarrow> getSession E b s' = (Inr (session_at (kv s) b), s'))"
proof (cases rule: session_good_cases[OF good, of sid])
  case 1
  with sess.extend_null[OF good, of sid] run show ?thesis by simp
next
  case (2 kvs u)
  have env: "session_env_ok E" using good by (simp add: session_good_def)
  from sess.extend_run[OF good 2(2)] run have good': "session_good E s'" by auto
  note live = extend_store[OF good 2(2) run]
  have get: "getSession E b s' = (Inr (if b = sid
      then as_json (JObj (map_set kvs ''lastActivity'' (JDate (clock E (clock_reads s)))))
      else session_at (kv s) b), s')" for b
    using sess.get_run[OF good', of b] live by simp
  have "r = Inr (JObj (map_set kvs ''lastActivity'' (JDate (clock E (clock_reads s)))))"
    "map_option snd (kv s' (session_key sid)) = Some (Some (1000 * sessionTimeout E))"
    "map_option snd (kv s' (track_key u sid)) = Some (Some (1000 * sessionTimeout E))"
    using run extendSession_run[OF env 2(2,4)] by (auto simp: touched_def simp del: stringify.simps)
  then show ?thesis
    using 2(2,5) get[of sid] get by (simp del: as_json.simps)
qed

theorem session_extended_witness:
  "fst (extendSession demo_session_env [] demo_redis_state) = Inr JNull"
  using session_extended[of demo_session_env demo_redis_state "[]"
      "fst (extendSession demo_session_env [] demo_redis_state)"
      "snd (extendSession demo_session_env [] demo_redis_state)"]
  by simp

text \<open>
  Whatever calls were made, in whatever order, and whatever expired in between: a live session
  is the object of one user, its tracking key is there as long as it is, and no other user has a
  tracking key for it; so listing the tracking keys of a user finds all the user's sessions.
\<close>

lemma session_tracked:
  assumes "session_env_ok E" "uuids_plain E" "scan_ok (redis E)"
    and "session_reachable E s" "session_key sid \<in> dom (kv s)"
  shows "\<exists>u. session_user (kv s) sid = Some u \<and> track_key u sid \<in> dom (kv s) \<and>
    (\<forall>w. track_key w sid \<in> dom (kv s) \<longrightarrow> w = u)"
proof -
  have inv: "store_inv E (uuid_count s) (kv s)"
    using session_reachable_good[OF assms(4,1,2,3)] by (simp add: session_good_def session_inv_def)
  from store_inv_session[OF inv assms(5)] obtain u where
    u: "session_user (kv s) sid = Some u" "track_key u sid \<in> dom (kv s)" "drawn E (uuid_count s) sid"
    by metis
  have "w = u" if "track_key w sid \<in> dom (kv s)" for w
    using store_inv_track_unique(3)[OF inv assms(2) that drawn_plain[OF assms(2) u(3)] assms(5)] u(1) by simp
  with u show ?thesis by blast
qed

lemma session_tracked_witness:
  "\<exists>u. session_user (kv demo_two_sessions) ''x'' = Some u \<and> track_key u ''x'' \<in> dom (kv demo_two_sessions)"
  using session_tracked[OF demo_env_ok demo_reachable(2), of "''x''"]
  by (auto simp: demo_two_sessions_eq session_key_def simp del: stringify.simps)

text \<open>
  C14. \<open>invalidateUserSessions\<close> returns on every server that keeps the \<open>SCAN\<close> guarantees, however many
  replies it needs: afterwards every session the user had and all its tracking keys are gone, the
  sessions of the other users are as they were.
\<close>

theorem invalidate_ends_user_sessions:
  assumes good: "session_good E s" and "scan_ok (redis E)"
    and uid: "CHR '':'' \<notin> set uid" "glob_literal uid"
  shows "\<exists>s'. invalidateUserSessions E uid s = Some (Inr (), s') \<and>
    (\<forall>sid. session_user (kv s) sid = Some uid \<longrightarrow> getSession E sid s' = (Inr JNull, s')) \<and>
    (\<forall>sid. session_user (kv s) sid \<noteq> Some uid \<longrightarrow> session_at (kv s') sid = session_at (kv s) sid) \<and>
    (\<forall>k. startsWith k (track_prefix uid) \<longrightarrow> k \<notin> dom (kv s'))"
proof -
  have env: "session_env_ok E" "uuids_plain E" "session_inv E s"
    using good by (simp_all add: session_good_def)
  let ?s' = "s\<lparr>kv := kv s |` (- user_keys (kv s) uid)\<rparr>"
  have run: "invalidateUserSessions E uid s = Some (Inr (), ?s')"
    by (rule invalidate_run[OF session_env_okD(1)[OF env(1)] assms(2) env(2) uid env(3)])
  have "session_good E ?s'"
    using session_step_good[OF session_step.invalidate[OF uid run] good assms(2)] .
  moreover have "session_at (kv ?s') sid = JNull" if "session_user (kv s) sid = Some uid" for sid
    using that by (intro session_at_missing) (auto simp: user_keys_def restrict_map_def)
  moreover have "session_key sid \<notin> user_keys (kv s) uid" if "session_user (kv s) sid \<noteq> Some uid" for sid
    using that by (auto simp: user_keys_def dest: startsWith_track_prefix)
  moreover have "k \<notin> dom (kv ?s')" if "startsWith k (track_prefix uid)" for k
    using that by (simp add: user_keys_def)
  ultimately show ?thesis
    using run sess.get_run[of E ?s'] by (intro exI[of _ ?s'] conjI) simp_all
qed

theorem invalidate_ends_user_sessions_witness:
  "\<exists>s'. invalidateUserSessions demo_session_env ''u1'' demo_two_sessions = Some (Inr (), s') \<and>
    (\<forall>k. startsWith k ''user:sessions:u1:'' \<longrightarrow> k \<notin> dom (kv s'))"
  using invalidate_ends_user_sessions[of demo_session_env demo_two_sessions "''u1''"]
  by (auto simp: glob_literal_def track_prefix_def)

end
