(* ===== verification/UserContract.thy ===== *)
theory UserContract
  imports Users SessionContract
begin

text \<open>
  What \<open>UsersService\<close> promises: the invariant of the collection, the directory interface
  \<open>AuthService\<close> works with, the machine of its operations and the properties of the component.
\<close>

section \<open>The collection\<close>

definition users_uniq :: "user list \<Rightarrow> bool" where
  "users_uniq us \<longleftrightarrow> unique_by u_userId us \<and> unique_by u_email us"

definition users_env_ok :: "'e users_env_scheme \<Rightarrow> bool" where
  "users_env_ok E \<longleftrightarrow> repo_ok users_uniq (user_repo E) \<and> bcrypt_ok E \<and> uuids_plain E"

definition users_inv :: "'e users_env_scheme \<Rightarrow> 'z users_state_scheme \<Rightarrow> bool" where
  "users_inv E s \<longleftrightarrow> users_uniq (users s) \<and> (\<forall>u \<in> set (users s). drawn E (uuid_count s) (u_userId u))"

definition users_good :: "'e users_env_scheme \<Rightarrow> 'z users_state_scheme \<Rightarrow> bool" where
  "users_good E s \<longleftrightarrow> users_env_ok E \<and> users_inv E s"

definition upd_user :: "string \<Rightarrow> (user \<Rightarrow> user) \<Rightarrow> user list \<Rightarrow> user list" where
  "upd_user uid f us = map (\<lambda>u. if u_userId u = uid then f u else u) us"

definition active_user :: "user list \<Rightarrow> string \<Rightarrow> user option" where
  "active_user us uid = List.find (\<lambda>u. u_userId u = uid \<and> u_isActive u) us"

definition active_email :: "user list \<Rightarrow> string \<Rightarrow> user option" where
  "active_email us e = List.find (\<lambda>u. u_email u = e \<and> u_isActive u) us"

lemma users_goodD:
  assumes "users_good E s"
  shows "repo_ok users_uniq (user_repo E)" "bcrypt_ok E" "uuids_plain E"
    "unique_by u_userId (users s)" "unique_by u_email (users s)"
    "u \<in> set (users s) \<Longrightarrow> drawn E (uuid_count s) (u_userId u)"
  using assms by (simp_all add: users_good_def users_env_ok_def users_inv_def users_uniq_def)

lemma users_fresh_id:
  "users_good E s \<Longrightarrow> uuid_src E (uuid_count s) \<notin> u_userId ` set (users s)"
proof
  assume good: "users_good E s" and "uuid_src E (uuid_count s) \<in> u_userId ` set (users s)"
  then obtain u where "u \<in> set (users s)" "u_userId u = uuid_src E (uuid_count s)" by force
  then show False
    using users_goodD(6)[OF good] not_drawn_next[OF users_goodD(3)[OF good]] by metis
qed

lemma active_user_iff:
  assumes "unique_by u_userId us"
  shows "active_user us uid = Some u \<longleftrightarrow> u \<in> set us \<and> u_userId u = uid \<and> u_isActive u"
proof
  assume "active_user us uid = Some u"
  then show "u \<in> set us \<and> u_userId u = uid \<and> u_isActive u"
    unfolding active_user_def by (auto dest: find_Some_in)
next
  assume "u \<in> set us \<and> u_userId u = uid \<and> u_isActive u"
  then show "active_user us uid = Some u"
    unfolding active_user_def by (intro find_by_key[OF assms]) simp_all
qed

lemma active_email_iff:
  assumes "unique_by u_email us"
  shows "active_email us e = Some u \<longleftrightarrow> u \<in> set us \<and> u_email u = e \<and> u_isActive u"
proof
  assume "active_email us e = Some u"
  then show "u \<in> set us \<and> u_email u = e \<and> u_isActive u"
    unfolding active_email_def by (auto dest: find_Some_in)
next
  assume "u \<in> set us \<and> u_email u = e \<and> u_isActive u"
  then show "active_email us e = Some u"
    unfolding active_email_def by (intro find_by_key[OF assms]) simp_all
qed

lemmas active_user_Some = active_user_iff[OF users_goodD(4)]
  and active_email_Some = active_email_iff[OF users_goodD(5)]

section \<open>Evaluation\<close>

lemma findUserById_run [act_simps]:
  "users_good E s \<Longrightarrow> findUserById E uid s = (Inr (active_user (users s) uid), s)"
  by (simp add: findUserById_def act_simps repo_ok_simps(2)[OF users_goodD(1)] active_user_def)

lemma findUserByEmail_run [act_simps]:
  "users_good E s \<Longrightarrow> findUserByEmail E e s = (Inr (active_email (users s) e), s)"
  by (simp add: findUserByEmail_def act_simps repo_ok_simps(2)[OF users_goodD(1)] active_email_def)

lemma find_any_by_id_run [act_simps]:
  "users_good E s \<Longrightarrow>
     find_any_by_id E uid s = (Inr (List.find (\<lambda>u. u_userId u = uid) (users s)), s)"
  by (simp add: find_any_by_id_def act_simps repo_ok_simps(2)[OF users_goodD(1)])

lemma update_by_id_run:
  assumes "users_good E s" "users_uniq (upd_user uid f (users s))"
  shows "update_by_id E uid f s = (Inr (), s\<lparr>users := upd_user uid f (users s)\<rparr>)"
  using assms repo_ok_simps(4)[OF users_goodD(1)[OF assms(1)], of "\<lambda>u. u_userId u = uid" f "users s"]
  by (simp add: update_by_id_def act_simps upd_user_def)

lemma upd_user_uniq:
  assumes "users_uniq us" "\<And>u. u_userId (f u) = u_userId u" "\<And>u. u_email (f u) = u_email u"
  shows "users_uniq (upd_user uid f us)"
  using assms unique_by_update[of u_userId f] unique_by_update[of u_email f]
  by (simp add: users_uniq_def upd_user_def)

lemma upd_user_good:
  assumes "users_good E s" "users_uniq (upd_user uid f (users s))" "\<And>u. u_userId (f u) = u_userId u"
  shows "users_good E (s\<lparr>users := upd_user uid f (users s)\<rparr>)"
  using assms by (auto simp: users_good_def users_inv_def upd_user_def)

lemma find_upd_user:
  "(\<And>u. u_userId (f u) = u_userId u) \<Longrightarrow> u \<in> set us \<Longrightarrow> unique_by u_userId us \<Longrightarrow>
     List.find (\<lambda>v. u_userId v = u_userId u) (upd_user (u_userId u) f us) = Some (f u)"
proof -
  assume f: "\<And>u. u_userId (f u) = u_userId u" and u: "u \<in> set us" "unique_by u_userId us"
  from u have "List.find (\<lambda>v. u_userId v = u_userId u) us = Some u"
    by (intro find_by_key[where key = u_userId]) auto
  then show ?thesis
    unfolding upd_user_def by (subst find_map_same) (auto simp: f)
qed

lemma active_upd_user:
  assumes "users_good E s" "active_user (users s) uid = Some u" "\<And>u. u_userId (f u) = u_userId u"
    "\<And>u. u_isActive (f u) = u_isActive u"
  shows "active_user (upd_user uid f (users s)) uid = Some (f u)"
  using assms(2) unfolding active_user_def upd_user_def
  by (subst find_map_same) (auto simp: assms(3,4) dest: find_Some_in)

lemma update_keeps_email:
  "uu_email d = None \<Longrightarrow> u_email (apply_user_update d u) = u_email u"
  "u_userId (apply_user_update d u) = u_userId u"
  "u_isActive (apply_user_update d u) = u_isActive u"
  by (simp_all add: apply_user_update_def)

lemma save_user_run:
  assumes "users_good E s" "u_email u \<notin> u_email ` set (users s)"
  shows "save_user E u s = (let u' = u\<lparr>u_userId := uuid_src E (uuid_count s)\<rparr> in
    (Inr u', s\<lparr>uuid_count := Suc (uuid_count s), users := users s @ [u']\<rparr>))"
proof -
  have "users_uniq (users s @ [u\<lparr>u_userId := uuid_src E (uuid_count s)\<rparr>])"
    using users_goodD(4,5)[OF assms(1)] users_fresh_id[OF assms(1)] assms(2) by (simp add: users_uniq_def)
  then show ?thesis
    by (simp add: save_user_def act_simps repo_ok_simps(3)[OF users_goodD(1)[OF assms(1)]] Let_def)
qed

text \<open>The state after a user was added.\<close>

definition add_user :: "'e users_env_scheme \<Rightarrow> user \<Rightarrow> 'z users_state_scheme \<Rightarrow> 'z users_state_scheme" where
  "add_user E u s = s\<lparr>uuid_count := Suc (uuid_count s),
     users := users s @ [u\<lparr>u_userId := uuid_src E (uuid_count s)\<rparr>]\<rparr>"

lemma add_user_good:
  assumes "users_good E s" "u_email u \<notin> u_email ` set (users s)"
  shows "users_good E (add_user E u s)"
proof -
  have "drawn E (Suc (uuid_count s)) (u_userId v)" if "v \<in> set (users s)" for v
    using users_goodD(6)[OF assms(1) that] drawn_mono by (metis le_SucI order_refl)
  moreover have "drawn E (Suc (uuid_count s)) (uuid_src E (uuid_count s))"
    by (auto simp: drawn_def)
  ultimately show ?thesis
    using assms users_fresh_id[OF assms(1)] users_goodD(4,5)[OF assms(1)]
    by (auto simp: users_good_def users_inv_def add_user_def users_uniq_def)
qed

lemma find_last_new:
  "P x \<Longrightarrow> (\<And>y. y \<in> set xs \<Longrightarrow> \<not> P y) \<Longrightarrow> List.find P (xs @ [x]) = Some x"
  by (induction xs) auto

lemma find_new_user:
  assumes "users_good E s"
  shows "List.find (\<lambda>v. u_userId v = uuid_src E (uuid_count s)) (users (add_user E u s)) =
    Some (u\<lparr>u_userId := uuid_src E (uuid_count s)\<rparr>)"
  using users_fresh_id[OF assms] unfolding add_user_def by (auto intro!: find_last_new simp: image_iff)

lemma active_email_unused:
  "e \<notin> u_email ` set us \<Longrightarrow> active_email us e = None"
  by (auto simp: active_email_def find_None_all)

lemma user_record_email [simp]: "u_email (user_record d p) = cu_email d"
  by (simp add: user_record_def)

lemma createUser_run:
  assumes "users_good E s" "cu_email d \<notin> u_email ` set (users s)"
  shows "createUser E d s =
    (Inr ((user_record d (cu_password d))\<lparr>u_userId := uuid_src E (uuid_count s)\<rparr>),
     add_user E (user_record d (cu_password d)) s)"
  using assms add_user_good[OF assms(1)] save_user_run[OF assms(1)] find_new_user[OF assms(1)]
  by (simp add: createUser_def act_simps active_email_unused Let_def add_user_def[symmetric])

lemma createUserManually_run:
  assumes "users_good E s" "cu_email d \<notin> u_email ` set (users s)" "cu_password d \<noteq> []"
  shows "createUserManually E d s =
    (Inr ((user_record d (hashed E (starts s) (cu_password d)))\<lparr>u_userId := uuid_src E (uuid_count s)\<rparr>),
     add_user E (user_record d (hashed E (starts s) (cu_password d))) s)"
  using assms add_user_good[OF assms(1)] save_user_run[OF assms(1)] find_new_user[OF assms(1)]
  by (simp add: createUserManually_def act_simps active_email_unused Let_def add_user_def[symmetric]
      encrypt_hash_password[OF users_goodD(2)[OF assms(1)]])

lemma createUser_in_use:
  assumes "users_good E s" "active_email (users s) (cu_email d) \<noteq> None"
  shows "createUser E d s = (Inl (UnauthorizedException ''Email in Use''), s)"
    "createUserManually E d s = (Inl (UnauthorizedException ''Email in Use''), s)"
  using assms by (auto simp: createUser_def createUserManually_def act_simps)

text \<open>The update with the password hashed.\<close>

definition hashed_update :: "'e encrypt_env_scheme \<Rightarrow> nat \<Rightarrow> update_user_dto \<Rightarrow> update_user_dto" where
  "hashed_update E n d =
     (case uu_password d of
        None \<Rightarrow> d
      | Some p \<Rightarrow> if p = [] then d else d\<lparr>uu_password := Some (hashed E n p)\<rparr>)"

lemma hashed_update_simps [simp]:
  "uu_email (hashed_update E n d) = uu_email d" "uu_roles (hashed_update E n d) = uu_roles d"
  by (simp_all add: hashed_update_def split: option.split)

lemma hashed_update_none [simp]: "uu_password d = None \<Longrightarrow> hashed_update E n d = d"
  by (simp add: hashed_update_def)

lemma updateUser_run:
  assumes good: "users_good E s" and u: "active_user (users s) uid = Some u"
    and uniq: "users_uniq (upd_user uid (apply_user_update (hashed_update E (starts s) d)) (users s))"
  shows "updateUser E uid d s =
    (Inr (apply_user_update (hashed_update E (starts s) d) u),
     s\<lparr>users := upd_user uid (apply_user_update (hashed_update E (starts s) d)) (users s)\<rparr>)"
proof -
  let ?f = "apply_user_update (hashed_update E (starts s) d)"
  have f: "\<And>u. u_userId (?f u) = u_userId u" by (rule update_keeps_email)
  have mem: "u \<in> set (users s)" "u_userId u = uid" using u active_user_Some[OF good] by auto
  have good': "users_good E (s\<lparr>users := upd_user uid ?f (users s)\<rparr>)"
    by (rule upd_user_good[OF good uniq f])
  have hash: "(case uu_password d of None \<Rightarrow> ok d | Some p \<Rightarrow> if p = [] then ok d
        else bnd (encrypt_hash E (password_only p)) (\<lambda>h. ok (d\<lparr>uu_password := hd_password h\<rparr>))) s =
      (Inr (hashed_update E (starts s) d), s)"
    by (auto simp: hashed_update_def act_simps encrypt_hash_password[OF users_goodD(2)[OF good]]
        split: option.split)
  have "List.find (\<lambda>v. u_userId v = uid) (upd_user uid ?f (users s)) = Some (?f u)"
    using find_upd_user[of ?f u "users s", OF f mem(1) users_goodD(4)[OF good]] mem(2) by simp
  then show ?thesis
    using find_any_by_id_run[OF good'] update_by_id_run[OF good uniq] good u hash
    by (simp add: updateUser_def findUserById_run)
qed

lemma updateUser_missing:
  "users_good E s \<Longrightarrow> active_user (users s) uid = None \<Longrightarrow>
     updateUser E uid d s = (Inl (NotFoundException ''User not Found''), s)"
  by (simp add: updateUser_def act_simps)

lemma update_active_run:
  assumes good: "users_good E s" and u: "active_user (users s) uid = Some u"
    and f: "\<And>u. u_userId (f u) = u_userId u" "\<And>u. u_email (f u) = u_email u"
      "\<And>u. u_isActive (f u) = u_isActive u"
  shows "update_by_id E uid f s = (Inr (), s\<lparr>users := upd_user uid f (users s)\<rparr>)"
    "users_good E (s\<lparr>users := upd_user uid f (users s)\<rparr>)"
    "findUserById E uid (s\<lparr>users := upd_user uid f (users s)\<rparr>) =
       (Inr (Some (f u)), s\<lparr>users := upd_user uid f (users s)\<rparr>)"
proof -
  have uniq: "users_uniq (upd_user uid f (users s))"
    using users_goodD(4,5)[OF good] f by (intro upd_user_uniq) (simp_all add: users_uniq_def)
  show "update_by_id E uid f s = (Inr (), s\<lparr>users := upd_user uid f (users s)\<rparr>)"
    by (rule update_by_id_run[OF good uniq])
  show good': "users_good E (s\<lparr>users := upd_user uid f (users s)\<rparr>)"
    by (rule upd_user_good[OF good uniq f(1)])
  show "findUserById E uid (s\<lparr>users := upd_user uid f (users s)\<rparr>) =
      (Inr (Some (f u)), s\<lparr>users := upd_user uid f (users s)\<rparr>)"
    using findUserById_run[OF good'] active_upd_user[OF good u f(1,3)] by simp
qed

lemma assignRoles_run:
  assumes "users_good E s" "active_user (users s) uid = Some u"
  shows "assignRoles E uid rs s = (Inr (u\<lparr>u_roles := rs\<rparr>),
    s\<lparr>users := upd_user uid (\<lambda>u. u\<lparr>u_roles := rs\<rparr>) (users s)\<rparr>)"
  using assms update_active_run[OF assms, of "\<lambda>u. u\<lparr>u_roles := rs\<rparr>"]
  by (simp add: assignRoles_def findUserById_run)

lemma addRoles_run:
  assumes "users_good E s" "active_user (users s) uid = Some u"
  shows "addRoles E uid rs s = (Inr (u\<lparr>u_roles := set_to_array (u_roles u @ rs)\<rparr>),
    s\<lparr>users := upd_user uid (\<lambda>v. v\<lparr>u_roles := set_to_array (u_roles u @ rs)\<rparr>) (users s)\<rparr>)"
  using assms update_active_run[OF assms, of "\<lambda>v. v\<lparr>u_roles := set_to_array (u_roles u @ rs)\<rparr>"]
  by (simp add: addRoles_def findUserById_run Let_def)

lemma removeRoles_run:
  assumes "users_good E s" "active_user (users s) uid = Some u"
  shows "removeRoles E uid rs s =
    (let left = filter (\<lambda>r. r \<notin> set rs) (u_roles u) in
     if left = [] then (Inl (UnauthorizedException (''User must have at least one role. Current roles: '' @
         js_join '', '' (map role_value (u_roles u)))), s)
     else (Inr (u\<lparr>u_roles := left\<rparr>), s\<lparr>users := upd_user uid (\<lambda>v. v\<lparr>u_roles := left\<rparr>) (users s)\<rparr>))"
  using assms update_active_run[OF assms, of "\<lambda>v. v\<lparr>u_roles := filter (\<lambda>r. r \<notin> set rs) (u_roles u)\<rparr>"]
  by (simp add: removeRoles_def findUserById_run Let_def throw_run)

lemma roles_missing:
  assumes "users_good E s" "active_user (users s) uid = None"
  shows "assignRoles E uid rs s = (Inl (NotFoundException ''User not found''), s)"
    "addRoles E uid rs s = (Inl (NotFoundException ''User not found''), s)"
    "removeRoles E uid rs s = (Inl (NotFoundException ''User not found''), s)"
    "deleteUser E uid s = (Inl (NotFoundException ''User not found''), s)"
  using assms
  by (simp_all add: assignRoles_def addRoles_def removeRoles_def deleteUser_def findUserById_run throw_run)

lemma deleteUser_run:
  assumes good: "users_good E s" and u: "active_user (users s) uid = Some u"
  shows "deleteUser E uid s = (Inr (''User with id '' @ uid @ '' was successfully deleted''),
    s\<lparr>users := upd_user uid (\<lambda>u. u\<lparr>u_isActive := False\<rparr>) (users s)\<rparr>)"
    "users_good E (s\<lparr>users := upd_user uid (\<lambda>u. u\<lparr>u_isActive := False\<rparr>) (users s)\<rparr>)"
proof -
  have uniq: "users_uniq (upd_user uid (\<lambda>u. u\<lparr>u_isActive := False\<rparr>) (users s))"
    using users_goodD(4,5)[OF good] by (intro upd_user_uniq) (simp_all add: users_uniq_def)
  show "deleteUser E uid s = (Inr (''User with id '' @ uid @ '' was successfully deleted''),
      s\<lparr>users := upd_user uid (\<lambda>u. u\<lparr>u_isActive := False\<rparr>) (users s)\<rparr>)"
    using good u update_by_id_run[OF good uniq] by (simp add: deleteUser_def findUserById_run ok_run)
  show "users_good E (s\<lparr>users := upd_user uid (\<lambda>u. u\<lparr>u_isActive := False\<rparr>) (users s)\<rparr>)"
    by (rule upd_user_good[OF good uniq]) simp
qed

section \<open>The directory interface\<close>

locale user_directory =
  fixes good :: "'s \<Rightarrow> bool"
    and dir :: "'s \<Rightarrow> user list"
    and by_email :: "string \<Rightarrow> ('s, user option) act"
    and by_id :: "string \<Rightarrow> ('s, user option) act"
    and create :: "create_user_dto \<Rightarrow> ('s, user) act"
  assumes by_email_run: "good s \<Longrightarrow> by_email e s = (Inr (active_email (dir s) e), s)"
    and by_id_run: "good s \<Longrightarrow> by_id uid s = (Inr (active_user (dir s) uid), s)"
    and keys: "good s \<Longrightarrow> unique_by u_userId (dir s) \<and> unique_by u_email (dir s)"
    and create_run: "good s \<Longrightarrow> cu_email d \<notin> u_email ` set (dir s) \<Longrightarrow>
      \<exists>u s'. create d s = (Inr u, s') \<and> good s' \<and> dir s' = dir s @ [u] \<and> u_isActive u \<and>
        u_email u = cu_email d \<and> u_password u = cu_password d \<and> u_roles u = cu_roles d"
begin

lemma create_lookup:
  assumes "good s" "cu_email d \<notin> u_email ` set (dir s)" "create d s = (Inr u, s')"
  shows "by_email (cu_email d) s' = (Inr (Some u), s')" "by_id (u_userId u) s' = (Inr (Some u), s')"
proof -
  from create_run[OF assms(1,2)] assms(3) have s': "good s'" "u \<in> set (dir s')" "u_isActive u"
    "u_email u = cu_email d" by auto
  have "active_email (dir s') (cu_email d) = Some u" "active_user (dir s') (u_userId u) = Some u"
    using s' keys[OF s'(1)] by (simp_all add: active_email_iff active_user_iff)
  then show "by_email (cu_email d) s' = (Inr (Some u), s')" "by_id (u_userId u) s' = (Inr (Some u), s')"
    using by_email_run[OF s'(1)] by_id_run[OF s'(1)] by simp_all
qed

lemma lookups_agree:
  assumes "good s" "by_email e s = (Inr (Some u), s)"
  shows "by_id (u_userId u) s = (Inr (Some u), s)" "u_email u = e"
proof -
  from assms by_email_run have "active_email (dir s) e = Some u" by simp
  then have u: "u \<in> set (dir s)" "u_email u = e" "u_isActive u"
    using keys[OF assms(1)] by (simp_all add: active_email_iff)
  then have "active_user (dir s) (u_userId u) = Some u"
    using keys[OF assms(1)] by (simp add: active_user_iff)
  with u by_id_run[OF assms(1)] show "by_id (u_userId u) s = (Inr (Some u), s)" "u_email u = e" by simp_all
qed

end

interpretation dir: user_directory "users_good E" users "findUserByEmail E" "findUserById E" "createUser E"
  for E
proof (unfold_locales, goal_cases)
  case (4 s d)
  then show ?case
    using add_user_good[OF 4(1), of "user_record d (cu_password d)"]
    by (simp add: createUser_run) (simp add: add_user_def user_record_def)
qed (simp_all add: findUserByEmail_run findUserById_run users_goodD)

section \<open>The machine of the operations\<close>

text \<open>
  Every request the service can be handed, with any data: nothing is assumed of roles, emails or
  passwords. A step carries the id of the account its request names. UUIDs are drawn elsewhere too,
  and the process may start again.
\<close>

inductive user_step ::
  "'e users_env_scheme \<Rightarrow> string option \<Rightarrow> 'z users_state_scheme \<Rightarrow> 'z users_state_scheme \<Rightarrow> bool" for E where
  signup: "user_step E None s (snd (createUser E d s))"
| create: "user_step E None s (snd (createUserManually E d s))"
| update: "user_step E (Some uid) s (snd (updateUser E uid d s))"
| update_without_body: "user_step E (Some uid) s (snd (updateUser_undefined E uid s))"
| delete: "user_step E (Some uid) s (snd (deleteUser E uid s))"
| assign_roles: "user_step E (Some uid) s (snd (assignRoles E uid rs s))"
| add_roles: "user_step E (Some uid) s (snd (addRoles E uid rs s))"
| remove_roles: "user_step E (Some uid) s (snd (removeRoles E uid rs s))"
| other_uuid: "user_step E None s (snd (uuidv4 E s))"
| restart: "user_step E None s (s\<lparr>starts := Suc (starts s)\<rparr>)"

inductive user_run ::
  "'e users_env_scheme \<Rightarrow> string set \<Rightarrow> 'z users_state_scheme \<Rightarrow> 'z users_state_scheme \<Rightarrow> bool" for E where
  refl: "user_run E {} s s"
| step: "user_run E ids s s' \<Longrightarrow> user_step E t s' s'' \<Longrightarrow> user_run E (ids \<union> set_option t) s s''"

text \<open>What steps that name the accounts \<open>ids\<close> may do to the collection.\<close>

definition account_kept :: "string set \<Rightarrow> user \<Rightarrow> user \<Rightarrow> bool" where
  "account_kept ids u v \<longleftrightarrow> u_userId v = u_userId u \<and> (v = u \<or> u_isActive u \<and> u_userId u \<in> ids)"

definition accounts_kept :: "string set \<Rightarrow> user list \<Rightarrow> user list \<Rightarrow> bool" where
  "accounts_kept ids us us' \<longleftrightarrow> (\<exists>vs ws. us' = vs @ ws \<and> list_all2 (account_kept ids) us vs)"

lemma account_kept_refl [simp]: "account_kept ids u u"
  by (simp add: account_kept_def)

lemma accounts_kept_append [simp]: "accounts_kept ids us (us @ vs)"
  unfolding accounts_kept_def by (intro exI[of _ us] exI[of _ vs]) (simp add: list.rel_refl)

lemma accounts_kept_refl [simp]: "accounts_kept ids us us"
  using accounts_kept_append[of ids us "[]"] by simp

lemma accounts_kept_trans:
  assumes "accounts_kept A us vs" "accounts_kept B vs ws"
  shows "accounts_kept (A \<union> B) us ws"
proof -
  from assms(1) obtain v1 v2 where v: "vs = v1 @ v2" "list_all2 (account_kept A) us v1"
    by (auto simp: accounts_kept_def)
  from assms(2) obtain w1 w2 where w: "ws = w1 @ w2" "list_all2 (account_kept B) (v1 @ v2) w1"
    unfolding v by (auto simp: accounts_kept_def)
  from w(2) obtain a b where w1: "w1 = a @ b" "list_all2 (account_kept B) v1 a"
    by (auto simp: list_all2_append1)
  have "list_all2 (account_kept (A \<union> B)) us a"
    by (rule list_all2_trans[OF _ v(2) w1(2)]) (auto simp: account_kept_def)
  then show ?thesis unfolding accounts_kept_def w(1) w1(1) by auto
qed

lemma uuid_drawn_good: "users_good E s \<Longrightarrow> users_good E (s\<lparr>uuid_count := Suc (uuid_count s)\<rparr>)"
  unfolding users_good_def users_inv_def by (auto intro: drawn_mono)

lemma save_user_reject:
  assumes "users_good E s" "u_email u \<in> u_email ` set (users s)"
  obtains msg where "save_user E u s = (Inl (LibraryError msg), s\<lparr>uuid_count := Suc (uuid_count s)\<rparr>)"
proof -
  have "\<not> users_uniq (users s @ [u\<lparr>u_userId := uuid_src E (uuid_count s)\<rparr>])"
    using assms(2) by (simp add: users_uniq_def)
  then obtain msg where "r_save (user_repo E) (u\<lparr>u_userId := uuid_src E (uuid_count s)\<rparr>) (users s) =
      (Inl (LibraryError msg), users s)"
    by (rule repo_ok_save_reject[OF users_goodD(1)[OF assms(1)]])
  then have "save_user E u s = (Inl (LibraryError msg), s\<lparr>uuid_count := Suc (uuid_count s)\<rparr>)"
    by (simp add: save_user_def act_simps)
  with that show thesis .
qed

lemma insert_step:
  fixes E :: "'e users_env_scheme" and r e
  assumes good: "users_good E s"
  defines "s' \<equiv> snd (bnd (save_user E r) (\<lambda>v. bnd (find_any_by_id E (u_userId v)) (\<lambda>created.
     case created of None \<Rightarrow> throw e | Some u \<Rightarrow> ok u)) s)"
  shows "users_good E s' \<and> accounts_kept ids (users s) (users s')"
proof (cases "u_email r \<in> u_email ` set (users s)")
  case True
  from save_user_reject[OF good True] obtain msg where
    "save_user E r s = (Inl (LibraryError msg), s\<lparr>uuid_count := Suc (uuid_count s)\<rparr>)" .
  then show ?thesis using uuid_drawn_good[OF good] by (simp add: s'_def)
next
  case False
  have add: "users_good E (add_user E r s)" by (rule add_user_good[OF good False])
  have "save_user E r s = (Inr (r\<lparr>u_userId := uuid_src E (uuid_count s)\<rparr>), add_user E r s)"
    using save_user_run[OF good False] by (simp add: Let_def add_user_def)
  then have "s' = add_user E r s"
    using find_any_by_id_run[OF add] find_new_user[OF good] by (simp add: s'_def)
  with add show ?thesis by (simp add: add_user_def)
qed

text \<open>An update after its account was found active, also one that the email index rejects.\<close>

lemma update_step:
  assumes good: "users_good E s" and upd: "updates_ok users_uniq (user_repo E)"
    and u: "active_user (users s) uid = Some u" and f: "\<And>v. u_userId (f v) = u_userId v"
  shows "users_good E (snd (update_by_id E uid f s)) \<and>
    accounts_kept {uid} (users s) (users (snd (update_by_id E uid f s)))"
proof -
  let ?us = "snd (r_update (user_repo E) (\<lambda>u. u_userId u = uid) f (users s))"
  have run: "snd (update_by_id E uid f s) = s\<lparr>users := ?us\<rparr>" by (simp add: update_by_id_def on_users_run)
  have mem: "u \<in> set (users s)" "u_userId u = uid" "u_isActive u" using u active_user_Some[OF good] by auto
  have "users_uniq (users s)" using users_goodD(4,5)[OF good] by (simp add: users_uniq_def)
  with upd have us: "users_uniq ?us"
    "list_all2 (\<lambda>d d'. d' = d \<or> u_userId d = uid \<and> d' = f d) (users s) ?us" by (simp_all add: updates_ok_def)
  from updated_keys[OF us(2), of u_userId] f have "map u_userId ?us = map u_userId (users s)" by simp
  then have ids: "u_userId ` set ?us = u_userId ` set (users s)" by (metis set_map)
  have "drawn E (uuid_count s) (u_userId v)" if "v \<in> set ?us" for v
  proof -
    from that have "u_userId v \<in> u_userId ` set ?us" by simp
    then obtain w where "w \<in> set (users s)" "u_userId v = u_userId w" unfolding ids by blast
    then show ?thesis using users_goodD(6)[OF good] by simp
  qed
  with us(1) good have "users_good E (s\<lparr>users := ?us\<rparr>)" by (simp add: users_good_def users_inv_def)
  moreover have "list_all2 (account_kept {uid}) (users s) ?us"
  proof (rule list.rel_mono_strong[OF us(2)])
    fix v v' assume v: "v \<in> set (users s)" and r: "v' = v \<or> u_userId v = uid \<and> v' = f v"
    have "v = u" if "u_userId v = uid"
      using unique_by_inj[OF users_goodD(4)[OF good] v mem(1)] that mem(2) by simp
    with r mem(3) f show "account_kept {uid} v v'" by (auto simp: account_kept_def)
  qed
  ultimately show ?thesis unfolding run accounts_kept_def by auto
qed

text \<open>What reads the collection after the update changes nothing.\<close>

lemma update_then_read:
  assumes "users_good E (snd (update_by_id E uid f s))" "\<And>s x. users_good E s \<Longrightarrow> snd (k x s) = s"
  shows "snd (bnd (update_by_id E uid f) k s) = snd (update_by_id E uid f s)"
proof (cases "update_by_id E uid f s")
  case (Pair r s')
  with assms show ?thesis by (cases r) simp_all
qed

lemma reads [simp]:
  assumes "users_good E s"
  shows "snd (bnd (find_any_by_id E uid) (\<lambda>v. case v of None \<Rightarrow> throw e | Some u \<Rightarrow> ok u) s) = s"
    "snd (bnd (findUserById E uid) (\<lambda>v. case v of None \<Rightarrow> throw e | Some u \<Rightarrow> ok u) s) = s"
  using assms by (simp_all add: find_any_by_id_run findUserById_run throw_run ok_run split: option.split)

lemma updateUser_state:
  assumes good: "users_good E s" and upd: "updates_ok users_uniq (user_repo E)"
    and u: "active_user (users s) uid = Some u"
  shows "snd (updateUser E uid d s) = snd (update_by_id E uid (apply_user_update (hashed_update E (starts s) d)) s)"
proof -
  let ?f = "apply_user_update (hashed_update E (starts s) d)"
  have hash: "(case uu_password d of None \<Rightarrow> ok d | Some p \<Rightarrow> if p = [] then ok d
        else bnd (encrypt_hash E (password_only p)) (\<lambda>h. ok (d\<lparr>uu_password := hd_password h\<rparr>))) s =
      (Inr (hashed_update E (starts s) d), s)"
    by (auto simp: hashed_update_def act_simps encrypt_hash_password[OF users_goodD(2)[OF good]]
        split: option.split)
  have "users_good E (snd (update_by_id E uid ?f s))"
    using update_step[OF good upd u, of ?f] update_keeps_email(2) by blast
  then show ?thesis
    using good u hash by (simp add: updateUser_def findUserById_run update_then_read)
qed

lemma user_step_ok:
  assumes step: "user_step E t s s'" and good: "users_good E s" and upd: "updates_ok users_uniq (user_repo E)"
  shows "users_good E s' \<and> accounts_kept (set_option t) (users s) (users s')"
proof -
  note found = update_step[OF good upd]
  note runs = findUserById_run[OF good] update_then_read throw_run ok_run Let_def
  note missing = updateUser_missing[OF good] roles_missing[OF good]
  from step show ?thesis
  proof cases
    case (signup d)
    then show ?thesis
      using insert_step[OF good, of "user_record d (cu_password d)"] good
      by (cases "active_email (users s) (cu_email d)") (simp_all add: createUser_def findUserByEmail_run throw_run)
  next
    case (create d)
    have "encrypt_hash E (password_only (cu_password d)) s =
        (Inr \<lparr>hd_userName = None, hd_email = None,
          hd_password = (if cu_password d = [] then None else Some (hashed E (starts s) (cu_password d)))\<rparr>, s)"
      using encrypt_hash_password[OF users_goodD(2)[OF good], of "cu_password d" s]
      by (cases "cu_password d = []")
        (simp_all add: encrypt_hash_def hash_field_def password_only_def act_simps)
    then show ?thesis
      using insert_step[OF good] good create
      by (cases "active_email (users s) (cu_email d)")
        (simp_all add: createUserManually_def findUserByEmail_run throw_run Let_def)
  next
    case (update uid d)
    then show ?thesis
      using found[of uid _ "apply_user_update (hashed_update E (starts s) d)"] update_keeps_email(2)
        updateUser_state[OF good upd] missing good
      by (cases "active_user (users s) uid") simp_all
  next
    case (update_without_body uid)
    then show ?thesis
      using good by (simp add: updateUser_undefined_def runs split: option.split)
  next
    case (delete uid)
    then show ?thesis
      using found[of uid _ "\<lambda>u. u\<lparr>u_isActive := False\<rparr>"] missing good
      by (cases "active_user (users s) uid") (simp_all add: deleteUser_def runs)
  next
    case (assign_roles uid rs)
    then show ?thesis
      using found[of uid _ "\<lambda>u. u\<lparr>u_roles := rs\<rparr>"] missing good
      by (cases "active_user (users s) uid") (simp_all add: assignRoles_def runs)
  next
    case (add_roles uid rs)
    show ?thesis
    proof (cases "active_user (users s) uid")
      case (Some u)
      with add_roles found[OF Some, of "\<lambda>v. v\<lparr>u_roles := set_to_array (u_roles u @ rs)\<rparr>"] good show ?thesis
        by (simp add: addRoles_def runs)
    qed (use add_roles missing good in simp)
  next
    case (remove_roles uid rs)
    show ?thesis
    proof (cases "active_user (users s) uid")
      case (Some u)
      with remove_roles found[OF Some, of "\<lambda>v. v\<lparr>u_roles := filter (\<lambda>r. r \<notin> set rs) (u_roles u)\<rparr>"] good
      show ?thesis by (simp add: removeRoles_def runs)
    qed (use remove_roles missing good in simp)
  next
    case other_uuid
    then show ?thesis using uuid_drawn_good[OF good] by (simp add: uuidv4_run)
  next
    case restart
    with good show ?thesis by (simp add: users_good_def users_inv_def)
  qed
qed

lemma user_run_ok:
  assumes "user_run E ids s s'" "users_good E s" "updates_ok users_uniq (user_repo E)"
  shows "users_good E s' \<and> accounts_kept ids (users s) (users s')"
  using assms
proof (induction rule: user_run.induct)
  case (step ids s s' t s'')
  then show ?case using user_step_ok[OF step.hyps(2)] accounts_kept_trans by blast
qed simp

lemma upd_user_uniq_email:
  assumes good: "users_good E s"
    and email: "\<And>e u. uu_email d = Some e \<Longrightarrow> u \<in> set (users s) \<Longrightarrow> u_email u = e \<Longrightarrow> u_userId u = uid"
  shows "users_uniq (upd_user uid (apply_user_update (hashed_update E n d)) (users s))"
proof -
  let ?f = "apply_user_update (hashed_update E n d)"
  have f: "u_userId (?f v) = u_userId v" for v by (rule update_keeps_email)
  have femail: "u_email (?f v) = (case uu_email d of None \<Rightarrow> u_email v | Some e \<Rightarrow> e)" for v
    by (simp add: apply_user_update_def)
  show ?thesis
  proof (cases "uu_email d")
    case None
    then show ?thesis
      using users_goodD(4,5)[OF good] f femail by (intro upd_user_uniq) (simp_all add: users_uniq_def)
  next
    case e: (Some e)
    have "inj_on (\<lambda>v. u_email (if u_userId v = uid then ?f v else v)) (set (users s))"
    proof (rule inj_onI)
      fix v w assume v: "v \<in> set (users s)" and w: "w \<in> set (users s)"
        and eq: "u_email (if u_userId v = uid then ?f v else v) = u_email (if u_userId w = uid then ?f w else w)"
      show "v = w"
      proof (cases "u_userId v = u_userId w")
        case True
        then show ?thesis using unique_by_inj[OF users_goodD(4)[OF good] v w] by simp
      next
        case False
        then have "u_email v = u_email w"
          using eq email[OF e v] email[OF e w] e by (auto simp: femail split: if_splits)
        then show ?thesis using unique_by_inj[OF users_goodD(5)[OF good] v w] by simp
      qed
    qed
    moreover have "distinct (users s)"
      using users_goodD(4)[OF good] by (simp add: unique_by_def distinct_map)
    ultimately have "unique_by u_email (upd_user uid ?f (users s))"
      by (simp add: unique_by_def upd_user_def distinct_map inj_on_def if_distrib cong: if_cong)
    moreover have "unique_by u_userId (upd_user uid ?f (users s))"
      using unique_by_update[of u_userId ?f, OF f] users_goodD(4)[OF good] by (simp add: upd_user_def)
    ultimately show ?thesis by (simp add: users_uniq_def)
  qed
qed

section \<open>A concrete server\<close>

text \<open>
  A hash that keeps the salt in front and marks the password; the comparison hashes again.
\<close>

definition demo_users_env :: "unit users_env_scheme" where
  "demo_users_env = \<lparr>uuid_src = (\<lambda>n. replicate n CHR ''x''), clock = (\<lambda>n. 1700000000000 + int n),
     config = [''SESSION_COOKIE_NAME'' \<mapsto> ''sid'', ''NODE_ENV'' \<mapsto> ''test''],
     redis = mem_redis, sessionTimeout = 3600, to_session_cache = id,
     bc_hash = (\<lambda>p salt. Inr (salt @ p)), bc_compare = (\<lambda>p h. Inr (''$2b$'' @ p = h)),
     es_salt = (\<lambda>_. ''$2b$''), user_repo = mem_repo users_uniq\<rparr>"

definition demo_user :: "string \<Rightarrow> string \<Rightarrow> role list \<Rightarrow> user" where
  "demo_user uid email rs = \<lparr>u_userId = uid, u_email = email, u_username = ''ann'',
     u_password = ''$2b$secret'', u_firstName = None, u_lastName = None, u_photoUrl = None,
     u_isActive = True, u_roles = rs\<rparr>"

definition demo_users_state :: "unit users_state_scheme" where
  "demo_users_state = \<lparr>uuid_count = 2, clock_reads = 0, starts = 0, process_ended = False, kv = Map.empty,
     users = [demo_user [] ''ann@x.org'' [VIEWER], demo_user ''x'' ''bob@x.org'' [ADMIN, TEST]]\<rparr>"

lemma demo_users_env_simps [simp]:
  "uuid_src demo_users_env n = replicate n CHR ''x''" "redis demo_users_env = mem_redis"
  "sessionTimeout demo_users_env = 3600" "user_repo demo_users_env = mem_repo users_uniq"
  "bc_hash demo_users_env p salt = Inr (salt @ p)"
  "bc_compare demo_users_env p h = Inr (''$2b$'' @ p = h)" "es_salt demo_users_env n = ''$2b$''"
  by (simp_all add: demo_users_env_def)

lemma demo_users_env_ok [simp]: "users_env_ok demo_users_env" "session_env_ok demo_users_env"
proof -
  have "inj (\<lambda>n. replicate n CHR ''x'')" by (rule injI) (metis length_replicate)
  then show "users_env_ok demo_users_env"
    by (auto simp: users_env_ok_def bcrypt_ok_def uuids_plain_def demo_users_env_def)
qed (simp add: session_env_ok_def)

lemma drawn_demo: "drawn demo_users_env 2 []" "drawn demo_users_env 2 ''x''"
proof -
  show "drawn demo_users_env 2 []" unfolding drawn_def by (rule exI[of _ 0]) simp
  show "drawn demo_users_env 2 ''x''" unfolding drawn_def by (rule exI[of _ 1]) simp
qed

lemma demo_users_good [simp]: "users_good demo_users_env demo_users_state"
  using drawn_demo
  by (simp add: users_good_def users_inv_def users_uniq_def unique_by_def demo_users_state_def demo_user_def)

lemma demo_active [simp]:
  "active_user (users demo_users_state) [] = Some (demo_user [] ''ann@x.org'' [VIEWER])"
  "active_user (users demo_users_state) ''x'' = Some (demo_user ''x'' ''bob@x.org'' [ADMIN, TEST])"
  by (simp_all add: active_user_def demo_users_state_def demo_user_def)

section \<open>Properties\<close>

text \<open>
  C20. Whatever requests are served, with any data: no account is ever removed and no id is given
  twice; a deactivated account stays as it is for ever; and an active account changes only by requests
  that name it. This holds when the email index rejects an update too.
\<close>

theorem account_history:
  assumes "users_good E s" "updates_ok users_uniq (user_repo E)" "user_run E ids s s'"
  shows "(\<exists>new. map u_userId (users s') = map u_userId (users s) @ new) \<and> distinct (map u_userId (users s')) \<and>
    (\<forall>u \<in> set (users s). \<not> u_isActive u \<or> u_userId u \<notin> ids \<longrightarrow> u \<in> set (users s'))"
proof -
  from user_run_ok[OF assms(3,1,2)] obtain vs ws where *: "users_good E s'" "users s' = vs @ ws"
    "list_all2 (account_kept ids) (users s) vs" by (auto simp: accounts_kept_def)
  have "map u_userId vs = map u_userId (users s)"
    using *(3) by (induction rule: list_all2_induct) (auto simp: account_kept_def)
  moreover have "u \<in> set vs" if "u \<in> set (users s)" "\<not> u_isActive u \<or> u_userId u \<notin> ids" for u
  proof -
    from that(1) obtain i where i: "i < length (users s)" "users s ! i = u" by (auto simp: in_set_conv_nth)
    with list_all2_nthD[OF *(3) i(1)] list_all2_lengthD[OF *(3)]
    have "account_kept ids u (vs ! i)" "vs ! i \<in> set vs" by simp_all
    with that(2) show ?thesis by (auto simp: account_kept_def)
  qed
  ultimately show ?thesis using *(2) users_goodD(4)[OF *(1)] by (auto simp: unique_by_def)
qed

text \<open>Bob is deactivated; the requests that follow neither bring him back nor touch Ann.\<close>

theorem account_history_witness:
  "\<exists>gone s' roles. gone = snd (deleteUser demo_users_env ''x'' demo_users_state) \<and>
     s' = snd (removeRoles demo_users_env ''x'' [TEST] (snd (assignRoles demo_users_env ''x'' roles gone))) \<and>
     (demo_user ''x'' ''bob@x.org'' [ADMIN, TEST])\<lparr>u_isActive := False\<rparr> \<in> set (users s') \<and>
     demo_user [] ''ann@x.org'' [VIEWER] \<in> set (users s')"
proof -
  let ?gone = "snd (deleteUser demo_users_env ''x'' demo_users_state)"
  let ?bob = "(demo_user ''x'' ''bob@x.org'' [ADMIN, TEST])\<lparr>u_isActive := False\<rparr>"
  have gone: "?gone = demo_users_state\<lparr>users := [demo_user [] ''ann@x.org'' [VIEWER], ?bob]\<rparr>"
    using deleteUser_run(1)[OF demo_users_good demo_active(2)]
    by (simp add: upd_user_def) (simp add: demo_users_state_def demo_user_def)
  have good: "users_good demo_users_env ?gone"
    using deleteUser_run[OF demo_users_good demo_active(2)] by simp
  have upd: "updates_ok users_uniq (user_repo demo_users_env)" by simp
  note runs = user_run.step[OF user_run.step[OF user_run.refl user_step.assign_roles] user_step.remove_roles]
  from account_history[OF good upd runs] show ?thesis
    unfolding gone by (auto simp: demo_user_def)
qed

text \<open>
  The role operations on an active account: assigning replaces the roles, adding gives the
  union without duplicates, removing takes the given roles away unless none would be left, which
  is refused with nothing changed. No other account and no other field is touched.
\<close>

theorem role_operations:
  assumes good: "users_good E s" and u: "active_user (users s) uid = Some u"
  shows "fst (assignRoles E uid rs s) = Inr (u\<lparr>u_roles := rs\<rparr>) \<and>
    (\<exists>rs'. fst (addRoles E uid rs s) = Inr (u\<lparr>u_roles := rs'\<rparr>) \<and>
       set rs' = set (u_roles u) \<union> set rs \<and> distinct rs') \<and>
    (if set (u_roles u) \<subseteq> set rs
     then snd (removeRoles E uid rs s) = s \<and>
       (\<exists>m. fst (removeRoles E uid rs s) = Inl (UnauthorizedException m))
     else \<exists>rs'. fst (removeRoles E uid rs s) = Inr (u\<lparr>u_roles := rs'\<rparr>) \<and>
       set rs' = set (u_roles u) - set rs \<and> rs' \<noteq> []) \<and>
    (\<forall>m \<in> {assignRoles E uid rs, addRoles E uid rs, removeRoles E uid rs}.
       \<exists>f. users (snd (m s)) = map (\<lambda>v. if u_userId v = uid then v\<lparr>u_roles := f v\<rparr> else v) (users s) \<and>
         kv (snd (m s)) = kv s)"
proof -
  let ?left = "filter (\<lambda>r. r \<notin> set rs) (u_roles u)"
  have left: "?left = [] \<longleftrightarrow> set (u_roles u) \<subseteq> set rs" by (auto simp: filter_empty_conv)
  have rem: "if set (u_roles u) \<subseteq> set rs
     then snd (removeRoles E uid rs s) = s \<and>
       (\<exists>m. fst (removeRoles E uid rs s) = Inl (UnauthorizedException m))
     else \<exists>rs'. fst (removeRoles E uid rs s) = Inr (u\<lparr>u_roles := rs'\<rparr>) \<and>
       set rs' = set (u_roles u) - set rs \<and> rs' \<noteq> []"
    using left by (auto simp: removeRoles_run[OF good u] Let_def intro!: exI[of _ ?left])
  have same: "\<exists>f. users s = map (\<lambda>v. if u_userId v = uid then v\<lparr>u_roles := f v\<rparr> else v) (users s)"
    by (intro exI[of _ u_roles]) (simp add: map_idI)
  let ?only = "\<lambda>s'. \<exists>f. users s' = map (\<lambda>v. if u_userId v = uid then v\<lparr>u_roles := f v\<rparr> else v) (users s) \<and>
      kv s' = kv s"
  have set: "?only (s\<lparr>users := upd_user uid (\<lambda>v. v\<lparr>u_roles := x\<rparr>) (users s)\<rparr>)" for x
    unfolding upd_user_def by (intro exI[of _ "\<lambda>_. x"]) simp
  have "?only (snd (assignRoles E uid rs s))" using set by (simp add: assignRoles_run[OF good u])
  moreover have "?only (snd (addRoles E uid rs s))" using set by (simp add: addRoles_run[OF good u])
  moreover have "?only (snd (removeRoles E uid rs s))"
    using set same by (simp add: removeRoles_run[OF good u] Let_def)
  moreover have "fst (assignRoles E uid rs s) = Inr (u\<lparr>u_roles := rs\<rparr>)"
    by (simp add: assignRoles_run[OF good u])
  moreover have "\<exists>rs'. fst (addRoles E uid rs s) = Inr (u\<lparr>u_roles := rs'\<rparr>) \<and>
      set rs' = set (u_roles u) \<union> set rs \<and> distinct rs'"
    by (intro exI[of _ "set_to_array (u_roles u @ rs)"]) (simp add: addRoles_run[OF good u])
  ultimately show ?thesis using rem by blast
qed

theorem role_operations_witness:
  "\<exists>rs. fst (addRoles demo_users_env ''x'' [TEST, VIEWER] demo_users_state) =
     Inr ((demo_user ''x'' ''bob@x.org'' [ADMIN, TEST])\<lparr>u_roles := rs\<rparr>) \<and>
     set rs = {ADMIN, TEST, VIEWER} \<and> distinct rs"
proof -
  from role_operations[OF demo_users_good demo_active(2), of "[TEST, VIEWER]", THEN conjunct2, THEN conjunct1]
  obtain rs where rs: "fst (addRoles demo_users_env ''x'' [TEST, VIEWER] demo_users_state) =
      Inr ((demo_user ''x'' ''bob@x.org'' [ADMIN, TEST])\<lparr>u_roles := rs\<rparr>)" "distinct rs"
    "set rs = set (u_roles (demo_user ''x'' ''bob@x.org'' [ADMIN, TEST])) \<union> set [TEST, VIEWER]"
    by blast
  from rs(3) have "set rs = {ADMIN, TEST, VIEWER}" by (auto simp: demo_user_def)
  with rs(1,2) show ?thesis by blast
qed

text \<open>
  Updating an active account changes the fields that are given and no others; the stored
  password becomes the hash of the given one; every other account is as before. An account that
  is missing or deactivated is refused with nothing changed.
\<close>

theorem update_user:
  assumes good: "users_good E s"
    and email: "\<And>e v. uu_email d = Some e \<Longrightarrow> v \<in> set (users s) \<Longrightarrow> u_email v \<noteq> e"
    and pw: "uu_password d \<noteq> Some []"
  shows "case active_user (users s) uid of
      None \<Rightarrow> updateUser E uid d s = (Inl (NotFoundException ''User not Found''), s)
    | Some u \<Rightarrow> \<exists>u' s'. updateUser E uid d s = (Inr u', s') \<and>
        users s' = map (\<lambda>v. if u_userId v = uid then u' else v) (users s) \<and>
        u_userId u' = uid \<and> u_isActive u' \<and>
        u_username u' = (case uu_username d of None \<Rightarrow> u_username u | Some x \<Rightarrow> x) \<and>
        u_email u' = (case uu_email d of None \<Rightarrow> u_email u | Some x \<Rightarrow> x) \<and>
        u_roles u' = (case uu_roles d of None \<Rightarrow> u_roles u | Some x \<Rightarrow> x) \<and>
        u_password u' = (case uu_password d of None \<Rightarrow> u_password u | Some p \<Rightarrow> hashed E (starts s) p)"
proof (cases "active_user (users s) uid")
  case None
  then show ?thesis using updateUser_missing[OF good] by simp
next
  case (Some u)
  let ?f = "apply_user_update (hashed_update E (starts s) d)"
  have u: "u \<in> set (users s)" "u_userId u = uid" "u_isActive u"
    using Some active_user_Some[OF good] by auto
  have uniq: "users_uniq (upd_user uid ?f (users s))"
    by (rule upd_user_uniq_email[OF good]) (use email in auto)
  have "upd_user uid ?f (users s) = map (\<lambda>v. if u_userId v = uid then ?f u else v) (users s)"
  proof -
    have "?f v = ?f u" if "v \<in> set (users s)" "u_userId v = uid" for v
      using unique_by_inj[OF users_goodD(4)[OF good] that(1) u(1)] that(2) u(2) by simp
    then show ?thesis by (auto simp: upd_user_def)
  qed
  then show ?thesis
    using updateUser_run[OF good Some uniq] u pw Some
    by (auto simp: apply_user_update_def hashed_update_def split: option.splits)
qed

theorem update_user_witness:
  "\<exists>u s'. updateUser demo_users_env ''x''
       \<lparr>uu_username = None, uu_email = None, uu_password = Some ''new'', uu_firstName = None,
        uu_lastName = None, uu_photoUrl = None, uu_roles = None\<rparr> demo_users_state = (Inr u, s') \<and>
     u_password u = ''$2b$new'' \<and> u_username u = ''ann''"
  using update_user[OF demo_users_good, of
      "\<lparr>uu_username = None, uu_email = None, uu_password = Some ''new'', uu_firstName = None,
        uu_lastName = None, uu_photoUrl = None, uu_roles = None\<rparr>" "''x''"]
  by (auto simp: hashed_def demo_user_def)

lemma active_user_deactivated: "active_user (upd_user uid (\<lambda>u. u\<lparr>u_isActive := False\<rparr>) us) uid = None"
  by (induction us) (simp_all add: active_user_def upd_user_def)

text \<open>
  Deactivating an account: it is found neither by id nor by email any more, its record stays,
  and its email stays taken, so registering the email again is not refused as in use but fails
  on the unique index of the database, with no account added.
\<close>

theorem deactivated_account:
  assumes good: "users_good E s" and u: "active_user (users s) uid = Some u"
    and run: "deleteUser E uid s = (r, s')" and d: "cu_email d = u_email u"
  shows "r = Inr (''User with id '' @ uid @ '' was successfully deleted'') \<and>
    findUserById E uid s' = (Inr None, s') \<and> findUserByEmail E (u_email u) s' = (Inr None, s') \<and>
    u\<lparr>u_isActive := False\<rparr> \<in> set (users s') \<and>
    (\<exists>m. fst (createUser E d s') = Inl (LibraryError m) \<and> users (snd (createUser E d s')) = users s')"
proof -
  let ?f = "\<lambda>u. u\<lparr>u_isActive := False\<rparr>"
  have mem: "u \<in> set (users s)" "u_userId u = uid" "u_isActive u"
    using u active_user_Some[OF good] by auto
  have s': "s' = s\<lparr>users := upd_user uid ?f (users s)\<rparr>" and r: "r = Inr (''User with id '' @ uid @ '' was successfully deleted'')"
    using run deleteUser_run(1)[OF good u] by auto
  have good': "users_good E s'" unfolding s' by (rule deleteUser_run(2)[OF good u])
  have stays: "?f u \<in> set (users s')" using mem s' by (auto simp: upd_user_def)
  have by_id: "active_user (users s') uid = None"
    unfolding s' by (simp add: active_user_deactivated)
  have by_email: "active_email (users s') (u_email u) = None"
  proof (cases "active_email (users s') (u_email u)")
    case (Some v)
    then have v: "v \<in> set (users s')" "u_email v = u_email (?f u)" "u_isActive v"
      using active_email_Some[OF good'] by auto
    have "v = ?f u" by (rule unique_by_inj[OF users_goodD(5)[OF good'] v(1) stays v(2)])
    with v(3) show ?thesis by simp
  qed
  let ?r = "user_record d (cu_password d)"
  have "u_email ?r \<in> u_email ` set (users s')" 
    using imageI[OF stays, of u_email] d by simp
  from save_user_reject[OF good' this] obtain m where
    "save_user E ?r s' = (Inl (LibraryError m), s'\<lparr>uuid_count := Suc (uuid_count s')\<rparr>)" .
  then have "createUser E d s' = (Inl (LibraryError m), s'\<lparr>uuid_count := Suc (uuid_count s')\<rparr>)"
    using by_email d good' by (simp add: createUser_def findUserByEmail_run)
  then show ?thesis
    using r stays by_id by_email findUserById_run[OF good'] findUserByEmail_run[OF good'] by simp
qed

theorem deactivated_account_witness:
  "\<exists>m. fst (createUser demo_users_env
     \<lparr>cu_username = ''eve'', cu_email = ''bob@x.org'', cu_password = ''h'', cu_roles = [VIEWER],
      cu_firstName = None, cu_lastName = None\<rparr>
     (snd (deleteUser demo_users_env ''x'' demo_users_state))) = Inl (LibraryError m)"
proof -
  let ?d = "\<lparr>cu_username = ''eve'', cu_email = ''bob@x.org'', cu_password = ''h'', cu_roles = [VIEWER],
      cu_firstName = None, cu_lastName = None\<rparr>"
  have "cu_email ?d = u_email (demo_user ''x'' ''bob@x.org'' [ADMIN, TEST])"
    by (simp add: demo_user_def)
  from deactivated_account[OF demo_users_good demo_active(2) prod.collapse[symmetric] this]
  show ?thesis by blast
qed

end
