(* ===== verification/GuardContract.thy ===== *)
theory GuardContract
  imports Guards SessionContract
begin

text \<open>
  What the guards let through: a request with the cookie of a live session, with the user and the
  roles the session carries, and a restricted route only to a session with one of its roles.
\<close>

definition cookie_sid :: "'e rt_env_scheme \<Rightarrow> http_request \<Rightarrow> string" where
  "cookie_sid E req =
     (case config E ''SESSION_COOKIE_NAME'' of
        None \<Rightarrow> []
      | Some n \<Rightarrow> (case rq_cookies req n of None \<Rightarrow> [] | Some c \<Rightarrow> c))"

text \<open>The roles a session carries, if they are an array.\<close>

definition session_roles :: "kv_store \<Rightarrow> string \<Rightarrow> jsval list option" where
  "session_roles m sid = (case js_get (session_at m sid) ''roles'' of JArr rs \<Rightarrow> Some rs | _ \<Rightarrow> None)"

lemma session_roles_null [simp]: "session_at m sid = JNull \<Longrightarrow> session_roles m sid = None"
  by (simp add: session_roles_def)

lemma guard_no_cookie:
  "config E ''SESSION_COOKIE_NAME'' = Some n \<Longrightarrow> cookie_sid E req = [] \<Longrightarrow>
     SessionAuthGuard E req s = (Inl (UnauthorizedException ''Session not found. Please login.''), s)"
  by (auto simp: SessionAuthGuard_def act_simps cookie_sid_def)

lemma guard_no_session:
  assumes "session_good E s" "config E ''SESSION_COOKIE_NAME'' = Some n" "cookie_sid E req \<noteq> []"
    "session_at (kv s) (cookie_sid E req) = JNull"
  shows "SessionAuthGuard E req s =
    (Inl (UnauthorizedException ''Session expired or invalid. Please login again.''), s)"
  using assms sess.get_run[OF assms(1), of "cookie_sid E req"]
  by (auto simp: SessionAuthGuard_def act_simps cookie_sid_def Let_def)

text \<open>With a live session: extended, and let through if its roles are an array.\<close>

lemma guard_session:
  assumes good: "session_good E s" and cfg: "config E ''SESSION_COOKIE_NAME'' = Some n"
    and sid: "cookie_sid E req \<noteq> []" "session_at (kv s) (cookie_sid E req) = JObj kvs"
  shows "\<exists>t s'. extendSession E (cookie_sid E req) s =
      (Inr (JObj (map_set kvs ''lastActivity'' (JDate t))), s') \<and> session_good E s' \<and>
    SessionAuthGuard E req s =
      (case session_roles (kv s) (cookie_sid E req) of
         None \<Rightarrow> (Inl (UnauthorizedException ''Authentication failed. Please login again.''), s')
       | Some rs \<Rightarrow> (Inr (attach_session (JObj (map_set kvs ''lastActivity'' (JDate t))) (cookie_sid E req) req), s'))"
proof -
  from sess.extend_run[OF good sid(2)] obtain t s' where
    ext: "extendSession E (cookie_sid E req) s = (Inr (JObj (map_set kvs ''lastActivity'' (JDate t))), s')"
    and good': "session_good E s'" by blast
  have get: "getSession E (cookie_sid E req) s = (Inr (JObj kvs), s)"
    using sess.get_run[OF good] sid(2) by simp
  have roles: "js_get (JObj (map_set kvs ''lastActivity'' (JDate t))) ''roles'' = js_get (JObj kvs) ''roles''"
    by simp
  have cookie: "(case rq_cookies req n of None \<Rightarrow> [] | Some c \<Rightarrow> c) = cookie_sid E req"
    using cfg by (simp add: cookie_sid_def)
  have "SessionAuthGuard E req s =
      (case session_roles (kv s) (cookie_sid E req) of
         None \<Rightarrow> (Inl (UnauthorizedException ''Authentication failed. Please login again.''), s')
       | Some rs \<Rightarrow> (Inr (attach_session (JObj (map_set kvs ''lastActivity'' (JDate t))) (cookie_sid E req) req), s'))"
    using sid(1)
    by (cases "js_get (JObj kvs) ''roles''")
      (simp_all add: SessionAuthGuard_def act_simps cfg cookie get ext roles join_roles_def
        session_roles_def sid(2) Let_def del: js_get.simps)
  with ext good' show ?thesis by blast
qed

lemma js_get_attach [simp]:
  "js_get (rq_user (attach_session d sid req)) ''userId'' = js_get d ''userId''"
  "rq_roles (attach_session d sid req) = js_get d ''roles''"
  "rq_sessionId (attach_session d sid req) = JStr sid"
  by (simp_all add: attach_session_def)

section \<open>The gate of a route\<close>

text \<open>What a guard asks of the session named by the cookie.\<close>

definition permitted :: "route_guard \<Rightarrow> kv_store \<Rightarrow> string \<Rightarrow> bool" where
  "permitted g m sid =
     (case g of
        Public \<Rightarrow> True
      | Authenticated \<Rightarrow> sid \<noteq> [] \<and> session_roles m sid \<noteq> None
      | Restricted roles \<Rightarrow> sid \<noteq> [] \<and>
          (case session_roles m sid of
             None \<Rightarrow> False
           | Some rs \<Rightarrow> roles = [] \<or> (\<exists>r \<in> set roles. JStr (role_value r) \<in> set rs)))"

definition attached :: "kv_store \<Rightarrow> string \<Rightarrow> http_request \<Rightarrow> bool" where
  "attached m sid req \<longleftrightarrow> (\<exists>rs. session_roles m sid = Some rs \<and> rq_roles req = JArr rs) \<and>
     js_get (rq_user req) ''userId'' = js_get (session_at m sid) ''userId'' \<and> rq_sessionId req = JStr sid"

text \<open>
  What a guard does to a state: the clock is read and the session of the request is extended, which
  opens what it opened before.
\<close>

definition guard_effect :: "string \<Rightarrow> 'z redis_state_scheme \<Rightarrow> 'z redis_state_scheme \<Rightarrow> bool" where
  "guard_effect sid s s' \<longleftrightarrow> s' = s\<lparr>clock_reads := clock_reads s', kv := kv s'\<rparr> \<and>
     (\<forall>b. b \<noteq> sid \<longrightarrow> session_at (kv s') b = session_at (kv s) b) \<and>
     (\<forall>g. permitted g (kv s) sid \<longrightarrow> permitted g (kv s') sid)"

lemma guard_effect_refl [simp]: "guard_effect sid s s"
  by (simp add: guard_effect_def)

lemma as_json_array:
  "map_of kvs k = Some (JArr vs) \<Longrightarrow> map_of (as_json_members kvs) k = Some (JArr (map as_json vs))"
  by (induction kvs) auto

lemma permitted_roles_mono:
  assumes "permitted g m sid" "session_roles m sid = Some rs" "session_roles m' sid = Some (map as_json rs)"
  shows "permitted g m' sid"
proof -
  have "JStr t \<in> set (map as_json rs)" if "JStr t \<in> set rs" for t using that image_iff by fastforce
  with assms show ?thesis by (auto simp: permitted_def split: route_guard.splits)
qed

lemma extend_permitted:
  assumes good: "session_good E s" and at: "session_at (kv s) sid = JObj kvs" and run: "extendSession E sid s = (r, s')"
    and yes: "permitted g (kv s) sid"
  shows "permitted g (kv s') sid"
proof (cases "session_roles (kv s) sid")
  case (Some rs)
  let ?kvs = "map_set kvs ''lastActivity'' (JDate (clock E (clock_reads s)))"
  have "js_get (JObj ?kvs) ''roles'' = js_get (JObj kvs) ''roles''" by simp
  then have "js_get (JObj ?kvs) ''roles'' = JArr rs" using Some at by (auto simp: session_roles_def split: jsval.splits)
  then have "map_of ?kvs ''roles'' = Some (JArr rs)" by (auto split: option.splits)
  from as_json_array[OF this] have "session_roles (kv s') sid = Some (map as_json rs)"
    using extend_store[OF good at run] by (simp add: session_roles_def del: map_set.simps)
  with Some show ?thesis by (intro permitted_roles_mono[OF yes, of rs])
next
  case None
  with yes show ?thesis by (cases g) (simp_all add: permitted_def)
qed

lemma extend_effect:
  assumes good: "session_good E s" and at: "session_at (kv s) sid = JObj kvs"
    and run: "extendSession E sid s = (r, s')"
  shows "guard_effect sid s s'"
proof (cases rule: session_good_cases[OF good, of sid])
  case (2 kvs' u)
  have env: "session_env_ok E" using good by (simp add: session_good_def)
  from run extendSession_run[OF env 2(2,4)] have "s' = s\<lparr>clock_reads := clock_reads s', kv := kv s'\<rparr>"
    by auto
  moreover from sess.extend_run[OF good at] run have "session_at (kv s') b = session_at (kv s) b" if "b \<noteq> sid" for b
    using that by auto
  moreover have "permitted g (kv s') sid" if "permitted g (kv s) sid" for g by (rule extend_permitted[OF good at run that])
  ultimately show ?thesis unfolding guard_effect_def by blast
qed (use at in simp)

text \<open>The session guard: an extended session with its user attached, or a 401.\<close>

lemma session_gate:
  assumes good: "session_good E s" and cfg: "config E ''SESSION_COOKIE_NAME'' = Some n"
    and sid: "cookie_sid E req = sid"
  obtains req' s' where "permitted Authenticated (kv s) sid" "SessionAuthGuard E req s = (Inr req', s')"
      "session_good E s'" "guard_effect sid s s'" "attached (kv s) sid req'" "rq_headers req' = rq_headers req"
  | m s' where "\<not> permitted Authenticated (kv s) sid" "SessionAuthGuard E req s = (Inl (UnauthorizedException m), s')"
      "session_good E s'" "guard_effect sid s s'"
proof (cases "sid = []")
  case True
  with that(2)[of _ s] guard_no_cookie[OF cfg, of req s] sid good show ?thesis by (simp add: permitted_def)
next
  case False
  show ?thesis
  proof (cases rule: session_good_cases[OF good, of sid])
    case 1
    with that(2)[of _ s] guard_no_session[OF good cfg, of req] sid False good show ?thesis
      by (simp add: permitted_def)
  next
    case (2 kvs u)
    from guard_session[OF good cfg, of req kvs] 2(2) False sid obtain t s' where
      ext: "extendSession E sid s = (Inr (JObj (map_set kvs ''lastActivity'' (JDate t))), s')"
      "session_good E s'" and guard: "SessionAuthGuard E req s =
        (case session_roles (kv s) sid of
           None \<Rightarrow> (Inl (UnauthorizedException ''Authentication failed. Please login again.''), s')
         | Some rs \<Rightarrow> (Inr (attach_session (JObj (map_set kvs ''lastActivity'' (JDate t))) sid req), s'))"
      by blast
    note effect = extend_effect[OF good 2(2) ext(1)]
    show ?thesis
    proof (cases "session_roles (kv s) sid")
      case None
      with that(2) guard ext(2) effect show ?thesis by (simp add: permitted_def)
    next
      case (Some rs)
      then have "js_get (JObj kvs) ''roles'' = JArr rs"
        by (auto simp: session_roles_def 2(2) split: jsval.splits)
      then have "attached (kv s) sid (attach_session (JObj (map_set kvs ''lastActivity'' (JDate t))) sid req)"
        using Some 2(2) by (simp add: attached_def)
      with that(1) guard ext(2) effect Some False show ?thesis
        by (simp add: permitted_def attach_session_def)
    qed
  qed
qed

lemma roles_gate:
  assumes "attached (kv s) sid req" "sid \<noteq> []"
  shows "if permitted (Restricted roles) (kv s) sid then RolesGuard (Some roles) req = Inr True
    else \<exists>m. RolesGuard (Some roles) req = Inl (ForbiddenException m)"
  using assms by (auto simp: attached_def permitted_def RolesGuard_def)

lemma permitted_session:
  "permitted (Restricted roles) m sid \<Longrightarrow> permitted Authenticated m sid"
  "permitted Authenticated m sid \<Longrightarrow> sid \<noteq> []"
  by (auto simp: permitted_def split: option.splits)

text \<open>All guards of a route: the handler is run with the session's user, or the request is refused.\<close>

lemma route_gate:
  assumes good: "session_good E s" and cfg: "config E ''SESSION_COOKIE_NAME'' = Some n"
    and sid: "cookie_sid E req = sid"
  obtains req' s' where "permitted g (kv s) sid" "run_route E g h req s = h req' s'" "session_good E s'"
      "guard_effect sid s s'" "if g = Public then req' = req \<and> s' = s else attached (kv s) sid req'"
      "rq_headers req' = rq_headers req"
  | e m s' where "\<not> permitted g (kv s) sid" "run_route E g h req s = (Inl e, s')" "session_good E s'"
      "guard_effect sid s s'" "e = UnauthorizedException m \<or> e = ForbiddenException m"
proof (cases g)
  case Public
  with that(1)[of req s] good show ?thesis by (simp add: permitted_def run_route_def)
next
  case Authenticated
  show ?thesis
  proof (cases rule: session_gate[OF good cfg sid])
    case (1 req' s')
    with that(1)[of req' s'] Authenticated show ?thesis by (simp add: run_route_def bnd_run)
  next
    case (2 m s')
    with that(2)[of _ s' m] Authenticated show ?thesis by (simp add: run_route_def bnd_run)
  qed
next
  case (Restricted roles)
  show ?thesis
  proof (cases rule: session_gate[OF good cfg sid])
    case (1 req' s')
    note R = roles_gate[OF 1(5) permitted_session(2)[OF 1(1)], of roles]
    show ?thesis
    proof (cases "permitted (Restricted roles) (kv s) sid")
      case True
      with that(1)[of req' s'] 1 R Restricted show ?thesis by (simp add: run_route_def bnd_run lift_res_run)
    next
      case False
      with R obtain m where "RolesGuard (Some roles) req' = Inl (ForbiddenException m)" by auto
      with False that(2)[of _ s' m] 1 Restricted show ?thesis by (simp add: run_route_def bnd_run lift_res_run)
    qed
  next
    case (2 m s')
    with that(2)[of _ s' m] permitted_session(1)[of roles "kv s" sid] Restricted show ?thesis
      by (auto simp: run_route_def bnd_run)
  qed
qed

section \<open>A request with a session cookie\<close>

definition cookie_request :: "string \<Rightarrow> string \<Rightarrow> http_request" where
  "cookie_request n sid = \<lparr>rq_cookies = [n \<mapsto> sid], rq_headers = (\<lambda>_. JUndefined),
     rq_remoteAddress = Some ''10.0.0.9'', rq_sessionId = JUndefined, rq_user = JUndefined,
     rq_roles = JUndefined\<rparr>"

lemma cookie_sid_request [simp]:
  "config E ''SESSION_COOKIE_NAME'' = Some n \<Longrightarrow> cookie_sid E (cookie_request n sid) = sid"
  by (simp add: cookie_sid_def cookie_request_def)

definition demo_guard_env :: "unit session_env_scheme" where
  "demo_guard_env = demo_session_env\<lparr>config := [''SESSION_COOKIE_NAME'' \<mapsto> ''sid'']\<rparr>"

text \<open>The server of \<open>demo_two_sessions\<close>, with the cookie name configured.\<close>

lemma demo_guard_good [simp]: "session_good demo_guard_env demo_two_sessions"
proof -
  have "session_inv demo_guard_env demo_two_sessions = session_inv demo_session_env demo_two_sessions"
    by (simp add: session_inv_def store_inv_def drawn_def demo_guard_env_def)
  moreover have "uuids_plain demo_guard_env = uuids_plain demo_session_env"
    "session_env_ok demo_guard_env = session_env_ok demo_session_env"
    by (simp_all add: uuids_plain_def session_env_ok_def demo_guard_env_def)
  ultimately show ?thesis using demo_good(2) by (simp add: session_good_def)
qed

lemma demo_guard_config [simp]: "config demo_guard_env ''SESSION_COOKIE_NAME'' = Some ''sid''"
  by (simp add: demo_guard_env_def)

lemma demo_session_x:
  "session_at (kv demo_two_sessions) ''x'' = as_json (session_object (demo_login ''u2'') 1700000000001)"
proof -
  obtain kvs where kvs: "session_object (demo_login ''u2'') 1700000000001 = JObj kvs"
    by (simp add: session_object_def)
  then have "json_ok (JObj kvs)" using json_ok_session_object by metis
  then show ?thesis
    unfolding demo_two_sessions_eq kvs
    using session_at_put[of kvs _ "''x''"] track_key_upd_session_at[of _ "''u2''" "''x''"]
    by (simp add: session_key_def track_key_def track_prefix_def fun_upd_twist
        del: stringify.simps as_json.simps json_ok.simps)
qed

lemma demo_session_x_roles: "session_roles (kv demo_two_sessions) ''x'' = Some [JStr ''admin'']"
  by (simp add: session_roles_def demo_session_x session_object_def demo_login_def)

section \<open>Properties\<close>

text \<open>
  C9. \<open>SessionAuthGuard\<close> lets a request through exactly if its cookie names a live session whose
  roles are an array; then the request carries the user, the roles and the id of that session.
  Every refusal is a 401 whatever went wrong. A live session named by the cookie is extended, also when
  its roles refuse the request: its last activity is now, it and its tracking key get the full time to
  live again, and no other session changes. Without a live session nothing changes.
\<close>

theorem session_guard:
  assumes good: "session_good E s" and cfg: "config E ''SESSION_COOKIE_NAME'' = Some n"
    and run: "SessionAuthGuard E req s = (r, s')"
  shows "session_good E s' \<and>
    (case (if cookie_sid E req = [] then None else session_roles (kv s) (cookie_sid E req)) of
       Some rs \<Rightarrow>
         \<exists>req'. r = Inr req' \<and> rq_roles req' = JArr rs \<and>
           js_get (rq_user req') ''userId'' = js_get (session_at (kv s) (cookie_sid E req)) ''userId'' \<and>
           rq_sessionId req' = JStr (cookie_sid E req)
     | None \<Rightarrow> \<exists>m. r = Inl (UnauthorizedException m)) \<and>
    (if cookie_sid E req = [] \<or> session_at (kv s) (cookie_sid E req) = JNull then s' = s
     else \<exists>kvs u. session_at (kv s) (cookie_sid E req) = JObj kvs \<and> session_user (kv s) (cookie_sid E req) = Some u \<and>
       session_at (kv s') = (session_at (kv s))(cookie_sid E req :=
         as_json (JObj (map_set kvs ''lastActivity'' (JDate (clock E (clock_reads s)))))) \<and>
       map_option snd (kv s' (session_key (cookie_sid E req))) = Some (Some (1000 * sessionTimeout E)) \<and>
       map_option snd (kv s' (track_key u (cookie_sid E req))) = Some (Some (1000 * sessionTimeout E)))"
proof (cases "cookie_sid E req = []")
  case True
  with run guard_no_cookie[OF cfg True, of s] good show ?thesis by auto
next
  case sid: False
  show ?thesis
  proof (cases rule: session_good_cases[OF good, of "cookie_sid E req"])
    case 1
    with run guard_no_session[OF good cfg sid] good show ?thesis by auto
  next
    case (2 kvs u)
    from guard_session[OF good cfg sid 2(2)] obtain t s'' where *:
      "extendSession E (cookie_sid E req) s = (Inr (JObj (map_set kvs ''lastActivity'' (JDate t))), s'')" "session_good E s''"
      "SessionAuthGuard E req s =
        (case session_roles (kv s) (cookie_sid E req) of
           None \<Rightarrow> (Inl (UnauthorizedException ''Authentication failed. Please login again.''), s'')
         | Some rs \<Rightarrow> (Inr (attach_session (JObj (map_set kvs ''lastActivity'' (JDate t))) (cookie_sid E req) req), s''))"
      by blast
    have s'': "s'' = s'" using run *(3) by (simp split: option.splits)
    note stored = extend_store[OF good 2(2) *(1)[unfolded s'']]
    from session_extended[OF good *(1)[unfolded s'']] 2(2) obtain w where
      w: "session_user (kv s) (cookie_sid E req) = Some w"
      "map_option snd (kv s' (session_key (cookie_sid E req))) = Some (Some (1000 * sessionTimeout E))"
      "map_option snd (kv s' (track_key w (cookie_sid E req))) = Some (Some (1000 * sessionTimeout E))"
      by auto
    have renewed: "\<exists>kvs u. session_at (kv s) (cookie_sid E req) = JObj kvs \<and>
       session_user (kv s) (cookie_sid E req) = Some u \<and>
       session_at (kv s') = (session_at (kv s))(cookie_sid E req :=
         as_json (JObj (map_set kvs ''lastActivity'' (JDate (clock E (clock_reads s)))))) \<and>
       map_option snd (kv s' (session_key (cookie_sid E req))) = Some (Some (1000 * sessionTimeout E)) \<and>
       map_option snd (kv s' (track_key u (cookie_sid E req))) = Some (Some (1000 * sessionTimeout E))"
      by (intro exI[of _ kvs] exI[of _ w] conjI 2(2) w stored)
    from run *(3) have r: "case session_roles (kv s) (cookie_sid E req) of
        Some rs \<Rightarrow> \<exists>req'. r = Inr req' \<and> rq_roles req' = JArr rs \<and>
          js_get (rq_user req') ''userId'' = js_get (session_at (kv s) (cookie_sid E req)) ''userId'' \<and>
          rq_sessionId req' = JStr (cookie_sid E req)
      | None \<Rightarrow> \<exists>m. r = Inl (UnauthorizedException m)"
      using 2(2) by (auto simp: session_roles_def split: jsval.splits)
    show ?thesis using *(2) sid 2(2) r renewed unfolding s'' by simp
  qed
qed

theorem session_guard_witness:
  "\<exists>req'. fst (SessionAuthGuard demo_guard_env (cookie_request ''sid'' ''x'') demo_two_sessions) = Inr req' \<and>
     rq_roles req' = JArr [JStr ''admin'']"
  using session_guard[OF demo_guard_good demo_guard_config prod.collapse[symmetric],
      of "cookie_request ''sid'' ''x''"]
  by (auto simp: demo_session_x_roles)

text \<open>
  C2. A restricted route runs its handler only for a live session that carries one of the roles of
  the route, and then with the user of that session attached; every other request is refused with
  a 401 or a 403 before the handler is reached, and changes no session but its own.
\<close>

theorem restricted_route:
  assumes good: "session_good E s" and cfg: "config E ''SESSION_COOKIE_NAME'' = Some n"
    and roles: "roles \<noteq> []" and sid: "cookie_sid E req = sid"
  shows "if \<exists>rs r. sid \<noteq> [] \<and> session_roles (kv s) sid = Some rs \<and> r \<in> set roles \<and> JStr (role_value r) \<in> set rs
    then \<exists>req' s'. run_route E (Restricted roles) h req s = h req' s' \<and> session_good E s' \<and>
      js_get (rq_user req') ''userId'' = js_get (session_at (kv s) sid) ''userId''
    else \<exists>e s'. run_route E (Restricted roles) h req s = (Inl e, s') \<and>
      ((\<exists>m. e = UnauthorizedException m) \<or> (\<exists>m. e = ForbiddenException m)) \<and>
      (\<forall>b. b \<noteq> sid \<longrightarrow> session_at (kv s') b = session_at (kv s) b)"
proof -
  have iff: "(\<exists>rs r. sid \<noteq> [] \<and> session_roles (kv s) sid = Some rs \<and> r \<in> set roles \<and> JStr (role_value r) \<in> set rs)
      \<longleftrightarrow> permitted (Restricted roles) (kv s) sid"
    using roles by (auto simp: permitted_def split: option.splits)
  show ?thesis
  proof (cases rule: route_gate[OF good cfg sid, of "Restricted roles" h])
    case (1 req' s')
    then show ?thesis unfolding iff attached_def by auto
  next
    case (2 e m s')
    then show ?thesis unfolding iff guard_effect_def by auto
  qed
qed

theorem restricted_route_witness:
  "\<exists>(req' :: http_request) s'. run_route demo_guard_env (Restricted [ADMIN, SUPER_ADMIN]) (\<lambda>req. ok (rq_user req))
     (cookie_request ''sid'' ''x'') demo_two_sessions = ok (rq_user req') s'"
proof -
  have "\<exists>rs r. ''x'' \<noteq> [] \<and> session_roles (kv demo_two_sessions) ''x'' = Some rs \<and>
      r \<in> set [ADMIN, SUPER_ADMIN] \<and> JStr (role_value r) \<in> set rs"
    using demo_session_x_roles by (intro exI[of _ "[JStr ''admin'']"] exI[of _ ADMIN]) simp
  with restricted_route[OF demo_guard_good demo_guard_config, of "[ADMIN, SUPER_ADMIN]"
      "cookie_request ''sid'' ''x''" "''x''" "\<lambda>req. ok (rq_user req)"]
  show ?thesis
    by (simp only: if_True simp_thms cookie_sid_request[OF demo_guard_config] list.distinct refl
        True_implies_equals) blast
qed

end
