(* ===== verification/AuthContract.thy ===== *)
theory AuthContract
  imports UserContract GuardContract
begin

text \<open>
  \<open>AuthService\<close> over the directory and the session store: what signup, login, logout, the password
  change and the reset do, with the sessions they leave.
\<close>

section \<open>A running service\<close>

definition auth_env_ok :: "'e auth_env_scheme \<Rightarrow> bool" where
  "auth_env_ok E \<longleftrightarrow> users_env_ok E \<and> session_env_ok E \<and> scan_ok (redis E) \<and>
     config E ''SESSION_COOKIE_NAME'' \<noteq> None \<and> config E ''NODE_ENV'' \<noteq> None \<and>
     (\<forall>n. glob_literal (uuid_src E n))"

definition auth_good :: "'e auth_env_scheme \<Rightarrow> 'z auth_state_scheme \<Rightarrow> bool" where
  "auth_good E s \<longleftrightarrow> auth_env_ok E \<and> users_inv E s \<and> session_inv E s"

lemma auth_goodD [dest]:
  assumes "auth_good E s"
  shows "users_good E s" "session_good E s" "scan_ok (redis E)"
    "\<exists>n. config E ''SESSION_COOKIE_NAME'' = Some n" "\<exists>v. config E ''NODE_ENV'' = Some v"
    "u \<in> set (users s) \<Longrightarrow> glob_literal (u_userId u)"
proof -
  show *: "users_good E s" "session_good E s" "scan_ok (redis E)"
    "\<exists>n. config E ''SESSION_COOKIE_NAME'' = Some n" "\<exists>v. config E ''NODE_ENV'' = Some v"
    using assms
    by (auto simp: auth_good_def auth_env_ok_def users_good_def session_good_def users_env_ok_def)
  show "glob_literal (u_userId u)" if "u \<in> set (users s)"
    using users_goodD(6)[OF *(1) that] assms by (auto simp: auth_good_def auth_env_ok_def drawn_def)
qed

lemma auth_good_cong:
  assumes "auth_good E s" "users s' = users s" "uuid_count s' = uuid_count s" "session_good E s'"
  shows "auth_good E s'"
  using assms by (simp add: auth_good_def session_good_def users_inv_def)

lemma auth_user_plain:
  assumes "auth_good E s" "u \<in> set (users s)"
  shows "CHR '':'' \<notin> set (u_userId u)"
  using users_goodD(3,6)[OF auth_goodD(1)[OF assms(1)]] assms(2) drawn_plain by blast

text \<open>The state of the service after a session was created for a user.\<close>

lemma createSession_users:
  assumes "users_inv E s" "session_env_ok E"
  shows "users_inv E (snd (createSession E d s))"
proof -
  have "drawn E (Suc (uuid_count s)) i" if "drawn E (uuid_count s) i" for i
    using that drawn_mono by (metis le_SucI order_refl)
  with assms show ?thesis by (auto simp: createSession_run Let_def users_inv_def)
qed

definition session_dto :: "user \<Rightarrow> http_request \<Rightarrow> create_session_dto" where
  "session_dto usr req = \<lparr>cs_userId = u_userId usr, cs_username = u_username usr, cs_roles = u_roles usr,
     cs_ipAddress = getClientIp req, cs_userAgent = getClientUserAgent req\<rparr>"

text \<open>The cookie a login sets: not readable by scripts, same-site, a day from the start of the service.\<close>

definition session_cookie :: "'e auth_env_scheme \<Rightarrow> string \<Rightarrow> cookie_op" where
  "session_cookie E sid = SetCookie (the (config E ''SESSION_COOKIE_NAME'')) sid
     \<lparr>co_httpOnly = True, co_secure = Some (config E ''NODE_ENV'' = Some ''production''),
      co_sameSite = ''strict'', co_maxAge = None, co_expires = Some (EXPIRE_DATE E), co_path = Some ''/''\<rparr>"

lemma auth_createSession_run:
  assumes good: "auth_good E s" and usr: "CHR '':'' \<notin> set (u_userId usr)"
  shows "\<exists>sid s'. auth_createSession E usr req s = (Inr (), s') \<and> auth_good E s' \<and>
    session_at (kv s) sid = JNull \<and>
    session_at (kv s') = (session_at (kv s))(sid := session_fresh E (session_dto usr req) s) \<and>
    users s' = users s \<and> res_cookies s' = res_cookies s @ [session_cookie E sid] \<and>
    sid = uuid_src E (uuid_count s)"
proof -
  let ?d = "session_dto usr req"
  have sg: "session_good E s" using good by blast
  have env: "session_env_ok E" using sg by (simp add: session_good_def)
  from sess.create_run[OF sg, of ?d] usr obtain sid t where
    run: "createSession E ?d s = (Inr sid, t)" and t: "session_good E t"
    and new: "session_at (kv s) sid = JNull"
    and live: "session_at (kv t) = (session_at (kv s))(sid := session_fresh E ?d s)"
    by (auto simp: session_dto_def)
  have same: "users t = users s" "res_cookies t = res_cookies s" "sid = uuid_src E (uuid_count s)"
    using run by (auto simp: createSession_run[OF env] Let_def)
  have ui: "users_inv E t"
    using createSession_users[of E s ?d] good env run by (simp add: auth_good_def)
  obtain n v where cfg: "config E ''SESSION_COOKIE_NAME'' = Some n" "config E ''NODE_ENV'' = Some v"
    using auth_goodD(4,5)[OF good] by blast
  let ?s' = "t\<lparr>res_cookies := res_cookies t @ [session_cookie E sid]\<rparr>"
  have "auth_createSession E usr req s = (Inr (), ?s')"
    using run cfg by (simp add: auth_createSession_def session_dto_def setSessionCookie_def act_simps
        session_cookie_def)
  moreover have "auth_good E ?s'"
    using good t ui same by (simp add: auth_good_def session_good_def users_inv_def session_inv_def)
  ultimately show ?thesis using new live same by auto
qed

lemma session_fresh_get:
  "js_get (session_fresh E d s) ''userId'' = JStr (cs_userId d)"
  "js_get (session_fresh E d s) ''roles'' = JArr (map (\<lambda>r. JStr (role_value r)) (cs_roles d))"
  by (rule sess.fresh_user)+

lemma session_fresh_at:
  assumes "session_at m sid = session_fresh E (session_dto usr req) s"
  shows "session_user m sid = Some (u_userId usr)"
    "session_roles m sid = Some (map (\<lambda>r. JStr (role_value r)) (u_roles usr))"
  using assms session_fresh_get[of E "session_dto usr req" s]
  by (simp_all add: session_user_def session_roles_def session_dto_def)

section \<open>Login and signup\<close>

lemma login_run:
  assumes good: "auth_good E s" and u: "active_email (users s) (li_email d) = Some u"
    and pw: "u_password u = hashed E n p"
  shows "login E d req s =
    (if hashed E n (li_password d) = hashed E n p
     then (let r = auth_createSession E u req s in (map_sum id (\<lambda>_. u) (fst r), snd r))
     else (Inl (AppException INVALID_CREDENTIALS UNAUTHORIZED), s))"
proof -
  have ug: "users_good E s" using good by blast
  show ?thesis
    using compareHash_run[OF users_goodD(2)[OF ug], of n p "li_password d" s] u pw
    by (auto simp: login_def findUserByEmail_run[OF ug] bnd_run Let_def split: prod.splits sum.splits)
qed

lemma login_unknown:
  assumes "auth_good E s" "active_email (users s) (li_email d) = None"
  shows "login E d req s = (Inl (AppException INVALID_CREDENTIALS UNAUTHORIZED), s)"
  using assms by (simp add: login_def findUserByEmail_run[OF auth_goodD(1)])

lemma signup_run:
  assumes good: "auth_good E s" and new: "sg_email d \<notin> u_email ` set (users s)"
    and fields: "sg_email d \<noteq> []" "sg_username d \<noteq> []" "sg_password d \<noteq> []"
  shows "\<exists>u sid s'. signup E d req s = (Inr u, s') \<and> auth_good E s' \<and>
    users s' = users s @ [u] \<and> u_email u = sg_email d \<and> u_username u = sg_username d \<and>
    u_password u = hashed E (starts s) (sg_password d) \<and> u_roles u = [VIEWER] \<and> u_isActive u \<and>
    session_at (kv s) sid = JNull \<and> session_user (kv s') sid = Some (u_userId u) \<and>
    session_roles (kv s') sid = Some [JStr ''viewer''] \<and>
    (\<forall>b. b \<noteq> sid \<longrightarrow> session_at (kv s') b = session_at (kv s) b) \<and>
    res_cookies s' = res_cookies s @ [session_cookie E sid]"
proof -
  have ug: "users_good E s" and sg: "session_good E s" using good by blast+
  let ?d = "\<lparr>cu_username = sg_username d, cu_email = sg_email d, cu_password = hashed E (starts s) (sg_password d),
    cu_roles = [VIEWER], cu_firstName = None, cu_lastName = None\<rparr>"
  let ?r = "user_record ?d (hashed E (starts s) (sg_password d))"
  let ?u = "?r\<lparr>u_userId := uuid_src E (uuid_count s)\<rparr>"
  have create: "createUser E ?d s = (Inr ?u, add_user E ?r s)"
    using createUser_run[OF ug, of ?d] new by simp
  have "store_inv E (Suc (uuid_count s)) (kv s)"
    using sg store_inv_mono[of E "uuid_count s" "kv s" "Suc (uuid_count s)"]
    by (simp add: session_good_def session_inv_def)
  then have good1: "auth_good E (add_user E ?r s)"
    using good add_user_good[OF ug, of ?r] new
    by (simp add: auth_good_def users_good_def session_inv_def) (simp add: add_user_def)
  have "?u \<in> set (users (add_user E ?r s))" by (simp add: add_user_def)
  from auth_createSession_run[OF good1 auth_user_plain[OF good1 this], of req] obtain sid s' where
    sess: "auth_createSession E ?u req (add_user E ?r s) = (Inr (), s')" "auth_good E s'"
      "session_at (kv (add_user E ?r s)) sid = JNull"
      "session_at (kv s') = (session_at (kv (add_user E ?r s)))(sid := session_fresh E (session_dto ?u req) (add_user E ?r s))"
      "users s' = users (add_user E ?r s)" "res_cookies s' = res_cookies (add_user E ?r s) @ [session_cookie E sid]"
    by blast
  have kv: "kv (add_user E ?r s) = kv s" "res_cookies (add_user E ?r s) = res_cookies s"
    by (simp_all add: add_user_def)
  have "signup E d req s = (Inr ?u, s')"
    using fields encrypt_hash_password[OF users_goodD(2)[OF ug] fields(3), of s]
      active_email_unused[OF new] bcrypt_okD(2)[OF users_goodD(2)[OF ug], of "starts s" "sg_password d"] create sess(1)
    by (simp add: signup_def findUserByEmail_run[OF ug])
  moreover have "session_at (kv s') sid = session_fresh E (session_dto ?u req) (add_user E ?r s)"
    using sess(4) by simp
  from session_fresh_at[OF this] have "session_user (kv s') sid = Some (u_userId ?u)"
    "session_roles (kv s') sid = Some [JStr ''viewer'']"
    by (simp_all add: user_record_def)
  moreover have "users s' = users s @ [?u]" using sess(5) by (simp add: add_user_def)
  ultimately show ?thesis
    using sess(2,3,4,6) kv by (intro exI[of _ ?u] exI[of _ sid] exI[of _ s']) (simp add: user_record_def)
qed

section \<open>Changing the password\<close>

lemma store_password_run:
  assumes good: "auth_good E s" and u: "active_user (users s) uid = Some u" and p: "p \<noteq> []"
  shows "\<exists>s'. store_password E uid p reply s = Some (Inr reply, s') \<and> auth_good E s' \<and>
    users s' = upd_user uid (\<lambda>v. v\<lparr>u_password := hashed E (starts s) (hashed E (starts s) p)\<rparr>) (users s) \<and>
    kv s' = kv s |` (- user_keys (kv s) uid) \<and> res_cookies s' = res_cookies s"
proof -
  have ug: "users_good E s" using good by blast
  note bc = users_goodD(2)[OF ug]
  let ?d = "password_update (hashed E (starts s) p)"
  have f: "apply_user_update (hashed_update E (starts s) ?d) = (\<lambda>v. v\<lparr>u_password := hashed E (starts s) (hashed E (starts s) p)\<rparr>)"
    using bcrypt_okD(2)[OF bc] by (auto simp: apply_user_update_def hashed_update_def password_update_def)
  have uniq: "users_uniq (upd_user uid (apply_user_update (hashed_update E (starts s) ?d)) (users s))"
    by (rule upd_user_uniq_email[OF ug]) (simp add: password_update_def)
  let ?s1 = "s\<lparr>users := upd_user uid (\<lambda>v. v\<lparr>u_password := hashed E (starts s) (hashed E (starts s) p)\<rparr>) (users s)\<rparr>"
  have upd: "updateUser E uid ?d s = (Inr (u\<lparr>u_password := hashed E (starts s) (hashed E (starts s) p)\<rparr>), ?s1)"
    using updateUser_run[OF ug u uniq] unfolding f .
  have "users_good E ?s1" using upd_user_good[OF ug uniq] unfolding f by simp
  then have good1: "auth_good E ?s1"
    using good by (simp add: auth_good_def users_good_def session_inv_def)
  have mem: "u \<in> set (users s)" "u_userId u = uid" using u active_user_Some[OF ug] by auto
  have uid: "CHR '':'' \<notin> set uid" "glob_literal uid"
    using auth_user_plain[OF good mem(1)] auth_goodD(6)[OF good mem(1)] mem(2) by simp_all
  have sg1: "session_good E ?s1" using good1 by blast
  have inval: "invalidateUserSessions E uid ?s1 = Some (Inr (), ?s1\<lparr>kv := kv s |` (- user_keys (kv s) uid)\<rparr>)"
    using invalidate_run[of E uid ?s1] sg1 auth_goodD(3)[OF good] uid
    by (simp add: session_good_def)
  have "session_good E (?s1\<lparr>kv := kv s |` (- user_keys (kv s) uid)\<rparr>)"
    using session_step_good[OF session_step.invalidate[OF uid inval] sg1 auth_goodD(3)[OF good]] .
  then have "auth_good E (?s1\<lparr>kv := kv s |` (- user_keys (kv s) uid)\<rparr>)"
    using good1 by (simp add: auth_good_def session_good_def users_inv_def)
  then show ?thesis
    using encrypt_hash_password[OF bc p, of s] bcrypt_okD(2)[OF bc, of "starts s" p] upd inval
    by (intro exI[of _ "?s1\<lparr>kv := kv s |` (- user_keys (kv s) uid)\<rparr>"])
      (simp add: store_password_def run_after_def)
qed

lemma changePassword_run:
  assumes good: "auth_good E s" and u: "active_user (users s) uid = Some u" and uid: "uid \<noteq> []"
    and req: "js_get (rq_user req) ''userId'' = JStr uid" and pw: "u_password u = hashed E n old"
    and d: "cp_newPassword d = cp_retypePassword d" "cp_newPassword d \<noteq> []" "cp_oldPassword d = old"
  shows "\<exists>s'. changePassword E req d s =
      Some (Inr ''Password changed successfully. Please login again.'', s') \<and> auth_good E s' \<and>
    users s' = upd_user uid (\<lambda>v. v\<lparr>u_password := hashed E (starts s) (hashed E (starts s) (cp_newPassword d))\<rparr>) (users s) \<and>
    kv s' = kv s |` (- user_keys (kv s) uid) \<and> res_cookies s' = res_cookies s"
proof -
  have ug: "users_good E s" using good by blast
  have "rq_user req \<noteq> JUndefined" "rq_user req \<noteq> JNull" using req by auto
  then have rid: "req_userId req = JStr uid" using req by (cases "rq_user req") (auto simp: req_userId_def)
  from store_password_run[OF good u d(2)] obtain s' where
    "store_password E uid (cp_newPassword d) ''Password changed successfully. Please login again.'' s =
      Some (Inr ''Password changed successfully. Please login again.'', s')" "auth_good E s'"
    "users s' = upd_user uid (\<lambda>v. v\<lparr>u_password := hashed E (starts s) (hashed E (starts s) (cp_newPassword d))\<rparr>) (users s)"
    "kv s' = kv s |` (- user_keys (kv s) uid)" "res_cookies s' = res_cookies s"
    by blast
  then show ?thesis
    using compareHash_run[OF users_goodD(2)[OF ug], of n old old s] u uid pw d rid
    by (intro exI[of _ s']) (simp add: changePassword_def run_after_def Let_def findUserById_run[OF ug])
qed

section \<open>A concrete service\<close>

definition demo_auth_env :: "unit auth_env_scheme" where
  "demo_auth_env = users_env.extend demo_users_env (auth_env.fields 1700000000000)"

definition demo_auth_state :: "unit auth_state_scheme" where
  "demo_auth_state = users_state.extend demo_users_state (auth_state.fields [])"

lemma demo_auth_simps [simp]:
  "uuid_src demo_auth_env = (\<lambda>n. replicate n CHR ''x'')" "redis demo_auth_env = mem_redis"
  "sessionTimeout demo_auth_env = 3600" "user_repo demo_auth_env = mem_repo users_uniq"
  "bc_hash demo_auth_env = (\<lambda>p salt. Inr (salt @ p))"
  "bc_compare demo_auth_env = (\<lambda>p h. Inr (''$2b$'' @ p = h))" "es_salt demo_auth_env = (\<lambda>_. ''$2b$'')"
  "config demo_auth_env = [''SESSION_COOKIE_NAME'' \<mapsto> ''sid'', ''NODE_ENV'' \<mapsto> ''test'']"
  "users demo_auth_state = users demo_users_state" "kv demo_auth_state = Map.empty"
  "uuid_count demo_auth_state = 2" "res_cookies demo_auth_state = []"
  by (simp_all add: demo_auth_env_def demo_users_env_def demo_auth_state_def demo_users_state_def
      users_env.extend_def auth_env.fields_def users_state.extend_def auth_state.fields_def)

lemma hashed_demo [simp]: "hashed demo_auth_env n p = ''$2b$'' @ p"
  by (simp add: hashed_def)

lemma demo_auth_good [simp]: "auth_good demo_auth_env demo_auth_state"
proof -
  have plain: "uuids_plain demo_auth_env"
    using demo_users_env_ok(1) by (simp add: users_env_ok_def uuids_plain_def demo_users_env_def)
  have "users_env_ok demo_auth_env" using plain by (simp add: users_env_ok_def bcrypt_ok_def)
  moreover have "users_inv demo_auth_env demo_auth_state"
    using demo_users_good by (simp add: users_good_def users_inv_def drawn_def demo_users_state_def)
  moreover have "session_inv demo_auth_env demo_auth_state" by (simp add: session_inv_empty)
  moreover have "glob_literal (replicate n CHR ''x'')" for n
    by (cases n) (auto simp: glob_literal_def)
  ultimately show ?thesis by (simp add: auth_good_def auth_env_ok_def session_env_ok_def)
qed

lemma demo_bob:
  "active_email (users demo_users_state) ''bob@x.org'' = Some (demo_user ''x'' ''bob@x.org'' [ADMIN, TEST])"
  by (simp add: active_email_def demo_users_state_def demo_user_def)

section \<open>Properties\<close>

text \<open>
  Login admits exactly the right password: for an account whose stored password is the hash of
  \<open>p\<close>, a password that hashes to the same value opens a new session with the account's id and
  roles, sets the session cookie and leaves all other sessions alone; any other password, and an
  email that no active account has, gets a 401 with nothing changed.
\<close>

lemma login_authenticates:
  assumes good: "auth_good E s"
  shows "case active_email (users s) (li_email d) of
      None \<Rightarrow> login E d req s = (Inl (AppException INVALID_CREDENTIALS UNAUTHORIZED), s)
    | Some u \<Rightarrow> \<forall>n p. u_password u = hashed E n p \<longrightarrow>
        (if hashed E n (li_password d) = hashed E n p
         then \<exists>sid s'. login E d req s = (Inr u, s') \<and> auth_good E s' \<and> users s' = users s \<and>
           session_at (kv s) sid = JNull \<and> session_user (kv s') sid = Some (u_userId u) \<and>
           session_roles (kv s') sid = Some (map (\<lambda>r. JStr (role_value r)) (u_roles u)) \<and>
           (\<forall>b. b \<noteq> sid \<longrightarrow> session_at (kv s') b = session_at (kv s) b) \<and>
           res_cookies s' = res_cookies s @ [session_cookie E sid]
         else login E d req s = (Inl (AppException INVALID_CREDENTIALS UNAUTHORIZED), s))"
proof (cases "active_email (users s) (li_email d)")
  case None
  then show ?thesis using login_unknown[OF good] by simp
next
  case (Some u)
  have mem: "u \<in> set (users s)" using Some active_email_Some[OF auth_goodD(1)[OF good]] by auto
  from auth_createSession_run[OF good auth_user_plain[OF good mem], of req] obtain sid s' where
    sess: "auth_createSession E u req s = (Inr (), s')" "auth_good E s'" "session_at (kv s) sid = JNull"
    "session_at (kv s') = (session_at (kv s))(sid := session_fresh E (session_dto u req) s)"
    "users s' = users s" "res_cookies s' = res_cookies s @ [session_cookie E sid]" by blast
  from sess(4) have at: "session_at (kv s') sid = session_fresh E (session_dto u req) s" by simp
  have "\<exists>sid s'. login E d req s = (Inr u, s') \<and> auth_good E s' \<and> users s' = users s \<and>
      session_at (kv s) sid = JNull \<and> session_user (kv s') sid = Some (u_userId u) \<and>
      session_roles (kv s') sid = Some (map (\<lambda>r. JStr (role_value r)) (u_roles u)) \<and>
      (\<forall>b. b \<noteq> sid \<longrightarrow> session_at (kv s') b = session_at (kv s) b) \<and>
      res_cookies s' = res_cookies s @ [session_cookie E sid]"
    if "u_password u = hashed E n p" "hashed E n (li_password d) = hashed E n p" for n p
    using login_run[OF good Some that(1), of req] that(2) sess session_fresh_at[OF at]
    by (intro exI[of _ sid] exI[of _ s']) (simp add: Let_def)
  moreover have "login E d req s = (Inl (AppException INVALID_CREDENTIALS UNAUTHORIZED), s)"
    if "u_password u = hashed E n p" "hashed E n (li_password d) \<noteq> hashed E n p" for n p
    using login_run[OF good Some that(1), of req] that(2) by simp
  ultimately show ?thesis using Some by simp
qed

lemma login_authenticates_witness:
  "\<exists>s'. login demo_auth_env \<lparr>li_email = ''bob@x.org'', li_password = ''secret''\<rparr> (cookie_request ''sid'' []) demo_auth_state =
     (Inr (demo_user ''x'' ''bob@x.org'' [ADMIN, TEST]), s')"
proof -
  have "u_password (demo_user ''x'' ''bob@x.org'' [ADMIN, TEST]) = hashed demo_auth_env 0 ''secret''"
    by (simp add: demo_user_def)
  with login_authenticates[OF demo_auth_good, of "\<lparr>li_email = ''bob@x.org'', li_password = ''secret''\<rparr>"
      "cookie_request ''sid'' []"] demo_bob show ?thesis by fastforce
qed

text \<open>
  Who signs up can log in: a signup with a new email stores an active viewer account with the
  hashed password and opens its session; logging in afterwards with the same email and password
  returns that account, with a password of another hash it is refused.
\<close>

theorem signup_then_login:
  assumes good: "auth_good E s" and new: "sg_email d \<notin> u_email ` set (users s)"
    and fields: "sg_email d \<noteq> []" "sg_username d \<noteq> []" "sg_password d \<noteq> []"
    and run: "signup E d req s = (r, s')"
  shows "\<exists>u. r = Inr u \<and> users s' = users s @ [u] \<and> u_roles u = [VIEWER] \<and>
    u_password u = hashed E (starts s) (sg_password d) \<and>
    fst (login E \<lparr>li_email = sg_email d, li_password = sg_password d\<rparr> req' s') = Inr u \<and>
    (\<forall>q. hashed E (starts s) q \<noteq> hashed E (starts s) (sg_password d) \<longrightarrow>
       login E \<lparr>li_email = sg_email d, li_password = q\<rparr> req' s' =
         (Inl (AppException INVALID_CREDENTIALS UNAUTHORIZED), s'))"
proof -
  from signup_run[OF good new fields, of req] run obtain u where
    u: "r = Inr u" "auth_good E s'" "users s' = users s @ [u]" "u_email u = sg_email d"
    "u_password u = hashed E (starts s) (sg_password d)" "u_roles u = [VIEWER]" "u_isActive u" by auto
  have act: "active_email (users s') (sg_email d) = Some u"
    using active_email_Some[OF auth_goodD(1)[OF u(2)]] u(3,4,7) by simp
  have "u \<in> set (users s')" using u(3) by simp
  from auth_createSession_run[OF u(2) auth_user_plain[OF u(2) this], of req'] obtain t where
    "auth_createSession E u req' s' = (Inr (), t)" by blast
  with act u show ?thesis
    using login_run[OF u(2) _ u(5), of "\<lparr>li_email = sg_email d, li_password = q\<rparr>" for q]
    by (simp add: Let_def)
qed

theorem signup_then_login_witness:
  "\<exists>u. fst (signup demo_auth_env \<lparr>sg_username = ''eve'', sg_email = ''eve@x.org'', sg_password = ''pw''\<rparr>
     (cookie_request ''sid'' []) demo_auth_state) = Inr u \<and> u_roles u = [VIEWER]"
proof -
  let ?d = "\<lparr>sg_username = ''eve'', sg_email = ''eve@x.org'', sg_password = ''pw''\<rparr>"
  have "sg_email ?d \<notin> u_email ` set (users demo_auth_state)"
    by (simp add: demo_users_state_def demo_user_def)
  from signup_then_login[OF demo_auth_good this, of "cookie_request ''sid'' []"
      "fst (signup demo_auth_env ?d (cookie_request ''sid'' []) demo_auth_state)"
      "snd (signup demo_auth_env ?d (cookie_request ''sid'' []) demo_auth_state)"]
  show ?thesis by auto
qed

lemma user_keys_session:
  assumes "store_inv E n m"
  shows "session_at (m |` (- user_keys m uid)) sid =
    (if session_user m sid = Some uid then JNull else session_at m sid)"
proof (cases "session_user m sid = Some uid")
  case True
  then show ?thesis by (auto simp: user_keys_def restrict_map_def intro!: session_at_missing)
next
  case False
  then have "session_key sid \<notin> user_keys m uid"
    by (auto simp: user_keys_def dest: startsWith_track_prefix)
  with False show ?thesis by simp
qed

text \<open>
  C10. A successful password change ends every session of the user, the one it was requested with
  included, and no session of anybody else: with the cookie of an ended session the guard answers
  401.
\<close>

theorem change_password_ends_sessions:
  assumes good: "auth_good E s" and u: "active_user (users s) uid = Some u" "uid \<noteq> []"
    and req: "js_get (rq_user req) ''userId'' = JStr uid" and pw: "u_password u = hashed E n (cp_oldPassword d)"
    and d: "cp_newPassword d = cp_retypePassword d" "cp_newPassword d \<noteq> []"
  shows "\<exists>s'. changePassword E req d s =
      Some (Inr ''Password changed successfully. Please login again.'', s') \<and>
    (\<forall>sid. session_user (kv s) sid \<noteq> Some uid \<longrightarrow> session_at (kv s') sid = session_at (kv s) sid) \<and>
    (\<forall>req'. session_user (kv s) (cookie_sid E req') = Some uid \<longrightarrow>
       (\<exists>m. SessionAuthGuard E req' s' = (Inl (UnauthorizedException m), s')))"
proof -
  from changePassword_run[OF good u req pw d HOL.refl] obtain s' where
    s': "changePassword E req d s = Some (Inr ''Password changed successfully. Please login again.'', s')"
    "auth_good E s'" "kv s' = kv s |` (- user_keys (kv s) uid)" by blast
  have inv: "store_inv E (uuid_count s) (kv s)" using good by (simp add: auth_good_def session_inv_def)
  obtain n where n: "config E ''SESSION_COOKIE_NAME'' = Some n" using auth_goodD(4)[OF good] by blast
  have "\<exists>m. SessionAuthGuard E req' s' = (Inl (UnauthorizedException m), s')"
    if "session_user (kv s) (cookie_sid E req') = Some uid" for req'
  proof (cases "cookie_sid E req' = []")
    case True
    then show ?thesis using guard_no_cookie[OF n, of req' s'] by blast
  next
    case False
    have "session_at (kv s') (cookie_sid E req') = JNull"
      using that s'(3) user_keys_session[OF inv] by simp
    then show ?thesis using guard_no_session[OF auth_goodD(2)[OF s'(2)] n False] by blast
  qed
  then show ?thesis using s' user_keys_session[OF inv] by (intro exI[of _ s']) simp
qed

definition demo_change :: change_password_dto where
  "demo_change = \<lparr>cp_oldPassword = ''secret'', cp_newPassword = ''new'', cp_retypePassword = ''new''\<rparr>"

definition demo_bob_request :: http_request where
  "demo_bob_request = (cookie_request ''sid'' [])\<lparr>rq_user := JObj [(''userId'', JStr ''x'')]\<rparr>"

lemma demo_change_simps [simp]:
  "cp_oldPassword demo_change = ''secret''" "cp_newPassword demo_change = ''new''"
  "cp_retypePassword demo_change = ''new''"
  "rq_user demo_bob_request = JObj [(''userId'', JStr ''x'')]"
  "u_password (demo_user i e r) = ''$2b$secret''" "u_email (demo_user i e r) = e"
  by (simp_all add: demo_change_def demo_bob_request_def demo_user_def)

theorem change_password_ends_sessions_witness:
  "\<exists>s'. changePassword demo_auth_env demo_bob_request demo_change demo_auth_state =
     Some (Inr ''Password changed successfully. Please login again.'', s')"
  using change_password_ends_sessions[OF demo_auth_good, of "''x''" "demo_user ''x'' ''bob@x.org'' [ADMIN, TEST]"
      demo_bob_request 0 demo_change]
  by auto

text \<open>
  C33. After a successful password change the user cannot log in with the new password: it was
  hashed twice, once by \<open>changePassword\<close> and once more by \<open>updateUser\<close>, so the login compares one
  hash with two. What logs in is the hash of the new password, typed as a password.
\<close>

theorem changed_password_locked_out:
  assumes good: "auth_good E s" and u: "active_user (users s) uid = Some u" "uid \<noteq> []"
    and req: "js_get (rq_user req) ''userId'' = JStr uid" and pw: "u_password u = hashed E n (cp_oldPassword d)"
    and d: "cp_newPassword d = cp_retypePassword d" "cp_newPassword d \<noteq> []"
    and twice: "hashed E (starts s) (hashed E (starts s) (cp_newPassword d)) \<noteq> hashed E (starts s) (cp_newPassword d)"
  shows "\<exists>s'. changePassword E req d s =
      Some (Inr ''Password changed successfully. Please login again.'', s') \<and>
    login E \<lparr>li_email = u_email u, li_password = cp_newPassword d\<rparr> req' s' =
      (Inl (AppException INVALID_CREDENTIALS UNAUTHORIZED), s') \<and>
    (\<exists>v. fst (login E \<lparr>li_email = u_email u, li_password = hashed E (starts s) (cp_newPassword d)\<rparr> req' s') = Inr v \<and>
       u_userId v = uid)"
proof -
  let ?h = "hashed E (starts s) (cp_newPassword d)"
  let ?f = "\<lambda>v. v\<lparr>u_password := hashed E (starts s) ?h\<rparr>"
  from changePassword_run[OF good u req pw d HOL.refl] obtain s' where
    s': "changePassword E req d s = Some (Inr ''Password changed successfully. Please login again.'', s')"
    "auth_good E s'" "users s' = upd_user uid ?f (users s)" by blast
  have mem: "u \<in> set (users s)" "u_userId u = uid" "u_isActive u"
    using u(1) active_user_Some[OF auth_goodD(1)[OF good]] by auto
  have mem': "?f u \<in> set (users s')" using mem s'(3) by (auto simp: upd_user_def)
  then have act: "active_email (users s') (u_email u) = Some (?f u)"
    using active_email_Some[OF auth_goodD(1)[OF s'(2)]] mem(3) by simp
  from auth_createSession_run[OF s'(2) auth_user_plain[OF s'(2) mem'], of req'] obtain t where
    t: "auth_createSession E (?f u) req' s' = (Inr (), t)" by blast
  note log = login_run[OF s'(2), of "\<lparr>li_email = u_email u, li_password = q\<rparr>" "?f u" "starts s" ?h req' for q]
  have "login E \<lparr>li_email = u_email u, li_password = cp_newPassword d\<rparr> req' s' =
      (Inl (AppException INVALID_CREDENTIALS UNAUTHORIZED), s')"
    using log[of "cp_newPassword d"] act twice by simp
  moreover have "fst (login E \<lparr>li_email = u_email u, li_password = ?h\<rparr> req' s') = Inr (?f u)"
    using log[of ?h] act t by (simp add: Let_def)
  ultimately show ?thesis using s'(1) mem(2) by (intro exI[of _ s']) simp
qed

theorem changed_password_locked_out_witness:
  "\<exists>s'. changePassword demo_auth_env demo_bob_request demo_change demo_auth_state =
      Some (Inr ''Password changed successfully. Please login again.'', s') \<and>
    login demo_auth_env \<lparr>li_email = ''bob@x.org'', li_password = ''new''\<rparr> demo_bob_request s' =
      (Inl (AppException INVALID_CREDENTIALS UNAUTHORIZED), s')"
  using changed_password_locked_out[OF demo_auth_good, of "''x''" "demo_user ''x'' ''bob@x.org'' [ADMIN, TEST]"
      demo_bob_request 0 demo_change demo_bob_request]
  by auto

text \<open>
  Resetting a password is never possible: whatever the token and the passwords, the request is
  refused with a 400 and nothing is read or changed.
\<close>

theorem reset_password_refused:
  "\<exists>e. resetPassword E d s = Some (Inl (AppException e BAD_REQUEST), s) \<and>
     e \<in> {INVALID_REQUEST, PASSWORDS_DO_NOT_MATCH}"
  by (auto simp: resetPassword_def run_after_def Let_def)

text \<open>
  C34. Logging out ends the session of the request and no other, and clears the cookie; afterwards
  the guard answers 401 to the old cookie.
\<close>

theorem logout_ends_session:
  assumes good: "auth_good E s" and sid: "rq_sessionId req = JStr sid" "sid \<noteq> []"
  shows "\<exists>s' c. logout E req s = (Inr ''Logged out successfully'', s') \<and>
    res_cookies s' = res_cookies s @ [ClearCookie (the (config E ''SESSION_COOKIE_NAME'')) c] \<and>
    (\<forall>b. b \<noteq> sid \<longrightarrow> session_at (kv s') b = session_at (kv s) b) \<and>
    (\<forall>req'. cookie_sid E req' = sid \<longrightarrow>
       SessionAuthGuard E req' s' =
         (Inl (UnauthorizedException ''Session expired or invalid. Please login again.''), s'))"
proof -
  have sg: "session_good E s" using good by blast
  from sess.destroy_run[OF sg, of sid] obtain t where
    t: "destroySession E sid s = (Inr (), t)" "session_good E t"
    "session_at (kv t) = (session_at (kv s))(sid := JNull)" by blast
  have env: "session_env_ok E" using sg by (simp add: session_good_def)
  have same: "res_cookies t = res_cookies s"
  proof (cases rule: session_good_cases[OF sg, of sid])
    case 1
    then show ?thesis using t(1) destroySession_missing[OF env 1(2)] by simp
  next
    case (2 kvs u)
    then show ?thesis using t(1) destroySession_run[OF env 2(2,4)] by auto
  qed
  obtain n where n: "config E ''SESSION_COOKIE_NAME'' = Some n" using auth_goodD(4)[OF good] by blast
  let ?c = "\<lparr>co_httpOnly = True, co_secure = None, co_sameSite = ''strict'', co_maxAge = None,
    co_expires = None, co_path = Some ''/''\<rparr>"
  let ?s' = "t\<lparr>res_cookies := res_cookies t @ [ClearCookie n ?c]\<rparr>"
  have run: "logout E req s = (Inr ''Logged out successfully'', ?s')"
    using sid t(1) n by (simp add: logout_def clearSessionCookie_def act_simps)
  have "session_good E ?s'" using t(2) by (simp add: session_good_def session_inv_def)
  from guard_no_session[OF this n] sid(2) t(3) have
    "\<forall>req'. cookie_sid E req' = sid \<longrightarrow> SessionAuthGuard E req' ?s' =
      (Inl (UnauthorizedException ''Session expired or invalid. Please login again.''), ?s')" by simp
  then show ?thesis using run same t(3) n by (intro exI[of _ ?s'] exI[of _ ?c]) simp
qed

theorem logout_ends_session_witness:
  "\<exists>s'. logout demo_auth_env ((cookie_request ''sid'' ''x'')\<lparr>rq_sessionId := JStr ''x''\<rparr>) demo_auth_state =
     (Inr ''Logged out successfully'', s')"
  using logout_ends_session[OF demo_auth_good, of "(cookie_request ''sid'' ''x'')\<lparr>rq_sessionId := JStr ''x''\<rparr>" "''x''"]
  by auto

text \<open>The state after the administrator of \<open>demo_auth_state\<close> logged in.\<close>

lemma demo_bob_session:
  obtains s :: "unit auth_state_scheme" and sid where "auth_good demo_auth_env s" "users s = users demo_auth_state"
    "sid \<noteq> []" "session_user (kv s) sid = Some ''x''"
    "session_roles (kv s) sid = Some [JStr ''admin'', JStr ''test'']"
proof -
  let ?bob = "demo_user ''x'' ''bob@x.org'' [ADMIN, TEST]"
  have mem: "?bob \<in> set (users demo_auth_state)" using demo_bob
    active_email_Some[OF auth_goodD(1)[OF demo_auth_good]] by fastforce
  from auth_createSession_run[OF demo_auth_good auth_user_plain[OF demo_auth_good mem], of "cookie_request ''sid'' []"]
  obtain sid and s :: "unit auth_state_scheme" where s: "auth_good demo_auth_env s" "users s = users demo_auth_state"
    "session_at (kv s) = (session_at (kv demo_auth_state))
      (sid := session_fresh demo_auth_env (session_dto ?bob (cookie_request ''sid'' [])) demo_auth_state)"
    "sid = uuid_src demo_auth_env (uuid_count demo_auth_state)" by blast
  have at: "session_at (kv s) sid = session_fresh demo_auth_env (session_dto ?bob (cookie_request ''sid'' [])) demo_auth_state"
    using s(3) by (rule fun_cong[THEN trans]) (rule fun_upd_same)
  have "session_roles (kv s) sid = Some [JStr ''admin'', JStr ''test'']" "session_user (kv s) sid = Some ''x''"
    using session_fresh_at[OF at] by (simp_all add: demo_user_def)
  with that[of s sid] s(1,2,4) show thesis by simp
qed

text \<open>
  Taking a role away from an account does not take it from the sessions of the account: a
  session that carries the role still runs the routes restricted to it afterwards.
\<close>

theorem removed_role_still_admits:
  assumes good: "auth_good E s" and u: "active_user (users s) uid = Some u"
    and left: "\<not> set (u_roles u) \<subseteq> {role}"
    and sess: "cookie_sid E req = sid" "sid \<noteq> []" "session_roles (kv s) sid = Some rs"
      "JStr (role_value role) \<in> set rs"
  shows "\<exists>u' s'. removeRoles E uid [role] s = (Inr u', s') \<and> role \<notin> set (u_roles u') \<and>
    (\<exists>req' s''. run_route E (Restricted [role]) h req s' = h req' s'')"
proof -
  have ug: "users_good E s" using good by blast
  let ?left = "filter (\<lambda>r. r \<notin> set [role]) (u_roles u)"
  let ?s' = "s\<lparr>users := upd_user uid (\<lambda>v. v\<lparr>u_roles := ?left\<rparr>) (users s)\<rparr>"
  have "?left \<noteq> []" using left by (auto simp: filter_empty_conv)
  then have run: "removeRoles E uid [role] s = (Inr (u\<lparr>u_roles := ?left\<rparr>), ?s')"
    using removeRoles_run[OF ug u, of "[role]"] by (simp add: Let_def)
  have "users_good E ?s'" using update_active_run(2)[OF ug u, of "\<lambda>v. v\<lparr>u_roles := ?left\<rparr>"] by simp
  then have good': "auth_good E ?s'"
    using good by (simp add: auth_good_def users_good_def session_inv_def)
  have sg: "session_good E ?s'" using good' by blast
  obtain n where n: "config E ''SESSION_COOKIE_NAME'' = Some n" using auth_goodD(4)[OF good] by blast
  have live: "session_roles (kv ?s') sid = Some rs" using sess(3) by simp
  have "\<exists>req' s''. run_route E (Restricted [role]) h req ?s' = h req' s''"
  proof (cases rule: session_good_cases[OF sg, of sid])
    case 1
    with live show ?thesis by simp
  next
    case (2 kvs w)
    from guard_session[OF sg n, of req kvs] 2(2) sess(1,2) live obtain t s'' where
      "SessionAuthGuard E req ?s' =
        (Inr (attach_session (JObj (map_set kvs ''lastActivity'' (JDate t))) sid req), s'')" by auto
    moreover have "js_get (JObj kvs) ''roles'' = JArr rs"
      using live 2(2) by (auto simp: session_roles_def split: jsval.splits)
    ultimately have "run_route E (Restricted [role]) h req ?s' =
        h (attach_session (JObj (map_set kvs ''lastActivity'' (JDate t))) sid req) s''"
      using sess(4) by (auto simp: run_route_def lift_res_run bnd_run RolesGuard_def)
    then show ?thesis by blast
  qed
  with run show ?thesis by (intro exI[of _ "u\<lparr>u_roles := ?left\<rparr>"] exI[of _ ?s']) simp
qed

theorem removed_role_still_admits_witness:
  "\<exists>(s :: unit auth_state_scheme) sid u' s'. cookie_sid demo_auth_env (cookie_request ''sid'' sid) = sid \<and>
     removeRoles demo_auth_env ''x'' [ADMIN] s = (Inr u', s') \<and> ADMIN \<notin> set (u_roles u') \<and>
     (\<exists>s''. run_route demo_auth_env (Restricted [ADMIN]) (\<lambda>r. ok ()) (cookie_request ''sid'' sid) s' = ok () s'')"
proof (rule demo_bob_session)
  fix s :: "unit auth_state_scheme" and sid
  assume s: "auth_good demo_auth_env s" "users s = users demo_auth_state" "sid \<noteq> []"
    and roles: "session_roles (kv s) sid = Some [JStr ''admin'', JStr ''test'']"
  have act: "active_user (users s) ''x'' = Some (demo_user ''x'' ''bob@x.org'' [ADMIN, TEST])" using s(2) by simp
  have "cookie_sid demo_auth_env (cookie_request ''sid'' sid) = sid" by (simp add: cookie_sid_request)
  with removed_role_still_admits[OF s(1) act _ this s(3) roles, of ADMIN "\<lambda>r. ok ()"]
  show ?thesis by (fastforce simp: demo_user_def)
qed

end
