(* ===== verification/ServerContract.thy ===== *)
theory ServerContract
  imports Server AuthContract
begin

text \<open>
  What the pieces of the server do to a request: the response of the exception filter, the gate of the
  guards and the validation of the body, as rewrite rules for \<open>serve_route\<close>.
\<close>

section \<open>Failures\<close>

definition failure_members :: "server_env \<Rightarrow> api_request \<Rightarrow> exception \<Rightarrow> int \<Rightarrow> (string \<times> jsval) list" where
  "failure_members V q ex now =
     (let f = classify ex in
      [(''statusCode'', JNum (of_nat (ft_status f))), (''code'', JStr (ft_code f)), (''message'', JStr (ft_message f)),
       (''timestamp'', JStr (toISOString now)), (''path'', JStr (aq_url q))] @
      (case stack_of (error_stack V) ex of
         Some st \<Rightarrow> if \<not> isProductionEnvironment (node_env V) \<and> st \<noteq> [] then [(''stack'', JStr st)] else []
       | None \<Rightarrow> []))"

definition tick :: "server \<Rightarrow> server" where
  "tick s = s\<lparr>account := (account s)\<lparr>clock_reads := Suc (clock_reads (account s))\<rparr>\<rparr>"

lemma tick_simps [simp]:
  "users (account (tick s)) = users (account s)" "kv (account (tick s)) = kv (account s)"
  "res_cookies (account (tick s)) = res_cookies (account s)" "panel (tick s) = panel s"
  "uuid_count (account (tick s)) = uuid_count (account s)"
  by (simp_all add: tick_def)

lemma fail_request_run:
  "fail_request V q ex s =
     Some (\<lparr>hr_status = ft_status (classify ex),
         hr_body = JObj (failure_members V q ex (clock (account_env V) (clock_reads (account s))))\<rparr>, tick s)"
  by (simp add: fail_request_def catch_exception_def act_simps date_now_def Let_def failure_members_def tick_def)

lemma failure_keys: "set (map fst (failure_members V q ex now)) \<subseteq>
    {''statusCode'', ''code'', ''message'', ''timestamp'', ''path'', ''stack''}"
  by (auto simp: failure_members_def Let_def split: option.splits if_splits)

lemma refusal_status:
  "ft_status (classify (exception_of lib (UnauthorizedException m))) = 401"
  "ft_status (classify (exception_of lib (ForbiddenException m))) = 403"
  by (simp_all add: classify_def)

section \<open>Guards\<close>

lemma share_tick [simp]: "share (account (tick s)) p = p\<lparr>uuid_count := uuid_count (account s),
    clock_reads := Suc (clock_reads (account s)), starts := starts (account s),
    process_ended := process_ended (account s), kv := kv (account s)\<rparr>"
  by (simp add: share_def tick_def)

text \<open>The gate of a route over the whole server.\<close>

lemma serve_gate:
  assumes good: "session_good (account_env V) (account s)"
    and cfg: "config (account_env V) ''SESSION_COOKIE_NAME'' = Some n"
    and sid: "cookie_sid (account_env V) (aq_http q) = sid"
  obtains req a where "permitted (re_guard r) (kv (account s)) sid"
      "session_good (account_env V) a" "guard_effect sid (account s) a"
      "if re_guard r = Public then req = aq_http q \<and> a = account s else attached (kv (account s)) sid req"
      "serve_route V q r params s =
        (case check_input V (re_input r) q (s\<lparr>account := a\<rparr>) of
             (Inl ex, s1) \<Rightarrow> fail_request V q ex s1
           | (Inr b, s1) \<Rightarrow>
               (case run_handler V (re_handler r) params b req s1 of
                  None \<Rightarrow> None
                | Some (Inl e, s2) \<Rightarrow> fail_request V q (exception_of (lib_exception V) e) s2
                | Some (Inr v, s2) \<Rightarrow> Some (\<lparr>hr_status = re_status r, hr_body = v\<rparr>, s2)))"
  | e m a where "\<not> permitted (re_guard r) (kv (account s)) sid"
      "session_good (account_env V) a" "guard_effect sid (account s) a"
      "e = UnauthorizedException m \<or> e = ForbiddenException m"
      "serve_route V q r params s = fail_request V q (exception_of (lib_exception V) e) (s\<lparr>account := a\<rparr>)"
proof (cases rule: route_gate[OF good cfg sid, of "re_guard r" "\<lambda>req'. ok req'"])
  case (1 req a)
  then have "guard_request (account_env V) (re_guard r) (aq_http q) (account s) = (Inr req, a)"
    by (simp add: guard_request_def act_simps)
  with that(1)[of a req] 1 show ?thesis by (simp add: serve_route_def)
next
  case (2 e m a)
  then have "guard_request (account_env V) (re_guard r) (aq_http q) (account s) = (Inl e, a)"
    by (simp add: guard_request_def)
  with that(2)[of a e m] 2 show ?thesis by (simp add: serve_route_def)
qed

section \<open>Bodies\<close>

text \<open>Validation by the rules of the decorators.\<close>

definition pipe_ok :: "server_env \<Rightarrow> bool" where
  "pipe_ok V \<longleftrightarrow> (\<forall>now rules v. vp_valid V now rules v = dto_valid now rules v)"

definition input_rules :: "text_checks \<Rightarrow> input \<Rightarrow> dto_rules option" where
  "input_rules T i = (case i of NoInput \<Rightarrow> None | Body f \<Rightarrow> Some (f T) | Query f \<Rightarrow> Some (f T))"

definition input_value :: "api_request \<Rightarrow> input \<Rightarrow> jsval" where
  "input_value q i = (case i of NoInput \<Rightarrow> JUndefined | Body _ \<Rightarrow> aq_body q | Query _ \<Rightarrow> aq_query q)"

lemma check_input_run:
  assumes "pipe_ok V"
  shows "check_input V i q s =
    (case input_rules (checks V) i of
       None \<Rightarrow> (Inr JUndefined, s)
     | Some rules \<Rightarrow>
         (if pipe_accepts (clock (account_env V) (clock_reads (account s))) rules (input_value q i)
          then (Inr (input_value q i), tick s)
          else (Inl (BadRequestExn (JObj [(''message'', JArr (map JStr (vp_messages V rules (input_value q i)))),
            (''error'', JStr ''Bad Request''), (''statusCode'', JNum 400)])), tick s)))"
  using assms
  by (cases i) (simp_all add: check_input_def input_rules_def input_value_def pipe_ok_def pipe_accepts_def
      tick_def Let_def)

end
