(* ===== verification/ServerRoutes.thy ===== *)
theory ServerRoutes
  imports Server
begin

text \<open>
  The table of routes: which handlers a request can reach, and who may call what.
\<close>

lemmas route_defs = all_routes_def app_routes_def auth_routes_def auth_route_def users_routes_def device_routes_def
  topic_routes_def mqtt_routes_def entry_def default_status_def js_lower_def

lemma resolve_Some:
  "resolve rs m path = Some (r, params) \<Longrightarrow>
     r \<in> set rs \<and> re_method r = m \<and> match_path (re_path r) path = Some params"
  by (induction rs) (auto split: option.splits if_splits)

lemma match_path_Cons:
  "match_path (Lit l # ps) path = Some params \<longleftrightarrow>
     (\<exists>x xs. path = x # xs \<and> js_lower l = js_lower x \<and> match_path ps xs = Some params)"
  by (cases path) auto

lemma match_path_Nil: "match_path [] path = Some params \<longleftrightarrow> path = [] \<and> params = []"
  by (cases path) auto

text \<open>A request that a fixed second segment would serve goes to \<open>GET /devices/:id\<close>.\<close>

lemma devices_id:
  assumes "js_lower x = ''devices''" "js_lower y \<in> {''query'', ''unassigned'', ''telemetry''}"
  shows "\<exists>r. resolve all_routes GET [x, y] = Some (r, [y]) \<and> re_handler r = Devices_getSingleSensor"
proof -
  have lits: "js_lower ''users'' = ''users''" "js_lower ''devices'' = ''devices''" "js_lower ''all'' = ''all''"
    by (simp_all add: js_lower_def)
  have "y \<noteq> []" using assms(2) by (auto simp: js_lower_def)
  then show ?thesis using assms
    by (auto simp: all_routes_def app_routes_def auth_routes_def auth_route_def users_routes_def device_routes_def
        entry_def lits)
qed

definition example_path :: "route_handler \<Rightarrow> http_method \<times> string list" where
  "example_path h =
     (case List.find (\<lambda>r. re_handler r = h) all_routes of
        None \<Rightarrow> (GET, [])
      | Some r \<Rightarrow> (re_method r, map (\<lambda>g. case g of Lit l \<Rightarrow> l | Param \<Rightarrow> ''x'') (re_path r)))"

lemma example_path_reaches:
  assumes "h \<notin> {Devices_querySensors, Devices_getUnassignedSensor, Devices_getDeviceTelemetry}"
  shows "\<exists>r params. resolve all_routes (fst (example_path h)) (snd (example_path h)) = Some (r, params) \<and> re_handler r = h"
  using assms by (cases h) (simp_all add: example_path_def route_defs)

text \<open>
  C24. Every handler is reached by some request except three: \<open>GET /devices/query\<close>,
  \<open>/devices/unassigned\<close> and \<open>/devices/telemetry\<close> are declared after \<open>GET /devices/:id\<close>, which
  takes their requests.
\<close>

theorem reachable_handlers:
  "(\<exists>m path r params. resolve all_routes m path = Some (r, params) \<and> re_handler r = h) \<longleftrightarrow>
     h \<notin> {Devices_querySensors, Devices_getUnassignedSensor, Devices_getDeviceTelemetry}"
proof (rule iffI)
  assume "h \<notin> {Devices_querySensors, Devices_getUnassignedSensor, Devices_getDeviceTelemetry}"
  from example_path_reaches[OF this]
  show "\<exists>m path r params. resolve all_routes m path = Some (r, params) \<and> re_handler r = h" by blast
next
  assume "\<exists>m path r params. resolve all_routes m path = Some (r, params) \<and> re_handler r = h"
  then obtain m path r params where r: "resolve all_routes m path = Some (r, params)" "re_handler r = h" by blast
  show "h \<notin> {Devices_querySensors, Devices_getUnassignedSensor, Devices_getDeviceTelemetry}"
  proof
    assume h: "h \<in> {Devices_querySensors, Devices_getUnassignedSensor, Devices_getDeviceTelemetry}"
    have "r \<in> set all_routes" using resolve_Some[OF r(1)] by blast
    with h r(2) have "re_method r = GET \<and>
        re_path r \<in> {[Lit ''devices'', Lit l] | l. l \<in> {''query'', ''unassigned'', ''telemetry''}}"
      by (auto simp: route_defs)
    with resolve_Some[OF r(1)] obtain x y where path: "m = GET" "path = [x, y]" "js_lower x = ''devices''"
      "js_lower y \<in> {''query'', ''unassigned'', ''telemetry''}"
      by (auto simp: match_path_Cons match_path_Nil js_lower_def)
    from devices_id[OF path(3,4)] r h path(1,2) show False by auto
  qed
qed


end
