(* ===== verification/GatewayProperties.thy ===== *)
theory GatewayProperties
  imports GatewayContract
begin

text \<open>
  The properties of the gateway: its state machine with the cache of recent messages, the outcome of a
  handled message, the bounds of the quality score, and the topics it tracks.
\<close>

section \<open>The state machine\<close>

definition gateway_handlers ::
  "'e gateway_env_scheme \<Rightarrow> (string \<Rightarrow> jsval \<Rightarrow> ('z gateway_state_scheme, unit) act) list" where
  "gateway_handlers E = [handleAssignmentMessage E, gateway_handleAckMessage E, handleFirmwareUpgradeMessage E,
     handleHeartbeatMessage E, handleRebootMessage E, handleTelemetryMessage E, handleHardwareStatusMessage E,
     handleAlertMessage E]"

definition gateway_part :: "'z gateway_state_scheme \<Rightarrow>
  message_incoming list \<times> income_message list \<times> (string \<times> string) list \<times> (string \<times> string list) list" where
  "gateway_part s = (messages s, recentSensorData s, connectedClients s, clientSubscriptions s)"

lemma gateway_part_simps [simp]:
  "gateway_part (s\<lparr>subscriptionTracking := a\<rparr>) = gateway_part s"
  "gateway_part (s\<lparr>clients := b\<rparr>) = gateway_part s"
  "gateway_part (s\<lparr>clock_reads := n\<rparr>) = gateway_part s"
  by (simp_all add: gateway_part_def)

text \<open>
  The services the gateway calls have no access to its private fields (the types of their models say
  so), so a step of the rest of the program is any change of the other fields.
\<close>

inductive gateway_step :: "'e gateway_env_scheme \<Rightarrow> 'z gateway_state_scheme \<Rightarrow> 'z gateway_state_scheme \<Rightarrow> bool" for E where
  connects: "gateway_step E s (snd (handleConnection c s))"
| disconnects: "gateway_step E s (snd (handleDisconnect c s))"
| handles: "h \<in> set (gateway_handlers E) \<Longrightarrow> gateway_step E s (snd (h tpc payload s))"
| subscribes: "gateway_step E s (snd (subscribeToTopics E tpcs d s))"
| unsubscribes: "gateway_step E s (snd (unsubscribeFromTopics E tpcs s))"
| elsewhere: "gateway_part s' = gateway_part s \<Longrightarrow> gateway_step E s s'"

text \<open>The service starts with empty maps, on a collection that may hold messages of earlier runs.\<close>

inductive gateway_reachable ::
  "'e gateway_env_scheme \<Rightarrow> message_incoming list \<Rightarrow> 'z gateway_state_scheme \<Rightarrow> bool" for E old where
  starts: "gateway_part s = (old, [], [], []) \<Longrightarrow> gateway_reachable E old s"
| steps: "gateway_reachable E old s \<Longrightarrow> gateway_step E s s' \<Longrightarrow> gateway_reachable E old s'"

definition gateway_inv :: "message_incoming list \<Rightarrow> 'z gateway_state_scheme \<Rightarrow> bool" where
  "gateway_inv old s \<longleftrightarrow>
     (\<exists>new. messages s = old @ new \<and> rw.shows_last cached_view (map view (processed new)) (recentSensorData s)) \<and>
     (\<forall>m \<in> set (recentSensorData s). im_qualityScore m = calculateQualityScore (im_parsedData m)) \<and>
     map fst (connectedClients s) = map fst (clientSubscriptions s) \<and> distinct (map fst (clientSubscriptions s))"

lemma gateway_inv_cong: "gateway_part s' = gateway_part s \<Longrightarrow> gateway_inv old s' = gateway_inv old s"
  by (simp add: gateway_inv_def gateway_part_def)

lemma map_fst_map_set: "map fst kvs = map fst kvs' \<Longrightarrow> map fst (map_set kvs k v) = map fst (map_set kvs' k v')"
proof (induction kvs k v arbitrary: kvs' rule: map_set.induct)
  case (2 k' v0 kvs k v)
  then obtain u kvs'' where "kvs' = (k', u) # kvs''" "map fst kvs = map fst kvs''" by auto
  with 2 show ?case by auto
qed simp

lemma map_fst_map_delete: "map fst (map_delete kvs k) = filter (\<lambda>k'. k' \<noteq> k) (map fst kvs)"
  by (induction kvs) (auto simp: map_delete_def)

lemma handlers_stored:
  "h \<in> set (gateway_handlers E) \<Longrightarrow> \<exists>ty ch ev. h = handle_stored E ty ch ev"
  by (auto simp: gateway_handlers_def handleAssignmentMessage_def gateway_handleAckMessage_def
      handleFirmwareUpgradeMessage_def handleHeartbeatMessage_def handleRebootMessage_def handleTelemetryMessage_def
      handleHardwareStatusMessage_def handleAlertMessage_def)

lemma handled_inv:
  assumes env: "gateway_env_ok E" and inv: "gateway_inv old s"
  shows "gateway_inv old (snd (handle_stored E ty ch ev tpc payload s))"
proof (cases "nullish payload")
  case True
  from handled_nullish[OF env True, of ty ch ev tpc s] obtain m where
    "handle_stored E ty ch ev tpc payload s = (Inr (), s\<lparr>messages := messages s @ [stored_error tpc payload m]\<rparr>)" by blast
  moreover obtain new where "messages s = old @ new"
    "rw.shows_last cached_view (map view (processed new)) (recentSensorData s)" using inv by (auto simp: gateway_inv_def)
  ultimately show ?thesis using inv
    by (auto simp: gateway_inv_def processed_def intro!: exI[of _ "new @ [stored_error tpc payload m]"])
next
  case False
  from handled_run[OF env False, of ty ch ev tpc s] obtain m e now n where
    1: "handle_stored E ty ch ev tpc payload s = (Inr (), handled_state m ch e now n s)"
    "im_qualityScore m = calculateQualityScore (im_parsedData m)" by blast
  obtain new where new: "messages s = old @ new"
    "rw.shows_last cached_view (map view (processed new)) (recentSensorData s)" using inv by (auto simp: gateway_inv_def)
  have "rw.shows_last cached_view (map view (processed (new @ [stored_message m now]))) (push_recent m (recentSensorData s))"
    using rw.shows_last_push[OF new(2), of m] by (simp add: processed_def)
  moreover have "set (push_recent m (recentSensorData s)) \<subseteq> insert m (set (recentSensorData s))"
    by (auto simp: push_recent_def Let_def split: if_splits dest: in_set_takeD)
  ultimately show ?thesis using inv new(1) 1
    by (auto simp: gateway_inv_def handled_state_def)
qed

lemma keeps_track [keeps_intros]: "keeps (\<lambda>s. P (gateway_part s)) (track t)" "keeps (\<lambda>s. P (gateway_part s)) (untrack t)"
  by (simp_all add: keeps_def track_def untrack_def act_simps)

lemma keeps_gateway_mqtt [keeps_intros]:
  "keeps (\<lambda>s. P (gateway_part s)) (on_mqtt m)" "keeps (\<lambda>s. P (gateway_part s)) (date_now E')"
  by (simp_all add: keeps_def on_mqtt_def act_simps split: option.split prod.split)

lemma keeps_gateway_topics [keeps_intros]:
  "keeps (\<lambda>s. P (gateway_part s)) (mqtt_subscribe E ts)" "keeps (\<lambda>s. P (gateway_part s)) (mqtt_unsubscribe E t)"
  "keeps (\<lambda>s. P (gateway_part s)) (subscribeToTopics E tpcs d)"
  "keeps (\<lambda>s. P (gateway_part s)) (unsubscribeFromTopics E tpcs)"
  unfolding mqtt_subscribe_def mqtt_unsubscribe_def subscribeToTopics_def unsubscribeFromTopics_def
    follow_topic_def unfollow_topic_def
  by (intro keeps_intros)+

lemma gateway_step_inv:
  assumes "gateway_step E s s'" "gateway_env_ok E" "gateway_inv old s"
  shows "gateway_inv old s'"
  using assms
proof cases
  case (handles h tpc payload)
  with handlers_stored[of h E] handled_inv[OF assms(2,3)] show ?thesis by blast
next
  case (subscribes tpcs d)
  have "gateway_part s' = gateway_part s"
    unfolding subscribes by (rule keepsD[OF keeps_gateway_topics(3)]) simp
  with assms(3) show ?thesis by (blast intro: gateway_inv_cong[THEN iffD2])
next
  case (unsubscribes tpcs)
  have "gateway_part s' = gateway_part s"
    unfolding unsubscribes by (rule keepsD[OF keeps_gateway_topics(4)]) simp
  with assms(3) show ?thesis by (blast intro: gateway_inv_cong[THEN iffD2])
next
  case (connects c)
  with assms(3) show ?thesis
    using map_fst_map_set[of "connectedClients s" "clientSubscriptions s" c c "[]"]
      distinct_map_set[of "clientSubscriptions s" c "[]"]
    by (auto simp: gateway_inv_def handleConnection_def act_simps)
next
  case (disconnects c)
  with assms(3) show ?thesis
    by (simp add: gateway_inv_def handleDisconnect_def act_simps map_fst_map_delete)
next
  case elsewhere
  with assms(3) show ?thesis by (blast intro: gateway_inv_cong[THEN iffD2])
qed

lemma gateway_reachable_inv:
  "gateway_reachable E old s \<Longrightarrow> gateway_env_ok E \<Longrightarrow> gateway_inv old s"
proof (induction rule: gateway_reachable.induct)
  case (starts s)
  then show ?case by (simp add: gateway_inv_def gateway_part_def processed_def rw.shows_last_def)
next
  case (steps s s')
  then show ?case using gateway_step_inv by blast
qed

section \<open>Recent messages\<close>

text \<open>
  C39. Whatever happens, the messages the gateway keeps in memory are the last hundred of those it has
  processed and stored since it started, newest first, with topic, payload and parsed data as stored;
  messages are only ever added to the collection; and exactly the connected sockets have a set of
  subscriptions.
\<close>

theorem recent_data_window:
  assumes "gateway_reachable E old s" "gateway_env_ok E"
  shows "\<exists>new. messages s = old @ new \<and>
    map cached_view (recentSensorData s) =
      take 100 (rev (map view (filter (\<lambda>e. mi_status e = ''processed'') new))) \<and>
    map fst (connectedClients s) = map fst (clientSubscriptions s)"
  using gateway_reachable_inv[OF assms]
  by (simp add: gateway_inv_def rw.shows_last_def processed_def)

definition demo_gateway_env :: "unit gateway_env_scheme" where
  "demo_gateway_env = device_env.extend demo_device_env (gateway_env.fields (mem_repo (\<lambda>_. True)))"

lemma demo_gateway_env_ok [simp]: "gateway_env_ok demo_gateway_env"
  by (simp add: gateway_env_ok_def demo_gateway_env_def device_env.extend_def gateway_env.fields_def)

definition demo_gateway :: "unit gateway_state_scheme" where
  "demo_gateway = device_state.extend demo_device_up (gateway_state.fields [] [] [] [] [])"

lemma demo_gateway_part [simp]: "gateway_part demo_gateway = ([], [], [], [])"
  "messages demo_gateway = []" "recentSensorData demo_gateway = []"
  by (simp_all add: demo_gateway_def gateway_part_def device_state.extend_def gateway_state.fields_def)

definition demo_reading :: jsval where
  "demo_reading = JObj [(''value'', JNum 21), (''battery'', JNum 80)]"

definition demo_handled :: "unit gateway_state_scheme" where
  "demo_handled = snd (handleTelemetryMessage demo_gateway_env ''sensors/temperature/room1'' demo_reading demo_gateway)"

lemma telemetry_handler: "handleTelemetryMessage E \<in> set (gateway_handlers E)"
  by (simp add: gateway_handlers_def)

lemma demo_handled_reachable: "gateway_reachable demo_gateway_env [] demo_handled"
  unfolding demo_handled_def
  by (rule gateway_reachable.steps[OF gateway_reachable.starts gateway_step.handles[OF telemetry_handler]]) simp

lemma demo_handled_messages: "length (messages demo_handled) = 1" "\<exists>m. recentSensorData demo_handled = [m]"
proof -
  have "\<not> nullish demo_reading" by (simp add: demo_reading_def)
  from handled_run[OF demo_gateway_env_ok this, of "''telemetry''" "''ws/telemetry''" "''telemetry-received''"
      "''sensors/temperature/room1''" demo_gateway]
  obtain m e now n where d: "demo_handled = handled_state m ''ws/telemetry'' e now n demo_gateway"
    unfolding demo_handled_def handleTelemetryMessage_def by (metis snd_conv)
  show "length (messages demo_handled) = 1" "\<exists>m. recentSensorData demo_handled = [m]"
    unfolding d by (simp_all add: handled_state_def push_recent_def)
qed

theorem recent_data_window_witness:
  "\<exists>new. messages demo_handled = new \<and> length new = 1 \<and>
     map cached_view (recentSensorData demo_handled) =
       take 100 (rev (map view (filter (\<lambda>e. mi_status e = ''processed'') new)))"
  using recent_data_window[OF demo_handled_reachable demo_gateway_env_ok] demo_handled_messages(1) by auto

section \<open>The score\<close>

text \<open>
  The quality score of a message lies between a tenth and one, so the clamping to the unit interval
  never has an effect; it is one exactly for a message with a value (other than 0, false and the empty
  text), a known unit, and a quality that is neither error nor poor; a message of quality error never
  scores more than one half.
\<close>

theorem quality_score:
  "1 / 10 \<le> calculateQualityScore d \<and> calculateQualityScore d \<le> 1 \<and>
   (calculateQualityScore d = 1 \<longleftrightarrow> truthy (sd_value d) \<and> sd_value d \<noteq> JStr ''unknown'' \<and>
      sd_unit d \<noteq> JStr ''unknown'' \<and> sd_quality d \<noteq> JStr ''error'' \<and> sd_quality d \<noteq> JStr ''poor'') \<and>
   calculateQualityScore d \<le> (if sd_quality d = JStr ''error'' then 1 / 2 else 1)"
proof -
  note score = score_cases[of d]
  have v: "truthy (sd_value d) \<and> sd_value d \<noteq> JStr ''unknown'' \<longleftrightarrow> complete_value d" by (simp add: complete_value_def)
  show ?thesis
    by (cases "complete_value d"; cases "sd_unit d = JStr ''unknown''"; cases "sd_quality d = JStr ''error''";
        cases "sd_quality d = JStr ''poor''") (simp_all add: score v[unfolded conj_assoc] flip: v)
qed

section \<open>Handled messages\<close>

lemma object_json_format:
  assumes "json_ok (JObj kvs)"
  shows "entity_format (Some (payloadStr (JObj kvs))) = MF_JSON"
  using json_roundtrip[OF assms] by (simp add: entity_format_def detectMessageFormat_def payloadStr_def)

text \<open>
  C40. A handler of the gateway returns, and: a payload that is null or undefined is stored as an error
  with its text and nothing is cached or passed on; any other payload is stored as processed, put first
  among the recent messages, and passed on to the web side with the payload as it came. The device is the
  third part of the topic when there is one. An object whose JSON can be read back is stored as JSON.
\<close>

theorem message_handled:
  assumes env: "gateway_env_ok E" and h: "h \<in> set (gateway_handlers E)" and run: "h tpc payload s = (r, s')"
  shows "r = Inr () \<and>
    (if nullish payload
     then recentSensorData s' = recentSensorData s \<and> emitted s' = emitted s \<and>
       (\<exists>m. messages s' = messages s @ [stored_error tpc payload m])
     else \<exists>m now ch e. messages s' = messages s @ [stored_message m now] \<and>
       recentSensorData s' = take 100 (m # recentSensorData s) \<and>
       emitted s' = emitted s @ [(ch, [e])] \<and> js_get e ''data'' = payload \<and>
       im_topic m = tpc \<and> im_rawData m = payloadStr payload \<and>
       (case js_split (CHR ''/'') tpc of
          _ # _ # d # _ \<Rightarrow> sd_deviceId (im_parsedData m) = JStr d
        | _ \<Rightarrow> sd_deviceId (im_parsedData m) = js_or (js_get payload ''deviceId'') (JStr ''unknown'')) \<and>
       (case payload of JObj kvs \<Rightarrow> json_ok payload \<longrightarrow> mi_messageFormat (stored_message m now) = MF_JSON | _ \<Rightarrow> True))"
proof -
  from handlers_stored[OF h] obtain ty ch ev where st: "h = handle_stored E ty ch ev" by blast
  show ?thesis
  proof (cases "nullish payload")
    case True
    from handled_nullish[OF env True, of ty ch ev tpc s] run st show ?thesis by (auto simp: True)
  next
    case False
    from handled_run[OF env False, of ty ch ev tpc s] obtain m now now' n d where
      1: "h tpc payload s = (Inr (), handled_state m ch
        (JObj [(''event'', JStr ev), (''data'', payload), (''timestamp'', JDate now')]) now n s)"
      "im_topic m = tpc" "im_rawData m = payloadStr payload" "im_parsedData m = parsed_data tpc payload d"
      unfolding st by blast
    have e: "r = Inr ()" "s' = handled_state m ch
        (JObj [(''event'', JStr ev), (''data'', payload), (''timestamp'', JDate now')]) now n s"
      using run 1(1) by auto
    have s': "r = Inr ()" "messages s' = messages s @ [stored_message m now]"
      "recentSensorData s' = take 100 (m # recentSensorData s)"
      "emitted s' = emitted s @ [(ch, [JObj [(''event'', JStr ev), (''data'', payload), (''timestamp'', JDate now')]])]"
      unfolding e by (simp_all add: handled_state_def push_recent_def Let_def)
    have dev: "case js_split (CHR ''/'') tpc of
          _ # _ # d # _ \<Rightarrow> sd_deviceId (im_parsedData m) = JStr d
        | _ \<Rightarrow> sd_deviceId (im_parsedData m) = js_or (js_get payload ''deviceId'') (JStr ''unknown'')"
      by (simp add: 1(4) parsed_data_def Let_def split: list.split)
    have fmt: "case payload of JObj kvs \<Rightarrow> json_ok payload \<longrightarrow> mi_messageFormat (stored_message m now) = MF_JSON | _ \<Rightarrow> True"
      using object_json_format by (simp add: stored_message_def 1(3) split: jsval.split)
    show ?thesis unfolding if_not_P[OF False]
      by (intro conjI exI, rule s'(1), rule s'(2), rule s'(3), rule s'(4)) (simp_all add: 1(2,3) dev fmt)
  qed
qed

theorem message_handled_witness:
  "\<exists>m. recentSensorData demo_handled = [m] \<and> im_topic m = ''sensors/temperature/room1'' \<and>
     sd_deviceId (im_parsedData m) = JStr ''room1''"
proof -
  have "\<not> nullish demo_reading" "js_split (CHR ''/'') ''sensors/temperature/room1'' = [''sensors'', ''temperature'', ''room1'']"
    by (simp_all add: demo_reading_def)
  with message_handled[OF demo_gateway_env_ok telemetry_handler prod.collapse[symmetric],
      of "''sensors/temperature/room1''" demo_reading demo_gateway]
  show ?thesis unfolding demo_handled_def[symmetric] by auto
qed

section \<open>Topics\<close>

definition tracked :: "'z gateway_state_scheme \<Rightarrow> string set" where
  "tracked s = fst ` set (subscriptionTracking s)"

lemma subscribe_step:
  assumes lib: "mqtt_lib_ok (mqtt_lib E)" and up: "live i s"
  shows "\<exists>s'. follow_topic E t s = (Inr (), s') \<and>
    live i s' \<and> subs_of i s' = insert t (subs_of i s) \<and> tracked s' = insert t (tracked s)"
proof -
  from subscribe_run[OF lib up, of "OneTopic t"] obtain r a where
    1: "mqtt_subscribe E (OneTopic t) s = (Inr r, s\<lparr>clients := (clients s)[i := a], clock_reads := Suc (clock_reads s)\<rparr>)"
    and a: "adapter_isConnected a" "set (adapter_subs a) = subs_of i s \<union> {t}" by auto
  have i: "i < length (clients s)" using up by (simp add: live_def)
  show ?thesis using up a
    by (simp add: follow_topic_def try_catch_run bnd_run 1 track_def modify_run live_def subs_of_def tracked_def i)
qed

text \<open>A rejected unsubscription is reported in the result, which the gateway does not look at.\<close>

lemma unsubscribe_step:
  assumes lib: "mqtt_lib_ok (mqtt_lib E)" and c: "isConnectedState s" "mqtt s = Some i" "i < length (clients s)"
  shows "\<exists>s'. unfollow_topic E t s = (Inr (), s') \<and>
    isConnectedState s' \<and> mqtt s' = Some i \<and> i < length (clients s') \<and>
    adapter_isConnected (clients s' ! i) = adapter_isConnected (clients s ! i) \<and>
    subs_of i s' = (if adapter_isConnected (clients s ! i) then subs_of i s - {t} else subs_of i s) \<and>
    tracked s' = tracked s - {t}"
proof (cases "adapter_isConnected (clients s ! i)")
  case True
  then obtain c where cl: "ad_client (clients s ! i) = Some c" "cn_connected c"
    by (auto simp: adapter_isConnected_def split: option.splits)
  show ?thesis using c cl
    by (simp add: unfollow_topic_def try_catch_run bnd_run mqtt_unsubscribe_def gets_run on_mqtt_def adapter_unsubscribe_def
        on_connected_run mqtt_lib_okD(3)[OF lib] date_now_run untrack_def modify_run subs_of_def adapter_subs_def
        adapter_isConnected_def tracked_def map_delete_def) auto
next
  case False
  show ?thesis using c False
    by (simp add: unfollow_topic_def try_catch_run bnd_run mqtt_unsubscribe_def gets_run on_mqtt_def adapter_unsubscribe_def
        not_connected date_now_run untrack_def modify_run subs_of_def tracked_def map_delete_def) auto
qed

lemma subscribeToTopics_run:
  assumes lib: "mqtt_lib_ok (mqtt_lib E)"
  shows "live i s \<Longrightarrow> \<exists>s'. subscribeToTopics E tpcs d s = (Inr (), s') \<and> live i s' \<and>
    subs_of i s' = subs_of i s \<union> set tpcs \<and> tracked s' = tracked s \<union> set tpcs"
  unfolding subscribeToTopics_def
proof (induction tpcs arbitrary: s)
  case (Cons t ts)
  from subscribe_step[OF lib Cons.prems, of t] obtain s1 where
    1: "follow_topic E t s = (Inr (), s1)" "live i s1"
    "subs_of i s1 = insert t (subs_of i s)" "tracked s1 = insert t (tracked s)" by blast
  with Cons.IH[OF 1(2)] show ?case unfolding for_each_Cons[of "follow_topic E", OF 1(1)] by auto
qed simp

lemma unsubscribeFromTopics_run:
  assumes lib: "mqtt_lib_ok (mqtt_lib E)"
  shows "isConnectedState s \<Longrightarrow> mqtt s = Some i \<Longrightarrow> i < length (clients s) \<Longrightarrow>
    \<exists>s'. unsubscribeFromTopics E tpcs s = (Inr (), s') \<and>
      subs_of i s' = (if adapter_isConnected (clients s ! i) then subs_of i s - set tpcs else subs_of i s) \<and>
      tracked s' = tracked s - set tpcs"
  unfolding unsubscribeFromTopics_def
proof (induction tpcs arbitrary: s)
  case (Cons t ts)
  from unsubscribe_step[OF lib Cons.prems, of t] obtain s1 where
    1: "unfollow_topic E t s = (Inr (), s1)"
    "isConnectedState s1" "mqtt s1 = Some i" "i < length (clients s1)"
    "adapter_isConnected (clients s1 ! i) = adapter_isConnected (clients s ! i)"
    "subs_of i s1 = (if adapter_isConnected (clients s ! i) then subs_of i s - {t} else subs_of i s)"
    "tracked s1 = tracked s - {t}" by blast
  from Cons.IH[OF 1(2-4)] obtain s' where
    2: "for_each (unfollow_topic E) ts s1 = (Inr (), s')"
    "subs_of i s' = (if adapter_isConnected (clients s1 ! i) then subs_of i s1 - set ts else subs_of i s1)"
    "tracked s' = tracked s1 - set ts" by blast
  with 1 show ?case unfolding for_each_Cons[of "unfollow_topic E", OF 1(1)] by (auto split: if_splits)
qed simp

lemma topics_offline:
  assumes "\<not> isConnectedState s"
  shows "subscribeToTopics E tpcs d s = (Inr (), s)" "unsubscribeFromTopics E tpcs s = (Inr (), s)"
proof -
  have "follow_topic E t s = (Inr (), s)"
    "unfollow_topic E t s = (Inr (), s)" for t
    using assms by (simp_all add: follow_topic_def unfollow_topic_def mqtt_subscribe_def mqtt_unsubscribe_def act_simps)
  note step = this
  show "subscribeToTopics E tpcs d s = (Inr (), s)" unfolding subscribeToTopics_def
    by (induction tpcs) (simp, simp only: for_each_Cons[of "follow_topic E", OF step(1)])
  show "unsubscribeFromTopics E tpcs s = (Inr (), s)" unfolding unsubscribeFromTopics_def
    by (induction tpcs) (simp, simp only: for_each_Cons[of "unfollow_topic E", OF step(2)])
qed

text \<open>
  With a live client \<open>subscribeToTopics\<close> subscribes to and tracks every topic of the list. While the
  service counts as connected \<open>unsubscribeFromTopics\<close> forgets every topic of the list, whether or not the
  client could unsubscribe: a client that has lost its connection stays subscribed to topics that are no
  longer tracked. While the service counts as disconnected both do nothing.
\<close>

theorem gateway_subscriptions:
  assumes "mqtt_lib_ok (mqtt_lib E)" "mqtt s = Some i" "i < length (clients s)"
  shows "(if \<not> isConnectedState s
     then subscribeToTopics E tpcs d s = (Inr (), s) \<and> unsubscribeFromTopics E tpcs s = (Inr (), s)
     else (\<exists>s'. unsubscribeFromTopics E tpcs s = (Inr (), s') \<and> tracked s' = tracked s - set tpcs \<and>
         subs_of i s' = (if adapter_isConnected (clients s ! i) then subs_of i s - set tpcs else subs_of i s)) \<and>
       (adapter_isConnected (clients s ! i) \<longrightarrow>
         (\<exists>s'. subscribeToTopics E tpcs d s = (Inr (), s') \<and> tracked s' = tracked s \<union> set tpcs \<and>
           subs_of i s' = subs_of i s \<union> set tpcs)))"
  using topics_offline[of s E] subscribeToTopics_run[OF assms(1), of i s tpcs d]
    unsubscribeFromTopics_run[OF assms(1) _ assms(2,3), of tpcs] assms(2,3)
  by (auto simp: live_def)

lemma demo_gateway_live: "live 0 demo_gateway" "tracked demo_gateway = {}"
  using demo_device_up(2)
  by (simp_all add: demo_gateway_def live_def tracked_def device_state.extend_def gateway_state.fields_def)

theorem gateway_subscriptions_witness:
  "\<exists>s'. subscribeToTopics demo_device_env [''a/b'', ''a/c''] ''a'' demo_gateway = (Inr (), s') \<and>
     tracked s' = {''a/b'', ''a/c''}"
  using gateway_subscriptions[where E = demo_device_env and s = demo_gateway and i = 0 and d = "''a''"
      and tpcs = "[''a/b'', ''a/c'']"] demo_gateway_live
  by (auto simp: live_def)

end
