(* ===== verification/ServerProperties.thy ===== *)
theory ServerProperties
  imports ServerContract ServerRoutes GatewayProperties
begin

text \<open>
  The properties of the server as a whole: who reaches a handler, what a refusal changes, which routes
  there are, what responses contain, and what a client can do over several requests.
\<close>

section \<open>A concrete server\<close>

definition demo_server_env :: server_env where
  "demo_server_env = \<lparr>account_env = demo_auth_env, panel_env = demo_gateway_env, expose = mem_expose,
     checks = \<lparr>is_email = (\<lambda>t. CHR ''@'' \<in> set t), is_url = (\<lambda>t. t \<noteq> [])\<rparr>,
     vp_valid = dto_valid, vp_messages = (\<lambda>rules v. [''invalid'']), test_lib = mem_mqtt, test_events = [],
     node_env = Some ''test'', lib_exception = (\<lambda>m. ErrorExn m ''Error''), error_stack = (\<lambda>e. ''stack''),
     process_uptime = 1\<rparr>"

definition demo_server :: "unit auth_state_scheme \<Rightarrow> server" where
  "demo_server a = \<lparr>account = a, panel = demo_gateway\<rparr>"

lemma demo_server_simps [simp]:
  "account_env demo_server_env = demo_auth_env" "panel_env demo_server_env = demo_gateway_env"
  "expose demo_server_env = mem_expose" "pipe_ok demo_server_env"
  "checks demo_server_env = \<lparr>is_email = (\<lambda>t. CHR ''@'' \<in> set t), is_url = (\<lambda>t. t \<noteq> [])\<rparr>"
  "account (demo_server a) = a" "panel (demo_server a) = demo_gateway"
  by (simp_all add: demo_server_env_def demo_server_def pipe_ok_def)

definition demo_call :: "http_method \<Rightarrow> string list \<Rightarrow> jsval \<Rightarrow> string \<Rightarrow> api_request" where
  "demo_call m p b sid = \<lparr>aq_method = m, aq_path = p, aq_url = ''/api'', aq_body = b, aq_query = JObj [],
     aq_http = cookie_request ''sid'' sid\<rparr>"

lemma demo_call_simps [simp]:
  "aq_method (demo_call m p b sid) = m" "aq_path (demo_call m p b sid) = p" "aq_body (demo_call m p b sid) = b"
  "aq_http (demo_call m p b sid) = cookie_request ''sid'' sid"
  by (simp_all add: demo_call_def)

text \<open>The state a request starts from: no cookie was set yet.\<close>

definition fresh :: "server \<Rightarrow> server" where
  "fresh s = s\<lparr>account := (account s)\<lparr>res_cookies := []\<rparr>\<rparr>"

lemma fresh_simps [simp]:
  "users (account (fresh s)) = users (account s)" "kv (account (fresh s)) = kv (account s)"
  "panel (fresh s) = panel s" "res_cookies (account (fresh s)) = []"
  "clock_reads (account (fresh s)) = clock_reads (account s)"
  "session_good E (account (fresh s)) = session_good E (account s)"
  "auth_good E (account (fresh s)) = auth_good E (account s)"
  by (simp_all add: fresh_def session_good_def session_inv_def auth_good_def users_inv_def)

lemma serve_fresh:
  "serve V q s = (case resolve all_routes (aq_method q) (aq_path q) of
      None \<Rightarrow> fail_request V q (no_route q) (fresh s)
    | Some (r, params) \<Rightarrow> serve_route V q r params (fresh s))"
  unfolding serve_def fresh_def Let_def by (cases "resolve all_routes (aq_method q) (aq_path q)") simp_all

lemma guard_effect_keeps:
  assumes "guard_effect sid (s :: 'z auth_state_scheme) a"
  shows "users a = users s" "res_cookies a = res_cookies s" "uuid_count a = uuid_count s"
proof -
  have eq: "a = s\<lparr>clock_reads := clock_reads a, kv := kv a\<rparr>" using assms by (simp add: guard_effect_def)
  show "users a = users s" by (subst eq) simp
  show "res_cookies a = res_cookies s" by (subst eq) simp
  show "uuid_count a = uuid_count s" by (subst eq) simp
qed

section \<open>Properties\<close>

text \<open>
  C3. Whatever route a request is for: if its cookie names no live session the guards of the route
  accept, the answer is a 401 or a 403, no account, no device, no topic and no session but the
  request's own changes, and no cookie is set.
\<close>

theorem access_control:
  assumes good: "session_good (account_env V) (account s)"
    and cfg: "config (account_env V) ''SESSION_COOKIE_NAME'' = Some n"
    and route: "resolve all_routes (aq_method q) (aq_path q) = Some (r, params)"
    and sid: "cookie_sid (account_env V) (aq_http q) = sid"
    and no: "\<not> permitted (re_guard r) (kv (account s)) sid"
  shows "\<exists>resp s'. serve V q s = Some (resp, s') \<and> (hr_status resp = 401 \<or> hr_status resp = 403) \<and>
    users (account s') = users (account s) \<and> panel s' = panel s \<and> res_cookies (account s') = [] \<and>
    (\<forall>b. b \<noteq> sid \<longrightarrow> session_at (kv (account s')) b = session_at (kv (account s)) b)"
proof -
  have good': "session_good (account_env V) (account (fresh s))" using good by simp
  show ?thesis
  proof (cases rule: serve_gate[OF good' cfg sid, of r params])
    case (2 e m a)
    have "ft_status (classify (exception_of (lib_exception V) e)) = 401 \<or>
        ft_status (classify (exception_of (lib_exception V) e)) = 403"
      using 2(4) by (auto simp: classify_def)
    with 2(3,5) guard_effect_keeps[OF 2(3)] show ?thesis
      by (auto simp: serve_fresh route fail_request_run guard_effect_def)
  qed (use no in simp)
qed


theorem access_control_witness:
  "\<exists>resp s'. serve demo_server_env (demo_call DELETE [''users'', ''delete'', ''x''] JNull []) (demo_server demo_auth_state) =
      Some (resp, s') \<and> users (account s') = users demo_auth_state"
proof -
  have "resolve all_routes DELETE [''users'', ''delete'', ''x''] =
      Some (entry DELETE [Lit ''users'', Lit ''delete'', Param] (Restricted [SUPER_ADMIN]) NoInput Users_remove, [''x''])"
    by (simp add: route_defs)
  then show ?thesis
    using access_control[of demo_server_env "demo_server demo_auth_state" "''sid''"
        "demo_call DELETE [''users'', ''delete'', ''x''] JNull []" _ _ "[]"] auth_goodD(2)[OF demo_auth_good]
    by (auto simp: entry_def permitted_def)
qed

text \<open>
  C23. A body or query that breaks a rule of its DTO class, or that has a property without a rule, never
  reaches a handler: a caller the guards accept is told 400 with the code of a validation error, and
  no account, device or topic changes.
\<close>

theorem invalid_input_refused:
  assumes good: "session_good (account_env V) (account s)" and pipe: "pipe_ok V"
    and cfg: "config (account_env V) ''SESSION_COOKIE_NAME'' = Some n"
    and route: "resolve all_routes (aq_method q) (aq_path q) = Some (r, params)"
    and sid: "cookie_sid (account_env V) (aq_http q) = sid"
    and yes: "permitted (re_guard r) (kv (account s)) sid"
    and rules: "input_rules (checks V) (re_input r) = Some rules"
    and bad: "\<And>now. \<not> pipe_accepts now rules (input_value q (re_input r))"
  shows "\<exists>kvs s'. serve V q s = Some (\<lparr>hr_status = 400, hr_body = JObj kvs\<rparr>, s') \<and>
    map_of kvs ''code'' = Some (JStr ''VALIDATION_ERROR'') \<and>
    map_of kvs ''message'' = Some (JStr (js_join ''; '' (vp_messages V rules (input_value q (re_input r))))) \<and>
    users (account s') = users (account s) \<and> panel s' = panel s \<and> res_cookies (account s') = []"
proof -
  have good': "session_good (account_env V) (account (fresh s))" using good by simp
  have flat: "concat (map formatValidationItem (map JStr ms)) = ms" for ms by (induction ms) simp_all
  show ?thesis
  proof (cases rule: serve_gate[OF good' cfg sid, of r params])
    case (1 req a)
    with guard_effect_keeps[OF 1(3)] show ?thesis
      using route rules bad flat
      by (simp add: serve_fresh check_input_run[OF pipe] fail_request_run classify_def failure_members_def Let_def
          extractValidationMessage_def joined_message_def is_object_def or_else_def)
  qed (use yes in simp)
qed


lemma demo_bob_permitted:
  assumes "session_roles m sid = Some [JStr ''admin'', JStr ''test'']" "sid \<noteq> []"
  shows "permitted (Restricted roles) m sid \<longleftrightarrow> roles = [] \<or> ADMIN \<in> set roles \<or> TEST \<in> set roles"
proof -
  have "JStr (role_value r) \<in> {JStr ''admin'', JStr ''test''} \<longleftrightarrow> r = ADMIN \<or> r = TEST" for r by (cases r) simp_all
  then show ?thesis using assms by (auto simp: permitted_def)
qed

theorem invalid_input_refused_witness:
  "\<exists>(s :: server) sid resp s'. serve demo_server_env
      (demo_call POST [''devices'', ''config''] (JObj [(''configuration'', JObj [])]) sid) s = Some (resp, s') \<and>
    hr_status resp = 400"
proof (rule demo_bob_session)
  fix a :: "unit auth_state_scheme" and sid
  assume a: "auth_good demo_auth_env a" "sid \<noteq> []" "session_roles (kv a) sid = Some [JStr ''admin'', JStr ''test'']"
  let ?q = "demo_call POST [''devices'', ''config''] (JObj [(''configuration'', JObj [])]) sid"
  let ?r = "entry POST [Lit ''devices'', Lit ''config''] (Restricted [ENGINEER, ADMIN, SUPER_ADMIN])
    (Body (\<lambda>_. PublishSetDeviceConfigDto)) Devices_reconfigureDevice"
  have route: "resolve all_routes (aq_method ?q) (aq_path ?q) = Some (?r, [])" by (simp add: route_defs)
  have "permitted (re_guard ?r) (kv a) sid" using demo_bob_permitted[OF a(3,2)] by (simp add: entry_def)
  moreover have "\<not> pipe_accepts now PublishSetDeviceConfigDto (JObj [(''configuration'', JObj [])])" for now
    using pipe_keys[of now PublishSetDeviceConfigDto "[(''configuration'', JObj [])]"]
    by (auto simp: PublishSetDeviceConfigDto_def)
  ultimately have "\<exists>kvs s'. serve demo_server_env ?q (demo_server a) = Some (\<lparr>hr_status = 400, hr_body = JObj kvs\<rparr>, s')"
    using invalid_input_refused[of demo_server_env "demo_server a" "''sid''" ?q ?r "[]" sid PublishSetDeviceConfigDto]
      auth_goodD(2)[OF a(1)] route
    by (auto simp: entry_def input_rules_def input_value_def)
  then show ?thesis by fastforce
qed

section \<open>What responses contain\<close>

definition password_free :: "jsval \<Rightarrow> bool" where
  "password_free v \<longleftrightarrow> ''password'' \<notin> set (own_keys v) \<and>
     (case v of JArr vs \<Rightarrow> list_all (\<lambda>x. ''password'' \<notin> set (own_keys x)) vs | _ \<Rightarrow> True)"

lemma password_free_exposed:
  assumes X: "expose_ok X" and ks: "''password'' \<notin> set ks"
  shows "password_free (X ks (user_json u))" "password_free (X ks (X ks (user_json u)))"
    "password_free (X ks (found_json o'))" "password_free (X ks (JArr (map user_json us)))"
proof -
  have obj: "\<exists>m. X ks (JObj kvs) = JObj m \<and> ''password'' \<notin> set (map fst m)" for kvs
  proof -
    from X obtain m where m: "X ks (JObj kvs) = JObj m" unfolding expose_ok_def by blast
    moreover from X have "set (own_keys (X ks (JObj kvs))) \<subseteq> set ks" unfolding expose_ok_def by blast
    ultimately show ?thesis using ks by auto
  qed
  have user: "\<exists>kvs. user_json u = JObj kvs" for u by (simp add: user_json_def)
  have usr: "\<exists>m. X ks (user_json u) = JObj m \<and> ''password'' \<notin> set (map fst m)" for u
    using obj user[of u] by metis
  show "password_free (X ks (user_json u))" using usr[of u] by (auto simp: password_free_def)
  show "password_free (X ks (X ks (user_json u)))"
  proof -
    obtain m where "X ks (user_json u) = JObj m" using usr[of u] by blast
    with obj[of m] show ?thesis by (auto simp: password_free_def)
  qed
  show "password_free (X ks (found_json o'))"
  proof (cases o')
    case None
    with X show ?thesis by (simp add: found_json_def expose_ok_def password_free_def)
  next
    case (Some v)
    with usr[of v] show ?thesis by (auto simp: found_json_def password_free_def)
  qed
  have "''password'' \<notin> set (own_keys (X ks (user_json u)))" for u using usr[of u] by auto
  with X show "password_free (X ks (JArr (map user_json us)))"
    by (simp add: expose_ok_def password_free_def list_all_iff)
qed

lemma replies_Inr: "replies m f s = Some (Inr v, s') \<Longrightarrow> \<exists>x. v = f x"
  by (cases "fst (m s)") (auto simp: replies_def map_prod_def split_beta)


lemma on_account_Inr: "on_account m s = Some (Inr v, s') \<Longrightarrow> \<exists>a. m (account s) = Some (Inr v, a)"
  by (auto simp: on_account_def split: option.splits)

lemma map_sum_Inr: "map_sum id f x = Inr v \<Longrightarrow> \<exists>y. v = f y"
  by (cases x) auto

lemma no_password_keys [simp]: "''password'' \<notin> set UserResponseDto" "''password'' \<notin> set AuthResponseDto"
  "''password'' \<notin> set RolesResponseDto"
  by (simp_all add: UserResponseDto_def AuthResponseDto_def RolesResponseDto_def)

lemma password_free_simps [simp]: "password_free (message_body t)" "password_free (JStr t)"
  "password_free (JObj [(''resetToken'', JStr t)])"
  by (simp_all add: password_free_def message_body_def)

lemmas auth_controllers = AuthController_signup_def AuthController_login_def AuthController_logout_def
  AuthController_changePassword_def AuthController_forgetPassword_def AuthController_resetPassword_def

lemmas users_controllers = UsersController_create_def UsersController_findAll_def UsersController_findById_def
  UsersController_getUserProfile_def UsersController_updateUser_def UsersController_updateUserProfile_def
  UsersController_remove_def UsersController_assignRoles_def UsersController_getUserRoles_def
  UsersController_addRoles_def UsersController_removeRoles_def with_roles_def

lemma account_reply_free:
  assumes X: "expose_ok (expose V)" and r: "r \<in> set auth_routes \<union> set users_routes"
    and run: "run_handler V (re_handler r) params b req s = Some (Inr v, s')"
  shows "password_free v"
proof -
  note free = password_free_exposed[OF X]
  from r have "re_handler r \<in> {Auth_signup, Auth_login, Auth_logout, Auth_changePassword, Auth_forgetPassword,
      Auth_resetPassword, Users_create, Users_findAll, Users_findById, Users_getUserProfile, Users_updateUserProfile,
      Users_updateUser, Users_remove, Users_assignRoles, Users_getUserRoles, Users_addRoles, Users_removeRoles}"
    by (auto simp: auth_routes_def auth_route_def users_routes_def entry_def)
  with run show ?thesis
    by (cases "nullish b")
      (auto simp: run_handler_def auth_controllers users_controllers Serialize_def roles_response_def free
        dest!: on_account_Inr replies_Inr map_sum_Inr split: option.splits sum.splits)
qed

lemma failure_free: "password_free (JObj (failure_members V q ex now))"
proof -
  have "''password'' \<notin> set (map fst (failure_members V q ex now))"
    by (rule notI) (drule subsetD[OF failure_keys], simp)
  then show ?thesis by (simp add: password_free_def)
qed

text \<open>
  C8. No response of the authentication and account routes, whatever its status, has a property
  called password, at the top or in an element of a list.
\<close>

theorem no_password_in_response:
  assumes X: "expose_ok (expose V)"
    and route: "resolve all_routes (aq_method q) (aq_path q) = Some (r, params)"
    and r: "r \<in> set auth_routes \<union> set users_routes"
    and run: "serve V q s = Some (resp, s')"
  shows "password_free (hr_body resp)"
proof -
  have failed: "password_free (hr_body resp)" if "fail_request V q ex t = Some (resp, s')" for ex t
    using that by (auto simp: fail_request_run failure_free)
  from run route have "serve_route V q r params (fresh s) = Some (resp, s')" by (simp add: serve_fresh)
  then consider ex t where "fail_request V q ex t = Some (resp, s')"
    | b req t v where "run_handler V (re_handler r) params b req t = Some (Inr v, s')" "hr_body resp = v"
    by (auto simp: serve_route_def split: prod.splits sum.splits option.splits)
  then show ?thesis using account_reply_free[OF X r] failed by cases blast+
qed

lemma serve_total:
  assumes "\<And>b req t. run_handler V (re_handler r) params b req t \<noteq> None"
  shows "\<exists>resp s'. serve_route V q r params s = Some (resp, s')"
proof (cases "guard_request (account_env V) (re_guard r) (aq_http q) (account s)")
  case (Pair g a)
  show ?thesis
  proof (cases g)
    case (Inl e)
    with Pair show ?thesis by (simp add: serve_route_def fail_request_run)
  next
    case req: (Inr req)
    show ?thesis
    proof (cases "check_input V (re_input r) q (s\<lparr>account := a\<rparr>)")
      case c: (Pair c t)
      show ?thesis
      proof (cases c)
        case (Inl ex)
        with Pair req c show ?thesis by (simp add: serve_route_def fail_request_run)
      next
        case (Inr b)
        obtain x t' where "run_handler V (re_handler r) params b req t = Some (x, t')" using assms by fastforce
        with Pair req c Inr show ?thesis by (cases x) (simp_all add: serve_route_def fail_request_run)
      qed
    qed
  qed
qed

theorem no_password_in_response_witness:
  "\<exists>(s :: server) sid resp s'. serve demo_server_env (demo_call GET [''users'', ''all''] JNull sid) s = Some (resp, s') \<and>
     password_free (hr_body resp)"
proof (rule demo_bob_session)
  fix a :: "unit auth_state_scheme" and sid
  assume a: "auth_good demo_auth_env a" "sid \<noteq> []" "session_roles (kv a) sid = Some [JStr ''admin'', JStr ''test'']"
  let ?q = "demo_call GET [''users'', ''all''] JNull sid" and ?s = "demo_server a"
  let ?r = "entry GET [Lit ''users'', Lit ''all''] (Restricted [ADMIN, SUPER_ADMIN]) NoInput Users_findAll"
  have route: "resolve all_routes (aq_method ?q) (aq_path ?q) = Some (?r, [])" by (simp add: route_defs)
  have "run_handler demo_server_env (re_handler ?r) [] b req t \<noteq> None" for b req t
    by (simp add: entry_def run_handler_def on_account_def UsersController_findAll_def replies_def split_beta)
  from serve_total[OF this] have "\<exists>resp s'. serve_route demo_server_env ?q ?r [] (fresh ?s) = Some (resp, s')" .
  then obtain resp s' where "serve demo_server_env ?q ?s = Some (resp, s')" using route by (auto simp: serve_fresh)
  with no_password_in_response[of demo_server_env ?q ?r "[]" ?s] route
  show ?thesis by (auto simp: users_routes_def entry_def)
qed

end
