(* ===== verification/ServerSessions.thy ===== *)
theory ServerSessions
  imports ServerProperties
begin

text \<open>
  What a client can do over several requests: log in and use what the account allows, and change its
  own account.
\<close>

section \<open>A permitted request\<close>

lemma session_good_tick [simp]: "session_good E (account (tick s)) = session_good E (account s)"
  by (simp add: session_good_def session_inv_def)

lemma attached_user:
  assumes "attached m sid req" "session_user m sid = Some uid"
  shows "req_userId req = JStr uid"
proof -
  have "js_get (rq_user req) ''userId'' = JStr uid"
    using assms by (auto simp: attached_def session_user_def split: jsval.splits)
  then show ?thesis by (cases "rq_user req") (auto simp: req_userId_def)
qed

lemma entry_simps [simp]:
  "re_method (entry m p g i h) = m" "re_path (entry m p g i h) = p" "re_guard (entry m p g i h) = g"
  "re_input (entry m p g i h) = i" "re_status (entry m p g i h) = default_status m" "re_handler (entry m p g i h) = h"
  "default_status PATCH = 200" "default_status GET = 200" "default_status POST = 201" "default_status PUT = 200"
  by (simp_all add: entry_def default_status_def)

text \<open>
  The handler of a permitted request runs on a state that differs from the one before in the clock and
  the extended session.
\<close>

lemma serve_permitted:
  assumes good: "auth_good (account_env V) (account s)" and pipe: "pipe_ok V"
    and route: "resolve all_routes (aq_method q) (aq_path q) = Some (r, params)"
    and sid: "cookie_sid (account_env V) (aq_http q) = sid"
    and yes: "permitted (re_guard r) (kv (account s)) sid"
    and input: "case input_rules (checks V) (re_input r) of None \<Rightarrow> True
      | Some rules \<Rightarrow> (\<forall>now. pipe_accepts now rules (input_value q (re_input r)))"
  obtains req t where "auth_good (account_env V) (account t)" "users (account t) = users (account s)"
    "res_cookies (account t) = []" "uuid_count (account t) = uuid_count (account s)"
    "panel t = panel s"
    "if re_guard r = Public then req = aq_http q else attached (kv (account s)) sid req"
    "\<And>g. permitted g (kv (account s)) sid \<Longrightarrow> permitted g (kv (account t)) sid"
    "serve V q s =
        (case run_handler V (re_handler r) params
            (if input_rules (checks V) (re_input r) = None then JUndefined else input_value q (re_input r))
            req t of
           None \<Rightarrow> None
         | Some (Inl e, s2) \<Rightarrow> fail_request V q (exception_of (lib_exception V) e) s2
         | Some (Inr v, s2) \<Rightarrow> Some (\<lparr>hr_status = re_status r, hr_body = v\<rparr>, s2))"
proof -
  obtain n where cfg: "config (account_env V) ''SESSION_COOKIE_NAME'' = Some n" using auth_goodD(4)[OF good] by blast
  have good': "session_good (account_env V) (account (fresh s))" using auth_goodD(2)[OF good] by simp
  show thesis
  proof (cases rule: serve_gate[OF good' cfg sid, of r params])
    case (1 req a)
    let ?t = "(fresh s)\<lparr>account := a\<rparr>"
    note keeps = guard_effect_keeps[OF 1(3)]
    have fresh_count: "uuid_count (account (fresh s)) = uuid_count (account s)" by (simp add: fresh_def)
    have t: "auth_good (account_env V) (account t)" "users (account t) = users (account s)" "res_cookies (account t) = []"
        "uuid_count (account t) = uuid_count (account s)" "panel t = panel s"
      if "t = ?t \<or> t = tick ?t" for t
      using that keeps fresh_count 1(2) auth_good_cong[OF good, of "account t"] by auto
    have mono: "permitted g (kv (account ?t)) sid" "permitted g (kv (account (tick ?t))) sid"
      if "permitted g (kv (account s)) sid" for g
      using that 1(3) by (simp_all add: guard_effect_def)
    show thesis
    proof (cases "input_rules (checks V) (re_input r)")
      case None
      with 1(4,5) route t[of ?t] mono show thesis
        by (intro that[of ?t req]) (auto simp: serve_fresh check_input_run[OF pipe] split: if_splits)
    next
      case (Some rules)
      with 1(4,5) route t[of "tick ?t"] input mono show thesis
        by (intro that[of "tick ?t" req]) (auto simp: serve_fresh check_input_run[OF pipe] split: if_splits)
    qed
  qed (use yes in simp)
qed

section \<open>Properties\<close>

definition roles_body :: "role list \<Rightarrow> jsval" where
  "roles_body rs = JObj [(''roles'', JArr (map (\<lambda>r. JStr (role_value r)) rs))]"

lemma roles_body_accepted: "pipe_accepts now (UpdateUserDto T) (roles_body rs)"
  by (simp add: pipe_accepts_def dto_valid_def UpdateUserDto_def roles_body_def empty_if_nil_def)

lemma roles_body_given [simp]: "\<not> nullish (roles_body rs)"
  by (simp add: roles_body_def)

lemma roles_body_update:
  "update_body (roles_body rs) = Some \<lparr>uu_username = None, uu_email = None, uu_password = None, uu_firstName = None,
     uu_lastName = None, uu_photoUrl = None, uu_roles = Some rs\<rparr>"
  by (simp add: update_body_def roles_body_def opt_text_def opt_roles_of_def roles_of_def)

text \<open>
  C25. A user with a session of any role can give the own account any roles, those of a super
  administrator too: \<open>PATCH /users/profile/update\<close> takes the roles of the body as they are.
\<close>

theorem profile_update_sets_roles:
  assumes good: "auth_good (account_env V) (account s)" and pipe: "pipe_ok V"
    and sid: "cookie_sid (account_env V) (aq_http q) = sid" "sid \<noteq> []"
    and session: "session_user (kv (account s)) sid = Some uid" "session_roles (kv (account s)) sid = Some rs"
      "JStr (role_value r0) \<in> set rs"
    and u: "active_user (users (account s)) uid = Some u"
    and q: "aq_method q = PATCH" "aq_path q = [''users'', ''profile'', ''update'']" "aq_body q = roles_body new"
  shows "\<exists>resp s'. serve V q s = Some (resp, s') \<and> hr_status resp = 200 \<and>
    active_user (users (account s')) uid = Some (u\<lparr>u_roles := new\<rparr>)"
proof -
  let ?r = "entry PATCH [Lit ''users'', Lit ''profile'', Lit ''update'']
       (Restricted [ADMIN, SUPER_ADMIN, ENGINEER, TEST, VIEWER]) (Body UpdateUserDto) Users_updateUserProfile"
  have route: "resolve all_routes (aq_method q) (aq_path q) = Some (?r, [])" by (simp add: q route_defs)
  have "r0 \<in> set [ADMIN, SUPER_ADMIN, ENGINEER, TEST, VIEWER]" by (cases r0) simp_all
  then have yes: "permitted (re_guard ?r) (kv (account s)) sid"
    using sid session(2,3) by (auto simp: permitted_def)
  have input: "case input_rules (checks V) (re_input ?r) of None \<Rightarrow> True
      | Some rules \<Rightarrow> (\<forall>now. pipe_accepts now rules (input_value q (re_input ?r)))"
    by (simp add: input_rules_def input_value_def q(3) roles_body_accepted)
  let ?d = "\<lparr>uu_username = None, uu_email = None, uu_password = None, uu_firstName = None,
     uu_lastName = None, uu_photoUrl = None, uu_roles = Some new\<rparr>"
  let ?f = "apply_user_update ?d"
  have f: "?f v = v\<lparr>u_roles := new\<rparr>" for v by (simp add: apply_user_update_def)
  show ?thesis
  proof (cases rule: serve_permitted[OF good pipe route sid(1) yes input])
    case (1 req t)
    have req: "attached (kv (account s)) sid req" using 1(6) by simp
    have ug: "users_good (account_env V) (account t)" using 1(1) by blast
    have u': "active_user (users (account t)) uid = Some u" using u 1(2) by simp
    have uniq: "users_uniq (upd_user uid ?f (users (account t)))"
      using users_goodD(4,5)[OF ug] by (intro upd_user_uniq) (simp_all add: f users_uniq_def)
    have body: "(if input_rules (checks V) (re_input ?r) = None then JUndefined
        else input_value q (re_input ?r)) = roles_body new"
      by (simp add: input_rules_def input_value_def q(3))
    have "hashed_update (account_env V) (starts (account t)) ?d = ?d" by simp
    note run = updateUser_run[OF ug u', of ?d, unfolded this, OF uniq]
    have "run_handler V (re_handler ?r) [] (roles_body new) req t =
        Some (Inr (Serialize (expose V) UserResponseDto (user_json (?f u))),
          t\<lparr>account := (account t)\<lparr>users := upd_user uid ?f (users (account t))\<rparr>,
            panel := share ((account t)\<lparr>users := upd_user uid ?f (users (account t))\<rparr>) (panel t)\<rparr>)"
      using run attached_user[OF req session(1)]
      by (simp add: run_handler_def UsersController_updateUserProfile_def UsersController_updateUser_def
          roles_body_update replies_def on_account_def text_of_def)
    moreover have "active_user (upd_user uid ?f (users (account t))) uid = Some (?f u)"
      by (rule active_upd_user[OF ug u']) (simp_all add: f)
    ultimately show ?thesis using 1(8) unfolding body by (simp add: f)
  qed
qed


theorem profile_update_sets_roles_witness:
  "\<exists>(s :: server) sid resp s'. serve demo_server_env
      (demo_call PATCH [''users'', ''profile'', ''update''] (roles_body [SUPER_ADMIN]) sid) s = Some (resp, s') \<and>
    active_user (users (account s)) ''x'' = Some (demo_user ''x'' ''bob@x.org'' [ADMIN, TEST]) \<and>
    active_user (users (account s')) ''x'' = Some (demo_user ''x'' ''bob@x.org'' [SUPER_ADMIN])"
proof (rule demo_bob_session)
  fix a :: "unit auth_state_scheme" and sid
  assume a: "auth_good demo_auth_env a" "users a = users demo_auth_state" "sid \<noteq> []" "session_user (kv a) sid = Some ''x''"
    "session_roles (kv a) sid = Some [JStr ''admin'', JStr ''test'']"
  let ?q = "demo_call PATCH [''users'', ''profile'', ''update''] (roles_body [SUPER_ADMIN]) sid"
  have bob: "active_user (users a) ''x'' = Some (demo_user ''x'' ''bob@x.org'' [ADMIN, TEST])" using a(2) by simp
  have "\<exists>resp s'. serve demo_server_env ?q (demo_server a) = Some (resp, s') \<and>
      active_user (users (account s')) ''x'' = Some (demo_user ''x'' ''bob@x.org'' [SUPER_ADMIN])"
    using profile_update_sets_roles[of demo_server_env "demo_server a" ?q sid "''x''" "[JStr ''admin'', JStr ''test'']" ADMIN
        _ "[SUPER_ADMIN]"] a bob
    by (auto simp: demo_user_def)
  with bob show ?thesis by (intro exI[of _ "demo_server a"] exI[of _ sid]) auto
qed

definition login_body :: "string \<Rightarrow> string \<Rightarrow> jsval" where
  "login_body e p = JObj [(''email'', JStr e), (''password'', JStr p)]"

lemma login_body_accepted:
  "is_email T e \<Longrightarrow> e \<noteq> [] \<Longrightarrow> p \<noteq> [] \<Longrightarrow> pipe_accepts now (LoginDto T) (login_body e p)"
  by (simp add: pipe_accepts_def dto_valid_def LoginDto_def login_body_def empty_if_nil_def IsEmail_def RequiredString_def)

lemma permitted_roles:
  assumes "session_roles m sid = Some (map (\<lambda>r. JStr (role_value r)) rs)" "sid \<noteq> []"
  shows "permitted Authenticated m sid" "set roles \<inter> set rs \<noteq> {} \<Longrightarrow> permitted (Restricted roles) m sid"
  using assms by (auto simp: permitted_def)

text \<open>A login over HTTP runs \<open>login\<close> on the state of the accounts.\<close>

definition login_answer :: "server_env \<Rightarrow> api_request \<Rightarrow> (exn + user) \<times> server \<Rightarrow> (http_response \<times> server) option" where
  "login_answer V q rs = (case rs of
     (Inl e, s) \<Rightarrow> fail_request V q (exception_of (lib_exception V) e) s
   | (Inr u, s) \<Rightarrow> Some (\<lparr>hr_status = 201, hr_body = Serialize (expose V) AuthResponseDto (user_json u)\<rparr>, s))"

lemma login_request:
  assumes good: "auth_good (account_env V) (account s)" and pipe: "pipe_ok V"
    and texts: "is_email (checks V) e" "e \<noteq> []" "p \<noteq> []"
    and q: "aq_method q = POST" "aq_path q = [''auth'', ''login'']" "aq_body q = login_body e p"
  obtains req t where "auth_good (account_env V) (account t)" "users (account t) = users (account s)"
    "res_cookies (account t) = []" "uuid_count (account t) = uuid_count (account s)"
    "serve V q s = (case login (account_env V) \<lparr>li_email = e, li_password = p\<rparr> req (account t) of
        (r, a) \<Rightarrow> login_answer V q (r, t\<lparr>account := a, panel := share a (panel t)\<rparr>))"
proof -
  let ?r = "auth_route ''login'' Public (Body LoginDto) Auth_login"
  have r: "re_guard ?r = Public" "re_input ?r = Body LoginDto" "re_handler ?r = Auth_login" "re_status ?r = 201"
    by (simp_all add: auth_route_def)
  have route: "resolve all_routes (aq_method q) (aq_path q) = Some (?r, [])" by (simp add: q route_defs)
  have input: "case input_rules (checks V) (re_input ?r) of None \<Rightarrow> True
      | Some rules \<Rightarrow> (\<forall>now. pipe_accepts now rules (input_value q (re_input ?r)))"
    using login_body_accepted[OF texts] by (simp add: r input_rules_def input_value_def q(3))
  have open_to: "permitted (re_guard ?r) (kv (account s)) sid" for sid by (simp add: r permitted_def)
  show thesis
  proof (cases rule: serve_permitted[OF good pipe route HOL.refl open_to input])
    case (1 req t)
    have "input_rules (checks V) (re_input ?r) \<noteq> None" "input_value q (re_input ?r) = login_body e p"
      by (simp_all add: r input_rules_def input_value_def q(3))
    with 1(8) have "serve V q s = (case login (account_env V) \<lparr>li_email = e, li_password = p\<rparr> req (account t) of
        (r, a) \<Rightarrow> login_answer V q (r, t\<lparr>account := a, panel := share a (panel t)\<rparr>))"
      by (auto simp: r run_handler_def AuthController_login_def login_body_def text_of_def on_account_def
          replies_def login_answer_def split: prod.split sum.split)
    with that 1 show thesis by blast
  qed
qed

lemma login_request_accepted:
  assumes good: "auth_good (account_env V) (account s)" and pipe: "pipe_ok V"
    and uuid: "uuid_src (account_env V) (uuid_count (account s)) \<noteq> []"
    and u: "active_email (users (account s)) e = Some u" "u_password u = hashed (account_env V) n p"
      "hashed (account_env V) n p' = hashed (account_env V) n p"
    and texts: "is_email (checks V) e" "e \<noteq> []" "p' \<noteq> []"
    and q: "aq_method q = POST" "aq_path q = [''auth'', ''login'']" "aq_body q = login_body e p'"
  obtains resp s' sid where "serve V q s = Some (resp, s')" "hr_status resp = 201"
    "hr_body resp = expose V AuthResponseDto (user_json u)" "sid \<noteq> []"
    "res_cookies (account s') = [session_cookie (account_env V) sid]"
    "session_user (kv (account s')) sid = Some (u_userId u)"
    "session_roles (kv (account s')) sid = Some (map (\<lambda>r. JStr (role_value r)) (u_roles u))"
    "sid = uuid_src (account_env V) (uuid_count (account s))"
proof -
  from login_request[OF good pipe texts q] obtain req t where t: "auth_good (account_env V) (account t)"
    "users (account t) = users (account s)" "res_cookies (account t) = []"
    "uuid_count (account t) = uuid_count (account s)"
    "serve V q s = (case login (account_env V) \<lparr>li_email = e, li_password = p'\<rparr> req (account t) of
        (r, a) \<Rightarrow> login_answer V q (r, t\<lparr>account := a, panel := share a (panel t)\<rparr>))" .
  let ?d = "\<lparr>li_email = e, li_password = p'\<rparr>"
  have act: "active_email (users (account t)) (li_email ?d) = Some u" using u(1) t(2) by simp
  then have "u \<in> set (users (account t))" using active_email_Some[OF auth_goodD(1)[OF t(1)]] by simp
  from auth_createSession_run[OF t(1) auth_user_plain[OF t(1) this], of req] obtain sid a where a:
    "auth_createSession (account_env V) u req (account t) = (Inr (), a)"
    "session_at (kv a) = (session_at (kv (account t)))(sid := session_fresh (account_env V) (session_dto u req) (account t))"
    "res_cookies a = res_cookies (account t) @ [session_cookie (account_env V) sid]"
    "sid = uuid_src (account_env V) (uuid_count (account t))" by blast
  from a(2) have "session_at (kv a) sid = session_fresh (account_env V) (session_dto u req) (account t)" by simp
  note sess = session_fresh_at[OF this]
  have run: "serve V q s = Some (\<lparr>hr_status = 201, hr_body = expose V AuthResponseDto (user_json u)\<rparr>,
      t\<lparr>account := a, panel := share a (panel t)\<rparr>)"
    using login_run[OF t(1) act u(2), of req] u(3) a(1) by (simp add: t(5) login_answer_def Serialize_def Let_def)
  show thesis by (rule that[OF run, of sid]) (use sess a(3,4) t(3,4) uuid in simp_all)
qed

text \<open>
  C5. Logging in with the password of an account answers 201 with the account, sets one cookie, and
  its session opens every route that asks for one of the roles of the account; a wrong password gets a
  401 and no cookie.
\<close>

theorem login_opens_routes:
  assumes good: "auth_good (account_env V) (account s)" and pipe: "pipe_ok V"
    and uuid: "uuid_src (account_env V) (uuid_count (account s)) \<noteq> []"
    and u: "active_email (users (account s)) e = Some u" "u_password u = hashed (account_env V) n p"
    and texts: "is_email (checks V) e" "e \<noteq> []" "p' \<noteq> []"
    and q: "aq_method q = POST" "aq_path q = [''auth'', ''login'']" "aq_body q = login_body e p'"
  shows "\<exists>resp s'. serve V q s = Some (resp, s') \<and>
    (if hashed (account_env V) n p' = hashed (account_env V) n p
     then hr_status resp = 201 \<and> hr_body resp = expose V AuthResponseDto (user_json u) \<and>
       (\<exists>sid. res_cookies (account s') = [session_cookie (account_env V) sid] \<and>
         session_user (kv (account s')) sid = Some (u_userId u) \<and>
         (\<forall>roles. set roles \<inter> set (u_roles u) \<noteq> {} \<longrightarrow> permitted (Restricted roles) (kv (account s')) sid))
     else hr_status resp = 401 \<and> res_cookies (account s') = [])"
proof (cases "hashed (account_env V) n p' = hashed (account_env V) n p")
  case True
  from login_request_accepted[OF good pipe uuid u True texts q] obtain resp s' sid where
    "serve V q s = Some (resp, s')" "hr_status resp = 201" "hr_body resp = expose V AuthResponseDto (user_json u)"
    and sid: "sid \<noteq> []" "res_cookies (account s') = [session_cookie (account_env V) sid]"
      "session_user (kv (account s')) sid = Some (u_userId u)"
      "session_roles (kv (account s')) sid = Some (map (\<lambda>r. JStr (role_value r)) (u_roles u))" .
  moreover have "permitted (Restricted roles) (kv (account s')) sid" if "set roles \<inter> set (u_roles u) \<noteq> {}" for roles
    using permitted_roles(2)[OF sid(4,1) that] .
  ultimately show ?thesis using True by auto
next
  case False
  from login_request[OF good pipe texts q] obtain req t where t: "auth_good (account_env V) (account t)"
    "users (account t) = users (account s)" "res_cookies (account t) = []"
    "uuid_count (account t) = uuid_count (account s)"
    "serve V q s = (case login (account_env V) \<lparr>li_email = e, li_password = p'\<rparr> req (account t) of
        (r, a) \<Rightarrow> login_answer V q (r, t\<lparr>account := a, panel := share a (panel t)\<rparr>))" .
  have "active_email (users (account t)) (li_email \<lparr>li_email = e, li_password = p'\<rparr>) = Some u" using u(1) t(2) by simp
  from login_run[OF t(1) this u(2), of req] False t(3) show ?thesis
    by (simp add: t(5) login_answer_def fail_request_run classify_def)
qed


theorem login_opens_routes_witness:
  "\<exists>resp s' sid. serve demo_server_env (demo_call POST [''auth'', ''login''] (login_body ''bob@x.org'' ''secret'') [])
      (demo_server demo_auth_state) = Some (resp, s') \<and> hr_status resp = 201 \<and>
    permitted (Restricted [ADMIN, SUPER_ADMIN]) (kv (account s')) sid"
proof -
  let ?bob = "demo_user ''x'' ''bob@x.org'' [ADMIN, TEST]"
  have bob: "u_userId ?bob = ''x''" "u_password ?bob = ''$2b$secret''" "u_roles ?bob = [ADMIN, TEST]"
    by (simp_all add: demo_user_def)
  from login_opens_routes[of demo_server_env "demo_server demo_auth_state" "''bob@x.org''" ?bob 0 "''secret''" "''secret''"
      "demo_call POST [''auth'', ''login''] (login_body ''bob@x.org'' ''secret'') []"] demo_bob bob(2)
  obtain resp s' sid where s': "serve demo_server_env (demo_call POST [''auth'', ''login'']
        (login_body ''bob@x.org'' ''secret'') []) (demo_server demo_auth_state) = Some (resp, s')" "hr_status resp = 201"
    and open_to: "\<forall>roles. set roles \<inter> set (u_roles ?bob) \<noteq> {} \<longrightarrow> permitted (Restricted roles) (kv (account s')) sid"
    by auto
  have "permitted (Restricted [ADMIN, SUPER_ADMIN]) (kv (account s')) sid"
    by (rule open_to[rule_format]) (simp add: bob)
  with s' show ?thesis by blast
qed

end
