(* ===== verification/ServerDevices.thy ===== *)
theory ServerDevices
  imports ServerSessions
begin

text \<open>
  Requests to the controllers of devices and of the broker, through the whole server.
\<close>

lemma share_frame [simp]:
  "topics (share a p) = topics p" "messageRouter (share a p) = messageRouter p" "mqtt (share a p) = mqtt p"
  "clients (share a p) = clients p" "isConnectedState (share a p) = isConnectedState p" "emitted (share a p) = emitted p"
  "users (share a u) = users u" "res_cookies (share a c) = res_cookies c"
  "kv (share a b) = kv a"
  by (simp_all add: share_def)

lemma share_good [simp]:
  "sensors (share a q) = sensors q" "mqtt_good E (share a p) = mqtt_good E p"
  "device_good D (share a q) = device_good D q" "live i (share a p) = live i p" "sent_of i (share a p) = sent_of i p"
  "discovery_ready t (share a p) = discovery_ready t p"
proof -
  show *: "mqtt_good E (share a p) = mqtt_good E p" for E and p :: "'z mqtt_state_scheme" by (rule mqtt_good_cong) simp_all
  show "sensors (share a q) = sensors q" by (simp add: share_def)
  then show "device_good D (share a q) = device_good D q" by (simp add: device_good_def *)
qed (simp_all add: live_def sent_of_def discovery_ready_def)

lemma attached_current:
  assumes "attached m sid req" "session_user m sid = Some uid"
  shows "CurrentUser_userId req = JStr uid"
proof -
  have "js_get (rq_user req) ''userId'' = JStr uid"
    using assms by (auto simp: attached_def session_user_def split: jsval.splits)
  then show ?thesis by (cases "rq_user req") (auto simp: CurrentUser_userId_def)
qed

section \<open>A search for devices\<close>

text \<open>The request runs the service on the devices, with the user of the session.\<close>

lemma discovery_request:
  assumes good: "auth_good (account_env V) (account s)" and pipe: "pipe_ok V"
    and sid: "cookie_sid (account_env V) (aq_http q) = sid" "sid \<noteq> []"
    and session: "session_user (kv (account s)) sid = Some uid" "session_roles (kv (account s)) sid = Some rs"
      "JStr (role_value r0) \<in> set rs" "r0 \<in> {ENGINEER, ADMIN, SUPER_ADMIN}"
    and panel: "device_good (panel_env V) (panel s)" "live i (panel s)" "discovery_ready t (panel s)"
    and q: "aq_method q = POST" "aq_path q = [''devices'', ''discover-broadcast'']"
  obtains w p where "auth_good (account_env V) (account w)" "users (account w) = users (account s)"
    "uuid_count (account w) = uuid_count (account s)" "permitted (Restricted [ENGINEER, ADMIN, SUPER_ADMIN]) (kv (account w)) sid"
    "discoverDevicesBroadcast (panel_env V) (JStr uid) (share (account w) (panel s)) = (Inr (), p)"
    "serve V q s = Some (\<lparr>hr_status = 201, hr_body = JUndefined\<rparr>, w\<lparr>account := share p (account w), panel := p\<rparr>)"
proof -
  let ?r = "entry POST [Lit ''devices'', Lit ''discover-broadcast''] (Restricted [ENGINEER, ADMIN, SUPER_ADMIN]) NoInput
       Devices_discoverDevicesBroadcast"
  have route: "resolve all_routes (aq_method q) (aq_path q) = Some (?r, [])" by (simp add: q route_defs)
  have yes: "permitted (Restricted [ENGINEER, ADMIN, SUPER_ADMIN]) (kv (account s)) sid"
    using sid session(2-4) by (auto simp: permitted_def)
  have none: "input_rules (checks V) (re_input ?r) = None" by (simp add: input_rules_def)
  show thesis
  proof (cases rule: serve_permitted[OF good pipe route sid(1), unfolded none])
    case 1
    show ?case using yes by simp
  next
    case 2
    show ?case by simp
  next
    case (3 req w)
    have req: "attached (kv (account s)) sid req" using 3(6) by simp
    let ?p = "share (account w) (panel s)"
    have p: "device_good (panel_env V) ?p" "live i ?p" "discovery_ready t ?p" using panel by simp_all
    from discover_run[OF p, of "JStr uid"] obtain p' where
      p': "discoverDevicesBroadcast (panel_env V) (JStr uid) ?p = (Inr (), p')" by blast
    have "run_handler V (re_handler ?r) [] JUndefined req w =
        Some (Inr JUndefined, w\<lparr>account := share p' (account w), panel := p'\<rparr>)"
      using p' 3(5) attached_current[OF req session(1)]
      by (simp add: run_handler_def DeviceController_discoverDevicesBroadcast_def replies_def on_panel_def no_body_def)
    with 3(8) have "serve V q s = Some (\<lparr>hr_status = 201, hr_body = JUndefined\<rparr>,
        w\<lparr>account := share p' (account w), panel := p'\<rparr>)" by simp
    with that[OF 3(1,2,4) 3(7)[OF yes] p'] show thesis by blast
  qed
qed

section \<open>Properties\<close>

text \<open>
  \<open>POST /devices/discover-broadcast\<close> from a session with one of the three roles publishes one
  discovery message, which carries the user of the session, keeps the request as pending and answers
  201; no device and no account changes.
\<close>

lemma discovery_over_http:
  assumes good: "auth_good (account_env V) (account s)" and pipe: "pipe_ok V"
    and sid: "cookie_sid (account_env V) (aq_http q) = sid" "sid \<noteq> []"
    and session: "session_user (kv (account s)) sid = Some uid" "session_roles (kv (account s)) sid = Some rs"
      "JStr (role_value r0) \<in> set rs" "r0 \<in> {ENGINEER, ADMIN, SUPER_ADMIN}"
    and panel: "device_good (panel_env V) (panel s)" "live i (panel s)" "discovery_ready t (panel s)"
    and q: "aq_method q = POST" "aq_path q = [''devices'', ''discover-broadcast'']"
  shows "\<exists>s' r now. serve V q s = Some (\<lparr>hr_status = 201, hr_body = JUndefined\<rparr>, s') \<and>
    sent_of i (panel s') = sent_of i (panel s) @
      [(discovery_name t, stringify (discovery_payload (JStr uid) r now))] \<and>
    pending_key (JStr r) \<in> dom (kv (account s')) \<and>
    sensors (panel s') = sensors (panel s) \<and> users (account s') = users (account s)"
proof -
  from discovery_request[OF assms] obtain w p where w: "users (account w) = users (account s)"
    "discoverDevicesBroadcast (panel_env V) (JStr uid) (share (account w) (panel s)) = (Inr (), p)"
    "serve V q s = Some (\<lparr>hr_status = 201, hr_body = JUndefined\<rparr>, w\<lparr>account := share p (account w), panel := p\<rparr>)"
    by blast
  have "device_good (panel_env V) (share (account w) (panel s))" "live i (share (account w) (panel s))"
    "discovery_ready t (share (account w) (panel s))" using panel by simp_all
  from discover_run[OF this, of "JStr uid"] w(2) have "sensors p = sensors (panel s)"
    "sent_of i p = sent_of i (panel s) @ [(discovery_name t, stringify (discovery_payload (JStr uid)
      (uuid_src (panel_env V) (uuid_count (share (account w) (panel s))))
      (clock (panel_env V) (clock_reads (share (account w) (panel s))))))]"
    "pending_key (JStr (uuid_src (panel_env V) (uuid_count (share (account w) (panel s))))) \<in> dom (kv p)" by auto
  with w(1,3) show ?thesis by (intro exI conjI) (assumption | simp)+
qed

lemma gateway_panel [simp]:
  "device_good demo_gateway_env demo_gateway" "live 0 demo_gateway"
  "discovery_ready (broadcast_topic demo_device_env) demo_gateway" "mqtt demo_gateway = Some 0"
proof -
  have same: "topics demo_gateway = topics demo_device_up" "messageRouter demo_gateway = messageRouter demo_device_up"
    "mqtt demo_gateway = mqtt demo_device_up" "clients demo_gateway = clients demo_device_up"
    "isConnectedState demo_gateway = isConnectedState demo_device_up" "sensors demo_gateway = sensors demo_device_up"
    by (simp_all add: demo_gateway_def device_state.extend_def gateway_state.fields_def)
  have up: "device_good demo_device_env demo_device_up"
    using demo_device_up(1) device_reachable_good demo_device_env_ok by blast
  have parts: "mqtt_lib demo_gateway_env = mqtt_lib demo_device_env" "config demo_gateway_env = config demo_device_env"
    "topic_repo demo_gateway_env = topic_repo demo_device_env" "uuid_src demo_gateway_env = uuid_src demo_device_env"
    "clock demo_gateway_env = clock demo_device_env" "redis demo_gateway_env = redis demo_device_env"
    "sensor_repo demo_gateway_env = sensor_repo demo_device_env" "hardware_repo demo_gateway_env = hardware_repo demo_device_env"
    "telemetry_repo demo_gateway_env = telemetry_repo demo_device_env" "cv_validate demo_gateway_env = cv_validate demo_device_env"
    "plainToInstance demo_gateway_env = plainToInstance demo_device_env" "redis_ttl demo_gateway_env = redis_ttl demo_device_env"
    by (simp_all add: demo_gateway_env_def device_env.extend_def)
  have env: "device_env_ok demo_gateway_env"
    using demo_device_env_ok
    by (simp add: device_env_ok_def mqtt_env_ok_def topic_env_ok_def transform_ok_def topic_base_def parts
        del: demo_device_env_simps demo_device_env_ok)
  have names: "service_name demo_gateway_env = service_name demo_device_env"
    by (intro ext) (simp add: service_name_def device_topic_def device_base_def topic_base_def parts
        del: demo_device_env_simps)
  have "mqtt_good demo_gateway_env demo_gateway"
    using up env same names parts(2) by (simp add: device_good_def device_env_ok_def mqtt_good_def topics_good_def
        clients_inv_def mqtt_env_ok_def topics_inv_def topic_base_def del: demo_device_env_simps)
  with up env same show "device_good demo_gateway_env demo_gateway" by (simp add: device_good_def)
  show "live 0 demo_gateway" "mqtt demo_gateway = Some 0" using demo_device_up(2) same by (simp_all add: live_def)
  show "discovery_ready (broadcast_topic demo_device_env) demo_gateway"
    using demo_device_up(7) same by (simp add: discovery_ready_def)
qed

lemma discovery_over_http_witness:
  "\<exists>(s :: server) sid s' r now. serve demo_server_env (demo_call POST [''devices'', ''discover-broadcast''] JNull sid) s =
      Some (\<lparr>hr_status = 201, hr_body = JUndefined\<rparr>, s') \<and>
    sent_of 0 (panel s') = sent_of 0 (panel s) @ [(discovery_name (broadcast_topic demo_device_env),
      stringify (discovery_payload (JStr ''x'') r now))]"
proof (rule demo_bob_session)
  fix a :: "unit auth_state_scheme" and sid
  assume a: "auth_good demo_auth_env a" "sid \<noteq> []" "session_user (kv a) sid = Some ''x''"
    "session_roles (kv a) sid = Some [JStr ''admin'', JStr ''test'']"
  let ?q = "demo_call POST [''devices'', ''discover-broadcast''] JNull sid"
  have panel: "device_good (panel_env demo_server_env) (panel (demo_server a))" "live 0 (panel (demo_server a))"
    "discovery_ready (broadcast_topic demo_device_env) (panel (demo_server a))" by simp_all
  from discovery_over_http[OF _ _ _ a(2) _ _ _ _ panel, of ?q "''x''" "[JStr ''admin'', JStr ''test'']" ADMIN] a(1,3,4)
  have "\<exists>s' r now. serve demo_server_env ?q (demo_server a) = Some (\<lparr>hr_status = 201, hr_body = JUndefined\<rparr>, s') \<and>
      sent_of 0 (panel s') = sent_of 0 (panel (demo_server a)) @ [(discovery_name (broadcast_topic demo_device_env),
        stringify (discovery_payload (JStr ''x'') r now))]" by auto
  then show ?thesis by blast
qed

section \<open>The configuration of the broker\<close>

lemma update_configuration_unauthorized:
  assumes good: "mqtt_good E s" and conn: "isConnectedState s \<Longrightarrow> mqtt s \<noteq> None"
  shows "\<exists>m s'. bnd (updateConfiguration E d) (\<lambda>_. getConfiguration E) s = (Inl (UnauthorizedException m), s')"
proof -
  have env: "mqtt_env_ok E" using good by (simp add: mqtt_good_def)
  have down: "\<exists>m s'. bnd (initConnection E None None) (\<lambda>_. getConfiguration E) t = (Inl (UnauthorizedException m), s')"
    if "\<not> isConnectedState t" for t
    using connect_run[OF env, of None t] that
    by (auto simp: bnd_run opened_def getConfiguration_def gets_run throw_run)
  have seq: "bnd (updateConfiguration E d) (\<lambda>_. getConfiguration E) s =
      bnd (if mqtt s \<noteq> None \<and> isConnectedState s then mqtt_disconnect E else ok ())
        (\<lambda>_. bnd (initConnection E None None) (\<lambda>_. getConfiguration E)) s"
    by (simp add: updateConfiguration_def bnd_def gets_run split_beta split: sum.splits)
  show ?thesis
  proof (cases "isConnectedState s")
    case False
    with down[OF False] show ?thesis unfolding seq by (simp add: bnd_run ok_run)
  next
    case True
    with conn obtain i where i: "mqtt s = Some i" by auto
    show ?thesis
    proof (cases "\<exists>t \<in> set (topics s). t_isSubscribed t")
      case sub: True
      from disconnect_run[OF good i sub] obtain t where "mqtt_disconnect E s = (Inr (), t)" "\<not> isConnectedState t" by blast
      with down[of t] True i
      show ?thesis unfolding seq by (simp add: bnd_run)
    next
      case False
      with disconnect_refused[OF good] True i show ?thesis unfolding seq by (simp add: bnd_run)
    qed
  qed
qed


text \<open>
  C27. \<open>PUT /mqtt/config\<close> never reports success: the new connection is not up yet when the handler asks
  for its configuration, so an administrator with a valid body is answered 401.
\<close>

theorem broker_update_unauthorized:
  assumes good: "auth_good (account_env V) (account s)" and pipe: "pipe_ok V"
    and sid: "cookie_sid (account_env V) (aq_http q) = sid"
    and yes: "permitted (Restricted [ADMIN, SUPER_ADMIN]) (kv (account s)) sid"
    and body: "\<And>now. pipe_accepts now MqttConfigDto (aq_body q)"
    and panel: "mqtt_good (panel_env V) (panel s)" "isConnectedState (panel s) \<Longrightarrow> mqtt (panel s) \<noteq> None"
    and q: "aq_method q = PUT" "aq_path q = [''mqtt'', ''config'']"
  shows "\<exists>resp s'. serve V q s = Some (resp, s') \<and> hr_status resp = 401 \<and> users (account s') = users (account s)"
proof -
  let ?r = "entry PUT [Lit ''mqtt'', Lit ''config''] (Restricted [ADMIN, SUPER_ADMIN]) (Body (\<lambda>_. MqttConfigDto))
       Mqtt_updateConfig"
  have route: "resolve all_routes (aq_method q) (aq_path q) = Some (?r, [])" by (simp add: q route_defs)
  have yes': "permitted (re_guard ?r) (kv (account s)) sid" using yes by simp
  have input: "case input_rules (checks V) (re_input ?r) of None \<Rightarrow> True
      | Some rules \<Rightarrow> (\<forall>now. pipe_accepts now rules (input_value q (re_input ?r)))"
    using body by (simp add: input_rules_def input_value_def)
  show ?thesis
  proof (cases rule: serve_permitted[OF good pipe route sid yes' input])
    case (1 req w)
    have p: "mqtt_good (panel_env V) (share (account w) (panel w))"
      "isConnectedState (share (account w) (panel w)) \<Longrightarrow> mqtt (share (account w) (panel w)) \<noteq> None"
      using panel 1(5) by simp_all
    have run: "\<exists>m w'. run_handler V (re_handler ?r) [] d req w = Some (Inl (UnauthorizedException m), w') \<and>
        users (account w') = users (account w)" for d
    proof -
      from p obtain m p' where "bnd (updateConfiguration (panel_env V) d) (\<lambda>_. getConfiguration (panel_env V))
          (share (account w) (panel w)) = (Inl (UnauthorizedException m), p')"
        using update_configuration_unauthorized[of "panel_env V" "share (account w) (panel w)" d] by blast
      then show ?thesis
        by (simp add: run_handler_def on_panel_def MqttController_updateConfig_def replies_def Let_def)
    qed
    let ?d = "if input_rules (checks V) (re_input ?r) = None then JUndefined else input_value q (re_input ?r)"
    from run[of ?d] obtain m w' where w': "run_handler V (re_handler ?r) [] ?d req w = Some (Inl (UnauthorizedException m), w')"
      "users (account w') = users (account w)" by blast
    then have "serve V q s = fail_request V q (exception_of (lib_exception V) (UnauthorizedException m)) w'"
      unfolding 1(8) by simp
    with w'(2) 1(2) show ?thesis by (simp add: fail_request_run classify_def)
  qed
qed

definition demo_broker_config :: jsval where
  "demo_broker_config = JObj [(''host'', JStr ''mqtt://broker''), (''port'', JNum 1883)]"

lemma demo_broker_config_accepted: "pipe_accepts now MqttConfigDto demo_broker_config"
  by (simp add: pipe_accepts_def dto_valid_def MqttConfigDto_def demo_broker_config_def empty_if_nil_def RequiredString_def
      RequiredNumber_def OptionalString_def OptionalNumber_def MinNumber_def MaxNumber_def)

theorem broker_update_unauthorized_witness:
  "\<exists>(s :: server) sid resp s'. serve demo_server_env (demo_call PUT [''mqtt'', ''config''] demo_broker_config sid) s =
     Some (resp, s') \<and> hr_status resp = 401 \<and> isConnectedState (panel s)"
proof (rule demo_bob_session)
  fix a :: "unit auth_state_scheme" and sid
  assume a: "auth_good demo_auth_env a" "sid \<noteq> []" "session_roles (kv a) sid = Some [JStr ''admin'', JStr ''test'']"
  let ?q = "demo_call PUT [''mqtt'', ''config''] demo_broker_config sid"
  have up: "mqtt_good demo_gateway_env demo_gateway" "isConnectedState demo_gateway"
    using gateway_panel(1,2) by (simp_all add: device_good_def live_def)
  have "permitted (Restricted [ADMIN, SUPER_ADMIN]) (kv a) sid" using demo_bob_permitted[OF a(3,2)] by simp
  with broker_update_unauthorized[of demo_server_env "demo_server a" ?q sid] a(1) up demo_broker_config_accepted
  show ?thesis by fastforce
qed

end
