(* ===== verification/AccountInvariant.thy ===== *)
theory AccountInvariant
  imports AuthContract AccountControllers
begin

text \<open>
  The invariant of the accounts and their sessions under everything a request can do: ids and emails
  identify accounts, sessions are tracked, and every session belongs to an account. Each handler of the
  account controllers keeps it, whatever its body is and whatever it answers.
\<close>

section \<open>The invariant\<close>

definition sessions_owned :: "'z users_state_scheme \<Rightarrow> bool" where
  "sessions_owned s \<longleftrightarrow> (\<forall>sid u. session_user (kv s) sid = Some u \<longrightarrow> u \<in> u_userId ` set (users s))"

text \<open>
  The invariant carries two parameters for statements about runs: at least \<open>N\<close> UUIDs were drawn, and no
  id of \<open>D\<close> is that of a session.
\<close>

definition accounts_good :: "'e auth_env_scheme \<Rightarrow> nat \<Rightarrow> string set \<Rightarrow> 'z auth_state_scheme \<Rightarrow> bool" where
  "accounts_good E N D s \<longleftrightarrow> auth_good E s \<and> updates_ok users_uniq (user_repo E) \<and> sessions_owned s \<and>
     N \<le> uuid_count s \<and> (\<forall>sid \<in> D. session_user (kv s) sid = None)"

text \<open>No id of \<open>D\<close> can be drawn any more.\<close>

definition used_ids :: "'e auth_env_scheme \<Rightarrow> nat \<Rightarrow> string set \<Rightarrow> bool" where
  "used_ids E N D \<longleftrightarrow> (\<forall>sid \<in> D. drawn E N sid)"

lemma used_ids_none [simp]: "used_ids E N {}"
  by (simp add: used_ids_def)

lemma accounts_goodD:
  assumes "accounts_good E N D s"
  shows "auth_good E s" "users_good E s" "session_good E s" "sessions_owned s"
    "updates_ok users_uniq (user_repo E)" "bcrypt_ok E" "redis_ok (redis E)" "N \<le> uuid_count s"
    "sid \<in> D \<Longrightarrow> session_user (kv s) sid = None"
proof -
  show *: "auth_good E s" "sessions_owned s" "updates_ok users_uniq (user_repo E)" "N \<le> uuid_count s"
    "sid \<in> D \<Longrightarrow> session_user (kv s) sid = None"
    using assms by (simp_all add: accounts_good_def)
  show "users_good E s" "session_good E s" using auth_goodD(1,2)[OF *(1)] .
  then show "bcrypt_ok E" "redis_ok (redis E)"
    using users_goodD(2) by (simp_all add: session_good_def)
qed

text \<open>A step keeps it if it keeps the two parts, no account is lost and no session is new.\<close>

lemma accounts_good_step:
  assumes "accounts_good E N D s" "auth_good E s'" "u_userId ` set (users s) \<subseteq> u_userId ` set (users s')"
    "uuid_count s \<le> uuid_count s'"
    "\<And>sid u. session_user (kv s') sid = Some u \<Longrightarrow>
       session_user (kv s) sid = Some u \<or> u \<in> u_userId ` set (users s') \<and> sid \<notin> D"
  shows "accounts_good E N D s'"
proof -
  have "session_user (kv s') sid = None" if "sid \<in> D" for sid
    using assms(5)[of sid] accounts_goodD(9)[OF assms(1) that] that by (cases "session_user (kv s') sid") auto
  with assms show ?thesis unfolding accounts_good_def sessions_owned_def by (meson order_trans subset_iff)
qed

lemma session_user_at: "session_at m sid = session_at m' b \<Longrightarrow> session_user m sid = session_user m' b"
  by (simp add: session_user_def)

lemma session_user_null [simp]: "session_at m sid = JNull \<Longrightarrow> session_user m sid = None"
  by (simp add: session_user_def)

section \<open>Sessions\<close>

lemma keeps_accounts_get [keeps_intros]: "keeps (accounts_good E N D) (getSession E sid)"
  by (rule keepsI) (simp add: good_get(1)[OF accounts_goodD(3)])

lemma keeps_accounts_clock [keeps_intros]: "keeps (accounts_good E N D) (date_now E)"
  by (rule keepsI) (simp add: date_now_run accounts_good_def auth_good_def users_inv_def session_inv_def
      sessions_owned_def)

lemma keeps_accounts_cookie [keeps_intros]: "keeps (accounts_good E N D) (res_cookie c)"
  by (rule keepsI) (simp add: res_cookie_run accounts_good_def auth_good_def users_inv_def session_inv_def
      sessions_owned_def)

lemma auth_good_uuid:
  assumes "auth_good E s"
  shows "auth_good E (snd (uuidv4 E s))"
proof -
  have "users_good E (snd (uuidv4 E s))"
    using uuid_drawn_good[OF auth_goodD(1)[OF assms]] by (simp add: uuidv4_run)
  moreover have "session_good E (snd (uuidv4 E s))"
    by (rule session_step_good[OF session_step.other_uuid auth_goodD(2)[OF assms] auth_goodD(3)[OF assms]])
  ultimately show ?thesis using assms by (simp add: auth_good_def users_good_def session_good_def)
qed

lemma keeps_accounts_uuid [keeps_intros]: "keeps (accounts_good E N D) (uuidv4 E)"
proof (rule keepsI)
  fix s :: "'z auth_state_scheme" assume g: "accounts_good E N D s"
  have "auth_good E (snd (uuidv4 E s))" by (rule auth_good_uuid[OF accounts_goodD(1)[OF g]])
  then show "accounts_good E N D (snd (uuidv4 E s))"
    by (rule accounts_good_step[OF g]) (simp_all add: uuidv4_run)
qed

lemma keeps_accounts_destroy [keeps_intros]: "keeps (accounts_good E N D) (destroySession E sid)"
proof (rule keepsI)
  fix s :: "'z auth_state_scheme" assume g: "accounts_good E N D s"
  from good_destroy[OF accounts_goodD(3)[OF g], of sid] obtain s' where s':
    "destroySession E sid s = (Inr (), s')" "session_good E s'" "session_at (kv s') = (session_at (kv s))(sid := JNull)"
    by blast
  have same: "users s' = users s" "uuid_count s' = uuid_count s"
  proof -
    note good = accounts_goodD(3)[OF g]
    have env: "session_env_ok E" using good by (simp add: session_good_def)
    show "users s' = users s" "uuid_count s' = uuid_count s"
      using s'(1)
      by (cases rule: session_good_cases[OF good, of sid];
          auto simp: destroySession_missing[OF env] destroySession_run[OF env])+
  qed
  have "session_user (kv s) b = Some u" if "session_user (kv s') b = Some u" for b u
    using that s'(3) by (cases "b = sid") (simp_all add: session_user_def)
  with auth_good_cong[OF accounts_goodD(1)[OF g] same s'(2)] same s'(1)
  show "accounts_good E N D (snd (destroySession E sid s))" by (auto intro!: accounts_good_step[OF g])
qed

lemma keeps_accounts_extend [keeps_intros]: "keeps (accounts_good E N D) (extendSession E sid)"
proof (rule keepsI)
  fix s :: "'z auth_state_scheme" assume g: "accounts_good E N D s"
  note good = accounts_goodD(3)[OF g]
  have env: "session_env_ok E" using good by (simp add: session_good_def)
  show "accounts_good E N D (snd (extendSession E sid s))"
  proof (cases rule: session_good_cases[OF good, of sid])
    case 1
    with g env show ?thesis by (simp add: extendSession_missing)
  next
    case (2 kvs u)
    from good_extend[OF good 2(2)] obtain s' kvs' r where s': "extendSession E sid s = (r, s')" "session_good E s'"
      "session_at (kv s') = (session_at (kv s))(sid := JObj kvs')"
      "\<forall>k v. map_of kvs k = Some (JStr v) \<longrightarrow> k \<noteq> ''lastActivity'' \<longrightarrow> map_of kvs' k = Some (JStr v)"
      by blast
    have same: "users s' = users s" "uuid_count s' = uuid_count s"
      using s'(1) extendSession_run[OF env 2(2,4)] by auto
    have "map_of kvs' ''userId'' = Some (JStr u)" using s'(4) 2(4) by (simp add: js_get_str_map_of del: js_get.simps)
    then have "session_user (kv s') b = session_user (kv s) b" for b
      using s'(3) 2(5) by (cases "b = sid") (simp_all add: session_user_def)
    with auth_good_cong[OF accounts_goodD(1)[OF g] same s'(2)] same s'(1)
    show ?thesis by (auto intro!: accounts_good_step[OF g])
  qed
qed

lemma keeps_SessionAuthGuard [keeps_intros]: "keeps (accounts_good E N D) (SessionAuthGuard E req)"
proof -
  have roles: "keeps (accounts_good E N D) (join_roles v)" for v :: jsval
    by (cases v) (simp_all add: join_roles_def keeps_intros)
  have handler: "keeps (accounts_good E N D) (case e of UnauthorizedException m \<Rightarrow> throw (UnauthorizedException m)
      | _ \<Rightarrow> throw (UnauthorizedException ''Authentication failed. Please login again.''))" for e
    by (cases e) (simp_all add: keeps_intros)
  show ?thesis
    unfolding SessionAuthGuard_def Let_def by (intro keeps_intros roles handler)
qed

section \<open>Accounts\<close>

lemma keeps_accounts_lookup [keeps_intros]:
  "keeps (accounts_good E N D) (findUserById E uid)" "keeps (accounts_good E N D) (findUserByEmail E e)"
  "keeps (accounts_good E N D) (find_any_by_id E uid)" "keeps (accounts_good E N D) (findAllUsers E)"
  by (rule keepsI; simp add: findUserById_run findUserByEmail_run find_any_by_id_run accounts_goodD(2)
      findAllUsers_def on_users_run repo_ok_simps(1)[OF users_goodD(1)[OF accounts_goodD(2)]])+

lemma keeps_hash [keeps_intros]:
  "keeps I (encrypt_hash E d)" "keeps I (compareHash E h p)" "keeps I (hash_field E x)"
proof -
  show f: "keeps I (hash_field E x)" for x
    unfolding hash_field_def bc_hash_salted_def by (intro keeps_intros keepsI) (simp_all split: option.split)
  show "keeps I (encrypt_hash E d)" "keeps I (compareHash E h p)"
    unfolding encrypt_hash_def compareHash_def by (intro keeps_intros f)+
qed

lemma keeps_save_user [keeps_intros]: "keeps (accounts_good E N D) (save_user E u)"
proof (rule keepsI)
  fix s :: "'z auth_state_scheme" assume g: "accounts_good E N D s"
  note good = accounts_goodD(2)[OF g]
  have inv: "session_inv E s" using accounts_goodD(3)[OF g] by (simp add: session_good_def)
  show "accounts_good E N D (snd (save_user E u s))"
  proof (cases "u_email u \<in> u_email ` set (users s)")
    case True
    then obtain msg where "save_user E u s = (Inl (LibraryError msg), s\<lparr>uuid_count := Suc (uuid_count s)\<rparr>)"
      by (rule save_user_reject[OF good])
    with keepsD[OF keeps_accounts_uuid g] show ?thesis by (simp add: uuidv4_run)
  next
    case False
    then have run: "snd (save_user E u s) = add_user E u s"
      using save_user_run[OF good] by (simp add: Let_def add_user_def)
    have same: "kv (add_user E u s) = kv s" "uuid_count (add_user E u s) = Suc (uuid_count s)"
      by (simp_all add: add_user_def)
    have "auth_good E (add_user E u s)"
      using add_user_good[OF good False] accounts_goodD(1)[OF g] inv store_inv_mono[of E "uuid_count s" "kv s"]
      by (simp add: auth_good_def users_good_def session_inv_def same)
    then have "accounts_good E N D (add_user E u s)"
      by (rule accounts_good_step[OF g]) (simp_all add: same add_user_def subset_insertI2)
    with run show ?thesis by simp
  qed
qed

text \<open>An update that an index rejects may have changed some accounts; it changes no id.\<close>

lemma keeps_update_by_id [keeps_intros]:
  fixes E :: "'e auth_env_scheme"
  assumes f: "\<And>u. u_userId (f u) = u_userId u"
  shows "keeps (accounts_good E N D :: 'z auth_state_scheme \<Rightarrow> bool) (update_by_id E uid f)"
proof (rule keepsI)
  fix s :: "'z auth_state_scheme" assume g: "accounts_good E N D s"
  let ?us = "snd (r_update (user_repo E) (\<lambda>u. u_userId u = uid) f (users s))"
  have run: "snd (update_by_id E uid f s) = s\<lparr>users := ?us\<rparr>" by (simp add: update_by_id_def on_users_run)
  have uniq: "users_uniq (users s)" using accounts_goodD(1)[OF g] by (simp add: auth_good_def users_inv_def)
  with accounts_goodD(5)[OF g] have us: "users_uniq ?us"
    "list_all2 (\<lambda>d d'. d' = d \<or> u_userId d = uid \<and> d' = f d) (users s) ?us" by (simp_all add: updates_ok_def)
  from updated_keys[OF us(2), of u_userId] f have "map u_userId ?us = map u_userId (users s)" by simp
  then have ids: "u_userId ` set ?us = u_userId ` set (users s)" by (metis set_map)
  have "drawn E (uuid_count s) (u_userId u)" if "u \<in> set ?us" for u
  proof -
    from that have "u_userId u \<in> u_userId ` set ?us" by simp
    then obtain v where v: "v \<in> set (users s)" "u_userId u = u_userId v" unfolding ids by blast
    then show ?thesis using users_goodD(6)[OF accounts_goodD(2)[OF g] v(1)] by simp
  qed
  with us(1) have "users_inv E (s\<lparr>users := ?us\<rparr>)" by (simp add: users_inv_def)
  then have "auth_good E (s\<lparr>users := ?us\<rparr>)"
    using accounts_goodD(1)[OF g] by (simp add: auth_good_def session_inv_def)
  then show "accounts_good E N D (snd (update_by_id E uid f s))"
    unfolding run by (rule accounts_good_step[OF g]) (simp_all add: ids)
qed

lemma keeps_users_service [keeps_intros]:
  fixes E :: "'e auth_env_scheme"
  shows "keeps (accounts_good E N D :: 'z auth_state_scheme \<Rightarrow> bool) (createUser E c)"
    "keeps (accounts_good E N D :: 'z auth_state_scheme \<Rightarrow> bool) (createUserManually E c)"
    "keeps (accounts_good E N D :: 'z auth_state_scheme \<Rightarrow> bool) (updateUser E uid d)"
    "keeps (accounts_good E N D :: 'z auth_state_scheme \<Rightarrow> bool) (updateUser_undefined E uid)"
    "keeps (accounts_good E N D :: 'z auth_state_scheme \<Rightarrow> bool) (deleteUser E uid)"
    "keeps (accounts_good E N D :: 'z auth_state_scheme \<Rightarrow> bool) (assignRoles E uid rs)"
    "keeps (accounts_good E N D :: 'z auth_state_scheme \<Rightarrow> bool) (addRoles E uid rs)"
    "keeps (accounts_good E N D :: 'z auth_state_scheme \<Rightarrow> bool) (removeRoles E uid rs)"
    "keeps (accounts_good E N D :: 'z auth_state_scheme \<Rightarrow> bool) (getUserRoles E uid)"
  unfolding createUser_def createUserManually_def updateUser_def updateUser_undefined_def deleteUser_def
    assignRoles_def addRoles_def
    removeRoles_def getUserRoles_def Let_def
  by (intro keeps_intros | simp add: update_keeps_email)+

section \<open>Authentication\<close>

lemma keeps_bnd_state:
  assumes "\<And>s. I s \<Longrightarrow> I (snd (m s))" "\<And>s x s'. I s \<Longrightarrow> m s = (Inr x, s') \<Longrightarrow> I (snd (f x s'))"
  shows "keeps I (bnd m f)"
proof (rule keepsI)
  fix s assume s: "I s"
  obtain r s' where m: "m s = (r, s')" by (cases "m s")
  with assms(1)[OF s] assms(2)[OF s] show "I (snd (bnd m f s))" by (cases r) auto
qed

lemma auth_createSession_good:
  assumes g: "accounts_good E N D s" and u: "u \<in> set (users s)" and ids: "used_ids E N D"
  shows "accounts_good E N D (snd (auth_createSession E u req s))"
proof -
  note good = accounts_goodD(1)[OF g]
  from auth_createSession_run[OF good auth_user_plain[OF good u], of req]
  obtain sid s' where s': "auth_createSession E u req s = (Inr (), s')" "auth_good E s'" "users s' = users s"
    "session_at (kv s') = (session_at (kv s))(sid := session_fresh E (session_dto u req) s)"
    "sid = uuid_src E (uuid_count s)" by blast
  have plain: "uuids_plain E" and env: "session_env_ok E" using accounts_goodD(3)[OF g] by (simp_all add: session_good_def)
  have "sid \<notin> D"
    using ids accounts_goodD(8)[OF g] not_drawn_next[OF plain] drawn_mono unfolding s'(5) used_ids_def by blast
  moreover have "session_user (kv s') sid = Some (u_userId u)" using s'(4) by (intro session_fresh_at(1)) simp
  ultimately have "session_user (kv s) b = Some w \<or> w \<in> u_userId ` set (users s') \<and> b \<notin> D"
    if "session_user (kv s') b = Some w" for b w
    using that s'(3,4) u by (cases "b = sid") (auto simp: session_user_def)
  moreover have "uuid_count s \<le> uuid_count s'"
    using s'(1) env by (auto simp: auth_createSession_def setSessionCookie_def createSession_run Let_def act_simps
        split: option.splits)
  ultimately show ?thesis using accounts_good_step[OF g s'(2)] s'(1,3) by simp
qed

lemma keeps_login: "used_ids E N D \<Longrightarrow> keeps (accounts_good E N D) (login E d req)"
  unfolding login_def
proof (rule keeps_bnd_state)
  fix s :: "'z auth_state_scheme" and x s'
  assume ids: "used_ids E N D" and g: "accounts_good E N D s" and "findUserByEmail E (li_email d) s = (Inr x, s')"
  then have x: "x = active_email (users s) (li_email d)" "s' = s"
    using findUserByEmail_run[OF accounts_goodD(2)[OF g], of "li_email d"] by auto
  show "accounts_good E N D (snd ((case x of None \<Rightarrow> throw (AppException INVALID_CREDENTIALS UNAUTHORIZED)
     | Some usr \<Rightarrow> bnd (compareHash E (u_password usr) (li_password d)) (\<lambda>isPasswordValid.
         if \<not> isPasswordValid then throw (AppException INVALID_CREDENTIALS UNAUTHORIZED)
         else bnd (auth_createSession E usr req) (\<lambda>_. ok usr))) s'))"
  proof (cases x)
    case (Some u)
    with x have "u \<in> set (users s)" using active_email_Some[OF accounts_goodD(2)[OF g]] by metis
    from auth_createSession_good[OF g this ids, of req] g Some x(2) show ?thesis
      by (auto simp: compareHash_def bnd_run lift_res_run throw_run ok_run split: prod.split sum.split)
  qed (use g x in \<open>simp add: throw_run\<close>)
qed (simp add: findUserByEmail_run accounts_goodD(2))

lemma createUser_returns:
  assumes g: "accounts_good E N D s" and run: "createUser E c s = (Inr u, s')"
  shows "u \<in> set (users s')"
proof -
  from run obtain v t where t: "save_user E (user_record c (cu_password c)) s = (Inr v, t)"
    "find_any_by_id E (u_userId v) t = (Inr (Some u), s')"
    by (auto simp: createUser_def bnd_run findUserByEmail_run[OF accounts_goodD(2)[OF g]] throw_run ok_run
        split: prod.splits sum.splits if_splits option.splits)
  have "accounts_good E N D t" using keepsD[OF keeps_save_user g, of "user_record c (cu_password c)"] t(1) by simp
  with t(2) show ?thesis by (auto simp: find_any_by_id_run accounts_goodD(2) dest: find_Some_in)
qed

lemma keeps_signup:
  assumes ids: "used_ids E N D"
  shows "keeps (accounts_good E N D) (signup E d req)"
proof -
  have "keeps (accounts_good E N D) (bnd (createUser E c) (\<lambda>u. bnd (auth_createSession E u req) (\<lambda>_. ok u)))" for c
  proof (rule keeps_bnd_state)
    fix s :: "'z auth_state_scheme" and u s' assume g: "accounts_good E N D s" and run: "createUser E c s = (Inr u, s')"
    have "accounts_good E N D s'" using keepsD[OF keeps_users_service(1) g, of c] run by simp
    from auth_createSession_good[OF this createUser_returns[OF g run] ids, of req]
    show "accounts_good E N D (snd (bnd (auth_createSession E u req) (\<lambda>_. ok u) s'))"
      by (auto simp: bnd_run ok_run split: prod.split sum.split)
  qed (rule keepsD[OF keeps_users_service(1)])
  then show ?thesis unfolding signup_def
    by (intro keeps_if keeps_throw keeps_bnd[OF keeps_accounts_lookup(2)] keeps_bnd[OF keeps_hash(1)] keeps_case_option)
qed

lemma keeps_auth_service [keeps_intros]:
  "keeps (accounts_good E N D) (logout E req)" "keeps (accounts_good E N D) (requestPasswordReset E e)"
  unfolding logout_def clearSessionCookie_def requestPasswordReset_def by (intro keeps_intros)+

section \<open>Replies\<close>

text \<open>A handler that may not answer keeps \<open>I\<close> if \<open>I\<close> holds after every answer.\<close>

definition reply_keeps :: "('s \<Rightarrow> bool) \<Rightarrow> ('s \<Rightarrow> ('r \<times> 's) option) \<Rightarrow> bool" where
  "reply_keeps I m \<longleftrightarrow> (\<forall>s r s'. I s \<longrightarrow> m s = Some (r, s') \<longrightarrow> I s')"

lemma reply_keepsD: "reply_keeps I m \<Longrightarrow> I s \<Longrightarrow> m s = Some (r, s') \<Longrightarrow> I s'"
  unfolding reply_keeps_def by blast

lemma reply_keeps_replies: "keeps I m \<Longrightarrow> reply_keeps I (replies m f)"
  by (auto simp: reply_keeps_def replies_def map_prod_def split_beta dest: keepsD)

lemma reply_keeps_None: "reply_keeps I (\<lambda>s. None)"
  by (simp add: reply_keeps_def)

lemma reply_keeps_map: "reply_keeps I m \<Longrightarrow> reply_keeps I (\<lambda>s. map_option (map_prod g id) (m s))"
  by (auto simp: reply_keeps_def)

lemma reply_keeps_run_after:
  assumes "keeps I m" "\<And>s x s'. I s \<Longrightarrow> m s = (Inr x, s') \<Longrightarrow> Q x" "\<And>x. Q x \<Longrightarrow> reply_keeps I (f x)"
  shows "reply_keeps I (run_after m f)"
  unfolding reply_keeps_def
proof (intro allI impI)
  fix s r t assume s: "I s" and run: "run_after m f s = Some (r, t)"
  obtain r' s' where m: "m s = (r', s')" by (cases "m s")
  with keepsD[OF assms(1) s] have "I s'" by simp
  with m run assms(2)[OF s] reply_keepsD[OF assms(3)] show "I t" by (cases r') (auto simp: run_after_def)
qed

lemma invalidate_good:
  assumes g: "accounts_good E N D s" and uid: "CHR '':'' \<notin> set uid" "glob_literal uid"
    and run: "invalidateUserSessions E uid s = Some (r, s')"
  shows "accounts_good E N D s'"
proof -
  note good = accounts_goodD(3)[OF g] and scan = auth_goodD(3)[OF accounts_goodD(1)[OF g]]
  have env: "session_env_ok E" "uuids_plain E" "session_inv E s" using good by (simp_all add: session_good_def)
  have s': "s' = s\<lparr>kv := kv s |` (- user_keys (kv s) uid)\<rparr>"
    using invalidate_run[OF session_env_okD(1)[OF env(1)] scan env(2) uid env(3)] run by simp
  have "session_user (kv s) b = Some w" if "session_user (kv s') b = Some w" for b w
  proof -
    have "session_key b \<notin> user_keys (kv s) uid"
      using session_user_dom[OF that] by (auto simp: s')
    with that show ?thesis by (simp add: s' session_user_def)
  qed
  moreover have "auth_good E s'"
    using session_step_good[OF session_step.invalidate[OF uid run] good scan]
    by (intro auth_good_cong[OF accounts_goodD(1)[OF g]]) (simp_all add: s')
  ultimately show ?thesis by (intro accounts_good_step[OF g]) (auto simp: s')
qed

lemma reply_keeps_store_password:
  assumes "CHR '':'' \<notin> set uid" "glob_literal uid"
  shows "reply_keeps (accounts_good E N D) (store_password E uid p reply)"
proof -
  have "reply_keeps (accounts_good E N D) (\<lambda>s. case invalidateUserSessions E uid s of None \<Rightarrow> None
      | Some (Inl e, s') \<Rightarrow> Some (Inl e, s') | Some (Inr _, s') \<Rightarrow> Some (Inr reply, s'))"
    unfolding reply_keeps_def
    by (auto dest: invalidate_good[OF _ assms] split: option.splits prod.splits sum.splits)
  then show ?thesis
    unfolding store_password_def
    by (intro reply_keeps_run_after[where Q = "\<lambda>_. True"] keeps_intros) simp_all
qed

lemma reply_keeps_changePassword: "reply_keeps (accounts_good E N D) (changePassword E req d)"
  unfolding changePassword_def
proof (rule reply_keeps_run_after[where Q = "\<lambda>uid. CHR '':'' \<notin> set uid \<and> glob_literal uid"], goal_cases)
  case 1
  show ?case unfolding Let_def by (intro keeps_intros)
next
  case (2 s uid s')
  note good = accounts_goodD(1,2)[OF 2(1)]
  from 2(2) have "active_user (users s) uid \<noteq> None"
    by (auto simp: Let_def bnd_run throw_run ok_run compareHash_def lift_res_run findUserById_run[OF good(2)]
        split: if_splits option.splits sum.splits prod.splits)
  then obtain u where "u \<in> set (users s)" "u_userId u = uid" using active_user_Some[OF good(2)] by blast
  with auth_user_plain[OF good(1)] auth_goodD(6)[OF good(1)] show ?case by blast
qed (simp add: reply_keeps_store_password)

text \<open>The reset always fails before it stores anything.\<close>

lemma reply_keeps_resetPassword: "reply_keeps I (resetPassword E d)"
  by (auto simp: reply_keeps_def resetPassword_def run_after_def throw_run Let_def split: if_splits)

text \<open>Every handler of the two controllers.\<close>

lemma account_handlers_keep:
  "used_ids E N D \<Longrightarrow> reply_keeps (accounts_good E N D) (AuthController_signup X E b req)"
  "used_ids E N D \<Longrightarrow> reply_keeps (accounts_good E N D) (AuthController_login X E b req)"
  "reply_keeps (accounts_good E N D) (AuthController_logout E req)"
  "reply_keeps (accounts_good E N D) (AuthController_changePassword E b req)"
  "reply_keeps (accounts_good E N D) (AuthController_forgetPassword E b)"
  "reply_keeps (accounts_good E N D) (AuthController_resetPassword E b)"
  unfolding AuthController_signup_def AuthController_login_def AuthController_logout_def
    AuthController_changePassword_def AuthController_forgetPassword_def AuthController_resetPassword_def
  by (intro reply_keeps_replies reply_keeps_map reply_keeps_changePassword reply_keeps_resetPassword keeps_login
      keeps_signup keeps_intros; assumption?)+

lemma reply_keeps_with_roles:
  "(\<And>rs. reply_keeps I (f rs)) \<Longrightarrow> reply_keeps I (with_roles b f)"
  by (simp add: with_roles_def reply_keeps_None split: option.split)

lemma user_handlers_keep:
  fixes E :: "'e auth_env_scheme" and N D
  defines "I \<equiv> accounts_good E N D :: 'z auth_state_scheme \<Rightarrow> bool"
  shows "reply_keeps I (UsersController_create X E b)" "reply_keeps I (UsersController_findAll X E)"
    "reply_keeps I (UsersController_findById X E i)" "reply_keeps I (UsersController_getUserProfile X E req)"
    "reply_keeps I (UsersController_updateUserProfile X E b req)" "reply_keeps I (UsersController_updateUser X E i b)"
    "reply_keeps I (UsersController_remove E i)" "reply_keeps I (UsersController_assignRoles X E i b)"
    "reply_keeps I (UsersController_getUserRoles X E i)" "reply_keeps I (UsersController_addRoles X E i b)"
    "reply_keeps I (UsersController_removeRoles X E i b)"
  unfolding I_def UsersController_create_def UsersController_findAll_def UsersController_findById_def
    UsersController_getUserProfile_def UsersController_updateUserProfile_def UsersController_updateUser_def
    UsersController_remove_def UsersController_assignRoles_def UsersController_getUserRoles_def
    UsersController_addRoles_def UsersController_removeRoles_def
  by (intro reply_keeps_replies reply_keeps_with_roles keeps_intros
      | simp add: reply_keeps_None reply_keeps_replies keeps_intros split: option.split)+

end
