(* ===== verification/PanelInvariant.thy ===== *)
theory PanelInvariant
  imports AccountInvariant DeviceControllers DeviceLife
begin

text \<open>
  The handlers of devices, topics and the broker keep the invariant of the devices together with any
  property of the cache and of the number of UUIDs drawn that survives another UUID and a change of a
  pending request. What the account side needs of the cache is such a property, so the two halves of
  the server can share it.
\<close>

section \<open>The cache\<close>

definition cache_closed :: "(nat \<Rightarrow> kv_store \<Rightarrow> bool) \<Rightarrow> bool" where
  "cache_closed R \<longleftrightarrow> (\<forall>n m. R n m \<longrightarrow> R (Suc n) m) \<and> (\<forall>n m i x. R n m \<longrightarrow> R n (m(pending_key i := x)))"

definition cache_good ::
  "'e device_env_scheme \<Rightarrow> (nat \<Rightarrow> kv_store \<Rightarrow> bool) \<Rightarrow> 'z redis_state_scheme \<Rightarrow> bool" where
  "cache_good E R s \<longleftrightarrow> device_env_ok E \<and> cache_closed R \<and> R (uuid_count s) (kv s)"

lemma cache_goodD:
  assumes "cache_good E R s"
  shows "device_env_ok E" "cache_closed R" "R (uuid_count s) (kv s)" "R (Suc (uuid_count s)) (kv s)"
    "R (uuid_count s) ((kv s)(pending_key i := x))"
  using assms by (simp_all add: cache_good_def cache_closed_def)

lemma cache_good_blind: "broker_blind (cache_good E R)"
  by (simp add: broker_blind_def cache_good_def)

lemmas crash_blind_cache [keeps_intros] = broker_blind_crash[OF cache_good_blind]

lemmas keeps_cache_broker [keeps_intros] = keeps_blind_base[OF cache_good_blind]
  keeps_blind_topics[OF cache_good_blind] keeps_blind_mqtt[OF cache_good_blind]
  keeps_blind_requests[OF cache_good_blind] keeps_blind_ending[OF cache_good_blind] keeps_blind_raise_event[OF cache_good_blind]

lemma keeps_cache_base [keeps_intros]:
  fixes E :: "'e device_env_scheme" and R
  defines "I \<equiv> cache_good E R :: 'z device_state_scheme \<Rightarrow> bool"
  shows "keeps I (on_sensors ms)" "keeps I (on_hardware mh)" "keeps I (on_telemetries mt)" "keeps I (server_emit n v)"
    "keeps I (uuidv4 E')" "keeps I (redis_get E k)" "keeps I (setCache E dto)" "keeps I (deleteCache E dto)"
proof -
  show "keeps I (on_sensors ms)" "keeps I (on_hardware mh)" "keeps I (on_telemetries mt)" "keeps I (server_emit n v)"
    "keeps I (uuidv4 E')"
    unfolding I_def by (rule keepsI, simp add: act_simps server_emit_def cache_good_def cache_closed_def)+
  show "keeps I (redis_get E k)" "keeps I (setCache E dto)" "keeps I (deleteCache E dto)"
    unfolding I_def
    by (rule keepsI; simp add: redis_get_ok device_env_okD(2) setCache_run deleteCache_run cache_goodD(1);
        simp add: cache_good_def cache_closed_def)+
qed

lemma keeps_cache_device [keeps_intros]:
  "keeps (cache_good E R) (find_live E i)" "keeps (cache_good E R) (update_device E i f)"
  unfolding find_live_def update_device_def by (intro keeps_intros)+

lemma keeps_cache_sensor_types [keeps_intros]: "keeps (cache_good E R) (validateSensorTypes E i f)"
  unfolding validateSensorTypes_def by (intro keeps_intros)

lemma keeps_cache_requests [keeps_intros]:
  "keeps (cache_good E R) (discoverDevicesBroadcast E userId)"
  "keeps (cache_good E R) (discoverDeviceUnicast E userId i)"
  "keeps (cache_good E R) (getHardwareStatus E user d)"
  "keeps (cache_good E R) (AssignDeviceFunction E user dto)"
  "keeps (cache_good E R) (setDeviceConfiguration E dto)"
  "keeps (cache_good E R) (getDeviceTelemetry E dto)"
  "keeps (cache_good E R) (deleteSensor E d)"
  unfolding discoverDevicesBroadcast_def discoverDeviceUnicast_def getHardwareStatus_def AssignDeviceFunction_def
    setDeviceConfiguration_def getDeviceTelemetry_def deleteSensor_def Let_def
  by (intro keeps_intros)+

lemma keeps_cache_validate [keeps_intros]: "keeps (cache_good E R) (transformAndValidate E rules v)"
  unfolding transformAndValidate_def Let_def by (intro keeps_intros)

lemma keeps_cache_register [keeps_intros]: "keeps (cache_good E R) (register_device E v d t)"
  unfolding register_device_def by (intro keeps_intros)

lemma keeps_cache_responses [keeps_intros]:
  "keeps (cache_good E R) (handleDiscoveryResponse E payload)" "keeps (cache_good E R) (handleAssignResponse E payload)"
  "keeps (cache_good E R) (handleUpgradeResponse E payload)" "keeps (cache_good E R) (handleDeviceHeartbeat E payload)"
  "keeps (cache_good E R) (handleRebootResponse E payload)" "keeps (cache_good E R) (handleTelemetryResponse E payload)"
  "keeps (cache_good E R) (handleHardwareStatus E payload)" "keeps (cache_good E R) (handleAckMessage payload)"
  "keeps (cache_good E R) (handleUnknownMessage payload)"
  unfolding handleDiscoveryResponse_def handleAssignResponse_def handleUpgradeResponse_def handleDeviceHeartbeat_def
    handleRebootResponse_def handleTelemetryResponse_def handleHardwareStatus_def handleAckMessage_def
    handleUnknownMessage_def emitDiscoveryBroadcastMessage_def Let_def
  by (intro keeps_intros)+

lemma keeps_cache_event [keeps_intros]: "keeps (cache_good E R) (on_event E n tpc payload)"
  unfolding on_event_def handleDiscoveryEvent_def handleSensorAssignEvent_def handleAckEvent_def handleUpgradeEvent_def
    handleHeartbeatEvent_def handleRebootEvent_def handleTelemetryEvent_def handleMetricsEvent_def handleUnknownEvent_def
  by (intro keeps_intros)

lemma keeps_cache_dispatch: "keeps (cache_good E R) (dispatch E evs)"
proof (induction E evs rule: dispatch.induct)
  case (2 E eventName tpc payload evs)
  then show ?case unfolding dispatch.simps by (intro keeps_intros)
qed (simp_all only: dispatch.simps keeps_ok)

lemma keeps_cache_message [keeps_intros]:
  fixes E :: "'e device_env_scheme"
  shows "keeps (cache_good E R :: 'z device_state_scheme \<Rightarrow> bool) (broker_message E i tpc message)"
proof (rule keepsI)
  fix s :: "'z device_state_scheme" assume s: "cache_good E R s"
  have "cache_good E R (snd (raise_event E i (Received tpc message) s))" 
    by (rule keepsD[OF keeps_blind_raise_event[OF cache_good_blind] s])
  with keepsD[OF keeps_cache_dispatch] show "cache_good E R (snd (broker_message E i tpc message s))"
    by (simp add: broker_message_def split_beta)
qed

section \<open>Devices and cache together\<close>

definition panel_good ::
  "'e device_env_scheme \<Rightarrow> (nat \<Rightarrow> kv_store \<Rightarrow> bool) \<Rightarrow> 'z device_state_scheme \<Rightarrow> bool" where
  "panel_good E R s \<longleftrightarrow> device_good E s \<and> cache_good E R s"

lemma crash_blind_panel: "crash_blind (panel_good E R)"
  by (rule crash_blindI) (simp add: panel_good_def crash_blindD[OF crash_blind_device] crash_blindD[OF crash_blind_cache])

lemma keeps_panel: "keeps (device_good E) m \<Longrightarrow> keeps (cache_good E R) m \<Longrightarrow> keeps (panel_good E R) m"
  by (simp add: keeps_def panel_good_def)

lemma keeps_good_reads [keeps_intros]:
  "keeps (mqtt_good E) (getAllTopicsForOneDevice E d)" "keeps (mqtt_good E) (getConnectionStatus E)"
  "keeps (mqtt_good E) (getConfiguration E)"
proof -
  have topics: "keeps (mqtt_good E) (on_topics (r_find (topic_repo E) p))" for p
  proof (rule keepsI)
    fix s :: "'z mqtt_state_scheme" assume g: "mqtt_good E s"
    then have "repo_ok (unique_by t_topic) (topic_repo E)" by (simp add: mqtt_good_def topics_good_def topic_env_ok_def)
    with g show "mqtt_good E (snd (on_topics (r_find (topic_repo E) p) s))" by (simp add: act_simps repo_ok_simps(1))
  qed
  have client: "keeps (mqtt_good E) (on_mqtt (gets f))" for f :: "client_callback adapter \<Rightarrow> 'r"
    by (rule keeps_on_mqtt) (simp add: gets_run)
  show "keeps (mqtt_good E) (getAllTopicsForOneDevice E d)" "keeps (mqtt_good E) (getConnectionStatus E)"
    "keeps (mqtt_good E) (getConfiguration E)"
    unfolding getAllTopicsForOneDevice_def getConnectionStatus_def getConfiguration_def getBrokerUrl_def getClientId_def
      mqtt_isConnected_def by (intro keeps_intros topics client)+
qed

lemma keeps_device_reads [keeps_intros]:
  "keeps (device_good E) (getAllTopicsForOneDevice E d)" "keeps (device_good E) (getConnectionStatus E)"
  "keeps (device_good E) (getConfiguration E)" "keeps (device_good E) (getAllSubscribedTopics E)"
  by (rule keeps_device_good; intro keeps_intros)+

lemma keeps_device_find [keeps_intros]: "keeps (device_good E) (on_sensors (r_find (sensor_repo E) p))"
  by (rule keepsI) (simp add: act_simps sensor_repo_simps[OF device_goodD(1)])

lemma keeps_sensor_reads [keeps_intros]:
  "keeps (device_good E) (getAllSensors E)" "keeps (device_good E) (querySensors E q)"
  "keeps (device_good E) (getSingleSensor E i)" "keeps (device_good E) (getUnassignedSensor E)"
  "keeps (device_good E) (getDeviceConfiguration E i)" "keeps (device_good E) (getDeviceStatus E i)"
  unfolding getAllSensors_def querySensors_def getSingleSensor_def getUnassignedSensor_def getDeviceConfiguration_def
    getDeviceStatus_def by (intro keeps_intros)+

lemma keeps_cache_reads [keeps_intros]:
  "keeps (cache_good E R) (getAllSensors E)" "keeps (cache_good E R) (querySensors E q)"
  "keeps (cache_good E R) (getSingleSensor E i)" "keeps (cache_good E R) (getUnassignedSensor E)"
  "keeps (cache_good E R) (getDeviceConfiguration E i)" "keeps (cache_good E R) (getDeviceStatus E i)"
  unfolding getAllSensors_def querySensors_def getSingleSensor_def getUnassignedSensor_def getDeviceConfiguration_def
    getDeviceStatus_def by (intro keeps_intros)+

lemma keeps_promise_all [keeps_intros]:
  assumes "\<And>x. keeps I (f x)"
  shows "keeps I (promise_all f xs)"
proof (rule keepsI)
  fix s assume "I s"
  then show "I (snd (promise_all f xs s))"
  proof (induction xs arbitrary: s)
    case (Cons x xs)
    from Cons.IH[OF keepsD[OF assms Cons.prems]] show ?case
      by (simp add: split_beta split: sum.split)
  qed simp
qed

lemmas device_requests_keep = keeps_discoverBroadcast keeps_discoverUnicast keeps_getHardwareStatus keeps_requests_device

text \<open>Every handler of the device, topic and broker controllers.\<close>

lemma device_handlers_keep:
  fixes E :: "'e device_env_scheme" and R
  defines "I \<equiv> panel_good E R :: 'z device_state_scheme \<Rightarrow> bool"
  shows "reply_keeps I (DeviceController_getAllSensors X E)" "reply_keeps I (DeviceController_getSingleSensor X E i)"
    "reply_keeps I (DeviceController_querySensors X E b)" "reply_keeps I (DeviceController_discoverDevicesBroadcast E req)"
    "reply_keeps I (DeviceController_discoverDeviceUnicast E i req)" "reply_keeps I (DeviceController_getUnassignedSensor X E)"
    "reply_keeps I (DeviceController_getHardwareStatus E i req)" "reply_keeps I (DeviceController_provisionDevice E b req)"
    "reply_keeps I (DeviceController_deleteSensor E i)" "reply_keeps I (DeviceController_getDeviceConfiguration X E i)"
    "reply_keeps I (DeviceController_reconfigureDevice E b)" "reply_keeps I (DeviceController_getHistory i)"
    "reply_keeps I (DeviceController_controlDevice i b)" "reply_keeps I (DeviceController_getDeviceStatus E i)"
    "reply_keeps I (DeviceController_getDeviceTelemetry E b)"
  unfolding I_def DeviceController_getAllSensors_def DeviceController_getSingleSensor_def
    DeviceController_querySensors_def DeviceController_discoverDevicesBroadcast_def
    DeviceController_discoverDeviceUnicast_def DeviceController_getUnassignedSensor_def
    DeviceController_getHardwareStatus_def DeviceController_provisionDevice_def DeviceController_deleteSensor_def
    DeviceController_getDeviceConfiguration_def DeviceController_reconfigureDevice_def DeviceController_getHistory_def
    DeviceController_controlDevice_def DeviceController_getDeviceStatus_def DeviceController_getDeviceTelemetry_def
  by (intro reply_keeps_replies keeps_ok keeps_panel device_requests_keep keeps_intros
      | simp add: reply_keeps_None reply_keeps_replies keeps_panel keeps_intros split: option.split)+

lemma broker_handlers_keep:
  fixes E :: "'e device_env_scheme" and R
  defines "I \<equiv> panel_good E R :: 'z device_state_scheme \<Rightarrow> bool"
  shows "reply_keeps I (TopicController_getDeviceTopicsByDeviceId E i)"
    "reply_keeps I (TopicController_getSubscribedTopics X E)" "reply_keeps I (MqttController_getConfig E)"
    "reply_keeps I (MqttController_updateConfig E b)" "reply_keeps I (MqttController_validateConfig b)"
    "reply_keeps I (MqttController_connect E i)" "reply_keeps I (MqttController_getMqttStatus E)"
    "reply_keeps I (MqttController_publish E b)" "reply_keeps I (MqttController_subscribe E b)"
    "reply_keeps I (MqttController_unsubscribe E i)" "reply_keeps I (MqttController_reconnect E)"
  unfolding I_def TopicController_getDeviceTopicsByDeviceId_def TopicController_getSubscribedTopics_def
    MqttController_getConfig_def MqttController_updateConfig_def MqttController_validateConfig_def
    MqttController_connect_def MqttController_getMqttStatus_def MqttController_publish_def
    MqttController_subscribe_def MqttController_unsubscribe_def MqttController_reconnect_def
  by (intro reply_keeps_replies keeps_ok keeps_panel keeps_intros)+

lemma test_handler_keeps:
  fixes E :: "'e device_env_scheme"
  shows "reply_keeps (panel_good E R :: 'z device_state_scheme \<Rightarrow> bool) (MqttController_testConnection L evs E b)"
  unfolding reply_keeps_def
proof (intro allI impI)
  fix s s' :: "'z device_state_scheme" and r
  assume s: "panel_good E R s" and run: "MqttController_testConnection L evs E b s = Some (r, s')"
  have now: "keeps (panel_good E R :: 'z device_state_scheme \<Rightarrow> bool) (date_now E)" by (intro keeps_panel keeps_intros)
  have "keeps (panel_good E R :: 'z device_state_scheme \<Rightarrow> bool)
      (bnd (date_now E) (\<lambda>startTime. bnd (date_now E) (\<lambda>idTime. ok (startTime, idTime))))"
    by (intro keeps_bnd now keeps_ok)
  from keepsD[OF this s] run show "panel_good E R s'"
    unfolding MqttController_testConnection_def by (auto split: prod.splits sum.splits)
qed

end
