(* ===== verification/ServerInvariant.thy ===== *)
theory ServerInvariant
  imports ServerDevices PanelInvariant
begin

text \<open>
  The whole server as one state machine: HTTP requests, messages of brokers and events of their clients,
  sockets of browsers, entries of Redis that expire, and restarts, in any order; and the invariant of its
  reachable states.
\<close>

section \<open>The gateway keeps the invariant of the devices\<close>

lemma panel_good_frame:
  assumes "\<And>s. topics (snd (m s)) = topics s \<and> messageRouter (snd (m s)) = messageRouter s \<and>
    mqtt (snd (m s)) = mqtt s \<and> clients (snd (m s)) = clients s \<and> sensors (snd (m s)) = sensors s \<and>
    uuid_count (snd (m s)) = uuid_count s \<and> kv (snd (m s)) = kv s"
  shows "keeps (panel_good E R) m"
  using assms by (auto simp: keeps_def panel_good_def device_good_def cache_good_def mqtt_good_cong[of "snd (m _)"])

lemma keeps_panel_plain [keeps_intros]:
  fixes E :: "'e device_env_scheme" and R
  defines "I \<equiv> panel_good E R :: 'z gateway_state_scheme \<Rightarrow> bool"
  shows "keeps I (on_messages m)" "keeps I (date_now E')" "keeps I (emit n args)" "keeps I (storeRecentData d)"
    "keeps I (handleConnection c)" "keeps I (handleDisconnect c)" "keeps I (track tpc)" "keeps I (untrack tpc)"
  unfolding I_def
  by (rule panel_good_frame, simp add: act_simps emit_def storeRecentData_def handleConnection_def handleDisconnect_def
      track_def untrack_def)+

lemma keeps_panel_client [keeps_intros]:
  "keeps (panel_good E R) (mqtt_subscribe E ts)" "keeps (panel_good E R) (mqtt_unsubscribe E t)"
  "keeps (panel_good E R) (mqtt_publish E t p opts)"
  by (intro keeps_panel keeps_intros)+

lemma keeps_panel_gateway:
  fixes E :: "'e gateway_env_scheme" and R
  defines "I \<equiv> panel_good E R :: 'z gateway_state_scheme \<Rightarrow> bool"
  shows "h \<in> set (gateway_handlers E) \<Longrightarrow> keeps I (h tpc payload)" "keeps I (subscribeToTopics E tpcs d)"
    "keeps I (unsubscribeFromTopics E tpcs)" "keeps I (publishCommand E i c ps)"
proof -
  have "keeps I (createMessageDto E tpc payload ty)" "keeps I (storeErrorInDatabase E tpc payload err)" for ty err
    unfolding I_def createMessageDto_def storeErrorInDatabase_def parseSensorData_def Let_def
    by (intro keeps_intros)+
  then have "keeps I (handle_stored E ty ch ev tpc payload)" for ty ch ev
    unfolding I_def handle_stored_def storeMessageInDatabase_def Let_def by (intro keeps_intros)
  then show "h \<in> set (gateway_handlers E) \<Longrightarrow> keeps I (h tpc payload)"
    by (auto simp: gateway_handlers_def handleAssignmentMessage_def gateway_handleAckMessage_def
        handleFirmwareUpgradeMessage_def handleHeartbeatMessage_def handleRebootMessage_def handleTelemetryMessage_def
        handleHardwareStatusMessage_def handleAlertMessage_def)
  show "keeps I (subscribeToTopics E tpcs d)" "keeps I (unsubscribeFromTopics E tpcs)" "keeps I (publishCommand E i c ps)"
    unfolding I_def subscribeToTopics_def unsubscribeFromTopics_def follow_topic_def unfollow_topic_def
      publishCommand_def Let_def by (intro keeps_intros)+
qed

lemma keeps_panel_socket:
  fixes E :: "'e device_env_scheme"
  shows "keeps (panel_good E R :: 'z device_state_scheme \<Rightarrow> bool) (socket_message E user ev payload)"
proof -
  have emit: "keeps (panel_good E R :: 'z device_state_scheme \<Rightarrow> bool) (server_emit n v)" for n v
    by (intro keeps_panel keeps_intros)
  have requests: "keeps (panel_good E R) (discoverDevicesBroadcast E u)" "keeps (panel_good E R) (discoverDeviceUnicast E u d)"
    "keeps (panel_good E R) (AssignDeviceFunction E u p)" "keeps (panel_good E R) (getUnassignedSensor E)"
    "keeps (panel_good E R) (getAllSensors E)" for u d p
    by (intro keeps_panel device_requests_keep keeps_intros)+
  show ?thesis
    unfolding socket_message_def handleDiscoveryBroadcast_def handleDiscoveryUnicast_def handleUnassigendDevicesQuery_def
      handleSensorProvision_def handleGetSensorsConfiguration_def emitQueryUnassignedDeviceMessage_def
      emitGetAllSensorsMessage_def
    by (intro keeps_intros emit requests)
qed

section \<open>The machine\<close>

text \<open>What happens on the side of the devices, on the shared cache, clock and UUIDs.\<close>

definition panel_act :: "(unit gateway_state_scheme, 'a) act \<Rightarrow> server \<Rightarrow> server" where
  "panel_act m s = (let p = snd (m (share (account s) (panel s))) in s\<lparr>account := share p (account s), panel := p\<rparr>)"

text \<open>
  A new process: the fields of the services that do not survive a restart, as their constructors leave
  them, and with another salt. \<open>bootstrap()\<close> is not awaited, so a start that is rejected ends the process.
\<close>

definition forget_memory :: "'z gateway_state_scheme \<Rightarrow> 'z gateway_state_scheme" where
  "forget_memory p = p\<lparr>clients := [], mqtt := None, messageRouter := None, isConnectedState := False,
     connectionAttempts := 0, recentSensorData := [], subscriptionTracking := [], connectedClients := [],
     clientSubscriptions := [], starts := Suc (starts p), process_ended := False\<rparr>"

definition panel_start :: "'e gateway_env_scheme \<Rightarrow> ('z gateway_state_scheme, unit) act" where
  "panel_start E = (\<lambda>p. fire (mqtt_onModuleInit E) (forget_memory p))"

text \<open>Redis drops a tracking key no earlier than the session, as both get the same time to live.\<close>

definition may_expire :: "string \<Rightarrow> kv_store \<Rightarrow> bool" where
  "may_expire k m \<longleftrightarrow> (\<forall>u sid. k = track_key u sid \<longrightarrow> session_key sid \<notin> dom m)"

text \<open>A process that has ended does nothing more, until it is started again.\<close>

definition running :: "server \<Rightarrow> bool" where
  "running s \<longleftrightarrow> \<not> process_ended (account s)"

inductive server_step :: "server_env \<Rightarrow> server \<Rightarrow> server \<Rightarrow> bool" for V where
  request: "running s \<Longrightarrow> serve V q s = Some (resp, s') \<Longrightarrow> server_step V s s'"
| broker: "running s \<Longrightarrow> i < length (clients (panel s)) \<Longrightarrow> message_id_ok m \<Longrightarrow>
    server_step V s (panel_act (broker_message (panel_env V) i tpc m) s)"
| client: "running s \<Longrightarrow> i < length (clients (panel s)) \<Longrightarrow> server_step V s (panel_act (raise_event (panel_env V) i ev) s)"
| socket_opens: "running s \<Longrightarrow> server_step V s (panel_act (handleConnection c) s)"
| socket_closes: "running s \<Longrightarrow> server_step V s (panel_act (handleDisconnect c) s)"
| socket: "running s \<Longrightarrow> server_step V s (panel_act (socket_message (panel_env V) user ev payload) s)"
| gateway: "running s \<Longrightarrow> h \<in> set (gateway_handlers (panel_env V)) \<Longrightarrow> server_step V s (panel_act (h tpc payload) s)"
| gateway_subscribes: "running s \<Longrightarrow> server_step V s (panel_act (subscribeToTopics (panel_env V) tpcs d) s)"
| gateway_unsubscribes: "running s \<Longrightarrow> server_step V s (panel_act (unsubscribeFromTopics (panel_env V) tpcs) s)"
| gateway_publishes: "running s \<Longrightarrow> server_step V s (panel_act (publishCommand (panel_env V) d c ps) s)"
| expires: "may_expire k (kv (account s)) \<Longrightarrow> server_step V s (s\<lparr>account := expire_key k (account s)\<rparr>)"
| restarts: "server_step V s (panel_act (panel_start (panel_env V)) s)"

text \<open>The first start, on what the database holds already, with nothing in Redis.\<close>

inductive server_reachable :: "server_env \<Rightarrow> server \<Rightarrow> bool" for V where
  start: "users_inv (account_env V) (account s) \<Longrightarrow> kv (account s) = Map.empty \<Longrightarrow>
    topics_inv (panel_env V) (topics (panel s)) \<Longrightarrow> sensors_ok (sensors (panel s)) \<Longrightarrow>
    server_reachable V (panel_act (panel_start (panel_env V)) s)"
| step: "server_reachable V s \<Longrightarrow> server_step V s s' \<Longrightarrow> server_reachable V s'"

section \<open>The invariant\<close>

definition server_env_ok :: "server_env \<Rightarrow> bool" where
  "server_env_ok V \<longleftrightarrow> auth_env_ok (account_env V) \<and> updates_ok users_uniq (user_repo (account_env V)) \<and>
     device_env_ok (panel_env V)"

definition server_good :: "server_env \<Rightarrow> nat \<Rightarrow> string set \<Rightarrow> server \<Rightarrow> bool" where
  "server_good V N D s \<longleftrightarrow> accounts_good (account_env V) N D (account s) \<and> device_good (panel_env V) (panel s)"

text \<open>What the accounts need of the cache, for the accounts as they are.\<close>

definition account_cache :: "'e auth_env_scheme \<Rightarrow> nat \<Rightarrow> string set \<Rightarrow> 'z auth_state_scheme \<Rightarrow> nat \<Rightarrow> kv_store \<Rightarrow> bool" where
  "account_cache E N D a n m \<longleftrightarrow> accounts_good E N D (a\<lparr>uuid_count := n, kv := m\<rparr>)"

lemma accounts_good_clock [simp]: "accounts_good E N D (a\<lparr>clock_reads := c\<rparr>) = accounts_good E N D a"
  "accounts_good E N D (a\<lparr>starts := n\<rparr>) = accounts_good E N D a"
  "accounts_good E N D (a\<lparr>process_ended := b\<rparr>) = accounts_good E N D a"
  by (simp_all add: accounts_good_def auth_good_def users_inv_def session_inv_def sessions_owned_def)

lemma pending_key_other [simp]: "pending_key i \<noteq> session_key sid" "\<not> startsWith (pending_key i) ''user:sessions:''"
  by (simp_all add: pending_key_def session_key_def startsWith_def)

lemma auth_good_other_key:
  assumes g: "auth_good E a" and k: "\<And>sid. k \<noteq> session_key sid" "\<not> startsWith k ''user:sessions:''"
  shows "auth_good E (a\<lparr>kv := (kv a)(k := x)\<rparr>)"
proof -
  have "session_good E (a\<lparr>kv := (kv a)(k := x)\<rparr>)"
    by (rule session_step_good[OF session_step.other_key[OF k] auth_goodD(2)[OF g] auth_goodD(3)[OF g]])
  then show ?thesis by (intro auth_good_cong[OF g]) simp_all
qed

lemma accounts_good_other_key:
  assumes g: "accounts_good E N D a" and k: "\<And>sid. k \<noteq> session_key sid" "\<not> startsWith k ''user:sessions:''"
  shows "accounts_good E N D (a\<lparr>kv := (kv a)(k := x)\<rparr>)"
  by (rule accounts_good_step[OF g auth_good_other_key[OF accounts_goodD(1)[OF g] k]])
    (simp_all add: session_user_def k(1))

lemma account_cache_closed: "cache_closed (account_cache E N D a)"
  unfolding cache_closed_def account_cache_def
proof (intro conjI allI impI)
  fix n m assume g: "accounts_good E N D (a\<lparr>uuid_count := n, kv := m\<rparr>)"
  have "a\<lparr>kv := m, uuid_count := Suc n\<rparr> = a\<lparr>uuid_count := Suc n, kv := m\<rparr>" by simp
  with keepsD[OF keeps_accounts_uuid g] show "accounts_good E N D (a\<lparr>uuid_count := Suc n, kv := m\<rparr>)"
    by (simp add: uuidv4_run)
next
  fix n m i x assume g: "accounts_good E N D (a\<lparr>uuid_count := n, kv := m\<rparr>)"
  from accounts_good_other_key[OF g, of "pending_key i" x]
  show "accounts_good E N D (a\<lparr>uuid_count := n, kv := m(pending_key i := x)\<rparr>)" by simp
qed

lemma share_account:
  "share p a = (a\<lparr>uuid_count := uuid_count p, kv := kv p\<rparr>)
     \<lparr>clock_reads := clock_reads p, starts := starts p, process_ended := process_ended p\<rparr>"
  by (simp add: share_def)

lemma share_count [simp]: "uuid_count (share a p) = uuid_count a"
  by (simp add: share_def)

lemma server_panel_good:
  assumes "server_good V N D s"
  shows "panel_good (panel_env V) (account_cache (account_env V) N D (account s)) (share (account s) (panel s))"
proof -
  have "(account s)\<lparr>uuid_count := uuid_count (account s), kv := kv (account s)\<rparr> = account s" by simp
  with assms account_cache_closed[of "account_env V" N D "account s"] show ?thesis
    by (auto simp: server_good_def panel_good_def cache_good_def account_cache_def dest: device_goodD(1))
qed

lemma panel_good_server:
  assumes "panel_good (panel_env V) (account_cache (account_env V) N D (account s)) p"
  shows "server_good V N D (s\<lparr>account := share p (account s), panel := p\<rparr>)"
  using assms by (simp add: server_good_def panel_good_def cache_good_def account_cache_def share_account)

lemma panel_act_good:
  assumes "server_good V N D s" "\<And>R. keeps (panel_good (panel_env V) R) m"
  shows "server_good V N D (panel_act m s)"
  using panel_good_server[OF keepsD[OF assms(2) server_panel_good[OF assms(1)]]] by (simp add: panel_act_def Let_def)

section \<open>Requests\<close>

lemma on_account_good:
  assumes "reply_keeps (accounts_good (account_env V) N D) m"
  shows "reply_keeps (server_good V N D) (on_account m)"
  using assms by (auto simp: reply_keeps_def on_account_def server_good_def split: option.splits)

lemma on_panel_good:
  assumes "\<And>R. reply_keeps (panel_good (panel_env V) R) m"
  shows "reply_keeps (server_good V N D) (on_panel m)"
  unfolding reply_keeps_def
proof (intro allI impI)
  fix s r s' assume g: "server_good V N D s" and run: "on_panel m s = Some (r, s')"
  from run obtain p where p: "m (share (account s) (panel s)) = Some (r, p)"
    "s' = s\<lparr>account := share p (account s), panel := p\<rparr>"
    by (auto simp: on_panel_def split: option.splits)
  from panel_good_server[OF reply_keepsD[OF assms server_panel_good[OF g] p(1)]] show "server_good V N D s'" by (simp add: p(2))
qed

lemma app_handlers_keep:
  "reply_keeps I AppController_getHello" "reply_keeps (accounts_good E N D) (AppController_getStatus t E)"
  unfolding AppController_getHello_def AppController_getStatus_def by (intro reply_keeps_replies keeps_intros)+

lemma run_handler_good:
  assumes "used_ids (account_env V) N D \<or> h \<notin> {Auth_login, Auth_signup}"
  shows "reply_keeps (server_good V N D) (run_handler V h params b req)"
  using assms
  by (cases h)
    (simp_all add: run_handler_def Let_def app_handlers_keep on_account_good account_handlers_keep user_handlers_keep
      on_panel_good device_handlers_keep broker_handlers_keep test_handler_keeps)

lemma tick_good: "server_good V N D s \<Longrightarrow> server_good V N D (tick s)"
  by (simp add: server_good_def tick_def)

lemma fail_request_good: "server_good V N D s \<Longrightarrow> fail_request V q ex s = Some (resp, s') \<Longrightarrow> server_good V N D s'"
  by (auto simp: fail_request_run tick_good)

lemma check_input_good:
  "server_good V N D s \<Longrightarrow> check_input V i q s = (r, s') \<Longrightarrow> server_good V N D s'"
  using tick_good[of V N D s]
  by (cases i) (auto simp: check_input_def Let_def tick_def split: if_splits)

lemma guard_request_good:
  assumes "server_good V N D s" "guard_request (account_env V) g req (account s) = (r, a)"
  shows "server_good V N D (s\<lparr>account := a\<rparr>)"
proof -
  have "keeps (accounts_good (account_env V) N D) (guard_request (account_env V) g req)"
    unfolding guard_request_def run_route_def by (cases g) (simp_all, (intro keeps_intros)+)
  from keepsD[OF this, of "account s"] assms show ?thesis by (simp add: server_good_def)
qed

lemma fresh_count: "uuid_count (account (fresh s)) = uuid_count (account s)"
  by (simp add: fresh_def)

lemma fresh_good: "server_good V N D s \<Longrightarrow> server_good V N D (fresh s)"
  by (simp add: server_good_def accounts_good_def sessions_owned_def fresh_count)

text \<open>The two routes that open a session.\<close>

definition opens_session :: "api_request \<Rightarrow> bool" where
  "opens_session q \<longleftrightarrow> (case resolve all_routes (aq_method q) (aq_path q) of None \<Rightarrow> False
     | Some (r, _) \<Rightarrow> re_handler r \<in> {Auth_login, Auth_signup})"

lemma serve_good:
  assumes g: "server_good V N D s" and run: "serve V q s = Some (resp, s')"
    and ids: "used_ids (account_env V) N D \<or> \<not> opens_session q"
  shows "server_good V N D s'"
proof (cases "resolve all_routes (aq_method q) (aq_path q)")
  case None
  with run fail_request_good[OF fresh_good[OF g]] show ?thesis by (auto simp: serve_fresh)
next
  case (Some rp)
  obtain r params where rp: "rp = (r, params)" by fastforce
  obtain gr a where gate: "guard_request (account_env V) (re_guard r) (aq_http q) (account (fresh s)) = (gr, a)" by fastforce
  have g1: "server_good V N D ((fresh s)\<lparr>account := a\<rparr>)" by (rule guard_request_good[OF fresh_good[OF g] gate])
  have run1: "serve_route V q r params (fresh s) = Some (resp, s')" using run Some rp by (simp add: serve_fresh)
  show ?thesis
  proof (cases gr)
    case (Inl e)
    with run1 gate fail_request_good[OF g1] show ?thesis by (auto simp: serve_route_def)
  next
    case (Inr req)
    obtain br s1 where input: "check_input V (re_input r) q ((fresh s)\<lparr>account := a\<rparr>) = (br, s1)" by fastforce
    note g2 = check_input_good[OF g1 input]
    show ?thesis
    proof (cases br)
      case (Inl ex)
      with run1 gate Inr input fail_request_good[OF g2] show ?thesis by (auto simp: serve_route_def)
    next
      case b: (Inr b)
      with run1 gate Inr input obtain hr s2 where h: "run_handler V (re_handler r) params b req s1 = Some (hr, s2)"
        by (auto simp: serve_route_def split: option.splits)
      have "used_ids (account_env V) N D \<or> re_handler r \<notin> {Auth_login, Auth_signup}"
        using ids Some rp by (simp add: opens_session_def)
      note g3 = reply_keepsD[OF run_handler_good[OF this] g2 h]
      show ?thesis
      proof (cases hr)
        case (Inl e)
        with run1 gate Inr input b h fail_request_good[OF g3] show ?thesis by (auto simp: serve_route_def)
      next
        case (Inr v)
        with run1 gate \<open>gr = Inr req\<close> input b h g3 show ?thesis by (simp add: serve_route_def)
      qed
    qed
  qed
qed

section \<open>Every step\<close>

lemma panel_start_good:
  assumes "device_env_ok E" "topics_inv E (topics p)" "sensors_ok (sensors p)" "cache_good E R p"
  shows "panel_good E R (snd (panel_start E p))"
proof -
  let ?p = "(forget_memory p)\<lparr>messageRouter := Some initializeMessageRouter\<rparr>"
  have "device_good E ?p"
    using assms device_env_okD(1,11)[OF assms(1)]
    by (simp add: forget_memory_def device_good_def mqtt_good_def topics_good_def clients_inv_def)
  moreover have "cache_good E R ?p" using assms(4) by (simp add: cache_good_def forget_memory_def)
  ultimately have "panel_good E R ?p" by (simp add: panel_good_def)
  moreover have "keeps (panel_good E R) (initConnection E None None)" by (intro keeps_panel keeps_intros)
  ultimately have "panel_good E R (snd (initConnection E None None ?p))" by (rule keepsD[rotated])
  then show ?thesis
    by (auto simp: panel_start_def mqtt_onModuleInit_def act_simps fire_run dest: crash_blindD[OF crash_blind_panel])
qed

lemma keeps_panel_message:
  assumes "panel_good E R s" "i < length (clients s)" "message_id_ok m"
  shows "panel_good E R (snd (broker_message E i tpc m s))"
  using assms broker_message_good[OF _ assms(2,3)] keepsD[OF keeps_cache_message] by (auto simp: panel_good_def)

lemma keeps_panel_event:
  assumes "panel_good E R s" "i < length (clients s)"
  shows "panel_good E R (snd (raise_event E i ev s))"
  using assms raise_event_device_good[OF _ assms(2)]
  by (auto simp: panel_good_def intro: keepsD[OF keeps_blind_raise_event[OF cache_good_blind]])

lemma expire_good:
  assumes g: "accounts_good E N D a" and k: "may_expire k (kv a)"
  shows "accounts_good E N D (expire_key k a)"
proof -
  note good = accounts_goodD(3)[OF g]
  have inv: "session_inv E a" and plain: "uuids_plain E" using good by (simp_all add: session_good_def)
  have "session_inv E (expire_key k a)"
  proof (cases "\<exists>sid. k = session_key sid")
    case True
    then show ?thesis using session_inv_expire_session[OF inv] by blast
  next
    case other: False
    show ?thesis
    proof (cases "startsWith k ''user:sessions:'' \<and> k \<in> dom (kv a)")
      case True
      then obtain u sid where t: "k = track_key u sid" "drawn E (uuid_count a) sid"
        using inv store_inv_track unfolding session_inv_def by metis
      then have "session_key sid \<notin> dom (kv a)" using k by (simp add: may_expire_def)
      then show ?thesis unfolding t(1) by (rule session_inv_expire_track[OF inv plain _ drawn_plain[OF plain t(2)]])
    next
      case False
      then consider "\<not> startsWith k ''user:sessions:''" | "kv a k = None" by auto
      then show ?thesis
      proof cases
        case 1
        with inv other store_inv_other_key[of E "uuid_count a" "kv a" k None] show ?thesis
          by (simp add: session_inv_def expire_key_def)
      next
        case 2
        then have "expire_key k a = a" by (simp add: expire_key_def fun_upd_idem)
        with inv show ?thesis by simp
      qed
    qed
  qed
  then have "session_good E (expire_key k a)" using good by (simp add: session_good_def)
  then have "auth_good E (expire_key k a)"
    by (intro auth_good_cong[OF accounts_goodD(1)[OF g]]) (simp_all add: expire_key_def)
  then show ?thesis
  proof (rule accounts_good_step[OF g])
    fix sid u assume u: "session_user (kv (expire_key k a)) sid = Some u"
    then have "session_key sid \<noteq> k" using session_user_dom[OF u] by (auto simp: expire_key_def)
    with u show "session_user (kv a) sid = Some u \<or> u \<in> u_userId ` set (users (expire_key k a)) \<and> sid \<notin> D"
      by (simp add: expire_key_def session_user_def)
  qed (simp_all add: expire_key_def)
qed

lemma server_step_good:
  assumes "server_step V s s'" "server_good V N D s"
    and ids: "used_ids (account_env V) N D \<or> (\<forall>q resp. serve V q s = Some (resp, s') \<longrightarrow> \<not> opens_session q)"
  shows "server_good V N D s'"
  using assms(1)
proof cases
  case (request q resp)
  then show ?thesis using serve_good[OF assms(2)] ids by blast
next
  case (broker i m tpc)
  have "i < length (clients (share (account s) (panel s)))" using broker(3) by simp
  from panel_good_server[OF keeps_panel_message[OF server_panel_good[OF assms(2)] this broker(4)]] broker(1)
  show ?thesis by (simp add: panel_act_def Let_def)
next
  case (client i ev)
  have "i < length (clients (share (account s) (panel s)))" using client(3) by simp
  from panel_good_server[OF keeps_panel_event[OF server_panel_good[OF assms(2)] this]] client(1)
  show ?thesis by (simp add: panel_act_def Let_def)
next
  case (expires k)
  have "accounts_good (account_env V) N D (account s)" using assms(2) by (simp add: server_good_def)
  from expire_good[OF this expires(2)] assms(2) expires(1) show ?thesis by (simp add: server_good_def)
next
  case restarts
  note p = server_panel_good[OF assms(2)]
  then have "device_good (panel_env V) (share (account s) (panel s))" by (simp add: panel_good_def)
  from panel_good_server[OF panel_start_good[OF device_goodD(1)[OF this] device_goodD(6)[OF this] device_goodD(3)[OF this]]] p
    restarts show ?thesis by (simp add: panel_act_def Let_def panel_good_def)
qed (auto intro!: panel_act_good[OF assms(2)] keeps_panel_gateway keeps_panel_socket keeps_panel_plain)

lemma server_reachable_good: "server_reachable V s \<Longrightarrow> server_env_ok V \<Longrightarrow> server_good V 0 {} s"
proof (induction rule: server_reachable.induct)
  case (start s)
  have "session_inv (account_env V) (account s)" using start(2) by (rule session_inv_empty)
  then have "accounts_good (account_env V) 0 {} (account s)"
    using start by (simp add: accounts_good_def auth_good_def server_env_ok_def sessions_owned_def session_user_def)
  then have "cache_good (panel_env V) (account_cache (account_env V) 0 {} (account s)) (share (account s) (panel s))"
    using start.prems account_cache_closed[of "account_env V" 0 "{}" "account s"]
    by (simp add: cache_good_def server_env_ok_def account_cache_def)
  from panel_good_server[OF panel_start_good[OF _ _ _ this]] start show ?case
    by (simp add: panel_act_def Let_def server_env_ok_def)
next
  case (step s s')
  then show ?case using server_step_good[OF step(2), of 0 "{}"] by simp
qed

section \<open>Properties\<close>

text \<open>
  C7. Whatever requests, messages, socket events, expiries and restarts a server went through: ids and
  emails identify accounts, every session belongs to an account and is tracked under it, device ids
  identify devices, and a topic name identifies a topic.
\<close>

theorem server_invariant:
  assumes "server_reachable V s" "server_env_ok V"
  shows "distinct (map u_userId (users (account s))) \<and> distinct (map u_email (users (account s))) \<and>
    (\<forall>sid u. session_user (kv (account s)) sid = Some u \<longrightarrow>
       u \<in> u_userId ` set (users (account s)) \<and> track_key u sid \<in> dom (kv (account s))) \<and>
    distinct (map sn_deviceId (sensors (panel s))) \<and> distinct (map t_topic (topics (panel s)))"
proof -
  have good: "accounts_good (account_env V) 0 {} (account s)" "device_good (panel_env V) (panel s)"
    using server_reachable_good[OF assms] by (simp_all add: server_good_def)
  have inv: "store_inv (account_env V) (uuid_count (account s)) (kv (account s))"
    using accounts_goodD(3)[OF good(1)] by (simp add: session_good_def session_inv_def)
  have "track_key u sid \<in> dom (kv (account s))" if u: "session_user (kv (account s)) sid = Some u" for sid u
    by (rule store_inv_session[OF inv session_user_dom[OF u]]) (use u in simp)
  moreover have "u \<in> u_userId ` set (users (account s))" if "session_user (kv (account s)) sid = Some u" for sid u
    using accounts_goodD(4)[OF good(1)] that unfolding sessions_owned_def by blast
  ultimately show ?thesis
    using users_goodD(4,5)[OF accounts_goodD(2)[OF good(1)]] device_goodD(4,6)[OF good(2)]
    by (simp add: unique_by_def topics_inv_def)
qed

definition demo_blank_gateway :: "unit gateway_state_scheme" where
  "demo_blank_gateway = device_state.extend demo_device_state (gateway_state.fields [] [] [] [] [])"

definition demo_blank_server :: server where
  "demo_blank_server = \<lparr>account = demo_auth_state, panel = demo_blank_gateway\<rparr>"

lemma demo_server_env_ok [simp]: "server_env_ok demo_server_env"
  using demo_auth_good device_goodD(1)[OF gateway_panel(1)]
  by (simp add: server_env_ok_def auth_good_def)

text \<open>The demo server, started and then used for a login.\<close>

lemma demo_started:
  fixes V s
  defines "V \<equiv> demo_server_env"
  defines "s \<equiv> panel_act (panel_start (panel_env V)) demo_blank_server"
  shows "server_reachable V s" "users (account s) = users demo_auth_state" "2 \<le> uuid_count (account s)" "running s"
proof -
  have p: "topics demo_blank_gateway = []" "sensors demo_blank_gateway = []"
    by (simp_all add: demo_blank_gateway_def demo_device_state_def mqtt_state.extend_def demo_mqtt_state_def
        demo_topic_state_def topic_state.extend_def mqtt_state.fields_def device_state.fields_def
        device_state.extend_def gateway_state.fields_def)
  have "users_inv demo_auth_env demo_auth_state" using demo_auth_good by (simp add: auth_good_def)
  with p show "server_reachable V s"
    unfolding s_def V_def
    by (intro server_reachable.start) (simp_all add: demo_blank_server_def topics_inv_def unique_by_def sensors_ok_def)
  show "users (account s) = users demo_auth_state" by (simp add: s_def panel_act_def Let_def demo_blank_server_def)
  have "cache_good demo_gateway_env (\<lambda>n m. 2 \<le> n) (forget_memory (share demo_auth_state demo_blank_gateway))"
    using device_goodD(1)[OF gateway_panel(1)] by (simp add: cache_good_def cache_closed_def forget_memory_def)
  from cache_goodD(3)[OF keepsD[OF keeps_fire[OF keeps_blind_requests(3)[OF cache_good_blind] crash_blind_cache] this],
      of demo_gateway_env]
  show "2 \<le> uuid_count (account s)"
    by (simp add: s_def V_def panel_act_def Let_def demo_blank_server_def panel_start_def)
  let ?p = "(forget_memory (share demo_auth_state demo_blank_gateway))\<lparr>messageRouter := Some initializeMessageRouter\<rparr>"
  have "mqtt_env_ok demo_gateway_env" using device_goodD(1)[OF gateway_panel(1)] by (rule device_env_okD(1))
  from connect_run[OF this, of None ?p] show "running s"
    by (auto simp: running_def s_def V_def panel_act_def Let_def demo_blank_server_def panel_start_def
        mqtt_onModuleInit_def act_simps opened_def forget_memory_def share_def)
qed

lemma demo_login:
  obtains s q resp s' sid where "server_reachable demo_server_env s" "running s" "serve demo_server_env q s = Some (resp, s')"
    "session_user (kv (account s')) sid = Some ''x''" "res_cookies (account s') = [session_cookie demo_auth_env sid]"
    "sid = uuid_src demo_auth_env (uuid_count (account s))" "sid \<noteq> []"
proof -
  let ?V = "demo_server_env" and ?s = "panel_act (panel_start demo_gateway_env) demo_blank_server"
  let ?bob = "demo_user ''x'' ''bob@x.org'' [ADMIN, TEST]"
  let ?q = "demo_call POST [''auth'', ''login''] (login_body ''bob@x.org'' ''secret'') []"
  have bob: "u_userId ?bob = ''x''" "u_password ?bob = hashed (account_env ?V) 0 ''secret''" by (simp_all add: demo_user_def)
  note start = demo_started[simplified]
  have good: "auth_good (account_env ?V) (account ?s)"
    using server_reachable_good[OF start(1)] by (simp add: server_good_def accounts_good_def)
  have act: "active_email (users (account ?s)) ''bob@x.org'' = Some ?bob" using start(2) demo_bob by simp
  have uuid: "uuid_src (account_env ?V) (uuid_count (account ?s)) \<noteq> []" using start(3) by simp
  show thesis
    by (rule login_request_accepted[OF good _ uuid act bob(2) HOL.refl, of ?q]) (use that[OF start(1,4)] bob(1) in simp_all)
qed

theorem server_invariant_witness:
  "\<exists>s sid. server_reachable demo_server_env s \<and> session_user (kv (account s)) sid = Some ''x'' \<and>
    track_key ''x'' sid \<in> dom (kv (account s)) \<and> distinct (map sn_deviceId (sensors (panel s)))"
proof (rule demo_login)
  fix s q resp s' sid
  assume s: "server_reachable demo_server_env s" "running s" "serve demo_server_env q s = Some (resp, s')"
    "session_user (kv (account s')) sid = Some ''x''"
  have "server_reachable demo_server_env s'" by (rule server_reachable.step[OF s(1) server_step.request[OF s(2,3)]])
  with server_invariant[OF this demo_server_env_ok] s(4) show ?thesis by blast
qed

end
