(* ===== verification/ServerRuns.thy ===== *)
theory ServerRuns
  imports ServerInvariant
begin

text \<open>
  Runs of the whole server: what happens to a session that ended, and where a session comes from. The
  invariant of \<open>ServerInvariant\<close> is carried along a run for the ids that were drawn already.
\<close>

section \<open>Runs\<close>

inductive server_runs :: "server_env \<Rightarrow> server \<Rightarrow> server \<Rightarrow> bool" for V where
  nothing: "server_runs V s s"
| more: "server_runs V s s' \<Longrightarrow> server_step V s' s'' \<Longrightarrow> server_runs V s s''"

lemma server_runs_good:
  "server_runs V s s' \<Longrightarrow> server_good V N D s \<Longrightarrow> used_ids (account_env V) N D \<Longrightarrow> server_good V N D s'"
  by (induction rule: server_runs.induct) (auto intro: server_step_good)

lemma server_runs_reachable: "server_runs V s s' \<Longrightarrow> server_reachable V s \<Longrightarrow> server_reachable V s'"
  by (induction rule: server_runs.induct) (auto intro: server_reachable.step)

lemma server_goodD:
  assumes "server_good V N D s"
  shows "auth_good (account_env V) (account s)" "session_good (account_env V) (account s)"
    "N \<le> uuid_count (account s)" "sid \<in> D \<Longrightarrow> session_user (kv (account s)) sid = None"
  using assms accounts_goodD(1,3,8,9)[of "account_env V" N D "account s"] by (simp_all add: server_good_def)

text \<open>The parameters of the invariant can be chosen at any moment.\<close>

lemma server_good_from:
  assumes "server_good V N D s" "M \<le> uuid_count (account s)"
    and "\<And>sid. sid \<in> B \<Longrightarrow> session_user (kv (account s)) sid = None"
  shows "server_good V M B s"
  using assms by (simp add: server_good_def accounts_good_def)

lemma session_drawn:
  assumes "session_good E s" "session_user (kv s) sid = Some u"
  shows "drawn E (uuid_count s) sid"
  by (cases rule: session_good_cases[OF assms(1), of sid]) (use assms(2) in simp_all)

lemma session_ended:
  assumes "session_good E s" "session_user (kv s) sid = None"
  shows "session_at (kv s) sid = JNull"
  by (cases rule: session_good_cases[OF assms(1), of sid]) (use assms(2) in simp_all)

text \<open>No id of a session is used twice, whatever the server goes through.\<close>

lemma ended_stays_ended:
  assumes "server_reachable V s0" "server_env_ok V" "session_user (kv (account s0)) sid \<noteq> None"
    and "server_runs V s0 s1" "session_user (kv (account s1)) sid = None" "server_runs V s1 s2"
  shows "server_good V (uuid_count (account s0)) {sid} s2"
proof -
  let ?n = "uuid_count (account s0)"
  note g0 = server_reachable_good[OF assms(1,2)]
  from assms(3) have used: "used_ids (account_env V) ?n {sid}"
    using session_drawn[OF server_goodD(2)[OF g0]] by (auto simp: used_ids_def)
  have "server_good V ?n {} s0" by (rule server_good_from[OF g0]) simp_all
  then have "server_good V ?n {} s1" by (rule server_runs_good[OF assms(4)]) simp
  then have "server_good V ?n {sid} s1" using server_good_from server_goodD(3) assms(5) by blast
  then show ?thesis by (rule server_runs_good[OF assms(6)]) (rule used)
qed

section \<open>Requests without a session\<close>

lemma guard_refuses:
  assumes "session_good E s" "config E ''SESSION_COOKIE_NAME'' = Some n" "session_at (kv s) (cookie_sid E req) = JNull"
    and g: "g \<noteq> Public"
  obtains m where "guard_request E g req s = (Inl (UnauthorizedException m), s)"
proof -
  obtain m where "SessionAuthGuard E req s = (Inl (UnauthorizedException m), s)"
    using guard_no_cookie[OF assms(2), of req s] guard_no_session[OF assms(1,2), of req] assms(3)
    by (cases "cookie_sid E req = []") auto
  with g that[of m] show thesis by (cases g) (simp_all add: guard_request_def run_route_def bnd_run)
qed

lemma serve_without_session:
  assumes good: "auth_good (account_env V) (account s)"
    and route: "resolve all_routes (aq_method q) (aq_path q) = Some (r, params)" "re_guard r \<noteq> Public"
    and ended: "session_user (kv (account s)) (cookie_sid (account_env V) (aq_http q)) = None"
  shows "\<exists>resp. serve V q s = Some (resp, tick (fresh s)) \<and> hr_status resp = 401"
proof -
  obtain n where cfg: "config (account_env V) ''SESSION_COOKIE_NAME'' = Some n" using auth_goodD(4)[OF good] by blast
  have sg: "session_good (account_env V) (account (fresh s))" using auth_goodD(2)[OF good] by simp
  have "session_at (kv (account (fresh s))) (cookie_sid (account_env V) (aq_http q)) = JNull"
    using session_ended[OF auth_goodD(2)[OF good] ended] by simp
  from guard_refuses[OF sg cfg this route(2)] obtain m where
    "guard_request (account_env V) (re_guard r) (aq_http q) (account (fresh s)) =
      (Inl (UnauthorizedException m), account (fresh s))" .
  then show ?thesis by (simp add: serve_fresh route(1) serve_route_def fail_request_run classify_def)
qed

section \<open>Where a session comes from\<close>

text \<open>What the requests that open a session know of the account.\<close>

definition proved_by :: "'e auth_env_scheme \<Rightarrow> string \<Rightarrow> string \<Rightarrow> user \<Rightarrow> bool" where
  "proved_by E e p u \<longleftrightarrow> u_email u = e \<and> u_isActive u \<and> bc_compare E p (u_password u) = Inr True"

lemma login_new_session:
  assumes good: "auth_good E s" and run: "login E d req s = (r, s')"
    and new: "session_user (kv s) sid = None" "session_user (kv s') sid = Some uid"
  shows "\<exists>u. r = Inr u \<and> u \<in> set (users s') \<and> u_userId u = uid \<and> proved_by E (li_email d) (li_password d) u \<and>
    res_cookies s' = res_cookies s @ [session_cookie E sid]"
proof (cases "active_email (users s) (li_email d)")
  case None
  with login_unknown[OF good] run new show ?thesis by auto
next
  case (Some u)
  then have u: "u \<in> set (users s)" "u_email u = li_email d" "u_isActive u"
    using active_email_Some[OF auth_goodD(1)[OF good]] by auto
  have login: "login E d req s = bnd (lift_res (bc_compare E (li_password d) (u_password u))) (\<lambda>isPasswordValid.
      if \<not> isPasswordValid then throw (AppException INVALID_CREDENTIALS UNAUTHORIZED)
      else bnd (auth_createSession E u req) (\<lambda>_. ok u)) s"
    using Some by (simp add: login_def bnd_run findUserByEmail_run[OF auth_goodD(1)[OF good]] compareHash_def)
  from auth_createSession_run[OF good auth_user_plain[OF good u(1)], of req] obtain b t where
    t: "auth_createSession E u req s = (Inr (), t)" "users t = users s"
    "session_at (kv t) = (session_at (kv s))(b := session_fresh E (session_dto u req) s)"
    "res_cookies t = res_cookies s @ [session_cookie E b]" by blast
  have match: "bc_compare E (li_password d) (u_password u) = Inr True"
    using login run new by (auto simp: act_simps split: sum.splits if_splits)
  with login t(1) run have s': "r = Inr u" "s' = t" by (simp_all add: act_simps)
  have "b = sid" using new t(3) by (cases "b = sid") (auto simp: s' session_user_def)
  moreover have "session_user (kv t) b = Some (u_userId u)" by (rule session_fresh_at) (simp add: t(3))
  ultimately show ?thesis using new(2) u match t(2,4) by (simp add: s' proved_by_def)
qed

lemma signup_refused:
  assumes good: "auth_good E s"
    and no: "sg_email d \<in> u_email ` set (users s) \<or> sg_email d = [] \<or> sg_username d = [] \<or> sg_password d = []"
  shows "kv (snd (signup E d req s)) = kv s"
proof (cases "sg_email d = [] \<or> sg_username d = [] \<or> sg_password d = [] \<or> active_email (users s) (sg_email d) \<noteq> None")
  case True
  then show ?thesis by (auto simp: signup_def act_simps findUserByEmail_run[OF auth_goodD(1)[OF good]])
next
  case False
  note ug = auth_goodD(1)[OF good]
  let ?d = "\<lparr>cu_username = sg_username d, cu_email = sg_email d, cu_password = hashed E (starts s) (sg_password d),
    cu_roles = [VIEWER], cu_firstName = None, cu_lastName = None\<rparr>"
  have "u_email (user_record ?d (hashed E (starts s) (sg_password d))) \<in> u_email ` set (users s)" using no False by simp
  then obtain msg where "save_user E (user_record ?d (hashed E (starts s) (sg_password d))) s =
      (Inl (LibraryError msg), s\<lparr>uuid_count := Suc (uuid_count s)\<rparr>)" by (rule save_user_reject[OF ug])
  with False show ?thesis
    by (simp add: signup_def createUser_def act_simps findUserByEmail_run[OF ug]
        encrypt_hash_password[OF users_goodD(2)[OF ug]] bcrypt_okD(2)[OF users_goodD(2)[OF ug]])
qed

lemma signup_new_session:
  assumes good: "auth_good E s" and run: "signup E d req s = (r, s')"
    and new: "session_user (kv s) sid = None" "session_user (kv s') sid = Some uid"
  shows "\<exists>u. r = Inr u \<and> u \<in> set (users s') \<and> u_userId u = uid \<and> proved_by E (sg_email d) (sg_password d) u \<and>
    res_cookies s' = res_cookies s @ [session_cookie E sid]"
proof -
  have "sg_email d \<notin> u_email ` set (users s)" "sg_email d \<noteq> []" "sg_username d \<noteq> []" "sg_password d \<noteq> []"
    using signup_refused[OF good, of d req] run new by auto
  from signup_run[OF good this, of req] obtain u b t where
    t: "signup E d req s = (Inr u, t)" "users t = users s @ [u]" "u_email u = sg_email d" "u_isActive u"
      "u_password u = hashed E (starts s) (sg_password d)" "session_user (kv t) b = Some (u_userId u)"
      "\<forall>c. c \<noteq> b \<longrightarrow> session_at (kv t) c = session_at (kv s) c" "res_cookies t = res_cookies s @ [session_cookie E b]"
    by blast
  have s': "r = Inr u" "s' = t" using run t(1) by simp_all
  have "b = sid" using new t(7) by (cases "b = sid") (auto simp: s' session_user_def)
  moreover have "bc_compare E (sg_password d) (u_password u) = Inr True"
    using bcrypt_okD(3)[OF users_goodD(2)[OF auth_goodD(1)[OF good]]] t(5) by simp
  ultimately show ?thesis using new(2) t by (simp add: s' proved_by_def)
qed

text \<open>The two routes.\<close>

definition opening_route :: "route_entry \<Rightarrow> bool" where
  "opening_route r \<longleftrightarrow> r = auth_route ''signup'' Public (Body SignupDto) Auth_signup \<or>
     r = auth_route ''login'' Public (Body LoginDto) Auth_login"

lemma opens_session_route:
  assumes "opens_session q"
  obtains r params where "resolve all_routes (aq_method q) (aq_path q) = Some (r, params)" "opening_route r"
    "re_handler r \<in> {Auth_login, Auth_signup}"
proof -
  from assms obtain r params where r: "resolve all_routes (aq_method q) (aq_path q) = Some (r, params)"
    "re_handler r \<in> {Auth_login, Auth_signup}"
    by (auto simp: opens_session_def split: option.splits)
  have "\<forall>r \<in> set all_routes. re_handler r \<in> {Auth_login, Auth_signup} \<longrightarrow> opening_route r"
    by (simp add: route_defs opening_route_def)
  with resolve_Some[OF r(1)] r(2) have "opening_route r" by blast
  with r that show thesis by blast
qed

lemma opening_routeD:
  assumes "opening_route r"
  shows "re_guard r = Public" "re_status r = 201"
    "check_input V (re_input r) q s = (br, s1) \<Longrightarrow> s1 = tick s \<and> (\<forall>b. br = Inr b \<longrightarrow> b = aq_body q)"
  using assms by (auto simp: opening_route_def auth_route_def check_input_def Let_def tick_def split: if_splits)

text \<open>The handler of either route, on the part of the accounts.\<close>

lemma opening_handler:
  assumes h: "h \<in> {Auth_login, Auth_signup}" and good: "auth_good (account_env V) (account s)"
    and run: "run_handler V h params b req s = Some (hr, s')"
    and new: "session_user (kv (account s)) sid = None" "session_user (kv (account s')) sid = Some uid"
  shows "\<exists>x u. hr = Inr x \<and> u \<in> set (users (account s')) \<and> u_userId u = uid \<and>
    proved_by (account_env V) (text_of (js_get b ''email'')) (text_of (js_get b ''password'')) u \<and>
    res_cookies (account s') = res_cookies (account s) @ [session_cookie (account_env V) sid]"
proof (cases "h = Auth_login")
  case True
  let ?d = "\<lparr>li_email = text_of (js_get b ''email''), li_password = text_of (js_get b ''password'')\<rparr>"
  obtain r a where log: "login (account_env V) ?d req (account s) = (r, a)" by fastforce
  with run True have s': "account s' = a" "\<forall>u. r = Inr u \<longrightarrow> (\<exists>x. hr = Inr x)"
    by (auto simp: run_handler_def on_account_def AuthController_login_def replies_def)
  from login_new_session[OF good log new(1)] new(2) s' show ?thesis by fastforce
next
  case False
  let ?d = "\<lparr>sg_username = text_of (js_get b ''username''), sg_email = text_of (js_get b ''email''),
    sg_password = text_of (js_get b ''password'')\<rparr>"
  obtain r a where sign: "signup (account_env V) ?d req (account s) = (r, a)" by fastforce
  with run False h have s': "account s' = a" "\<forall>u. r = Inr u \<longrightarrow> (\<exists>x. hr = Inr x)"
    by (auto simp: run_handler_def on_account_def AuthController_signup_def replies_def)
  from signup_new_session[OF good sign new(1)] new(2) s' show ?thesis by fastforce
qed

lemma opening_request:
  assumes good: "auth_good (account_env V) (account s)" and q: "opens_session q"
    and run: "serve V q s = Some (resp, s')"
    and new: "session_user (kv (account s)) sid = None" "session_user (kv (account s')) sid = Some uid"
  shows "\<exists>u. hr_status resp = 201 \<and> u \<in> set (users (account s')) \<and> u_userId u = uid \<and>
    proved_by (account_env V) (text_of (js_get (aq_body q) ''email'')) (text_of (js_get (aq_body q) ''password'')) u \<and>
    res_cookies (account s') = [session_cookie (account_env V) sid]"
proof -
  from opens_session_route[OF q] obtain r params where
    r: "resolve all_routes (aq_method q) (aq_path q) = Some (r, params)" "opening_route r"
    "re_handler r \<in> {Auth_login, Auth_signup}" .
  let ?t = "tick (fresh s)"
  have gate: "guard_request (account_env V) (re_guard r) (aq_http q) (account (fresh s)) = (Inr (aq_http q), account (fresh s))"
    by (simp add: opening_routeD(1)[OF r(2)] guard_request_def run_route_def act_simps)
  obtain br s1 where input: "check_input V (re_input r) q (fresh s) = (br, s1)" by fastforce
  note s1 = opening_routeD(3)[OF r(2) input]
  have "fresh s\<lparr>account := account (fresh s)\<rparr> = fresh s" by simp
  then have route: "serve V q s = (case br of Inl ex \<Rightarrow> fail_request V q ex ?t
      | Inr b \<Rightarrow> (case run_handler V (re_handler r) params (aq_body q) (aq_http q) ?t of
            None \<Rightarrow> None
          | Some (Inl e, s2) \<Rightarrow> fail_request V q (exception_of (lib_exception V) e) s2
          | Some (Inr v, s2) \<Rightarrow> Some (\<lparr>hr_status = re_status r, hr_body = v\<rparr>, s2)))"
    using s1 input gate by (simp add: serve_fresh r(1) serve_route_def split: sum.split)
  have quiet: "session_user (kv (account ?t)) sid = None" using new(1) by simp
  with route run new(2) obtain b hr s2 where h: "br = Inr b"
    "run_handler V (re_handler r) params (aq_body q) (aq_http q) ?t = Some (hr, s2)"
    by (auto simp: fail_request_run split: sum.splits option.splits)
  have "auth_good (account_env V) (account ?t)" using good by (simp add: tick_def auth_good_def users_inv_def session_inv_def fresh_count)
  note opened = opening_handler[OF r(3) this h(2) quiet]
  have "session_user (kv (account s2)) sid = Some uid" using route run h new(2)
    by (auto simp: fail_request_run split: sum.splits)
  from opened[OF this] route run h show ?thesis by (auto simp: opening_routeD(2)[OF r(2)])
qed

section \<open>A login on the started server\<close>

lemma login_is_new:
  assumes "server_reachable V s" "server_env_ok V"
  shows "session_user (kv (account s)) (uuid_src (account_env V) (uuid_count (account s))) = None"
proof -
  note good = server_goodD(2)[OF server_reachable_good[OF assms]]
  then have "uuids_plain (account_env V)" by (simp add: session_good_def)
  with session_drawn[OF good] not_drawn_next show ?thesis by (metis option.exhaust)
qed

text \<open>Redis drops the session of the login.\<close>

lemma demo_expired:
  obtains s' sid s'' where "server_reachable demo_server_env s'" "session_user (kv (account s')) sid = Some ''x''"
    "server_runs demo_server_env s' s''" "session_user (kv (account s'')) sid = None" "sid \<noteq> []"
proof (rule demo_login)
  fix s q resp s' sid
  assume s: "server_reachable demo_server_env s" "running s" "serve demo_server_env q s = Some (resp, s')"
    "session_user (kv (account s')) sid = Some ''x''" "sid \<noteq> []"
  let ?s = "s'\<lparr>account := expire_key (session_key sid) (account s')\<rparr>"
  have "may_expire (session_key sid) (kv (account s'))" by (auto simp: may_expire_def)
  then have run: "server_runs demo_server_env s' ?s"
    by (rule server_runs.more[OF server_runs.nothing server_step.expires])
  have "session_user (kv (account ?s)) sid = None"
    by (intro session_user_null session_at_missing) (simp add: expire_key_def)
  with that[OF server_reachable.step[OF s(1) server_step.request[OF s(2,3)]] s(4) run] s(5) show thesis by blast
qed

section \<open>Properties\<close>

text \<open>
  C4. A session that ended never opens a guarded route again: whatever requests, messages, expiries and
  restarts follow, in any order, a request with its cookie is answered 401, and changes no account,
  no session, no device and no topic.
\<close>

theorem ended_sessions_refused:
  assumes "server_reachable V s0" "server_env_ok V" "session_user (kv (account s0)) sid = Some u"
    and "server_runs V s0 s1" "session_user (kv (account s1)) sid = None" "server_runs V s1 s2"
    and route: "resolve all_routes (aq_method q) (aq_path q) = Some (r, params)" "re_guard r \<noteq> Public"
    and cookie: "cookie_sid (account_env V) (aq_http q) = sid"
  shows "\<exists>resp s3. serve V q s2 = Some (resp, s3) \<and> hr_status resp = 401 \<and> panel s3 = panel s2 \<and>
    users (account s3) = users (account s2) \<and> kv (account s3) = kv (account s2) \<and> res_cookies (account s3) = []"
proof -
  have "session_user (kv (account s0)) sid \<noteq> None" using assms(3) by simp
  note good = ended_stays_ended[OF assms(1,2) this assms(4,5,6)]
  have "session_user (kv (account s2)) (cookie_sid (account_env V) (aq_http q)) = None"
    using server_goodD(4)[OF good] cookie by simp
  from serve_without_session[OF server_goodD(1)[OF good] route this] show ?thesis by auto
qed

theorem ended_sessions_refused_witness:
  "\<exists>s0 s1 sid resp s2. server_runs demo_server_env s0 s1 \<and> session_user (kv (account s0)) sid = Some ''x'' \<and>
    serve demo_server_env (demo_call GET [''users'', ''profile'', ''get''] JNull sid) s1 = Some (resp, s2) \<and> hr_status resp = 401"
proof (rule demo_expired)
  fix s0 sid s1
  assume s: "server_reachable demo_server_env s0" "session_user (kv (account s0)) sid = Some ''x''"
    "server_runs demo_server_env s0 s1" "session_user (kv (account s1)) sid = None"
  let ?q = "demo_call GET [''users'', ''profile'', ''get''] JNull sid"
  have "\<exists>r params. resolve all_routes (aq_method ?q) (aq_path ?q) = Some (r, params) \<and> re_guard r \<noteq> Public"
    by (simp add: route_defs)
  then obtain r params where "resolve all_routes (aq_method ?q) (aq_path ?q) = Some (r, params)" "re_guard r \<noteq> Public" by blast
  from ended_sessions_refused[OF s(1) demo_server_env_ok s(2,3,4) server_runs.nothing this] s(2,3)
  show ?thesis by fastforce
qed

text \<open>
  C1. Every session comes from the password of its account: when a step of the server makes a session
  of a user, the step is a request to one of the two routes that open sessions, its body has the email and
  the password of an active account, which bcrypt confirms, the session belongs to that account, and
  the answer is a 201 with the cookie of that session and no other.
\<close>

theorem session_traceback:
  assumes "server_reachable V s" "server_env_ok V" "server_step V s s'"
    and new: "session_user (kv (account s)) sid = None" "session_user (kv (account s')) sid = Some uid"
  shows "\<exists>q resp u. serve V q s = Some (resp, s') \<and> opens_session q \<and> hr_status resp = 201 \<and>
    u \<in> set (users (account s')) \<and> u_userId u = uid \<and>
    proved_by (account_env V) (text_of (js_get (aq_body q) ''email'')) (text_of (js_get (aq_body q) ''password'')) u \<and>
    res_cookies (account s') = [session_cookie (account_env V) sid]"
proof -
  note good = server_reachable_good[OF assms(1,2)]
  have "server_good V 0 {sid} s" by (rule server_good_from[OF good]) (simp_all add: new(1))
  moreover have "\<not> server_good V 0 {sid} s'" using server_goodD(4)[of V 0 "{sid}" s' sid] new(2) by auto
  ultimately obtain q resp where q: "serve V q s = Some (resp, s')" "opens_session q"
    using server_step_good[OF assms(3)] by blast
  with opening_request[OF server_goodD(1)[OF good] q(2,1) new] show ?thesis by blast
qed

theorem session_traceback_witness:
  "\<exists>s s' sid q resp u. server_step demo_server_env s s' \<and> session_user (kv (account s')) sid = Some ''x'' \<and>
    serve demo_server_env q s = Some (resp, s') \<and> hr_status resp = 201 \<and> u \<in> set (users (account s')) \<and> u_userId u = ''x''"
proof (rule demo_login)
  fix s q resp s' sid
  assume s: "server_reachable demo_server_env s" "running s" "serve demo_server_env q s = Some (resp, s')"
    "session_user (kv (account s')) sid = Some ''x''" "sid = uuid_src demo_auth_env (uuid_count (account s))"
  have "session_user (kv (account s)) sid = None" using login_is_new[OF s(1) demo_server_env_ok] s(5) by simp
  from session_traceback[OF s(1) demo_server_env_ok server_step.request[OF s(2,3)] this s(4)] server_step.request[OF s(2,3)] s(4)
  show ?thesis by blast
qed

end
