(* ===== verification/ServerDiscovery.thy ===== *)
theory ServerDiscovery
  imports ServerInvariant
begin

text \<open>
  A device from its discovery to the list of devices, over three inputs of the server: the request that
  searches, the message of the device, and the request that lists. What is between the two requests is the
  shared cache, so the session of the user has to survive the panel's use of it.
\<close>

section \<open>A session over the work of the panel\<close>

text \<open>The accounts are good and the session still opens a route, for the accounts as they are.\<close>

definition session_stays ::
  "'e auth_env_scheme \<Rightarrow> 'z auth_state_scheme \<Rightarrow> route_guard \<Rightarrow> string \<Rightarrow> nat \<Rightarrow> kv_store \<Rightarrow> bool" where
  "session_stays E a g sid n m \<longleftrightarrow> auth_good E (a\<lparr>uuid_count := n, kv := m\<rparr>) \<and> permitted g m sid"

lemma session_at_pending [simp]: "session_at (m(pending_key i := x)) sid = session_at m sid"
  by (simp add: session_at_def pending_key_other(1)[symmetric])

lemma permitted_pending [simp]: "permitted g (m(pending_key i := x)) sid = permitted g m sid"
  by (simp add: permitted_def session_roles_def cong: route_guard.case_cong)

lemma session_stays_closed: "cache_closed (session_stays E a g sid)"
  unfolding cache_closed_def session_stays_def
proof (intro conjI allI impI; elim conjE)
  fix n m assume g: "auth_good E (a\<lparr>uuid_count := n, kv := m\<rparr>)"
  have "a\<lparr>kv := m, uuid_count := Suc n\<rparr> = a\<lparr>uuid_count := Suc n, kv := m\<rparr>" by simp
  with auth_good_uuid[OF g] show "auth_good E (a\<lparr>uuid_count := Suc n, kv := m\<rparr>)" by (simp add: uuidv4_run)
next
  fix n m i x assume "auth_good E (a\<lparr>uuid_count := n, kv := m\<rparr>)"
  from auth_good_other_key[OF this, of "pending_key i" x]
  show "auth_good E (a\<lparr>uuid_count := n, kv := m(pending_key i := x)\<rparr>)" by simp
qed simp_all

lemma session_stays_panel:
  assumes "device_good D p" "auth_good E a" "permitted g (kv a) sid"
  shows "panel_good D (session_stays E a g sid) (share a p)"
proof -
  have "a\<lparr>uuid_count := uuid_count a, kv := kv a\<rparr> = a" by simp
  then have "session_stays E a g sid (uuid_count a) (kv a)" using assms(2,3) by (simp add: session_stays_def)
  with assms(1) session_stays_closed show ?thesis by (simp add: panel_good_def cache_good_def device_goodD(1))
qed

lemma session_stays_account:
  assumes "panel_good D (session_stays E a g sid) p"
  shows "auth_good E (share p a)" "permitted g (kv (share p a)) sid"
proof -
  have clock: "auth_good E (b\<lparr>clock_reads := c, starts := n, process_ended := e\<rparr>) = auth_good E b"
    for b :: "'z auth_state_scheme" and c n e
    by (simp add: auth_good_def users_inv_def session_inv_def)
  show "auth_good E (share p a)" "permitted g (kv (share p a)) sid"
    using assms by (simp_all add: panel_good_def cache_good_def session_stays_def share_account clock)
qed

lemma share_back [simp]: "share (share p a) p = p"
  by (simp add: share_def)

section \<open>The list of devices\<close>

lemma getAllSensors_run:
  assumes "device_env_ok E" "ds = filter (\<lambda>d. \<not> sn_isDeleted d) (sensors s)" "ds \<noteq> []"
  shows "getAllSensors E s = (Inr (ds, length ds), s)"
  using assms by (simp add: getAllSensors_def act_simps sensor_repo_simps)

lemma devices_request:
  assumes good: "auth_good (account_env V) (account s)" and pipe: "pipe_ok V"
    and sid: "cookie_sid (account_env V) (aq_http q) = sid"
    and yes: "permitted (Restricted [ENGINEER, ADMIN, SUPER_ADMIN]) (kv (account s)) sid"
    and env: "device_env_ok (panel_env V)"
    and ds: "ds = filter (\<lambda>d. \<not> sn_isDeleted d) (sensors (panel s))" "ds \<noteq> []"
    and q: "aq_method q = GET" "aq_path q = [''devices'', ''all'']"
  shows "\<exists>s'. serve V q s =
      Some (\<lparr>hr_status = 200, hr_body = Serialize (expose V) GetAllDevicesDto (devices_json (ds, length ds))\<rparr>, s') \<and>
    sensors (panel s') = sensors (panel s)"
proof -
  let ?r = "entry GET [Lit ''devices'', Lit ''all''] (Restricted [ENGINEER, ADMIN, SUPER_ADMIN]) NoInput Devices_getAllSensors"
  have route: "resolve all_routes (aq_method q) (aq_path q) = Some (?r, [])" by (simp add: q route_defs)
  have none: "input_rules (checks V) (re_input ?r) = None" by (simp add: input_rules_def)
  show ?thesis
  proof (cases rule: serve_permitted[OF good pipe route sid, unfolded none])
    case 1
    show ?case using yes by simp
  next
    case 2
    show ?case by simp
  next
    case (3 req w)
    have "ds = filter (\<lambda>d. \<not> sn_isDeleted d) (sensors (share (account w) (panel s)))" using ds(1) by simp
    note run = getAllSensors_run[OF env this ds(2)]
    show ?thesis
      using 3(5,8) by (simp add: run_handler_def on_panel_def DeviceController_getAllSensors_def replies_def run)
  qed
qed

section \<open>The message of a device\<close>

text \<open>An answer to the search \<open>r\<close> of \<open>user\<close> for the device \<open>d\<close>, as it is read at \<open>now\<close>.\<close>

definition answers_search :: "int \<Rightarrow> string \<Rightarrow> string \<Rightarrow> string \<Rightarrow> string \<Rightarrow> string \<Rightarrow> jsval \<Rightarrow> bool" where
  "answers_search now user r d tpc message v \<longleftrightarrow> endsWith tpc ''/discovery'' \<and> json_parse message = Some v \<and>
     dto_valid now DiscoveryResponseDto v \<and> js_get v ''requestId'' = JStr r \<and> js_get v ''userId'' = JStr user \<and>
     js_get (js_get v ''sensorData'') ''deviceId'' = JStr d \<and> CHR ''/'' \<notin> set d"

text \<open>The search ran on the panel and was answered: the device is recorded, and the session opens what it did.\<close>

lemma answered_search:
  fixes V w p i tpc message
  defines "s1 \<equiv> w\<lparr>account := share p (account w), panel := p\<rparr>"
  defines "s2 \<equiv> panel_act (broker_message (panel_env V) i tpc message) s1"
  assumes w: "auth_good (account_env V) (account w)" "permitted g (kv (account w)) sid"
    and up: "device_good (panel_env V) q" "live i q" "discovery_ready t q"
    and run: "discoverDevicesBroadcast (panel_env V) (JStr uid) (share (account w) q) = (Inr (), p)"
    and a: "answers_search (clock (panel_env V) (clock_reads (account s1))) uid
        (uuid_src (panel_env V) (uuid_count (share (account w) q))) d tpc message v"
    and new: "\<forall>x \<in> set (sensors q). sn_deviceId x \<noteq> JStr d"
  shows "auth_good (account_env V) (account s2)" "permitted g (kv (account s2)) sid"
    "sensors (panel s2) = sensors q @ [device_record (js_get v ''sensorData'')]"
proof -
  let ?D = "panel_env V" and ?q = "share (account w) q"
  let ?I = "panel_good ?D (session_stays (account_env V) (account w) g sid)"
  have up': "device_good ?D ?q" "live i ?q" "discovery_ready t ?q" using up by simp_all
  have "?I ?q" by (rule session_stays_panel[OF up(1) w])
  moreover have "keeps ?I (discoverDevicesBroadcast ?D (JStr uid))" by (intro keeps_panel device_requests_keep keeps_intros)
  ultimately have Ip: "?I p" using keepsD[of ?I _ ?q] run by fastforce
  have v: "endsWith tpc ''/discovery''" "json_parse message = Some v"
    "dto_valid (clock ?D (clock_reads p)) DiscoveryResponseDto v" "js_get v ''requestId'' = JStr (uuid_src ?D (uuid_count ?q))"
    "js_get v ''userId'' = JStr uid" "js_get (js_get v ''sensorData'') ''deviceId'' = JStr d" "CHR ''/'' \<notin> set d"
    using a by (simp_all add: answers_search_def s1_def share_def)
  have "\<forall>x \<in> set (sensors ?q). sn_deviceId x \<noteq> JStr d" using new by simp
  note round = discovery_round[OF device_goodD(1)[OF up(1)] up' run v this HOL.refl]
  have s2: "s2 = s1\<lparr>account := share (snd (broker_message ?D i tpc message p)) (account s1),
      panel := snd (broker_message ?D i tpc message p)\<rparr>"
    by (simp add: s2_def s1_def panel_act_def Let_def)
  have "i < length (clients p)" "message_id_ok message"
    using round(2) v(2,6,7) by (simp_all add: live_def message_id_ok_def response_id_ok_def)
  from session_stays_account[OF keeps_panel_message[OF Ip this]]
  show "auth_good (account_env V) (account s2)" "permitted g (kv (account s2)) sid" by (simp_all add: s2 s1_def share_def)
  show "sensors (panel s2) = sensors q @ [device_record (js_get v ''sensorData'')]" using round(5) by (simp add: s2)
qed

section \<open>Properties\<close>

text \<open>
  C6. A device that answers a search is in the list of devices, over the whole server: a search by a user
  with one of the three roles answers 201 and publishes one message with the user and a request id; whatever
  message then comes from the broker with that id, that user and a new device, valid under its class,
  the device is recorded, and the same session lists the devices that were there and the new one.
\<close>

theorem discovered_device_listed:
  assumes good: "auth_good (account_env V) (account s)" and pipe: "pipe_ok V"
    and sid: "cookie_sid (account_env V) (aq_http q) = sid" "sid \<noteq> []"
    and session: "session_user (kv (account s)) sid = Some uid" "session_roles (kv (account s)) sid = Some rs"
      "JStr (role_value r0) \<in> set rs" "r0 \<in> {ENGINEER, ADMIN, SUPER_ADMIN}"
    and panel: "device_good (panel_env V) (panel s)" "live i (panel s)" "discovery_ready t (panel s)"
    and q: "aq_method q = POST" "aq_path q = [''devices'', ''discover-broadcast'']"
    and q': "aq_method q' = GET" "aq_path q' = [''devices'', ''all'']" "cookie_sid (account_env V) (aq_http q') = sid"
    and r: "r = uuid_src (panel_env V) (uuid_count (account s))"
  shows "\<exists>s1 now. serve V q s = Some (\<lparr>hr_status = 201, hr_body = JUndefined\<rparr>, s1) \<and>
    sent_of i (panel s1) = sent_of i (panel s) @ [(discovery_name t, stringify (discovery_payload (JStr uid) r now))] \<and>
    (\<forall>tpc message v d. answers_search (clock (panel_env V) (clock_reads (account s1))) uid r d tpc message v \<longrightarrow>
       (\<forall>x \<in> set (sensors (panel s)). sn_deviceId x \<noteq> JStr d) \<longrightarrow>
       (let ds = filter (\<lambda>x. \<not> sn_isDeleted x) (sensors (panel s)) @ [device_record (js_get v ''sensorData'')] in
        \<exists>s3. serve V q' (panel_act (broker_message (panel_env V) i tpc message) s1) =
            Some (\<lparr>hr_status = 200, hr_body = Serialize (expose V) GetAllDevicesDto (devices_json (ds, length ds))\<rparr>, s3) \<and>
          sensors (panel s3) = sensors (panel s) @ [device_record (js_get v ''sensorData'')]))"
proof -
  let ?D = "panel_env V" and ?g = "Restricted [ENGINEER, ADMIN, SUPER_ADMIN]"
  from discovery_request[OF good pipe sid session panel q] obtain w p where
    w: "auth_good (account_env V) (account w)" "permitted ?g (kv (account w)) sid"
    and count: "uuid_count (account w) = uuid_count (account s)"
    and run: "discoverDevicesBroadcast ?D (JStr uid) (share (account w) (panel s)) = (Inr (), p)"
    and served: "serve V q s = Some (\<lparr>hr_status = 201, hr_body = JUndefined\<rparr>, w\<lparr>account := share p (account w), panel := p\<rparr>)"
    by blast
  let ?p = "share (account w) (panel s)" and ?s1 = "w\<lparr>account := share p (account w), panel := p\<rparr>"
  have r': "r = uuid_src ?D (uuid_count ?p)" using r count by simp
  have "device_good ?D ?p" "live i ?p" "discovery_ready t ?p" using panel by simp_all
  from discover_run[OF this, of "JStr uid"] run have "sent_of i (panel ?s1) = sent_of i (panel s) @
      [(discovery_name t, stringify (discovery_payload (JStr uid) r (clock ?D (clock_reads ?p))))]" by (auto simp: r')
  moreover have "let ds = filter (\<lambda>x. \<not> sn_isDeleted x) (sensors (panel s)) @ [device_record (js_get v ''sensorData'')] in
        \<exists>s3. serve V q' (panel_act (broker_message ?D i tpc message) ?s1) =
            Some (\<lparr>hr_status = 200, hr_body = Serialize (expose V) GetAllDevicesDto (devices_json (ds, length ds))\<rparr>, s3) \<and>
          sensors (panel s3) = sensors (panel s) @ [device_record (js_get v ''sensorData'')]"
    if a: "answers_search (clock ?D (clock_reads (account ?s1))) uid r d tpc message v"
      and new: "\<forall>x \<in> set (sensors (panel s)). sn_deviceId x \<noteq> JStr d" for tpc message v d
  proof -
    note s2 = answered_search[OF w panel run a[unfolded r'] new]
    have "\<not> sn_isDeleted (device_record (js_get v ''sensorData''))" by (simp add: device_record_def)
    then have "filter (\<lambda>x. \<not> sn_isDeleted x) (sensors (panel s)) @ [device_record (js_get v ''sensorData'')] =
        filter (\<lambda>x. \<not> sn_isDeleted x) (sensors (panel (panel_act (broker_message ?D i tpc message) ?s1)))"
      unfolding s2(3) by simp
    from devices_request[OF s2(1) pipe q'(3) s2(2) device_goodD(1)[OF panel(1)] this _ q'(1,2)] s2(3)
    show ?thesis by (simp add: Let_def)
  qed
  ultimately show ?thesis using served by blast
qed

text \<open>The answer of a device to a search of the demo administrator.\<close>

definition demo_found :: "string \<Rightarrow> jsval" where
  "demo_found r = js_set (demo_answer r) ''userId'' (JStr ''x'')"

lemma demo_found_answers:
  assumes "0 \<le> now" "r \<noteq> []"
  shows "answers_search now ''x'' r ''d1'' ''iot/Mqtt_Broker/broadcast/discovery'' (stringify (demo_found r)) (demo_found r)"
proof -
  have "json_ok (demo_found r)" by (simp add: demo_found_def demo_answer_def)
  from json_roundtrip[OF this] have "json_parse (stringify (demo_found r)) = Some (demo_found r)"
    by (simp add: demo_found_def demo_answer_def)
  moreover have "endsWith ''iot/Mqtt_Broker/broadcast/discovery'' ''/discovery''" by (simp add: endsWith_def)
  ultimately show ?thesis
    using assms by (simp add: answers_search_def demo_found_def demo_answer_def dto_valid_def DiscoveryResponseDto_def
        UserIdProperty_def ResponseIdProperty_def ResponseCodeProperty_def RequestIdProperty_def TimeStampProperty_def
        IsValidTimestampMillis_def IsValidEpochMillis_def)
qed

theorem discovered_device_listed_witness:
  "\<exists>(s :: server) sid s1 message s3 body. serve demo_server_env (demo_call POST [''devices'', ''discover-broadcast''] JNull sid) s =
      Some (\<lparr>hr_status = 201, hr_body = JUndefined\<rparr>, s1) \<and>
    serve demo_server_env (demo_call GET [''devices'', ''all''] JNull sid)
        (panel_act (broker_message demo_gateway_env 0 ''iot/Mqtt_Broker/broadcast/discovery'' message) s1) =
      Some (\<lparr>hr_status = 200, hr_body = body\<rparr>, s3) \<and> map sn_deviceId (sensors (panel s3)) = [JStr ''d1'']"
proof (rule demo_bob_session)
  fix a :: "unit auth_state_scheme" and sid
  assume a: "auth_good demo_auth_env a" "sid \<noteq> []" "session_user (kv a) sid = Some ''x''"
    "session_roles (kv a) sid = Some [JStr ''admin'', JStr ''test'']"
  let ?s = "demo_server a" and ?r = "uuid_src demo_gateway_env (uuid_count a)"
  let ?q = "demo_call POST [''devices'', ''discover-broadcast''] JNull sid" and ?q' = "demo_call GET [''devices'', ''all''] JNull sid"
  have r: "?r \<noteq> []" by (simp add: demo_gateway_env_def device_env.extend_def)
  have none: "sensors demo_gateway = []" using demo_device_up(4) by (simp add: demo_gateway_def device_state.extend_def gateway_state.fields_def)
  have panel: "device_good (panel_env demo_server_env) (panel ?s)" "live 0 (panel ?s)"
    "discovery_ready (broadcast_topic demo_device_env) (panel ?s)" by simp_all
  from discovered_device_listed[OF _ _ _ a(2) _ _ _ _ panel, of ?q "''x''" "[JStr ''admin'', JStr ''test'']" ADMIN ?q' ?r] a
  obtain s1 where s1: "serve demo_server_env ?q ?s = Some (\<lparr>hr_status = 201, hr_body = JUndefined\<rparr>, s1)"
    and listed: "\<forall>tpc message v. (\<exists>d. answers_search (clock demo_gateway_env (clock_reads (account s1))) ''x'' ?r d tpc message v) \<longrightarrow>
      (\<exists>s3. serve demo_server_env ?q' (panel_act (broker_message demo_gateway_env 0 tpc message) s1) =
        Some (\<lparr>hr_status = 200, hr_body = Serialize mem_expose GetAllDevicesDto
          (devices_json ([device_record (js_get v ''sensorData'')], Suc 0))\<rparr>, s3) \<and>
        sensors (panel s3) = [device_record (js_get v ''sensorData'')])"
    using none by (auto simp: Let_def)
  have "0 \<le> clock demo_gateway_env (clock_reads (account s1))" by (simp add: demo_gateway_env_def device_env.extend_def)
  from demo_found_answers[OF this r] listed obtain body s3 where
    "serve demo_server_env ?q' (panel_act (broker_message demo_gateway_env 0 ''iot/Mqtt_Broker/broadcast/discovery''
        (stringify (demo_found ?r))) s1) = Some (\<lparr>hr_status = 200, hr_body = body\<rparr>, s3)"
    "sensors (panel s3) = [device_record (js_get (demo_found ?r) ''sensorData'')]" by blast
  moreover have "sn_deviceId (device_record (js_get (demo_found ?r) ''sensorData'')) = JStr ''d1''"
    by (simp add: device_record_def demo_found_def demo_answer_def)
  ultimately show ?thesis using s1 by (intro exI conjI) (assumption | simp)+
qed

end
