(* ===== verification/Tokens.thy ===== *)
theory Tokens
  imports Auth
begin

text \<open>
  \<open>auth/token.service.ts\<close> and \<open>auth/middleware/token.middleware.ts\<close>: the tokens of the JWT mode, which
  the module provides and no route of this commit uses. Signing and verification are parameters, and so
  is what the database makes of the pattern of \<open>Like\<close>: nothing is assumed of it, since the configured
  driver of TypeORM is the one of MongoDB.
\<close>

section \<open>Data\<close>

record token_entity =
  tk_userId :: string
  tk_token :: string

record tokens_env = rt_env +
  token_repo :: "token_entity repo"
  blacklist_repo :: "string repo"
  like_match :: "string \<Rightarrow> string \<Rightarrow> bool"
  jwt_sign :: "jsval \<Rightarrow> exn + string"
  jwt_verify :: "string \<Rightarrow> exn + jsval"

text \<open>The collection of blacklisted tokens holds only the tokens themselves.\<close>

record tokens_state = runtime +
  token_rows :: "token_entity list"
  blacklist :: "string list"

definition on_tokens :: "(token_entity list, 'a) act \<Rightarrow> ('z tokens_state_scheme, 'a) act" where
  "on_tokens m = zoom token_rows (\<lambda>d. token_rows_update (\<lambda>_. d)) m"

definition on_blacklist :: "(string list, 'a) act \<Rightarrow> ('z tokens_state_scheme, 'a) act" where
  "on_blacklist m = zoom blacklist (\<lambda>d. blacklist_update (\<lambda>_. d)) m"

lemma on_tokens_run [act_simps]:
  "on_tokens m s = (fst (m (token_rows s)), s\<lparr>token_rows := snd (m (token_rows s))\<rparr>)"
  "on_blacklist b s = (fst (b (blacklist s)), s\<lparr>blacklist := snd (b (blacklist s))\<rparr>)"
  by (simp_all add: on_tokens_def on_blacklist_def zoom_run)

definition refresh_suffix :: string where
  "refresh_suffix = CHR ''.'' # token_type_value REFRESH_TOKEN"

section \<open>Access and refresh tokens\<close>

definition generateAccessToken ::
  "'e tokens_env_scheme \<Rightarrow> string \<Rightarrow> token_type \<Rightarrow> ('z tokens_state_scheme, string) act" where
  "generateAccessToken E userId type =
     lift_res (jwt_sign E (JObj [(''sub'', JStr userId), (''tokenType'', JStr (token_type_value type))]))"

definition delete_refresh_tokens ::
  "'e tokens_env_scheme \<Rightarrow> string \<Rightarrow> ('z tokens_state_scheme, unit) act" where
  "delete_refresh_tokens E userId =
     on_tokens (r_delete (token_repo E) (\<lambda>x. tk_userId x = userId \<and> like_match E (CHR ''%'' # refresh_suffix) (tk_token x)))"

definition storeRefreshToken ::
  "'e tokens_env_scheme \<Rightarrow> string \<Rightarrow> string \<Rightarrow> ('z tokens_state_scheme, unit) act" where
  "storeRefreshToken E userId token =
     bnd (delete_refresh_tokens E userId) (\<lambda>_.
     bnd (on_tokens (r_save (token_repo E) \<lparr>tk_userId = userId, tk_token = token\<rparr>)) (\<lambda>_. ok ()))"

definition generateRefreshToken ::
  "'e tokens_env_scheme \<Rightarrow> string \<Rightarrow> token_type \<Rightarrow> ('z tokens_state_scheme, string) act" where
  "generateRefreshToken E userId type =
     bnd (uuidv4 E) (\<lambda>uuid.
     let token = uuid @ CHR ''.'' # token_type_value type in
     bnd (storeRefreshToken E userId token) (\<lambda>_. ok token))"

definition storeAccessTokenInBlacklist ::
  "'e tokens_env_scheme \<Rightarrow> string \<Rightarrow> ('z tokens_state_scheme, unit) act" where
  "storeAccessTokenInBlacklist E accessToken =
     bnd (on_blacklist (r_save (blacklist_repo E) accessToken)) (\<lambda>_. ok ())"

definition find_token ::
  "'e tokens_env_scheme \<Rightarrow> string \<Rightarrow> ('z tokens_state_scheme, token_entity option) act" where
  "find_token E token = on_tokens (r_findOne (token_repo E) (\<lambda>x. tk_token x = token))"

definition validateRefreshToken ::
  "'e tokens_env_scheme \<Rightarrow> string \<Rightarrow> ('z tokens_state_scheme, string) act" where
  "validateRefreshToken E refreshToken =
     bnd (find_token E refreshToken) (\<lambda>token.
     if token = None then throw (UnauthorizedException ''Invalid Refresh Token'')
     else ok ''Token Is Valid'')"

definition refreshTheToken ::
  "'e tokens_env_scheme \<Rightarrow> string \<Rightarrow> string \<Rightarrow> ('z tokens_state_scheme, string) act" where
  "refreshTheToken E userId refreshToken =
     bnd (validateRefreshToken E (refreshToken @ refresh_suffix)) (\<lambda>_.
     bnd (generateRefreshToken E userId REFRESH_TOKEN) (\<lambda>newToken.
     ok (hd (js_split CHR ''.'' newToken))))"

definition invalidateRefreshToken ::
  "'e tokens_env_scheme \<Rightarrow> string \<Rightarrow> ('z tokens_state_scheme, string) act" where
  "invalidateRefreshToken E refreshToken =
     try_catch
       (bnd (on_tokens (r_delete (token_repo E) (\<lambda>x. tk_token x = refreshToken @ refresh_suffix))) (\<lambda>_.
        ok ''Record Deleted Successfully''))
       (\<lambda>_. throw (UnauthorizedException ''Refresh Token Invalidate Failed''))"

definition invalidateAllRefreshTokensForUser ::
  "'e tokens_env_scheme \<Rightarrow> string \<Rightarrow> ('z tokens_state_scheme, unit) act" where
  "invalidateAllRefreshTokensForUser E userId = delete_refresh_tokens E userId"

section \<open>Reset tokens\<close>

definition generatePasswordResetToken ::
  "'e tokens_env_scheme \<Rightarrow> string \<Rightarrow> ('z tokens_state_scheme, string) act" where
  "generatePasswordResetToken E userId =
     bnd (uuidv4 E) (\<lambda>uuid.
     bnd (on_tokens (r_save (token_repo E) \<lparr>tk_userId = userId, tk_token = uuid @ ''.reset''\<rparr>)) (\<lambda>_. ok uuid))"

definition validatePasswordResetToken ::
  "'e tokens_env_scheme \<Rightarrow> string \<Rightarrow> ('z tokens_state_scheme, string) act" where
  "validatePasswordResetToken E token =
     bnd (find_token E (token @ ''.reset'')) (\<lambda>record.
     case record of
       None \<Rightarrow> throw (UnauthorizedException ''Invalid or expired reset token'')
     | Some x \<Rightarrow> ok (tk_userId x))"

definition invalidatePasswordResetToken ::
  "'e tokens_env_scheme \<Rightarrow> string \<Rightarrow> ('z tokens_state_scheme, unit) act" where
  "invalidatePasswordResetToken E token = on_tokens (r_delete (token_repo E) (\<lambda>x. tk_token x = token @ ''.reset''))"

section \<open>TokenMiddleware\<close>

text \<open>The value is what \<open>req.userId\<close> is set to.\<close>

definition TokenMiddleware ::
  "'e tokens_env_scheme \<Rightarrow> http_request \<Rightarrow> ('z tokens_state_scheme, jsval) act" where
  "TokenMiddleware E req =
     (case rq_headers req ''authorization'' of
        JStr authorization \<Rightarrow>
          if authorization = [] then throw (UnauthorizedException ''Unauthorized'')
          else
            (case arr_get (js_split CHR '' '' authorization) 1 of
               None \<Rightarrow> throw (UnauthorizedException ''Token not found'')
             | Some token \<Rightarrow>
                 if token = [] then throw (UnauthorizedException ''Token not found'')
                 else
                   bnd (on_blacklist (r_findOne (blacklist_repo E) (\<lambda>t. t = token))) (\<lambda>tokenBlocked.
                   if tokenBlocked \<noteq> None then throw (UnauthorizedException ''Token blocked'')
                   else
                     bnd (lift_res (jwt_verify E token)) (\<lambda>payload.
                     if \<not> truthy payload then throw (UnauthorizedException ''Invalid token'')
                     else ok (js_get payload ''sub''))))
      | _ \<Rightarrow> throw (UnauthorizedException ''Unauthorized''))"

section \<open>A database\<close>

definition tokens_env_ok :: "'e tokens_env_scheme \<Rightarrow> bool" where
  "tokens_env_ok E \<longleftrightarrow> repo_ok (\<lambda>_. True) (token_repo E) \<and> repo_ok (\<lambda>_. True) (blacklist_repo E)"

text \<open>The rows a refresh leaves: those of other users and those the pattern does not match.\<close>

definition kept_rows :: "'e tokens_env_scheme \<Rightarrow> string \<Rightarrow> token_entity list \<Rightarrow> token_entity list" where
  "kept_rows E u = filter (\<lambda>x. \<not> (tk_userId x = u \<and> like_match E (CHR ''%'' # refresh_suffix) (tk_token x)))"

lemma kept_rows_others: "filter (\<lambda>x. tk_userId x \<noteq> u) (kept_rows E u xs) = filter (\<lambda>x. tk_userId x \<noteq> u) xs"
  by (simp add: kept_rows_def) (rule filter_cong, auto)

lemma tokens_run:
  assumes "tokens_env_ok E"
  shows "find_token E t s = (Inr (List.find (\<lambda>x. tk_token x = t) (token_rows s)), s)"
    "storeRefreshToken E u t s = (Inr (), s\<lparr>token_rows := kept_rows E u (token_rows s) @ [\<lparr>tk_userId = u, tk_token = t\<rparr>]\<rparr>)"
proof -
  note R = repo_ok_simps[of "\<lambda>_. True" "token_repo E"]
  have *: "repo_ok (\<lambda>_. True) (token_repo E)" using assms by (simp add: tokens_env_ok_def)
  show "find_token E t s = (Inr (List.find (\<lambda>x. tk_token x = t) (token_rows s)), s)"
    by (simp add: find_token_def act_simps R(2)[OF *])
  have "delete_refresh_tokens E u s = (Inr (), s\<lparr>token_rows := kept_rows E u (token_rows s)\<rparr>)"
    by (simp add: delete_refresh_tokens_def act_simps R(5)[OF *] kept_rows_def)
  then show "storeRefreshToken E u t s =
      (Inr (), s\<lparr>token_rows := kept_rows E u (token_rows s) @ [\<lparr>tk_userId = u, tk_token = t\<rparr>]\<rparr>)"
    by (simp add: storeRefreshToken_def act_simps R(3)[OF *])
qed

lemma validate_run:
  assumes "tokens_env_ok E"
  shows "validateRefreshToken E t s =
    (if t \<in> tk_token ` set (token_rows s) then (Inr ''Token Is Valid'', s)
     else (Inl (UnauthorizedException ''Invalid Refresh Token''), s))"
  using find_None_iff[of "\<lambda>x. tk_token x = t" "token_rows s"]
  by (auto simp: validateRefreshToken_def tokens_run[OF assms] act_simps)

end
