(* ===== verification/TokenContract.thy ===== *)
theory TokenContract
  imports Tokens
begin

text \<open>
  What the token service promises: rotation of refresh tokens, reset tokens, the blacklist.
\<close>

text \<open>
  C30. Any stored token is exchanged for a refresh token of whatever user is named: the token is not
  compared with the user. The answer is a fresh token of the named user, which is stored and valid; the
  rows of every other user stay as they are, so a token of another user is still valid after it was
  exchanged; and no other row is added. A token that is not stored is refused with nothing changed.
  Which earlier rows of the named user go is for the database, and nothing is said of it.
\<close>

theorem refresh_exchange:
  assumes env: "tokens_env_ok E" and uuid: "CHR ''.'' \<notin> set (uuid_src E (uuid_count s))"
  shows "if t @ refresh_suffix \<in> tk_token ` set (token_rows s)
    then \<exists>s'. refreshTheToken E u t s = (Inr (uuid_src E (uuid_count s)), s') \<and>
      \<lparr>tk_userId = u, tk_token = uuid_src E (uuid_count s) @ refresh_suffix\<rparr> \<in> set (token_rows s') \<and>
      fst (validateRefreshToken E (uuid_src E (uuid_count s) @ refresh_suffix) s') = Inr ''Token Is Valid'' \<and>
      filter (\<lambda>x. tk_userId x \<noteq> u) (token_rows s') = filter (\<lambda>x. tk_userId x \<noteq> u) (token_rows s) \<and>
      (\<forall>x \<in> set (token_rows s). tk_userId x \<noteq> u \<longrightarrow> fst (validateRefreshToken E (tk_token x) s') = Inr ''Token Is Valid'') \<and>
      set (token_rows s') \<subseteq> insert \<lparr>tk_userId = u, tk_token = uuid_src E (uuid_count s) @ refresh_suffix\<rparr> (set (token_rows s))
    else refreshTheToken E u t s = (Inl (UnauthorizedException ''Invalid Refresh Token''), s)"
proof (cases "t @ refresh_suffix \<in> tk_token ` set (token_rows s)")
  case False
  then show ?thesis by (simp add: refreshTheToken_def validate_run[OF env])
next
  case True
  let ?n = "uuid_src E (uuid_count s)"
  let ?new = "\<lparr>tk_userId = u, tk_token = ?n @ refresh_suffix\<rparr>"
  let ?s' = "s\<lparr>uuid_count := Suc (uuid_count s), token_rows := kept_rows E u (token_rows s) @ [?new]\<rparr>"
  have "hd (js_split CHR ''.'' (?n @ CHR ''.'' # token_type_value REFRESH_TOKEN)) = ?n"
    by (simp add: js_split_append_sep[OF uuid])
  then have run: "refreshTheToken E u t s = (Inr ?n, ?s')"
    using True by (simp add: refreshTheToken_def validate_run[OF env] generateRefreshToken_def act_simps
        tokens_run[OF env] refresh_suffix_def Let_def)
  have valid: "fst (validateRefreshToken E (tk_token x) ?s') = Inr ''Token Is Valid''" if "x \<in> set (token_rows ?s')" for x
    using imageI[OF that, of tk_token] by (simp only: validate_run[OF env] if_True fst_conv)
  have others: "filter (\<lambda>x. tk_userId x \<noteq> u) (token_rows ?s') = filter (\<lambda>x. tk_userId x \<noteq> u) (token_rows s)"
    by (simp add: kept_rows_others)
  have "fst (validateRefreshToken E (tk_token x) ?s') = Inr ''Token Is Valid''"
    if "x \<in> set (token_rows s)" "tk_userId x \<noteq> u" for x
    by (rule valid) (use that in \<open>simp add: kept_rows_def\<close>)
  moreover have "set (token_rows ?s') \<subseteq> insert ?new (set (token_rows s))" by (auto simp: kept_rows_def)
  moreover have "?new \<in> set (token_rows ?s')" by simp
  ultimately have "\<exists>s'. refreshTheToken E u t s = (Inr ?n, s') \<and> ?new \<in> set (token_rows s') \<and>
      fst (validateRefreshToken E (?n @ refresh_suffix) s') = Inr ''Token Is Valid'' \<and>
      filter (\<lambda>x. tk_userId x \<noteq> u) (token_rows s') = filter (\<lambda>x. tk_userId x \<noteq> u) (token_rows s) \<and>
      (\<forall>x \<in> set (token_rows s). tk_userId x \<noteq> u \<longrightarrow> fst (validateRefreshToken E (tk_token x) s') = Inr ''Token Is Valid'') \<and>
      set (token_rows s') \<subseteq> insert ?new (set (token_rows s))"
    using run others valid[of ?new] by (intro exI[of _ ?s']) (simp only: token_entity.simps HOL.simp_thms, blast)
  with True show ?thesis by (simp only: if_True)
qed

definition demo_tokens_env :: "unit tokens_env_scheme" where
  "demo_tokens_env = \<lparr>uuid_src = (\<lambda>n. replicate n CHR ''x''), clock = int, config = Map.empty,
     token_repo = mem_repo (\<lambda>_. True), blacklist_repo = mem_repo (\<lambda>_. True),
     like_match = (\<lambda>p t. False), jwt_sign = (\<lambda>v. Inr ''jwt''), jwt_verify = (\<lambda>t. Inr (JObj [(''sub'', JStr ''u1'')]))\<rparr>"

lemma demo_tokens_env_ok [simp]: "tokens_env_ok demo_tokens_env"
  by (simp add: tokens_env_ok_def demo_tokens_env_def)

text \<open>A token of \<open>u2\<close>, with which \<open>u1\<close> refreshes.\<close>

definition demo_tokens :: "unit tokens_state_scheme" where
  "demo_tokens = \<lparr>uuid_count = 3, clock_reads = 0, starts = 0, process_ended = False, token_rows = [\<lparr>tk_userId = ''u2'', tk_token = ''xx'' @ refresh_suffix\<rparr>],
     blacklist = []\<rparr>"

theorem refresh_exchange_witness:
  "\<exists>s'. refreshTheToken demo_tokens_env ''u1'' ''xx'' demo_tokens = (Inr ''xxx'', s') \<and>
     fst (validateRefreshToken demo_tokens_env (''xx'' @ refresh_suffix) s') = Inr ''Token Is Valid'' \<and>
     \<lparr>tk_userId = ''u1'', tk_token = ''xxx'' @ refresh_suffix\<rparr> \<in> set (token_rows s')"
proof -
  have u: "uuid_src demo_tokens_env (uuid_count demo_tokens) = ''xxx''"
    by (simp add: demo_tokens_env_def demo_tokens_def numeral_3_eq_3)
  have mem: "''xx'' @ refresh_suffix \<in> tk_token ` set (token_rows demo_tokens)"
    by (simp add: demo_tokens_def)
  have "CHR ''.'' \<notin> set (uuid_src demo_tokens_env (uuid_count demo_tokens))" by (simp add: u)
  from refresh_exchange[OF demo_tokens_env_ok this, of "''xx''" "''u1''"] mem obtain s' where
    "refreshTheToken demo_tokens_env ''u1'' ''xx'' demo_tokens = (Inr ''xxx'', s')"
    "\<lparr>tk_userId = ''u1'', tk_token = ''xxx'' @ refresh_suffix\<rparr> \<in> set (token_rows s')"
    "\<forall>x \<in> set (token_rows demo_tokens). tk_userId x \<noteq> ''u1'' \<longrightarrow>
       fst (validateRefreshToken demo_tokens_env (tk_token x) s') = Inr ''Token Is Valid''"
    unfolding u if_P[OF mem] by blast
  then show ?thesis by (auto simp: demo_tokens_def)
qed

section \<open>Reset tokens and the blacklist\<close>

lemma reset_token_roundtrip:
  assumes env: "tokens_env_ok E" and new: "uuid_src E (uuid_count s) @ ''.reset'' \<notin> tk_token ` set (token_rows s)"
  shows "\<exists>s'. generatePasswordResetToken E u s = (Inr (uuid_src E (uuid_count s)), s') \<and>
    validatePasswordResetToken E (uuid_src E (uuid_count s)) s' = (Inr u, s') \<and>
    (\<exists>s''. invalidatePasswordResetToken E (uuid_src E (uuid_count s)) s' = (Inr (), s'') \<and> token_rows s'' = token_rows s)"
proof -
  have R: "repo_ok (\<lambda>_. True) (token_repo E)" using env by (simp add: tokens_env_ok_def)
  let ?t = "\<lparr>tk_userId = u, tk_token = uuid_src E (uuid_count s) @ ''.reset''\<rparr>"
  have find: "List.find (\<lambda>x. tk_token x = uuid_src E (uuid_count s) @ ''.reset'') (token_rows s @ [?t]) = Some ?t"
  proof -
    have "List.find (\<lambda>x. tk_token x = uuid_src E (uuid_count s) @ ''.reset'') (token_rows s) = None"
      using new by (force simp: find_None_iff)
    then show ?thesis by (simp add: find_append)
  qed
  have "filter (\<lambda>x. tk_token x \<noteq> uuid_src E (uuid_count s) @ ''.reset'') (token_rows s) = token_rows s"
    using new by (auto simp: filter_id_conv image_iff)
  then show ?thesis
    by (simp add: generatePasswordResetToken_def act_simps repo_ok_simps[OF R] validatePasswordResetToken_def
        tokens_run(1)[OF env] find invalidatePasswordResetToken_def)
qed

lemma blacklisted_refused:
  assumes env: "tokens_env_ok E" and req: "rq_headers req ''authorization'' = JStr (''Bearer '' @ t)"
    and t: "t \<noteq> []" "CHR '' '' \<notin> set t"
  shows "\<exists>s'. storeAccessTokenInBlacklist E t s = (Inr (), s') \<and>
    TokenMiddleware E req s' = (Inl (UnauthorizedException ''Token blocked''), s')"
proof -
  have R: "repo_ok (\<lambda>_. True) (blacklist_repo E)" using env by (simp add: tokens_env_ok_def)
  have "js_split CHR '' '' (''Bearer'' @ CHR '' '' # t) = [''Bearer'', t]"
    using js_split_append_sep[of "CHR '' ''" "''Bearer''" t] js_split_no_sep[OF t(2)] by simp
  then have "arr_get (js_split CHR '' '' (''Bearer '' @ t)) 1 = Some t" by (simp add: arr_get_def)
  moreover have "List.find (\<lambda>x. x = t) (bs @ [t]) = Some t" for bs by (induction bs) auto
  ultimately show ?thesis
    using req t(1) by (simp add: storeAccessTokenInBlacklist_def act_simps repo_ok_simps[OF R] TokenMiddleware_def)
qed

end
