(* ===== verification/RedisPubSub.thy ===== *)
theory RedisPubSub
  imports Redis
begin

text \<open>
  The publish and subscribe half of \<open>redis/redis.service.ts\<close>. The second connection of the service, the
  subscriber, emits a \<open>message\<close> event for every message on a channel it is subscribed to; each call of
  \<open>subscribe\<close> adds one listener to it. What the connection makes of the two commands is a parameter.
\<close>

section \<open>The subscriber connection\<close>

record 'b bus =
  bs_subscribe :: "string \<Rightarrow> 'b \<Rightarrow> 'b"
  bs_unsubscribe :: "string \<Rightarrow> 'b \<Rightarrow> 'b"
  bs_receives :: "'b \<Rightarrow> string \<Rightarrow> bool"

text \<open>A connection is subscribed to a channel or not, however often it asked for it.\<close>

definition bus_ok :: "'b bus \<Rightarrow> bool" where
  "bus_ok B \<longleftrightarrow>
     (\<forall>c b. bs_receives B (bs_subscribe B c b) = (bs_receives B b)(c := True)) \<and>
     (\<forall>c b. bs_receives B (bs_unsubscribe B c b) = (bs_receives B b)(c := False))"

definition set_bus :: "string set bus" where
  "set_bus = \<lparr>bs_subscribe = insert, bs_unsubscribe = (\<lambda>c b. b - {c}), bs_receives = (\<lambda>b c. c \<in> b)\<rparr>"

lemma set_bus_ok [simp]: "bus_ok set_bus"
  by (auto simp: bus_ok_def set_bus_def fun_eq_iff)

section \<open>Operations\<close>

text \<open>A listener: its identity, the channel it compares with, and the callback it passes messages to.\<close>

record listener =
  ln_id :: nat
  ln_channel :: string
  ln_callback :: nat

text \<open>\<open>calls\<close> lists the calls of callbacks that were made.\<close>

record 'b pubsub_state =
  listeners :: "listener list"
  listeners_made :: nat
  connection :: 'b
  calls :: "(nat \<times> string) list"

definition pubsub_subscribe :: "'b bus \<Rightarrow> string \<Rightarrow> nat \<Rightarrow> ('b pubsub_state, listener) act" where
  "pubsub_subscribe B channel callback = (\<lambda>s.
     let h = \<lparr>ln_id = listeners_made s, ln_channel = channel, ln_callback = callback\<rparr> in
     (Inr h, s\<lparr>listeners := listeners s @ [h], listeners_made := Suc (listeners_made s),
        connection := bs_subscribe B channel (connection s)\<rparr>))"

text \<open>The function that \<open>subscribe\<close> returns.\<close>

definition pubsub_unsubscribe :: "'b bus \<Rightarrow> listener \<Rightarrow> ('b pubsub_state, unit) act" where
  "pubsub_unsubscribe B h = modify (\<lambda>s. s\<lparr>listeners := filter (\<lambda>l. l \<noteq> h) (listeners s),
     connection := bs_unsubscribe B (ln_channel h) (connection s)\<rparr>)"

definition message_text :: "jsval \<Rightarrow> string" where
  "message_text v = (case v of JStr t \<Rightarrow> t | _ \<Rightarrow> stringify v)"

text \<open>A message on a channel: every listener gets the event and compares the channel.\<close>

definition pubsub_handler :: "string \<Rightarrow> string \<Rightarrow> listener \<Rightarrow> (nat \<times> string) list" where
  "pubsub_handler chan msg h = (if chan = ln_channel h then [(ln_callback h, msg)] else [])"

definition pubsub_publish :: "'b bus \<Rightarrow> string \<Rightarrow> jsval \<Rightarrow> ('b pubsub_state, unit) act" where
  "pubsub_publish B channel message = modify (\<lambda>s.
     if bs_receives B (connection s) channel
     then s\<lparr>calls := calls s @ concat (map (pubsub_handler channel (message_text message)) (listeners s))\<rparr> else s)"

text \<open>
  Both connections are closed when the module is destroyed. What a call throws is logged and not passed
  on, and the second connection is then left open.
\<close>

definition redis_onModuleDestroy :: "('s, unit) act \<Rightarrow> ('s, unit) act \<Rightarrow> ('s, unit) act" where
  "redis_onModuleDestroy client_quit subscriber_quit =
     try_catch (bnd client_quit (\<lambda>_. subscriber_quit)) (\<lambda>err. ok ())"

lemma redis_shutdown:
  "redis_onModuleDestroy client_quit subscriber_quit s =
     (Inr (), case client_quit s of (Inl e, s') \<Rightarrow> s' | (Inr _, s') \<Rightarrow> snd (subscriber_quit s'))"
  by (auto simp: redis_onModuleDestroy_def act_simps bnd_run split: prod.split sum.split)

section \<open>Properties\<close>

text \<open>The callbacks of a channel, in the order of their subscription.\<close>

definition callbacks_of :: "string \<Rightarrow> 'b pubsub_state \<Rightarrow> nat list" where
  "callbacks_of c s = map ln_callback (filter (\<lambda>l. ln_channel l = c) (listeners s))"

lemma publish_calls:
  "calls (snd (pubsub_publish B c v s)) =
     calls s @ (if bs_receives B (connection s) c then map (\<lambda>f. (f, message_text v)) (callbacks_of c s) else [])"
proof -
  have "concat (map (pubsub_handler c m) ls) = map (\<lambda>f. (f, m)) (map ln_callback (filter (\<lambda>l. ln_channel l = c) ls))" for m ls
    by (induction ls) (auto simp: pubsub_handler_def)
  then show ?thesis by (simp add: pubsub_publish_def act_simps callbacks_of_def)
qed

text \<open>
  C31. While a callback is subscribed it gets every message of its channel, in order of subscription and
  none of another channel; but ending one subscription silences the channel for all others, which stay
  registered and hear again only when someone subscribes to it anew.
\<close>

theorem unsubscribe_silences_channel:
  assumes B: "bus_ok B" and s1: "pubsub_subscribe B c f s = (Inr h, s1)" and fresh: "h \<notin> set (listeners s)"
    and s2: "pubsub_unsubscribe B h s1 = (Inr (), s2)" and s3: "pubsub_subscribe B c g s2 = (Inr h', s3)"
  shows "calls (snd (pubsub_publish B c v s1)) = calls s @ map (\<lambda>x. (x, message_text v)) (callbacks_of c s @ [f]) \<and>
    calls (snd (pubsub_publish B c v s2)) = calls s \<and> callbacks_of c s2 = callbacks_of c s \<and>
    calls (snd (pubsub_publish B c v s3)) = calls s @ map (\<lambda>x. (x, message_text v)) (callbacks_of c s @ [g]) \<and>
    (d \<noteq> c \<longrightarrow> calls (snd (pubsub_publish B d v s2)) = calls (snd (pubsub_publish B d v s)))"
proof -
  have rec: "bs_receives B (bs_subscribe B c b) = (bs_receives B b)(c := True)"
    "bs_receives B (bs_unsubscribe B c b) = (bs_receives B b)(c := False)" for b
    using B by (simp_all add: bus_ok_def)
  have h: "ln_channel h = c" "ln_callback h = f" and s1': "s1 = s\<lparr>listeners := listeners s @ [h],
      listeners_made := Suc (listeners_made s), connection := bs_subscribe B c (connection s)\<rparr>"
    using s1 by (auto simp: pubsub_subscribe_def Let_def)
  have keep: "filter (\<lambda>l. l \<noteq> h) (listeners s) = listeners s" using fresh by (auto simp: filter_id_conv)
  have s2': "s2 = s1\<lparr>listeners := listeners s, connection := bs_unsubscribe B c (connection s1)\<rparr>"
    using s2 keep s1' h(1) by (simp add: pubsub_unsubscribe_def act_simps)
  have h': "ln_channel h' = c" "ln_callback h' = g" and s3': "s3 = s2\<lparr>listeners := listeners s2 @ [h'],
      listeners_made := Suc (listeners_made s2), connection := bs_subscribe B c (connection s2)\<rparr>"
    using s3 by (auto simp: pubsub_subscribe_def Let_def)
  have "callbacks_of d s2 = callbacks_of d s" for d by (simp add: callbacks_of_def s2')
  then show ?thesis
    by (simp add: publish_calls s1' s2' s3' rec callbacks_of_def h h')
qed

definition demo_pubsub :: "string set pubsub_state" where
  "demo_pubsub = snd (pubsub_subscribe set_bus ''alerts'' 7 \<lparr>listeners = [], listeners_made = 0, connection = {}, calls = []\<rparr>)"

theorem unsubscribe_silences_channel_witness:
  "\<exists>h s1 s2. pubsub_subscribe set_bus ''alerts'' 8 demo_pubsub = (Inr h, s1) \<and> pubsub_unsubscribe set_bus h s1 = (Inr (), s2) \<and>
     callbacks_of ''alerts'' s2 = [7] \<and> calls (snd (pubsub_publish set_bus ''alerts'' (JStr ''fire'') s2)) = []"
proof -
  obtain h s1 where s1: "pubsub_subscribe set_bus ''alerts'' 8 demo_pubsub = (Inr h, s1)" "h \<notin> set (listeners demo_pubsub)"
    by (simp add: pubsub_subscribe_def Let_def demo_pubsub_def)
  obtain s2 where s2: "pubsub_unsubscribe set_bus h s1 = (Inr (), s2)" by (simp add: pubsub_unsubscribe_def act_simps)
  obtain h' s3 where s3: "pubsub_subscribe set_bus ''alerts'' 9 s2 = (Inr h', s3)" by (simp add: pubsub_subscribe_def Let_def)
  have demo: "calls demo_pubsub = []" "callbacks_of ''alerts'' demo_pubsub = [7]"
    by (simp_all add: demo_pubsub_def pubsub_subscribe_def Let_def callbacks_of_def)
  from unsubscribe_silences_channel[OF set_bus_ok s1 s2 s3, of "JStr ''fire''"] s1(1) s2 demo show ?thesis by auto
qed

end
