(* ===== verification/SensorValues.thy ===== *)
theory SensorValues
  imports Enums JsValues
begin

text \<open>
  \<open>device/sensors\<close>, \<open>device/validation.service.ts\<close> and \<open>config/enum/measurement-unit.enum.ts\<close>: the JSON
  schemas of readings, the registry that is asked for the schema of a capability, and the units. The
  validator is the package Ajv; what its documentation says of the keywords used is \<open>schema_accepts\<close>.
\<close>

section \<open>Schemas\<close>

text \<open>A number with its bounds, a boolean, a string of an enumeration.\<close>

datatype property_schema = NumberProp "rat option" "rat option" | BooleanProp | StringProp "string list"

record object_schema =
  sc_required :: "string list"
  sc_properties :: "(string \<times> property_schema) list"
  sc_additionalProperties :: bool

definition reading_schema :: "rat \<Rightarrow> rat \<Rightarrow> object_schema" where
  "reading_schema lo hi = \<lparr>sc_required = [''value'', ''timestamp''],
     sc_properties = [(''value'', NumberProp (Some lo) (Some hi)), (''timestamp'', NumberProp None None)],
     sc_additionalProperties = False\<rparr>"

definition TemperatureSchema :: object_schema where "TemperatureSchema = reading_schema (- 50) 100"
definition HumiditySchema :: object_schema where "HumiditySchema = reading_schema 0 100"
definition PressureSchema :: object_schema where "PressureSchema = reading_schema 300 1100"
definition LightSchema :: object_schema where "LightSchema = reading_schema 0 100000"
definition CO2Schema :: object_schema where "CO2Schema = reading_schema 0 5000"
definition AmmoniaSchema :: object_schema where "AmmoniaSchema = reading_schema 0 500"

definition GPSSchema :: object_schema where
  "GPSSchema = \<lparr>sc_required = [''latitude'', ''longitude'', ''timestamp''],
     sc_properties = [(''latitude'', NumberProp (Some (- 90)) (Some 90)), (''longitude'', NumberProp (Some (- 180)) (Some 180)),
       (''timestamp'', NumberProp None None)],
     sc_additionalProperties = False\<rparr>"

definition MotionSchema :: object_schema where
  "MotionSchema = \<lparr>sc_required = [''detected'', ''timestamp''],
     sc_properties = [(''detected'', BooleanProp), (''timestamp'', NumberProp None None)], sc_additionalProperties = False\<rparr>"

definition RelayCommandSchema :: object_schema where
  "RelayCommandSchema = \<lparr>sc_required = [''state'', ''timestamp''],
     sc_properties = [(''state'', StringProp [''ON'', ''OFF'']), (''timestamp'', NumberProp None None)],
     sc_additionalProperties = False\<rparr>"

definition SensorSchemaRegistry :: "string \<rightharpoonup> object_schema" where
  "SensorSchemaRegistry = map_of
     [(''temperature'', TemperatureSchema), (''humidity'', HumiditySchema), (''pressure'', PressureSchema),
      (''lux'', LightSchema), (''MotionSchema'', MotionSchema), (''gps'', GPSSchema), (''co2'', CO2Schema),
      (''ammonia'', AmmoniaSchema), (''relay'', RelayCommandSchema)]"

text \<open>The errors of a compiled schema on a value; none when it is valid.\<close>

type_synonym ajv = "object_schema \<Rightarrow> jsval \<Rightarrow> string list"

record validation_outcome =
  vo_valid :: bool
  vo_errors :: "string list option"

definition validateSensorValue :: "ajv \<Rightarrow> device_capability \<Rightarrow> jsval \<Rightarrow> validation_outcome" where
  "validateSensorValue compile type data =
     (case SensorSchemaRegistry (capability_value type) of
        None \<Rightarrow> \<lparr>vo_valid = True, vo_errors = None\<rparr>
      | Some schema \<Rightarrow>
          let errors = compile schema data
          in \<lparr>vo_valid = (errors = []), vo_errors = (if errors = [] then None else Some errors)\<rparr>)"

section \<open>The keywords\<close>

definition property_accepts :: "property_schema \<Rightarrow> jsval \<Rightarrow> bool" where
  "property_accepts p v =
     (case p of
        NumberProp lo hi \<Rightarrow>
          (case v of
             JNum n \<Rightarrow> (case lo of None \<Rightarrow> True | Some l \<Rightarrow> l \<le> n) \<and> (case hi of None \<Rightarrow> True | Some h \<Rightarrow> n \<le> h)
           | _ \<Rightarrow> False)
      | BooleanProp \<Rightarrow> (case v of JBool _ \<Rightarrow> True | _ \<Rightarrow> False)
      | StringProp values \<Rightarrow> (case v of JStr t \<Rightarrow> t \<in> set values | _ \<Rightarrow> False))"

definition schema_accepts :: "object_schema \<Rightarrow> jsval \<Rightarrow> bool" where
  "schema_accepts S v =
     (case v of
        JObj kvs \<Rightarrow>
          list_all (\<lambda>k. k \<in> fst ` set kvs) (sc_required S) \<and>
          list_all (\<lambda>(k, p). k \<in> fst ` set kvs \<longrightarrow> property_accepts p (js_get v k)) (sc_properties S) \<and>
          (sc_additionalProperties S \<or> list_all (\<lambda>k. k \<in> fst ` set (sc_properties S)) (map fst kvs))
      | _ \<Rightarrow> False)"

definition ajv_ok :: "ajv \<Rightarrow> bool" where
  "ajv_ok compile \<longleftrightarrow> (\<forall>S v. compile S v = [] \<longleftrightarrow> schema_accepts S v)"

definition demo_ajv :: ajv where
  "demo_ajv S v = (if schema_accepts S v then [] else [''must be valid''])"

lemma demo_ajv_ok [simp]: "ajv_ok demo_ajv"
  by (simp add: ajv_ok_def demo_ajv_def)

section \<open>Properties\<close>

text \<open>An object with exactly a timestamp and the given properties, each in its range.\<close>

definition exactly :: "(string \<times> (jsval \<Rightarrow> bool)) list \<Rightarrow> jsval \<Rightarrow> bool" where
  "exactly ps v \<longleftrightarrow>
     (\<exists>kvs. v = JObj kvs \<and> set (map fst kvs) = insert ''timestamp'' (set (map fst ps)) \<and>
        (\<exists>t. js_get v ''timestamp'' = JNum t) \<and> (\<forall>(k, P) \<in> set ps. P (js_get v k)))"

definition in_range :: "rat \<Rightarrow> rat \<Rightarrow> jsval \<Rightarrow> bool" where
  "in_range lo hi v \<longleftrightarrow> (\<exists>n. v = JNum n \<and> lo \<le> n \<and> n \<le> hi)"

definition expected_reading :: "device_capability \<Rightarrow> jsval \<Rightarrow> bool" where
  "expected_reading c v =
     (case c of
        TEMPERATURE \<Rightarrow> exactly [(''value'', in_range (- 50) 100)] v
      | HUMIDITY \<Rightarrow> exactly [(''value'', in_range 0 100)] v
      | PRESSURE \<Rightarrow> exactly [(''value'', in_range 300 1100)] v
      | CO2 \<Rightarrow> exactly [(''value'', in_range 0 5000)] v
      | AMMONIA \<Rightarrow> exactly [(''value'', in_range 0 500)] v
      | GPS \<Rightarrow> exactly [(''latitude'', in_range (- 90) 90), (''longitude'', in_range (- 180) 180)] v
      | RELAY \<Rightarrow> exactly [(''state'', \<lambda>x. x \<in> {JStr ''ON'', JStr ''OFF''})] v
      | LIGHT \<Rightarrow> True
      | MOTION \<Rightarrow> True)"

lemma number_prop:
  "property_accepts (NumberProp (Some lo) (Some hi)) v \<longleftrightarrow> in_range lo hi v"
  "property_accepts (NumberProp None None) v \<longleftrightarrow> (\<exists>n. v = JNum n)"
  "property_accepts (StringProp [''ON'', ''OFF'']) v \<longleftrightarrow> v = JStr ''ON'' \<or> v = JStr ''OFF''"
  by (cases v; auto simp: property_accepts_def in_range_def)+

lemma reading_accepts: "schema_accepts (reading_schema lo hi) v \<longleftrightarrow> exactly [(''value'', in_range lo hi)] v"
  by (cases v) (auto simp: schema_accepts_def reading_schema_def exactly_def number_prop list_all_iff)

lemma gps_accepts:
  "schema_accepts GPSSchema v \<longleftrightarrow> exactly [(''latitude'', in_range (- 90) 90), (''longitude'', in_range (- 180) 180)] v"
  by (cases v) (auto simp: schema_accepts_def GPSSchema_def exactly_def number_prop list_all_iff)

lemma relay_accepts:
  "schema_accepts RelayCommandSchema v \<longleftrightarrow> exactly [(''state'', \<lambda>x. x \<in> {JStr ''ON'', JStr ''OFF''})] v"
  by (cases v) (auto simp: schema_accepts_def RelayCommandSchema_def exactly_def number_prop list_all_iff)

text \<open>
  C29. A reading is valid exactly when it is an object with a numeric timestamp and the value of its
  capability within the bounds, and nothing else; but a reading of light or motion is never checked,
  because the registry knows their schemas under other names.
\<close>

theorem sensor_values_checked:
  assumes "ajv_ok compile"
  shows "vo_valid (validateSensorValue compile c v) \<longleftrightarrow> expected_reading c v"
  using assms
  by (cases c) (simp_all add: validateSensorValue_def SensorSchemaRegistry_def expected_reading_def ajv_ok_def Let_def
      TemperatureSchema_def HumiditySchema_def PressureSchema_def CO2Schema_def AmmoniaSchema_def
      reading_accepts gps_accepts relay_accepts)

theorem sensor_values_checked_witness:
  "vo_valid (validateSensorValue demo_ajv TEMPERATURE (JObj [(''value'', JNum 100), (''timestamp'', JNum 1)])) \<and>
   \<not> vo_valid (validateSensorValue demo_ajv TEMPERATURE (JObj [(''value'', JNum 101), (''timestamp'', JNum 1)])) \<and>
   vo_valid (validateSensorValue demo_ajv LIGHT (JStr ''bright''))"
  unfolding sensor_values_checked[OF demo_ajv_ok]
  by (auto simp: expected_reading_def exactly_def in_range_def)

section \<open>Units\<close>

datatype measurement_unit =
    CELSIUS | FAHRENHEIT | KELVIN | PERCENTAGE | RELATIVE_HUMIDITY | PASCAL | HECTOPASCAL | MILLIBAR | BAR | PSI
  | ATMOSPHERE | MMHG | INHG | LUX | FOOT_CANDLE | LUMEN | CANDELA | METER | CENTIMETER | MILLIMETER | INCH | FOOT
  | DEGREE | RADIAN | PARTS_PER_MILLION | PARTS_PER_BILLION | PARTS_PER_TRILLION | MILLIGRAMS_PER_CUBIC_METER
  | MICROGRAMS_PER_CUBIC_METER | PERCENT_VOLUME | VOLT | MILLIVOLT | AMPERE | MILLIAMPERE | MICROAMPERE | WATT
  | MILLIWATT | KILOWATT | OHM | KILOHM | MEGOHM | HERTZ | KILOHERTZ | MEGAHERTZ | SECOND | MILLISECOND | MICROSECOND
  | MINUTE | HOUR | DAY | COUNT | UNIT_STATE | BOOLEAN | PERCENT_DUTY_CYCLE | UNIT_NONE | CUSTOM | UNKNOWN

fun getDefaultUnitForSensor :: "device_capability \<Rightarrow> measurement_unit" where
  "getDefaultUnitForSensor TEMPERATURE = CELSIUS"
| "getDefaultUnitForSensor HUMIDITY = PERCENTAGE"
| "getDefaultUnitForSensor PRESSURE = HECTOPASCAL"
| "getDefaultUnitForSensor LIGHT = LUX"
| "getDefaultUnitForSensor MOTION = COUNT"
| "getDefaultUnitForSensor CO2 = PARTS_PER_MILLION"
| "getDefaultUnitForSensor RELAY = UNIT_STATE"
| "getDefaultUnitForSensor GPS = DEGREE"
| "getDefaultUnitForSensor AMMONIA = PARTS_PER_MILLION"

text \<open>The type \<open>SensorUnitMap\<close>: the units a capability may have.\<close>

fun SensorUnitMap :: "device_capability \<Rightarrow> measurement_unit list" where
  "SensorUnitMap TEMPERATURE = [CELSIUS, FAHRENHEIT, KELVIN]"
| "SensorUnitMap HUMIDITY = [PERCENTAGE, RELATIVE_HUMIDITY]"
| "SensorUnitMap PRESSURE = [PASCAL, HECTOPASCAL, MILLIBAR, BAR, PSI]"
| "SensorUnitMap LIGHT = [LUX, FOOT_CANDLE, LUMEN]"
| "SensorUnitMap MOTION = [COUNT, BOOLEAN]"
| "SensorUnitMap CO2 = [PARTS_PER_MILLION, PARTS_PER_BILLION]"
| "SensorUnitMap RELAY = [UNIT_STATE, BOOLEAN]"
| "SensorUnitMap GPS = [DEGREE, METER]"
| "SensorUnitMap AMMONIA = [PARTS_PER_MILLION, PARTS_PER_BILLION, MILLIGRAMS_PER_CUBIC_METER]"

lemma default_unit_allowed: "getDefaultUnitForSensor c \<in> set (SensorUnitMap c)"
  by (cases c) simp_all

end
