(* ===== verification/LogHandler.thy ===== *)
theory LogHandler
  imports ExceptionFilter JsonRoundtrip
begin

text \<open>
  \<open>log-handler/log-handler.service.ts\<close> and the interceptor that uses it,
  \<open>common/interceptors/exception-handler.interceptor.ts\<close>: one line for each call, JSON with eight
  fields. The logger it extends is the framework's; the state is the list of calls it receives.
\<close>

section \<open>Data\<close>

datatype log_context = TOPIC | DATABASE | MESSAGE | LOG_BROADCAST | HARDWARE | MQTT | DISCOVERY | DEVICE | TELEMETRY | CACHE

fun log_context_value :: "log_context \<Rightarrow> string" where
  "log_context_value TOPIC = ''Topics''"
| "log_context_value DATABASE = ''Database''"
| "log_context_value MESSAGE = ''Message''"
| "log_context_value LOG_BROADCAST = ''Broadcast''"
| "log_context_value HARDWARE = ''Hardware_Status''"
| "log_context_value MQTT = ''MqttBroker''"
| "log_context_value DISCOVERY = ''Discovery''"
| "log_context_value DEVICE = ''Device''"
| "log_context_value TELEMETRY = ''Telemetry''"
| "log_context_value CACHE = ''Cache''"

datatype log_action = RETRIEVE | RESPONSE | REQUEST | PUBLISH | SUBSCRIBE | CREATE | LOG_DELETE

fun log_action_value :: "log_action \<Rightarrow> string" where
  "log_action_value RETRIEVE = ''retrieve''"
| "log_action_value RESPONSE = ''response''"
| "log_action_value REQUEST = ''request''"
| "log_action_value PUBLISH = ''publish''"
| "log_action_value SUBSCRIBE = ''subscribe''"
| "log_action_value CREATE = ''Create''"
| "log_action_value LOG_DELETE = ''Delete''"

datatype log_level = LevelError | LevelWarn | LevelInfo | LevelDebug

fun level_name :: "log_level \<Rightarrow> string" where
  "level_name LevelError = ''error''"
| "level_name LevelWarn = ''warn''"
| "level_name LevelInfo = ''info''"
| "level_name LevelDebug = ''debug''"

text \<open>The method of the framework's logger, the text, and the trace that only \<open>error\<close> gets.\<close>

record log_line =
  lg_method :: string
  lg_text :: string
  lg_trace :: jsval

record log_state = runtime +
  structured :: bool
  log_lines :: "log_line list"

section \<open>LogHandlerService\<close>

definition or_null :: "jsval \<Rightarrow> jsval" where
  "or_null v = js_coalesce v JNull"

definition action_value :: "log_action option \<Rightarrow> jsval" where
  "action_value a = (case a of None \<Rightarrow> JUndefined | Some x \<Rightarrow> JStr (log_action_value x))"

definition buildPayload ::
  "'e rt_env_scheme \<Rightarrow> log_level \<Rightarrow> log_context \<Rightarrow> jsval \<Rightarrow> log_action option \<Rightarrow> string \<Rightarrow> jsval \<Rightarrow> jsval \<Rightarrow>
     ('z runtime_scheme, jsval) act" where
  "buildPayload E level context identifier action status message meta =
     bnd (date_now E) (\<lambda>now.
     ok (JObj [(''timestamp'', JStr (toISOString now)), (''level'', JStr (level_name level)),
       (''context'', JStr (log_context_value context)), (''identifier'', or_null identifier),
       (''action'', or_null (action_value action)), (''status'', JStr status), (''message'', or_null message),
       (''meta'', or_null meta)]))"

text \<open>\<open>super.error(text, trace)\<close>, \<open>super.warn(text)\<close> and so on.\<close>

definition write_line :: "log_level \<Rightarrow> string \<Rightarrow> jsval \<Rightarrow> ('z log_state_scheme, unit) act" where
  "write_line level txt trace = modify (\<lambda>s. s\<lparr>log_lines := log_lines s @ [
     (case level of
        LevelError \<Rightarrow> \<lparr>lg_method = ''error'', lg_text = txt, lg_trace = trace\<rparr>
      | LevelWarn \<Rightarrow> \<lparr>lg_method = ''warn'', lg_text = txt, lg_trace = JUndefined\<rparr>
      | LevelDebug \<Rightarrow> \<lparr>lg_method = ''debug'', lg_text = txt, lg_trace = JUndefined\<rparr>
      | LevelInfo \<Rightarrow> \<lparr>lg_method = ''log'', lg_text = txt, lg_trace = JUndefined\<rparr>)]\<rparr>)"

definition human_text :: "jsval \<Rightarrow> string" where
  "human_text payload =
     (let parts = js_join '':::'' (map js_to_string (filter truthy [js_get payload ''status'',
        js_get payload ''identifier'', js_get payload ''context'', js_get payload ''action'']))
      in parts @ (if truthy (js_get payload ''message'') then '':::'' @ js_to_string (js_get payload ''message'') else []))"

definition log_output :: "log_level \<Rightarrow> jsval \<Rightarrow> jsval \<Rightarrow> ('z log_state_scheme, unit) act" where
  "log_output level payload trace =
     bnd (gets structured) (\<lambda>json.
     write_line level (if json then stringify payload else human_text payload) trace)"

definition logWithStatus ::
  "'e rt_env_scheme \<Rightarrow> log_level \<Rightarrow> log_context \<Rightarrow> jsval \<Rightarrow> log_action option \<Rightarrow> string \<Rightarrow> jsval \<Rightarrow> jsval \<Rightarrow> jsval \<Rightarrow>
     ('z log_state_scheme, unit) act" where
  "logWithStatus E level context identifier action status message meta trace =
     bnd (buildPayload E level context identifier action status message meta) (\<lambda>payload.
     log_output level payload trace)"

definition log_success where
  "log_success E context identifier action message meta =
     logWithStatus E LevelInfo context identifier action ''success'' message meta JUndefined"

definition log_info where
  "log_info E context identifier action message meta =
     logWithStatus E LevelInfo context identifier action ''info'' message meta JUndefined"

definition log_warn where
  "log_warn E context identifier action message meta =
     logWithStatus E LevelWarn context identifier action ''warn'' message meta JUndefined"

definition log_debug where
  "log_debug E context identifier action message meta =
     logWithStatus E LevelDebug context identifier action ''debug'' message meta JUndefined"

text \<open>The error is a text, an error object, or missing; reading the stack of null throws.\<close>

definition log_fail ::
  "'e rt_env_scheme \<Rightarrow> log_context \<Rightarrow> jsval \<Rightarrow> log_action option \<Rightarrow> jsval \<Rightarrow> jsval \<Rightarrow> ('z log_state_scheme, unit) act" where
  "log_fail E context identifier action error meta =
     (let msg = (case error of
                   JStr t \<Rightarrow> JStr t
                 | _ \<Rightarrow> js_coalesce (if nullish error then JUndefined else js_get error ''message'') (JStr ''Unknown error''))
      in if error = JNull then throw (JsError ''Cannot read properties of null'')
         else
           let trace = (if js_typeof error = ''object'' \<and> truthy (js_get error ''stack'') then js_get error ''stack'' else JUndefined)
           in logWithStatus E LevelError context identifier action ''failed'' msg meta trace)"

section \<open>ExceptionHandlerInterceptor\<close>

text \<open>\<open>getResponse()\<close> and \<open>getStatus()\<close> of an HTTP exception; other errors have neither.\<close>

definition http_parts :: "exception \<Rightarrow> (nat \<times> jsval) option" where
  "http_parts ex =
     (case ex of
        AppExn d status \<Rightarrow> Some (status, JObj [(''code'', JStr (ed_code d)), (''message'', JStr (ed_message d))])
      | BadRequestExn body \<Rightarrow> Some (400, body)
      | HttpExn status body \<Rightarrow> Some (status, body)
      | _ \<Rightarrow> None)"

definition fault_text :: "exception \<Rightarrow> string" where
  "fault_text ex =
     (let (status, message) =
        (case http_parts ex of
           None \<Rightarrow> (INTERNAL_SERVER_ERROR, JStr ''Internal server error'')
         | Some (status, response) \<Rightarrow>
             (status, case response of
                JStr t \<Rightarrow> JStr t
              | _ \<Rightarrow> js_coalesce (if nullish response then JUndefined else js_get response ''message'')
                       (JStr ''Internal server error'')))
      in ''['' @ show_nat status @ ''] '' @ js_to_string message)"

definition intercept ::
  "'e rt_env_scheme \<Rightarrow> (exn \<Rightarrow> exception) \<Rightarrow> string \<Rightarrow> string option \<Rightarrow> ('z log_state_scheme, 'a) act \<Rightarrow>
     ('z log_state_scheme, 'a) act" where
  "intercept E describe ctxType url handle =
     bnd (date_now E) (\<lambda>start.
     try_catch
       (bnd handle (\<lambda>x.
        bnd (date_now E) (\<lambda>now.
        bnd (if ctxType = ''http''
             then log_info E DEVICE (case url of None \<Rightarrow> JUndefined | Some u \<Rightarrow> JStr u) (Some RESPONSE)
                    (JStr (''Completed in '' @ show_int (now - start) @ ''ms'')) JUndefined
             else ok ()) (\<lambda>_. ok x))))
       (\<lambda>error.
        bnd (log_fail E MQTT (JStr (case url of None \<Rightarrow> js_upper ctxType | Some u \<Rightarrow> u)) (Some RESPONSE)
               (JStr (fault_text (describe error))) JUndefined) (\<lambda>_.
        throw error)))"

section \<open>Facts\<close>

text \<open>A structured line is JSON and reads back as the payload.\<close>

lemma log_line_roundtrip:
  assumes "structured s" "json_ok identifier" "json_ok message" "json_ok meta"
  shows "\<exists>line. logWithStatus E level context identifier action status message meta trace s =
      (Inr (), s\<lparr>clock_reads := Suc (clock_reads s), log_lines := log_lines s @ [line]\<rparr>) \<and>
    (\<exists>v. json_parse (lg_text line) = Some v \<and> js_get v ''level'' = JStr (level_name level) \<and>
       js_get v ''context'' = JStr (log_context_value context) \<and> js_get v ''status'' = JStr status \<and>
       js_get v ''timestamp'' = JStr (toISOString (clock E (clock_reads s))))"
proof -
  let ?v = "JObj [(''timestamp'', JStr (toISOString (clock E (clock_reads s)))), (''level'', JStr (level_name level)),
       (''context'', JStr (log_context_value context)), (''identifier'', or_null identifier),
       (''action'', or_null (action_value action)), (''status'', JStr status), (''message'', or_null message),
       (''meta'', or_null meta)]"
  have ok: "json_ok ?v"
    using assms(2-4) by (simp add: or_null_def js_coalesce_def action_value_def split: option.split)
  have null: "or_null x \<noteq> JUndefined" for x by (cases x) (simp_all add: or_null_def js_coalesce_def)
  have "json_parse (stringify ?v) = Some (as_json ?v)" by (rule json_roundtrip[OF ok])
  then show ?thesis using assms(1) null
    by (cases level) (auto simp: logWithStatus_def buildPayload_def act_simps log_output_def write_line_def
        simp del: stringify.simps)
qed

text \<open>The interceptor passes the outcome of the handler on and writes one line.\<close>

lemma intercept_outcome:
  assumes "handle (s\<lparr>clock_reads := Suc (clock_reads s)\<rparr>) = (r, s1)"
  shows "fst (intercept E describe ''http'' url handle s) = r \<and>
    length (log_lines (snd (intercept E describe ''http'' url handle s))) = Suc (length (log_lines s1))"
  using assms
  by (cases r) (simp_all add: intercept_def act_simps log_info_def log_fail_def logWithStatus_def buildPayload_def
      log_output_def write_line_def Let_def)

end
