(* ===== verification/BodyTypes.thy ===== *)
theory BodyTypes
  imports AccountControllers
begin

text \<open>
  What handlers may assume of a body the validation pipe let through, for the classes of signups, broker
  configurations, publications, password resets and role assignments: the types and bounds of what is read.
\<close>

abbreviation prop_of :: "jsval \<Rightarrow> string \<Rightarrow> jsval" where
  "prop_of b k \<equiv> js_get (empty_if_nil b) k"

lemma string_property:
  assumes "pipe_accepts now rules b" "(f, vs) \<in> set rules" "IsOptional \<notin> set vs" "IsString \<in> set vs"
  shows "\<exists>t. prop_of b f = JStr t"
  using pipe_property[OF assms] by (cases "prop_of b f") simp_all

lemma filled_property:
  assumes "pipe_accepts now rules b" "(f, vs) \<in> set rules" "IsOptional \<notin> set vs" "IsNotEmpty \<in> set vs"
  shows "prop_of b f \<noteq> JStr [] \<and> \<not> nullish (prop_of b f)"
  using pipe_property[OF assms] by simp

lemma text_property:
  assumes "pipe_accepts now rules b" "(f, vs) \<in> set rules" "IsOptional \<notin> set vs" "IsString \<in> set vs" "IsNotEmpty \<in> set vs"
  shows "\<exists>t. prop_of b f = JStr t \<and> t \<noteq> []"
  using string_property[OF assms(1-4)] filled_property[OF assms(1-3,5)] by auto

lemma number_property:
  assumes "pipe_accepts now rules b" "(f, vs) \<in> set rules" "IsOptional \<notin> set vs" "IsNumber \<in> set vs"
  shows "\<exists>n. prop_of b f = JNum n"
  using pipe_property[OF assms] by (cases "prop_of b f") simp_all

lemma boolean_property:
  assumes "pipe_accepts now rules b" "(f, vs) \<in> set rules" "IsOptional \<notin> set vs" "IsBoolean \<in> set vs"
  shows "\<exists>n. prop_of b f = JBool n"
  using pipe_property[OF assms] by (cases "prop_of b f") simp_all

lemma role_of_value: "v = JStr t \<Longrightarrow> t \<in> set (map role_value all_roles) \<Longrightarrow> role_of v \<noteq> None"
  by (auto simp: role_of_def find_None_iff)

lemma roles_of_list_total:
  "(\<And>v. v \<in> set vs \<Longrightarrow> role_of v \<noteq> None) \<Longrightarrow> \<exists>rs. roles_of_list vs = Some rs \<and> length rs = length vs"
proof (induction vs)
  case (Cons v vs)
  from Cons.prems[of v] obtain r where "role_of v = Some r" by auto
  moreover from Cons obtain rs where "roles_of_list vs = Some rs" "length rs = length vs" by auto
  ultimately show ?case by simp
qed simp

text \<open>The roles of a validated body are roles: the three role routes never leave what is modelled.\<close>

lemma assigned_roles:
  assumes "pipe_accepts now AssignRolesDto b"
  shows "\<exists>rs. roles_of (prop_of b ''roles'') = Some rs \<and> 1 \<le> length rs \<and> length rs \<le> 5"
proof -
  note p = pipe_property[OF assms, of "''roles''" "[IsArray, Each (IsEnum (map role_value all_roles)), ArrayMinSize 1,
     ArrayMaxSize (length all_roles)]"]
  have mem: "(''roles'', [IsArray, Each (IsEnum (map role_value all_roles)), ArrayMinSize 1,
     ArrayMaxSize (length all_roles)]) \<in> set AssignRolesDto" by (simp add: AssignRolesDto_def)
  have opt: "IsOptional \<notin> set [IsArray, Each (IsEnum (map role_value all_roles)), ArrayMinSize 1, ArrayMaxSize (length all_roles)]"
    by (simp add: Each_def ArrayMinSize_def ArrayMaxSize_def)
  from p[OF mem opt, of IsArray] obtain vs where vs: "prop_of b ''roles'' = JArr vs"
    by (cases "prop_of b ''roles''") simp_all
  have "\<exists>t. v = JStr t \<and> t \<in> set (map role_value all_roles)" if "v \<in> set vs" for v
    using p[OF mem opt, of "Each (IsEnum (map role_value all_roles))"] vs that
    by (cases v) (auto simp: Each_def list_all_iff)
  then have "role_of v \<noteq> None" if "v \<in> set vs" for v using that role_of_value by blast
  from roles_of_list_total[OF this] obtain rs where rs: "roles_of_list vs = Some rs" "length rs = length vs" by blast
  have "1 \<le> length vs" "length vs \<le> 5"
    using p[OF mem opt, of "ArrayMinSize 1"] p[OF mem opt, of "ArrayMaxSize (length all_roles)"] vs
    by (simp_all add: ArrayMinSize_def ArrayMaxSize_def all_roles_def)
  with rs vs show ?thesis by (simp add: roles_of_def)
qed

lemmas dto_defs = SignupDto_def MqttConfigDto_def MqttPublishDto_def ResetPasswordDto_def RequiredString_def RequiredNumber_def

lemma signup_typed:
  assumes "pipe_accepts now (SignupDto T) b"
  shows "(\<exists>u. prop_of b ''username'' = JStr u \<and> u \<noteq> []) \<and> (\<exists>e. prop_of b ''email'' = JStr e \<and> is_email T e) \<and>
    (\<exists>p. prop_of b ''password'' = JStr p \<and> p \<noteq> [])"
proof -
  have "passes now (prop_of b ''email'') (IsEmail T)"
    by (rule pipe_property[OF assms, of _ "[IsEmail T, IsNotEmpty]"]) (simp_all add: dto_defs IsEmail_def)
  then have "\<exists>e. prop_of b ''email'' = JStr e \<and> is_email T e"
    by (cases "prop_of b ''email''") (simp_all add: IsEmail_def)
  moreover have "\<exists>u. prop_of b ''username'' = JStr u \<and> u \<noteq> []" "\<exists>p. prop_of b ''password'' = JStr p \<and> p \<noteq> []"
    by (rule text_property[OF assms, of _ RequiredString]; simp add: dto_defs)+
  ultimately show ?thesis by simp
qed

lemma broker_config_typed:
  assumes "pipe_accepts now MqttConfigDto b"
  shows "(\<exists>h. prop_of b ''host'' = JStr h \<and> h \<noteq> []) \<and> (\<exists>p. prop_of b ''port'' = JNum p \<and> 1 \<le> p \<and> p \<le> 65535)"
proof -
  let ?port = "RequiredNumber @ [MinNumber 1, MaxNumber 65535]"
  have mem: "(''port'', ?port) \<in> set MqttConfigDto" "IsOptional \<notin> set ?port"
    by (simp_all add: dto_defs MinNumber_def MaxNumber_def)
  have "passes now (prop_of b ''port'') IsNumber" "passes now (prop_of b ''port'') (MinNumber 1)"
    "passes now (prop_of b ''port'') (MaxNumber 65535)"
    by (rule pipe_property[OF assms mem]; simp add: dto_defs)+
  then have "\<exists>p. prop_of b ''port'' = JNum p \<and> 1 \<le> p \<and> p \<le> 65535"
    by (cases "prop_of b ''port''") (simp_all add: MinNumber_def MaxNumber_def)
  moreover have "\<exists>h. prop_of b ''host'' = JStr h \<and> h \<noteq> []"
    by (rule text_property[OF assms, of _ RequiredString]) (simp_all add: dto_defs)
  ultimately show ?thesis by simp
qed

lemma publish_typed:
  assumes "pipe_accepts now MqttPublishDto b"
  shows "(\<exists>t. prop_of b ''topic'' = JStr t \<and> t \<noteq> []) \<and> (\<exists>n. prop_of b ''qos'' = JNum n) \<and>
    (\<exists>r. prop_of b ''retain'' = JBool r) \<and> \<not> nullish (prop_of b ''message'')"
proof -
  have "\<exists>t. prop_of b ''topic'' = JStr t \<and> t \<noteq> []"
    by (rule text_property[OF assms, of _ RequiredString]) (simp_all add: dto_defs)
  moreover have "\<exists>n. prop_of b ''qos'' = JNum n"
    by (rule number_property[OF assms, of _ RequiredNumber]) (simp_all add: dto_defs)
  moreover have "\<exists>r. prop_of b ''retain'' = JBool r"
    by (rule boolean_property[OF assms, of _ "[IsBoolean, IsNotEmpty]"]) (simp_all add: dto_defs)
  moreover have "\<not> nullish (prop_of b ''message'')"
    using filled_property[OF assms, of "''message''" "[IsNotEmpty]"] by (simp add: dto_defs)
  ultimately show ?thesis by simp
qed

lemma reset_typed:
  assumes "pipe_accepts now ResetPasswordDto b" "f \<in> {''newPassword'', ''retypePassword''}"
  shows "\<exists>p. prop_of b f = JStr p \<and> 6 \<le> length p"
proof -
  have "passes now (prop_of b f) (MinLength 6)"
    by (rule pipe_property[OF assms(1), of _ "[IsString, MinLength 6]"])
      (use assms(2) in \<open>auto simp: dto_defs MinLength_def\<close>)
  then show ?thesis by (cases "prop_of b f") (simp_all add: MinLength_def)
qed

end
