(* ===== verification/MessageDtos.thy ===== *)
theory MessageDtos
  imports RequestDtos
begin

text \<open>
  The classes of \<open>device/dto\<close>, \<open>redis/dto\<close> and \<open>responser/dto\<close> that no route takes as its body: messages
  to devices, what a configuration consists of, the answer to a diagnosis, a cached request. They type
  what the services send and keep; \<open>MessageConformance\<close> compares them with what is sent.
\<close>

section \<open>More decorators\<close>

text \<open>Whether a text is an IPv4 address or names a time zone is for the package to say.\<close>

record network_checks = text_checks +
  is_ipv4 :: "string \<Rightarrow> bool"
  is_time_zone :: "string \<Rightarrow> bool"

definition IsIP4 :: "network_checks \<Rightarrow> validator" where
  "IsIP4 T = Custom (\<lambda>_ v. case v of JStr t \<Rightarrow> is_ipv4 T t | _ \<Rightarrow> False)"

definition IsTimeZone :: "network_checks \<Rightarrow> validator" where
  "IsTimeZone T = Custom (\<lambda>_ v. case v of JStr t \<Rightarrow> is_time_zone T t | _ \<Rightarrow> False)"

definition IsDate :: validator where
  "IsDate = Custom (\<lambda>_ v. case v of JDate _ \<Rightarrow> True | _ \<Rightarrow> False)"

text \<open>An enumeration of numbers also has its names as values, by the reverse mapping.\<close>

definition log_levels :: "(string \<times> rat) list" where
  "log_levels = [(''DEBUG'', 1), (''INFO'', 2), (''WARN'', 3), (''ERROR'', 4), (''FATAL'', 5)]"

definition IsLogLevel :: validator where
  "IsLogLevel = Custom (\<lambda>_ v. case v of JNum n \<Rightarrow> n \<in> snd ` set log_levels | JStr t \<Rightarrow> t \<in> fst ` set log_levels | _ \<Rightarrow> False)"

definition diagnostic_levels :: "string list" where
  "diagnostic_levels = [''basic'', ''standard'', ''full'', ''deep'']"

definition diagnostic_components :: "string list" where
  "diagnostic_components = [''wifi'', ''sensors'', ''controllers'', ''memory'', ''cpu'', ''mqtt'', ''ota'', ''firmware'', ''power'']"

definition diagnostic_statuses :: "string list" where
  "diagnostic_statuses = [''success'', ''failure'', ''partial'']"

definition protocols :: "string list" where
  "protocols = [''MQTT'', ''HTTP'', ''MODBUS_TCP'', ''MODBUS_RTU'']"

section \<open>Messages to devices\<close>

definition DiscoverFilterDto :: dto_rules where
  "DiscoverFilterDto = [(''subnet'', [IsOptional, IsString]), (''hardware'', [IsOptional, IsArray, Each IsString])]"

definition PublishDiscoveryBroadcastDto :: dto_rules where
  "PublishDiscoveryBroadcastDto =
     [(''userId'', UserIdProperty), (''requestId'', RequestIdProperty), (''requestCode'', RequestCodeProperty),
      (''timestamp'', TimeStampProperty), (''isBroadcast'', [IsBoolean, IsNotEmpty]),
      (''filters'', [IsOptional, ValidateNested DiscoverFilterDto])]"

definition PublishDiscoveryUnicastDto :: dto_rules where
  "PublishDiscoveryUnicastDto =
     [(''userId'', UserIdProperty), (''requestId'', RequestIdProperty), (''requestCode'', RequestCodeProperty),
      (''deviceId'', DeviceIdProperty), (''timestamp'', TimeStampProperty), (''isBroadcast'', [IsBoolean, IsNotEmpty]),
      (''filters'', [IsOptional, ValidateNested DiscoverFilterDto])]"

definition publishHardwareStatusDto :: dto_rules where
  "publishHardwareStatusDto =
     [(''userId'', UserIdProperty), (''requestId'', RequestIdProperty), (''requestCode'', RequestCodeProperty),
      (''deviceId'', DeviceIdProperty), (''timestamp'', TimeStampProperty)]"

definition PublishGetDeviceConfigDto :: dto_rules where
  "PublishGetDeviceConfigDto =
     [(''userId'', UserIdProperty), (''requestId'', RequestIdProperty), (''requestCode'', RequestCodeProperty),
      (''deviceId'', DeviceIdProperty), (''timestamp'', TimeStampProperty)]"

definition PublishDeviceRebootDto :: dto_rules where
  "PublishDeviceRebootDto =
     [(''userId'', UserIdProperty), (''requestId'', RequestIdProperty), (''requestCode'', RequestCodeProperty),
      (''deviceId'', DeviceIdProperty), (''timestamp'', TimeStampProperty), (''reason'', OptionalString)]"

definition PublishFwUpgradeDto :: "text_checks \<Rightarrow> dto_rules" where
  "PublishFwUpgradeDto T =
     [(''userId'', UserIdProperty), (''requestId'', RequestIdProperty), (''requestCode'', RequestCodeProperty),
      (''deviceId'', DeviceIdProperty), (''timestamp'', TimeStampProperty), (''version'', RequiredString),
      (''url'', [IsUrl T]), (''size'', RequiredNumber), (''checksum'', RequiredString), (''signature'', RequiredString),
      (''releaseNotes'', OptionalString), (''forceUpdate'', [IsOptional, IsBoolean])]"

definition PublishAutoDiagDto :: dto_rules where
  "PublishAutoDiagDto =
     [(''userId'', UserIdProperty), (''requestId'', RequestIdProperty), (''requestCode'', RequestCodeProperty),
      (''deviceId'', DeviceIdProperty), (''timestamp'', TimeStampProperty),
      (''diagnosticLevel'', [IsNotEmpty, IsEnum diagnostic_levels]),
      (''components'', [IsOptional, IsArray, Each (IsEnum diagnostic_components)])]"

definition ComponentDiagnosticResultDto :: dto_rules where
  "ComponentDiagnosticResultDto = [(''component'', [IsEnum diagnostic_components]), (''status'', [IsEnum diagnostic_statuses]),
     (''details'', OptionalString)]"

definition AutoDiagnosticResponseDto :: dto_rules where
  "AutoDiagnosticResponseDto =
     [(''userId'', UserIdProperty), (''responseId'', ResponseIdProperty), (''responseCode'', ResponseCodeProperty),
      (''requestId'', RequestIdProperty), (''deviceId'', DeviceIdProperty), (''timestamp'', TimeStampProperty),
      (''diagnosticLevel'', [IsEnum diagnostic_levels]), (''diagStatus'', [IsEnum diagnostic_statuses]),
      (''results'', [IsOptional, IsArray, Each (ValidateNested ComponentDiagnosticResultDto)])]"

section \<open>Configuration of a device\<close>

definition ThresholdDto :: dto_rules where
  "ThresholdDto = [(''high'', OptionalNumber), (''low'', OptionalNumber), (''unit'', OptionalString)]"

definition NetworkConfigDto :: "network_checks \<Rightarrow> dto_rules" where
  "NetworkConfigDto T =
     [(''macAddress'', [IsOptional, IsString]), (''wifiSsid'', [IsString, IsOptional]),
      (''wifiPassword'', [IsString, IsOptional]), (''dhcp'', [IsBoolean, IsOptional]), (''ip'', [IsIP4 T, IsOptional]),
      (''subnetMask'', [IsOptional]), (''gateway'', [IsIP4 T, IsOptional]), (''dnsServer1'', [IsIP4 T, IsOptional]),
      (''dnsServer2'', [IsIP4 T, IsOptional]), (''accessPointSsid'', [IsOptional, IsString]),
      (''accessPointPassword'', [IsOptional, IsString])]"

definition LoggingConfigDto :: dto_rules where
  "LoggingConfigDto = [(''level'', [IsLogLevel, IsOptional]), (''enableSerial'', [IsBoolean, IsOptional]),
     (''buadrate'', OptionalNumber), (''externalServer'', OptionalString)]"

definition OtaConfigDto :: dto_rules where
  "OtaConfigDto = [(''enabled'', [IsBoolean, IsOptional]), (''url'', OptionalString), (''checkInterval'', OptionalNumber)]"

definition BrokerConfigDto :: dto_rules where
  "BrokerConfigDto = [(''broker'', OptionalString), (''username'', OptionalString), (''password'', OptionalString),
     (''broadcastTopic'', RequiredString)]"

definition SensorConfigDto_rules :: "network_checks \<Rightarrow> dto_rules" where
  "SensorConfigDto_rules T =
     [(''deviceId'', DeviceIdProperty), (''threshold'', [ValidateNested ThresholdDto, IsOptional]),
      (''baseTopic'', OptionalString), (''network'', [IsOptional, ValidateNested (NetworkConfigDto T)]),
      (''timezone'', [IsOptional, IsTimeZone T]), (''logging'', [IsOptional, ValidateNested LoggingConfigDto]),
      (''ota'', [IsOptional, ValidateNested OtaConfigDto]), (''interval'', OptionalNumber),
      (''location'', [IsOptional, ValidateNested DeviceLocationDto]), (''protocol'', [IsOptional, IsEnum protocols]),
      (''configVersion'', OptionalNumber)]"

definition SensorFunctionAssignDto :: dto_rules where
  "SensorFunctionAssignDto = [(''assignedType'', [Each (IsEnum capability_values), IsArray, IsNotEmpty])]"

definition QuerySensorDto :: dto_rules where
  "QuerySensorDto =
     [(''deviceId'', DeviceIdProperty), (''capabilities'', [IsArray, Each (IsEnum capability_values)]),
      (''deviceHardware'', [IsString]),
      (''assignedFunctionality'', [IsOptional, IsArray, Each (IsEnum capability_values)]),
      (''deviceBaseTopic'', OptionalString), (''location'', [ValidateNested DeviceLocationDto, IsObject]),
      (''provisionState'', [IsEnum [''discovered'', ''unassigned'', ''assigned'', ''active'', ''error'']]),
      (''clientId'', OptionalString), (''lastValue'', [IsNumber]), (''lastValueAt'', OptionalNumber),
      (''connectionState'', [IsOptional, IsEnum [''online'', ''offline'', ''error'']]), (''isActuator'', [IsBoolean]),
      (''highSetPoint'', RequiredNumber), (''lowSetPoint'', RequiredNumber), (''interval'', RequiredNumber),
      (''hasError'', [IsBoolean]), (''firmware'', OptionalString), (''mac'', OptionalString), (''ip'', OptionalString),
      (''protocol'', [IsEnum protocols]), (''broker'', RequiredString), (''isDeleted'', [IsBoolean]),
      (''lastReboot'', [IsOptional, IsDate]), (''lastUpgrade'', [IsOptional, IsDate]), (''createdAt'', [IsDate]),
      (''updatedAt'', [IsDate])]"

section \<open>A cached request\<close>

definition RequestCacheDto :: dto_rules where
  "RequestCacheDto = [(''userId'', RequiredString), (''requestId'', RequiredString), (''requestCode'', RequiredNumber)]"

section \<open>Facts\<close>

lemmas common_rules = UserIdProperty_def DeviceIdProperty_def RequestIdProperty_def RequestCodeProperty_def
  TimeStampProperty_def IsValidTimestampMillis_def

text \<open>The baud rate is checked under a misspelt name and the subnet mask not at all: any value passes.\<close>

lemma baudrate_unchecked:
  "dto_valid now LoggingConfigDto (JObj [(''level'', JStr ''INFO''), (''baudrate'', v)])"
  by (simp add: dto_valid_def LoggingConfigDto_def IsLogLevel_def log_levels_def OptionalNumber_def OptionalString_def)

lemma subnet_mask_unchecked: "dto_valid now (NetworkConfigDto T) (JObj [(''subnetMask'', v)])"
  by (simp add: dto_valid_def NetworkConfigDto_def)

end
