(* ===== verification/MessageConformance.thy ===== *)
theory MessageConformance
  imports MessageDtos DeviceLife
begin

text \<open>
  Every message a request makes the server publish has the type its class declares, whoever asks and
  whatever state the server is in.
\<close>

section \<open>What is published\<close>

definition adapter_texts :: "client_callback adapter \<Rightarrow> string set" where
  "adapter_texts a = (\<lambda>m. fst (snd m)) ` set (adapter_sent a)"

definition outbox :: "'z mqtt_state_scheme \<Rightarrow> string set" where
  "outbox s = (\<Union>a \<in> set (clients s). adapter_texts a)"

text \<open>A text that reads as a value the rules accept at any time.\<close>

definition conforms :: "dto_rules \<Rightarrow> string \<Rightarrow> bool" where
  "conforms rules x \<longleftrightarrow> (\<exists>v. json_parse x = Some v \<and> (\<forall>now. dto_valid now rules v))"

definition only_sends :: "string set \<Rightarrow> 'e mqtt_env_scheme \<Rightarrow> 'z mqtt_state_scheme \<Rightarrow> bool" where
  "only_sends A E s \<longleftrightarrow> mqtt_lib_ok (mqtt_lib E) \<and> outbox s \<subseteq> A"

lemma keeps_only_sends_frame:
  assumes "\<And>s. clients (snd (m s)) = clients s"
  shows "keeps (only_sends A E) m"
  using assms by (simp add: keeps_def only_sends_def outbox_def)

lemma crash_blind_sends [keeps_intros]: "crash_blind (only_sends A E)"
  by (rule crash_blindI) (simp add: only_sends_def outbox_def)

lemma keeps_sends_base [keeps_intros]:
  "keeps (only_sends A E :: 'z mqtt_state_scheme \<Rightarrow> bool) (on_kv mk)"
  "keeps (only_sends A E :: 'z mqtt_state_scheme \<Rightarrow> bool) (on_topics mt)"
  "keeps (only_sends A E :: 'z mqtt_state_scheme \<Rightarrow> bool) (date_now E')"
  "keeps (only_sends A E :: 'z mqtt_state_scheme \<Rightarrow> bool) (uuidv4 E')"
  "keeps (only_sends A E :: 'y device_state_scheme \<Rightarrow> bool) (on_sensors ms)"
  by (rule keeps_only_sends_frame, simp add: act_simps)+

lemma keeps_sends_topics [keeps_intros]:
  "keeps (only_sends A E) (storeTopic E' d n u)" "keeps (only_sends A E) (createTopic E' d u)"
  "keeps (only_sends A E) (getBroadcastTopic E')" "keeps (only_sends A E) (getDeviceTopicByUseCase E' d u)"
  unfolding createTopic_def storeTopic_def getBroadcastTopic_def getDeviceTopicByUseCase_def Let_def
  by (intro keeps_intros)+

lemma keeps_sends_devices [keeps_intros]:
  "keeps (only_sends A E) (setCache E' dto)" "keeps (only_sends A E) (find_live E' i)"
  "keeps (only_sends A E) (update_device E' i f)" "keeps (only_sends A E) (validateSensorTypes E' i fs)"
  unfolding setCache_def redis_setex_def find_live_def update_device_def validateSensorTypes_def
  by (intro keeps_intros)+

text \<open>A call on the current client, by what it does to the messages of the client.\<close>

lemma keeps_sends_on_mqtt:
  assumes "\<And>a. mqtt_lib_ok (mqtt_lib E) \<Longrightarrow> adapter_texts (snd (m a)) \<subseteq> adapter_texts a \<union> A"
  shows "keeps (only_sends A E) (on_mqtt m)"
proof (rule keepsI)
  fix s :: "'z mqtt_state_scheme" assume s: "only_sends A E s"
  show "only_sends A E (snd (on_mqtt m s))"
  proof (cases "mqtt s")
    case (Some i)
    have "outbox (s\<lparr>clients := (clients s)[i := snd (m (clients s ! i))]\<rparr>) \<subseteq> A"
    proof (cases "i < length (clients s)")
      case True
      then have "clients s ! i \<in> set (clients s)" by simp
      with s have old: "adapter_texts (clients s ! i) \<subseteq> A"
        unfolding only_sends_def outbox_def by blast
      have "set ((clients s)[i := snd (m (clients s ! i))]) \<subseteq> insert (snd (m (clients s ! i))) (set (clients s))"
        by (rule set_update_subset_insert)
      with s old assms[of "clients s ! i"] show ?thesis unfolding only_sends_def outbox_def by force
    qed (use s in \<open>simp add: only_sends_def outbox_def list_update_beyond\<close>)
    with Some s show ?thesis by (simp add: on_mqtt_def only_sends_def split_beta)
  qed (simp add: on_mqtt_def s)
qed

lemma keeps_sends_subscribe [keeps_intros]: "keeps (only_sends A E) (mqtt_subscribe E ts)"
  unfolding mqtt_subscribe_def
proof (intro keeps_intros keeps_sends_on_mqtt)
  fix a :: "client_callback adapter" assume L: "mqtt_lib_ok (mqtt_lib E)"
  have "adapter_sent (snd (adapter_subscribe (mqtt_lib E) ts a)) = adapter_sent a"
  proof (cases "adapter_isConnected a")
    case True
    from ad.subscribe_live[OF L this, of ts] show ?thesis by force
  next
    case False
    from ad.subscribe_dead[OF this, of "mqtt_lib E" ts] show ?thesis by force
  qed
  then show "adapter_texts (snd (adapter_subscribe (mqtt_lib E) ts a)) \<subseteq> adapter_texts a \<union> A"
    by (simp add: adapter_texts_def)
qed

lemma keeps_sends_publish:
  assumes "payloadStr p \<in> A"
  shows "keeps (only_sends A E) (mqtt_publish E t p opts)"
  unfolding mqtt_publish_def
proof (intro keeps_intros keeps_sends_on_mqtt)
  fix a :: "client_callback adapter" assume L: "mqtt_lib_ok (mqtt_lib E)"
  let ?q = "Some \<lparr>po_qos = po_qos opts, po_retain = po_retain opts\<rparr>"
  show "adapter_texts (snd (adapter_publish (mqtt_lib E) t (payloadStr p) ?q a)) \<subseteq> adapter_texts a \<union> A"
  proof (cases "adapter_isConnected a")
    case True
    from ad.publish_live[OF L this, of t "payloadStr p" ?q] assms show ?thesis by (auto simp: adapter_texts_def)
  next
    case False
    from ad.publish_dead[OF this, of "mqtt_lib E" t "payloadStr p" ?q] show ?thesis by (auto simp: adapter_texts_def)
  qed
qed

section \<open>Payloads\<close>

lemma dto_valid_set:
  assumes "dto_valid now rules b" "\<And>vs. (k, vs) \<in> set rules \<Longrightarrow> list_all (passes now x) vs"
  shows "dto_valid now rules (js_set b k x)"
proof -
  from dto_valid_object[OF assms(1)] obtain kvs where b: "b = JObj kvs" by blast
  show ?thesis
    unfolding dto_valid_def passes.simps list_all_iff
  proof (intro conjI ballI)
    fix r assume r: "r \<in> set rules"
    obtain f vs where fvs: "r = (f, vs)" by (cases r)
    show "case r of (f, vs) \<Rightarrow> IsOptional \<in> set vs \<and> nullish (js_get (js_set b k x) f) \<or>
        Ball (set vs) (passes now (js_get (js_set b k x) f))"
      using assms r unfolding fvs b by (auto simp: dto_valid_def list_all_iff)
  qed (simp add: b)
qed

text \<open>A value that came as JSON, as the bodies of requests do, is the same after another trip.\<close>

definition plain_json :: "jsval \<Rightarrow> bool" where
  "plain_json v \<longleftrightarrow> json_ok v \<and> as_json v = v"

lemma as_json_members_id: "as_json_members kvs = kvs \<longleftrightarrow> (\<forall>(k, v) \<in> set kvs. v \<noteq> JUndefined \<and> as_json v = v)"
proof (induction kvs)
  case (Cons kv kvs)
  obtain k v where kv: "kv = (k, v)" by (cases kv)
  have len: "length (as_json_members kvs) \<le> length kvs" for kvs
    by (induction kvs rule: as_json_as_json_members.induct(2)[where P = "\<lambda>_. True"]) auto
  have "as_json_members kvs \<noteq> (k, v) # kvs" using len[of kvs] by auto
  with Cons kv show ?case by auto
qed simp

lemma plain_json_set:
  assumes "plain_json b" "plain_json x" "x \<noteq> JUndefined"
  shows "plain_json (js_set b k x)"
proof (cases b)
  case (JObj kvs)
  have "set (map_set kvs k x) \<subseteq> insert (k, x) (set kvs)"
    by (induction kvs k x rule: map_set.induct) auto
  with assms JObj show ?thesis
    using json_ok_js_set[of kvs x k] by (fastforce simp: plain_json_def as_json_members_id)
qed (use assms in simp_all)

lemma conforms_stringify: "plain_json v \<Longrightarrow> \<forall>now. dto_valid now rules v \<Longrightarrow> conforms rules (stringify v)"
  by (auto simp: conforms_def plain_json_def json_roundtrip)

lemma payload_text [simp]: "payloadStr (JStr x) = x"
  by (simp add: payloadStr_def)


section \<open>Requests\<close>

lemma keeps_sends_uuid:
  assumes "\<And>n. keeps (only_sends A E) (f (uuid_src E' n))"
  shows "keeps (only_sends A E) (bnd (uuidv4 E') f)"
  by (rule keeps_bnd_returns[where Q = "\<lambda>r. r \<in> range (uuid_src E')"]) (use assms in \<open>auto intro: keeps_intros simp: act_simps\<close>)

lemma keeps_sends_find:
  assumes "device_env_ok E'" "keeps (only_sends A E) (f None)"
    "\<And>d. sn_deviceId d = i \<Longrightarrow> keeps (only_sends A E) (f (Some d))"
  shows "keeps (only_sends A E) (bnd (find_live E' i) f)"
  using assms
  by (intro keeps_bnd_returns[where Q = "\<lambda>d. case d of None \<Rightarrow> True | Some x \<Rightarrow> sn_deviceId x = i"])
    (auto intro!: keeps_intros simp: act_simps dest: find_Some_in split: option.splits)

text \<open>What is to be shown of a request: only messages of a class are added.\<close>

definition sends_class :: "dto_rules \<Rightarrow> 'e mqtt_env_scheme \<Rightarrow> ('z mqtt_state_scheme, 'a) act \<Rightarrow> bool" where
  "sends_class R E m \<longleftrightarrow> (\<forall>A. keeps (only_sends (A \<union> {x. conforms R x}) E) m)"

lemma sends_classD:
  assumes "sends_class R E m" "mqtt_lib_ok (mqtt_lib E)"
  shows "outbox (snd (m s)) \<subseteq> outbox s \<union> {x. conforms R x}"
proof -
  have "only_sends (outbox s \<union> {x. conforms R x}) E s" using assms(2) by (simp add: only_sends_def)
  with assms(1) show ?thesis by (auto simp: sends_class_def only_sends_def dest!: spec[of _ "outbox s"] keepsD)
qed

lemmas message_rules = dto_valid_def common_rules plain_json_def PublishDiscoveryBroadcastDto_def
  PublishDiscoveryUnicastDto_def publishHardwareStatusDto_def

text \<open>A message of the class may be published.\<close>

lemma sends_message:
  "plain_json v \<and> (\<forall>now. dto_valid now R v) \<Longrightarrow>
     keeps (only_sends (A \<union> {x. conforms R x}) E) (mqtt_publish E t (JStr (stringify v)) opts)"
  by (rule keeps_sends_publish) (simp add: conforms_stringify del: stringify.simps)

lemma bnd_lift_Inr: "bnd (lift_res (Inr x)) f = f x"
  by (simp add: fun_eq_iff act_simps)

lemmas sends_rules = keeps_sends_uuid sends_message keeps_intros

lemma discovery_conforms:
  assumes "u \<noteq> []" "\<And>n. uuid_src E n \<noteq> []"
  shows "sends_class PublishDiscoveryBroadcastDto E (discoverDevicesBroadcast E (JStr u))"
  unfolding sends_class_def discoverDevicesBroadcast_def Let_def
  by (intro allI) ((rule sends_rules | (simp add: message_rules assms; fail))+)

lemma unicast_conforms:
  assumes "u \<noteq> []" "i \<noteq> []" "\<And>n. uuid_src E n \<noteq> []"
  shows "sends_class PublishDiscoveryUnicastDto E (discoverDeviceUnicast E (JStr u) (JStr i))"
  unfolding sends_class_def discoverDeviceUnicast_def Let_def
  by (intro allI) ((rule sends_rules | (simp add: message_rules assms; fail))+)

lemma hardware_conforms:
  assumes "device_env_ok E" "js_get currentUser ''userId'' = JStr u" "u \<noteq> []" "i \<noteq> []" "\<And>n. uuid_src E n \<noteq> []"
  shows "sends_class publishHardwareStatusDto E (getHardwareStatus E currentUser i)"
proof -
  have user: "js_get_or_throw currentUser ''userId'' = Inr (JStr u)"
    using assms(2) by (auto simp: js_get_or_throw_def prop_nullish)
  show ?thesis
    unfolding sends_class_def getHardwareStatus_def Let_def user bnd_lift_Inr
    by (intro allI, rule keeps_sends_find[OF assms(1)], simp_all only: option.case)
      ((rule sends_rules | (simp add: message_rules assms; fail))+)
qed

text \<open>The body of a request, changed where the service sets a property itself.\<close>

definition rule_set :: "dto_rules \<Rightarrow> jsval \<Rightarrow> bool" where
  "rule_set R b \<longleftrightarrow> plain_json b \<and> (\<forall>now. dto_valid now R b)"

lemma rule_set_js_set:
  assumes "rule_set R b" "\<And>vs. (k, vs) \<in> set R \<Longrightarrow> vs = [IsString, IsNotEmpty]" "t \<noteq> []"
  shows "rule_set R (js_set b k (JStr t))"
proof -
  have "plain_json (js_set b k (JStr t))"
    by (rule plain_json_set) (use assms(1) in \<open>simp_all add: rule_set_def plain_json_def\<close>)
  moreover have "dto_valid now R (js_set b k (JStr t))" for now
    using assms(1,3) by (intro dto_valid_set) (auto simp: rule_set_def dest!: assms(2))
  ultimately show ?thesis by (simp add: rule_set_def)
qed

lemma assign_conforms:
  assumes b: "rule_set PublishSensorFunctionalityDto b"
    and u: "js_get currentUser ''userId'' = JStr u" "u \<noteq> []" and uuid: "\<And>n. uuid_src E n \<noteq> []"
  shows "sends_class PublishSensorFunctionalityDto E (AssignDeviceFunction E currentUser b)"
proof -
  have user: "js_get_or_throw currentUser ''userId'' = Inr (JStr u)"
    using u(1) by (auto simp: js_get_or_throw_def prop_nullish)
  have "rule_set PublishSensorFunctionalityDto (js_set (js_set (js_set b ''userId'' (JStr u)) ''requestCode''
      (JStr (request_code_value REQUEST_ASSIGN_DEVICE_FUNCTION))) ''requestId'' (JStr (uuid_src E n)))" for n
    using u(2) uuid by (intro rule_set_js_set b) (auto simp: PublishSensorFunctionalityDto_def common_rules)
  then show ?thesis
    unfolding sends_class_def AssignDeviceFunction_def Let_def user bnd_lift_Inr
    by (intro allI) ((rule sends_rules | (simp add: rule_set_def; fail))+)
qed

lemma body_conforms:
  shows "rule_set PublishSetDeviceConfigDto b \<Longrightarrow> sends_class PublishSetDeviceConfigDto E (setDeviceConfiguration E b)"
    "rule_set PublishTelemetryDto b \<Longrightarrow> sends_class PublishTelemetryDto E (getDeviceTelemetry E b)"
  unfolding sends_class_def setDeviceConfiguration_def getDeviceTelemetry_def Let_def
  by ((intro allI), ((rule sends_rules | (simp add: rule_set_def; fail))+))+

text \<open>What the pipe has accepted.\<close>

lemma accepted_rule_set:
  assumes "plain_json b" "pipe_accepts now R b"
    "R \<in> {PublishSensorFunctionalityDto, PublishSetDeviceConfigDto, PublishTelemetryDto}"
  shows "rule_set R b"
proof -
  have "passes now (js_get (empty_if_nil b) ''userId'') IsString"
    by (rule pipe_property[OF assms(2)]) (use assms(3) in \<open>auto simp: PublishSensorFunctionalityDto_def
        PublishSetDeviceConfigDto_def PublishTelemetryDto_def common_rules\<close>)
  then have "empty_if_nil b = b" by (auto simp: empty_if_nil_def)
  with assms(2) have "dto_valid now R b" by (simp add: pipe_accepts_def)
  moreover have "dto_valid now' R b \<longleftrightarrow> dto_valid now R b" for now'
  proof -
    have "passes now' v (Each (IsEnum es)) \<longleftrightarrow> passes now v (Each (IsEnum es))" for v es
      by (cases v) (simp_all add: Each_def)
    moreover have "IsOptional \<noteq> Each c" for c by (simp add: Each_def)
    ultimately show ?thesis
      using assms(3) by (elim insertE emptyE; simp add: dto_valid_def PublishSensorFunctionalityDto_def
          PublishSetDeviceConfigDto_def PublishTelemetryDto_def common_rules RequiredString_def RequiredNumber_def)
  qed
  ultimately show ?thesis using assms(1) by (simp add: rule_set_def)
qed


section \<open>Property\<close>

text \<open>
  C21. Everything a request to devices publishes reads back as JSON that is valid under the class it is
  declared with, in every state: the search for devices and the question for the hardware status for any
  user with an id, and the three messages that carry the body of a request for every body the pipe accepts.
\<close>

theorem messages_conform:
  assumes env: "device_env_ok E" and uuid: "\<And>n. uuid_src E n \<noteq> []" and i: "i \<noteq> []"
    and user: "js_get currentUser ''userId'' = JStr u" "u \<noteq> []"
  shows "outbox (snd (discoverDevicesBroadcast E (JStr u) s)) \<subseteq> outbox s \<union> {x. conforms PublishDiscoveryBroadcastDto x} \<and>
    outbox (snd (discoverDeviceUnicast E (JStr u) (JStr i) s)) \<subseteq> outbox s \<union> {x. conforms PublishDiscoveryUnicastDto x} \<and>
    outbox (snd (getHardwareStatus E currentUser i s)) \<subseteq> outbox s \<union> {x. conforms publishHardwareStatusDto x} \<and>
    (plain_json b \<longrightarrow>
      (pipe_accepts now PublishSensorFunctionalityDto b \<longrightarrow>
        outbox (snd (AssignDeviceFunction E currentUser b s)) \<subseteq> outbox s \<union> {x. conforms PublishSensorFunctionalityDto x}) \<and>
      (pipe_accepts now PublishSetDeviceConfigDto b \<longrightarrow>
        outbox (snd (setDeviceConfiguration E b s)) \<subseteq> outbox s \<union> {x. conforms PublishSetDeviceConfigDto x}) \<and>
      (pipe_accepts now PublishTelemetryDto b \<longrightarrow>
        outbox (snd (getDeviceTelemetry E b s)) \<subseteq> outbox s \<union> {x. conforms PublishTelemetryDto x}))"
proof (intro conjI impI)
  note out = sends_classD[OF _ device_env_okD(10)[OF env]]
  note accepted = accepted_rule_set[of b now]
  show "outbox (snd (discoverDevicesBroadcast E (JStr u) s)) \<subseteq> outbox s \<union> {x. conforms PublishDiscoveryBroadcastDto x}"
    by (intro out discovery_conforms user uuid)
  show "outbox (snd (discoverDeviceUnicast E (JStr u) (JStr i) s)) \<subseteq> outbox s \<union> {x. conforms PublishDiscoveryUnicastDto x}"
    by (intro out unicast_conforms user i uuid)
  show "outbox (snd (getHardwareStatus E currentUser i s)) \<subseteq> outbox s \<union> {x. conforms publishHardwareStatusDto x}"
    by (intro out hardware_conforms[OF env user i uuid])
  assume b: "plain_json b"
  show "outbox (snd (AssignDeviceFunction E currentUser b s)) \<subseteq> outbox s \<union> {x. conforms PublishSensorFunctionalityDto x}"
    if "pipe_accepts now PublishSensorFunctionalityDto b"
    by (intro out assign_conforms[OF _ user uuid] accepted b that) simp
  show "outbox (snd (setDeviceConfiguration E b s)) \<subseteq> outbox s \<union> {x. conforms PublishSetDeviceConfigDto x}"
    if "pipe_accepts now PublishSetDeviceConfigDto b"
    by (intro out body_conforms accepted b that) simp
  show "outbox (snd (getDeviceTelemetry E b s)) \<subseteq> outbox s \<union> {x. conforms PublishTelemetryDto x}"
    if "pipe_accepts now PublishTelemetryDto b"
    by (intro out body_conforms accepted b that) simp
qed


theorem messages_conform_witness:
  "\<exists>s' r now. discoverDevicesBroadcast demo_device_env (JStr ''u1'') demo_device_up = (Inr (), s') \<and>
     stringify (discovery_payload (JStr ''u1'') r now) \<in> outbox s' \<and>
     outbox s' \<subseteq> outbox demo_device_up \<union> {x. conforms PublishDiscoveryBroadcastDto x}"
proof -
  let ?s = "demo_device_up" and ?E = "demo_device_env"
  let ?r = "uuid_src ?E (uuid_count ?s)" and ?now = "clock ?E (clock_reads ?s)"
  have up: "device_good ?E ?s" by (rule device_reachable_good[OF demo_device_up(1) demo_device_env_ok])
  from discover_run[OF up demo_device_up(2,7), of "JStr ''u1''"] obtain s' where
    s': "discoverDevicesBroadcast ?E (JStr ''u1'') ?s = (Inr (), s')" "live 0 s'" "sent_of 0 s' =
      sent_of 0 ?s @ [(discovery_name (broadcast_topic ?E), stringify (discovery_payload (JStr ''u1'') ?r ?now))]" by blast
  then have "clients s' ! 0 \<in> set (clients s')"
    "(discovery_name (broadcast_topic ?E), stringify (discovery_payload (JStr ''u1'') ?r ?now)) \<in> set (sent_of 0 s')"
    by (simp_all add: live_def)
  then have "stringify (discovery_payload (JStr ''u1'') ?r ?now) \<in> outbox s'"
    unfolding outbox_def adapter_texts_def sent_of_def by force
  moreover have "outbox s' \<subseteq> outbox ?s \<union> {x. conforms PublishDiscoveryBroadcastDto x}"
    using messages_conform[of ?E "''d1''" "JObj [(''userId'', JStr ''u1'')]" "''u1''" ?s] s'(1) by simp
  ultimately show ?thesis using s'(1) by blast
qed

end
