(* ===== verification/ConfigSchema.thy ===== *)
theory ConfigSchema
  imports MessageDtos
begin

text \<open>
  \<open>device/repository/sensor-config.entity.ts\<close>: the columns of a stored configuration, level by level, with
  the values a new object of the class starts with; and how they compare with the classes of the requests
  that carry a configuration.
\<close>

section \<open>Columns\<close>

text \<open>A column with the value its property is initialised with, or an embedded object.\<close>

datatype column = Plain bool "jsval option" | Embedded "(string \<times> column) list"

type_synonym columns = "(string \<times> column) list"

abbreviation required :: column where "required \<equiv> Plain False None"
abbreviation nullable :: column where "nullable \<equiv> Plain True None"
abbreviation preset :: "jsval \<Rightarrow> column" where "preset v \<equiv> Plain False (Some v)"

definition NetworkConfigEntity :: columns where
  "NetworkConfigEntity = [(''macAddress'', required), (''wifiSsid'', nullable), (''wifiPassword'', nullable),
     (''dhcp'', preset (JBool True)), (''ip'', nullable), (''subnetMask'', nullable), (''gateway'', nullable),
     (''dnsServer1'', nullable), (''dnsServer2'', nullable), (''accessPointSsid'', nullable),
     (''accessPointPassword'', nullable)]"

definition LoggingConfigEntity :: columns where
  "LoggingConfigEntity = [(''level'', preset (JNum 2)), (''enableSerial'', preset (JBool False)),
     (''baudrate'', nullable), (''externalServer'', nullable)]"

definition OtaConfigEntity :: columns where
  "OtaConfigEntity = [(''enabled'', preset (JBool False)), (''url'', nullable), (''checkInterval'', nullable)]"

definition DeviceLocationEntity :: columns where
  "DeviceLocationEntity = [(''site'', nullable), (''floor'', nullable), (''unit'', nullable)]"

definition ThresholdEntity :: columns where
  "ThresholdEntity = [(''high'', required), (''low'', required), (''unit'', nullable)]"

definition SensorConfig :: columns where
  "SensorConfig =
     [(''_id'', required), (''deviceId'', required), (''controllerId'', nullable), (''timestamp'', required),
      (''baseTopic'', nullable), (''network'', Embedded NetworkConfigEntity), (''timezone'', nullable),
      (''logging'', Embedded LoggingConfigEntity), (''ota'', Embedded OtaConfigEntity), (''interval'', nullable),
      (''location'', Embedded DeviceLocationEntity), (''threshold'', Embedded ThresholdEntity),
      (''protocol'', preset (JStr ''MQTT'')), (''configVersion'', preset (JNum 1)), (''createdAt'', required),
      (''updatedAt'', required), (''isActive'', preset (JBool True))]"

section \<open>Requests and columns\<close>

text \<open>The paths of properties that have a rule, and of columns, down to the leaves.\<close>

fun rule_paths :: "dto_rules \<Rightarrow> string list list" and nested_paths :: "validator list \<Rightarrow> string list list" where
  "rule_paths [] = []"
| "rule_paths ((k, vs) # rs) =
     (case nested_paths vs of [] \<Rightarrow> [[k]] | ps \<Rightarrow> map (Cons k) ps) @ rule_paths rs"
| "nested_paths [] = []"
| "nested_paths (ValidateNested rs # vs) = rule_paths rs @ nested_paths vs"
| "nested_paths (_ # vs) = nested_paths vs"

fun column_paths :: "columns \<Rightarrow> string list list" where
  "column_paths [] = []"
| "column_paths ((k, Plain _ _) # cs) = [k] # column_paths cs"
| "column_paths ((k, Embedded es) # cs) = map (Cons k) (column_paths es) @ column_paths cs"

fun presets :: "columns \<Rightarrow> (string list \<times> jsval) list" where
  "presets [] = []"
| "presets ((k, Plain _ d) # cs) = (case d of None \<Rightarrow> [] | Some v \<Rightarrow> [([k], v)]) @ presets cs"
| "presets ((k, Embedded es) # cs) = map (map_prod (Cons k) id) (presets es) @ presets cs"

lemmas entity_defs = SensorConfig_def NetworkConfigEntity_def LoggingConfigEntity_def OtaConfigEntity_def
  DeviceLocationEntity_def ThresholdEntity_def
lemmas config_rules = SensorConfigDto_rules_def NetworkConfigDto_def LoggingConfigDto_def OtaConfigDto_def
  DeviceLocationDto_def ThresholdDto_def DeviceIdProperty_def OptionalString_def OptionalNumber_def

definition config_paths :: "string list list" where
  "config_paths =
     [[''deviceId''], [''threshold'', ''high''], [''threshold'', ''low''], [''threshold'', ''unit''], [''baseTopic''],
      [''network'', ''macAddress''], [''network'', ''wifiSsid''], [''network'', ''wifiPassword''], [''network'', ''dhcp''],
      [''network'', ''ip''], [''network'', ''subnetMask''], [''network'', ''gateway''], [''network'', ''dnsServer1''],
      [''network'', ''dnsServer2''], [''network'', ''accessPointSsid''], [''network'', ''accessPointPassword''],
      [''timezone''], [''logging'', ''level''], [''logging'', ''enableSerial''], [''logging'', ''buadrate''],
      [''logging'', ''externalServer''], [''ota'', ''enabled''], [''ota'', ''url''], [''ota'', ''checkInterval''],
      [''interval''], [''location'', ''site''], [''location'', ''floor''], [''location'', ''unit''], [''protocol''],
      [''configVersion'']]"

lemma rule_paths_config: "rule_paths (SensorConfigDto_rules T) = config_paths"
  by (simp add: config_rules config_paths_def IsIP4_def IsTimeZone_def IsLogLevel_def)

text \<open>
  Every property a request may set has a column of the same name, but one: the class of the request spells
  the baud rate of the serial line \<open>buadrate\<close>, so a checked baud rate has no column and the column has no rule.
\<close>

lemma configuration_columns:
  "filter (\<lambda>p. p \<notin> set (column_paths SensorConfig)) (rule_paths (SensorConfigDto_rules T)) = [[''logging'', ''buadrate'']]"
  "filter (\<lambda>p. p \<notin> set (rule_paths (SensorConfigDto_rules T))) (column_paths SensorConfig) =
     [[''_id''], [''controllerId''], [''timestamp''], [''logging'', ''baudrate''], [''createdAt''], [''updatedAt''], [''isActive'']]"
  unfolding rule_paths_config by code_simp+

text \<open>A value a new configuration starts with is one its rule accepts.\<close>

lemma preset_values_valid:
  "list_all (\<lambda>(p, v). case p of
       [k] \<Rightarrow> (case map_of (SensorConfigDto_rules T) k of None \<Rightarrow> True | Some vs \<Rightarrow> list_all (passes now v) vs)
     | _ \<Rightarrow> True) (presets SensorConfig)"
  "list_all (\<lambda>(p, v). case map_of (LoggingConfigDto @ NetworkConfigDto T @ OtaConfigDto) (last p) of
       None \<Rightarrow> True | Some vs \<Rightarrow> list_all (passes now v) vs) (presets SensorConfig)"
  by (simp_all add: entity_defs config_rules IsLogLevel_def log_levels_def protocols_def IsTimeZone_def IsIP4_def)

end
