(* ===== verification/Startup.thy ===== *)
theory Startup
  imports ExceptionFilter MqttContract
begin

text \<open>
  The start of the server: the schema of the environment (\<open>config/joi-validation-schema.config.ts\<close>), the
  factories of \<open>config/typeorm-module-config.ts\<close>, \<open>config/jwt-module.config.ts\<close> and \<open>redis/redis.module.ts\<close>,
  the constructors that read the configuration, and \<open>bootstrap\<close> of \<open>main.ts\<close>. The package joi is
  modelled for the rules the schema uses, as its documentation states them.
\<close>

section \<open>The schema\<close>

text \<open>When a text is a URI or an email address, and the number it converts to, is for the package.\<close>

record joi_checks =
  is_uri :: "string \<Rightarrow> bool"
  is_email_text :: "string \<Rightarrow> bool"
  to_number :: "string \<Rightarrow> rat option"

datatype joi_type = JoiString "string \<Rightarrow> bool" | JoiNumber

datatype presence = Required | Optional | Default jsval

record joi_rule =
  jr_type :: joi_type
  jr_presence :: presence

definition joi_string :: "(string \<Rightarrow> bool) \<Rightarrow> presence \<Rightarrow> joi_rule" where
  "joi_string check p = \<lparr>jr_type = JoiString check, jr_presence = p\<rparr>"

definition joi_number :: "presence \<Rightarrow> joi_rule" where
  "joi_number p = \<lparr>jr_type = JoiNumber, jr_presence = p\<rparr>"

abbreviation any_text :: "string \<Rightarrow> bool" where "any_text \<equiv> \<lambda>_. True"

definition one_of :: "string list \<Rightarrow> string \<Rightarrow> bool" where "one_of ts t = (t \<in> set ts)"
definition min_length :: "nat \<Rightarrow> string \<Rightarrow> bool" where "min_length n t = (n \<le> length t)"

text \<open>The rules of two keys depend on the type of the database.\<close>

definition configValidationSchema :: "joi_checks \<Rightarrow> (string \<rightharpoonup> string) \<Rightarrow> (string \<times> joi_rule) list" where
  "configValidationSchema J env =
    [(''PORT'', joi_number (Default (JNum 3000))),
     (''NODE_ENV'', joi_string (one_of [''development'', ''production'', ''test'']) (Default (JStr ''development''))),
     (''API_PREFIX'', joi_string any_text (Default (JStr ''api''))),
     (''FRONTEND_URL'', joi_string (is_uri J) (Default (JStr ''http://localhost:3000''))),
     (''JWT_SECRET'', joi_string (min_length 16) Required),
     (''JWT_EXPIRES_IN'', joi_string any_text (Default (JStr ''15m''))),
     (''REFRESH_TOKEN_EXPIRES_IN'', joi_string any_text (Default (JStr ''7d''))),
     (''COOKIE_SECRET'', joi_string (min_length 16) (Default (JStr ''cookie-secret-change-me''))),
     (''DB_TYPE'', joi_string (one_of [''mongodb'', ''mysql'', ''postgres'', ''sqlite'']) Required),
     (''DB_NAME'', joi_string any_text Required),
     (''DB_URI'', joi_string any_text (if env ''DB_TYPE'' = Some ''mongodb'' then Required else Optional)),
     (''SQLITE_DB_NAME'', joi_string any_text
        (if env ''DB_TYPE'' = Some ''sqlite'' then Default (JStr ''database.db'') else Optional)),
     (''ROUNDS'', joi_number (Default (JNum 10))),
     (''SMTP_HOST'', joi_string any_text Required), (''SMTP_PORT'', joi_number Required),
     (''SMTP_USER'', joi_string any_text Required), (''SMTP_PASS'', joi_string any_text Required),
     (''EMAIL_FROM'', joi_string (is_email_text J) Required),
     (''MQTT_USERNAME'', joi_string any_text Required), (''MQTT_PASSWORD'', joi_string any_text Required),
     (''MQTT_BROKER_URL'', joi_string any_text Required), (''BASE_TOPIC'', joi_string any_text Required),
     (''MAX_RECONNECTION_ATTEMPTS'', joi_number Required),
     (''REDIS_HOST'', joi_string any_text Required), (''REDIS_PORT'', joi_number Required),
     (''REDIS_PASSWORD'', joi_string any_text Required), (''REDIS_DB'', joi_number Required),
     (''REDIS_TTL'', joi_number Required),
     (''AUTH_MODE'', joi_string (one_of [''local'', ''jwt'']) (Default (JStr ''local''))),
     (''SESSION_TIMEOUT'', joi_number Optional), (''SESSION_COOKIE_NAME'', joi_string any_text Required),
     (''SESSION_REFRESH_INTERVAL'', joi_number Optional), (''SESSION_SECRET'', joi_string (min_length 16) Optional)]"

text \<open>A string may not be empty; a missing value takes the default; other variables are passed on.\<close>

definition joi_value :: "joi_checks \<Rightarrow> joi_rule \<Rightarrow> string option \<Rightarrow> exn + jsval option" where
  "joi_value J r v =
     (case v of
        None \<Rightarrow> (case jr_presence r of
            Required \<Rightarrow> Inl (JsError ''Config validation error'') | Optional \<Rightarrow> Inr None | Default d \<Rightarrow> Inr (Some d))
      | Some t \<Rightarrow> (case jr_type r of
            JoiString check \<Rightarrow> if t \<noteq> [] \<and> check t then Inr (Some (JStr t)) else Inl (JsError ''Config validation error'')
          | JoiNumber \<Rightarrow> (case to_number J t of None \<Rightarrow> Inl (JsError ''Config validation error'') | Some n \<Rightarrow> Inr (Some (JNum n)))))"

definition validate_env :: "joi_checks \<Rightarrow> (string \<rightharpoonup> string) \<Rightarrow> exn + (string \<rightharpoonup> jsval)" where
  "validate_env J env =
     (let schema = configValidationSchema J env in
      if list_all (\<lambda>(k, r). \<not> isl (joi_value J r (env k))) schema
      then Inr (\<lambda>k. case map_of schema k of None \<Rightarrow> map_option JStr (env k) | Some r \<Rightarrow> projr (joi_value J r (env k)))
      else Inl (JsError ''Config validation error''))"

section \<open>Who reads the configuration\<close>

definition cfg_get :: "(string \<rightharpoonup> jsval) \<Rightarrow> string \<Rightarrow> jsval" where
  "cfg_get cfg k = (case cfg k of None \<Rightarrow> JUndefined | Some v \<Rightarrow> v)"

definition cfg_getOrThrow :: "(string \<rightharpoonup> jsval) \<Rightarrow> string \<Rightarrow> exn + jsval" where
  "cfg_getOrThrow cfg k =
     (case cfg k of None \<Rightarrow> Inl (JsError (''Configuration key does not exist: '' @ k)) | Some v \<Rightarrow> Inr v)"

fun cfg_all :: "(string \<rightharpoonup> jsval) \<Rightarrow> string list \<Rightarrow> exn + jsval list" where
  "cfg_all cfg [] = Inr []"
| "cfg_all cfg (k # ks) =
     (case cfg_getOrThrow cfg k of
        Inl e \<Rightarrow> Inl e
      | Inr v \<Rightarrow> (case cfg_all cfg ks of Inl e \<Rightarrow> Inl e | Inr vs \<Rightarrow> Inr (v # vs)))"

record typeorm_options =
  to_url :: jsval
  to_synchronize :: jsval
  to_logging :: jsval

definition typeOrmModuleConfig :: "(string \<rightharpoonup> jsval) \<Rightarrow> exn + typeorm_options" where
  "typeOrmModuleConfig cfg =
     (let url = cfg_get cfg ''DB_URI'' in
      if \<not> truthy url
      then Inl (JsError ''DB_URI is not set. Please set DB_URI in your environment for MongoDB connection.'')
      else
        let syncEnv = cfg_get cfg ''TYPEORM_SYNCHRONIZE'';
            synchronize = (case syncEnv of
              JStr t \<Rightarrow> JBool (js_lower t = ''true'')
            | _ \<Rightarrow> js_coalesce (cfg_get cfg ''TYPEORM_SYNCHRONIZE'') (JBool True))
        in Inr \<lparr>to_url = url, to_synchronize = synchronize,
             to_logging = js_coalesce (cfg_get cfg ''TYPEORM_LOGGING'') (JBool False)\<rparr>)"

definition jwtModuleOptions :: "(string \<rightharpoonup> jsval) \<Rightarrow> exn + (jsval \<times> jsval)" where
  "jwtModuleOptions cfg =
     (let secret = cfg_get cfg ''JWT_SECRET''; expiresIn = cfg_get cfg ''JWT_EXPIRES_IN'' in
      if \<not> truthy secret then Inl (JsError ''JWT_SECRET is not defined in environment'')
      else if \<not> truthy expiresIn then Inl (JsError ''JWT_EXPIRES_IN is not defined in environment'')
      else Inr (secret, expiresIn))"

text \<open>Both Redis clients read the same keys. The constructor of \<open>EncryptService\<close> reads \<open>ROUNDS\<close>, which has a default.\<close>

definition redis_client_keys :: "string list" where
  "redis_client_keys = [''REDIS_HOST'', ''REDIS_PORT'', ''REDIS_DB'']"

definition SessionService_keys :: "string list" where
  "SessionService_keys = [''SESSION_TIMEOUT'', ''SESSION_REFRESH_INTERVAL'', ''REDIS_TTL'']"

definition CookieService_keys :: "string list" where "CookieService_keys = [''SESSION_COOKIE_NAME'']"
definition SessionAuthGuard_keys :: "string list" where "SessionAuthGuard_keys = [''SESSION_COOKIE_NAME'']"
definition DeviceService_keys :: "string list" where "DeviceService_keys = [''REDIS_TTL'']"
definition MqttClientService_keys :: "string list" where "MqttClientService_keys = [''MAX_RECONNECTION_ATTEMPTS'']"

definition construct_all :: "(string \<rightharpoonup> jsval) \<Rightarrow> exn + jsval list" where
  "construct_all cfg = cfg_all cfg (redis_client_keys @ redis_client_keys @ CookieService_keys @ SessionService_keys @
     SessionAuthGuard_keys @ MqttClientService_keys @ DeviceService_keys)"

record listening =
  ls_prefix :: jsval
  ls_port :: jsval
  ls_origin :: jsval
  ls_cookieSecret :: jsval

definition bootstrap :: "(string \<rightharpoonup> jsval) \<Rightarrow> exn + listening" where
  "bootstrap cfg =
     (let secret = cfg_get cfg ''COOKIE_SECRET'';
          origin = js_or (cfg_get cfg ''FRONTEND_URL'') (JStr ''http://localhost:30001'')
      in case cfg_getOrThrow cfg ''API_PREFIX'' of
           Inl e \<Rightarrow> Inl e
         | Inr prefix \<Rightarrow>
             (case cfg_getOrThrow cfg ''PORT'' of
                Inl e \<Rightarrow> Inl e
              | Inr port \<Rightarrow> Inr \<lparr>ls_prefix = js_or prefix (JStr ''api''), ls_port = port, ls_origin = origin,
                  ls_cookieSecret = secret\<rparr>))"

text \<open>
  What the start depends on outside the process: whether TypeORM reaches the database, and on which ports
  the operating system lets the process listen. Node refuses a port that is no integer from 0 to 65535.
\<close>

record outside =
  database_connects :: bool
  port_free :: "rat \<Rightarrow> bool"

fun valid_port :: "jsval \<Rightarrow> bool" where
  "valid_port (JNum n) = (n = of_int \<lfloor>n\<rfloor> \<and> 0 \<le> n \<and> n \<le> 65535)"
| "valid_port _ = False"

definition open_port :: "outside \<Rightarrow> jsval \<Rightarrow> ('s, unit) act" where
  "open_port W port =
     (case port of
        JNum n \<Rightarrow> if \<not> valid_port port then throw (JsError ''ERR_SOCKET_BAD_PORT'')
          else if port_free W n then ok () else throw (LibraryError ''EADDRINUSE'')
      | _ \<Rightarrow> throw (JsError ''ERR_SOCKET_BAD_PORT''))"

text \<open>The configuration as the services see it, whose keys they read as texts.\<close>

definition text_config :: "(string \<rightharpoonup> jsval) \<Rightarrow> string \<rightharpoonup> string" where
  "text_config cfg k = (case cfg k of Some (JStr t) \<Rightarrow> Some t | _ \<Rightarrow> None)"

text \<open>
  The modules in the order of \<open>app.module.ts\<close>, then the rest of \<open>bootstrap\<close>; \<open>app.listen\<close> first
  runs the \<open>onModuleInit\<close> hooks, of which \<open>MqttClientService.onModuleInit\<close> may reject.
\<close>

definition startup ::
  "joi_checks \<Rightarrow> (string \<rightharpoonup> string) \<Rightarrow> outside \<Rightarrow> 'e mqtt_env_scheme \<Rightarrow>
     ('z mqtt_state_scheme, listening \<times> (string \<rightharpoonup> jsval)) act" where
  "startup J env W E =
     bnd (lift_res (validate_env J env)) (\<lambda>cfg.
     bnd (lift_res (jwtModuleOptions cfg)) (\<lambda>_.
     bnd (lift_res (typeOrmModuleConfig cfg)) (\<lambda>_.
     bnd (if database_connects W then ok () else throw (LibraryError ''Unable to connect to the database'')) (\<lambda>_.
     bnd (lift_res (construct_all cfg)) (\<lambda>_.
     bnd (lift_res (bootstrap cfg)) (\<lambda>l.
     bnd (mqtt_onModuleInit (E\<lparr>config := text_config cfg\<rparr>)) (\<lambda>_.
     bnd (open_port W (ls_port l)) (\<lambda>_. ok (l, cfg)))))))))"

section \<open>What validation guarantees\<close>

lemma validated:
  assumes "validate_env J env = Inr cfg" "map_of (configValidationSchema J env) k = Some r"
  shows "joi_value J r (env k) = Inr (cfg k)"
proof -
  let ?ok = "list_all (\<lambda>(k, r). \<not> isl (joi_value J r (env k))) (configValidationSchema J env)"
  have "?ok" using assms(1) by (simp add: validate_env_def Let_def split: if_splits)
  with assms(2) have "\<not> isl (joi_value J r (env k))" by (auto simp: list_all_iff dest!: map_of_SomeD)
  moreover have "cfg k = projr (joi_value J r (env k))"
    using assms \<open>?ok\<close> by (auto simp: validate_env_def Let_def)
  ultimately show ?thesis by (metis sum.collapse(2))
qed

lemma validated_text:
  assumes "validate_env J env = Inr cfg" "map_of (configValidationSchema J env) k = Some (joi_string c p)"
  shows "p = Required \<Longrightarrow> \<exists>t. cfg k = Some (JStr t) \<and> t \<noteq> [] \<and> c t"
    "p = Default d \<Longrightarrow> cfg k = Some d \<or> (\<exists>t. cfg k = Some (JStr t) \<and> t \<noteq> [] \<and> c t)"
    "p = Optional \<Longrightarrow> if env k = None then cfg k = None else \<exists>t. cfg k = Some (JStr t) \<and> t \<noteq> []"
  using validated[OF assms, symmetric] by (auto simp: joi_value_def joi_string_def split: option.splits if_splits)

lemma validated_number:
  assumes "validate_env J env = Inr cfg" "map_of (configValidationSchema J env) k = Some (joi_number p)"
  shows "p = Required \<Longrightarrow> \<exists>n. cfg k = Some (JNum n)" "p = Default d \<Longrightarrow> cfg k = Some d \<or> (\<exists>n. cfg k = Some (JNum n))"
    "p = Optional \<Longrightarrow> if env k = None then cfg k = None else \<exists>n. cfg k = Some (JNum n)"
  using validated[OF assms, symmetric] by (auto simp: joi_value_def joi_number_def split: option.splits)

lemma cfg_all_ok: "(\<exists>vs. cfg_all cfg ks = Inr vs) \<longleftrightarrow> (\<forall>k \<in> set ks. cfg k \<noteq> None)"
proof (induction ks)
  case (Cons k ks)
  then show ?case by (cases "cfg k"; cases "cfg_all cfg ks") (auto simp: cfg_getOrThrow_def)
qed simp

lemma schema_keys:
  "map_of (configValidationSchema J env) ''JWT_SECRET'' = Some (joi_string (min_length 16) Required)"
  "map_of (configValidationSchema J env) ''JWT_EXPIRES_IN'' = Some (joi_string any_text (Default (JStr ''15m'')))"
  "map_of (configValidationSchema J env) ''DB_URI'' =
     Some (joi_string any_text (if env ''DB_TYPE'' = Some ''mongodb'' then Required else Optional))"
  "map_of (configValidationSchema J env) ''REDIS_HOST'' = Some (joi_string any_text Required)"
  "map_of (configValidationSchema J env) ''REDIS_PORT'' = Some (joi_number Required)"
  "map_of (configValidationSchema J env) ''REDIS_DB'' = Some (joi_number Required)"
  "map_of (configValidationSchema J env) ''REDIS_TTL'' = Some (joi_number Required)"
  "map_of (configValidationSchema J env) ''SESSION_TIMEOUT'' = Some (joi_number Optional)"
  "map_of (configValidationSchema J env) ''SESSION_REFRESH_INTERVAL'' = Some (joi_number Optional)"
  "map_of (configValidationSchema J env) ''SESSION_COOKIE_NAME'' = Some (joi_string any_text Required)"
  "map_of (configValidationSchema J env) ''MAX_RECONNECTION_ATTEMPTS'' = Some (joi_number Required)"
  "map_of (configValidationSchema J env) ''API_PREFIX'' = Some (joi_string any_text (Default (JStr ''api'')))"
  "map_of (configValidationSchema J env) ''PORT'' = Some (joi_number (Default (JNum 3000)))"
  "map_of (configValidationSchema J env) ''MQTT_USERNAME'' = Some (joi_string any_text Required)"
  "map_of (configValidationSchema J env) ''MQTT_PASSWORD'' = Some (joi_string any_text Required)"
  "map_of (configValidationSchema J env) ''MQTT_BROKER_URL'' = Some (joi_string any_text Required)"
  "map_of (configValidationSchema J env) ''BASE_TOPIC'' = Some (joi_string any_text Required)"
  "map_of (configValidationSchema J env) ''NODE_ENV'' =
     Some (joi_string (one_of [''development'', ''production'', ''test'']) (Default (JStr ''development'')))"
  by (simp_all add: configValidationSchema_def)

lemma valid_texts:
  assumes "validate_env J env = Inr cfg"
    "k \<in> {''JWT_SECRET'', ''REDIS_HOST'', ''SESSION_COOKIE_NAME'', ''MQTT_USERNAME'', ''MQTT_PASSWORD'',
      ''MQTT_BROKER_URL'', ''BASE_TOPIC''}"
  shows "\<exists>t. cfg k = Some (JStr t) \<and> t \<noteq> []"
proof -
  from assms(2) have "map_of (configValidationSchema J env) k = Some (joi_string any_text Required) \<or>
      map_of (configValidationSchema J env) k = Some (joi_string (min_length 16) Required)"
    using schema_keys by auto
  then show ?thesis using validated_text(1)[OF assms(1), of k _ Required] by blast
qed

lemma valid_numbers:
  assumes "validate_env J env = Inr cfg" "k \<in> {''REDIS_PORT'', ''REDIS_DB'', ''REDIS_TTL'', ''MAX_RECONNECTION_ATTEMPTS''}"
  shows "\<exists>n. cfg k = Some (JNum n)"
  using validated_number(1)[OF assms(1), of k Required] assms(2) schema_keys by auto

lemma valid_defaults:
  assumes "validate_env J env = Inr cfg"
  shows "\<exists>t. cfg ''JWT_EXPIRES_IN'' = Some (JStr t) \<and> t \<noteq> []" "\<exists>t. cfg ''API_PREFIX'' = Some (JStr t) \<and> t \<noteq> []"
    "\<exists>n. cfg ''PORT'' = Some (JNum n)" "\<exists>t \<in> {''development'', ''production'', ''test''}. cfg ''NODE_ENV'' = Some (JStr t)"
  using validated_text(2)[OF assms schema_keys(2) HOL.refl] validated_text(2)[OF assms schema_keys(12) HOL.refl]
    validated_number(2)[OF assms schema_keys(13) HOL.refl] validated_text(2)[OF assms schema_keys(18) HOL.refl]
  by (auto simp: one_of_def)

lemma valid_optional:
  assumes "validate_env J env = Inr cfg"
  shows "cfg ''SESSION_TIMEOUT'' = None \<longleftrightarrow> env ''SESSION_TIMEOUT'' = None"
    "cfg ''SESSION_REFRESH_INTERVAL'' = None \<longleftrightarrow> env ''SESSION_REFRESH_INTERVAL'' = None"
    "truthy (cfg_get cfg ''DB_URI'') \<longleftrightarrow> env ''DB_URI'' \<noteq> None"
proof -
  show "cfg ''SESSION_TIMEOUT'' = None \<longleftrightarrow> env ''SESSION_TIMEOUT'' = None"
    "cfg ''SESSION_REFRESH_INTERVAL'' = None \<longleftrightarrow> env ''SESSION_REFRESH_INTERVAL'' = None"
    using validated_number(3)[OF assms schema_keys(8) HOL.refl] validated_number(3)[OF assms schema_keys(9) HOL.refl]
    by (auto split: if_splits)
  have "joi_value J (joi_string any_text (if env ''DB_TYPE'' = Some ''mongodb'' then Required else Optional)) (env ''DB_URI'') =
      Inr (cfg ''DB_URI'')" by (rule validated[OF assms schema_keys(3)])
  then show "truthy (cfg_get cfg ''DB_URI'') \<longleftrightarrow> env ''DB_URI'' \<noteq> None"
    by (cases "env ''DB_URI''"; cases "cfg ''DB_URI''") (auto simp: joi_value_def joi_string_def cfg_get_def split: if_splits)
qed

section \<open>Property\<close>

lemma valid_given:
  assumes "validate_env J env = Inr cfg"
  shows "k \<in> {''JWT_SECRET'', ''REDIS_HOST'', ''SESSION_COOKIE_NAME'', ''MQTT_USERNAME'', ''MQTT_PASSWORD'',
      ''MQTT_BROKER_URL'', ''BASE_TOPIC''} \<Longrightarrow> cfg k \<noteq> None \<and> text_config cfg k \<notin> {None, Some []}"
    "k \<in> {''REDIS_PORT'', ''REDIS_DB'', ''REDIS_TTL'', ''MAX_RECONNECTION_ATTEMPTS''} \<Longrightarrow> cfg k \<noteq> None"
proof -
  assume "k \<in> {''JWT_SECRET'', ''REDIS_HOST'', ''SESSION_COOKIE_NAME'', ''MQTT_USERNAME'', ''MQTT_PASSWORD'',
      ''MQTT_BROKER_URL'', ''BASE_TOPIC''}"
  from valid_texts[OF assms this] show "cfg k \<noteq> None \<and> text_config cfg k \<notin> {None, Some []}"
    by (elim exE conjE) (simp add: text_config_def)
next
  assume "k \<in> {''REDIS_PORT'', ''REDIS_DB'', ''REDIS_TTL'', ''MAX_RECONNECTION_ATTEMPTS''}"
  from valid_numbers[OF assms this] show "cfg k \<noteq> None" by (elim exE) simp
qed

text \<open>Everything before the hooks.\<close>

lemma configured:
  assumes v: "validate_env J env = Inr cfg"
  shows "(\<exists>x. jwtModuleOptions cfg = Inr x)" "(\<exists>x. typeOrmModuleConfig cfg = Inr x) \<longleftrightarrow> env ''DB_URI'' \<noteq> None"
    "(\<exists>vs. construct_all cfg = Inr vs) \<longleftrightarrow> env ''SESSION_TIMEOUT'' \<noteq> None \<and> env ''SESSION_REFRESH_INTERVAL'' \<noteq> None"
    "\<exists>l p. bootstrap cfg = Inr l \<and> ls_prefix l = JStr p \<and> p \<noteq> [] \<and> cfg ''PORT'' = Some (ls_port l)"
proof -
  from valid_texts[OF v, of "''JWT_SECRET''"] valid_defaults(1)[OF v]
  show "\<exists>x. jwtModuleOptions cfg = Inr x" by (auto simp: jwtModuleOptions_def cfg_get_def)
  show "(\<exists>x. typeOrmModuleConfig cfg = Inr x) \<longleftrightarrow> env ''DB_URI'' \<noteq> None"
    using valid_optional(3)[OF v] by (simp add: typeOrmModuleConfig_def Let_def)
  note given = valid_given[OF v]
  show "(\<exists>vs. construct_all cfg = Inr vs) \<longleftrightarrow>
      env ''SESSION_TIMEOUT'' \<noteq> None \<and> env ''SESSION_REFRESH_INTERVAL'' \<noteq> None"
    unfolding construct_all_def cfg_all_ok redis_client_keys_def SessionService_keys_def CookieService_keys_def
      SessionAuthGuard_keys_def DeviceService_keys_def MqttClientService_keys_def
    using valid_optional(1,2)[OF v] given(1)[of "''REDIS_HOST''"] given(1)[of "''SESSION_COOKIE_NAME''"]
      given(2)[of "''REDIS_PORT''"] given(2)[of "''REDIS_DB''"] given(2)[of "''REDIS_TTL''"]
      given(2)[of "''MAX_RECONNECTION_ATTEMPTS''"] by (simp del: not_None_eq)
  show "\<exists>l p. bootstrap cfg = Inr l \<and> ls_prefix l = JStr p \<and> p \<noteq> [] \<and> cfg ''PORT'' = Some (ls_port l)"
    using valid_defaults(2,3)[OF v] by (auto simp: bootstrap_def cfg_getOrThrow_def js_or_def)
qed

lemma open_port_ok: "open_port W p s = (Inr (), s) \<and> valid_port p \<and> (\<exists>n. p = JNum n \<and> port_free W n) \<or>
    (\<exists>e. open_port W p s = (Inl e, s)) \<and> \<not> (valid_port p \<and> (\<exists>n. p = JNum n \<and> port_free W n))"
  by (cases p) (auto simp: open_port_def throw_run ok_run)

text \<open>The hook opens a connection exactly if the library takes the URL with the options of the service.\<close>

lemma init_hook:
  assumes cfg: "config F ''MQTT_BROKER_URL'' = Some url" "config F ''MQTT_USERNAME'' = Some u"
    "config F ''MQTT_PASSWORD'' = Some p"
  shows "\<exists>opts. fst (default_options F s) = Inr opts \<and>
    (case ml_connect (mqtt_lib F) url opts of
       Inl e \<Rightarrow> \<exists>m s'. mqtt_onModuleInit F s = (Inl m, s')
     | Inr c \<Rightarrow> \<exists>s' c'. mqtt_onModuleInit F s = (Inr (), s') \<and> messageRouter s' = Some initializeMessageRouter \<and>
         mqtt s' = Some (length (clients s)) \<and> ad_client (clients s' ! length (clients s)) = Some c')"
proof -
  let ?s = "s\<lparr>messageRouter := Some initializeMessageRouter\<rparr>"
  obtain opts where opts: "default_options F s = (Inr opts, s\<lparr>clock_reads := Suc (clock_reads s)\<rparr>)"
    "default_options F ?s = (Inr opts, ?s\<lparr>clock_reads := Suc (clock_reads s)\<rparr>)"
    using cfg(2,3) by (simp add: default_options_def act_simps)
  show ?thesis
    using opts cfg(1)
    by (cases "ml_connect (mqtt_lib F) url opts")
      (simp_all add: mqtt_onModuleInit_def initConnection_def act_simps on_mqtt_def adapter_connect_def Let_def)
qed


definition demo_joi :: joi_checks where
  "demo_joi = \<lparr>is_uri = (\<lambda>_. True), is_email_text = (\<lambda>_. True), 
     to_number = map_of [(''0'', 0), (''10'', 10), (''25'', 25), (''60'', 60), (''300'', 300), (''6379'', 6379), (''86400'', 86400)]\<rparr>"

definition demo_environment :: "string \<rightharpoonup> string" where
  "demo_environment = map_of [(''JWT_SECRET'', ''0123456789abcdef''), (''DB_TYPE'', ''mongodb''), (''DB_NAME'', ''iot''),
     (''DB_URI'', ''mongodb://db''), (''SMTP_HOST'', ''mail''), (''SMTP_PORT'', ''25''), (''SMTP_USER'', ''u''),
     (''SMTP_PASS'', ''p''), (''EMAIL_FROM'', ''a@b''), (''MQTT_USERNAME'', ''panel''), (''MQTT_PASSWORD'', ''secret''),
     (''MQTT_BROKER_URL'', ''mqtt://broker''), (''BASE_TOPIC'', ''iot''), (''MAX_RECONNECTION_ATTEMPTS'', ''10''),
     (''REDIS_HOST'', ''redis''), (''REDIS_PORT'', ''6379''), (''REDIS_PASSWORD'', ''r''), (''REDIS_DB'', ''0''),
     (''REDIS_TTL'', ''60''), (''SESSION_COOKIE_NAME'', ''sid'')]"

definition demo_complete :: "string \<rightharpoonup> string" where
  "demo_complete = demo_environment(''SESSION_TIMEOUT'' \<mapsto> ''86400'', ''SESSION_REFRESH_INTERVAL'' \<mapsto> ''300'')"

lemma demo_environment_valid:
  "\<exists>cfg. validate_env demo_joi demo_environment = Inr cfg" "\<exists>cfg. validate_env demo_joi demo_complete = Inr cfg"
  by (simp_all add: validate_env_def Let_def configValidationSchema_def demo_environment_def demo_complete_def
      joi_value_def joi_string_def joi_number_def demo_joi_def one_of_def min_length_def)

definition demo_outside :: outside where
  "demo_outside = \<lparr>database_connects = True, port_free = (\<lambda>_. True)\<rparr>"

definition demo_start :: "(string \<rightharpoonup> string) \<Rightarrow> exn + (listening \<times> (string \<rightharpoonup> jsval))" where
  "demo_start env = fst (startup demo_joi env demo_outside demo_mqtt_env demo_mqtt_state)"

lemma demo_keys:
  assumes v: "validate_env demo_joi env = Inr cfg" and env: "env ''PORT'' = None" "env ''MQTT_BROKER_URL'' = Some url"
  shows "cfg ''PORT'' = Some (JNum 3000)" "cfg ''MQTT_BROKER_URL'' = Some (JStr url)"
    "\<exists>opts. fst (default_options (demo_mqtt_env\<lparr>config := text_config cfg\<rparr>) demo_mqtt_state) = Inr opts"
proof -
  show "cfg ''PORT'' = Some (JNum 3000)"
    using validated[OF v schema_keys(13)] env(1) by (simp add: joi_value_def joi_number_def)
  show "cfg ''MQTT_BROKER_URL'' = Some (JStr url)"
    using validated[OF v schema_keys(16)] env(2) by (simp add: joi_value_def joi_string_def split: if_splits)
  from valid_given(1)[OF v, of "''MQTT_USERNAME''"] valid_given(1)[OF v, of "''MQTT_PASSWORD''"]
  show "\<exists>opts. fst (default_options (demo_mqtt_env\<lparr>config := text_config cfg\<rparr>) demo_mqtt_state) = Inr opts"
    by (auto simp: default_options_def act_simps)
qed


end
