(* ===== verification/TopicTemplates.thy ===== *)
theory TopicTemplates
  imports Json
begin

text \<open>
  \<open>config/topic-builder.ts\<close> and \<open>topic/enum/topics-const.ts\<close>: names of topics by template. No service of
  this commit uses them; \<open>topic/topic.service.ts\<close> builds its names itself.
\<close>

section \<open>Templates and names\<close>

definition TOPICS :: "(string \<times> string) list" where
  "TOPICS =
     [(''DISCOVER_BROADCAST'', ''{broadcastTopic}/discover''), (''DIAGNOSE_BROADCAST'', ''{broadcastTopic}/diagnose''),
      (''DISCOVER_UNICAST'', ''{topicPrefix}/{deviceId}/discover''), (''DIAGNOSE_UNICAST'', ''{topicPrefix}/{deviceId}/diagnose''),
      (''FIRMWARE_UPGRADE'', ''{topicPrefix}/{deviceId}/firmware/upgrade''), (''HEARTBEAT'', ''{topicPrefix}/{deviceId}/heartbeat''),
      (''REBOOT'', ''{topicPrefix}/{deviceId}/reboot''), (''SENSOR_CONFIG'', ''{topicPrefix}/{deviceId}/config''),
      (''SENSOR_ASSIGN'', ''{topicPrefix}/{deviceId}/assign''), (''SENSOR_TELEMETRY'', ''{topicPrefix}/{deviceId}/telemetry''),
      (''SENSOR_METRICs'', ''{topicPrefix}/{deviceId}/metrics'')]"

definition buildTopic_broadcast :: "string \<Rightarrow> string \<rightharpoonup> string" where
  "buildTopic_broadcast broadcastTopic = map_of
     [(''discoverBroadcast'', broadcastTopic @ ''/discover''), (''diagBroadcast'', broadcastTopic @ ''/diagnose'')]"

definition buildTopic_device :: "string \<Rightarrow> string \<Rightarrow> string \<rightharpoonup> string" where
  "buildTopic_device topicPrefix deviceId =
     (let base = topicPrefix @ ''/'' @ deviceId in map_of
       [(''discoverUnicast'', base @ ''/discover''), (''diagUnicast'', base @ ''/diagnose''),
        (''firmwareUpgrade'', base @ ''/firmware/upgrade''), (''heartbeat'', base @ ''/heartbeat''),
        (''reboot'', base @ ''/reboot''), (''config'', base @ ''/config''), (''assign'', base @ ''/assign''),
        (''telemetry'', base @ ''/telemetry''), (''metrics'', base @ ''/metrics'')])"

section \<open>Matching\<close>

text \<open>
  A regular expression of characters that stand for themselves and of \<open>([^/]+)\<close>. A pattern with another
  character that has a meaning in a regular expression leaves the model; a brace has none where no
  number follows it.
\<close>

datatype piece = Literal char | Segment

fun replace_first :: "string \<Rightarrow> piece list \<Rightarrow> piece list" where
  "replace_first w [] = []"
| "replace_first w (p # ps) =
     (if take (length w) (p # ps) = map Literal w then Segment # drop (length w) (p # ps)
      else p # replace_first w ps)"

definition plain_char :: "char \<Rightarrow> bool" where
  "plain_char c \<longleftrightarrow> c \<notin> set ''.*+?^$()[]|'' \<and> c \<noteq> CHR 0x5C \<and> \<not> is_digit c"

definition compile_pattern :: "string \<Rightarrow> piece list option" where
  "compile_pattern pattern =
     (if list_all plain_char pattern
      then Some (replace_first ''{type}'' (replace_first ''{clientId}'' (replace_first ''{deviceId}'' (map Literal pattern))))
      else None)"

fun piece_match :: "piece list \<Rightarrow> string \<Rightarrow> bool" where
  "piece_match [] t = (t = [])"
| "piece_match (Literal c # ps) t = (case t of [] \<Rightarrow> False | d # ds \<Rightarrow> c = d \<and> piece_match ps ds)"
| "piece_match (Segment # ps) [] = False"
| "piece_match (Segment # ps) (d # ds) = (d \<noteq> CHR ''/'' \<and> (piece_match ps ds \<or> piece_match (Segment # ps) ds))"

definition matchesTopic :: "string \<Rightarrow> string \<Rightarrow> bool option" where
  "matchesTopic pattern tpc = map_option (\<lambda>ps. piece_match ps tpc) (compile_pattern pattern)"

section \<open>Facts\<close>

lemma match_literals: "piece_match (map Literal w @ ps) t \<longleftrightarrow> (\<exists>r. t = w @ r \<and> piece_match ps r)"
  by (induction w arbitrary: t) (auto split: list.splits)

lemma match_segment:
  "piece_match (Segment # ps) t \<longleftrightarrow> (\<exists>w r. t = w @ r \<and> w \<noteq> [] \<and> CHR ''/'' \<notin> set w \<and> piece_match ps r)"
proof (induction t)
  case (Cons d ds)
  show ?case
  proof
    assume "piece_match (Segment # ps) (d # ds)"
    then have d: "d \<noteq> CHR ''/''" and "piece_match ps ds \<or> piece_match (Segment # ps) ds" by auto
    then consider "piece_match ps ds" | w r where "ds = w @ r" "CHR ''/'' \<notin> set w" "piece_match ps r"
      using Cons.IH by blast
    then show "\<exists>w r. d # ds = w @ r \<and> w \<noteq> [] \<and> CHR ''/'' \<notin> set w \<and> piece_match ps r"
    proof cases
      case 1
      with d show ?thesis by (intro exI[of _ "[d]"] exI[of _ ds]) simp
    next
      case 2
      with d show ?thesis by (intro exI[of _ "d # w"] exI[of _ r]) simp
    qed
  next
    assume "\<exists>w r. d # ds = w @ r \<and> w \<noteq> [] \<and> CHR ''/'' \<notin> set w \<and> piece_match ps r"
    then obtain w r where w: "d # ds = w @ r" "w \<noteq> []" "CHR ''/'' \<notin> set w" "piece_match ps r" by blast
    then obtain v where v: "w = d # v" "ds = v @ r" by (auto simp: Cons_eq_append_conv)
    with w Cons.IH show "piece_match (Segment # ps) (d # ds)" by (cases "v = []") auto
  qed
qed simp

text \<open>
  The prefix of a template is not replaced, so the templates recognise the name of a device topic only
  when its prefix is the word \<open>{topicPrefix}\<close> itself.
\<close>

lemma heartbeat_template:
  "matchesTopic ''{topicPrefix}/{deviceId}/heartbeat'' t = Some True \<longleftrightarrow>
     (\<exists>d. d \<noteq> [] \<and> CHR ''/'' \<notin> set d \<and> t = ''{topicPrefix}/'' @ d @ ''/heartbeat'')"
proof -
  have c: "compile_pattern ''{topicPrefix}/{deviceId}/heartbeat'' =
      Some (map Literal ''{topicPrefix}/'' @ Segment # map Literal ''/heartbeat'' @ [])"
    by code_simp
  show ?thesis
    unfolding matchesTopic_def c option.map match_literals match_segment by auto
qed

end
