(* ===== verification/Spec2Isabelle.thy ===== *)
theory Spec2Isabelle
  imports ConnectionTest SubnetMask DeviceProperties FilterContract ServerRuns ServerDiscovery TokenContract RedisPubSub SensorValues
    LogHandler BodyTypes MessageConformance ConfigSchema Startup TopicTemplates
begin

text \<open>
  Verification development of the IoT management panel backend, a NestJS server (\<open>src/src\<close>) through
  which people with roles manage sensors that talk MQTT.

  \<^bold>\<open>The program and the theories.\<close> A request of a browser passes the guards and reaches a controller;
  the controllers call services; the services keep users, topics, devices and messages in MongoDB,
  sessions and pending requests in Redis, and talk to devices through a broker. A message of a device
  comes back through the MQTT client, is routed by the end of its topic to a typed event, validated,
  matched with a pending request, and recorded.

    \<^item> \<open>Prelude\<close>, \<open>JsValues\<close>, \<open>Json\<close>, \<open>JsonRoundtrip\<close>, \<open>Platform\<close>: asynchronous methods as functions from a
      state to a thrown exception or a value, and the new state; JavaScript values of type \<open>any\<close>,
      strings, \<open>JSON\<close>; the clock, UUIDs, configuration and TypeORM repositories as parameters.
    \<^item> \<open>Enums\<close>, \<open>Errors\<close>: \<open>common/errors\<close>, \<open>common/enum\<close>, \<open>config/enum\<close>, \<open>config/types\<close>.
    \<^item> \<open>Redis\<close>, \<open>Sessions\<close>: \<open>redis/redis.service.ts\<close>, \<open>session/session.service.ts\<close>; the theories
      \<open>SessionInvariant\<close>, \<open>SessionInvalidation\<close> and \<open>SessionContract\<close> show that live sessions are tracked,
      that invalidation ends and leaves no session, and that sessions survive the trip through JSON.
    \<^item> \<open>Users\<close>, \<open>Encrypt\<close>, \<open>Auth\<close>, \<open>Guards\<close> with \<open>UserContract\<close>, \<open>AuthContract\<close>, \<open>GuardContract\<close>:
      \<open>users/users.service.ts\<close>, \<open>encrypt/encrypt.service.ts\<close>, \<open>auth/auth.service.ts\<close>,
      \<open>auth/cookie.service.ts\<close>, the guards of \<open>common/guard\<close> and the session middleware; accounts, login,
      logout, change of password, and who passes a guarded route.
    \<^item> \<open>Topics\<close>, \<open>TopicContract\<close>: \<open>topic/topic.service.ts\<close>; the registry refines a set of names, and names
      identify device and use case.
    \<^item> \<open>MqttRouter\<close>, \<open>MqttAdapter\<close>, \<open>MqttClient\<close>, \<open>MqttContract\<close>, \<open>ConnectionTest\<close>: \<open>mqtt-client/\<close>; routing,
      subscription, publication, reconnection, the connection test as a state machine of timer and client
      events.
    \<^item> \<open>Devices\<close>, \<open>Validation\<close>, \<open>SubnetMask\<close>, \<open>Responses\<close>, \<open>Listener\<close>: \<open>device/device.service.ts\<close>, the
      decorators and response DTOs as rule lists, \<open>responser/\<close>. \<open>DeviceInvariant\<close>, \<open>DeviceMachine\<close>,
      \<open>PendingRequests\<close>, \<open>DeviceContract\<close>, \<open>DeviceLife\<close> and \<open>DeviceProperties\<close> give the state machine of
      requests and messages, its invariant, and the life of a device from discovery to deletion.
    \<^item> \<open>Gateway\<close>, \<open>GatewayMessages\<close>, \<open>GatewayContract\<close>, \<open>GatewayProperties\<close>: \<open>gateway/gateway.service.ts\<close>.

    \<^item> \<open>RequestDtos\<close>, \<open>BodyTypes\<close>, \<open>AccountControllers\<close>, \<open>DeviceControllers\<close>, \<open>ExceptionFilter\<close>,
      \<open>FilterContract\<close>, \<open>Server\<close>: the bodies of requests and the validation pipe, the controllers, the
      exception filter, and \<open>serve\<close>, one HTTP request from the choice of its route to the response.
      \<open>ServerContract\<close>, \<open>ServerRoutes\<close>, \<open>ServerProperties\<close>, \<open>ServerSessions\<close> and \<open>ServerDevices\<close> state what a
      client sees: who is admitted, which routes are reached, that no password leaves the server, what a
      login and a search for devices do end to end.
    \<^item> \<open>AccountInvariant\<close>, \<open>PanelInvariant\<close>, \<open>ServerInvariant\<close>: the server as one state machine of requests,
      messages, sockets, expiries and restarts, and the invariant of its reachable states, handler by handler.
      \<open>ServerRuns\<close>: runs of that machine; a session that ended never opens a route again, and every session
      goes back to a request with the password of its account. \<open>ServerDiscovery\<close>: a search over HTTP, the
      answer of the device over the broker, and the list of devices that then contains it.
    \<^item> \<open>MessageDtos\<close>, \<open>MessageConformance\<close>: the classes of messages to devices and of configurations, and
      that everything a request publishes is valid under its class. \<open>ConfigSchema\<close>: the columns of
      \<open>device/repository/sensor-config.entity.ts\<close> against the rules of the requests that set them.
    \<^item> \<open>Startup\<close>: \<open>config/\<close>, \<open>redis/redis.module.ts\<close>, \<open>main.ts\<close> and the hook that connects to the broker;
      when the server starts, and that the services then find the keys their environments assume.
    \<^item> \<open>Tokens\<close>, \<open>TokenContract\<close>: \<open>auth/token.service.ts\<close> and \<open>auth/middleware/token.middleware.ts\<close>.
      \<open>RedisPubSub\<close>: the channels of \<open>redis/redis.service.ts\<close>. \<open>SensorValues\<close>: \<open>device/sensors\<close>,
      \<open>device/validation.service.ts\<close>, units. \<open>LogHandler\<close>: \<open>log-handler/\<close> and the exception interceptor.
      \<open>TopicTemplates\<close>: \<open>config/topic-builder.ts\<close>.

  \<^bold>\<open>States and environments.\<close> The state of a service is a record that extends the state of the service
  it calls, and so is the record of its parameters; a lemma about a service holds in every extension.
  The accounts with their sessions and the devices with the broker are two such chains; the server holds
  one of each, and they share the clock, the UUIDs and the cache. Interfaces are locales, each interpreted
  on the model. Every reachability predicate is an inductive relation over all operations of its component.

  \<^bold>\<open>Rejections.\<close> An awaited call that rejects is an exception of its caller. A promise nobody awaits whose
  rejection is handled is \<open>suppress\<close>: what \<open>.catch\<close> takes, and what the event bus logs. One whose rejection
  nobody handles is \<open>fire\<close>: no handler of unhandled rejections is installed, so Node ends the process,
  and the flag \<open>process_ended\<close> of the state is set. So end the listeners of \<open>connect\<close> and \<open>message\<close>, an
  unawaited publication without a connection, and a rejected start. The machines of the components and of the
  server make no further step then, but for expiries and a restart, which draws a new salt and clears what
  the services hold in memory. Within the step that ended the process the rest of the handler is
  still run, as work that was already under way: the states are those the database may be left in, and
  a response computed in such a step may not reach its client.

  \<^bold>\<open>Parameters.\<close> MongoDB, Redis, the MQTT client, bcrypt, JWT signing, Ajv, class-validator's checks of
  dates, addresses and URLs, joi's conversions and class-transformer are arguments. What the proofs use of
  them are the named hypotheses \<open>repo_ok\<close>, \<open>updates_ok\<close>, \<open>redis_ok\<close>, \<open>bus_ok\<close>, \<open>mqtt_lib_ok\<close>, \<open>ajv_ok\<close>, \<open>expose_ok\<close>,
  \<open>pipe_ok\<close>, \<open>tokens_env_ok\<close>, \<open>uuids_distinct\<close> and the like, which state documented behaviour; in-memory
  instances (\<open>mem_repo\<close>, \<open>mem_redis\<close>, \<open>mem_mqtt\<close>, \<open>set_bus\<close> and the \<open>demo\<close> environments) show that they
  can hold, and every witness runs on these.

  \<^bold>\<open>Loops.\<close> The cursor loop over Redis keys is a partial function whose termination is a theorem under
  the guarantees of \<open>SCAN\<close>; the JSON parser takes the length of the text as fuel, and the round trip
  shows that it is enough; all other recursion is structural.

  \<^bold>\<open>Abstractions.\<close> A handler is atomic: interleavings are sequences of handlers. Numbers are exact
  rationals. Characters are code units below 256. Mongo query documents are equality tests. The
  columns the database fills itself (\<open>_id\<close>, \<open>createdAt\<close>, \<open>updatedAt\<close>) are left out. Device ids with a slash
  are excluded where topic names must identify devices (\<open>message_id_ok\<close>). The roles of an account are role
  names: an update whose list of roles holds anything else, which the pipe lets through, leaves the model
  (\<open>update_body\<close>). The log lines of the services are not part of a
  state; the log handler is modelled by itself. A request whose body leaves the model, or that does not
  end, has no response (\<open>None\<close>).

  \<^bold>\<open>Not modelled.\<close> \<open>auth/auth.jwt.service.ts\<close> and \<open>auth/auth.jwt.controller.ts\<close>, which are commented out;
  modules, empty controllers, interfaces and index files, which hold no code of their own; classes and
  decorators that only describe the API for Swagger; CORS, helmet, the body parser and the socket server,
  which are the framework. Of the entity \<open>SensorConfig\<close> only the columns are modelled: what the services
  store in its place is the body of the request.
\<close>

end
